(* ===== verification/Prelude.thy ===== *)
theory Prelude
  imports Main "HOL-Library.Word" "HOL-Library.Multiset"
begin

text \<open>
  Shared vocabulary of the development: the machine integers of the program, the
  \<open>Vec\<close>, \<open>VecDeque\<close>, \<open>HashMap\<close> and \<open>HashSet\<close> operations the reducer uses, and
  the lemmas about them that the component theories share. The collection
  \<open>reducer_simps\<close> gathers the definitions that unfold to first order facts about
  records, so that a component proof is \<open>simp add: reducer_simps\<close> plus its own
  handlers.
\<close>

named_theorems reducer_simps

type_synonym u32 = "32 word"
type_synonym u64 = "64 word"

subsection \<open>Machine integers\<close>

text \<open>\<open>saturating_add(1)\<close>, \<open>wrapping_add(1)\<close> and \<open>checked_add(1)\<close> of an unsigned integer.\<close>

definition sat_succ :: "'a::len word \<Rightarrow> 'a word" where
  "sat_succ x = (if x = -1 then x else x + 1)"

definition wrapping_succ :: "'a::len word \<Rightarrow> 'a word" where
  "wrapping_succ x = x + 1"

definition checked_succ :: "'a::len word \<Rightarrow> 'a word option" where
  "checked_succ x = (if x = -1 then None else Some (x + 1))"

lemma unat_minus_one_word: "unat (-1 :: 'a::len word) = 2 ^ LENGTH('a) - 1"
  by (simp add: unsigned_minus_1_eq_mask mask_eq_exp_minus_1)

lemma unat_plus_one: "x \<noteq> -1 \<Longrightarrow> unat (x + 1) = Suc (unat x)"
  for x :: "'a::len word"
  by (metis add.commute add_eq_0_iff unatSuc)

lemma unat_sat_succ: "unat (sat_succ x) = min (Suc (unat x)) (2 ^ LENGTH('a) - 1)"
  for x :: "'a::len word"
proof (cases "x = -1")
  case True
  then show ?thesis by (simp add: sat_succ_def unat_minus_one_word)
next
  case False
  have "unat (x + 1) < 2 ^ LENGTH('a)" by (rule unsigned_less)
  with False show ?thesis by (simp add: sat_succ_def unat_plus_one)
qed

lemma sat_succ_eq_iff [simp]: "sat_succ x = x \<longleftrightarrow> x = -1"
  by (simp add: sat_succ_def)

lemma sat_succ_max [simp]: "sat_succ (-1) = -1"
  by (simp add: sat_succ_def)

lemma sat_succ_mono: "unat x \<le> unat (sat_succ x)"
  for x :: "'a::len word"
proof -
  have "unat x < 2 ^ LENGTH('a)" by (rule unsigned_less)
  then have "unat x \<le> 2 ^ LENGTH('a) - 1" by linarith
  then show ?thesis by (simp add: unat_sat_succ)
qed

lemma unat_sat_succ_less: "x \<noteq> -1 \<Longrightarrow> unat x < unat (sat_succ x)"
  by (simp add: sat_succ_def unat_plus_one)

lemma checked_succ_Some: "checked_succ x = Some y \<Longrightarrow> unat y = Suc (unat x)"
  by (auto simp: checked_succ_def unat_plus_one split: if_splits)

subsection \<open>Vectors\<close>

text \<open>
  \<open>Vec::truncate\<close> is \<^const>\<open>take\<close>. \<open>iter_mut().find(p)\<close> followed by an assignment
  through the reference updates the first match only.
\<close>

fun update_first :: "('a \<Rightarrow> bool) \<Rightarrow> ('a \<Rightarrow> 'a) \<Rightarrow> 'a list \<Rightarrow> 'a list" where
  "update_first p f [] = []"
| "update_first p f (x # xs) = (if p x then f x # xs else x # update_first p f xs)"

lemma update_first_none: "\<not> list_ex p xs \<Longrightarrow> update_first p f xs = xs"
  by (induction xs) auto

lemma length_update_first [simp]: "length (update_first p f xs) = length xs"
  by (induction xs) auto

lemma map_update_first: "(\<And>x. g (f x) = g x) \<Longrightarrow> map g (update_first p f xs) = map g xs"
  by (induction xs) auto

lemma map_update_first_on:
  "(\<And>x. p x \<Longrightarrow> g (f x) = g x) \<Longrightarrow> map g (update_first p f xs) = map g xs"
  by (induction xs) auto

lemma set_update_first: "set (update_first p f xs) \<subseteq> set xs \<union> f ` {x \<in> set xs. p x}"
  by (induction xs) auto

lemma update_first_elem:
  "x \<in> set (update_first p f xs) \<Longrightarrow> x \<in> set xs \<or> (\<exists>y \<in> set xs. p y \<and> x = f y)"
  using set_update_first [of p f xs] by auto

text \<open>\<open>iter().position(p)\<close> and \<open>remove(index)\<close>.\<close>

fun position :: "('a \<Rightarrow> bool) \<Rightarrow> 'a list \<Rightarrow> nat option" where
  "position p [] = None"
| "position p (x # xs) = (if p x then Some 0 else map_option Suc (position p xs))"

definition remove_at :: "nat \<Rightarrow> 'a list \<Rightarrow> 'a list" where
  "remove_at i xs = take i xs @ drop (Suc i) xs"

lemma position_None: "position p xs = None \<longleftrightarrow> \<not> list_ex p xs"
  by (induction xs) auto

lemma position_Some:
  "position p xs = Some i \<Longrightarrow> i < length xs \<and> p (xs ! i) \<and> (\<forall>j < i. \<not> p (xs ! j))"
proof (induction xs arbitrary: i)
  case Nil
  then show ?case by simp
next
  case (Cons x xs)
  then show ?case
    by (auto simp: less_Suc_eq_0_disj split: if_splits)
qed

lemma position_SomeI:
  "i < length xs \<Longrightarrow> p (xs ! i) \<Longrightarrow> (\<And>j. j < i \<Longrightarrow> \<not> p (xs ! j)) \<Longrightarrow> position p xs = Some i"
proof (induction xs arbitrary: i)
  case Nil
  then show ?case by simp
next
  case (Cons x xs)
  show ?case
  proof (cases i)
    case 0
    with Cons.prems show ?thesis by simp
  next
    case (Suc k)
    have hd: "\<not> p x" using Cons.prems(3) [of 0] Suc by simp
    have tl: "\<not> p (xs ! j)" if "j < k" for j
      using Cons.prems(3) [of "Suc j"] Suc that by simp
    have "position p xs = Some k"
      using Cons.prems(1,2) Suc tl by (intro Cons.IH) simp_all
    with hd show ?thesis using Suc by simp
  qed
qed

lemma position_append:
  "position p (xs @ ys) =
     (case position p xs of Some i \<Rightarrow> Some i
      | None \<Rightarrow> map_option (\<lambda>i. length xs + i) (position p ys))"
  by (induction xs) (cases "position p ys"; auto split: option.split)+

lemma set_remove_at: "set (remove_at i xs) \<subseteq> set xs"
  by (auto simp: remove_at_def dest: in_set_takeD in_set_dropD)

lemma in_set_remove_atD: "x \<in> set (remove_at i xs) \<Longrightarrow> x \<in> set xs"
  by (rule subsetD [OF set_remove_at])

lemma length_remove_at: "i < length xs \<Longrightarrow> Suc (length (remove_at i xs)) = length xs"
  by (simp add: remove_at_def)

lemma length_remove_at_if: "length (remove_at i xs) = length xs - (if i < length xs then 1 else 0)"
  by (auto simp: remove_at_def)

lemma length_filter_bound: "length xs \<le> n \<Longrightarrow> length (filter p xs) \<le> n"
  by (rule order_trans [OF length_filter_le])

lemma map_remove_at: "map f (remove_at i xs) = remove_at i (map f xs)"
  by (simp add: remove_at_def take_map drop_map)

lemma distinct_remove_at: "distinct xs \<Longrightarrow> distinct (remove_at i xs)"
proof -
  assume d: "distinct xs"
  have "set (take i xs) \<inter> set (drop (Suc i) xs) = {}"
    by (rule set_take_disj_set_drop_if_distinct [OF d]) simp
  with d show ?thesis by (simp add: remove_at_def)
qed

lemma mset_remove_at:
  "i < length xs \<Longrightarrow> mset xs = add_mset (xs ! i) (mset (remove_at i xs))"
  unfolding remove_at_def
  by (metis id_take_nth_drop mset.simps(2) mset_append union_mset_add_mset_right)

text \<open>
  \<open>retain\<close> with a \<open>HashSet\<close> whose \<open>insert\<close> must return true keeps the first element of
  every key class.
\<close>

fun retain_first :: "('a \<Rightarrow> 'k) \<Rightarrow> 'k set \<Rightarrow> 'a list \<Rightarrow> 'a list" where
  "retain_first key seen [] = []"
| "retain_first key seen (x # xs) =
     (if key x \<in> seen then retain_first key seen xs
      else x # retain_first key (insert (key x) seen) xs)"

lemma retain_first_keys:
  "distinct (map key (retain_first key seen xs))
   \<and> set (map key (retain_first key seen xs)) = key ` set xs - seen"
  by (induction xs arbitrary: seen) auto

lemma distinct_retain_first [simp]: "distinct (map key (retain_first key seen xs))"
  using retain_first_keys by blast

lemma key_set_retain_first: "key ` set (retain_first key seen xs) = key ` set xs - seen"
  using retain_first_keys [of key seen xs] by simp

lemma set_retain_first: "set (retain_first key seen xs) \<subseteq> set xs"
  by (induction xs arbitrary: seen) auto

lemma in_set_retain_firstD: "x \<in> set (retain_first key seen xs) \<Longrightarrow> x \<in> set xs"
  by (rule subsetD [OF set_retain_first])

lemma length_retain_first: "length (retain_first key seen xs) \<le> length xs"
  by (induction xs arbitrary: seen) (auto simp: le_SucI)

lemma retain_first_id:
  "distinct (map key xs) \<Longrightarrow> key ` set xs \<inter> seen = {} \<Longrightarrow> retain_first key seen xs = xs"
  by (induction xs arbitrary: seen) auto

lemma distinct_map_filter: "distinct (map f xs) \<Longrightarrow> distinct (map f (filter p xs))"
  by (induction xs) auto

lemma distinct_map_take: "distinct (map f xs) \<Longrightarrow> distinct (map f (take n xs))"
  by (metis distinct_take take_map)

lemma distinct_map_drop: "distinct (map f xs) \<Longrightarrow> distinct (map f (drop n xs))"
  by (metis distinct_drop drop_map)

subsection \<open>Bounded queues\<close>

text \<open>
  The last \<open>n\<close> elements: what a queue that drops its oldest element at a limit holds
  after a sequence of pushes.
\<close>

definition last_n :: "nat \<Rightarrow> 'a list \<Rightarrow> 'a list" where
  "last_n n xs = drop (length xs - n) xs"

lemma length_last_n: "length (last_n n xs) = min n (length xs)"
  by (simp add: last_n_def)

lemma last_n_all: "length xs \<le> n \<Longrightarrow> last_n n xs = xs"
  by (simp add: last_n_def)

lemma set_last_n: "set (last_n n xs) \<subseteq> set xs"
  by (auto simp: last_n_def dest: in_set_dropD)

lemma last_n_append_last_n: "last_n n (last_n n xs @ ys) = last_n n (xs @ ys)"
  by (cases "length xs \<le> n") (simp_all add: last_n_def add.commute)

lemma distinct_map_last_n: "distinct (map f xs) \<Longrightarrow> distinct (map f (last_n n xs))"
  by (simp add: last_n_def distinct_map_drop)

text \<open>
  \<open>if len == cap { pop_front(); } push_back(x)\<close>, on a list.
\<close>

definition push_dropping :: "nat \<Rightarrow> 'a \<Rightarrow> 'a list \<Rightarrow> 'a list" where
  "push_dropping cap x xs = (if length xs = cap then tl xs else xs) @ [x]"

lemma push_dropping_last_n:
  "0 < cap \<Longrightarrow> length xs \<le> cap \<Longrightarrow> push_dropping cap x xs = last_n cap (xs @ [x])"
  by (cases xs) (auto simp: push_dropping_def last_n_def)

lemma length_push_dropping:
  "0 < cap \<Longrightarrow> length xs \<le> cap \<Longrightarrow> length (push_dropping cap x xs) \<le> cap"
  by (auto simp: push_dropping_def)

subsection \<open>Hash maps\<close>

text \<open>\<open>map.entry(k).or_insert(d)\<close>: the entry is created even when it is only read.\<close>

definition entry_or :: "'v \<Rightarrow> 'k \<Rightarrow> ('k \<rightharpoonup> 'v) \<Rightarrow> ('k \<rightharpoonup> 'v)" where
  "entry_or d k m = (case m k of None \<Rightarrow> m(k \<mapsto> d) | Some _ \<Rightarrow> m)"

definition get_or :: "'v \<Rightarrow> 'k \<Rightarrow> ('k \<rightharpoonup> 'v) \<Rightarrow> 'v" where
  "get_or d k m = (case m k of None \<Rightarrow> d | Some v \<Rightarrow> v)"

lemma entry_or_apply: "entry_or d k m k = Some (get_or d k m)"
  by (simp add: entry_or_def get_or_def split: option.splits)

lemma entry_or_other [simp]: "k' \<noteq> k \<Longrightarrow> entry_or d k m k' = m k'"
  by (simp add: entry_or_def split: option.splits)

lemma entry_or_update [simp]: "(entry_or d k m)(k \<mapsto> v) = m(k \<mapsto> v)"
  by (simp add: entry_or_def split: option.splits)

lemma get_or_update [simp]: "get_or d k (m(k \<mapsto> v)) = v"
  by (simp add: get_or_def)

lemma get_or_update_other [simp]: "k' \<noteq> k \<Longrightarrow> get_or d k' (m(k \<mapsto> v)) = get_or d k' m"
  by (simp add: get_or_def)

lemma get_or_entry_or [simp]: "get_or d k' (entry_or d k m) = get_or d k' m"
  by (simp add: get_or_def entry_or_def split: option.splits)

lemma entry_or_same: "m k = Some v \<Longrightarrow> entry_or d k m = m"
  by (simp add: entry_or_def)

lemma ran_update_pred:
  "(\<forall>v \<in> ran m. P v) \<Longrightarrow> P w \<Longrightarrow> (\<forall>v \<in> ran (m(k \<mapsto> w)). P v)"
  by (auto simp: ran_def)

lemma ran_entry_or: "(\<forall>v \<in> ran m. P v) \<Longrightarrow> P d \<Longrightarrow> (\<forall>v \<in> ran (entry_or d k m). P v)"
  by (auto simp: ran_def entry_or_def split: option.splits if_splits)

lemma get_or_ran: "(\<forall>v \<in> ran m. P v) \<Longrightarrow> P d \<Longrightarrow> P (get_or d k m)"
  by (auto simp: get_or_def ran_def split: option.splits)

end
