(* ===== verification/Rust_Text.thy ===== *)
theory Rust_Text
  imports Prelude
begin

text \<open>
  Rust's \<open>String\<close> and \<open>&str\<close> as their UTF-8 bytes: a HOL \<^typ>\<open>string\<close> is a list of
  8-bit characters, so \<open>len\<close> is \<^const>\<open>length\<close> and a byte index is a list index. The
  standard library functions the program uses are written over the bytes:
  \<open>chars\<close>, \<open>char_indices\<close>, \<open>is_char_boundary\<close>, \<open>get(a..b)\<close>, \<open>trim\<close>, \<open>char::is_whitespace\<close>,
  \<open>char::is_control\<close>, \<open>parse::<u32>\<close>, decimal formatting and the ASCII helpers.
\<close>

type_synonym str = string

subsection \<open>Characters of a UTF-8 string\<close>

abbreviation byte :: "char \<Rightarrow> nat" where
  "byte c \<equiv> of_char c"

definition utf8_width :: "char \<Rightarrow> nat" where
  "utf8_width c =
     (if byte c < 128 then 1 else if byte c < 224 then 2 else if byte c < 240 then 3 else 4)"

text \<open>The characters of a string, each as the bytes that encode it.\<close>

fun chars :: "str \<Rightarrow> str list" where
  "chars [] = []"
| "chars (b # bs) = (b # take (utf8_width b - 1) bs) # chars (drop (utf8_width b - 1) bs)"

text \<open>The code point of one character.\<close>

fun code_point :: "str \<Rightarrow> nat" where
  "code_point [a] = byte a"
| "code_point [a, b] = (byte a mod 32) * 64 + byte b mod 64"
| "code_point [a, b, c] = (byte a mod 16) * 4096 + (byte b mod 64) * 64 + byte c mod 64"
| "code_point [a, b, c, d] =
     (byte a mod 8) * 262144 + (byte b mod 64) * 4096 + (byte c mod 64) * 64 + byte d mod 64"
| "code_point _ = 0"

text \<open>The byte offsets at which the characters start: the indices of \<open>char_indices\<close>.\<close>

fun char_offsets :: "nat \<Rightarrow> str list \<Rightarrow> nat list" where
  "char_offsets i [] = []"
| "char_offsets i (c # cs) = i # char_offsets (i + length c) cs"

lemma chars_nonempty: "c \<in> set (chars s) \<Longrightarrow> c \<noteq> []"
  by (induction s rule: chars.induct) auto

lemma concat_chars [simp]: "concat (chars s) = s"
  by (induction s rule: chars.induct) auto

lemma chars_eq_Nil [simp]: "chars s = [] \<longleftrightarrow> s = []"
  by (cases s) auto

text \<open>
  Every character but the last has the width its first byte announces; such a sequence of
  characters is read back by \<^const>\<open>chars\<close>.
\<close>

fun whole_chars :: "str list \<Rightarrow> bool" where
  "whole_chars [] = True"
| "whole_chars [c] = (c \<noteq> [] \<and> length c \<le> utf8_width (hd c))"
| "whole_chars (c # d # cs) = (c \<noteq> [] \<and> length c = utf8_width (hd c) \<and> whole_chars (d # cs))"

lemma utf8_width_pos [simp]: "0 < utf8_width c"
  by (simp add: utf8_width_def)

lemma whole_chars_chars: "whole_chars (chars s)"
proof (induction s rule: chars.induct)
  case 1
  show ?case by simp
next
  case (2 b bs)
  show ?case
  proof (cases "chars (drop (utf8_width b - 1) bs)")
    case Nil
    then have "length bs \<le> utf8_width b - 1" by simp
    then have "Suc (length bs) \<le> utf8_width b" using utf8_width_pos [of b] by linarith
    with Nil show ?thesis by simp
  next
    case (Cons d ds)
    then have "utf8_width b - 1 < length bs"
      by (metis chars_eq_Nil drop_eq_Nil list.distinct(1) not_le)
    with 2 Cons show ?thesis using utf8_width_pos [of b] by simp
  qed
qed

lemma whole_chars_tl: "whole_chars (c # cs) \<Longrightarrow> whole_chars cs"
  by (cases cs) auto

lemma whole_chars_take: "whole_chars cs \<Longrightarrow> whole_chars (take k cs)"
proof (induction cs arbitrary: k rule: whole_chars.induct)
  case (3 c d cs)
  have "whole_chars (take n (d # cs))" if "k = Suc n" for n
    using 3 that by simp
  with 3 show ?case
    by (cases k; cases "k - 1") (auto dest: meta_spec [of _ "Suc _"])
qed (auto simp: take_Cons')

lemma whole_chars_drop: "whole_chars cs \<Longrightarrow> whole_chars (drop k cs)"
  by (induction k arbitrary: cs) (auto simp: drop_Suc intro: whole_chars_tl split: list.splits,
      metis list.collapse tl_Nil whole_chars.simps(1) whole_chars_tl)

lemma chars_concat: "whole_chars cs \<Longrightarrow> chars (concat cs) = cs"
proof (induction cs rule: whole_chars.induct)
  case (2 c)
  then show ?case by (cases c) auto
next
  case (3 c d cs)
  then obtain b bs where c: "c = b # bs" by (cases c) auto
  with "3.prems" have "Suc (length bs) = utf8_width b" by simp
  then have w: "length bs = utf8_width b - 1" by linarith
  have "chars (concat (c # d # cs)) = (b # bs) # chars (concat (d # cs))"
    using c w by simp
  with 3 c show ?case by simp
qed simp

subsection \<open>Slices at character boundaries\<close>

text \<open>\<open>str::is_char_boundary\<close>, \<open>str::get(a..b)\<close> and \<open>str::get(..b)\<close>.\<close>

definition is_char_boundary :: "str \<Rightarrow> nat \<Rightarrow> bool" where
  "is_char_boundary s i =
     (i = 0 \<or> i = length s \<or> (i < length s \<and> \<not> (128 \<le> byte (s ! i) \<and> byte (s ! i) < 192)))"

definition str_get :: "str \<Rightarrow> nat \<Rightarrow> nat \<Rightarrow> str option" where
  "str_get s a b =
     (if a \<le> b \<and> b \<le> length s \<and> is_char_boundary s a \<and> is_char_boundary s b
      then Some (take (b - a) (drop a s)) else None)"

text \<open>\<open>as_bytes().get(i)\<close>.\<close>

definition byte_at :: "str \<Rightarrow> nat \<Rightarrow> char option" where
  "byte_at s i = (if i < length s then Some (s ! i) else None)"

subsection \<open>Character classes and trimming\<close>

text \<open>The Unicode property \<open>White_Space\<close> and the category \<open>Cc\<close>.\<close>

definition is_whitespace :: "str \<Rightarrow> bool" where
  "is_whitespace c =
     (let n = code_point c
      in (9 \<le> n \<and> n \<le> 13) \<or> n = 32 \<or> n = 133 \<or> n = 160 \<or> n = 5760 \<or> (8192 \<le> n \<and> n \<le> 8202)
         \<or> n = 8232 \<or> n = 8233 \<or> n = 8239 \<or> n = 8287 \<or> n = 12288)"

definition is_control :: "str \<Rightarrow> bool" where
  "is_control c = (let n = code_point c in n < 32 \<or> (127 \<le> n \<and> n < 160))"

definition trim_chars :: "str list \<Rightarrow> str list" where
  "trim_chars cs = rev (dropWhile is_whitespace (rev (dropWhile is_whitespace cs)))"

definition trim :: "str \<Rightarrow> str" where
  "trim s = concat (trim_chars (chars s))"

lemma trim_chars_slice: "\<exists>i j. trim_chars cs = take j (drop i cs)"
proof -
  have "dropWhile is_whitespace cs = drop (length (takeWhile is_whitespace cs)) cs"
    by (rule dropWhile_eq_drop)
  moreover have "rev (dropWhile is_whitespace (rev ds))
      = take (length ds - length (takeWhile is_whitespace (rev ds))) ds" for ds
    by (simp add: dropWhile_eq_drop rev_drop)
  ultimately show ?thesis unfolding trim_chars_def by metis
qed

lemma chars_trim: "chars (trim s) = trim_chars (chars s)"
proof -
  obtain i j where "trim_chars (chars s) = take j (drop i (chars s))"
    using trim_chars_slice by blast
  then have "whole_chars (trim_chars (chars s))"
    by (simp add: whole_chars_take whole_chars_drop whole_chars_chars)
  then show ?thesis by (simp add: trim_def chars_concat)
qed

lemma dropWhile_idem: "dropWhile p (dropWhile p xs) = dropWhile p xs"
  by (induction xs) auto

lemma hd_trim_chars:
  "trim_chars cs \<noteq> [] \<Longrightarrow> \<not> is_whitespace (hd (trim_chars cs)) \<and> \<not> is_whitespace (last (trim_chars cs))"
proof -
  let ?ds = "dropWhile is_whitespace cs" and ?t = "trim_chars cs"
  assume ne: "?t \<noteq> []"
  then have ds: "?ds \<noteq> []" unfolding trim_chars_def by force
  have last: "\<not> is_whitespace (last ?t)"
    using ne hd_dropWhile [of is_whitespace "rev ?ds"] by (simp add: trim_chars_def last_rev)
  have "?ds = ?t @ rev (takeWhile is_whitespace (rev ?ds))"
    by (metis rev_append rev_rev_ident takeWhile_dropWhile_id trim_chars_def)
  then have "hd ?ds = hd ?t" using ne by (metis hd_append2)
  with ds last show ?thesis using hd_dropWhile by metis
qed

lemma trim_chars_idem: "trim_chars (trim_chars cs) = trim_chars cs"
proof (cases "trim_chars cs")
  case Nil
  then show ?thesis by (simp only:) (simp add: trim_chars_def)
next
  case (Cons c ds)
  then have ne: "trim_chars cs \<noteq> []" by simp
  have fixed: "dropWhile is_whitespace xs = xs" if "xs \<noteq> []" "\<not> is_whitespace (hd xs)" for xs
    using that by (cases xs) auto
  have "dropWhile is_whitespace (trim_chars cs) = trim_chars cs"
    using fixed [OF ne] hd_trim_chars [OF ne] by blast
  moreover have "dropWhile is_whitespace (rev (trim_chars cs)) = rev (trim_chars cs)"
    using fixed [of "rev (trim_chars cs)"] hd_trim_chars [OF ne] ne by (simp add: hd_rev)
  ultimately show ?thesis by (simp add: trim_chars_def)
qed

lemma trim_idem [simp]: "trim (trim s) = trim s"
  unfolding trim_def [of "trim s"] by (simp add: chars_trim trim_chars_idem) (simp add: trim_def)

lemma length_trim: "length (trim s) \<le> length s"
proof -
  obtain i j where eq: "trim_chars (chars s) = take j (drop i (chars s))"
    using trim_chars_slice by blast
  have "length (concat (take j xs)) \<le> length (concat xs)" for xs :: "str list"
    by (metis append_take_drop_id concat_append le_add1 length_append)
  moreover have "length (concat (drop i xs)) \<le> length (concat xs)" for xs :: "str list"
    by (metis append_take_drop_id concat_append le_add2 length_append)
  ultimately have "length (concat (take j (drop i (chars s)))) \<le> length (concat (chars s))"
    using order_trans by blast
  then show ?thesis by (simp add: trim_def eq)
qed

subsection \<open>ASCII helpers, numbers\<close>

definition is_ascii_digit :: "char \<Rightarrow> bool" where
  "is_ascii_digit c = (48 \<le> byte c \<and> byte c \<le> 57)"

definition is_ascii_alphabetic :: "char \<Rightarrow> bool" where
  "is_ascii_alphabetic c = ((65 \<le> byte c \<and> byte c \<le> 90) \<or> (97 \<le> byte c \<and> byte c \<le> 122))"

definition is_ascii_alphanumeric :: "char \<Rightarrow> bool" where
  "is_ascii_alphanumeric c = (is_ascii_alphabetic c \<or> is_ascii_digit c)"

definition to_ascii_lowercase :: "char \<Rightarrow> char" where
  "to_ascii_lowercase c = (if 65 \<le> byte c \<and> byte c \<le> 90 then char_of (byte c + 32) else c)"

definition eq_ignore_ascii_case :: "str \<Rightarrow> str \<Rightarrow> bool" where
  "eq_ignore_ascii_case s t = (map to_ascii_lowercase s = map to_ascii_lowercase t)"

text \<open>\<open>format!("{n}")\<close> of an unsigned integer.\<close>

fun dec :: "nat \<Rightarrow> str" where
  "dec n = (if n < 10 then [char_of (48 + n)] else dec (n div 10) @ [char_of (48 + n mod 10)])"

declare dec.simps [simp del]

definition digits_value :: "str \<Rightarrow> nat" where
  "digits_value s = foldl (\<lambda>n c. 10 * n + (byte c - 48)) 0 s"

lemma digits_value_snoc: "digits_value (s @ [c]) = 10 * digits_value s + (byte c - 48)"
  by (simp add: digits_value_def)

lemma digits_value_dec: "digits_value (dec n) = n"
proof (induction n rule: dec.induct)
  case (1 n)
  show ?case
  proof (cases "n < 10")
    case True
    then show ?thesis by (subst dec.simps) (simp add: digits_value_def of_char_of)
  next
    case False
    have "n mod 10 < 10" by simp
    with 1 False show ?thesis
      by (subst dec.simps) (simp add: digits_value_snoc of_char_of)
  qed
qed

lemma dec_inj: "dec m = dec n \<Longrightarrow> m = n"
  by (metis digits_value_dec)

text \<open>
  \<open>str::parse::<u32>\<close>: an optional plus sign, then at least one ASCII digit and nothing else,
  within 32 bits.
\<close>

definition parse_digits_u32 :: "str \<Rightarrow> nat option" where
  "parse_digits_u32 s =
     (if s \<noteq> [] \<and> list_all is_ascii_digit s \<and> digits_value s < 2 ^ 32
      then Some (digits_value s) else None)"

definition parse_u32 :: "str \<Rightarrow> nat option" where
  "parse_u32 s =
     (case s of [] \<Rightarrow> None
      | c # cs \<Rightarrow> if c = CHR ''+'' then parse_digits_u32 cs else parse_digits_u32 s)"

end
