(* ===== verification/Bounded_Text.thy ===== *)
theory Bounded_Text
  imports Rust_Text
begin

text \<open>
  The two text bounds of \<open>crates/codex-core/src/lib.rs\<close>, \<open>bounded_string\<close> and
  \<open>append_bounded\<close>, with their specification \<open>fit\<close>: the longest prefix made of whole
  characters that fits a byte budget. Every string the reducer stores from outside goes
  through one of them.
\<close>

subsection \<open>The code\<close>

text \<open>
  \<open>char_indices().map(index).take_while(index <= n).last().unwrap_or(0)\<close>.
\<close>

definition last_boundary :: "nat \<Rightarrow> str \<Rightarrow> nat" where
  "last_boundary n s =
     (case rev (takeWhile (\<lambda>i. i \<le> n) (char_offsets 0 (chars s))) of [] \<Rightarrow> 0 | i # _ \<Rightarrow> i)"

definition bounded_string :: "str \<Rightarrow> nat \<Rightarrow> str" where
  "bounded_string value limit =
     (if length value \<le> limit then value else take (last_boundary limit value) value)"

definition append_bounded :: "str \<Rightarrow> str \<Rightarrow> nat \<Rightarrow> str" where
  "append_bounded target delta limit =
     (if length target \<ge> limit then target
      else let remaining = limit - length target;
               boundary = last_boundary remaining delta;
               end_index = (if length delta \<le> remaining then length delta else boundary)
           in target @ take end_index delta)"

text \<open>The horizontal ellipsis (U+2026) in the program's messages.\<close>

definition ellipsis :: str where
  "ellipsis = [CHR 0xE2, CHR 0x80, CHR 0xA6]"

subsection \<open>The specification: the longest prefix of whole characters\<close>

fun fit :: "nat \<Rightarrow> str list \<Rightarrow> str list" where
  "fit n [] = []"
| "fit n (c # cs) = (if length c \<le> n then c # fit (n - length c) cs else [])"

lemma fit_length: "length (concat (fit n cs)) \<le> n"
  by (induction n cs rule: fit.induct) auto

lemma fit_all: "length (concat cs) \<le> n \<Longrightarrow> fit n cs = cs"
  by (induction n cs rule: fit.induct) auto

lemma fit_prefix: "\<exists>k \<le> length cs. fit n cs = take k cs"
proof (induction n cs rule: fit.induct)
  case (1 n)
  show ?case by simp
next
  case (2 n c cs)
  show ?case
  proof (cases "length c \<le> n")
    case True
    with 2 obtain k where "k \<le> length cs" "fit (n - length c) cs = take k cs" by blast
    with True have "Suc k \<le> length (c # cs) \<and> fit n (c # cs) = take (Suc k) (c # cs)" by simp
    then show ?thesis by blast
  next
    case False
    then have "0 \<le> length (c # cs) \<and> fit n (c # cs) = take 0 (c # cs)" by simp
    then show ?thesis by blast
  qed
qed

lemma fit_maximal:
  "length (concat (take k cs)) \<le> n \<Longrightarrow> length (concat (take k cs)) \<le> length (concat (fit n cs))"
proof (induction n cs arbitrary: k rule: fit.induct)
  case (1 n)
  then show ?case by simp
next
  case (2 n c cs)
  show ?case
  proof (cases k)
    case 0
    then show ?thesis by simp
  next
    case (Suc j)
    with "2.prems" have le: "length c + length (concat (take j cs)) \<le> n" by simp
    then have "length (concat (take j cs)) \<le> length (concat (fit (n - length c) cs))"
      using "2.IH" [of j] by simp
    with Suc le show ?thesis by simp
  qed
qed

lemma fit_zero: "[] \<notin> set cs \<Longrightarrow> fit 0 cs = []"
  by (cases cs) auto

lemma char_offsets_ge: "i \<in> set (char_offsets n cs) \<Longrightarrow> n \<le> i"
  by (induction cs arbitrary: n) fastforce+

text \<open>The last start offset within the budget is where the fitting prefix ends.\<close>

lemma last_boundary_fit_aux:
  assumes "[] \<notin> set cs" and "n < length (concat cs)"
  shows "takeWhile (\<lambda>i. i \<le> m + n) (char_offsets m cs) \<noteq> []
    \<and> last (takeWhile (\<lambda>i. i \<le> m + n) (char_offsets m cs)) = m + length (concat (fit n cs))"
  using assms
proof (induction n cs arbitrary: m rule: fit.induct)
  case (1 n)
  then show ?case by simp
next
  case (2 n c cs)
  let ?tail = "takeWhile (\<lambda>i. i \<le> m + n) (char_offsets (m + length c) cs)"
  show ?case
  proof (cases "length c \<le> n")
    case True
    with "2.prems" have "n - length c < length (concat cs)" by auto
    with True "2.prems" "2.IH" [of "m + length c"]
    have "?tail \<noteq> [] \<and> last ?tail = m + length c + length (concat (fit (n - length c) cs))"
      by simp
    with True show ?thesis by simp
  next
    case False
    then have "?tail = []"
      using char_offsets_ge [of _ "m + length c" cs] by (cases cs) auto
    with False show ?thesis by simp
  qed
qed

lemma last_boundary_fit:
  "n < length s \<Longrightarrow> last_boundary n s = length (concat (fit n (chars s)))"
proof -
  assume "n < length s"
  moreover have "[] \<notin> set (chars s)" using chars_nonempty by blast
  ultimately have tw: "takeWhile (\<lambda>i. i \<le> n) (char_offsets 0 (chars s)) \<noteq> []
      \<and> last (takeWhile (\<lambda>i. i \<le> n) (char_offsets 0 (chars s))) = length (concat (fit n (chars s)))"
    using last_boundary_fit_aux [of "chars s" n 0] by simp
  then obtain ys i where "takeWhile (\<lambda>i. i \<le> n) (char_offsets 0 (chars s)) = ys @ [i]"
    by (metis append_butlast_last_id)
  with tw show ?thesis by (simp add: last_boundary_def)
qed

lemma take_concat_fit: "take (length (concat (fit n (chars s)))) s = concat (fit n (chars s))"
proof -
  obtain k where "fit n (chars s) = take k (chars s)" using fit_prefix by blast
  then have "s = concat (fit n (chars s)) @ concat (drop k (chars s))"
    by (metis append_take_drop_id concat_append concat_chars)
  then show ?thesis by (metis append_eq_conv_conj)
qed

lemma bounded_string_fit: "bounded_string s n = concat (fit n (chars s))"
  by (simp add: bounded_string_def last_boundary_fit take_concat_fit fit_all)

lemma append_bounded_fit:
  "append_bounded t d n = t @ concat (fit (n - length t) (chars d))"
proof (cases "length t \<ge> n")
  case True
  moreover have "[] \<notin> set (chars d)" using chars_nonempty by blast
  ultimately show ?thesis by (simp add: append_bounded_def fit_zero)
next
  case False
  then show ?thesis
    by (simp add: append_bounded_def Let_def last_boundary_fit take_concat_fit fit_all)
qed

subsection \<open>Consequences the components use\<close>

lemma length_bounded_string [simp]: "length (bounded_string s n) \<le> n"
  by (simp add: bounded_string_fit fit_length)

lemma bounded_string_id: "length s \<le> n \<Longrightarrow> bounded_string s n = s"
  by (simp add: bounded_string_def)

lemma bounded_string_idem [simp]: "bounded_string (bounded_string s n) n = bounded_string s n"
  by (simp add: bounded_string_id)

lemma length_append_bounded:
  "length (append_bounded t d n) \<le> max n (length t)"
  using fit_length [of "n - length t" "chars d"] by (simp add: append_bounded_fit)

lemma append_bounded_le: "length t \<le> n \<Longrightarrow> length (append_bounded t d n) \<le> n"
  using length_append_bounded [of t d n] by simp

lemma append_bounded_prefix: "take (length t) (append_bounded t d n) = t"
  by (simp add: append_bounded_fit)

lemma append_bounded_whole: "length t + length d \<le> n \<Longrightarrow> append_bounded t d n = t @ d"
  by (simp add: append_bounded_fit fit_all)

end
