(* ===== verification/Core_Types.thy ===== *)
theory Core_Types
  imports Bounded_Text
begin

text \<open>
  The data model of \<open>crates/codex-core/src/lib.rs\<close>: the enums as datatypes with the source's
  variants (\<open>LoadStatus::Idle\<close> is \<open>load_status.Idle\<close>), the structs as records whose fields
  carry a short prefix of the struct's name, the part of \<open>AppState\<close> that the modelled handlers
  read or write, and the effects they emit. \<open>String\<close> is \<^typ>\<open>str\<close>, \<open>PathBuf\<close> is the
  path's bytes, \<open>u64\<close> and \<open>u32\<close> are words, \<open>i64\<close> fields that are only stored or compared
  are \<^typ>\<open>int\<close>, a \<open>HashMap\<close> is a partial function and \<open>Vec\<close> and \<open>VecDeque\<close> are lists.
\<close>

type_synonym path = str

text \<open>\<open>Path::is_absolute\<close> on the Linux target.\<close>

definition is_absolute :: "path \<Rightarrow> bool" where
  "is_absolute p = (case p of [] \<Rightarrow> False | c # _ \<Rightarrow> c = CHR ''/'')"

subsection \<open>Enumerations\<close>

datatype connection_status =
    Offline
  | Connecting
  | Online
  | Recovering u32 "u64 option" "str option"
  | Failed str

datatype load_status = Idle | Loading | Ready | Failed

datatype task_run_status = Idle | Running | WaitingForApproval | Completed | Interrupted | Failed

subsection \<open>Tasks, forks, search and archive\<close>

record task_summary =
  ts_id :: str
  ts_title :: str
  ts_preview :: str
  ts_cwd :: path
  ts_created_at :: int
  ts_updated_at :: int
  ts_parent_task_id :: "str option"
  ts_forked_from_id :: "str option"
  ts_status :: task_run_status

datatype pending_worktree_fork_phase =
    QueuedWorktree
  | CreatingWorktree
  | CancellingWorktree
  | StartingConversation
  | FailedCreatingWorktree
  | FailedStartingConversation

record pending_worktree_fork_rec =
  wf_request_id :: u64
  wf_source_task_id :: str
  wf_source_cwd :: path
  wf_source_title :: str
  wf_worktrees_root :: "path option"
  wf_workspace_root :: "path option"
  wf_git_root :: "path option"
  wf_phase :: pending_worktree_fork_phase
  wf_error_message :: "str option"
  wf_attempt :: u32

record pending_task_fork_rec =
  tf_request_id :: u64
  tf_selection_task_id :: "str option"
  tf_selection_generation :: u64

record task_search_result =
  sr_task :: task_summary
  sr_snippet :: str

record task_search_state =
  se_status :: load_status
  se_generation :: u64
  se_query :: str
  se_results :: "task_search_result list"
  se_next_cursor :: "str option"

record archived_tasks_state =
  ar_status :: load_status
  ar_generation :: u64
  ar_tasks :: "task_summary list"
  ar_next_cursor :: "str option"
  ar_pagination_cursors :: "str list"
  ar_pagination_pages :: nat

datatype archived_task_delete_kind = Single | Project | All

subsection \<open>Composer\<close>

datatype approvals_reviewer = User | AutoReview

record reasoning_effort_option =
  re_id :: str
  re_description :: str

record service_tier_option =
  st_id :: str
  st_name :: str
  st_description :: str

record model_upgrade_notice =
  mu_copy :: str
  mu_model_link :: "str option"

record model_option =
  mo_id :: str
  mo_display_name :: str
  mo_description :: str
  mo_upgrade_notice :: "model_upgrade_notice option"
  mo_availability_nux :: "str option"
  mo_is_default :: bool
  mo_default_effort :: str
  mo_supported_efforts :: "reasoning_effort_option list"
  mo_service_tiers :: "service_tier_option list"
  mo_default_service_tier :: "str option"

record permission_profile_option =
  pp_id :: str
  pp_description :: "str option"
  pp_allowed :: bool

record permission_requirements =
  pr_managed_allow_remote_control :: "bool option"
  pr_allowed_approval_policies :: "str list option"
  pr_allowed_approvals_reviewers :: "approvals_reviewer list option"
  pr_default_permissions :: "str option"

record permission_mode_option =
  pm_id :: str
  pm_label :: str
  pm_description :: "str option"
  pm_permissions :: str
  pm_approval_policy :: "str option"
  pm_approvals_reviewer :: "approvals_reviewer option"
  pm_allowed :: bool

datatype composer_attachment_kind = Mention | LocalImage | Skill | App | Plugin

record composer_attachment =
  ca_path :: path
  ca_name :: str
  ca_kind :: composer_attachment_kind

record composer_settings =
  cs_model :: "str option"
  cs_effort :: "str option"
  cs_service_tier :: "str option"
  cs_use_model_default_service_tier :: bool
  cs_permissions :: "str option"
  cs_approval_policy :: "str option"
  cs_approvals_reviewer :: "approvals_reviewer option"

record composer_controls_state =
  cc_models_status :: load_status
  cc_models :: "model_option list"
  cc_selected_model :: "str option"
  cc_selected_effort :: "str option"
  cc_selected_service_tier :: "str option"
  cc_permission_profiles_status :: load_status
  cc_permission_modes :: "permission_mode_option list"
  cc_selected_permission_mode :: "str option"
  cc_plan_mode :: bool
  cc_goal_mode :: bool
  cc_new_chat_defaults :: composer_settings
  cc_active_profile :: "str option"
  cc_has_managed_new_thread_settings :: bool

subsection \<open>Goals, timelines and turns\<close>

datatype thread_goal_status =
    Active | Paused | Blocked | UsageLimited | BudgetLimited | Complete

record thread_goal =
  tg_task_id :: str
  tg_objective :: str
  tg_status :: thread_goal_status
  tg_tokens_used :: int
  tg_token_budget :: "int option"
  tg_time_used_seconds :: int
  tg_created_at :: int
  tg_updated_at :: int

record thread_goal_state =
  gs_status :: load_status
  gs_goal :: "thread_goal option"
  gs_completed_goal :: "thread_goal option"
  gs_completed_goal_turn_id :: "str option"

datatype (plugins only: code size) timeline_kind =
    User | Agent | Reasoning | Plan | Command | FileChange | Tool | WebSearch | Subagent | Image
  | BackgroundProcess | ContextCompaction | Notice | Warning

record timeline_citation =
  ci_path :: str
  ci_line_start :: u32
  ci_line_end :: u32
  ci_note :: str

record timeline_source =
  so_title :: str
  so_url :: str

datatype output_artifact_kind = File | GeneratedImage

record output_artifact =
  oa_path :: path
  oa_kind :: output_artifact_kind

record timeline_item =
  ti_id :: str
  ti_turn_id :: str
  ti_kind :: timeline_kind
  ti_text :: str
  ti_detail :: "str option"
  ti_process_id :: "str option"
  ti_memory_citations :: "timeline_citation list"
  ti_sources :: "timeline_source list"
  ti_attachments :: "composer_attachment list"
  ti_output_artifacts :: "output_artifact list"
  ti_edit_supported :: bool
  ti_completed :: bool

record message_edit_state =
  me_turn_id :: str
  me_draft :: str
  me_attachments :: "composer_attachment list"
  me_rollback_applied :: bool
  me_in_flight :: bool
  me_error :: "str option"

record context_window_usage =
  cw_used_tokens :: u64
  cw_context_window :: u64

datatype personality = NoPersonality | Friendly | Pragmatic

record retryable_user_message =
  rm_text :: str
  rm_attachments :: "composer_attachment list"

record retryable_turn_submission =
  rs_messages :: "retryable_user_message list"
  rs_model :: "str option"
  rs_effort :: "str option"
  rs_service_tier :: "str option"
  rs_permissions :: "str option"
  rs_approval_policy :: "str option"
  rs_approvals_reviewer :: "approvals_reviewer option"
  rs_plan_mode :: bool
  rs_personality :: personality

record safety_buffering_state =
  sb_turn_id :: str
  sb_faster_model :: "str option"
  sb_retry_available :: bool
  sb_dismissed :: bool
  sb_retry_pending :: bool

record turn_diff_state =
  td_turn_id :: str
  td_unified_diff :: str
  td_truncated :: bool

record timeline_state =
  tl_status :: load_status
  tl_generation :: u64
  tl_runtime_generation :: u64
  tl_settings_generation :: u64
  tl_runtime_status_loaded :: bool
  tl_items :: "timeline_item list"
  tl_item_indices :: "str \<rightharpoonup> nat"
  tl_next_cursor :: "str option"
  tl_pagination_cursors :: "str list"
  tl_pagination_pages :: nat
  tl_active_turn_id :: "str option"
  tl_active_review_turn_id :: "str option"
  tl_interrupt_pending :: bool
  tl_goal_continuation_pending :: bool
  tl_compaction_in_flight :: bool
  tl_context_window_usage :: "context_window_usage option"
  tl_message_edit :: "message_edit_state option"
  tl_last_turn_diff :: "turn_diff_state option"
  tl_retryable_turn :: "retryable_turn_submission option"
  tl_safety_buffering :: "safety_buffering_state option"

subsection \<open>Review start\<close>

datatype review_target = UncommittedChanges | BaseBranch str

datatype review_delivery = Inline | Detached

record review_start_error =
  rx_source_task_id :: str
  rx_message :: str

record pending_review_start =
  pv_generation :: u64
  pv_source_task_id :: str
  pv_target :: review_target
  pv_delivery :: review_delivery

record review_terminal_identity =
  rt_task_id :: str
  rt_turn_id :: str

record unresolved_detached_review =
  ud_source_task_id :: str
  ud_review_thread_id :: str
  ud_turn_id :: str

record review_start_state =
  rv_generation :: u64
  rv_pending :: "pending_review_start option"
  rv_error :: "review_start_error option"
  rv_terminal_events :: "review_terminal_identity list"
  rv_unresolved_detached :: "unresolved_detached_review option"

end
