(* ===== verification/Core_State.thy ===== *)
theory Core_State
  imports Core_Types
begin

text \<open>
  The rest of the data model: approvals and user input, remote control, terminals, account,
  the \<open>AppState\<close> record with the fields the modelled handlers touch, its default value, and the
  \<open>Effect\<close> values those handlers return to the backend. A handler is a function
  \<open>app_state \<Rightarrow> app_state \<times> effect list\<close>, as \<open>reduce(&mut AppState, Action) -> Vec<Effect>\<close>.
\<close>

subsection \<open>Approvals and structured user input\<close>

datatype approval_kind = Command | FileChange | Permissions | UserInput | DynamicTool

datatype network_policy_action = Allow | Deny

record network_policy_amendment =
  na_action :: network_policy_action
  na_host :: str

datatype approval_decision =
    Accept
  | Decline
  | AcceptForSession
  | AlwaysAllow
  | AcceptWithExecpolicyAmendment "str list"
  | ApplyNetworkPolicyAmendment network_policy_amendment

datatype network_approval_protocol = Http | Https | Socks5Tcp | Socks5Udp

record network_approval_context =
  nc_host :: str
  nc_protocol :: network_approval_protocol

record command_approval_context =
  cm_item_id :: str
  cm_command :: str
  cm_reason :: "str option"
  cm_network_approval_context :: "network_approval_context option"
  cm_proposed_execpolicy_amendment :: "str list option"
  cm_proposed_network_policy_amendment :: "network_policy_amendment option"

record file_change_approval_context =
  fc_item_id :: str
  fc_grant_root :: "str option"
  fc_reason :: "str option"

datatype permission_file_system_access = Read | Write | ReadWrite

datatype permission_request_detail =
    Network
  | FileSystem permission_file_system_access "str list"

record permissions_approval_context =
  pc_item_id :: str
  pc_cwd :: str
  pc_reason :: "str option"
  pc_details :: "permission_request_detail list"

datatype approval_context =
    CommandContext command_approval_context
  | FileChangeContext file_change_approval_context
  | PermissionsContext permissions_approval_context
  | DynamicToolContext

record approval_request =
  ap_request_id :: str
  ap_task_id :: str
  ap_turn_id :: "str option"
  ap_kind :: approval_kind
  ap_title :: str
  ap_detail :: str
  ap_context :: approval_context

record user_input_option =
  uo_label :: str
  uo_description :: str

record user_input_question =
  uq_id :: str
  uq_header :: str
  uq_question :: str
  uq_options :: "user_input_option list"
  uq_is_other :: bool
  uq_is_secret :: bool

record user_input_request =
  ui_request_id :: str
  ui_task_id :: str
  ui_turn_id :: str
  ui_item_id :: str
  ui_auto_resolution_ms :: "u64 option"
  ui_questions :: "user_input_question list"

record user_input_answer =
  ua_question_id :: str
  ua_answers :: "str list"

type_synonym user_input_answers = "user_input_answer list"

subsection \<open>Remote control\<close>

datatype remote_runtime_status = Disabled | Connecting | Connected | Errored

record remote_device =
  rd_client_id :: str
  rd_display_name :: "str option"

record remote_pairing =
  rp_pairing_code :: str
  rp_manual_pairing_code :: "str option"
  rp_environment_id :: str
  rp_expires_at :: int

datatype remote_control_busy =
    Status u64
  | SetEnabled u64 bool
  | StartPairing u64
  | CheckPairing u64
  | RevokeDevice u64 str

record remote_control_state =
  rc_managed_allow_remote_control :: "bool option"
  rc_policy_status :: load_status
  rc_runtime_status :: remote_runtime_status
  rc_status_generation :: u64
  rc_environment_id :: "str option"
  rc_devices_status :: load_status
  rc_devices_generation :: u64
  rc_devices :: "remote_device list"
  rc_next_cursor :: "str option"
  rc_pending_cursor :: "str option"
  rc_loading_more :: bool
  rc_status_refresh_pending :: bool
  rc_mutation_generation :: u64
  rc_pairing_generation :: u64
  rc_busy :: "remote_control_busy option"
  rc_pairing :: "remote_pairing option"
  rc_error :: "str option"

definition default_remote_control :: remote_control_state where
  "default_remote_control =
     \<lparr>rc_managed_allow_remote_control = None, rc_policy_status = load_status.Idle,
      rc_runtime_status = Disabled, rc_status_generation = 0, rc_environment_id = None,
      rc_devices_status = load_status.Idle, rc_devices_generation = 0, rc_devices = [],
      rc_next_cursor = None, rc_pending_cursor = None, rc_loading_more = False,
      rc_status_refresh_pending = False, rc_mutation_generation = 0, rc_pairing_generation = 0,
      rc_busy = None, rc_pairing = None, rc_error = None\<rparr>"

subsection \<open>Terminals\<close>

datatype integrated_terminal_shell = PowerShell | CommandPrompt | GitBash | Wsl

record terminal_tab_state =
  tt_id :: u64
  tt_task_id :: str
  tt_cwd :: path
  tt_shell :: "integrated_terminal_shell option"
  tt_process_id :: "str option"
  tt_title :: str
  tt_output :: str
  tt_starting :: bool
  tt_running :: bool
  tt_stopping :: bool
  tt_truncated :: bool
  tt_exit_code :: "u32 option"
  tt_error :: "str option"

datatype terminal_dock_location = Bottom | Right

record terminal_state =
  te_tabs :: "terminal_tab_state list"
  te_active_tab_ids :: "str \<rightharpoonup> u64"
  te_next_tab_id :: u64
  te_location :: terminal_dock_location
  te_bottom_panel_height :: u32
  te_right_panel_width :: u32
  te_shell :: "integrated_terminal_shell option"
  te_available_shells :: "integrated_terminal_shell list"

text \<open>The CPU share of a process is an \<open>f64\<close> that no handler reads: its bits are carried.\<close>

record background_terminal =
  bt_item_id :: str
  bt_process_id :: str
  bt_command :: str
  bt_cwd :: path
  bt_os_pid :: "u32 option"
  bt_cpu_percent :: "64 word option"
  bt_rss_kb :: "u64 option"

record process_manager_state =
  pg_task_id :: "str option"
  pg_status :: load_status
  pg_terminals :: "background_terminal list"
  pg_next_cursor :: "str option"
  pg_terminating_process_ids :: "str list"
  pg_cleaning :: bool
  pg_error :: "str option"

definition default_process_manager :: process_manager_state where
  "default_process_manager =
     \<lparr>pg_task_id = None, pg_status = load_status.Idle, pg_terminals = [], pg_next_cursor = None,
      pg_terminating_process_ids = [], pg_cleaning = False, pg_error = None\<rparr>"

subsection \<open>Account\<close>

datatype account_kind = ApiKey | ChatGpt | AmazonBedrock

record account_profile =
  af_kind :: account_kind
  af_email :: "str option"
  af_plan :: "str option"
  af_uses_codex_managed_credentials :: "bool option"

record usage_limit_window =
  ul_used_percent :: "8 word"
  ul_window_duration_mins :: "int option"
  ul_resets_at :: "int option"

record account_credits =
  cr_has_credits :: bool
  cr_unlimited :: bool
  cr_balance :: "str option"

record account_daily_usage_bucket =
  db_start_date :: str
  db_tokens :: int

record account_token_activity_summary =
  at_lifetime_tokens :: "int option"
  at_peak_daily_tokens :: "int option"
  at_longest_running_turn_sec :: "int option"
  at_current_streak_days :: "int option"
  at_longest_streak_days :: "int option"
  at_daily_usage_buckets :: "account_daily_usage_bucket list"

datatype account_auth_operation =
    Idle
  | StartingLogin
  | SubmittingApiKey
  | SubmittingBedrock
  | RestartingBedrock
  | AwaitingLogin
  | CancelingLogin
  | LoggingOut

record account_state =
  ac_status :: load_status
  ac_profile :: "account_profile option"
  ac_requires_openai_auth :: bool
  ac_usage_limits :: "usage_limit_window list"
  ac_credits :: "account_credits option"
  ac_rate_limit_reset_credits_available :: "u32 option"
  ac_usage_error :: "str option"
  ac_token_activity :: "account_token_activity_summary option"
  ac_token_activity_error :: "str option"
  ac_error :: "str option"
  ac_auth_operation :: account_auth_operation
  ac_login_id :: "str option"
  ac_login_verification_url :: "str option"
  ac_login_user_code :: "str option"
  ac_auth_error :: "str option"

definition default_account :: account_state where
  "default_account =
     \<lparr>ac_status = load_status.Idle, ac_profile = None, ac_requires_openai_auth = False,
      ac_usage_limits = [], ac_credits = None, ac_rate_limit_reset_credits_available = None,
      ac_usage_error = None, ac_token_activity = None, ac_token_activity_error = None,
      ac_error = None, ac_auth_operation = account_auth_operation.Idle, ac_login_id = None,
      ac_login_verification_url = None, ac_login_user_code = None, ac_auth_error = None\<rparr>"

end
