(* ===== verification/App_State.thy ===== *)
theory App_State
  imports Core_State
begin

text \<open>
  The \<open>AppState\<close> of \<open>crates/codex-core/src/lib.rs\<close>, restricted to the fields that a modelled
  handler reads or writes, the default values of the nested states, and the \<open>Effect\<close> variants
  that the modelled handlers return. Handlers that also write other fields are not modelled.
\<close>

subsection \<open>Preferences and feedback\<close>

datatype pull_request_merge_method = Merge | Squash

datatype git_review_mode = Full | LastTurnOnly

record git_preferences_state =
  gp_branch_prefix :: str
  gp_always_force_push :: bool
  gp_create_pull_request_as_draft :: bool
  gp_pull_request_merge_method :: pull_request_merge_method
  gp_review_mode :: git_review_mode
  gp_review_delivery :: review_delivery
  gp_commit_instructions :: str
  gp_pull_request_instructions :: str
  gp_worktree_root :: "path option"

datatype feedback_classification = Bug | BadResult | GoodResult | SafetyCheck | Other

record feedback_upload_state =
  fb_pending :: bool
  fb_error :: "str option"
  fb_feedback_id :: "str option"

subsection \<open>Default values\<close>

definition default_timeline :: timeline_state where
  "default_timeline =
     \<lparr>tl_status = load_status.Idle, tl_generation = 0, tl_runtime_generation = 0,
      tl_settings_generation = 0, tl_runtime_status_loaded = False, tl_items = [],
      tl_item_indices = Map.empty, tl_next_cursor = None, tl_pagination_cursors = [],
      tl_pagination_pages = 0, tl_active_turn_id = None, tl_active_review_turn_id = None,
      tl_interrupt_pending = False, tl_goal_continuation_pending = False,
      tl_compaction_in_flight = False, tl_context_window_usage = None, tl_message_edit = None,
      tl_last_turn_diff = None, tl_retryable_turn = None, tl_safety_buffering = None\<rparr>"

definition default_goal_state :: thread_goal_state where
  "default_goal_state =
     \<lparr>gs_status = load_status.Idle, gs_goal = None, gs_completed_goal = None,
      gs_completed_goal_turn_id = None\<rparr>"

definition default_task_search :: task_search_state where
  "default_task_search =
     \<lparr>se_status = load_status.Idle, se_generation = 0, se_query = [], se_results = [],
      se_next_cursor = None\<rparr>"

definition default_archived_tasks :: archived_tasks_state where
  "default_archived_tasks =
     \<lparr>ar_status = load_status.Idle, ar_generation = 0, ar_tasks = [], ar_next_cursor = None,
      ar_pagination_cursors = [], ar_pagination_pages = 0\<rparr>"

definition default_composer_settings :: composer_settings where
  "default_composer_settings =
     \<lparr>cs_model = None, cs_effort = None, cs_service_tier = None,
      cs_use_model_default_service_tier = False, cs_permissions = None,
      cs_approval_policy = None, cs_approvals_reviewer = None\<rparr>"

definition default_composer_controls :: composer_controls_state where
  "default_composer_controls =
     \<lparr>cc_models_status = load_status.Idle, cc_models = [], cc_selected_model = None,
      cc_selected_effort = None, cc_selected_service_tier = None,
      cc_permission_profiles_status = load_status.Idle, cc_permission_modes = [],
      cc_selected_permission_mode = None, cc_plan_mode = False, cc_goal_mode = False,
      cc_new_chat_defaults = default_composer_settings, cc_active_profile = None,
      cc_has_managed_new_thread_settings = False\<rparr>"

definition default_terminal :: terminal_state where
  "default_terminal =
     \<lparr>te_tabs = [], te_active_tab_ids = Map.empty, te_next_tab_id = 1, te_location = Bottom,
      te_bottom_panel_height = 280, te_right_panel_width = 600, te_shell = None,
      te_available_shells = []\<rparr>"

definition default_git_preferences :: git_preferences_state where
  "default_git_preferences =
     \<lparr>gp_branch_prefix = ''codex/'', gp_always_force_push = False,
      gp_create_pull_request_as_draft = False, gp_pull_request_merge_method = Merge,
      gp_review_mode = Full, gp_review_delivery = Inline, gp_commit_instructions = [],
      gp_pull_request_instructions = [], gp_worktree_root = None\<rparr>"

definition default_review_start :: review_start_state where
  "default_review_start =
     \<lparr>rv_generation = 0, rv_pending = None, rv_error = None, rv_terminal_events = [],
      rv_unresolved_detached = None\<rparr>"

subsection \<open>The application state\<close>

record app_state =
  connection :: connection_status
  task_status :: load_status
  task_generation :: u64
  tasks :: "task_summary list"
  next_task_cursor :: "str option"
  task_search :: task_search_state
  pending_task_fork :: "pending_task_fork_rec option"
  next_task_fork_request_id :: u64
  pending_worktree_fork :: "pending_worktree_fork_rec option"
  queued_worktree_forks :: "pending_worktree_fork_rec list"
  next_worktree_fork_request_id :: u64
  archived_tasks :: archived_tasks_state
  pinned_task_ids :: "str list"
  selected_task_id :: "str option"
  task_selection_generation :: u64
  new_chat_draft_generation :: u64
  composer_draft_generation :: u64
  timelines :: "str \<rightharpoonup> timeline_state"
  goals :: "str \<rightharpoonup> thread_goal_state"
  composer :: str
  composer_attachments :: "composer_attachment list"
  composer_error :: "str option"
  composer_controls :: composer_controls_state
  approvals :: "approval_request list"
  user_input_requests :: "user_input_request list"
  remote_control :: remote_control_state
  review_start :: review_start_state
  git_preferences :: git_preferences_state
  process_manager :: process_manager_state
  terminal :: terminal_state
  terminal_dock_open :: bool
  account :: account_state
  feedback :: feedback_upload_state
  background_completion_task_ids :: "str list"
  status_message :: "str option"

definition default_app_state :: app_state where
  "default_app_state =
     \<lparr>connection = Offline, task_status = load_status.Idle, task_generation = 0, tasks = [],
      next_task_cursor = None, task_search = default_task_search, pending_task_fork = None,
      next_task_fork_request_id = 1, pending_worktree_fork = None, queued_worktree_forks = [],
      next_worktree_fork_request_id = 1, archived_tasks = default_archived_tasks,
      pinned_task_ids = [], selected_task_id = None, task_selection_generation = 0,
      new_chat_draft_generation = 0, composer_draft_generation = 0, timelines = Map.empty,
      goals = Map.empty, composer = [], composer_attachments = [], composer_error = None,
      composer_controls = default_composer_controls, approvals = [], user_input_requests = [],
      remote_control = default_remote_control, review_start = default_review_start,
      git_preferences = default_git_preferences, process_manager = default_process_manager,
      terminal = default_terminal, terminal_dock_open = False, account = default_account,
      feedback = \<lparr>fb_pending = False, fb_error = None, fb_feedback_id = None\<rparr>,
      background_completion_task_ids = [], status_message = None\<rparr>"

lemmas default_state_defs = default_app_state_def default_timeline_def default_goal_state_def
  default_task_search_def default_archived_tasks_def default_composer_settings_def
  default_composer_controls_def default_terminal_def default_git_preferences_def
  default_review_start_def default_remote_control_def default_process_manager_def
  default_account_def

subsection \<open>Effects\<close>

datatype (plugins only: code size) effect =
    ForkTask u64 str "path option" str
  | ForkTaskIntoWorktree u64 str path str "path option"
  | RetryPendingWorktreeFork u64 str path str
  | CancelPendingWorktreeFork u64
  | LoadTasks u64 "str option"
  | LoadPinnedTasks "str list"
  | PersistPinnedTasks "str list"
  | RenameTask str str
  | ScheduleTaskSearch u64 str
  | SearchTasks u64 str "str option"
  | LoadArchivedTasks u64 "str option"
  | UnarchiveTask str
  | DeleteArchivedTasks "str list" archived_task_delete_kind
  | ResumeTask str u64 u64
  | LoadTimeline str u64 "str option"
  | UpdateThreadSettings str u64 "str option" "str option" "str option option" "str option"
      "str option" "approvals_reviewer option"
  | ScheduleGoalContinuation str
  | ContinueGoal str
  | ClearGoal str
  | SetGoal str "str option" "thread_goal_status option" "int option option"
  | InterruptTurn str str
  | RetrySafetyBufferedTurn str str str retryable_turn_submission
  | RespondApproval str approval_decision
  | RespondStandardApproval approval_request approval_decision
  | RespondUserInput user_input_request user_input_answers
  | SpawnTerminal u64 path "integrated_terminal_shell option"
  | RestartTerminal u64 path "integrated_terminal_shell option"
  | WriteTerminal u64 str
  | StopTerminal u64
  | LoadBackgroundTerminals str "str option"
  | TerminateBackgroundTerminal str str
  | CleanBackgroundTerminals str
  | LoadRemoteControlStatus u64
  | SetRemoteControlEnabled u64 bool
  | StartRemotePairing u64 bool
  | CheckRemotePairing u64 remote_pairing
  | LoadRemoteDevices u64 str "str option" u32 bool
  | RevokeRemoteDevice u64 str str
  | LoadAccount
  | StartAccountLogin
  | StartAccountDeviceCodeLogin
  | CancelAccountLogin str
  | LogoutAccount
  | SubmitFeedback feedback_classification str bool "str option"

type_synonym step_result = "app_state \<times> effect list"

end
