(* ===== verification/Interfaces.thy ===== *)
theory Interfaces
  imports Prelude
begin

text \<open>
  The contracts that several components of the reducer share, as locales. Each states what a
  component's operations promise; the lemmas proved here once hold for every component that
  interprets the contract on its own handlers.
  \<^item> \<open>reducer_component\<close>: a step function that keeps an invariant, and its runs;
  \<^item> \<open>bounded_queue\<close>: a queue that drops its oldest element at a limit;
  \<^item> \<open>generation_guard\<close>: replies tagged with the generation of their request;
  \<^item> \<open>cursor_pagination\<close>: page requests that remember the cursors they have used.
\<close>

subsection \<open>Runs of a reducer\<close>

fun run :: "('s \<Rightarrow> 'a \<Rightarrow> 's \<times> 'e list) \<Rightarrow> 's \<Rightarrow> 'a list \<Rightarrow> 's \<times> 'e list" where
  "run step s [] = (s, [])"
| "run step s (a # as) =
     (let (s1, es1) = step s a; (s2, es2) = run step s1 as in (s2, es1 @ es2))"

lemma run_Cons_fst: "fst (run step s (a # as)) = fst (run step (fst (step s a)) as)"
  by (simp add: case_prod_beta Let_def)

lemma run_Cons_snd:
  "snd (run step s (a # as)) = snd (step s a) @ snd (run step (fst (step s a)) as)"
  by (simp add: case_prod_beta Let_def)

lemma run_append:
  "fst (run step s (as @ bs)) = fst (run step (fst (run step s as)) bs)"
  by (induction as arbitrary: s) (simp_all add: case_prod_beta Let_def)

lemma run_append_snd:
  "snd (run step s (as @ bs)) = snd (run step s as) @ snd (run step (fst (run step s as)) bs)"
  by (induction as arbitrary: s) (simp_all add: case_prod_beta Let_def)

locale reducer_component =
  fixes step :: "'s \<Rightarrow> 'a \<Rightarrow> 's \<times> 'e list"
    and inv :: "'s \<Rightarrow> bool"
  assumes step_inv: "inv s \<Longrightarrow> inv (fst (step s a))"
begin

lemma run_inv: "inv s \<Longrightarrow> inv (fst (run step s as))"
proof (induction as arbitrary: s)
  case Nil
  then show ?case by simp
next
  case (Cons a as)
  then have "inv (fst (run step (fst (step s a)) as))" by (intro Cons.IH step_inv)
  then show ?case by (simp only: run_Cons_fst)
qed

end

subsection \<open>Queues that drop their oldest element\<close>

locale bounded_queue =
  fixes push :: "'a \<Rightarrow> 's \<Rightarrow> 's"
    and items :: "'s \<Rightarrow> 'a list"
    and cap :: nat
  assumes items_push: "length (items s) \<le> cap \<Longrightarrow> items (push x s) = last_n cap (items s @ [x])"
begin

lemma push_bounded: "length (items s) \<le> cap \<Longrightarrow> length (items (push x s)) \<le> cap"
  by (simp add: items_push length_last_n)

lemma items_pushes:
  "length (items s) \<le> cap \<Longrightarrow> items (fold push xs s) = last_n cap (items s @ xs)"
proof (induction xs arbitrary: s)
  case Nil
  then show ?case by (simp add: last_n_all)
next
  case (Cons x xs)
  then have "items (fold push xs (push x s)) = last_n cap (items (push x s) @ xs)"
    by (intro Cons.IH push_bounded)
  also have "\<dots> = last_n cap (items s @ x # xs)"
    using Cons.prems by (simp add: items_push last_n_append_last_n)
  finally show ?case by simp
qed

lemma newest_kept: "0 < cap \<Longrightarrow> length (items s) \<le> cap \<Longrightarrow> x \<in> set (items (push x s))"
  by (simp add: items_push last_n_def Suc_diff_le)

lemma nothing_dropped_below_cap:
  "length (items s) + length xs \<le> cap \<Longrightarrow> items (fold push xs s) = items s @ xs"
  by (simp add: items_pushes last_n_all)

end

subsection \<open>Replies guarded by a generation\<close>

text \<open>
  A request takes the next generation; a reply carries the generation of its request and is
  dropped unless that is still the current one. \<open>mixed\<close> runs any interleaving of new requests
  (\<open>Inl\<close>) and replies (\<open>Inr\<close>).
\<close>

fun mixed ::
  "('b \<Rightarrow> 's \<Rightarrow> 's) \<Rightarrow> (u64 \<Rightarrow> 'r \<Rightarrow> 's \<Rightarrow> 's) \<Rightarrow> ('b + u64 \<times> 'r) list \<Rightarrow> 's \<Rightarrow> 's" where
  "mixed request reply [] s = s"
| "mixed request reply (Inl b # ops) s = mixed request reply ops (request b s)"
| "mixed request reply (Inr (g, r) # ops) s = mixed request reply ops (reply g r s)"

locale generation_guard =
  fixes gen :: "'s \<Rightarrow> u64"
    and request :: "'b \<Rightarrow> 's \<Rightarrow> 's"
    and reply :: "u64 \<Rightarrow> 'r \<Rightarrow> 's \<Rightarrow> 's"
  assumes gen_request: "gen (request b s) = sat_succ (gen s)"
    and gen_reply: "gen (reply g r s) = gen s"
    and stale_reply: "g \<noteq> gen s \<Longrightarrow> reply g r s = s"
begin

lemma mixed_gen_mono: "unat (gen s) \<le> unat (gen (mixed request reply ops s))"
proof (induction ops arbitrary: s)
  case Nil
  show ?case by simp
next
  case (Cons op ops)
  show ?case
  proof (cases op)
    case (Inl b)
    have "unat (gen s) \<le> unat (gen (request b s))" by (simp add: gen_request sat_succ_mono)
    also have "\<dots> \<le> unat (gen (mixed request reply ops (request b s)))" by (rule Cons.IH)
    finally show ?thesis by (simp add: Inl)
  next
    case (Inr gr)
    then show ?thesis using Cons.IH [of "reply (fst gr) (snd gr) s"]
      by (cases gr) (simp add: gen_reply)
  qed
qed

text \<open>
  Once a newer request has been made, a reply to an older one changes nothing, whatever else
  has been requested or has arrived in between, until the 64-bit counter saturates.
\<close>

lemma late_reply_ignored:
  assumes "gen s \<noteq> -1" and "unat g \<le> unat (gen s)"
  shows "reply g r (mixed request reply ops (request b s)) = mixed request reply ops (request b s)"
proof (rule stale_reply)
  have "unat (gen s) < unat (gen (request b s))"
    using assms(1) by (simp add: gen_request unat_sat_succ_less)
  also have "\<dots> \<le> unat (gen (mixed request reply ops (request b s)))" by (rule mixed_gen_mono)
  finally show "g \<noteq> gen (mixed request reply ops (request b s))" using assms(2) by auto
qed

end

subsection \<open>Pagination with remembered cursors\<close>

text \<open>
  \<open>paging\<close> asks for a page and lets one arrive, again and again; its second component counts
  the requests that were sent.
\<close>

fun paging ::
  "('s \<Rightarrow> 's \<times> 'e list) \<Rightarrow> ('p \<Rightarrow> 's \<Rightarrow> 's) \<Rightarrow> 'p list \<Rightarrow> 's \<Rightarrow> 's \<times> 'e list" where
  "paging load_more arrive [] s = (s, [])"
| "paging load_more arrive (p # ps) s =
     (let (s1, es1) = load_more s; (s2, es2) = paging load_more arrive ps (arrive p s1)
      in (s2, es1 @ es2))"

locale bounded_paging =
  fixes load_more :: "'s \<Rightarrow> 's \<times> 'e list"
    and arrive :: "'p \<Rightarrow> 's \<Rightarrow> 's"
    and potential :: "'s \<Rightarrow> nat"
  assumes request_pays: "length (snd (load_more s)) + potential (fst (load_more s)) \<le> potential s"
    and arrive_pays: "potential (arrive p s) \<le> potential s"
begin

text \<open>However many pages a server offers, the requests are paid from the potential.\<close>

lemma paging_bounded: "length (snd (paging load_more arrive ps s)) \<le> potential s"
proof (induction ps arbitrary: s)
  case Nil
  then show ?case by simp
next
  case (Cons p ps)
  let ?s1 = "fst (load_more s)"
  have "length (snd (paging load_more arrive ps (arrive p ?s1))) \<le> potential (arrive p ?s1)"
    by (rule Cons.IH)
  also have "\<dots> \<le> potential ?s1" by (rule arrive_pays)
  finally show ?case using request_pays [of s] by (simp add: case_prod_beta Let_def)
qed

end

locale cursor_pagination =
  fixes cursors :: "'s \<Rightarrow> 'c list"
    and pages :: "'s \<Rightarrow> nat"
    and limit :: nat
    and load_more :: "'s \<Rightarrow> 's \<times> 'e list"
    and arrive :: "'p \<Rightarrow> 's \<Rightarrow> 's"
  assumes request_new:
      "snd (load_more s) \<noteq> [] \<Longrightarrow>
        length (snd (load_more s)) = 1 \<and> pages s < limit \<and> pages (fst (load_more s)) = Suc (pages s)
        \<and> (\<exists>c. c \<notin> set (cursors s) \<and> cursors (fst (load_more s)) = cursors s @ [c])"
    and request_none:
      "snd (load_more s) = [] \<Longrightarrow>
        pages (fst (load_more s)) = pages s \<and> cursors (fst (load_more s)) = cursors s"
    and arrive_pages: "pages (arrive p s) = pages s"
    and arrive_cursors: "cursors (arrive p s) = cursors s"
begin

lemma load_more_count: "length (snd (load_more s)) + pages s = pages (fst (load_more s))"
  using request_new [of s] request_none [of s] by (cases "snd (load_more s) = []") auto

lemma load_more_distinct: "distinct (cursors s) \<Longrightarrow> distinct (cursors (fst (load_more s)))"
  using request_new [of s] request_none [of s] by (cases "snd (load_more s) = []") auto

lemma paging_distinct:
  "distinct (cursors s) \<Longrightarrow> distinct (cursors (fst (paging load_more arrive ps s)))"
proof (induction ps arbitrary: s)
  case Nil
  then show ?case by simp
next
  case (Cons p ps)
  have "distinct (cursors (fst (paging load_more arrive ps (arrive p (fst (load_more s))))))"
    using Cons.prems by (intro Cons.IH) (simp add: arrive_cursors load_more_distinct)
  then show ?case by (simp add: case_prod_beta Let_def)
qed

end

sublocale cursor_pagination \<subseteq> bounded: bounded_paging load_more arrive "\<lambda>s. limit - pages s"
proof
  fix s :: 's
  show "length (snd (load_more s)) + (limit - pages (fst (load_more s))) \<le> limit - pages s"
    using request_new [of s] request_none [of s] by (cases "snd (load_more s) = []") auto
next
  fix p :: 'p and s :: 's
  show "limit - pages (arrive p s) \<le> limit - pages s" by (simp add: arrive_pages)
qed

end
