(* ===== verification/Worktree_Forks.thy ===== *)
theory Worktree_Forks
  imports App_State Interfaces
begin

text \<open>
  Forking a task (\<open>fork_task\<close>, \<open>start_next_worktree_fork\<close> and the worktree fork actions of
  \<open>reduce\<close> in \<open>crates/codex-core/src/lib.rs\<close>): one fork into a new worktree is active at a
  time, further ones wait in a queue of at most \<open>MAX_PENDING_WORKTREE_FORKS\<close> items with the
  active one. The invariant relates the active fork's phase with what is known of its worktree.
\<close>

subsection \<open>Operations\<close>

definition MAX_PENDING_WORKTREE_FORKS :: nat where
  "MAX_PENDING_WORKTREE_FORKS = 3"

definition MAX_PENDING_WORKTREE_FORK_ERROR_BYTES :: nat where
  "MAX_PENDING_WORKTREE_FORK_ERROR_BYTES = 16 * 1024"

fun phase_failed :: "pending_worktree_fork_phase \<Rightarrow> bool" where
  "phase_failed FailedCreatingWorktree = True"
| "phase_failed FailedStartingConversation = True"
| "phase_failed _ = False"

text \<open>\<open>request_id.checked_add(1).unwrap_or(1)\<close>.\<close>

definition next_request_id :: "u64 \<Rightarrow> u64" where
  "next_request_id r = (case checked_succ r of None \<Rightarrow> 1 | Some n \<Rightarrow> n)"

definition start_next_worktree_fork :: "app_state \<Rightarrow> step_result" where
  "start_next_worktree_fork s =
     (let s1 = (case pending_worktree_fork s of
                  Some _ \<Rightarrow> s
                | None \<Rightarrow>
                    (case queued_worktree_forks s of
                       [] \<Rightarrow> s
                     | p # ps \<Rightarrow> s\<lparr>pending_worktree_fork := Some p, queued_worktree_forks := ps\<rparr>))
      in case pending_worktree_fork s1 of
           None \<Rightarrow> (s1, [])
         | Some p \<Rightarrow>
             if wf_phase p \<noteq> QueuedWorktree then (s1, [])
             else (s1\<lparr>pending_worktree_fork :=
                         Some (p\<lparr>wf_phase := CreatingWorktree, wf_error_message := None\<rparr>),
                      status_message := Some (''Creating worktree'' @ ellipsis)\<rparr>,
                   [effect.ForkTaskIntoWorktree (wf_request_id p) (wf_source_task_id p)
                      (wf_source_cwd p) (wf_source_title p) (wf_worktrees_root p)]))"

definition fork_task :: "str \<Rightarrow> bool \<Rightarrow> app_state \<Rightarrow> step_result" where
  "fork_task task_id new_worktree s =
     (case find (\<lambda>t. ts_id t = task_id) (tasks s) of
        None \<Rightarrow> (s, [])
      | Some task \<Rightarrow>
          let cwd = (if is_absolute (ts_cwd task) then Some (ts_cwd task) else None);
              title = ts_title task
          in if new_worktree then
               (case cwd of
                  None \<Rightarrow>
                    (s\<lparr>status_message :=
                         Some ''A Git repository is required to continue in a new worktree''\<rparr>, [])
                | Some cwd \<Rightarrow>
                    if pending_worktree_fork s \<noteq> None
                       \<and> length (queued_worktree_forks s) + 1 \<ge> MAX_PENDING_WORKTREE_FORKS
                    then (s\<lparr>status_message :=
                              Some (''Worktree queue is full ('' @ dec MAX_PENDING_WORKTREE_FORKS
                                    @ '' items).'')\<rparr>, [])
                    else
                      let request_id = next_worktree_fork_request_id s;
                          s1 = s\<lparr>next_worktree_fork_request_id := next_request_id request_id\<rparr>;
                          pending =
                            \<lparr>wf_request_id = request_id, wf_source_task_id = task_id,
                             wf_source_cwd = cwd, wf_source_title = title,
                             wf_worktrees_root = gp_worktree_root (git_preferences s),
                             wf_workspace_root = None, wf_git_root = None,
                             wf_phase = QueuedWorktree, wf_error_message = None, wf_attempt = 1\<rparr>
                      in if pending_worktree_fork s1 = None
                         then start_next_worktree_fork (s1\<lparr>pending_worktree_fork := Some pending\<rparr>)
                         else
                           let queue = queued_worktree_forks s1 @ [pending];
                               count = length queue + 1
                           in (s1\<lparr>queued_worktree_forks := queue,
                                  status_message :=
                                    Some (''Worktree queued ('' @ dec count @ '' of ''
                                          @ dec MAX_PENDING_WORKTREE_FORKS @ '').'')\<rparr>, []))
             else
               let request_id = next_task_fork_request_id s
               in (s\<lparr>next_task_fork_request_id := next_request_id request_id,
                     pending_task_fork :=
                       Some \<lparr>tf_request_id = request_id,
                             tf_selection_task_id = selected_task_id s,
                             tf_selection_generation = task_selection_generation s\<rparr>,
                     status_message := Some (''Creating chat'' @ ellipsis)\<rparr>,
                   [ForkTask request_id task_id cwd title]))"

text \<open>The handlers that look at the active fork only when its request and phase match.\<close>

definition with_pending ::
  "u64 \<Rightarrow> (pending_worktree_fork_phase \<Rightarrow> bool) \<Rightarrow> (pending_worktree_fork_rec \<Rightarrow> step_result)
   \<Rightarrow> app_state \<Rightarrow> step_result" where
  "with_pending request_id phase_ok body s =
     (case pending_worktree_fork s of
        None \<Rightarrow> (s, [])
      | Some p \<Rightarrow> if wf_request_id p \<noteq> request_id \<or> \<not> phase_ok (wf_phase p) then (s, []) else body p)"

definition worktree_fork_ready :: "u64 \<Rightarrow> path \<Rightarrow> path \<Rightarrow> app_state \<Rightarrow> step_result" where
  "worktree_fork_ready request_id workspace_root git_root s =
     with_pending request_id (\<lambda>ph. ph = CreatingWorktree \<or> ph = CancellingWorktree) (\<lambda>p.
       (s\<lparr>pending_worktree_fork :=
            Some (p\<lparr>wf_workspace_root := Some workspace_root, wf_git_root := Some git_root,
                    wf_phase := StartingConversation, wf_error_message := None\<rparr>),
          status_message := Some (''Starting the conversation'' @ ellipsis)\<rparr>,
        [effect.RetryPendingWorktreeFork request_id (wf_source_task_id p) workspace_root
           (wf_source_title p)])) s"

definition worktree_fork_creation_failed :: "u64 \<Rightarrow> str \<Rightarrow> app_state \<Rightarrow> step_result" where
  "worktree_fork_creation_failed request_id message s =
     with_pending request_id (\<lambda>ph. ph = CreatingWorktree) (\<lambda>p.
       let message = bounded_string message MAX_PENDING_WORKTREE_FORK_ERROR_BYTES
       in (s\<lparr>pending_worktree_fork :=
               Some (p\<lparr>wf_phase := FailedCreatingWorktree, wf_error_message := Some message\<rparr>),
             status_message := Some message\<rparr>, [])) s"

definition worktree_fork_conversation_failed :: "u64 \<Rightarrow> str \<Rightarrow> app_state \<Rightarrow> step_result" where
  "worktree_fork_conversation_failed request_id message s =
     with_pending request_id (\<lambda>ph. ph = StartingConversation) (\<lambda>p.
       let message = bounded_string message MAX_PENDING_WORKTREE_FORK_ERROR_BYTES
       in (s\<lparr>pending_worktree_fork :=
               Some (p\<lparr>wf_phase := FailedStartingConversation, wf_error_message := Some message\<rparr>),
             status_message :=
               Some (bounded_string (''Error starting chat'' @ [CHR 0x0A] @ message)
                       MAX_PENDING_WORKTREE_FORK_ERROR_BYTES)\<rparr>, [])) s"

definition worktree_fork_completed :: "u64 \<Rightarrow> app_state \<Rightarrow> step_result" where
  "worktree_fork_completed request_id s =
     with_pending request_id (\<lambda>ph. ph = StartingConversation) (\<lambda>p.
       start_next_worktree_fork (s\<lparr>pending_worktree_fork := None\<rparr>)) s"

definition worktree_fork_cancelled :: "u64 \<Rightarrow> app_state \<Rightarrow> step_result" where
  "worktree_fork_cancelled request_id s =
     with_pending request_id (\<lambda>ph. ph = CancellingWorktree) (\<lambda>p.
       start_next_worktree_fork (s\<lparr>pending_worktree_fork := None, status_message := None\<rparr>)) s"

definition worktree_fork_cancel_failed :: "u64 \<Rightarrow> str \<Rightarrow> app_state \<Rightarrow> step_result" where
  "worktree_fork_cancel_failed request_id message s =
     with_pending request_id (\<lambda>ph. ph = CancellingWorktree) (\<lambda>p.
       let message = bounded_string message MAX_PENDING_WORKTREE_FORK_ERROR_BYTES
       in (s\<lparr>pending_worktree_fork :=
               Some (p\<lparr>wf_phase := CreatingWorktree, wf_error_message := Some message\<rparr>),
             status_message := Some message\<rparr>, [])) s"

definition cancel_pending_worktree_fork :: "u64 \<Rightarrow> app_state \<Rightarrow> step_result" where
  "cancel_pending_worktree_fork request_id s =
     (case position (\<lambda>p. wf_request_id p = request_id) (queued_worktree_forks s) of
        Some index \<Rightarrow>
          (s\<lparr>queued_worktree_forks := remove_at index (queued_worktree_forks s)\<rparr>, [])
      | None \<Rightarrow>
          with_pending request_id (\<lambda>ph. ph = CreatingWorktree) (\<lambda>p.
            (s\<lparr>pending_worktree_fork := Some (p\<lparr>wf_phase := CancellingWorktree\<rparr>),
               status_message := Some (''Cancelling worktree'' @ ellipsis)\<rparr>,
             [effect.CancelPendingWorktreeFork request_id])) s)"

definition retry_pending_worktree_fork :: "u64 \<Rightarrow> app_state \<Rightarrow> step_result" where
  "retry_pending_worktree_fork request_id s =
     with_pending request_id phase_failed (\<lambda>p.
       let p1 = p\<lparr>wf_attempt := sat_succ (wf_attempt p), wf_error_message := None\<rparr>
       in case wf_workspace_root p of
            Some cwd \<Rightarrow>
              (s\<lparr>pending_worktree_fork := Some (p1\<lparr>wf_phase := StartingConversation\<rparr>),
                 status_message := Some (''Starting the conversation'' @ ellipsis)\<rparr>,
               [effect.RetryPendingWorktreeFork request_id (wf_source_task_id p) cwd
                  (wf_source_title p)])
          | None \<Rightarrow>
              (s\<lparr>pending_worktree_fork :=
                   Some (p1\<lparr>wf_phase := CreatingWorktree, wf_git_root := None\<rparr>),
                 status_message := Some (''Creating worktree'' @ ellipsis)\<rparr>,
               [effect.ForkTaskIntoWorktree request_id (wf_source_task_id p) (wf_source_cwd p)
                  (wf_source_title p) (wf_worktrees_root p)])) s"

definition dismiss_pending_worktree_fork :: "u64 \<Rightarrow> app_state \<Rightarrow> step_result" where
  "dismiss_pending_worktree_fork request_id s =
     with_pending request_id phase_failed (\<lambda>p.
       start_next_worktree_fork
         (s\<lparr>pending_worktree_fork := None,
            status_message :=
              map_option (\<lambda>root. bounded_string (''Worktree kept at '' @ root)
                                   MAX_PENDING_WORKTREE_FORK_ERROR_BYTES) (wf_git_root p)\<rparr>)) s"

subsection \<open>Dispatch\<close>

datatype (plugins only: code size) fork_action =
    ForkSelectedTask
  | ForkSelectedTaskIntoWorktree
  | ForkTaskInCurrentWorkspace str
  | ForkTaskIntoWorktree str
  | PendingWorktreeForkReady u64 path path
  | PendingWorktreeForkCreationFailed u64 str
  | PendingWorktreeForkConversationFailed u64 str
  | PendingWorktreeForkCompleted u64
  | PendingWorktreeForkCancelled u64
  | PendingWorktreeForkCancelFailed u64 str
  | CancelPendingWorktreeFork u64
  | RetryPendingWorktreeFork u64
  | DismissPendingWorktreeFork u64

fun reduce_fork :: "app_state \<Rightarrow> fork_action \<Rightarrow> step_result" where
  "reduce_fork s ForkSelectedTask =
     (case selected_task_id s of None \<Rightarrow> (s, []) | Some t \<Rightarrow> fork_task t False s)"
| "reduce_fork s ForkSelectedTaskIntoWorktree =
     (case selected_task_id s of None \<Rightarrow> (s, []) | Some t \<Rightarrow> fork_task t True s)"
| "reduce_fork s (ForkTaskInCurrentWorkspace t) = fork_task t False s"
| "reduce_fork s (fork_action.ForkTaskIntoWorktree t) = fork_task t True s"
| "reduce_fork s (PendingWorktreeForkReady r w g) = worktree_fork_ready r w g s"
| "reduce_fork s (PendingWorktreeForkCreationFailed r m) = worktree_fork_creation_failed r m s"
| "reduce_fork s (PendingWorktreeForkConversationFailed r m) =
     worktree_fork_conversation_failed r m s"
| "reduce_fork s (PendingWorktreeForkCompleted r) = worktree_fork_completed r s"
| "reduce_fork s (PendingWorktreeForkCancelled r) = worktree_fork_cancelled r s"
| "reduce_fork s (PendingWorktreeForkCancelFailed r m) = worktree_fork_cancel_failed r m s"
| "reduce_fork s (fork_action.CancelPendingWorktreeFork r) = cancel_pending_worktree_fork r s"
| "reduce_fork s (fork_action.RetryPendingWorktreeFork r) = retry_pending_worktree_fork r s"
| "reduce_fork s (DismissPendingWorktreeFork r) = dismiss_pending_worktree_fork r s"

lemmas fork_handler_defs = worktree_fork_ready_def
  worktree_fork_creation_failed_def worktree_fork_conversation_failed_def
  worktree_fork_completed_def worktree_fork_cancelled_def worktree_fork_cancel_failed_def
  cancel_pending_worktree_fork_def retry_pending_worktree_fork_def
  dismiss_pending_worktree_fork_def

subsection \<open>Invariant\<close>

definition queued_ok :: "pending_worktree_fork_rec \<Rightarrow> bool" where
  "queued_ok p \<longleftrightarrow>
     wf_phase p = QueuedWorktree \<and> wf_workspace_root p = None \<and> wf_git_root p = None
     \<and> wf_error_message p = None \<and> wf_attempt p = 1 \<and> is_absolute (wf_source_cwd p)"

definition active_ok :: "pending_worktree_fork_rec \<Rightarrow> bool" where
  "active_ok p \<longleftrightarrow>
     wf_phase p \<noteq> QueuedWorktree
     \<and> (wf_phase p = StartingConversation \<or> wf_phase p = FailedStartingConversation
        \<longleftrightarrow> wf_workspace_root p \<noteq> None)
     \<and> (wf_workspace_root p \<noteq> None \<longleftrightarrow> wf_git_root p \<noteq> None)
     \<and> (\<forall>m. wf_error_message p = Some m \<longrightarrow> length m \<le> MAX_PENDING_WORKTREE_FORK_ERROR_BYTES)
     \<and> is_absolute (wf_source_cwd p)"

definition fork_inv :: "app_state \<Rightarrow> bool" where
  "fork_inv s \<longleftrightarrow>
     length (queued_worktree_forks s) < MAX_PENDING_WORKTREE_FORKS
     \<and> (\<forall>p \<in> set (queued_worktree_forks s). queued_ok p)
     \<and> (case pending_worktree_fork s of
          None \<Rightarrow> queued_worktree_forks s = [] | Some p \<Rightarrow> active_ok p)"

definition fork_count :: "app_state \<Rightarrow> nat" where
  "fork_count s =
     (case pending_worktree_fork s of None \<Rightarrow> 0 | Some _ \<Rightarrow> 1) + length (queued_worktree_forks s)"

lemma fork_inv_count: "fork_inv s \<Longrightarrow> fork_count s \<le> MAX_PENDING_WORKTREE_FORKS"
  by (auto simp: fork_inv_def fork_count_def split: option.splits)

lemma active_queued: "queued_ok p \<Longrightarrow> active_ok (p\<lparr>wf_phase := CreatingWorktree, wf_error_message := None\<rparr>)"
  by (simp add: queued_ok_def active_ok_def)

text \<open>Starting the next fork repairs a state whose active fork has just been removed.\<close>

lemma start_next_inv:
  assumes "length (queued_worktree_forks s) < MAX_PENDING_WORKTREE_FORKS"
    and "\<forall>p \<in> set (queued_worktree_forks s). queued_ok p"
    and "case pending_worktree_fork s of None \<Rightarrow> True | Some p \<Rightarrow> queued_ok p"
  shows "fork_inv (fst (start_next_worktree_fork s))"
  using assms
  by (auto simp: start_next_worktree_fork_def Let_def fork_inv_def queued_ok_def
      split: option.splits list.splits intro!: active_queued)

lemma fork_task_inv: "fork_inv s \<Longrightarrow> fork_inv (fst (fork_task t w s))"
proof -
  assume inv: "fork_inv s"
  show ?thesis
  proof (cases "find (\<lambda>x. ts_id x = t) (tasks s)")
    case None
    with inv show ?thesis by (simp add: fork_task_def)
  next
    case (Some task)
    show ?thesis
    proof (cases "w \<and> is_absolute (ts_cwd task) \<and> pending_worktree_fork s = None")
      case True
      with inv Some show ?thesis
        by (auto simp: fork_task_def Let_def fork_inv_def active_ok_def
            start_next_worktree_fork_def MAX_PENDING_WORKTREE_FORKS_def)
    next
      case False
      with inv Some show ?thesis
        by (auto simp: fork_task_def Let_def fork_inv_def queued_ok_def split: option.splits)
    qed
  qed
qed

lemma with_pending_inv:
  assumes "fork_inv s"
    and "\<And>p. pending_worktree_fork s = Some p \<Longrightarrow> phase_ok (wf_phase p) \<Longrightarrow> fork_inv (fst (body p))"
  shows "fork_inv (fst (with_pending r phase_ok body s))"
  using assms by (auto simp: with_pending_def split: option.splits)

lemma fork_inv_active:
  "fork_inv s \<Longrightarrow> active_ok p \<Longrightarrow>
   fork_inv (s\<lparr>pending_worktree_fork := Some p, status_message := m\<rparr>)"
  by (auto simp: fork_inv_def)

lemma fork_inv_next:
  "fork_inv s \<Longrightarrow>
   fork_inv (fst (start_next_worktree_fork (s\<lparr>pending_worktree_fork := None\<rparr>)))
   \<and> fork_inv (fst (start_next_worktree_fork (s\<lparr>pending_worktree_fork := None, status_message := m\<rparr>)))"
proof -
  assume "fork_inv s"
  then have "length (queued_worktree_forks s) < MAX_PENDING_WORKTREE_FORKS"
    and "\<forall>p \<in> set (queued_worktree_forks s). queued_ok p"
    by (simp_all add: fork_inv_def)
  then show ?thesis by (intro conjI start_next_inv) simp_all
qed

lemma fork_inv_pending: "fork_inv s \<Longrightarrow> pending_worktree_fork s = Some p \<Longrightarrow> active_ok p"
  by (simp add: fork_inv_def)

lemma cancel_inv: "fork_inv s \<Longrightarrow> fork_inv (fst (cancel_pending_worktree_fork r s))"
proof -
  assume inv: "fork_inv s"
  show ?thesis
  proof (cases "position (\<lambda>p. wf_request_id p = r) (queued_worktree_forks s)")
    case None
    then show ?thesis unfolding cancel_pending_worktree_fork_def
      using inv fork_inv_pending [OF inv]
      by (auto intro!: with_pending_inv fork_inv_active simp: active_ok_def)
  next
    case (Some i)
    then have "i < length (queued_worktree_forks s)" using position_Some by blast
    with Some inv show ?thesis
      using set_remove_at [of i "queued_worktree_forks s"]
        length_remove_at [of i "queued_worktree_forks s"]
      by (auto simp: cancel_pending_worktree_fork_def fork_inv_def split: option.splits)
  qed
qed

lemma retry_inv: "fork_inv s \<Longrightarrow> fork_inv (fst (retry_pending_worktree_fork r s))"
  unfolding retry_pending_worktree_fork_def
  using fork_inv_pending [of s]
  by (intro with_pending_inv)
    (auto simp: active_ok_def Let_def split: option.splits intro!: fork_inv_active)

lemma reduce_fork_inv:
  assumes "fork_inv s"
  shows "fork_inv (fst (reduce_fork s a))"
proof (cases a)
  case (PendingWorktreeForkReady r w g)
  then show ?thesis using fork_inv_pending [OF assms] assms
    by (auto simp: worktree_fork_ready_def active_ok_def
        intro!: with_pending_inv fork_inv_active)
next
  case (PendingWorktreeForkCreationFailed r m)
  then show ?thesis using fork_inv_pending [OF assms] assms
    by (auto simp: worktree_fork_creation_failed_def active_ok_def Let_def
        intro!: with_pending_inv fork_inv_active)
next
  case (PendingWorktreeForkConversationFailed r m)
  then show ?thesis using fork_inv_pending [OF assms] assms
    by (auto simp: worktree_fork_conversation_failed_def active_ok_def Let_def
        dest: fork_inv_pending intro!: with_pending_inv fork_inv_active)
next
  case (PendingWorktreeForkCancelFailed r m)
  then show ?thesis using fork_inv_pending [OF assms] assms
    by (auto simp: worktree_fork_cancel_failed_def active_ok_def Let_def
        dest: fork_inv_pending intro!: with_pending_inv fork_inv_active)
qed (use assms in \<open>auto simp: fork_task_inv cancel_inv retry_inv fork_inv_next worktree_fork_completed_def
      worktree_fork_cancelled_def dismiss_pending_worktree_fork_def
      intro!: with_pending_inv split: option.splits\<close>)

interpretation fork_queue: reducer_component reduce_fork fork_inv
  by unfold_locales (rule reduce_fork_inv)

subsection \<open>Request identifiers\<close>

definition fork_ids :: "app_state \<Rightarrow> u64 list" where
  "fork_ids s =
     (case pending_worktree_fork s of None \<Rightarrow> [] | Some p \<Rightarrow> [wf_request_id p])
     @ map wf_request_id (queued_worktree_forks s)"

definition fork_ids_inv :: "app_state \<Rightarrow> bool" where
  "fork_ids_inv s \<longleftrightarrow>
     distinct (fork_ids s) \<and> (\<forall>i \<in> set (fork_ids s). i < next_worktree_fork_request_id s)"

lemma next_request_id_less: "r \<noteq> -1 \<Longrightarrow> r < next_request_id r"
  by (simp add: next_request_id_def checked_succ_def word_less_nat_alt unat_plus_one)

lemma unat_next_request_id: "unat (next_request_id r) \<le> Suc (unat r)"
  by (simp add: next_request_id_def checked_succ_def unat_plus_one)

lemma start_next_ids:
  "fork_ids (fst (start_next_worktree_fork s)) = fork_ids s
   \<and> next_worktree_fork_request_id (fst (start_next_worktree_fork s))
     = next_worktree_fork_request_id s"
  by (auto simp: start_next_worktree_fork_def Let_def fork_ids_def split: option.splits list.splits)

lemma fork_task_ids:
  assumes "fork_inv s" and "next_worktree_fork_request_id s \<noteq> -1"
  shows "(fork_ids (fst (fork_task t w s)) = fork_ids s
          \<and> next_worktree_fork_request_id (fst (fork_task t w s)) = next_worktree_fork_request_id s)
       \<or> (fork_ids (fst (fork_task t w s)) = fork_ids s @ [next_worktree_fork_request_id s]
          \<and> next_worktree_fork_request_id (fst (fork_task t w s))
            = next_request_id (next_worktree_fork_request_id s))"
proof (cases "find (\<lambda>x. ts_id x = t) (tasks s)")
  case None
  then show ?thesis by (simp add: fork_task_def)
next
  case (Some task)
  then show ?thesis using assms(1)
    by (auto simp: fork_task_def Let_def start_next_ids fork_ids_def fork_inv_def
        start_next_worktree_fork_def split: option.splits)
qed

definition ids_shrink :: "app_state \<Rightarrow> app_state \<Rightarrow> bool" where
  "ids_shrink s s' \<longleftrightarrow>
     next_worktree_fork_request_id s' = next_worktree_fork_request_id s
     \<and> set (fork_ids s') \<subseteq> set (fork_ids s) \<and> (distinct (fork_ids s) \<longrightarrow> distinct (fork_ids s'))"

lemma ids_shrink_refl [simp]: "ids_shrink s s"
  by (simp add: ids_shrink_def)

lemma ids_shrink_with_pending:
  "(\<And>p. pending_worktree_fork s = Some p \<Longrightarrow> ids_shrink s (fst (body p))) \<Longrightarrow>
   ids_shrink s (fst (with_pending r phase_ok body s))"
  by (simp add: with_pending_def split: option.splits)

lemma ids_shrink_same_id:
  "pending_worktree_fork s = Some p \<Longrightarrow> wf_request_id p' = wf_request_id p \<Longrightarrow>
   ids_shrink s (s\<lparr>pending_worktree_fork := Some p', status_message := m\<rparr>)"
  by (simp add: ids_shrink_def fork_ids_def)

lemma ids_shrink_next:
  "pending_worktree_fork s = Some p \<Longrightarrow>
   ids_shrink s (fst (start_next_worktree_fork (s\<lparr>pending_worktree_fork := None\<rparr>)))
   \<and> ids_shrink s (fst (start_next_worktree_fork (s\<lparr>pending_worktree_fork := None, status_message := m\<rparr>)))"
  by (auto simp: ids_shrink_def start_next_ids) (auto simp: fork_ids_def)

lemma ids_shrink_cancel: "ids_shrink s (fst (cancel_pending_worktree_fork r s))"
proof (cases "position (\<lambda>p. wf_request_id p = r) (queued_worktree_forks s)")
  case None
  then show ?thesis unfolding cancel_pending_worktree_fork_def
    by (auto intro!: ids_shrink_with_pending ids_shrink_same_id)
next
  case (Some i)
  have "set (map wf_request_id (remove_at i (queued_worktree_forks s)))
      \<subseteq> set (map wf_request_id (queued_worktree_forks s))"
    using set_remove_at [of i "queued_worktree_forks s"] by auto
  moreover have "distinct (map wf_request_id (queued_worktree_forks s)) \<Longrightarrow>
      distinct (map wf_request_id (remove_at i (queued_worktree_forks s)))"
    by (simp add: map_remove_at distinct_remove_at)
  ultimately show ?thesis using Some
    by (auto simp: cancel_pending_worktree_fork_def ids_shrink_def fork_ids_def
        split: option.splits)
qed

text \<open>Every action but a fork request keeps or removes identifiers.\<close>

lemma reduce_fork_shrinks:
  "(\<exists>t w. reduce_fork s a = fork_task t w s) \<or> ids_shrink s (fst (reduce_fork s a))"
proof (cases a)
  case (RetryPendingWorktreeFork r)
  then show ?thesis
    by (auto simp: retry_pending_worktree_fork_def Let_def split: option.splits
        intro!: ids_shrink_with_pending ids_shrink_same_id)
qed (auto simp: ids_shrink_cancel ids_shrink_next worktree_fork_ready_def Let_def
      worktree_fork_creation_failed_def worktree_fork_conversation_failed_def
      worktree_fork_completed_def worktree_fork_cancelled_def worktree_fork_cancel_failed_def
      dismiss_pending_worktree_fork_def
      intro!: ids_shrink_with_pending ids_shrink_same_id split: option.splits)

lemma reduce_fork_ids:
  assumes inv: "fork_inv s" and ids: "fork_ids_inv s" and "next_worktree_fork_request_id s \<noteq> -1"
  shows "fork_ids_inv (fst (reduce_fork s a))
    \<and> unat (next_worktree_fork_request_id (fst (reduce_fork s a)))
      \<le> Suc (unat (next_worktree_fork_request_id s))"
  using reduce_fork_shrinks [of s a]
proof
  assume "ids_shrink s (fst (reduce_fork s a))"
  with ids show ?thesis by (auto simp: fork_ids_inv_def ids_shrink_def)
next
  assume "\<exists>t w. reduce_fork s a = fork_task t w s"
  then obtain t w where eq: "reduce_fork s a = fork_task t w s" by blast
  have less: "next_worktree_fork_request_id s < next_request_id (next_worktree_fork_request_id s)"
    by (rule next_request_id_less) fact
  have le: "unat (next_request_id (next_worktree_fork_request_id s))
      \<le> Suc (unat (next_worktree_fork_request_id s))" by (rule unat_next_request_id)
  from fork_task_ids [OF inv assms(3), of t w] show ?thesis
  proof
    assume "fork_ids (fst (fork_task t w s)) = fork_ids s
      \<and> next_worktree_fork_request_id (fst (fork_task t w s)) = next_worktree_fork_request_id s"
    with ids show ?thesis by (simp add: eq fork_ids_inv_def)
  next
    assume "fork_ids (fst (fork_task t w s)) = fork_ids s @ [next_worktree_fork_request_id s]
      \<and> next_worktree_fork_request_id (fst (fork_task t w s))
        = next_request_id (next_worktree_fork_request_id s)"
    with ids less le show ?thesis
      by (auto simp: eq fork_ids_inv_def dest: order.strict_trans)
  qed
qed

lemma run_fork_ids:
  "fork_inv s \<Longrightarrow> fork_ids_inv s \<Longrightarrow>
   unat (next_worktree_fork_request_id s) + length as < 2 ^ 64 \<Longrightarrow>
   fork_ids_inv (fst (run reduce_fork s as))"
proof (induction as arbitrary: s)
  case Nil
  then show ?case by simp
next
  case (Cons a as)
  have "next_worktree_fork_request_id s \<noteq> -1"
    using Cons.prems(3) by (auto simp: unat_minus_one_word)
  then have "fork_ids_inv (fst (reduce_fork s a))
    \<and> unat (next_worktree_fork_request_id (fst (reduce_fork s a)))
      \<le> Suc (unat (next_worktree_fork_request_id s))"
    by (intro reduce_fork_ids Cons.prems)
  then have "fork_ids_inv (fst (run reduce_fork (fst (reduce_fork s a)) as))"
    using Cons.prems by (intro Cons.IH reduce_fork_inv) auto
  then show ?case by (simp only: run_Cons_fst)
qed

end
