(* ===== verification/Fork_Progress.thy ===== *)
theory Fork_Progress
  imports Worktree_Forks
begin

text \<open>
  How the active worktree fork evolves: the edges of its phase machine, the phases in which it
  can stop being active, which fork follows it, and the properties of the fork queue.
\<close>

subsection \<open>The life of one fork\<close>

text \<open>The edges of the phase machine while a fork stays active.\<close>

inductive phase_step ::
  "pending_worktree_fork_phase \<Rightarrow> pending_worktree_fork_phase \<Rightarrow> bool" where
  created: "phase_step CreatingWorktree StartingConversation"
| created_late: "phase_step CancellingWorktree StartingConversation"
| creation_failed: "phase_step CreatingWorktree FailedCreatingWorktree"
| conversation_failed: "phase_step StartingConversation FailedStartingConversation"
| cancel: "phase_step CreatingWorktree CancellingWorktree"
| cancel_failed: "phase_step CancellingWorktree CreatingWorktree"
| retry_creation: "phase_step FailedCreatingWorktree CreatingWorktree"
| retry_conversation: "phase_step FailedStartingConversation StartingConversation"

inductive_cases phase_step_from_failed: "phase_step FailedStartingConversation ph"

text \<open>The phases in which a fork can stop being the active one.\<close>

definition may_leave :: "pending_worktree_fork_phase \<Rightarrow> bool" where
  "may_leave ph \<longleftrightarrow> ph = StartingConversation \<or> ph = CancellingWorktree \<or> phase_failed ph"

definition fork_progress :: "app_state \<Rightarrow> app_state \<Rightarrow> bool" where
  "fork_progress s s' \<longleftrightarrow>
     (\<forall>p. pending_worktree_fork s = Some p \<longrightarrow>
        (\<exists>p'. pending_worktree_fork s' = Some p' \<and> wf_request_id p' = wf_request_id p
              \<and> wf_source_task_id p' = wf_source_task_id p \<and> wf_source_cwd p' = wf_source_cwd p
              \<and> (wf_phase p' = wf_phase p \<or> phase_step (wf_phase p) (wf_phase p')))
        \<or> may_leave (wf_phase p)
          \<and> (case queued_worktree_forks s of
               [] \<Rightarrow> pending_worktree_fork s' = None
             | q # qs \<Rightarrow>
                 pending_worktree_fork s' =
                   Some (q\<lparr>wf_phase := CreatingWorktree, wf_error_message := None\<rparr>)
                 \<and> queued_worktree_forks s' = qs))"

lemma progress_refl: "fork_progress s s"
  by (simp add: fork_progress_def)

lemma progress_keep:
  "pending_worktree_fork s' = pending_worktree_fork s \<Longrightarrow> fork_progress s s'"
  by (simp add: fork_progress_def)

lemma progress_with_pending:
  "(\<And>p. pending_worktree_fork s = Some p \<Longrightarrow> phase_ok (wf_phase p) \<Longrightarrow> fork_progress s (fst (body p)))
   \<Longrightarrow> fork_progress s (fst (with_pending r phase_ok body s))"
  by (auto simp: with_pending_def progress_refl split: option.splits)

lemma progress_step:
  "pending_worktree_fork s = Some p \<Longrightarrow> wf_request_id p' = wf_request_id p \<Longrightarrow>
   wf_source_task_id p' = wf_source_task_id p \<Longrightarrow> wf_source_cwd p' = wf_source_cwd p \<Longrightarrow>
   phase_step (wf_phase p) (wf_phase p') \<Longrightarrow>
   fork_progress s (s\<lparr>pending_worktree_fork := Some p', status_message := m\<rparr>)"
  by (simp add: fork_progress_def)

lemma start_next_takes_head:
  assumes "pending_worktree_fork s = None" and "\<forall>q \<in> set (queued_worktree_forks s). queued_ok q"
  shows "case queued_worktree_forks s of
      [] \<Rightarrow> pending_worktree_fork (fst (start_next_worktree_fork s)) = None
    | q # qs \<Rightarrow> pending_worktree_fork (fst (start_next_worktree_fork s)) =
          Some (q\<lparr>wf_phase := CreatingWorktree, wf_error_message := None\<rparr>)
        \<and> queued_worktree_forks (fst (start_next_worktree_fork s)) = qs"
  using assms
  by (cases "queued_worktree_forks s")
    (simp_all add: start_next_worktree_fork_def Let_def queued_ok_def)

lemma progress_leave:
  assumes "fork_inv s" and "pending_worktree_fork s = Some p" and "may_leave (wf_phase p)"
    and "pending_worktree_fork s1 = None" and "queued_worktree_forks s1 = queued_worktree_forks s"
  shows "fork_progress s (fst (start_next_worktree_fork s1))"
proof -
  have "\<forall>q \<in> set (queued_worktree_forks s1). queued_ok q"
    using assms(1,5) by (simp add: fork_inv_def)
  from start_next_takes_head [OF assms(4) this] show ?thesis
    using assms(2,3,5) by (simp add: fork_progress_def)
qed

lemma progress_fork_task:
  assumes "fork_inv s"
  shows "fork_progress s (fst (fork_task t w s))"
proof (cases "find (\<lambda>x. ts_id x = t) (tasks s)")
  case None
  then show ?thesis by (simp add: fork_task_def progress_refl)
next
  case (Some task)
  show ?thesis
  proof (cases "pending_worktree_fork s")
    case None
    then show ?thesis by (simp add: fork_progress_def)
  next
    case (Some p)
    then have "pending_worktree_fork (fst (fork_task t w s)) = pending_worktree_fork s"
      by (simp add: fork_task_def Let_def split: option.splits)
    then show ?thesis by (rule progress_keep)
  qed
qed

lemma progress_cancel: "fork_progress s (fst (cancel_pending_worktree_fork r s))"
proof (cases "position (\<lambda>p. wf_request_id p = r) (queued_worktree_forks s)")
  case None
  then show ?thesis unfolding cancel_pending_worktree_fork_def
    by (auto intro!: progress_with_pending progress_step phase_step.cancel)
next
  case (Some i)
  then show ?thesis
    by (auto simp: cancel_pending_worktree_fork_def intro: progress_keep)
qed

lemma progress_retry:
  assumes "fork_inv s"
  shows "fork_progress s (fst (retry_pending_worktree_fork r s))"
  unfolding retry_pending_worktree_fork_def
proof (rule progress_with_pending)
  fix p
  assume p: "pending_worktree_fork s = Some p" and failed: "phase_failed (wf_phase p)"
  have "active_ok p" by (rule fork_inv_pending [OF assms p])
  with failed have "wf_phase p = (if wf_workspace_root p = None then FailedCreatingWorktree
      else FailedStartingConversation)"
    by (cases "wf_phase p") (auto simp: active_ok_def)
  with p show "fork_progress s (fst (let p1 = p\<lparr>wf_attempt := sat_succ (wf_attempt p), wf_error_message := None\<rparr>
       in case wf_workspace_root p of
            Some cwd \<Rightarrow>
              (s\<lparr>pending_worktree_fork := Some (p1\<lparr>wf_phase := StartingConversation\<rparr>),
                 status_message := Some (''Starting the conversation'' @ ellipsis)\<rparr>,
               [effect.RetryPendingWorktreeFork r (wf_source_task_id p) cwd
                  (wf_source_title p)])
          | None \<Rightarrow>
              (s\<lparr>pending_worktree_fork :=
                   Some (p1\<lparr>wf_phase := CreatingWorktree, wf_git_root := None\<rparr>),
                 status_message := Some (''Creating worktree'' @ ellipsis)\<rparr>,
               [effect.ForkTaskIntoWorktree r (wf_source_task_id p) (wf_source_cwd p)
                  (wf_source_title p) (wf_worktrees_root p)])))"
    by (cases "wf_workspace_root p")
      (auto simp: Let_def intro!: progress_step phase_step.intros)
qed

lemma reduce_fork_progress:
  assumes "fork_inv s"
  shows "fork_progress s (fst (reduce_fork s a))"
proof (cases a)
  case (PendingWorktreeForkReady r w g)
  then show ?thesis
    by (auto simp: worktree_fork_ready_def intro!: progress_with_pending progress_step
        phase_step.intros)
next
  case (PendingWorktreeForkCreationFailed r m)
  then show ?thesis
    by (auto simp: worktree_fork_creation_failed_def Let_def
        intro!: progress_with_pending progress_step phase_step.intros)
next
  case (PendingWorktreeForkConversationFailed r m)
  then show ?thesis
    by (auto simp: worktree_fork_conversation_failed_def Let_def
        intro!: progress_with_pending progress_step phase_step.intros)
next
  case (PendingWorktreeForkCancelFailed r m)
  then show ?thesis
    by (auto simp: worktree_fork_cancel_failed_def Let_def
        intro!: progress_with_pending progress_step phase_step.intros)
next
  case (PendingWorktreeForkCompleted r)
  then show ?thesis
    by (auto simp: worktree_fork_completed_def may_leave_def
        intro!: progress_with_pending progress_leave [OF assms])
next
  case (PendingWorktreeForkCancelled r)
  then show ?thesis
    by (auto simp: worktree_fork_cancelled_def may_leave_def
        intro!: progress_with_pending progress_leave [OF assms])
next
  case (DismissPendingWorktreeFork r)
  then show ?thesis
    by (auto simp: dismiss_pending_worktree_fork_def may_leave_def
        intro!: progress_with_pending progress_leave [OF assms])
qed (auto simp: progress_fork_task [OF assms] progress_refl progress_cancel
      progress_retry [OF assms] split: option.splits)

subsection \<open>Draining the queue\<close>

text \<open>
  The backend's successful script: each fork's worktree becomes ready and its conversation
  starts, in the order in which the forks wait.
\<close>

definition drain_script ::
  "path \<Rightarrow> path \<Rightarrow> pending_worktree_fork_rec list \<Rightarrow> fork_action list" where
  "drain_script w g ps =
     concat (map (\<lambda>p. [PendingWorktreeForkReady (wf_request_id p) w g,
                       PendingWorktreeForkCompleted (wf_request_id p)]) ps)"

text \<open>The forks whose worktree creation an effect list starts.\<close>

fun started_forks :: "effect list \<Rightarrow> u64 list" where
  "started_forks [] = []"
| "started_forks (effect.ForkTaskIntoWorktree r _ _ _ _ # es) = r # started_forks es"
| "started_forks (_ # es) = started_forks es"

lemma started_forks_append: "started_forks (xs @ ys) = started_forks xs @ started_forks ys"
  by (induction xs rule: started_forks.induct) auto

lemma drain_step:
  assumes inv: "fork_inv s" and p: "pending_worktree_fork s = Some p"
    and ph: "wf_phase p = CreatingWorktree"
    and s': "s' = fst (run reduce_fork s (drain_script w g [p]))"
  shows "fork_inv s'"
    and "started_forks (snd (run reduce_fork s (drain_script w g [p])))
      = map wf_request_id (take 1 (queued_worktree_forks s))"
    and "case queued_worktree_forks s of [] \<Rightarrow> pending_worktree_fork s' = None
      | q # qs \<Rightarrow> pending_worktree_fork s' =
            Some (q\<lparr>wf_phase := CreatingWorktree, wf_error_message := None\<rparr>)
          \<and> queued_worktree_forks s' = qs"
proof -
  show "fork_inv s'" unfolding s' by (rule fork_queue.run_inv [OF inv])
  have queued: "\<forall>q \<in> set (queued_worktree_forks s). queued_ok q"
    using inv by (simp add: fork_inv_def)
  show "started_forks (snd (run reduce_fork s (drain_script w g [p])))
      = map wf_request_id (take 1 (queued_worktree_forks s))"
    and "case queued_worktree_forks s of [] \<Rightarrow> pending_worktree_fork s' = None
      | q # qs \<Rightarrow> pending_worktree_fork s' =
            Some (q\<lparr>wf_phase := CreatingWorktree, wf_error_message := None\<rparr>)
          \<and> queued_worktree_forks s' = qs"
    using p ph queued
    by (cases "queued_worktree_forks s";
        simp add: s' drain_script_def worktree_fork_ready_def worktree_fork_completed_def
          with_pending_def start_next_worktree_fork_def queued_ok_def)+
qed

lemma drain_all:
  assumes "fork_inv s" and "pending_worktree_fork s = Some p" and "wf_phase p = CreatingWorktree"
  shows "pending_worktree_fork (fst (run reduce_fork s (drain_script w g (p # queued_worktree_forks s)))) = None
    \<and> queued_worktree_forks (fst (run reduce_fork s (drain_script w g (p # queued_worktree_forks s)))) = []
    \<and> started_forks (snd (run reduce_fork s (drain_script w g (p # queued_worktree_forks s))))
      = map wf_request_id (queued_worktree_forks s)"
  using assms
proof (induction "queued_worktree_forks s" arbitrary: s p)
  case Nil
  have "pending_worktree_fork (fst (run reduce_fork s (drain_script w g [p]))) = None"
    using drain_step(3) [OF Nil.prems refl, of w g] by (simp add: Nil.hyps [symmetric])
  moreover have "fork_inv (fst (run reduce_fork s (drain_script w g [p])))"
    using drain_step(1) [OF Nil.prems refl] .
  ultimately show ?case
    using drain_step(2) [OF Nil.prems refl, of w g]
    by (simp add: Nil.hyps [symmetric] fork_inv_def)
next
  case (Cons q qs)
  let ?q = "q\<lparr>wf_phase := CreatingWorktree, wf_error_message := None\<rparr>"
  let ?one = "run reduce_fork s (drain_script w g [p])"
  have mid: "pending_worktree_fork (fst ?one) = Some ?q" "queued_worktree_forks (fst ?one) = qs"
    using drain_step(3) [OF Cons.prems refl, of w g] by (simp_all add: Cons.hyps(2) [symmetric])
  have split: "drain_script w g (p # queued_worktree_forks s)
      = drain_script w g [p] @ drain_script w g (?q # qs)"
    by (simp add: drain_script_def Cons.hyps(2) [symmetric])
  have "fork_inv (fst ?one)" using drain_step(1) [OF Cons.prems refl] .
  from Cons.hyps(1) [OF mid(2) [symmetric] this mid(1)]
  show ?case using drain_step(2) [OF Cons.prems refl, of w g]
    by (simp only: split run_append run_append_snd started_forks_append mid(2))
      (simp add: Cons.hyps(2) [symmetric])
qed

subsection \<open>Late messages\<close>

text \<open>The actions that name a fork.\<close>

fun fork_action_id :: "fork_action \<Rightarrow> u64 option" where
  "fork_action_id (PendingWorktreeForkReady r _ _) = Some r"
| "fork_action_id (PendingWorktreeForkCreationFailed r _) = Some r"
| "fork_action_id (PendingWorktreeForkConversationFailed r _) = Some r"
| "fork_action_id (PendingWorktreeForkCompleted r) = Some r"
| "fork_action_id (PendingWorktreeForkCancelled r) = Some r"
| "fork_action_id (PendingWorktreeForkCancelFailed r _) = Some r"
| "fork_action_id (fork_action.CancelPendingWorktreeFork r) = Some r"
| "fork_action_id (fork_action.RetryPendingWorktreeFork r) = Some r"
| "fork_action_id (DismissPendingWorktreeFork r) = Some r"
| "fork_action_id _ = None"

lemma with_pending_stale: "r \<notin> set (fork_ids s) \<Longrightarrow> with_pending r phase_ok body s = (s, [])"
  by (auto simp: with_pending_def fork_ids_def split: option.splits)

lemma position_stale:
  "r \<notin> set (fork_ids s) \<Longrightarrow> position (\<lambda>p. wf_request_id p = r) (queued_worktree_forks s) = None"
  by (auto simp: position_None list_ex_iff fork_ids_def)

subsection \<open>Properties\<close>

text \<open>
  C9: the identifiers of the active and the waiting forks are pairwise distinct and below the
  counter after any run that is shorter than what the 64-bit counter has left.
\<close>

theorem fork_request_ids_unique:
  assumes "fork_inv s" and "fork_ids_inv s"
    and "unat (next_worktree_fork_request_id s) + length as < 2 ^ 64"
  shows "distinct (fork_ids (fst (run reduce_fork s as)))
    \<and> (\<forall>i \<in> set (fork_ids (fst (run reduce_fork s as))).
         i < next_worktree_fork_request_id (fst (run reduce_fork s as)))"
  using run_fork_ids [OF assms] by (simp add: fork_ids_inv_def)

text \<open>
  C10: one action either leaves the active fork in place, on an edge of its phase machine and
  with its identity, or ends it in a phase that may end, and then the head of the queue (if any)
  is the next active fork, started in the phase that creates its worktree.
\<close>

theorem fork_phase_machine:
  assumes "fork_inv s"
  shows "fork_progress s (fst (reduce_fork s a))"
  by (rule reduce_fork_progress [OF assms])

text \<open>
  C11: when every worktree is created and every conversation starts, the queue empties: the
  waiting forks are started exactly once each and in the order in which they were queued.
\<close>

theorem fork_queue_drains:
  assumes "fork_inv s" and "pending_worktree_fork s = Some p" and "wf_phase p = CreatingWorktree"
  shows "let (s', es) = run reduce_fork s (drain_script w g (p # queued_worktree_forks s))
    in fork_count s' = 0 \<and> started_forks es = map wf_request_id (queued_worktree_forks s)"
  using drain_all [OF assms, of w g] by (simp add: case_prod_beta Let_def fork_count_def)

text \<open>
  A message or a user action that names a fork which is neither active nor waiting changes
  nothing and starts no effect.
\<close>

theorem fork_stale_ignored:
  assumes "fork_action_id a = Some r" and "r \<notin> set (fork_ids s)"
  shows "reduce_fork s a = (s, [])"
  using assms
  by (cases a) (simp_all add: fork_handler_defs with_pending_stale
      position_stale split: option.splits)

subsection \<open>Witnesses\<close>

definition demo_task :: task_summary where
  "demo_task =
     \<lparr>ts_id = ''t1'', ts_title = ''Parser'', ts_preview = [], ts_cwd = ''/repo'', ts_created_at = 0,
      ts_updated_at = 0, ts_parent_task_id = None, ts_forked_from_id = None,
      ts_status = task_run_status.Idle\<rparr>"

definition demo_state :: app_state where
  "demo_state = default_app_state\<lparr>tasks := [demo_task], selected_task_id := Some ''t1''\<rparr>"

definition demo_forks :: "fork_action list" where
  "demo_forks = [ForkSelectedTaskIntoWorktree, fork_action.ForkTaskIntoWorktree ''t1'',
     fork_action.ForkTaskIntoWorktree ''t1'', fork_action.ForkTaskIntoWorktree ''t1'']"

lemmas demo_defs = demo_state_def demo_task_def demo_forks_def default_state_defs

lemma demo_fork_inv: "fork_inv demo_state \<and> fork_ids_inv demo_state"
  by (simp add: fork_inv_def fork_ids_inv_def fork_ids_def demo_defs
      MAX_PENDING_WORKTREE_FORKS_def)

lemma demo_forks_run:
  "fork_ids (fst (run reduce_fork demo_state demo_forks)) = [1, 2, 3]
   \<and> map_option wf_phase (pending_worktree_fork (fst (run reduce_fork demo_state demo_forks)))
     = Some CreatingWorktree"
  by (simp add: demo_defs fork_task_def start_next_worktree_fork_def Let_def is_absolute_def
      MAX_PENDING_WORKTREE_FORKS_def next_request_id_def checked_succ_def fork_ids_def)

theorem fork_request_ids_unique_witness:
  "distinct (fork_ids (fst (run reduce_fork demo_state demo_forks)))
   \<and> length (fork_ids (fst (run reduce_fork demo_state demo_forks))) = 3"
proof -
  have "unat (next_worktree_fork_request_id demo_state) + length demo_forks < 2 ^ 64"
    by (simp add: demo_defs)
  then show ?thesis
    using fork_request_ids_unique [of demo_state demo_forks] demo_fork_inv demo_forks_run by simp
qed

theorem fork_phase_machine_witness:
  "fork_progress (fst (run reduce_fork demo_state demo_forks))
     (fst (reduce_fork (fst (run reduce_fork demo_state demo_forks))
             (PendingWorktreeForkReady 1 ''/w'' ''/g'')))"
  using fork_phase_machine fork_queue.run_inv demo_fork_inv by blast

theorem fork_queue_drains_witness:
  "\<exists>s p. s = fst (run reduce_fork demo_state demo_forks) \<and> pending_worktree_fork s = Some p
     \<and> length (queued_worktree_forks s) = 2
     \<and> fork_count (fst (run reduce_fork s
           (drain_script ''/w'' ''/g'' (p # queued_worktree_forks s)))) = 0"
proof -
  let ?s = "fst (run reduce_fork demo_state demo_forks)"
  obtain p where p: "pending_worktree_fork ?s = Some p" "wf_phase p = CreatingWorktree"
    using demo_forks_run by (cases "pending_worktree_fork ?s") auto
  have inv: "fork_inv ?s" using fork_queue.run_inv demo_fork_inv by blast
  have "length (queued_worktree_forks ?s) = 2"
    using demo_forks_run p by (auto simp: fork_ids_def dest!: arg_cong [where f = length])
  with p fork_queue_drains [OF inv p, of "''/w''" "''/g''"] show ?thesis
    by (auto simp: case_prod_beta Let_def)
qed

theorem fork_stale_ignored_witness:
  "reduce_fork demo_state (PendingWorktreeForkCompleted 7) = (demo_state, [])"
  by (rule fork_stale_ignored [where r = 7]) (simp_all add: fork_ids_def demo_defs)

end
