(* ===== verification/Remote_Control.thy ===== *)
theory Remote_Control
  imports App_State Interfaces
begin

text \<open>
  Remote control of the app server (the \<open>remote_*\<close> helpers and the remote control actions of
  \<open>reduce\<close> in \<open>crates/codex-core/src/lib.rs\<close>): status, enabling, pairing and the device list.
  One request is busy at a time; its reply carries the generation that it was sent with, and a
  status change that arrives while a request is busy is deferred to a refresh after it.
\<close>

subsection \<open>Bounds\<close>

definition REMOTE_DEVICE_PAGE_LIMIT :: u32 where
  "REMOTE_DEVICE_PAGE_LIMIT = 64"

definition MAX_REMOTE_DEVICE_PAGE_ITEMS :: nat where
  "MAX_REMOTE_DEVICE_PAGE_ITEMS = 64"

definition MAX_REMOTE_DEVICES :: nat where
  "MAX_REMOTE_DEVICES = 256"

definition MAX_REMOTE_DEVICE_ID_BYTES :: nat where
  "MAX_REMOTE_DEVICE_ID_BYTES = 256"

definition MAX_REMOTE_DEVICE_LABEL_BYTES :: nat where
  "MAX_REMOTE_DEVICE_LABEL_BYTES = 512"

definition MAX_REMOTE_ENVIRONMENT_ID_BYTES :: nat where
  "MAX_REMOTE_ENVIRONMENT_ID_BYTES = 256"

definition MAX_REMOTE_PAIRING_CODE_BYTES :: nat where
  "MAX_REMOTE_PAIRING_CODE_BYTES = 512"

definition MAX_REMOTE_CURSOR_BYTES :: nat where
  "MAX_REMOTE_CURSOR_BYTES = 1024"

definition MAX_REMOTE_ERROR_BYTES :: nat where
  "MAX_REMOTE_ERROR_BYTES = 4 * 1024"

subsection \<open>Helpers\<close>

definition remote_control_permitted :: "app_state \<Rightarrow> bool" where
  "remote_control_permitted s \<longleftrightarrow>
     rc_policy_status (remote_control s) = load_status.Ready
     \<and> rc_managed_allow_remote_control (remote_control s) \<noteq> Some False"

definition remote_control_action_allowed :: "app_state \<Rightarrow> bool" where
  "remote_control_action_allowed s \<longleftrightarrow>
     remote_control_permitted s \<and> connection s = Online \<and> rc_busy (remote_control s) = None"

definition invalidate_remote_devices :: "remote_control_state \<Rightarrow> remote_control_state" where
  "invalidate_remote_devices r =
     r\<lparr>rc_devices_generation := sat_succ (rc_devices_generation r),
       rc_devices_status := load_status.Idle, rc_devices := [], rc_next_cursor := None,
       rc_pending_cursor := None, rc_loading_more := False\<rparr>"

definition invalidate_remote_pairing :: "remote_control_state \<Rightarrow> remote_control_state" where
  "invalidate_remote_pairing r =
     r\<lparr>rc_pairing_generation := sat_succ (rc_pairing_generation r), rc_pairing := None\<rparr>"

definition clear_remote_control_runtime :: "remote_control_state \<Rightarrow> remote_control_state" where
  "clear_remote_control_runtime r =
     invalidate_remote_devices (invalidate_remote_pairing
       (r\<lparr>rc_status_generation := sat_succ (rc_status_generation r),
          rc_mutation_generation := sat_succ (rc_mutation_generation r),
          rc_runtime_status := Disabled, rc_environment_id := None, rc_busy := None,
          rc_status_refresh_pending := False, rc_error := None\<rparr>))"

definition normalize_remote_environment_id :: "str \<Rightarrow> str option" where
  "normalize_remote_environment_id value =
     (if value \<noteq> [] \<and> length value \<le> MAX_REMOTE_ENVIRONMENT_ID_BYTES then Some value else None)"

definition normalize_remote_client_id :: "str \<Rightarrow> str option" where
  "normalize_remote_client_id value =
     (if value \<noteq> [] \<and> length value \<le> MAX_REMOTE_DEVICE_ID_BYTES then Some value else None)"

definition set_remote_control_runtime ::
  "remote_runtime_status \<Rightarrow> str option \<Rightarrow> remote_control_state \<Rightarrow> remote_control_state" where
  "set_remote_control_runtime status environment_id r =
     (let environment_id =
            (if status = Connected
             then Option.bind environment_id normalize_remote_environment_id else None);
          environment_changed = (rc_environment_id r \<noteq> environment_id);
          r1 = r\<lparr>rc_runtime_status := status, rc_environment_id := environment_id\<rparr>
      in if status \<noteq> Connected \<or> environment_changed
         then invalidate_remote_devices (invalidate_remote_pairing r1) else r1)"

definition normalize_remote_pairing :: "remote_pairing \<Rightarrow> remote_pairing option" where
  "normalize_remote_pairing p =
     (if rp_pairing_code p = [] \<or> length (rp_pairing_code p) > MAX_REMOTE_PAIRING_CODE_BYTES
         \<or> (case rp_manual_pairing_code p of None \<Rightarrow> False
             | Some code \<Rightarrow> code = [] \<or> length code > MAX_REMOTE_PAIRING_CODE_BYTES)
      then None
      else Option.bind (normalize_remote_environment_id (rp_environment_id p))
             (\<lambda>environment_id. Some (p\<lparr>rp_environment_id := environment_id\<rparr>)))"

definition normalize_remote_label :: "str option \<Rightarrow> str option" where
  "normalize_remote_label display_name =
     Option.bind display_name (\<lambda>name.
       let name = bounded_string (trim name) MAX_REMOTE_DEVICE_LABEL_BYTES
       in if name \<noteq> [] then Some name else None)"

text \<open>
  The \<open>filter_map\<close>: a device with an invalid identifier is dropped without being recorded, then
  the first device of each identifier is kept.
\<close>

definition normalize_remote_devices :: "remote_device list \<Rightarrow> remote_device list" where
  "normalize_remote_devices devices =
     take MAX_REMOTE_DEVICE_PAGE_ITEMS
       (map (\<lambda>d. d\<lparr>rd_display_name := normalize_remote_label (rd_display_name d)\<rparr>)
         (retain_first rd_client_id {}
           (filter (\<lambda>d. normalize_remote_client_id (rd_client_id d) \<noteq> None) devices)))"

definition bounded_remote_cursor :: "str option \<Rightarrow> str option" where
  "bounded_remote_cursor cursor =
     Option.bind cursor (\<lambda>c.
       if c \<noteq> [] \<and> length c \<le> MAX_REMOTE_CURSOR_BYTES then Some c else None)"

definition begin_remote_status_refresh :: "app_state \<Rightarrow> step_result" where
  "begin_remote_status_refresh s =
     (if \<not> remote_control_permitted s \<or> connection s \<noteq> Online then (s, [])
      else let r = remote_control s
           in if rc_busy r \<noteq> None
              then (s\<lparr>remote_control := r\<lparr>rc_status_refresh_pending := True\<rparr>\<rparr>, [])
              else let generation = sat_succ (rc_status_generation r)
                   in (s\<lparr>remote_control :=
                           r\<lparr>rc_status_generation := generation, rc_busy := Some (Status generation),
                             rc_status_refresh_pending := False\<rparr>\<rparr>,
                       [LoadRemoteControlStatus generation]))"

definition finish_remote_status_refresh_if_pending :: "app_state \<Rightarrow> step_result" where
  "finish_remote_status_refresh_if_pending s =
     (if rc_status_refresh_pending (remote_control s) then begin_remote_status_refresh s else (s, []))"

subsection \<open>Status\<close>

definition refresh_remote_control_status :: "app_state \<Rightarrow> step_result" where
  "refresh_remote_control_status s =
     begin_remote_status_refresh (s\<lparr>remote_control := (remote_control s)\<lparr>rc_error := None\<rparr>\<rparr>)"

definition remote_control_status_loaded ::
  "u64 \<Rightarrow> remote_runtime_status \<Rightarrow> str option \<Rightarrow> app_state \<Rightarrow> step_result" where
  "remote_control_status_loaded generation status environment_id s =
     (let r = remote_control s
      in if \<not> remote_control_permitted s \<or> rc_busy r \<noteq> Some (Status generation)
            \<or> rc_status_generation r \<noteq> generation
         then (s, [])
         else finish_remote_status_refresh_if_pending
                (s\<lparr>remote_control := set_remote_control_runtime status environment_id
                     (r\<lparr>rc_busy := None, rc_error := None\<rparr>)\<rparr>))"

definition remote_control_status_failed :: "u64 \<Rightarrow> str \<Rightarrow> app_state \<Rightarrow> step_result" where
  "remote_control_status_failed generation message s =
     (let r = remote_control s
      in if rc_busy r \<noteq> Some (Status generation) \<or> rc_status_generation r \<noteq> generation
         then (s, [])
         else finish_remote_status_refresh_if_pending
                (s\<lparr>remote_control :=
                     (invalidate_remote_devices (invalidate_remote_pairing
                       (r\<lparr>rc_busy := None, rc_runtime_status := Errored,
                          rc_environment_id := None\<rparr>)))
                       \<lparr>rc_error := Some (bounded_string message MAX_REMOTE_ERROR_BYTES)\<rparr>\<rparr>))"

definition remote_control_status_changed ::
  "remote_runtime_status \<Rightarrow> str option \<Rightarrow> app_state \<Rightarrow> step_result" where
  "remote_control_status_changed status environment_id s =
     (let r = remote_control s
      in if \<not> remote_control_permitted s \<or> connection s \<noteq> Online then (s, [])
         else if rc_busy r \<noteq> None
         then (s\<lparr>remote_control := r\<lparr>rc_status_refresh_pending := True\<rparr>\<rparr>, [])
         else (s\<lparr>remote_control := set_remote_control_runtime status environment_id
                   (r\<lparr>rc_status_generation := sat_succ (rc_status_generation r),
                      rc_error := None\<rparr>)\<rparr>, []))"

subsection \<open>Enabling and disabling\<close>

definition set_remote_enabled :: "bool \<Rightarrow> app_state \<Rightarrow> step_result" where
  "set_remote_enabled enabled s =
     (let r = remote_control s; generation = sat_succ (rc_mutation_generation r)
      in (s\<lparr>remote_control :=
              r\<lparr>rc_mutation_generation := generation,
                rc_busy := Some (SetEnabled generation enabled), rc_error := None\<rparr>\<rparr>,
          [SetRemoteControlEnabled generation enabled]))"

definition enable_remote_control :: "app_state \<Rightarrow> step_result" where
  "enable_remote_control s =
     (if \<not> remote_control_action_allowed s
         \<or> \<not> (rc_runtime_status (remote_control s) = Disabled
               \<or> rc_runtime_status (remote_control s) = Errored)
      then (s, []) else set_remote_enabled True s)"

definition disable_remote_control :: "app_state \<Rightarrow> step_result" where
  "disable_remote_control s =
     (if \<not> remote_control_action_allowed s \<or> rc_runtime_status (remote_control s) = Disabled
      then (s, []) else set_remote_enabled False s)"

definition remote_control_enabled_changed ::
  "u64 \<Rightarrow> bool \<Rightarrow> remote_runtime_status \<Rightarrow> str option \<Rightarrow> app_state \<Rightarrow> step_result" where
  "remote_control_enabled_changed generation enabled status environment_id s =
     (let r = remote_control s
      in if \<not> remote_control_permitted s \<or> rc_busy r \<noteq> Some (SetEnabled generation enabled)
            \<or> rc_mutation_generation r \<noteq> generation
         then (s, [])
         else finish_remote_status_refresh_if_pending
                (s\<lparr>remote_control := set_remote_control_runtime status environment_id
                     (r\<lparr>rc_busy := None, rc_error := None\<rparr>)\<rparr>))"

fun mutation_busy :: "u64 \<Rightarrow> remote_control_busy option \<Rightarrow> bool" where
  "mutation_busy generation (Some (SetEnabled g _)) = (g = generation)"
| "mutation_busy generation (Some (RevokeDevice g _)) = (g = generation)"
| "mutation_busy generation _ = False"

definition remote_control_mutation_failed :: "u64 \<Rightarrow> str \<Rightarrow> app_state \<Rightarrow> step_result" where
  "remote_control_mutation_failed generation message s =
     (let r = remote_control s
      in if \<not> mutation_busy generation (rc_busy r) \<or> rc_mutation_generation r \<noteq> generation
         then (s, [])
         else finish_remote_status_refresh_if_pending
                (s\<lparr>remote_control :=
                     r\<lparr>rc_busy := None,
                       rc_error := Some (bounded_string message MAX_REMOTE_ERROR_BYTES)\<rparr>\<rparr>))"

subsection \<open>Pairing\<close>

definition start_remote_pairing :: "bool \<Rightarrow> app_state \<Rightarrow> step_result" where
  "start_remote_pairing manual_code s =
     (let r = remote_control s; generation = sat_succ (rc_pairing_generation r)
      in if \<not> remote_control_action_allowed s \<or> rc_runtime_status r \<noteq> Connected
            \<or> rc_environment_id r = None
         then (s, [])
         else (s\<lparr>remote_control :=
                   r\<lparr>rc_pairing_generation := generation, rc_pairing := None,
                     rc_busy := Some (StartPairing generation), rc_error := None\<rparr>\<rparr>,
               [StartRemotePairing generation manual_code]))"

definition INVALID_PAIRING :: str where
  "INVALID_PAIRING = ''Remote pairing response was invalid.''"

definition remote_pairing_started :: "u64 \<Rightarrow> remote_pairing \<Rightarrow> app_state \<Rightarrow> step_result" where
  "remote_pairing_started generation pairing s =
     (let r = remote_control s;
          invalid = finish_remote_status_refresh_if_pending
            (s\<lparr>remote_control := r\<lparr>rc_busy := None, rc_error := Some INVALID_PAIRING\<rparr>\<rparr>)
      in if \<not> remote_control_permitted s \<or> rc_busy r \<noteq> Some (StartPairing generation)
            \<or> rc_pairing_generation r \<noteq> generation
         then (s, [])
         else case normalize_remote_pairing pairing of
                None \<Rightarrow> invalid
              | Some pairing \<Rightarrow>
                  if rc_runtime_status r \<noteq> Connected
                     \<or> rc_environment_id r \<noteq> Some (rp_environment_id pairing)
                  then invalid
                  else finish_remote_status_refresh_if_pending
                         (s\<lparr>remote_control :=
                              r\<lparr>rc_busy := None, rc_pairing := Some pairing, rc_error := None\<rparr>\<rparr>))"

definition check_remote_pairing :: "app_state \<Rightarrow> step_result" where
  "check_remote_pairing s =
     (let r = remote_control s
      in if \<not> remote_control_action_allowed s \<or> rc_runtime_status r \<noteq> Connected then (s, [])
         else case rc_pairing r of
                None \<Rightarrow> (s, [])
              | Some pairing \<Rightarrow>
                  if rc_environment_id r \<noteq> Some (rp_environment_id pairing) then (s, [])
                  else let generation = rc_pairing_generation r
                       in (s\<lparr>remote_control :=
                               r\<lparr>rc_busy := Some (CheckPairing generation), rc_error := None\<rparr>\<rparr>,
                           [CheckRemotePairing generation pairing]))"

definition remote_pairing_checked :: "u64 \<Rightarrow> bool \<Rightarrow> app_state \<Rightarrow> step_result" where
  "remote_pairing_checked generation claimed s =
     (let r = remote_control s
      in if rc_busy r \<noteq> Some (CheckPairing generation) \<or> rc_pairing_generation r \<noteq> generation
         then (s, [])
         else let r1 = r\<lparr>rc_busy := None, rc_error := None\<rparr>
              in finish_remote_status_refresh_if_pending
                   (s\<lparr>remote_control := (if claimed then invalidate_remote_pairing r1 else r1)\<rparr>))"

fun pairing_busy :: "remote_control_busy option \<Rightarrow> u64 option" where
  "pairing_busy (Some (StartPairing g)) = Some g"
| "pairing_busy (Some (CheckPairing g)) = Some g"
| "pairing_busy _ = None"

definition remote_pairing_failed :: "u64 \<Rightarrow> str \<Rightarrow> app_state \<Rightarrow> step_result" where
  "remote_pairing_failed generation message s =
     (let r = remote_control s
      in if pairing_busy (rc_busy r) \<noteq> Some generation \<or> rc_pairing_generation r \<noteq> generation
         then (s, [])
         else finish_remote_status_refresh_if_pending
                (s\<lparr>remote_control :=
                     (invalidate_remote_pairing (r\<lparr>rc_busy := None\<rparr>))
                       \<lparr>rc_error := Some (bounded_string message MAX_REMOTE_ERROR_BYTES)\<rparr>\<rparr>))"

definition close_remote_pairing :: "app_state \<Rightarrow> step_result" where
  "close_remote_pairing s =
     (let r = remote_control s;
          cancelled_busy_pairing = (pairing_busy (rc_busy r) \<noteq> None);
          r1 = (if cancelled_busy_pairing then r\<lparr>rc_busy := None\<rparr> else r);
          s1 = s\<lparr>remote_control := (invalidate_remote_pairing r1)\<lparr>rc_error := None\<rparr>\<rparr>
      in if cancelled_busy_pairing then finish_remote_status_refresh_if_pending s1 else (s1, []))"

subsection \<open>Devices\<close>

definition refresh_remote_devices :: "app_state \<Rightarrow> step_result" where
  "refresh_remote_devices s =
     (let r = remote_control s
      in if \<not> remote_control_action_allowed s \<or> rc_runtime_status r \<noteq> Connected
            \<or> rc_devices_status r = load_status.Loading
         then (s, [])
         else case rc_environment_id r of
                None \<Rightarrow> (s, [])
              | Some environment_id \<Rightarrow>
                  let generation = sat_succ (rc_devices_generation r)
                  in (s\<lparr>remote_control :=
                          r\<lparr>rc_devices_generation := generation,
                            rc_devices_status := load_status.Loading, rc_devices := [],
                            rc_next_cursor := None, rc_pending_cursor := None,
                            rc_loading_more := False, rc_error := None\<rparr>\<rparr>,
                      [LoadRemoteDevices generation environment_id None
                         REMOTE_DEVICE_PAGE_LIMIT False]))"

definition load_more_remote_devices :: "app_state \<Rightarrow> step_result" where
  "load_more_remote_devices s =
     (let r = remote_control s
      in if \<not> remote_control_action_allowed s \<or> rc_runtime_status r \<noteq> Connected
            \<or> rc_loading_more r \<or> rc_devices_status r \<noteq> load_status.Ready
            \<or> length (rc_devices r) \<ge> MAX_REMOTE_DEVICES
         then (s, [])
         else case (rc_environment_id r, rc_next_cursor r) of
                (Some environment_id, Some cursor) \<Rightarrow>
                  (s\<lparr>remote_control :=
                       r\<lparr>rc_loading_more := True, rc_pending_cursor := Some cursor,
                         rc_error := None\<rparr>\<rparr>,
                   [LoadRemoteDevices (rc_devices_generation r) environment_id (Some cursor)
                      REMOTE_DEVICE_PAGE_LIMIT True])
              | _ \<Rightarrow> (s, []))"

text \<open>The guard shared by the two replies of a device load.\<close>

definition devices_reply_current :: "u64 \<Rightarrow> str \<Rightarrow> remote_control_state \<Rightarrow> bool" where
  "devices_reply_current generation environment_id r \<longleftrightarrow>
     normalize_remote_environment_id environment_id \<noteq> None
     \<and> rc_devices_generation r = generation \<and> rc_runtime_status r = Connected
     \<and> rc_environment_id r = Some environment_id"

definition remote_devices_loaded ::
  "u64 \<Rightarrow> str \<Rightarrow> remote_device list \<Rightarrow> str option \<Rightarrow> bool \<Rightarrow> app_state \<Rightarrow> step_result" where
  "remote_devices_loaded generation environment_id devices next_cursor append_page s =
     (let r = remote_control s
      in if \<not> devices_reply_current generation environment_id r then (s, [])
         else let devices = normalize_remote_devices devices;
                  previous_len = length (rc_devices r);
                  all = (if append_page
                         then rc_devices r
                              @ retain_first rd_client_id (rd_client_id ` set (rc_devices r)) devices
                         else devices);
                  devices1 = take MAX_REMOTE_DEVICES all;
                  next_cursor = bounded_remote_cursor next_cursor;
                  no_progress = (append_page \<and> (length devices1 = previous_len
                                          \<or> rc_pending_cursor r = next_cursor))
              in (s\<lparr>remote_control :=
                      r\<lparr>rc_devices := devices1,
                        rc_next_cursor :=
                          (if \<not> no_progress \<and> length devices1 < MAX_REMOTE_DEVICES
                           then next_cursor else None),
                        rc_pending_cursor := None, rc_devices_status := load_status.Ready,
                        rc_loading_more := False, rc_error := None\<rparr>\<rparr>, []))"

definition remote_devices_failed ::
  "u64 \<Rightarrow> str \<Rightarrow> str \<Rightarrow> bool \<Rightarrow> app_state \<Rightarrow> step_result" where
  "remote_devices_failed generation environment_id message append_page s =
     (let r = remote_control s
      in if \<not> devices_reply_current generation environment_id r then (s, [])
         else let r1 = r\<lparr>rc_loading_more := False, rc_pending_cursor := None,
                         rc_error := Some (bounded_string message MAX_REMOTE_ERROR_BYTES)\<rparr>
              in (s\<lparr>remote_control :=
                      (if \<not> append_page
                       then r1\<lparr>rc_devices_status := load_status.Failed, rc_devices := [],
                               rc_next_cursor := None\<rparr>
                       else r1)\<rparr>, []))"

definition revoke_remote_device :: "str \<Rightarrow> app_state \<Rightarrow> step_result" where
  "revoke_remote_device client_id s =
     (let r = remote_control s
      in if \<not> remote_control_action_allowed s \<or> rc_runtime_status r \<noteq> Connected then (s, [])
         else case normalize_remote_client_id client_id of
                None \<Rightarrow> (s, [])
              | Some client_id \<Rightarrow>
                  (case rc_environment_id r of
                     None \<Rightarrow> (s, [])
                   | Some environment_id \<Rightarrow>
                       if \<not> list_ex (\<lambda>d. rd_client_id d = client_id) (rc_devices r) then (s, [])
                       else let generation = sat_succ (rc_mutation_generation r)
                            in (s\<lparr>remote_control :=
                                    r\<lparr>rc_devices_generation := sat_succ (rc_devices_generation r),
                                      rc_loading_more := False, rc_pending_cursor := None,
                                      rc_next_cursor := None,
                                      rc_mutation_generation := generation,
                                      rc_busy := Some (RevokeDevice generation client_id),
                                      rc_error := None\<rparr>\<rparr>,
                                [RevokeRemoteDevice generation environment_id client_id])))"

definition remote_device_revoked :: "u64 \<Rightarrow> str \<Rightarrow> str \<Rightarrow> app_state \<Rightarrow> step_result" where
  "remote_device_revoked generation environment_id client_id s =
     (let r = remote_control s
      in case (normalize_remote_environment_id environment_id,
               normalize_remote_client_id client_id) of
           (Some environment_id, Some client_id) \<Rightarrow>
             if rc_mutation_generation r \<noteq> generation
                \<or> rc_environment_id r \<noteq> Some environment_id
                \<or> rc_busy r \<noteq> Some (RevokeDevice generation client_id)
             then (s, [])
             else finish_remote_status_refresh_if_pending
                    (s\<lparr>remote_control :=
                         r\<lparr>rc_devices := filter (\<lambda>d. rd_client_id d \<noteq> client_id) (rc_devices r),
                           rc_busy := None, rc_error := None\<rparr>\<rparr>)
         | _ \<Rightarrow> (s, []))"

definition permission_profiles_failed :: "str \<Rightarrow> app_state \<Rightarrow> step_result" where
  "permission_profiles_failed message s =
     (s\<lparr>composer_controls :=
          (composer_controls s)\<lparr>cc_permission_profiles_status := load_status.Failed\<rparr>,
        remote_control :=
          clear_remote_control_runtime
            ((remote_control s)\<lparr>rc_policy_status := load_status.Failed\<rparr>),
        status_message := Some message\<rparr>, [])"

subsection \<open>Dispatch\<close>

datatype (plugins only: code size) remote_action =
    RefreshRemoteControlStatus
  | RemoteControlStatusLoaded u64 remote_runtime_status "str option"
  | RemoteControlStatusFailed u64 str
  | RemoteControlStatusChanged remote_runtime_status "str option"
  | EnableRemoteControl
  | DisableRemoteControl
  | RemoteControlEnabledChanged u64 bool remote_runtime_status "str option"
  | RemoteControlMutationFailed u64 str
  | StartRemotePairing bool
  | RemotePairingStarted u64 remote_pairing
  | CheckRemotePairing
  | RemotePairingChecked u64 bool
  | RemotePairingFailed u64 str
  | CloseRemotePairing
  | RefreshRemoteDevices
  | LoadMoreRemoteDevices
  | RemoteDevicesLoaded u64 str "remote_device list" "str option" bool
  | RemoteDevicesFailed u64 str str bool
  | RevokeRemoteDevice str
  | RemoteDeviceRevoked u64 str str
  | PermissionProfilesFailed str

fun reduce_remote :: "app_state \<Rightarrow> remote_action \<Rightarrow> step_result" where
  "reduce_remote s RefreshRemoteControlStatus = refresh_remote_control_status s"
| "reduce_remote s (RemoteControlStatusLoaded g st e) = remote_control_status_loaded g st e s"
| "reduce_remote s (RemoteControlStatusFailed g m) = remote_control_status_failed g m s"
| "reduce_remote s (RemoteControlStatusChanged st e) = remote_control_status_changed st e s"
| "reduce_remote s EnableRemoteControl = enable_remote_control s"
| "reduce_remote s DisableRemoteControl = disable_remote_control s"
| "reduce_remote s (RemoteControlEnabledChanged g b st e) = remote_control_enabled_changed g b st e s"
| "reduce_remote s (RemoteControlMutationFailed g m) = remote_control_mutation_failed g m s"
| "reduce_remote s (remote_action.StartRemotePairing b) = start_remote_pairing b s"
| "reduce_remote s (RemotePairingStarted g p) = remote_pairing_started g p s"
| "reduce_remote s remote_action.CheckRemotePairing = check_remote_pairing s"
| "reduce_remote s (RemotePairingChecked g b) = remote_pairing_checked g b s"
| "reduce_remote s (RemotePairingFailed g m) = remote_pairing_failed g m s"
| "reduce_remote s CloseRemotePairing = close_remote_pairing s"
| "reduce_remote s RefreshRemoteDevices = refresh_remote_devices s"
| "reduce_remote s LoadMoreRemoteDevices = load_more_remote_devices s"
| "reduce_remote s (RemoteDevicesLoaded g e ds c a) = remote_devices_loaded g e ds c a s"
| "reduce_remote s (RemoteDevicesFailed g e m a) = remote_devices_failed g e m a s"
| "reduce_remote s (remote_action.RevokeRemoteDevice c) = revoke_remote_device c s"
| "reduce_remote s (RemoteDeviceRevoked g e c) = remote_device_revoked g e c s"
| "reduce_remote s (PermissionProfilesFailed m) = permission_profiles_failed m s"

lemmas remote_handler_defs = refresh_remote_control_status_def remote_control_status_loaded_def
  remote_control_status_failed_def remote_control_status_changed_def enable_remote_control_def
  disable_remote_control_def remote_control_enabled_changed_def
  remote_control_mutation_failed_def start_remote_pairing_def remote_pairing_started_def
  check_remote_pairing_def remote_pairing_checked_def remote_pairing_failed_def
  close_remote_pairing_def refresh_remote_devices_def load_more_remote_devices_def
  remote_devices_loaded_def remote_devices_failed_def revoke_remote_device_def
  remote_device_revoked_def permission_profiles_failed_def

subsection \<open>Invariant\<close>

text \<open>The generation that the reply of a busy request is compared with.\<close>

fun busy_current :: "remote_control_busy \<Rightarrow> remote_control_state \<Rightarrow> bool" where
  "busy_current (Status g) r = (g = rc_status_generation r)"
| "busy_current (SetEnabled g _) r = (g = rc_mutation_generation r)"
| "busy_current (RevokeDevice g _) r = (g = rc_mutation_generation r)"
| "busy_current (remote_control_busy.StartPairing g) r =
     (g = rc_pairing_generation r \<and> rc_pairing r = None)"
| "busy_current (CheckPairing g) r = (g = rc_pairing_generation r \<and> rc_pairing r \<noteq> None)"

definition busy_ok :: "remote_control_state \<Rightarrow> bool" where
  "busy_ok r \<longleftrightarrow> (\<forall>b. rc_busy r = Some b \<longrightarrow> busy_current b r)"

definition link_ok :: "remote_control_state \<Rightarrow> bool" where
  "link_ok r \<longleftrightarrow>
     (case rc_environment_id r of None \<Rightarrow> rc_pairing r = None \<and> rc_devices r = []
      | Some e \<Rightarrow> rc_runtime_status r = Connected \<and> normalize_remote_environment_id e = Some e)
     \<and> (case rc_pairing r of None \<Rightarrow> True
        | Some p \<Rightarrow> rc_environment_id r = Some (rp_environment_id p)
                   \<and> normalize_remote_pairing p = Some p)"

definition device_ok :: "remote_device \<Rightarrow> bool" where
  "device_ok d \<longleftrightarrow>
     rd_client_id d \<noteq> [] \<and> length (rd_client_id d) \<le> MAX_REMOTE_DEVICE_ID_BYTES
     \<and> (\<forall>l. rd_display_name d = Some l \<longrightarrow> l \<noteq> [] \<and> length l \<le> MAX_REMOTE_DEVICE_LABEL_BYTES)"

definition devices_ok :: "remote_control_state \<Rightarrow> bool" where
  "devices_ok r \<longleftrightarrow>
     length (rc_devices r) \<le> MAX_REMOTE_DEVICES \<and> distinct (map rd_client_id (rc_devices r))
     \<and> (\<forall>d \<in> set (rc_devices r). device_ok d)
     \<and> (rc_devices_status r = load_status.Loading \<longrightarrow> rc_devices r = [])
     \<and> (rc_loading_more r \<longrightarrow> rc_devices_status r = load_status.Ready \<and> rc_pending_cursor r \<noteq> None)
     \<and> (length (rc_devices r) = MAX_REMOTE_DEVICES \<longrightarrow> rc_next_cursor r = None)
     \<and> bounded_remote_cursor (rc_next_cursor r) = rc_next_cursor r"

definition remote_ok :: "remote_control_state \<Rightarrow> bool" where
  "remote_ok r \<longleftrightarrow>
     busy_ok r \<and> link_ok r \<and> devices_ok r
     \<and> (\<forall>m. rc_error r = Some m \<longrightarrow> length m \<le> MAX_REMOTE_ERROR_BYTES)"

text \<open>A deferred refresh always has a busy request whose end starts it.\<close>

definition deferred_ok :: "app_state \<Rightarrow> bool" where
  "deferred_ok s \<longleftrightarrow>
     (remote_control_permitted s \<and> connection s = Online \<and> rc_status_refresh_pending (remote_control s)
      \<longrightarrow> rc_busy (remote_control s) \<noteq> None)"

definition remote_inv :: "app_state \<Rightarrow> bool" where
  "remote_inv s \<longleftrightarrow> remote_ok (remote_control s) \<and> deferred_ok s"

lemma busy_current_update [simp]:
  "busy_current b (r\<lparr>rc_error := e\<rparr>) = busy_current b r"
  "busy_current b (r\<lparr>rc_busy := b'\<rparr>) = busy_current b r"
  "busy_current b (r\<lparr>rc_status_refresh_pending := q\<rparr>) = busy_current b r"
  "busy_current b (r\<lparr>rc_devices_generation := n\<rparr>) = busy_current b r"
  "busy_current b (r\<lparr>rc_devices := ds\<rparr>) = busy_current b r"
  "busy_current b (r\<lparr>rc_devices_status := st\<rparr>) = busy_current b r"
  "busy_current b (r\<lparr>rc_next_cursor := c\<rparr>) = busy_current b r"
  "busy_current b (r\<lparr>rc_pending_cursor := c\<rparr>) = busy_current b r"
  "busy_current b (r\<lparr>rc_loading_more := l\<rparr>) = busy_current b r"
  by (cases b; simp)+

lemma link_ok_update [simp]:
  "link_ok (r\<lparr>rc_busy := b'\<rparr>) = link_ok r"
  "link_ok (r\<lparr>rc_error := e\<rparr>) = link_ok r"
  "link_ok (r\<lparr>rc_status_refresh_pending := q\<rparr>) = link_ok r"
  "link_ok (r\<lparr>rc_status_generation := n\<rparr>) = link_ok r"
  "link_ok (r\<lparr>rc_mutation_generation := n\<rparr>) = link_ok r"
  "link_ok (r\<lparr>rc_devices_generation := n\<rparr>) = link_ok r"
  "link_ok (r\<lparr>rc_pairing_generation := n\<rparr>) = link_ok r"
  "link_ok (r\<lparr>rc_devices_status := st\<rparr>) = link_ok r"
  "link_ok (r\<lparr>rc_next_cursor := c\<rparr>) = link_ok r"
  "link_ok (r\<lparr>rc_pending_cursor := c\<rparr>) = link_ok r"
  "link_ok (r\<lparr>rc_loading_more := l\<rparr>) = link_ok r"
  by (simp_all add: link_ok_def cong: option.case_cong)

lemma devices_ok_update [simp]:
  "devices_ok (r\<lparr>rc_busy := b'\<rparr>) = devices_ok r"
  "devices_ok (r\<lparr>rc_error := e\<rparr>) = devices_ok r"
  "devices_ok (r\<lparr>rc_status_refresh_pending := q\<rparr>) = devices_ok r"
  "devices_ok (r\<lparr>rc_status_generation := n\<rparr>) = devices_ok r"
  "devices_ok (r\<lparr>rc_mutation_generation := n\<rparr>) = devices_ok r"
  "devices_ok (r\<lparr>rc_devices_generation := n\<rparr>) = devices_ok r"
  "devices_ok (r\<lparr>rc_pairing_generation := n\<rparr>) = devices_ok r"
  "devices_ok (r\<lparr>rc_pairing := p\<rparr>) = devices_ok r"
  "devices_ok (r\<lparr>rc_runtime_status := st\<rparr>) = devices_ok r"
  "devices_ok (r\<lparr>rc_environment_id := c\<rparr>) = devices_ok r"
  by (simp_all add: devices_ok_def)

lemma max_remote_devices_pos [simp]: "0 < MAX_REMOTE_DEVICES" "MAX_REMOTE_DEVICES \<noteq> 0"
  by (simp_all add: MAX_REMOTE_DEVICES_def)

lemma bounded_remote_cursor_idem [simp]:
  "bounded_remote_cursor (bounded_remote_cursor c) = bounded_remote_cursor c"
  by (cases c) (simp_all add: bounded_remote_cursor_def)

lemma bounded_remote_cursor_None [simp]: "bounded_remote_cursor None = None"
  by (simp add: bounded_remote_cursor_def)

lemma normalize_environment_fixed:
  "normalize_remote_environment_id e = Some e' \<Longrightarrow> e' = e \<and> normalize_remote_environment_id e' = Some e'"
  by (auto simp: normalize_remote_environment_id_def split: if_splits)

lemma normalize_pairing_fixed:
  "normalize_remote_pairing p = Some p' \<Longrightarrow> p' = p \<and> normalize_remote_pairing p' = Some p'"
  by (auto simp: normalize_remote_pairing_def split: if_splits bind_splits
      dest: normalize_environment_fixed)

lemma normalize_devices_ok:
  "distinct (map rd_client_id (normalize_remote_devices ds))
   \<and> (\<forall>d \<in> set (normalize_remote_devices ds). device_ok d)"
proof -
  let ?f = "\<lambda>d. d\<lparr>rd_display_name := normalize_remote_label (rd_display_name d)\<rparr>"
  let ?ok = "\<lambda>d. normalize_remote_client_id (rd_client_id d) \<noteq> None"
  have keys: "map rd_client_id (map ?f xs) = map rd_client_id xs" for xs
    by simp
  have "distinct (map rd_client_id (map ?f (retain_first rd_client_id {} (filter ?ok ds))))"
    by (simp only: keys distinct_retain_first)
  then have "distinct (map rd_client_id (normalize_remote_devices ds))"
    unfolding normalize_remote_devices_def by (rule distinct_map_take)
  moreover have "device_ok (?f d)" if "?ok d" for d
    using that
    by (auto simp: device_ok_def normalize_remote_client_id_def normalize_remote_label_def Let_def
        split: if_splits bind_splits)
  then have "\<forall>d \<in> set (normalize_remote_devices ds). device_ok d"
    unfolding normalize_remote_devices_def
    using set_retain_first [of rd_client_id "{}" "filter ?ok ds"]
    by (fastforce dest: in_set_takeD)
  ultimately show ?thesis by blast
qed

subsection \<open>The helpers keep the invariant\<close>

lemma remote_ok_invalidate:
  assumes "link_ok r \<or> rc_environment_id r = None
      \<or> rc_runtime_status r = Connected
        \<and> Option.bind (rc_environment_id r) normalize_remote_environment_id = rc_environment_id r"
    and "rc_busy r = None" and "rc_error r = None"
  shows "remote_ok (invalidate_remote_devices (invalidate_remote_pairing r))"
  using assms
  by (auto simp: remote_ok_def busy_ok_def link_ok_def devices_ok_def invalidate_remote_devices_def
      invalidate_remote_pairing_def split: option.splits)

lemma remote_ok_clear: "remote_ok (clear_remote_control_runtime r)"
  unfolding clear_remote_control_runtime_def by (rule remote_ok_invalidate) simp_all

lemma remote_ok_set_runtime:
  assumes "remote_ok r" and "rc_busy r = None" and "rc_error r = None"
  shows "remote_ok (set_remote_control_runtime st e r)"
proof -
  let ?e = "if st = Connected then Option.bind e normalize_remote_environment_id else None"
  have fixed: "Option.bind ?e normalize_remote_environment_id = ?e"
    by (cases e) (auto split: bind_splits dest: normalize_environment_fixed)
  show ?thesis
  proof (cases "st \<noteq> Connected \<or> rc_environment_id r \<noteq> ?e")
    case True
    then have "set_remote_control_runtime st e r = invalidate_remote_devices
        (invalidate_remote_pairing (r\<lparr>rc_runtime_status := st, rc_environment_id := ?e\<rparr>))"
      by (auto simp: set_remote_control_runtime_def Let_def)
    moreover have "remote_ok \<dots>" by (rule remote_ok_invalidate) (use assms fixed in auto)
    ultimately show ?thesis by simp
  next
    case False
    with assms show ?thesis
      by (auto simp: set_remote_control_runtime_def Let_def remote_ok_def busy_ok_def link_ok_def
          devices_ok_def split: option.splits)
  qed
qed

lemma set_runtime_busy [simp]: "rc_busy (set_remote_control_runtime st e r) = rc_busy r"
  by (simp add: set_remote_control_runtime_def Let_def invalidate_remote_devices_def
      invalidate_remote_pairing_def)

text \<open>Updates that concern neither the busy request, the link nor the devices.\<close>

lemma remote_ok_idle:
  "remote_ok r \<Longrightarrow> (\<And>m. e = Some m \<Longrightarrow> length m \<le> MAX_REMOTE_ERROR_BYTES) \<Longrightarrow>
   remote_ok (r\<lparr>rc_busy := None, rc_error := e\<rparr>)"
  by (auto simp: remote_ok_def busy_ok_def link_ok_def devices_ok_def split: option.splits)

lemma remote_ok_error:
  "remote_ok r \<Longrightarrow> remote_ok (r\<lparr>rc_error := None\<rparr>)"
  by (auto simp: remote_ok_def busy_ok_def link_ok_def devices_ok_def split: option.splits)

lemma remote_ok_begin:
  "remote_ok (remote_control s) \<Longrightarrow> remote_ok (remote_control (fst (begin_remote_status_refresh s)))"
  by (auto simp: begin_remote_status_refresh_def Let_def remote_ok_def busy_ok_def link_ok_def
      devices_ok_def split: option.splits)

lemma deferred_begin: "deferred_ok (fst (begin_remote_status_refresh s))"
  by (auto simp: begin_remote_status_refresh_def Let_def deferred_ok_def
      remote_control_permitted_def)

lemma begin_inv: "remote_ok (remote_control s) \<Longrightarrow> remote_inv (fst (begin_remote_status_refresh s))"
  by (simp add: remote_inv_def remote_ok_begin deferred_begin)

lemma finish_inv:
  "remote_ok (remote_control s) \<Longrightarrow> remote_inv (fst (finish_remote_status_refresh_if_pending s))"
  by (cases "rc_status_refresh_pending (remote_control s)")
    (simp_all add: finish_remote_status_refresh_if_pending_def begin_inv,
     simp add: remote_inv_def deferred_ok_def)

subsection \<open>Every action keeps the invariant\<close>

lemma status_inv:
  assumes "remote_inv s"
  shows "remote_inv (fst (refresh_remote_control_status s))"
    and "remote_inv (fst (remote_control_status_loaded g st e s))"
    and "remote_inv (fst (remote_control_status_failed g m s))"
    and "remote_inv (fst (remote_control_status_changed st e s))"
proof -
  have ok: "remote_ok (remote_control s)" using assms by (simp add: remote_inv_def)
  show "remote_inv (fst (refresh_remote_control_status s))"
    unfolding refresh_remote_control_status_def by (rule begin_inv) (simp add: remote_ok_error ok)
  have idle: "remote_ok ((remote_control s)\<lparr>rc_busy := None, rc_error := None\<rparr>)"
    by (rule remote_ok_idle [OF ok]) simp
  show "remote_inv (fst (remote_control_status_loaded g st e s))"
    using assms remote_ok_set_runtime [OF idle]
    by (auto simp: remote_control_status_loaded_def Let_def intro!: finish_inv)
  let ?r = "(remote_control s)\<lparr>rc_busy := None, rc_runtime_status := Errored, rc_environment_id := None\<rparr>"
  have err: "remote_ok ((invalidate_remote_devices (invalidate_remote_pairing ?r))
      \<lparr>rc_error := Some (bounded_string m MAX_REMOTE_ERROR_BYTES)\<rparr>)"
    by (simp add: remote_ok_def busy_ok_def link_ok_def devices_ok_def
        invalidate_remote_devices_def invalidate_remote_pairing_def)
  show "remote_inv (fst (remote_control_status_failed g m s))"
    using assms err by (auto simp: remote_control_status_failed_def Let_def intro!: finish_inv)
  show "remote_inv (fst (remote_control_status_changed st e s))"
  proof (cases "\<not> remote_control_permitted s \<or> connection s \<noteq> Online")
    case True
    with assms show ?thesis by (simp add: remote_control_status_changed_def Let_def)
  next
    case online: False
    show ?thesis
    proof (cases "rc_busy (remote_control s)")
      case None
      let ?r1 = "(remote_control s)\<lparr>rc_status_generation := sat_succ (rc_status_generation (remote_control s)),
          rc_error := None\<rparr>"
      have "remote_ok ?r1" using ok None
        by (simp add: remote_ok_def busy_ok_def)
      then have "remote_ok (set_remote_control_runtime st e ?r1)"
        by (rule remote_ok_set_runtime) (simp_all add: None)
      with None online assms show ?thesis
        by (auto simp: remote_control_status_changed_def Let_def remote_inv_def deferred_ok_def
            remote_control_permitted_def set_remote_control_runtime_def
            invalidate_remote_devices_def invalidate_remote_pairing_def)
    next
      case (Some b)
      with ok have "remote_ok ((remote_control s)\<lparr>rc_status_refresh_pending := True\<rparr>)"
        by (simp add: remote_ok_def busy_ok_def)
      with Some online show ?thesis
        by (simp add: remote_control_status_changed_def Let_def remote_inv_def deferred_ok_def)
    qed
  qed
qed

lemma mutation_inv:
  assumes "remote_inv s"
  shows "remote_inv (fst (enable_remote_control s))"
    and "remote_inv (fst (disable_remote_control s))"
    and "remote_inv (fst (remote_control_enabled_changed g b st e s))"
    and "remote_inv (fst (remote_control_mutation_failed g m s))"
proof -
  have ok: "remote_ok (remote_control s)" using assms by (simp add: remote_inv_def)
  have set: "remote_inv (fst (set_remote_enabled v s))" for v
    using ok
    by (simp add: set_remote_enabled_def Let_def remote_inv_def deferred_ok_def remote_ok_def
        busy_ok_def)
  show "remote_inv (fst (enable_remote_control s))" "remote_inv (fst (disable_remote_control s))"
    using assms set by (simp_all add: enable_remote_control_def disable_remote_control_def)
  have idle: "remote_ok ((remote_control s)\<lparr>rc_busy := None, rc_error := None\<rparr>)"
    by (rule remote_ok_idle [OF ok]) simp
  show "remote_inv (fst (remote_control_enabled_changed g b st e s))"
    using assms remote_ok_set_runtime [OF idle]
    by (auto simp: remote_control_enabled_changed_def Let_def intro!: finish_inv)
  show "remote_inv (fst (remote_control_mutation_failed g m s))"
    using assms ok
    by (auto simp: remote_control_mutation_failed_def Let_def intro!: finish_inv remote_ok_idle)
qed

lemma pairing_inv:
  assumes "remote_inv s"
  shows "remote_inv (fst (start_remote_pairing b s))"
    and "remote_inv (fst (remote_pairing_started g p s))"
    and "remote_inv (fst (check_remote_pairing s))"
    and "remote_inv (fst (remote_pairing_checked g b s))"
    and "remote_inv (fst (remote_pairing_failed g m s))"
    and "remote_inv (fst (close_remote_pairing s))"
proof -
  have ok: "remote_ok (remote_control s)" using assms by (simp add: remote_inv_def)
  note parts = remote_ok_def busy_ok_def link_ok_def devices_ok_def
  show "remote_inv (fst (start_remote_pairing b s))"
    using assms ok
    by (auto simp: start_remote_pairing_def Let_def remote_inv_def deferred_ok_def parts
        split: option.splits)
  have stored: "remote_ok ((remote_control s)\<lparr>rc_busy := None, rc_pairing := Some q, rc_error := None\<rparr>)"
    if "normalize_remote_pairing p = Some q" "rc_environment_id (remote_control s) = Some (rp_environment_id q)" for q
    using ok that normalize_pairing_fixed [OF that(1)] by (auto simp: parts split: option.splits)
  show "remote_inv (fst (remote_pairing_started g p s))"
    using assms ok stored
    by (auto simp: remote_pairing_started_def Let_def INVALID_PAIRING_def MAX_REMOTE_ERROR_BYTES_def
        split: option.splits intro!: finish_inv remote_ok_idle)
  show "remote_inv (fst (check_remote_pairing s))"
    using assms ok
    by (auto simp: check_remote_pairing_def Let_def remote_inv_def deferred_ok_def parts
        split: option.splits)
  have unpaired: "remote_ok ((invalidate_remote_pairing ((remote_control s)\<lparr>rc_busy := None\<rparr>))\<lparr>rc_error := e\<rparr>)"
    if "\<And>m. e = Some m \<Longrightarrow> length m \<le> MAX_REMOTE_ERROR_BYTES" for e
    using ok that by (auto simp: parts invalidate_remote_pairing_def split: option.splits)
  have unpaired': "remote_ok (invalidate_remote_pairing ((remote_control s)\<lparr>rc_busy := None, rc_error := None\<rparr>))"
    using ok by (auto simp: parts invalidate_remote_pairing_def split: option.splits)
  show "remote_inv (fst (remote_pairing_checked g b s))"
    using assms ok unpaired'
    by (auto simp: remote_pairing_checked_def Let_def intro!: finish_inv remote_ok_idle)
  show "remote_inv (fst (remote_pairing_failed g m s))"
    using assms
    by (auto simp: remote_pairing_failed_def Let_def intro!: finish_inv unpaired)
  show "remote_inv (fst (close_remote_pairing s))"
  proof (cases "pairing_busy (rc_busy (remote_control s))")
    case None
    then have "remote_ok ((invalidate_remote_pairing (remote_control s))\<lparr>rc_error := None\<rparr>)"
      using ok
      by (cases "rc_busy (remote_control s)"; cases "the (rc_busy (remote_control s))")
        (auto simp: parts invalidate_remote_pairing_def split: option.splits)
    with None assms show ?thesis
      by (auto simp: close_remote_pairing_def Let_def remote_inv_def deferred_ok_def
          remote_control_permitted_def invalidate_remote_pairing_def)
  next
    case (Some g')
    then show ?thesis
      by (auto simp: close_remote_pairing_def Let_def intro!: finish_inv unpaired)
  qed
qed

lemma devices_load_inv:
  assumes "remote_inv s"
  shows "remote_inv (fst (refresh_remote_devices s))"
    and "remote_inv (fst (load_more_remote_devices s))"
    and "remote_inv (fst (remote_devices_failed g e m a s))"
proof -
  have ok: "busy_ok (remote_control s)" "link_ok (remote_control s)" "devices_ok (remote_control s)"
    using assms by (simp_all add: remote_inv_def remote_ok_def)
  note parts = remote_inv_def deferred_ok_def remote_control_permitted_def remote_ok_def busy_ok_def
  show "remote_inv (fst (refresh_remote_devices s))"
    using assms ok
    by (auto simp: refresh_remote_devices_def Let_def parts link_ok_def devices_ok_def
        split: option.splits)
  have "devices_ok ((remote_control s)\<lparr>rc_loading_more := True, rc_pending_cursor := Some c, rc_error := None\<rparr>)"
    if "rc_devices_status (remote_control s) = load_status.Ready" for c
    using ok(3) that by (simp add: devices_ok_def)
  then show "remote_inv (fst (load_more_remote_devices s))"
    using assms
    by (auto simp: load_more_remote_devices_def Let_def parts split: option.splits)
  show "remote_inv (fst (remote_devices_failed g e m a s))"
    using assms ok
    by (auto simp: remote_devices_failed_def Let_def parts link_ok_def devices_ok_def
        split: option.splits)
qed

text \<open>The device list after a page, whatever the page.\<close>

lemma page_appended_ok:
  assumes "distinct (map rd_client_id old)" and "\<forall>d \<in> set old. device_ok d"
    and "distinct (map rd_client_id new)" and "\<forall>d \<in> set new. device_ok d"
  defines "all \<equiv> old @ retain_first rd_client_id (rd_client_id ` set old) new"
  shows "distinct (map rd_client_id all) \<and> (\<forall>d \<in> set all. device_ok d)"
proof -
  have "rd_client_id ` set (retain_first rd_client_id (rd_client_id ` set old) new)
      \<inter> rd_client_id ` set old = {}"
    by (simp add: key_set_retain_first) blast
  then have "distinct (map rd_client_id all)"
    using assms(1) by (auto simp: all_def)
  moreover have "\<forall>d \<in> set all. device_ok d"
    using assms(2,4) set_retain_first [of rd_client_id "rd_client_id ` set old" new]
    by (auto simp: all_def)
  ultimately show ?thesis by blast
qed

lemma devices_loaded_inv:
  assumes "remote_inv s"
  shows "remote_inv (fst (remote_devices_loaded g e ds c a s))"
proof (cases "devices_reply_current g e (remote_control s)")
  case False
  with assms show ?thesis by (simp add: remote_devices_loaded_def Let_def)
next
  case True
  let ?r = "remote_control s"
  let ?new = "normalize_remote_devices ds"
  let ?all = "if a then rc_devices ?r @ retain_first rd_client_id (rd_client_id ` set (rc_devices ?r)) ?new
     else ?new"
  have old: "distinct (map rd_client_id (rc_devices ?r))" "\<forall>d \<in> set (rc_devices ?r). device_ok d"
    using assms by (simp_all add: remote_inv_def remote_ok_def devices_ok_def)
  have all: "distinct (map rd_client_id ?all)" "\<forall>d \<in> set ?all. device_ok d"
    using page_appended_ok [OF old] normalize_devices_ok [of ds] by auto
  let ?ds = "take MAX_REMOTE_DEVICES ?all"
  let ?c = "if \<not> (a \<and> (length ?ds = length (rc_devices ?r) \<or> rc_pending_cursor ?r = bounded_remote_cursor c))
      \<and> length ?ds < MAX_REMOTE_DEVICES then bounded_remote_cursor c else None"
  let ?r' = "?r\<lparr>rc_devices := ?ds, rc_next_cursor := ?c, rc_pending_cursor := None,
      rc_devices_status := load_status.Ready, rc_loading_more := False, rc_error := None\<rparr>"
  have eq: "fst (remote_devices_loaded g e ds c a s) = s\<lparr>remote_control := ?r'\<rparr>"
    using True by (simp only: remote_devices_loaded_def Let_def simp_thms if_False fst_conv)
  have "length ?ds = MAX_REMOTE_DEVICES \<longrightarrow> ?c = None" and "bounded_remote_cursor ?c = ?c"
    by (auto simp del: length_take split: if_split)
  moreover have "length ?ds \<le> MAX_REMOTE_DEVICES" and "distinct (map rd_client_id ?ds)"
    and "\<forall>d \<in> set ?ds. device_ok d"
    using all distinct_map_take by (simp, blast, meson in_set_takeD)
  ultimately have "devices_ok (?r\<lparr>rc_devices := D, rc_next_cursor := N, rc_pending_cursor := None,
      rc_devices_status := load_status.Ready, rc_loading_more := False, rc_error := None\<rparr>)"
    if "D = ?ds" and "N = ?c" for D N
    using that by (simp only: devices_ok_def) simp
  then have dev: "devices_ok ?r'" by blast
  have "link_ok (?r\<lparr>rc_devices := ds', rc_next_cursor := c', rc_pending_cursor := None,
      rc_devices_status := load_status.Ready, rc_loading_more := False, rc_error := None\<rparr>)" for ds' c'
    using assms True
    by (auto simp: remote_inv_def remote_ok_def link_ok_def devices_reply_current_def
        split: option.splits)
  then have link: "link_ok ?r'" by blast
  have "busy_ok ?r'" and "deferred_ok (s\<lparr>remote_control := ?r'\<rparr>)"
    using assms
    by (simp_all add: remote_inv_def remote_ok_def busy_ok_def deferred_ok_def
        remote_control_permitted_def del: if_image_distrib)
  with dev link show ?thesis
    unfolding eq by (simp add: remote_inv_def remote_ok_def)
qed

lemma devices_ok_filter:
  assumes "devices_ok r"
  shows "devices_ok (r\<lparr>rc_devices := filter p (rc_devices r), rc_busy := b, rc_error := e\<rparr>)"
proof -
  have le: "length (filter p (rc_devices r)) \<le> length (rc_devices r)"
    by (rule length_filter_le)
  moreover have "length (rc_devices r) \<le> MAX_REMOTE_DEVICES"
    using assms by (simp add: devices_ok_def)
  ultimately have "length (filter p (rc_devices r)) \<le> MAX_REMOTE_DEVICES"
    and "length (filter p (rc_devices r)) = MAX_REMOTE_DEVICES \<longrightarrow>
      length (rc_devices r) = MAX_REMOTE_DEVICES" by linarith+
  with assms show ?thesis by (auto simp: devices_ok_def distinct_map_filter)
qed

lemma revoke_inv:
  assumes "remote_inv s"
  shows "remote_inv (fst (revoke_remote_device c s))"
    and "remote_inv (fst (remote_device_revoked g e c s))"
    and "remote_inv (fst (permission_profiles_failed m s))"
proof -
  have ok: "busy_ok (remote_control s)" "link_ok (remote_control s)" "devices_ok (remote_control s)"
    using assms by (simp_all add: remote_inv_def remote_ok_def)
  have "devices_ok ((remote_control s)\<lparr>rc_devices_generation := n, rc_loading_more := False,
      rc_pending_cursor := None, rc_next_cursor := None, rc_mutation_generation := k, rc_busy := b,
      rc_error := None\<rparr>)" for n k b
    using ok(3) by (simp add: devices_ok_def)
  then show "remote_inv (fst (revoke_remote_device c s))"
    using assms ok
    by (auto simp: revoke_remote_device_def Let_def remote_inv_def deferred_ok_def remote_ok_def
        busy_ok_def split: option.splits)
  have "link_ok ((remote_control s)\<lparr>rc_devices := filter p (rc_devices (remote_control s)),
      rc_busy := None, rc_error := None\<rparr>)" for p
    using ok(2) by (auto simp: link_ok_def split: option.splits)
  moreover have "devices_ok ((remote_control s)\<lparr>rc_devices := filter p (rc_devices (remote_control s)),
      rc_busy := None, rc_error := None\<rparr>)" for p
    using ok(3) by (rule devices_ok_filter)
  ultimately have "remote_ok ((remote_control s)\<lparr>rc_devices := filter p (rc_devices (remote_control s)),
      rc_busy := None, rc_error := None\<rparr>)" for p
    by (simp add: remote_ok_def busy_ok_def)
  then show "remote_inv (fst (remote_device_revoked g e c s))"
    using assms
    by (auto simp: remote_device_revoked_def Let_def split: option.splits intro!: finish_inv)
  have "deferred_ok (fst (permission_profiles_failed m s))"
    by (simp add: permission_profiles_failed_def deferred_ok_def remote_control_permitted_def
        clear_remote_control_runtime_def invalidate_remote_devices_def
        invalidate_remote_pairing_def)
  then show "remote_inv (fst (permission_profiles_failed m s))"
    unfolding remote_inv_def by (simp add: permission_profiles_failed_def remote_ok_clear)
qed

lemma reduce_remote_inv: "remote_inv s \<Longrightarrow> remote_inv (fst (reduce_remote s a))"
  by (cases a) (simp_all add: status_inv mutation_inv pairing_inv devices_load_inv
      devices_loaded_inv revoke_inv)

interpretation remote: reducer_component reduce_remote remote_inv
  by unfold_locales (rule reduce_remote_inv)

end
