(* ===== verification/Remote_Properties.thy ===== *)
theory Remote_Properties
  imports Remote_Control
begin

text \<open>
  What the remote control component promises: its invariant over runs, that no request stays
  busy and no status change is lost, that a revoked device is gone whatever page arrives
  meanwhile, and that paging through the devices stops.
\<close>

subsection \<open>Failure replies\<close>

text \<open>The reply with which the backend reports that a busy request has failed.\<close>

fun failure_reply :: "remote_control_busy \<Rightarrow> str \<Rightarrow> remote_action" where
  "failure_reply (Status g) m = RemoteControlStatusFailed g m"
| "failure_reply (SetEnabled g _) m = RemoteControlMutationFailed g m"
| "failure_reply (RevokeDevice g _) m = RemoteControlMutationFailed g m"
| "failure_reply (remote_control_busy.StartPairing g) m = RemotePairingFailed g m"
| "failure_reply (CheckPairing g) m = RemotePairingFailed g m"

lemma begin_effects:
  "rc_busy (remote_control s) = None \<Longrightarrow> remote_control_permitted s \<Longrightarrow> connection s = Online \<Longrightarrow>
   snd (begin_remote_status_refresh s)
     = [LoadRemoteControlStatus (sat_succ (rc_status_generation (remote_control s)))]
   \<and> rc_busy (remote_control (fst (begin_remote_status_refresh s)))
     = Some (Status (sat_succ (rc_status_generation (remote_control s))))"
  by (simp add: begin_remote_status_refresh_def Let_def)

text \<open>A failure reply to the busy request ends in the deferred refresh, if there is one.\<close>

lemma failure_reply_accepted:
  assumes "remote_inv s" and "rc_busy (remote_control s) = Some b"
  obtains s1 where
    "reduce_remote s (failure_reply b m) = finish_remote_status_refresh_if_pending s1"
    "rc_busy (remote_control s1) = None"
    "rc_status_refresh_pending (remote_control s1) = rc_status_refresh_pending (remote_control s)"
    "rc_status_generation (remote_control s1) = rc_status_generation (remote_control s)"
    "remote_control_permitted s1 = remote_control_permitted s" "connection s1 = connection s"
proof -
  have cur: "busy_current b (remote_control s)"
    using assms by (simp add: remote_inv_def remote_ok_def busy_ok_def)
  note defs = remote_control_status_failed_def remote_control_mutation_failed_def
    remote_pairing_failed_def invalidate_remote_devices_def invalidate_remote_pairing_def
    remote_control_permitted_def
  show ?thesis
  proof (cases b)
    case (Status g)
    with assms(2) cur show ?thesis
      by (intro that [of "s\<lparr>remote_control := (invalidate_remote_devices (invalidate_remote_pairing
          ((remote_control s)\<lparr>rc_busy := None, rc_runtime_status := Errored, rc_environment_id := None\<rparr>)))
          \<lparr>rc_error := Some (bounded_string m MAX_REMOTE_ERROR_BYTES)\<rparr>\<rparr>"])
        (simp_all add: defs Let_def)
  next
    case (SetEnabled g e)
    with assms(2) cur show ?thesis
      by (intro that [of "s\<lparr>remote_control := (remote_control s)\<lparr>rc_busy := None,
          rc_error := Some (bounded_string m MAX_REMOTE_ERROR_BYTES)\<rparr>\<rparr>"])
        (simp_all add: defs Let_def)
  next
    case (RevokeDevice g e)
    with assms(2) cur show ?thesis
      by (intro that [of "s\<lparr>remote_control := (remote_control s)\<lparr>rc_busy := None,
          rc_error := Some (bounded_string m MAX_REMOTE_ERROR_BYTES)\<rparr>\<rparr>"])
        (simp_all add: defs Let_def)
  next
    case (StartPairing g)
    with assms(2) cur show ?thesis
      by (intro that [of "s\<lparr>remote_control := (invalidate_remote_pairing ((remote_control s)\<lparr>rc_busy := None\<rparr>))
          \<lparr>rc_error := Some (bounded_string m MAX_REMOTE_ERROR_BYTES)\<rparr>\<rparr>"])
        (simp_all add: defs Let_def)
  next
    case (CheckPairing g)
    with assms(2) cur show ?thesis
      by (intro that [of "s\<lparr>remote_control := (invalidate_remote_pairing ((remote_control s)\<lparr>rc_busy := None\<rparr>))
          \<lparr>rc_error := Some (bounded_string m MAX_REMOTE_ERROR_BYTES)\<rparr>\<rparr>"])
        (simp_all add: defs Let_def)
  qed
qed

subsection \<open>Paging through the devices\<close>

type_synonym device_page = "u64 \<times> str \<times> remote_device list \<times> str option"

text \<open>A page arrives as the answer to a page request, while that is outstanding.\<close>

fun device_page_arrives :: "device_page \<Rightarrow> app_state \<Rightarrow> app_state" where
  "device_page_arrives (g, e, ds, c) s =
     (if rc_loading_more (remote_control s) then fst (remote_devices_loaded g e ds c True s) else s)"

text \<open>
  How many page requests the list can still lead to: none without a cursor; otherwise each
  request must bring a new device or it is the last.
\<close>

definition device_requests_left :: "app_state \<Rightarrow> nat" where
  "device_requests_left s =
     (let r = remote_control s
      in if \<not> rc_loading_more r \<and> rc_next_cursor r = None then 0
         else MAX_REMOTE_DEVICES - length (rc_devices r) - (if rc_loading_more r then 1 else 0))"

lemma load_more_pays:
  "length (snd (load_more_remote_devices s)) + device_requests_left (fst (load_more_remote_devices s))
   \<le> device_requests_left s"
  by (auto simp: load_more_remote_devices_def device_requests_left_def Let_def split: option.splits)

lemma device_page_pays: "device_requests_left (device_page_arrives p s) \<le> device_requests_left s"
proof -
  obtain g e ds c where p: "p = (g, e, ds, c)" by (cases p) auto
  show ?thesis
  proof (cases "devices_reply_current g e (remote_control s) \<and> rc_loading_more (remote_control s)")
    case False
    then show ?thesis by (auto simp: p remote_devices_loaded_def Let_def)
  next
    case True
    let ?r = "remote_control s"
    let ?new = "retain_first rd_client_id (rd_client_id ` set (rc_devices ?r)) (normalize_remote_devices ds)"
    let ?len = "min (length (rc_devices ?r) + length ?new) MAX_REMOTE_DEVICES"
    have growth: "(if min (a + n) m = a then 0 else m - min (a + n) m) \<le> m - a - 1" for a n m :: nat
      by (auto simp: min_def)
    have "device_requests_left (device_page_arrives p s)
        \<le> (if ?len = length (rc_devices ?r) then 0 else MAX_REMOTE_DEVICES - ?len)"
      using True
      by (auto simp: p remote_devices_loaded_def Let_def device_requests_left_def min_def)
    also have "\<dots> \<le> MAX_REMOTE_DEVICES - length (rc_devices ?r) - 1"
      by (rule growth)
    also have "\<dots> = device_requests_left s"
      using True by (simp add: device_requests_left_def Let_def)
    finally show ?thesis .
  qed
qed

interpretation device_paging:
  bounded_paging load_more_remote_devices device_page_arrives device_requests_left
  by unfold_locales (rule load_more_pays, rule device_page_pays)

lemma device_requests_left_bound: "device_requests_left s \<le> MAX_REMOTE_DEVICES"
  by (simp add: device_requests_left_def Let_def)

subsection \<open>Properties\<close>

text \<open>
  C12: no request stays busy. The failure reply to whatever request is busy is accepted; after
  it the component is idle, or it has started the status refresh that was deferred.
\<close>

theorem remote_failure_frees:
  assumes "remote_inv s" and "rc_busy (remote_control s) = Some b"
  shows "case reduce_remote s (failure_reply b m) of (s', es) \<Rightarrow>
      (rc_busy (remote_control s') = None \<and> es = [])
    \<or> (rc_status_refresh_pending (remote_control s)
       \<and> (\<exists>g. rc_busy (remote_control s') = Some (Status g) \<and> es = [LoadRemoteControlStatus g]))"
proof -
  obtain s1 where "reduce_remote s (failure_reply b m) = finish_remote_status_refresh_if_pending s1"
    "rc_busy (remote_control s1) = None"
    "rc_status_refresh_pending (remote_control s1) = rc_status_refresh_pending (remote_control s)"
    using failure_reply_accepted [OF assms] by metis
  then show ?thesis
    by (auto simp: finish_remote_status_refresh_if_pending_def begin_remote_status_refresh_def Let_def)
qed


text \<open>
  C14: when the request to revoke a device is sent and then confirmed, exactly that device leaves
  the list, even if a page of devices that was requested before arrives in between.
\<close>

theorem remote_revoke_removes:
  assumes "snd (revoke_remote_device c s) = [effect.RevokeRemoteDevice g e c]"
    and "link_ok (remote_control s)" and "rc_devices_generation (remote_control s) \<noteq> -1"
  shows "rc_devices (remote_control (fst (run reduce_remote s
      [remote_action.RevokeRemoteDevice c,
       RemoteDevicesLoaded (rc_devices_generation (remote_control s)) e ds cur append_page,
       RemoteDeviceRevoked g e c])))
    = filter (\<lambda>d. rd_client_id d \<noteq> c) (rc_devices (remote_control s))"
proof -
  let ?r = "remote_control s"
  let ?g = "sat_succ (rc_mutation_generation ?r)"
  let ?r1 = "?r\<lparr>rc_devices_generation := sat_succ (rc_devices_generation ?r), rc_loading_more := False,
      rc_pending_cursor := None, rc_next_cursor := None, rc_mutation_generation := ?g,
      rc_busy := Some (RevokeDevice ?g c), rc_error := None\<rparr>"
  have allowed: "remote_control_action_allowed s" "rc_runtime_status ?r = Connected"
    using assms(1) by (auto simp: revoke_remote_device_def Let_def intro: ccontr)
  have c: "normalize_remote_client_id c = Some c"
    using assms(1) allowed
    by (cases "c \<noteq> [] \<and> length c \<le> MAX_REMOTE_DEVICE_ID_BYTES")
      (auto simp: revoke_remote_device_def Let_def normalize_remote_client_id_def)
  obtain e' where e': "rc_environment_id ?r = Some e'"
    using assms(1) c by (cases "rc_environment_id ?r") (simp_all add: allowed revoke_remote_device_def Let_def)
  have listed: "list_ex (\<lambda>d. rd_client_id d = c) (rc_devices ?r)"
    using assms(1) allowed c e' by (simp add: revoke_remote_device_def Let_def split: if_splits)
  have eqs: "fst (revoke_remote_device c s) = s\<lparr>remote_control := ?r1\<rparr>" "g = ?g"
    "rc_environment_id ?r = Some e" "normalize_remote_client_id c = Some c"
    using assms(1) allowed c e' listed by (simp_all add: revoke_remote_device_def Let_def)
  have env: "normalize_remote_environment_id e = Some e"
    using assms(2) eqs(3) by (simp add: link_ok_def)
  have "reduce_remote (s\<lparr>remote_control := ?r1\<rparr>)
      (RemoteDevicesLoaded (rc_devices_generation ?r) e ds cur append_page) = (s\<lparr>remote_control := ?r1\<rparr>, [])"
    using assms(3) by (simp add: remote_devices_loaded_def Let_def devices_reply_current_def)
  moreover have "rc_devices (remote_control (fst (reduce_remote (s\<lparr>remote_control := ?r1\<rparr>)
        (RemoteDeviceRevoked ?g e c))))
      = filter (\<lambda>d. rd_client_id d \<noteq> c) (rc_devices ?r)"
    using eqs(3,4) env
    by (simp add: remote_device_revoked_def Let_def finish_remote_status_refresh_if_pending_def
        begin_remote_status_refresh_def)
  ultimately show ?thesis
    using eqs(1,2) by (simp add: case_prod_beta Let_def)
qed

text \<open>
  C15: however the server answers, following its cursors sends no more page requests than
  there is room for devices.
\<close>

theorem device_paging_stops:
  "length (snd (paging load_more_remote_devices device_page_arrives pages s)) \<le> MAX_REMOTE_DEVICES"
  by (rule order_trans [OF device_paging.paging_bounded device_requests_left_bound])

subsection \<open>Witnesses\<close>

definition demo_remote :: app_state where
  "demo_remote = default_app_state\<lparr>connection := Online,
     remote_control := default_remote_control\<lparr>rc_policy_status := load_status.Ready,
       rc_runtime_status := Connected, rc_environment_id := Some ''env'',
       rc_devices_status := load_status.Ready,
       rc_devices := [\<lparr>rd_client_id = ''d1'', rd_display_name = None\<rparr>,
                      \<lparr>rd_client_id = ''d2'', rd_display_name = Some ''Phone''\<rparr>]\<rparr>\<rparr>"

lemmas demo_remote_defs = demo_remote_def default_state_defs

lemma demo_remote_inv: "remote_inv demo_remote"
  by (simp add: remote_inv_def remote_ok_def busy_ok_def link_ok_def devices_ok_def deferred_ok_def
      demo_remote_defs normalize_remote_environment_id_def device_ok_def
      MAX_REMOTE_ENVIRONMENT_ID_BYTES_def MAX_REMOTE_DEVICES_def MAX_REMOTE_DEVICE_ID_BYTES_def
      MAX_REMOTE_DEVICE_LABEL_BYTES_def)

lemma demo_remote_permitted: "remote_control_permitted demo_remote \<and> connection demo_remote = Online"
  by (simp add: remote_control_permitted_def demo_remote_defs)

definition demo_remote_busy :: app_state where
  "demo_remote_busy = fst (reduce_remote demo_remote RefreshRemoteControlStatus)"

lemma demo_remote_busy:
  "remote_inv demo_remote_busy" "rc_busy (remote_control demo_remote_busy) = Some (Status 1)"
  "remote_control_permitted demo_remote_busy" "connection demo_remote_busy = Online"
  "rc_status_generation (remote_control demo_remote_busy) = 1"
  "\<not> rc_status_refresh_pending (remote_control demo_remote_busy)"
proof -
  show "remote_inv demo_remote_busy"
    unfolding demo_remote_busy_def by (rule reduce_remote_inv [OF demo_remote_inv])
qed (simp_all add: demo_remote_busy_def refresh_remote_control_status_def
      begin_remote_status_refresh_def remote_control_permitted_def demo_remote_defs sat_succ_def)

theorem remote_failure_frees_witness:
  "case reduce_remote demo_remote_busy (RemoteControlStatusFailed 1 ''x'') of (s', es) \<Rightarrow>
     rc_busy (remote_control s') = None \<and> es = []"
  using remote_failure_frees [OF demo_remote_busy(1,2), of "''x''"] demo_remote_busy(6)
  by (simp add: case_prod_beta)


theorem remote_revoke_removes_witness:
  "rc_devices (remote_control (fst (run reduce_remote demo_remote
      [remote_action.RevokeRemoteDevice ''d1'',
       RemoteDevicesLoaded 0 ''env'' [\<lparr>rd_client_id = ''d3'', rd_display_name = None\<rparr>] None True,
       RemoteDeviceRevoked 1 ''env'' ''d1''])))
   = [\<lparr>rd_client_id = ''d2'', rd_display_name = Some ''Phone''\<rparr>]"
proof -
  have eff: "snd (revoke_remote_device ''d1'' demo_remote) = [effect.RevokeRemoteDevice 1 ''env'' ''d1'']"
    by (simp add: revoke_remote_device_def remote_control_action_allowed_def
        remote_control_permitted_def normalize_remote_client_id_def MAX_REMOTE_DEVICE_ID_BYTES_def
        demo_remote_defs sat_succ_def)
  have link: "link_ok (remote_control demo_remote)"
    using demo_remote_inv by (simp add: remote_inv_def remote_ok_def)
  have gen: "rc_devices_generation (remote_control demo_remote) = 0"
    by (simp add: demo_remote_defs)
  have devs: "filter (\<lambda>d. rd_client_id d \<noteq> ''d1'') (rc_devices (remote_control demo_remote))
      = [\<lparr>rd_client_id = ''d2'', rd_display_name = Some ''Phone''\<rparr>]"
    by (simp add: demo_remote_defs)
  from remote_revoke_removes [OF eff link] gen devs show ?thesis by simp
qed

end
