(* ===== verification/Limits.thy ===== *)
theory Limits
  imports Core_Types
begin

text \<open>
  The bounds of \<open>crates/codex-core/src/lib.rs\<close> that several components share; a bound used by
  one component only is defined with it.
\<close>

definition MAX_COMPOSER_BYTES :: nat where
  "MAX_COMPOSER_BYTES = 256 * 1024"

definition MAX_COMPOSER_ATTACHMENTS :: nat where
  "MAX_COMPOSER_ATTACHMENTS = 32"

definition MAX_ATTACHMENT_LABEL_BYTES :: nat where
  "MAX_ATTACHMENT_LABEL_BYTES = 512"

definition MAX_VISIBLE_THREADS :: nat where
  "MAX_VISIBLE_THREADS = 500"

definition MAX_COMPOSER_OPTIONS :: nat where
  "MAX_COMPOSER_OPTIONS = 64"

definition MAX_PINNED_TASKS :: nat where
  "MAX_PINNED_TASKS = 50"

definition MAX_PINNED_TASK_ID_BYTES :: nat where
  "MAX_PINNED_TASK_ID_BYTES = 256"

definition MAX_TASK_TITLE_BYTES :: nat where
  "MAX_TASK_TITLE_BYTES = 512"

end
