(* ===== verification/Timeline.thy ===== *)
theory Timeline
  imports App_State Interfaces Limits
begin

text \<open>
  The timeline of a task (\<open>impl TimelineState\<close>, \<open>impl ContextWindowUsage\<close> and the timeline
  actions of \<open>reduce\<close> in \<open>crates/codex-core/src/lib.rs\<close>): the bounded item list with its index
  from item identifiers to positions, streamed deltas, pages of history, the output artifacts and
  the context window usage. \<open>timeline.items[index]\<close> panics when the index is out of range: the
  operations that index return an option, \<open>None\<close> being the panic.
\<close>

subsection \<open>Bounds\<close>

definition MAX_TIMELINE_ITEMS :: nat where
  "MAX_TIMELINE_ITEMS = 2000"

definition MAX_TIMELINE_PAGINATION_PAGES :: nat where
  "MAX_TIMELINE_PAGINATION_PAGES = 32"

definition MAX_OUTPUT_ARTIFACTS :: nat where
  "MAX_OUTPUT_ARTIFACTS = 128"

subsection \<open>The item index\<close>

text \<open>\<open>entry(id).or_insert(index)\<close> for every item in turn.\<close>

fun index_items :: "nat \<Rightarrow> timeline_item list \<Rightarrow> (str \<rightharpoonup> nat) \<Rightarrow> (str \<rightharpoonup> nat)" where
  "index_items i [] m = m"
| "index_items i (x # xs) m = index_items (Suc i) xs (entry_or i (ti_id x) m)"

definition rebuild_item_indices :: "timeline_state \<Rightarrow> timeline_state" where
  "rebuild_item_indices t = t\<lparr>tl_item_indices := index_items 0 (tl_items t) Map.empty\<rparr>"

definition item_index :: "timeline_state \<Rightarrow> str \<Rightarrow> nat option" where
  "item_index t item_id = tl_item_indices t item_id"

definition trim_items :: "nat \<Rightarrow> timeline_state \<Rightarrow> timeline_state \<times> bool" where
  "trim_items limit t =
     (let overflow = length (tl_items t) - limit
      in if overflow = 0 then (t, False)
         else (rebuild_item_indices (t\<lparr>tl_items := drop overflow (tl_items t)\<rparr>), True))"

text \<open>\<open>items.push(item)\<close> with the trimming or the new index entry after it.\<close>

definition push_item :: "timeline_item \<Rightarrow> timeline_state \<Rightarrow> timeline_state" where
  "push_item item t =
     (let t1 = t\<lparr>tl_items := tl_items t @ [item]\<rparr>;
          (t2, trimmed) = trim_items MAX_TIMELINE_ITEMS t1
      in if trimmed then t2
         else t2\<lparr>tl_item_indices :=
                  (tl_item_indices t2)(ti_id item \<mapsto> length (tl_items t2) - 1)\<rparr>)"

subsection \<open>Output artifacts\<close>

definition artifact_key :: "output_artifact \<Rightarrow> str" where
  "artifact_key a = map (\<lambda>c. if c = CHR 0x5C then CHR ''/'' else c) (oa_path a)"

text \<open>The two nested loops, newest first, over the artifacts that the active turn may show.\<close>

definition artifact_candidates :: "timeline_state \<Rightarrow> output_artifact list" where
  "artifact_candidates t =
     concat (map (\<lambda>item.
       let active_turn = (tl_active_turn_id t = Some (ti_turn_id item))
       in filter (\<lambda>a. \<not> (active_turn \<and> oa_kind a \<noteq> GeneratedImage))
            (rev (ti_output_artifacts item))) (rev (tl_items t)))"

fun collect_artifacts ::
  "str set \<Rightarrow> output_artifact list \<Rightarrow> output_artifact list \<Rightarrow> output_artifact list" where
  "collect_artifacts seen artifacts [] = artifacts"
| "collect_artifacts seen artifacts (a # as) =
     (let key = artifact_key a
      in if key = [] \<or> key \<in> seen then collect_artifacts seen artifacts as
         else let artifacts1 = artifacts @ [a]
              in if length artifacts1 = MAX_OUTPUT_ARTIFACTS then artifacts1
                 else collect_artifacts (insert key seen) artifacts1 as)"

definition output_artifacts :: "timeline_state \<Rightarrow> output_artifact list" where
  "output_artifacts t = collect_artifacts {} [] (artifact_candidates t)"

subsection \<open>Context window usage\<close>

text \<open>
  \<open>u64::try_from\<close> of an \<open>i64\<close> fails on negative numbers. The percentages are computed in
  \<open>u128\<close> with saturating operations; \<open>None\<close> is the division by zero.
\<close>

definition u64_try_from :: "int \<Rightarrow> u64 option" where
  "u64_try_from i = (if i < 0 then None else Some (word_of_int i))"

definition from_last_turn :: "int \<Rightarrow> int option \<Rightarrow> context_window_usage option" where
  "from_last_turn last_total_tokens model_context_window =
     Option.bind model_context_window (\<lambda>w. Option.bind (u64_try_from w) (\<lambda>context_window.
       if context_window = 0 then None
       else Option.bind (u64_try_from last_total_tokens) (\<lambda>used.
         Some \<lparr>cw_used_tokens = min used context_window, cw_context_window = context_window\<rparr>)))"

definition sat_u128 :: "nat \<Rightarrow> nat" where
  "sat_u128 n = min n (2 ^ 128 - 1)"

definition rounded_share :: "nat \<Rightarrow> nat \<Rightarrow> nat option" where
  "rounded_share tokens window =
     (if window = 0 then None
      else Some (min (sat_u128 (sat_u128 (tokens * 100) + window div 2) div window) 100))"

definition rounded_percent :: "context_window_usage \<Rightarrow> nat option" where
  "rounded_percent u = rounded_share (unat (cw_used_tokens u)) (unat (cw_context_window u))"

definition rounded_remaining_percent :: "context_window_usage \<Rightarrow> nat option" where
  "rounded_remaining_percent u =
     rounded_share (unat (cw_context_window u) - unat (cw_used_tokens u)) (unat (cw_context_window u))"

subsection \<open>Handlers\<close>

abbreviation timeline_of :: "app_state \<Rightarrow> str \<Rightarrow> timeline_state" where
  "timeline_of s t \<equiv> get_or default_timeline t (timelines s)"

abbreviation set_timeline :: "str \<Rightarrow> timeline_state \<Rightarrow> app_state \<Rightarrow> app_state" where
  "set_timeline t v s \<equiv> s\<lparr>timelines := (timelines s)(t \<mapsto> v)\<rparr>"

definition load_more_timeline :: "app_state \<Rightarrow> step_result" where
  "load_more_timeline s =
     (case selected_task_id s of
        None \<Rightarrow> (s, [])
      | Some task_id \<Rightarrow>
          let tl = timeline_of s task_id
          in case tl_next_cursor tl of
               None \<Rightarrow> (set_timeline task_id tl s, [])
             | Some cursor \<Rightarrow>
                 if tl_status tl = load_status.Loading then (set_timeline task_id tl s, [])
                 else if tl_pagination_pages tl \<ge> MAX_TIMELINE_PAGINATION_PAGES
                         \<or> list_ex (\<lambda>seen. seen = cursor) (tl_pagination_cursors tl)
                 then (set_timeline task_id
                         (tl\<lparr>tl_next_cursor := None, tl_status := load_status.Ready\<rparr>) s, [])
                 else (set_timeline task_id
                         (tl\<lparr>tl_pagination_cursors := tl_pagination_cursors tl @ [cursor],
                             tl_pagination_pages := tl_pagination_pages tl + 1,
                             tl_status := load_status.Loading\<rparr>) s,
                       [LoadTimeline task_id (tl_generation tl) (Some cursor)]))"

definition timeline_loaded ::
  "str \<Rightarrow> u64 \<Rightarrow> timeline_item list \<Rightarrow> str option \<Rightarrow> bool \<Rightarrow> app_state \<Rightarrow> step_result" where
  "timeline_loaded task_id generation items next_cursor append_page s =
     (let tl = timeline_of s task_id
      in if generation \<noteq> tl_generation tl then (set_timeline task_id tl s, [])
         else let tl1 = (if append_page then tl\<lparr>tl_items := tl_items tl @ items\<rparr>
                         else tl\<lparr>tl_items := items, tl_pagination_cursors := [],
                                 tl_pagination_pages := 0\<rparr>);
                  (tl2, trimmed) = trim_items MAX_TIMELINE_ITEMS tl1;
                  tl3 = (if trimmed then tl2 else rebuild_item_indices tl2);
                  next_cursor = (case next_cursor of None \<Rightarrow> None
                    | Some cursor \<Rightarrow>
                        if tl_pagination_pages tl3 < MAX_TIMELINE_PAGINATION_PAGES
                           \<and> \<not> list_ex (\<lambda>seen. seen = cursor) (tl_pagination_cursors tl3)
                        then Some cursor else None)
              in (set_timeline task_id
                    (tl3\<lparr>tl_next_cursor := next_cursor, tl_status := load_status.Ready\<rparr>) s, []))"

definition timeline_failed :: "str \<Rightarrow> u64 \<Rightarrow> app_state \<Rightarrow> step_result" where
  "timeline_failed task_id generation s =
     (let tl = timeline_of s task_id
      in if generation = tl_generation tl
         then let tl1 = tl\<lparr>tl_status := load_status.Failed\<rparr>
              in (set_timeline task_id
                    (if tl_pagination_cursors tl1 \<noteq> []
                     then tl1\<lparr>tl_pagination_cursors := butlast (tl_pagination_cursors tl1),
                              tl_pagination_pages := tl_pagination_pages tl1 - 1\<rparr>
                     else tl1) s, [])
         else (set_timeline task_id tl s, []))"

definition thread_token_usage_updated :: "str \<Rightarrow> int \<Rightarrow> int option \<Rightarrow> app_state \<Rightarrow> step_result" where
  "thread_token_usage_updated task_id last_total_tokens model_context_window s =
     (set_timeline task_id
        ((timeline_of s task_id)
           \<lparr>tl_context_window_usage := from_last_turn last_total_tokens model_context_window\<rparr>) s, [])"

text \<open>An agent item of the active turn ends the chance to retry it.\<close>

definition agent_answered :: "timeline_kind \<Rightarrow> str \<Rightarrow> timeline_state \<Rightarrow> timeline_state" where
  "agent_answered kind turn_id v =
     (if kind = timeline_kind.Agent \<and> tl_active_turn_id v = Some turn_id
      then v\<lparr>tl_retryable_turn := None, tl_safety_buffering := None\<rparr> else v)"

definition append_delta :: "str \<Rightarrow> timeline_item \<Rightarrow> timeline_item" where
  "append_delta delta item =
     (if ti_kind item = timeline_kind.Command
      then item\<lparr>ti_detail := Some (append_bounded
                   (case ti_detail item of None \<Rightarrow> [] | Some d \<Rightarrow> d) delta MAX_COMPOSER_BYTES)\<rparr>
      else item\<lparr>ti_text := append_bounded (ti_text item) delta MAX_COMPOSER_BYTES\<rparr>)"

definition delta_item :: "str \<Rightarrow> str \<Rightarrow> timeline_kind \<Rightarrow> str \<Rightarrow> timeline_item" where
  "delta_item turn_id item_id kind delta =
     \<lparr>ti_id = item_id, ti_turn_id = turn_id, ti_kind = kind,
      ti_text = (if kind = timeline_kind.Command then ''Running command''
                 else bounded_string delta MAX_COMPOSER_BYTES),
      ti_detail = (if kind = timeline_kind.Command
                   then Some (bounded_string delta MAX_COMPOSER_BYTES) else None),
      ti_process_id = None, ti_memory_citations = [], ti_sources = [], ti_attachments = [],
      ti_output_artifacts = [], ti_edit_supported = False, ti_completed = False\<rparr>"

definition update_item_at ::
  "nat \<Rightarrow> (timeline_item \<Rightarrow> timeline_item) \<Rightarrow> timeline_state \<Rightarrow> timeline_state option" where
  "update_item_at index f v =
     (if index < length (tl_items v)
      then Some (v\<lparr>tl_items := (tl_items v)[index := f (tl_items v ! index)]\<rparr>) else None)"

definition timeline_delta ::
  "str \<Rightarrow> str \<Rightarrow> str \<Rightarrow> timeline_kind \<Rightarrow> str \<Rightarrow> app_state \<Rightarrow> step_result option" where
  "timeline_delta task_id turn_id item_id kind delta s =
     (let tl = agent_answered kind turn_id (timeline_of s task_id)
      in map_option (\<lambda>tl1. (set_timeline task_id tl1 s, []))
           (case item_index tl item_id of
              Some index \<Rightarrow> update_item_at index (append_delta delta) tl
            | None \<Rightarrow> Some (push_item (delta_item turn_id item_id kind delta) tl)))"

definition upsert_timeline_item :: "str \<Rightarrow> timeline_item \<Rightarrow> app_state \<Rightarrow> step_result option" where
  "upsert_timeline_item task_id item s =
     (let tl = agent_answered (ti_kind item) (ti_turn_id item) (timeline_of s task_id);
          tl1 = (if ti_kind item = ContextCompaction \<and> ti_completed item
                 then tl\<lparr>tl_compaction_in_flight := False\<rparr> else tl)
      in map_option (\<lambda>tl2. (set_timeline task_id tl2 s, []))
           (case item_index tl1 (ti_id item) of
              Some index \<Rightarrow> update_item_at index (\<lambda>_. item) tl1
            | None \<Rightarrow> Some (push_item item tl1)))"

definition timeline_item_completed :: "str \<Rightarrow> str \<Rightarrow> app_state \<Rightarrow> step_result option" where
  "timeline_item_completed task_id item_id s =
     (let tl = timeline_of s task_id
      in map_option (\<lambda>tl1. (set_timeline task_id tl1 s, []))
           (case item_index tl item_id of
              Some index \<Rightarrow>
                map_option (\<lambda>tl1.
                    if ti_kind (tl_items tl ! index) = ContextCompaction
                    then tl1\<lparr>tl_compaction_in_flight := False\<rparr> else tl1)
                  (update_item_at index (\<lambda>item. item\<lparr>ti_completed := True\<rparr>) tl)
            | None \<Rightarrow> Some tl))"

subsection \<open>Dispatch\<close>

datatype (plugins only: code size) timeline_action =
    LoadMoreTimeline
  | TimelineLoaded str u64 "timeline_item list" "str option" bool
  | TimelineFailed str u64
  | ThreadTokenUsageUpdated str int "int option"
  | TimelineDelta str str str timeline_kind str
  | UpsertTimelineItem str timeline_item
  | TimelineItemCompleted str str

fun reduce_timeline :: "app_state \<Rightarrow> timeline_action \<Rightarrow> step_result option" where
  "reduce_timeline s LoadMoreTimeline = Some (load_more_timeline s)"
| "reduce_timeline s (TimelineLoaded t g items c a) = Some (timeline_loaded t g items c a s)"
| "reduce_timeline s (TimelineFailed t g) = Some (timeline_failed t g s)"
| "reduce_timeline s (ThreadTokenUsageUpdated t n w) = Some (thread_token_usage_updated t n w s)"
| "reduce_timeline s (TimelineDelta t u i k d) = timeline_delta t u i k d s"
| "reduce_timeline s (UpsertTimelineItem t i) = upsert_timeline_item t i s"
| "reduce_timeline s (TimelineItemCompleted t i) = timeline_item_completed t i s"

subsection \<open>The index is exact\<close>

abbreviation first_at :: "str \<Rightarrow> timeline_item list \<Rightarrow> nat option" where
  "first_at key items \<equiv> position (\<lambda>x. ti_id x = key) items"

definition indices_ok :: "timeline_state \<Rightarrow> bool" where
  "indices_ok t \<longleftrightarrow> (\<forall>key. tl_item_indices t key = first_at key (tl_items t))"

lemma index_items_lookup:
  "index_items i xs m key =
     (case m key of Some j \<Rightarrow> Some j | None \<Rightarrow> map_option (\<lambda>j. i + j) (first_at key xs))"
proof (induction xs arbitrary: i m)
  case Nil
  then show ?case by (simp split: option.splits)
next
  case (Cons x xs)
  show ?case
    by (cases "first_at key xs")
      (auto simp: Cons.IH entry_or_def split: option.splits)
qed

lemma rebuild_ok [simp]: "indices_ok (rebuild_item_indices t)"
  by (simp add: indices_ok_def rebuild_item_indices_def index_items_lookup map_option_case
      split: option.split)

lemma rebuild_items [simp]: "tl_items (rebuild_item_indices t) = tl_items t"
  by (simp add: rebuild_item_indices_def)

lemma trim_items_spec:
  "tl_items (fst (trim_items n t)) = last_n n (tl_items t)"
  "snd (trim_items n t) \<longleftrightarrow> n < length (tl_items t)"
  by (auto simp: trim_items_def Let_def last_n_def)

lemma push_item_items:
  "tl_items (push_item item t) = last_n MAX_TIMELINE_ITEMS (tl_items t @ [item])"
  by (simp add: push_item_def Let_def case_prod_beta trim_items_spec)

lemma max_timeline_items_pos [simp]: "0 < MAX_TIMELINE_ITEMS"
  by (simp add: MAX_TIMELINE_ITEMS_def)

lemma push_item_indices:
  assumes "indices_ok t" and "item_index t (ti_id item) = None"
  shows "indices_ok (push_item item t)"
proof (cases "length (tl_items t) < MAX_TIMELINE_ITEMS")
  case True
  then have eq: "push_item item t = t\<lparr>tl_items := tl_items t @ [item],
      tl_item_indices := (tl_item_indices t)(ti_id item \<mapsto> length (tl_items t))\<rparr>"
    by (simp add: push_item_def trim_items_def Let_def)
  have "first_at key (tl_items t @ [item])
      = ((tl_item_indices t)(ti_id item \<mapsto> length (tl_items t))) key" for key
    using assms
    by (auto simp: position_append indices_ok_def item_index_def split: option.splits)
  with eq show ?thesis by (simp add: indices_ok_def)
next
  case False
  then show ?thesis by (simp add: push_item_def trim_items_def Let_def)
qed

lemma first_at_update:
  "i < length xs \<Longrightarrow> ti_id y = ti_id (xs ! i) \<Longrightarrow> first_at key (xs[i := y]) = first_at key xs"
proof (induction xs arbitrary: i)
  case Nil
  then show ?case by simp
next
  case (Cons x xs)
  then show ?case by (cases i) auto
qed

text \<open>An index that is found is in range, and it is the position of an item with that identifier.\<close>

lemma item_index_in_range:
  "indices_ok t \<Longrightarrow> item_index t key = Some i \<Longrightarrow>
   i < length (tl_items t) \<and> ti_id (tl_items t ! i) = key"
  using position_Some [of "\<lambda>x. ti_id x = key" "tl_items t" i] by (simp add: indices_ok_def item_index_def)

lemma update_item_defined:
  "indices_ok t \<Longrightarrow> item_index t key = Some i \<Longrightarrow>
   update_item_at i f t = Some (t\<lparr>tl_items := (tl_items t)[i := f (tl_items t ! i)]\<rparr>)"
  using item_index_in_range by (simp add: update_item_at_def)

lemma update_item_indices:
  "indices_ok t \<Longrightarrow> item_index t key = Some i \<Longrightarrow> ti_id (f (tl_items t ! i)) = key \<Longrightarrow>
   indices_ok (t\<lparr>tl_items := (tl_items t)[i := f (tl_items t ! i)]\<rparr>)"
  using item_index_in_range [of t key i] by (simp add: indices_ok_def first_at_update)

subsection \<open>Invariant\<close>

definition paging_ok :: "timeline_state \<Rightarrow> bool" where
  "paging_ok t \<longleftrightarrow>
     distinct (tl_pagination_cursors t) \<and> length (tl_pagination_cursors t) = tl_pagination_pages t
     \<and> tl_pagination_pages t \<le> MAX_TIMELINE_PAGINATION_PAGES"

definition usage_ok :: "timeline_state \<Rightarrow> bool" where
  "usage_ok t \<longleftrightarrow>
     (\<forall>u. tl_context_window_usage t = Some u \<longrightarrow>
        cw_context_window u \<noteq> 0 \<and> cw_used_tokens u \<le> cw_context_window u)"

definition timeline_ok :: "timeline_state \<Rightarrow> bool" where
  "timeline_ok t \<longleftrightarrow>
     indices_ok t \<and> length (tl_items t) \<le> MAX_TIMELINE_ITEMS \<and> paging_ok t \<and> usage_ok t"

definition timelines_ok :: "app_state \<Rightarrow> bool" where
  "timelines_ok s \<longleftrightarrow> (\<forall>t \<in> ran (timelines s). timeline_ok t)"

lemma default_timeline_ok [simp]: "timeline_ok default_timeline"
  by (simp add: timeline_ok_def indices_ok_def paging_ok_def usage_ok_def default_timeline_def)

lemma timeline_of_ok: "timelines_ok s \<Longrightarrow> timeline_ok (timeline_of s t)"
  unfolding timelines_ok_def by (rule get_or_ran) simp_all

lemma set_timeline_ok: "timelines_ok s \<Longrightarrow> timeline_ok v \<Longrightarrow> timelines_ok (set_timeline t v s)"
  by (auto simp: timelines_ok_def ran_def split: if_splits)

text \<open>Updates of fields that the invariant does not mention.\<close>

lemma timeline_ok_update [simp]:
  "timeline_ok (t\<lparr>tl_status := st\<rparr>) = timeline_ok t"
  "timeline_ok (t\<lparr>tl_next_cursor := c\<rparr>) = timeline_ok t"
  "timeline_ok (t\<lparr>tl_compaction_in_flight := b\<rparr>) = timeline_ok t"
  "timeline_ok (t\<lparr>tl_retryable_turn := r\<rparr>) = timeline_ok t"
  "timeline_ok (t\<lparr>tl_safety_buffering := sb\<rparr>) = timeline_ok t"
  "timeline_ok (t\<lparr>tl_active_turn_id := a\<rparr>) = timeline_ok t"
  "timeline_ok (t\<lparr>tl_active_review_turn_id := a\<rparr>) = timeline_ok t"
  "timeline_ok (t\<lparr>tl_interrupt_pending := b\<rparr>) = timeline_ok t"
  "timeline_ok (t\<lparr>tl_goal_continuation_pending := b\<rparr>) = timeline_ok t"
  "timeline_ok (t\<lparr>tl_last_turn_diff := d\<rparr>) = timeline_ok t"
  "timeline_ok (t\<lparr>tl_runtime_generation := g\<rparr>) = timeline_ok t"
  "timeline_ok (t\<lparr>tl_settings_generation := g\<rparr>) = timeline_ok t"
  "timeline_ok (t\<lparr>tl_runtime_status_loaded := b\<rparr>) = timeline_ok t"
  "timeline_ok (t\<lparr>tl_message_edit := e\<rparr>) = timeline_ok t"
  by (simp_all add: timeline_ok_def indices_ok_def paging_ok_def usage_ok_def)

lemma agent_answered_ok [simp]: "timeline_ok (agent_answered k u t) = timeline_ok t"
  by (simp add: agent_answered_def)

lemma push_item_ok:
  assumes "timeline_ok t" and "item_index t (ti_id item) = None"
  shows "timeline_ok (push_item item t)"
proof -
  have "paging_ok (push_item item t) = paging_ok t" and "usage_ok (push_item item t) = usage_ok t"
    by (simp_all add: push_item_def trim_items_def Let_def rebuild_item_indices_def paging_ok_def
        usage_ok_def)
  with assms show ?thesis
    by (simp add: timeline_ok_def push_item_indices push_item_items length_last_n)
qed

text \<open>Updating the item that the index finds neither panics nor breaks the invariant.\<close>

lemma update_item_ok:
  assumes "timeline_ok t" and "item_index t key = Some i" and "\<And>x. ti_id x = key \<Longrightarrow> ti_id (f x) = key"
  shows "\<exists>t'. update_item_at i f t = Some t' \<and> timeline_ok t'"
proof -
  have ix: "indices_ok t" using assms(1) by (simp add: timeline_ok_def)
  let ?t = "t\<lparr>tl_items := (tl_items t)[i := f (tl_items t ! i)]\<rparr>"
  have "indices_ok ?t"
    by (rule update_item_indices [OF ix assms(2)])
      (use item_index_in_range [OF ix assms(2)] assms(3) in blast)
  moreover have "paging_ok ?t = paging_ok t" and "usage_ok ?t = usage_ok t"
    by (simp_all add: paging_ok_def usage_ok_def)
  ultimately have "timeline_ok ?t" using assms(1) by (simp add: timeline_ok_def)
  with update_item_defined [OF ix assms(2)] show ?thesis by blast
qed

lemma from_last_turn_usage:
  "from_last_turn n w = Some u \<Longrightarrow> cw_context_window u \<noteq> 0 \<and> cw_used_tokens u \<le> cw_context_window u"
  by (auto simp: from_last_turn_def split: bind_splits if_splits)

subsection \<open>Every action keeps the invariant and does not panic\<close>

lemma loaded_ok:
  assumes "timeline_ok t"
    and t1: "t1 = (if a then t\<lparr>tl_items := tl_items t @ items\<rparr>
      else t\<lparr>tl_items := items, tl_pagination_cursors := [], tl_pagination_pages := 0\<rparr>)"
    and t2: "t2 = trim_items MAX_TIMELINE_ITEMS t1"
  shows "timeline_ok (if snd t2 then fst t2 else rebuild_item_indices (fst t2))"
proof -
  let ?t3 = "if snd t2 then fst t2 else rebuild_item_indices (fst t2)"
  have parts: "paging_ok t1" "usage_ok t1"
    using assms(1) by (auto simp: t1 timeline_ok_def paging_ok_def usage_ok_def)
  have "indices_ok ?t3" "paging_ok ?t3 = paging_ok t1" "usage_ok ?t3 = usage_ok t1"
    by (simp_all add: t2 trim_items_def Let_def)
      (simp_all add: rebuild_item_indices_def paging_ok_def usage_ok_def)
  moreover have "length (tl_items ?t3) \<le> MAX_TIMELINE_ITEMS"
    by (simp add: t2 trim_items_spec length_last_n)
  ultimately show ?thesis using parts by (simp add: timeline_ok_def)
qed

lemma paging_handlers_ok:
  assumes "timelines_ok s"
  shows "timelines_ok (fst (load_more_timeline s))"
    and "timelines_ok (fst (timeline_loaded t g items c a s))"
    and "timelines_ok (fst (timeline_failed t g s))"
    and "timelines_ok (fst (thread_token_usage_updated t n w s))"
proof -
  note ok = timeline_of_ok [OF assms]
  have requested: "timeline_ok (v\<lparr>tl_pagination_cursors := tl_pagination_cursors v @ [c],
      tl_pagination_pages := Suc (tl_pagination_pages v), tl_status := load_status.Loading\<rparr>)"
    if "timeline_ok v" "tl_pagination_pages v < MAX_TIMELINE_PAGINATION_PAGES"
      "c \<notin> set (tl_pagination_cursors v)" for v c
    using that by (simp add: timeline_ok_def indices_ok_def paging_ok_def usage_ok_def)
  show "timelines_ok (fst (load_more_timeline s))"
    using assms ok
    by (auto simp: load_more_timeline_def Let_def list_ex_iff split: option.splits
        intro!: set_timeline_ok requested)
  show "timelines_ok (fst (timeline_loaded t g items c a s))"
    using assms ok [of t] loaded_ok [OF ok [of t] refl refl, of a items]
    by (simp add: timeline_loaded_def Let_def case_prod_beta set_timeline_ok)
  have "timeline_ok (v\<lparr>tl_status := load_status.Failed,
      tl_pagination_cursors := butlast (tl_pagination_cursors v),
      tl_pagination_pages := tl_pagination_pages v - Suc 0\<rparr>)" if "timeline_ok v" for v
    using that
    by (auto simp: timeline_ok_def indices_ok_def paging_ok_def usage_ok_def distinct_butlast)
  then show "timelines_ok (fst (timeline_failed t g s))"
    using assms ok [of t]
    by (auto simp: timeline_failed_def Let_def intro!: set_timeline_ok)
  have "timeline_ok (v\<lparr>tl_context_window_usage := from_last_turn n w\<rparr>)" if "timeline_ok v" for v
    using that from_last_turn_usage [of n w]
    by (simp add: timeline_ok_def indices_ok_def paging_ok_def usage_ok_def)
  then show "timelines_ok (fst (thread_token_usage_updated t n w s))"
    using assms ok [of t] by (simp add: thread_token_usage_updated_def set_timeline_ok)
qed

text \<open>A result that is there and satisfies the invariant.\<close>

definition returns_ok :: "step_result option \<Rightarrow> bool" where
  "returns_ok r \<longleftrightarrow> (\<exists>s es. r = Some (s, es) \<and> timelines_ok s)"

lemma returns_ok_set:
  "timelines_ok s \<Longrightarrow> \<exists>v. r = Some v \<and> timeline_ok v \<Longrightarrow>
   returns_ok (map_option (\<lambda>v. (set_timeline t v s, [])) r)"
  by (auto simp: returns_ok_def set_timeline_ok)

lemma delta_ok: "timelines_ok s \<Longrightarrow> returns_ok (timeline_delta t u i k d s)"
  unfolding timeline_delta_def Let_def
  using timeline_of_ok [of s t]
  by (intro returns_ok_set)
    (auto split: option.split intro!: update_item_ok push_item_ok
      simp: append_delta_def delta_item_def)

lemma upsert_ok: "timelines_ok s \<Longrightarrow> returns_ok (upsert_timeline_item t i s)"
  unfolding upsert_timeline_item_def Let_def
  using timeline_of_ok [of s t]
  by (intro returns_ok_set) (auto split: option.split intro!: update_item_ok push_item_ok)

lemma completed_ok: "timelines_ok s \<Longrightarrow> returns_ok (timeline_item_completed t i s)"
proof -
  assume s: "timelines_ok s"
  have v: "timeline_ok (timeline_of s t)" by (rule timeline_of_ok [OF s])
  show ?thesis
  proof (cases "item_index (timeline_of s t) i")
    case None
    with s v show ?thesis
      by (simp add: timeline_item_completed_def Let_def returns_ok_def set_timeline_ok)
  next
    case (Some index)
    obtain v' where "update_item_at index (\<lambda>item. item\<lparr>ti_completed := True\<rparr>) (timeline_of s t)
        = Some v'" "timeline_ok v'"
      using update_item_ok [OF v Some, of "\<lambda>item. item\<lparr>ti_completed := True\<rparr>"] by auto
    with s Some show ?thesis
      by (simp add: timeline_item_completed_def Let_def returns_ok_def set_timeline_ok)
  qed
qed

lemma returns_ok_total: "timelines_ok (fst r) \<Longrightarrow> returns_ok (Some r)"
  by (cases r) (simp add: returns_ok_def)

lemma reduce_timeline_ok: "timelines_ok s \<Longrightarrow> returns_ok (reduce_timeline s a)"
  by (cases a) (simp_all add: delta_ok upsert_ok completed_ok returns_ok_total paging_handlers_ok)

text \<open>The component as a total step; by the lemma above the panic case is never taken.\<close>

definition timeline_step :: "app_state \<Rightarrow> timeline_action \<Rightarrow> step_result" where
  "timeline_step s a = (case reduce_timeline s a of None \<Rightarrow> (s, []) | Some r \<Rightarrow> r)"

lemma timeline_step_ok: "timelines_ok s \<Longrightarrow> timelines_ok (fst (timeline_step s a))"
  using reduce_timeline_ok [of s a] by (auto simp: returns_ok_def timeline_step_def)

interpretation timeline: reducer_component timeline_step timelines_ok
  by unfold_locales (rule timeline_step_ok)

subsection \<open>The item list as a bounded queue\<close>

interpretation timeline_queue: bounded_queue push_item tl_items MAX_TIMELINE_ITEMS
  by unfold_locales (rule push_item_items)

lemma upsert_new:
  assumes "timelines_ok s" and "ti_id item \<notin> ti_id ` set (tl_items (timeline_of s t))"
  shows "\<exists>s' es. upsert_timeline_item t item s = Some (s', es)
    \<and> tl_items (timeline_of s' t) = last_n MAX_TIMELINE_ITEMS (tl_items (timeline_of s t) @ [item])"
proof -
  have "indices_ok (timeline_of s t)"
    using timeline_of_ok [OF assms(1)] by (simp add: timeline_ok_def)
  with assms(2) have "tl_item_indices (timeline_of s t) (ti_id item) = None"
    by (auto simp: indices_ok_def position_None list_ex_iff image_iff)
  then show ?thesis
    by (simp add: upsert_timeline_item_def Let_def agent_answered_def item_index_def push_item_items)
qed

subsection \<open>Pages of history\<close>

type_synonym timeline_page = "str \<times> u64 \<times> timeline_item list \<times> str option"

fun timeline_page_arrives :: "timeline_page \<Rightarrow> app_state \<Rightarrow> app_state" where
  "timeline_page_arrives (t, g, items, c) s = fst (timeline_loaded t g items c True s)"

definition selected_timeline :: "app_state \<Rightarrow> timeline_state" where
  "selected_timeline s =
     (case selected_task_id s of None \<Rightarrow> default_timeline | Some t \<Rightarrow> timeline_of s t)"

lemma timeline_loaded_append:
  "tl_pagination_cursors (timeline_of (fst (timeline_loaded t g items c True s)) t')
     = tl_pagination_cursors (timeline_of s t')
   \<and> tl_pagination_pages (timeline_of (fst (timeline_loaded t g items c True s)) t')
     = tl_pagination_pages (timeline_of s t')
   \<and> selected_task_id (fst (timeline_loaded t g items c True s)) = selected_task_id s"
  by (cases "t' = t")
    (auto simp: timeline_loaded_def Let_def trim_items_def rebuild_item_indices_def)

interpretation timeline_paging:
  cursor_pagination "\<lambda>s. tl_pagination_cursors (selected_timeline s)"
    "\<lambda>s. tl_pagination_pages (selected_timeline s)" MAX_TIMELINE_PAGINATION_PAGES
    load_more_timeline timeline_page_arrives
proof
  fix s :: app_state and p :: timeline_page
  obtain t g items c where p: "p = (t, g, items, c)" by (cases p) auto
  show "tl_pagination_pages (selected_timeline (timeline_page_arrives p s))
      = tl_pagination_pages (selected_timeline s)"
    and "tl_pagination_cursors (selected_timeline (timeline_page_arrives p s))
      = tl_pagination_cursors (selected_timeline s)"
    by (simp_all add: p selected_timeline_def timeline_loaded_append split: option.split)
next
  fix s :: app_state
  show "length (snd (load_more_timeline s)) = 1
      \<and> tl_pagination_pages (selected_timeline s) < MAX_TIMELINE_PAGINATION_PAGES
      \<and> tl_pagination_pages (selected_timeline (fst (load_more_timeline s)))
        = Suc (tl_pagination_pages (selected_timeline s))
      \<and> (\<exists>c. c \<notin> set (tl_pagination_cursors (selected_timeline s))
           \<and> tl_pagination_cursors (selected_timeline (fst (load_more_timeline s)))
             = tl_pagination_cursors (selected_timeline s) @ [c])"
    if "snd (load_more_timeline s) \<noteq> []"
    using that
    by (auto simp: load_more_timeline_def selected_timeline_def Let_def list_ex_iff
        split: option.splits if_splits)
  show "tl_pagination_pages (selected_timeline (fst (load_more_timeline s)))
        = tl_pagination_pages (selected_timeline s)
      \<and> tl_pagination_cursors (selected_timeline (fst (load_more_timeline s)))
        = tl_pagination_cursors (selected_timeline s)"
    if "snd (load_more_timeline s) = []"
    using that
    by (auto simp: load_more_timeline_def selected_timeline_def Let_def
        split: option.splits if_splits)
qed

end
