(* ===== verification/Timeline_Properties.thy ===== *)
theory Timeline_Properties
  imports Timeline
begin

text \<open>
  What the timeline promises: an exact item index and no panic, the newest 2000 items kept,
  bounded paging, the output artifacts as distinct newest files, and context window percentages
  that round and add up.
\<close>

subsection \<open>Output artifacts\<close>

lemma collect_artifacts_spec:
  "length acc < MAX_OUTPUT_ARTIFACTS \<Longrightarrow>
   collect_artifacts seen acc as
     = take MAX_OUTPUT_ARTIFACTS (acc @ retain_first artifact_key (insert [] seen) as)"
proof (induction seen acc as rule: collect_artifacts.induct)
  case (1 seen acc)
  then show ?case by simp
next
  case (2 seen acc a as)
  show ?case
  proof (cases "artifact_key a = [] \<or> artifact_key a \<in> seen")
    case True
    with 2 show ?thesis by (auto simp: Let_def)
  next
    case new: False
    show ?thesis
    proof (cases "length (acc @ [a]) = MAX_OUTPUT_ARTIFACTS")
      case True
      then have "MAX_OUTPUT_ARTIFACTS - length acc = Suc 0" by simp
      with new True show ?thesis by (simp add: Let_def)
    next
      case False
      with "2.prems" have len: "length (acc @ [a]) < MAX_OUTPUT_ARTIFACTS" by simp
      from 2(2) [OF refl new refl False len] new False show ?thesis
        by (simp add: Let_def insert_commute)
    qed
  qed
qed

lemma output_artifacts_spec:
  "output_artifacts t
     = take MAX_OUTPUT_ARTIFACTS (retain_first artifact_key {[]} (artifact_candidates t))"
  by (simp add: output_artifacts_def collect_artifacts_spec MAX_OUTPUT_ARTIFACTS_def)

lemma artifact_candidates_finished:
  "a \<in> set (artifact_candidates t) \<Longrightarrow>
   \<exists>item \<in> set (tl_items t). a \<in> set (ti_output_artifacts item)
     \<and> (tl_active_turn_id t = Some (ti_turn_id item) \<longrightarrow> oa_kind a = GeneratedImage)"
  by (auto simp: artifact_candidates_def Let_def)

lemma disjoint_from_insert: "C \<subseteq> insert k B \<Longrightarrow> k \<notin> A \<Longrightarrow> A \<inter> B = {} \<Longrightarrow> A \<inter> C = {}"
  by blast

subsection \<open>Percentages\<close>

lemma sat_u128_id: "n < 2 ^ 100 \<Longrightarrow> sat_u128 n = n"
  by (simp add: sat_u128_def)

lemma rounded_share_exact:
  assumes "t \<le> w" and "0 < w" and "w < 2 ^ 64"
  shows "rounded_share t w = Some ((t * 100 + w div 2) div w)"
proof -
  have "t * 100 + w div 2 < 2 ^ 100" using assms by simp
  then have "sat_u128 (sat_u128 (t * 100) + w div 2) = t * 100 + w div 2"
    by (simp add: sat_u128_id)
  moreover have "(t * 100 + w div 2) div w \<le> 100"
  proof -
    have "t * 100 + w div 2 < 101 * w" using assms(1,2) by linarith
    then have "(t * 100 + w div 2) div w < 101" using assms(2) by (simp add: div_less_iff_less_mult)
    then show ?thesis by simp
  qed
  ultimately show ?thesis using assms(2) by (simp add: rounded_share_def)
qed

lemma two_quotients:
  fixes a b w :: nat
  assumes "0 < w" and "a + b \<le> w * 101" and "w * 101 \<le> a + b + 1"
  shows "a div w + b div w \<in> {100, 101}"
proof -
  obtain A ra where a: "a = w * A + ra" "ra < w" and A: "A = a div w"
    using assms(1) by (metis mod_less_divisor mult_div_mod_eq)
  obtain B rb where b: "b = w * B + rb" "rb < w" and B: "B = b div w"
    using assms(1) by (metis mod_less_divisor mult_div_mod_eq)
  have sum: "a + b = w * (A + B) + (ra + rb)" using a b by (simp add: distrib_left)
  have "A + B < 102"
  proof (rule ccontr)
    assume "\<not> A + B < 102"
    then have "w * 102 \<le> w * (A + B)" by (intro mult_le_mono2) simp
    with assms(1,2) sum show False by linarith
  qed
  moreover have "99 < A + B"
  proof (rule ccontr)
    assume "\<not> 99 < A + B"
    then have "w * (A + B) \<le> w * 99" by (intro mult_le_mono2) simp
    with assms(3) sum a(2) b(2) show False by linarith
  qed
  ultimately show ?thesis unfolding A [symmetric] B [symmetric] by auto
qed

text \<open>Two rounded shares that make up the whole differ from 100 by at most one.\<close>

lemma shares_add_up:
  fixes t w :: nat
  assumes "t \<le> w" and "0 < w"
  shows "(t * 100 + w div 2) div w + ((w - t) * 100 + w div 2) div w \<in> {100, 101}"
proof (rule two_quotients [OF assms(2)])
  have sum: "t * 100 + w div 2 + ((w - t) * 100 + w div 2) = w * 100 + 2 * (w div 2)"
    using assms(1) by (simp add: diff_mult_distrib)
  have "2 * (w div 2) \<le> w" "w \<le> 2 * (w div 2) + 1" by linarith+
  with sum show "t * 100 + w div 2 + ((w - t) * 100 + w div 2) \<le> w * 101"
    and "w * 101 \<le> t * 100 + w div 2 + ((w - t) * 100 + w div 2) + 1" by linarith+
qed

subsection \<open>Properties\<close>

text \<open>
  C16: no timeline action panics on its item index, and over any run every timeline keeps an
  index that gives the first position of every identifier, at most 2000 items, at most 32
  distinct page cursors, and a context usage within its non-zero window.
\<close>

theorem timeline_never_panics:
  assumes "timelines_ok s"
  shows "timelines_ok (fst (run timeline_step s as))
    \<and> reduce_timeline (fst (run timeline_step s as)) a \<noteq> None"
proof -
  have ok: "timelines_ok (fst (run timeline_step s as))" by (rule timeline.run_inv [OF assms])
  with reduce_timeline_ok [OF ok, of a] show ?thesis by (auto simp: returns_ok_def)
qed

text \<open>
  C17: when new items arrive one after the other, with identifiers that are fresh and distinct,
  the timeline holds exactly the newest 2000 of the old and the new items, in their order.
\<close>

theorem timeline_keeps_newest:
  assumes "timelines_ok s" and "distinct (map ti_id items)"
    and "ti_id ` set items \<inter> ti_id ` set (tl_items (timeline_of s t)) = {}"
  shows "tl_items (timeline_of (fst (run timeline_step s (map (UpsertTimelineItem t) items))) t)
    = last_n MAX_TIMELINE_ITEMS (tl_items (timeline_of s t) @ items)"
  using assms
proof (induction items arbitrary: s)
  case Nil
  then have "length (tl_items (timeline_of s t)) \<le> MAX_TIMELINE_ITEMS"
    using timeline_of_ok by (simp add: timeline_ok_def)
  then show ?case by (simp add: last_n_all)
next
  case (Cons x xs)
  let ?s = "fst (timeline_step s (UpsertTimelineItem t x))"
  have ok: "timelines_ok ?s" by (rule timeline_step_ok [OF Cons.prems(1)])
  have items: "tl_items (timeline_of ?s t)
      = last_n MAX_TIMELINE_ITEMS (tl_items (timeline_of s t) @ [x])"
    using upsert_new [OF Cons.prems(1), of x t] Cons.prems(3) by (auto simp: timeline_step_def)
  have "ti_id ` set (tl_items (timeline_of ?s t)) \<subseteq> insert (ti_id x) (ti_id ` set (tl_items (timeline_of s t)))"
    unfolding items using set_last_n [of MAX_TIMELINE_ITEMS "tl_items (timeline_of s t) @ [x]"]
    by auto
  moreover have "ti_id x \<notin> ti_id ` set xs"
    and "ti_id ` set xs \<inter> ti_id ` set (tl_items (timeline_of s t)) = {}"
    using Cons.prems(2,3) by auto
  ultimately have "ti_id ` set xs \<inter> ti_id ` set (tl_items (timeline_of ?s t)) = {}"
    by (rule disjoint_from_insert)
  moreover have "distinct (map ti_id xs)" using Cons.prems(2) by simp
  ultimately have "tl_items (timeline_of (fst (run timeline_step ?s (map (UpsertTimelineItem t) xs))) t)
      = last_n MAX_TIMELINE_ITEMS (tl_items (timeline_of ?s t) @ xs)"
    using Cons.IH [OF ok] by simp
  then show ?case
    by (simp only: list.map run_Cons_fst items last_n_append_last_n append_assoc append_Cons
        append_Nil)
qed



text \<open>
  For every usage that a turn report can produce, both percentages are defined, are the
  share rounded half up, and add up to 100 or 101.
\<close>

theorem context_percentages_add_up:
  assumes "from_last_turn n w = Some u"
  shows "\<exists>p q. rounded_percent u = Some p \<and> rounded_remaining_percent u = Some q
    \<and> p = (unat (cw_used_tokens u) * 100 + unat (cw_context_window u) div 2)
        div unat (cw_context_window u)
    \<and> p \<le> 100 \<and> q \<le> 100 \<and> p + q \<in> {100, 101}"
proof -
  let ?t = "unat (cw_used_tokens u)" and ?w = "unat (cw_context_window u)"
  have w: "0 < ?w" and t: "?t \<le> ?w"
    using from_last_turn_usage [OF assms] by (simp_all add: unat_gt_0 word_le_nat_alt)
  have lt: "?w < 2 ^ 64" using unsigned_less [of "cw_context_window u"] by simp
  have p: "rounded_percent u = Some ((?t * 100 + ?w div 2) div ?w)"
    unfolding rounded_percent_def by (rule rounded_share_exact [OF t w lt])
  have q: "rounded_remaining_percent u = Some (((?w - ?t) * 100 + ?w div 2) div ?w)"
    unfolding rounded_remaining_percent_def by (rule rounded_share_exact) (use w lt in simp_all)
  have le: "x \<le> 100" if "rounded_share a b = Some x" for a b x
    using that by (auto simp: rounded_share_def split: if_splits)
  show ?thesis
    using p q shares_add_up [OF t w] le p [unfolded rounded_percent_def]
      q [unfolded rounded_remaining_percent_def] by blast
qed

subsection \<open>Witnesses\<close>

definition demo_item :: "str \<Rightarrow> timeline_item" where
  "demo_item key = (delta_item ''turn'' key timeline_kind.Agent ''hi'')"

lemma default_timelines_ok: "timelines_ok default_app_state"
  by (simp add: timelines_ok_def default_app_state_def)

theorem timeline_never_panics_witness:
  "reduce_timeline (fst (run timeline_step default_app_state
     [TimelineDelta ''t'' ''u'' ''i'' timeline_kind.Agent ''hi'']))
     (TimelineDelta ''t'' ''u'' ''i'' timeline_kind.Agent '' there'') \<noteq> None"
  using timeline_never_panics [OF default_timelines_ok] by blast

theorem timeline_keeps_newest_witness:
  "map ti_id (tl_items (timeline_of (fst (run timeline_step default_app_state
     (map (UpsertTimelineItem ''t'') [demo_item ''a'', demo_item ''b'']))) ''t'')) = [''a'', ''b'']"
proof -
  have none: "tl_items (timeline_of default_app_state ''t'') = []"
    by (simp add: default_app_state_def default_timeline_def get_or_def)
  have "tl_items (timeline_of (fst (run timeline_step default_app_state
     (map (UpsertTimelineItem ''t'') [demo_item ''a'', demo_item ''b'']))) ''t'')
     = last_n MAX_TIMELINE_ITEMS
         (tl_items (timeline_of default_app_state ''t'') @ [demo_item ''a'', demo_item ''b''])"
    by (rule timeline_keeps_newest [OF default_timelines_ok])
      (simp_all add: none demo_item_def delta_item_def)
  then show ?thesis
    by (simp add: none last_n_def MAX_TIMELINE_ITEMS_def demo_item_def delta_item_def)
qed


theorem context_percentages_add_up_witness:
  "\<exists>p q. rounded_percent \<lparr>cw_used_tokens = 1, cw_context_window = 8\<rparr> = Some p
     \<and> rounded_remaining_percent \<lparr>cw_used_tokens = 1, cw_context_window = 8\<rparr> = Some q
     \<and> p = 13 \<and> p + q \<in> {100, 101}"
proof -
  have "from_last_turn 1 (Some 8) = Some \<lparr>cw_used_tokens = 1, cw_context_window = 8\<rparr>"
    by (simp add: from_last_turn_def u64_try_from_def)
  from context_percentages_add_up [OF this] show ?thesis by auto
qed

end
