(* ===== verification/Composer_Prompt.thy ===== *)
theory Composer_Prompt
  imports App_State Interfaces Limits
begin

text \<open>
  The composer of \<open>crates/codex-core/src/lib.rs\<close>: its draft text and attachments, the draft
  generations, the plan and goal modes, and the restoration of a prompt whose submission has
  failed (\<open>restore_retry_prompt\<close>). Paths are compared, and their file names and extensions read,
  as \<open>std::path\<close> does on Unix.
\<close>

subsection \<open>Paths\<close>

text \<open>The parts between slashes.\<close>

fun split_slash :: "str \<Rightarrow> str list" where
  "split_slash [] = [[]]"
| "split_slash (c # cs) =
     (if c = CHR ''/'' then [] # split_slash cs
      else (case split_slash cs of [] \<Rightarrow> [[c]] | p # ps \<Rightarrow> (c # p) # ps))"

text \<open>
  \<open>Path::components\<close>: empty parts and dots are skipped, except a dot that starts a relative path.
\<close>

definition path_components :: "path \<Rightarrow> str list" where
  "path_components p =
     (let parts = split_slash p;
          normal = filter (\<lambda>c. c \<noteq> [] \<and> c \<noteq> ''.'') parts
      in if \<not> is_absolute p \<and> hd parts = ''.'' then ''.'' # normal else normal)"

definition path_eq :: "path \<Rightarrow> path \<Rightarrow> bool" where
  "path_eq p q \<longleftrightarrow> is_absolute p = is_absolute q \<and> path_components p = path_components q"

text \<open>\<open>Path::file_name\<close>: the last component if it is a normal one.\<close>

definition file_name :: "path \<Rightarrow> str option" where
  "file_name p =
     (case rev (path_components p) of
        [] \<Rightarrow> None | c # _ \<Rightarrow> if c = ''..'' \<or> c = ''.'' then None else Some c)"

text \<open>\<open>Path::extension\<close>: what follows the last dot of the file name, unless that starts it.\<close>

definition extension :: "path \<Rightarrow> str option" where
  "extension p =
     Option.bind (file_name p) (\<lambda>name.
       let after = rev (takeWhile (\<lambda>c. c \<noteq> CHR ''.'') (rev name))
       in if length name \<le> Suc (length after) then None else Some after)"

definition composer_attachment_for :: "path \<Rightarrow> composer_attachment option" where
  "composer_attachment_for p =
     (if \<not> is_absolute p then None
      else let name = (case file_name p of None \<Rightarrow> p | Some n \<Rightarrow> if n = [] then p else n);
               kind = (case extension p of None \<Rightarrow> Mention
                 | Some e \<Rightarrow>
                     if map to_ascii_lowercase e
                        \<in> {''avif'', ''bmp'', ''gif'', ''jpeg'', ''jpg'', ''png'', ''webp''}
                     then LocalImage else Mention)
           in Some \<lparr>ca_path = p, ca_name = bounded_string name MAX_ATTACHMENT_LABEL_BYTES,
                    ca_kind = kind\<rparr>)"

subsection \<open>Draft generations\<close>

definition advance_composer_draft_generation :: "app_state \<Rightarrow> app_state" where
  "advance_composer_draft_generation s =
     (let s1 = s\<lparr>composer_draft_generation := wrapping_succ (composer_draft_generation s)\<rparr>
      in if selected_task_id s1 = None
         then s1\<lparr>new_chat_draft_generation := wrapping_succ (new_chat_draft_generation s1)\<rparr>
         else s1)"

definition advance_new_chat_draft_generation :: "app_state \<Rightarrow> app_state" where
  "advance_new_chat_draft_generation s =
     (if selected_task_id s = None then advance_composer_draft_generation s else s)"

definition advance_task_selection_generation :: "app_state \<Rightarrow> app_state" where
  "advance_task_selection_generation s =
     s\<lparr>task_selection_generation := wrapping_succ (task_selection_generation s)\<rparr>"

definition clear_pending_task_fork_status :: "app_state \<Rightarrow> app_state" where
  "clear_pending_task_fork_status s =
     (if pending_task_fork s \<noteq> None \<and> status_message s = Some (''Creating chat'' @ ellipsis)
      then s\<lparr>status_message := None\<rparr> else s)"

definition clear_active_composer_draft :: "app_state \<Rightarrow> app_state" where
  "clear_active_composer_draft s =
     (let changed = (composer s \<noteq> [] \<or> composer_attachments s \<noteq> []);
          s1 = s\<lparr>composer := [], composer_attachments := [], composer_error := None\<rparr>
      in if changed then advance_composer_draft_generation s1 else s1)"

subsection \<open>Retryable messages\<close>

definition MAX_RETRYABLE_TURN_MESSAGES :: nat where
  "MAX_RETRYABLE_TURN_MESSAGES = 64"

definition MAX_MCP_SERVER_FIELD_BYTES :: nat where
  "MAX_MCP_SERVER_FIELD_BYTES = 8 * 1024"

definition normalize_retryable_user_message :: "retryable_user_message \<Rightarrow> retryable_user_message" where
  "normalize_retryable_user_message m =
     m\<lparr>rm_text := bounded_string (rm_text m) MAX_COMPOSER_BYTES,
       rm_attachments :=
         map (\<lambda>a. a\<lparr>ca_name := bounded_string (ca_name a) MAX_ATTACHMENT_LABEL_BYTES\<rparr>)
           (take MAX_COMPOSER_ATTACHMENTS (rm_attachments m))\<rparr>"

definition normalize_retryable_submission ::
  "retryable_turn_submission \<Rightarrow> retryable_turn_submission" where
  "normalize_retryable_submission r =
     (let bound = map_option (\<lambda>v. bounded_string v MAX_MCP_SERVER_FIELD_BYTES)
      in r\<lparr>rs_messages := map normalize_retryable_user_message
             (take MAX_RETRYABLE_TURN_MESSAGES (rs_messages r)),
           rs_model := bound (rs_model r), rs_effort := bound (rs_effort r),
           rs_service_tier := bound (rs_service_tier r), rs_permissions := bound (rs_permissions r),
           rs_approval_policy := bound (rs_approval_policy r)\<rparr>)"

text \<open>The loop that puts the draft's own attachments after the prompt's.\<close>

fun restore_attachments ::
  "composer_attachment list \<Rightarrow> composer_attachment list \<Rightarrow> composer_attachment list" where
  "restore_attachments current [] = current"
| "restore_attachments current (a # as) =
     (if length current = MAX_COMPOSER_ATTACHMENTS then current
      else restore_attachments
             (if list_ex (\<lambda>c. ca_kind c = ca_kind a \<and> path_eq (ca_path c) (ca_path a)) current
              then current else current @ [a]) as)"

definition PARAGRAPH :: str where
  "PARAGRAPH = [CHR 0x0A, CHR 0x0A]"

definition restore_retry_prompt :: "retryable_user_message \<Rightarrow> app_state \<Rightarrow> app_state" where
  "restore_retry_prompt prompt s =
     (let existing = composer s;
          text = rm_text prompt;
          text1 = (if existing \<noteq> [] \<and> length text < MAX_COMPOSER_BYTES
                   then append_bounded
                          (if text \<noteq> [] then append_bounded text PARAGRAPH MAX_COMPOSER_BYTES
                           else text) existing MAX_COMPOSER_BYTES
                   else text)
      in s\<lparr>composer := text1,
           composer_attachments :=
             restore_attachments (rm_attachments prompt) (composer_attachments s),
           composer_error := None\<rparr>)"

subsection \<open>Handlers\<close>

definition composer_submission_failed ::
  "str option \<Rightarrow> u64 option \<Rightarrow> u64 option \<Rightarrow> retryable_user_message \<Rightarrow> str \<Rightarrow> app_state
   \<Rightarrow> step_result" where
  "composer_submission_failed task_id new_chat_generation draft_generation prompt message s =
     (let s1 = s\<lparr>status_message := Some (bounded_string message (16 * 1024))\<rparr>;
          owns_task = (task_id \<noteq> None \<and> selected_task_id s1 = task_id
                       \<and> draft_generation = Some (composer_draft_generation s1));
          owns_new_chat_draft = (task_id = None \<and> selected_task_id s1 = None
                       \<and> new_chat_generation = Some (new_chat_draft_generation s1))
      in (if owns_task \<or> owns_new_chat_draft
          then restore_retry_prompt (normalize_retryable_user_message prompt) s1 else s1, []))"

definition composer_changed :: "str \<Rightarrow> app_state \<Rightarrow> step_result" where
  "composer_changed text s =
     (if length text \<le> MAX_COMPOSER_BYTES
      then let changed = (composer s \<noteq> text);
               s1 = s\<lparr>composer := text, composer_error := None\<rparr>
           in (if changed then advance_composer_draft_generation s1 else s1, [])
      else (s\<lparr>composer_error := Some ''Message exceeds the 256 KiB limit.''\<rparr>, []))"

text \<open>The loop of \<open>AddComposerAttachments\<close>: the attachments and the error it leaves.\<close>

fun add_attachments ::
  "composer_attachment list \<Rightarrow> str option \<Rightarrow> path list \<Rightarrow> composer_attachment list \<times> str option" where
  "add_attachments current err [] = (current, err)"
| "add_attachments current err (p # ps) =
     (if length current \<ge> MAX_COMPOSER_ATTACHMENTS
      then (current, Some (''A message can include at most '' @ dec MAX_COMPOSER_ATTACHMENTS
                           @ '' attachments.''))
      else case composer_attachment_for p of
             None \<Rightarrow> add_attachments current err ps
           | Some a \<Rightarrow>
               add_attachments
                 (if list_ex (\<lambda>c. path_eq (ca_path c) (ca_path a)) current then current
                  else current @ [a]) err ps)"

definition add_composer_attachments :: "path list \<Rightarrow> app_state \<Rightarrow> step_result" where
  "add_composer_attachments paths s =
     (let (attachments, err) = add_attachments (composer_attachments s) (composer_error s) paths;
          s1 = s\<lparr>composer_attachments := attachments, composer_error := err\<rparr>
      in (if length attachments \<noteq> length (composer_attachments s)
          then advance_composer_draft_generation s1 else s1, []))"

definition remove_composer_attachment :: "nat \<Rightarrow> app_state \<Rightarrow> step_result" where
  "remove_composer_attachment index s =
     (if index < length (composer_attachments s)
      then (advance_composer_draft_generation
              (s\<lparr>composer_attachments := remove_at index (composer_attachments s),
                 composer_error := None\<rparr>), [])
      else (s, []))"

definition toggle_plan_mode :: "app_state \<Rightarrow> step_result" where
  "toggle_plan_mode s =
     (let c = composer_controls s
      in if cc_selected_model c \<noteq> None
         then let c1 = c\<lparr>cc_plan_mode := \<not> cc_plan_mode c\<rparr>;
                  c2 = (if cc_plan_mode c1 then c1\<lparr>cc_goal_mode := False\<rparr> else c1)
              in (advance_new_chat_draft_generation
                    (s\<lparr>composer_controls := c2, composer_error := None\<rparr>), [])
         else (s\<lparr>composer_error := Some ''Choose a model before enabling Plan mode.''\<rparr>, []))"

definition toggle_goal_mode :: "app_state \<Rightarrow> step_result" where
  "toggle_goal_mode s =
     (let c = composer_controls s
      in if selected_task_id s = None \<and> cc_selected_model c = None
         then (s\<lparr>composer_error := Some ''Choose a model before setting a goal.''\<rparr>, [])
         else let c1 = c\<lparr>cc_goal_mode := \<not> cc_goal_mode c\<rparr>;
                  c2 = (if cc_goal_mode c1 then c1\<lparr>cc_plan_mode := False\<rparr> else c1)
              in (advance_new_chat_draft_generation
                    (s\<lparr>composer_controls := c2, composer_error := None\<rparr>), []))"

datatype (plugins only: code size) composer_action =
    ComposerSubmissionFailed "str option" "u64 option" "u64 option" retryable_user_message str
  | ComposerChanged str
  | AddComposerAttachments "path list"
  | RemoveComposerAttachment nat
  | TogglePlanMode
  | ToggleGoalMode

fun reduce_composer :: "app_state \<Rightarrow> composer_action \<Rightarrow> step_result" where
  "reduce_composer s (ComposerSubmissionFailed t n d p m) = composer_submission_failed t n d p m s"
| "reduce_composer s (ComposerChanged text) = composer_changed text s"
| "reduce_composer s (AddComposerAttachments paths) = add_composer_attachments paths s"
| "reduce_composer s (RemoveComposerAttachment i) = remove_composer_attachment i s"
| "reduce_composer s TogglePlanMode = toggle_plan_mode s"
| "reduce_composer s ToggleGoalMode = toggle_goal_mode s"

subsection \<open>Lemmas\<close>

lemma path_eq_refl [simp]: "path_eq p p"
  by (simp add: path_eq_def)

lemma restore_attachments_prefix:
  "\<exists>bs. restore_attachments current as = current @ bs \<and> set bs \<subseteq> set as"
proof (induction current as rule: restore_attachments.induct)
  case (1 current)
  then show ?case by simp
next
  case (2 current a as)
  then show ?case
    by (cases "length current = MAX_COMPOSER_ATTACHMENTS";
        cases "list_ex (\<lambda>c. ca_kind c = ca_kind a \<and> path_eq (ca_path c) (ca_path a)) current")
      fastforce+
qed

lemma restore_attachments_bounded:
  "length current \<le> MAX_COMPOSER_ATTACHMENTS \<Longrightarrow>
   length (restore_attachments current as) \<le> MAX_COMPOSER_ATTACHMENTS"
  by (induction current as rule: restore_attachments.induct) auto

lemma add_attachments_bounded:
  "length current \<le> MAX_COMPOSER_ATTACHMENTS \<Longrightarrow>
   length (fst (add_attachments current err ps)) \<le> MAX_COMPOSER_ATTACHMENTS"
  by (induction current err ps rule: add_attachments.induct) (auto split: option.splits)

definition attachment_key :: "composer_attachment \<Rightarrow> bool \<times> str list" where
  "attachment_key a = (is_absolute (ca_path a), path_components (ca_path a))"

lemma path_eq_key: "path_eq (ca_path a) (ca_path b) \<longleftrightarrow> attachment_key a = attachment_key b"
  by (simp add: path_eq_def attachment_key_def)

lemma add_attachments_distinct:
  "distinct (map attachment_key current) \<Longrightarrow>
   distinct (map attachment_key (fst (add_attachments current err ps)))"
proof (induction current err ps rule: add_attachments.induct)
  case (2 current err p ps)
  have "distinct (map attachment_key (current @ [a]))"
    if "\<not> list_ex (\<lambda>c. path_eq (ca_path c) (ca_path a)) current" for a
    using that "2.prems" by (auto simp: list_ex_iff path_eq_key)
  with 2 show ?case by (auto split: option.splits)
qed simp

lemma normalized_message_bounds:
  "length (rm_text (normalize_retryable_user_message m)) \<le> MAX_COMPOSER_BYTES"
  "length (rm_attachments (normalize_retryable_user_message m)) \<le> MAX_COMPOSER_ATTACHMENTS"
  by (simp_all add: normalize_retryable_user_message_def)

definition composer_ok :: "app_state \<Rightarrow> bool" where
  "composer_ok s \<longleftrightarrow>
     length (composer s) \<le> MAX_COMPOSER_BYTES
     \<and> length (composer_attachments s) \<le> MAX_COMPOSER_ATTACHMENTS"

lemma restore_ok:
  "length (rm_text p) \<le> MAX_COMPOSER_BYTES \<Longrightarrow> length (rm_attachments p) \<le> MAX_COMPOSER_ATTACHMENTS \<Longrightarrow>
   composer_ok (restore_retry_prompt p s)"
  by (auto simp: composer_ok_def restore_retry_prompt_def Let_def restore_attachments_bounded
      intro!: append_bounded_le)

lemma advance_composer_ok [simp]:
  "composer_ok (advance_composer_draft_generation s) = composer_ok s"
  "composer_ok (advance_new_chat_draft_generation s) = composer_ok s"
  by (simp_all add: composer_ok_def advance_composer_draft_generation_def
      advance_new_chat_draft_generation_def Let_def)

lemma composer_handlers_ok:
  assumes "composer_ok s"
  shows "composer_ok (fst (composer_submission_failed t n d p m s))"
    and "composer_ok (fst (composer_changed text s))"
    and "composer_ok (fst (add_composer_attachments ps s))"
    and "composer_ok (fst (remove_composer_attachment i s))"
    and "composer_ok (fst (toggle_plan_mode s))"
    and "composer_ok (fst (toggle_goal_mode s))"
    and "composer_ok (clear_active_composer_draft s)"
proof -
  show "composer_ok (fst (composer_submission_failed t n d p m s))"
    using assms restore_ok [OF normalized_message_bounds]
    by (simp add: composer_submission_failed_def Let_def) (simp add: composer_ok_def)
  show "composer_ok (fst (composer_changed text s))"
    using assms by (simp add: composer_changed_def Let_def) (auto simp: composer_ok_def)
  show "composer_ok (fst (add_composer_attachments ps s))"
    using assms add_attachments_bounded [of "composer_attachments s" "composer_error s" ps]
    by (simp add: add_composer_attachments_def Let_def case_prod_beta) (simp add: composer_ok_def)
  show "composer_ok (fst (remove_composer_attachment i s))"
    using assms length_remove_at [of i "composer_attachments s"]
    by (cases "i < length (composer_attachments s)")
      (simp_all add: remove_composer_attachment_def, simp add: composer_ok_def)
  show "composer_ok (fst (toggle_plan_mode s))" "composer_ok (fst (toggle_goal_mode s))"
    using assms
    by (simp_all add: toggle_plan_mode_def toggle_goal_mode_def Let_def)
      (simp_all add: composer_ok_def)
  show "composer_ok (clear_active_composer_draft s)"
    by (simp add: clear_active_composer_draft_def Let_def) (simp add: composer_ok_def)
qed

lemma reduce_composer_ok: "composer_ok s \<Longrightarrow> composer_ok (fst (reduce_composer s a))"
  by (cases a) (simp_all add: composer_handlers_ok)

interpretation composer: reducer_component reduce_composer composer_ok
  by unfold_locales (rule reduce_composer_ok)

end
