(* ===== verification/Goals.thy ===== *)
theory Goals
  imports Timeline Composer_Prompt
begin

text \<open>
  Goals of a task (\<open>can_continue_active_goal\<close>, \<open>schedule_goal_continuation\<close>,
  \<open>goal_completion_turn_id\<close>, \<open>apply_thread_goal_snapshot\<close> and the goal actions of \<open>reduce\<close> in
  \<open>crates/codex-core/src/lib.rs\<close>): an active goal is continued with a new turn whenever the task
  is idle, and a completed goal is cleared on the server once.
\<close>

definition MAX_GOAL_OBJECTIVE_BYTES :: nat where
  "MAX_GOAL_OBJECTIVE_BYTES = 16 * 1024"

abbreviation goal_of :: "app_state \<Rightarrow> str \<Rightarrow> thread_goal_state" where
  "goal_of s t \<equiv> get_or default_goal_state t (goals s)"

abbreviation set_goal_state :: "str \<Rightarrow> thread_goal_state \<Rightarrow> app_state \<Rightarrow> app_state" where
  "set_goal_state t g s \<equiv> s\<lparr>goals := (goals s)(t \<mapsto> g)\<rparr>"

subsection \<open>Helpers\<close>

definition can_continue_active_goal :: "app_state \<Rightarrow> str \<Rightarrow> bool" where
  "can_continue_active_goal s task_id \<longleftrightarrow>
     connection s = Online
     \<and> (case goals s task_id of None \<Rightarrow> False
        | Some g \<Rightarrow> gs_status g = load_status.Ready
            \<and> (case gs_goal g of None \<Rightarrow> False | Some goal \<Rightarrow> tg_status goal = Active))
     \<and> (case timelines s task_id of None \<Rightarrow> False
        | Some t \<Rightarrow> tl_active_turn_id t = None \<and> \<not> tl_interrupt_pending t)
     \<and> list_ex (\<lambda>task. ts_id task = task_id
          \<and> ts_status task \<notin> {task_run_status.Running, WaitingForApproval}) (tasks s)
     \<and> \<not> list_ex (\<lambda>a. ap_task_id a = task_id) (approvals s)"

definition schedule_goal_continuation :: "str \<Rightarrow> app_state \<Rightarrow> step_result" where
  "schedule_goal_continuation task_id s =
     (if \<not> can_continue_active_goal s task_id then (s, [])
      else let t = timeline_of s task_id
           in if tl_goal_continuation_pending t then (set_timeline task_id t s, [])
              else (set_timeline task_id (t\<lparr>tl_goal_continuation_pending := True\<rparr>) s,
                    [ScheduleGoalContinuation task_id]))"

definition goal_completion_turn_id :: "app_state \<Rightarrow> str \<Rightarrow> str option" where
  "goal_completion_turn_id s task_id =
     Option.bind (timelines s task_id) (\<lambda>t.
       case tl_active_turn_id t of
         Some turn \<Rightarrow> Some turn
       | None \<Rightarrow> map_option ti_turn_id
                   (find (\<lambda>item. ti_kind item = timeline_kind.Agent) (rev (tl_items t))))"

abbreviation stop_goal_continuation :: "str \<Rightarrow> app_state \<Rightarrow> app_state" where
  "stop_goal_continuation t s \<equiv>
     set_timeline t ((timeline_of s t)\<lparr>tl_goal_continuation_pending := False\<rparr>) s"

definition apply_thread_goal_snapshot :: "thread_goal \<Rightarrow> app_state \<Rightarrow> step_result" where
  "apply_thread_goal_snapshot goal s =
     (let task_id = tg_task_id goal;
          is_complete = (tg_status goal = Complete);
          completion_turn_id = (if is_complete then goal_completion_turn_id s task_id else None);
          g = goal_of s task_id
      in if is_complete
         then let is_new_completion =
                    (case gs_completed_goal g of None \<Rightarrow> True
                     | Some completed \<Rightarrow> tg_updated_at completed \<noteq> tg_updated_at goal);
                  g1 = (if is_new_completion
                        then g\<lparr>gs_completed_goal := Some goal,
                               gs_completed_goal_turn_id := completion_turn_id\<rparr> else g);
                  g2 = (if is_new_completion \<or> gs_goal g1 \<noteq> None
                        then g1\<lparr>gs_goal := Some goal\<rparr> else g1);
                  s1 = set_goal_state task_id (g2\<lparr>gs_status := load_status.Ready\<rparr>) s
              in (stop_goal_continuation task_id s1,
                  if is_new_completion then [ClearGoal task_id] else [])
         else (set_goal_state task_id
                 (g\<lparr>gs_status := load_status.Ready, gs_goal := Some goal,
                    gs_completed_goal := None, gs_completed_goal_turn_id := None\<rparr>) s, []))"

subsection \<open>Handlers\<close>

definition goal_loaded :: "str \<Rightarrow> thread_goal option \<Rightarrow> app_state \<Rightarrow> step_result" where
  "goal_loaded task_id goal s =
     (case goal of
        Some goal \<Rightarrow>
          let complete = (tg_status goal = Complete);
              (s1, effects) = apply_thread_goal_snapshot goal s
          in if complete then (s1, effects) else schedule_goal_continuation task_id s1
      | None \<Rightarrow>
          (stop_goal_continuation task_id
             (set_goal_state task_id
                ((goal_of s task_id)\<lparr>gs_status := load_status.Ready, gs_goal := None\<rparr>) s), []))"

definition goal_load_failed :: "str \<Rightarrow> str \<Rightarrow> app_state \<Rightarrow> step_result" where
  "goal_load_failed task_id message s =
     ((stop_goal_continuation task_id
         (set_goal_state task_id ((goal_of s task_id)\<lparr>gs_status := load_status.Failed\<rparr>) s))
        \<lparr>status_message := Some message\<rparr>, [])"

definition goal_attachment_start_failed ::
  "str \<Rightarrow> u64 \<Rightarrow> retryable_user_message \<Rightarrow> str \<Rightarrow> app_state \<Rightarrow> step_result" where
  "goal_attachment_start_failed task_id draft_generation prompt message s =
     (let s1 = (stop_goal_continuation task_id
                  (set_goal_state task_id ((goal_of s task_id)\<lparr>gs_status := load_status.Failed\<rparr>) s))
                 \<lparr>status_message := Some (bounded_string message MAX_COMPOSER_BYTES)\<rparr>
      in if selected_task_id s1 = Some task_id \<and> draft_generation = composer_draft_generation s1
         then let s2 = restore_retry_prompt (normalize_retryable_user_message prompt) s1
              in (s2\<lparr>composer_controls := (composer_controls s2)\<lparr>cc_goal_mode := True\<rparr>\<rparr>, [])
         else (s1, []))"

definition set_goal :: "str \<Rightarrow> int option option \<Rightarrow> app_state \<Rightarrow> step_result" where
  "set_goal objective token_budget s =
     (case selected_task_id s of
        None \<Rightarrow> (s\<lparr>status_message := Some ''Open a chat before setting a goal.''\<rparr>, [])
      | Some task_id \<Rightarrow>
          let objective = trim objective
          in if objective = []
             then (s\<lparr>status_message := Some ''Goal objective cannot be empty.''\<rparr>, [])
             else if length objective > MAX_GOAL_OBJECTIVE_BYTES
             then (s\<lparr>status_message := Some (''Goal objective is longer than ''
                        @ dec MAX_GOAL_OBJECTIVE_BYTES @ '' bytes.'')\<rparr>, [])
             else if (case token_budget of Some (Some budget) \<Rightarrow> budget \<le> 0 | _ \<Rightarrow> False)
             then (s\<lparr>status_message := Some ''Goal token budget must be positive.''\<rparr>, [])
             else (stop_goal_continuation task_id
                     (set_goal_state task_id
                        ((goal_of s task_id)\<lparr>gs_status := load_status.Loading\<rparr>) s),
                   [SetGoal task_id (Some objective) (Some Active) token_budget]))"

definition set_goal_status :: "thread_goal_status \<Rightarrow> app_state \<Rightarrow> step_result" where
  "set_goal_status status s =
     (case selected_task_id s of
        None \<Rightarrow> (s, [])
      | Some task_id \<Rightarrow>
          let g = goal_of s task_id
          in if (case gs_goal g of None \<Rightarrow> True | Some goal \<Rightarrow> tg_status goal = status)
             then (set_goal_state task_id g s, [])
             else (stop_goal_continuation task_id
                     (set_goal_state task_id (g\<lparr>gs_status := load_status.Loading\<rparr>) s),
                   [SetGoal task_id None (Some status) None]))"

definition clear_goal :: "app_state \<Rightarrow> step_result" where
  "clear_goal s =
     (case selected_task_id s of
        None \<Rightarrow> (s, [])
      | Some task_id \<Rightarrow>
          let g = goal_of s task_id
          in if gs_goal g = None then (set_goal_state task_id g s, [])
             else (stop_goal_continuation task_id
                     (set_goal_state task_id (g\<lparr>gs_status := load_status.Loading\<rparr>) s),
                   [ClearGoal task_id]))"

definition goal_cleared :: "str \<Rightarrow> app_state \<Rightarrow> step_result" where
  "goal_cleared task_id s =
     (stop_goal_continuation task_id
        (set_goal_state task_id
           ((goal_of s task_id)\<lparr>gs_status := load_status.Ready, gs_goal := None\<rparr>) s), [])"

definition goal_continuation_due :: "str \<Rightarrow> app_state \<Rightarrow> step_result" where
  "goal_continuation_due task_id s =
     (case timelines s task_id of
        None \<Rightarrow> (s, [])
      | Some t \<Rightarrow>
          if \<not> tl_goal_continuation_pending t then (s, [])
          else let s1 = set_timeline task_id (t\<lparr>tl_goal_continuation_pending := False\<rparr>) s
               in if can_continue_active_goal s1 task_id then (s1, [ContinueGoal task_id])
                  else (s1, []))"

definition goal_continuation_failed :: "str \<Rightarrow> str \<Rightarrow> app_state \<Rightarrow> step_result" where
  "goal_continuation_failed task_id message s =
     ((case timelines s task_id of
         None \<Rightarrow> s
       | Some t \<Rightarrow> set_timeline task_id (t\<lparr>tl_goal_continuation_pending := False\<rparr>) s)
        \<lparr>status_message := Some message\<rparr>, [])"

subsection \<open>Dispatch\<close>

datatype (plugins only: code size) goal_action =
    GoalLoaded str "thread_goal option"
  | GoalLoadFailed str str
  | GoalAttachmentStartFailed str u64 retryable_user_message str
  | SetGoal str "int option option"
  | SetGoalStatus thread_goal_status
  | ClearGoal
  | GoalUpdated thread_goal
  | GoalCleared str
  | MaybeContinueGoal str
  | GoalContinuationDue str
  | GoalContinuationFailed str str

fun reduce_goal :: "app_state \<Rightarrow> goal_action \<Rightarrow> step_result" where
  "reduce_goal s (GoalLoaded t g) = goal_loaded t g s"
| "reduce_goal s (GoalLoadFailed t m) = goal_load_failed t m s"
| "reduce_goal s (GoalAttachmentStartFailed t d p m) = goal_attachment_start_failed t d p m s"
| "reduce_goal s (goal_action.SetGoal o' b) = set_goal o' b s"
| "reduce_goal s (SetGoalStatus st) = set_goal_status st s"
| "reduce_goal s goal_action.ClearGoal = clear_goal s"
| "reduce_goal s (GoalUpdated g) = apply_thread_goal_snapshot g s"
| "reduce_goal s (GoalCleared t) = goal_cleared t s"
| "reduce_goal s (MaybeContinueGoal t) = schedule_goal_continuation t s"
| "reduce_goal s (GoalContinuationDue t) = goal_continuation_due t s"
| "reduce_goal s (GoalContinuationFailed t m) = goal_continuation_failed t m s"

lemmas goal_handler_defs = goal_loaded_def goal_load_failed_def goal_attachment_start_failed_def
  set_goal_def set_goal_status_def clear_goal_def apply_thread_goal_snapshot_def goal_cleared_def
  schedule_goal_continuation_def goal_continuation_due_def goal_continuation_failed_def

subsection \<open>Lemmas\<close>

lemma schedule_goal_effects:
  "snd (schedule_goal_continuation t s) \<in> {[], [ScheduleGoalContinuation t]}"
  "snd (schedule_goal_continuation t s) = [ScheduleGoalContinuation t] \<longleftrightarrow>
     can_continue_active_goal s t \<and> \<not> tl_goal_continuation_pending (timeline_of s t)"
  by (simp_all add: schedule_goal_continuation_def Let_def)

lemma schedule_goal_pending:
  "can_continue_active_goal s t \<Longrightarrow>
   tl_goal_continuation_pending (timeline_of (fst (schedule_goal_continuation t s)) t)"
  by (simp add: schedule_goal_continuation_def Let_def)

lemma schedule_goal_idempotent:
  "snd (schedule_goal_continuation t (fst (schedule_goal_continuation t s))) = []"
proof (cases "can_continue_active_goal s t")
  case True
  then show ?thesis
    using schedule_goal_pending [OF True]
      schedule_goal_effects [of t "fst (schedule_goal_continuation t s)"] by auto
next
  case False
  then show ?thesis by (simp add: schedule_goal_continuation_def)
qed

text \<open>The timeline invariant is untouched by the goal actions.\<close>

lemma schedule_goal_timelines: "timelines_ok s \<Longrightarrow> timelines_ok (fst (schedule_goal_continuation t s))"
  using timeline_of_ok [of s t]
  by (simp add: schedule_goal_continuation_def Let_def set_timeline_ok)

end
