(* ===== verification/Turns.thy ===== *)
theory Turns
  imports Goals
begin

text \<open>
  The life of a turn (the turn and safety buffering actions of \<open>reduce\<close> and the review terminal
  helpers in \<open>crates/codex-core/src/lib.rs\<close>): a task has at most one active turn; completing,
  interrupting, recording and retrying act on it only when they name it.
\<close>

subsection \<open>Bounds\<close>

definition MAX_TURN_DIFF_BYTES :: nat where
  "MAX_TURN_DIFF_BYTES = 4 * 1024 * 1024"

definition MAX_REVIEW_START_TERMINALS :: nat where
  "MAX_REVIEW_START_TERMINALS = 8"

subsection \<open>Review terminals\<close>

definition record_pending_review_terminal :: "str \<Rightarrow> str \<Rightarrow> app_state \<Rightarrow> app_state" where
  "record_pending_review_terminal task_id turn_id s =
     (if rv_pending (review_start s) = None then s
      else let identity = \<lparr>rt_task_id = bounded_string task_id MAX_PINNED_TASK_ID_BYTES,
                           rt_turn_id = bounded_string turn_id MAX_PINNED_TASK_ID_BYTES\<rparr>;
               terminals = rv_terminal_events (review_start s)
           in if list_ex (\<lambda>x. x = identity) terminals then s
              else s\<lparr>review_start := (review_start s)\<lparr>rv_terminal_events :=
                       (if length terminals = MAX_REVIEW_START_TERMINALS
                        then remove_at 0 terminals else terminals) @ [identity]\<rparr>\<rparr>)"

definition consume_pending_review_terminal :: "str \<Rightarrow> str \<Rightarrow> app_state \<Rightarrow> app_state \<times> bool" where
  "consume_pending_review_terminal task_id turn_id s =
     (let task_id = bounded_string task_id MAX_PINNED_TASK_ID_BYTES;
          turn_id = bounded_string turn_id MAX_PINNED_TASK_ID_BYTES;
          terminal = list_ex (\<lambda>x. rt_task_id x = task_id \<and> rt_turn_id x = turn_id)
                       (rv_terminal_events (review_start s))
      in (s\<lparr>review_start := (review_start s)\<lparr>rv_terminal_events := []\<rparr>\<rparr>, terminal))"

definition clear_unresolved_detached_review_terminal :: "str \<Rightarrow> str \<Rightarrow> app_state \<Rightarrow> app_state" where
  "clear_unresolved_detached_review_terminal task_id turn_id s =
     (case rv_unresolved_detached (review_start s) of
        None \<Rightarrow> s
      | Some unresolved \<Rightarrow>
          if ud_review_thread_id unresolved \<noteq> task_id \<or> ud_turn_id unresolved \<noteq> turn_id then s
          else let source_task_id = ud_source_task_id unresolved;
                   r = (review_start s)\<lparr>rv_unresolved_detached := None\<rparr>
               in s\<lparr>review_start :=
                      (if (case rv_error r of None \<Rightarrow> False
                           | Some e \<Rightarrow> rx_source_task_id e = source_task_id)
                       then r\<lparr>rv_error := None\<rparr> else r)\<rparr>)"

subsection \<open>Generations of a task\<close>

definition resume_task_effect :: "str \<Rightarrow> app_state \<Rightarrow> app_state \<times> effect" where
  "resume_task_effect task_id s =
     (let t = timeline_of s task_id;
          t1 = t\<lparr>tl_runtime_generation := sat_succ (tl_runtime_generation t),
                 tl_settings_generation := sat_succ (tl_settings_generation t),
                 tl_runtime_status_loaded := False\<rparr>
      in (set_timeline task_id t1 s,
          ResumeTask task_id (tl_runtime_generation t1) (tl_settings_generation t1)))"

definition advance_task_settings_generation :: "str \<Rightarrow> app_state \<Rightarrow> app_state \<times> u64" where
  "advance_task_settings_generation task_id s =
     (let t = timeline_of s task_id;
          t1 = t\<lparr>tl_settings_generation := sat_succ (tl_settings_generation t)\<rparr>
      in (set_timeline task_id t1 s, tl_settings_generation t1))"

subsection \<open>Safety buffering of one turn\<close>

text \<open>\<open>safety_buffering.as_mut().filter(|b| p(b))\<close> followed by an assignment.\<close>

definition update_buffering ::
  "(safety_buffering_state \<Rightarrow> bool) \<Rightarrow> (safety_buffering_state \<Rightarrow> safety_buffering_state)
   \<Rightarrow> timeline_state \<Rightarrow> timeline_state" where
  "update_buffering p f t =
     (case tl_safety_buffering t of
        Some b \<Rightarrow> if p b then t\<lparr>tl_safety_buffering := Some (f b)\<rparr> else t
      | None \<Rightarrow> t)"

definition drop_buffering :: "str \<Rightarrow> timeline_state \<Rightarrow> timeline_state" where
  "drop_buffering turn_id t =
     (case tl_safety_buffering t of
        Some b \<Rightarrow> if sb_turn_id b = turn_id then t\<lparr>tl_safety_buffering := None\<rparr> else t
      | None \<Rightarrow> t)"

definition set_task_status :: "str \<Rightarrow> task_run_status \<Rightarrow> app_state \<Rightarrow> app_state" where
  "set_task_status task_id status s =
     s\<lparr>tasks := update_first (\<lambda>task. ts_id task = task_id) (\<lambda>task. task\<lparr>ts_status := status\<rparr>) (tasks s)\<rparr>"

subsection \<open>Handlers\<close>

definition interrupt_active_turn :: "app_state \<Rightarrow> step_result" where
  "interrupt_active_turn s =
     (case selected_task_id s of
        None \<Rightarrow> (s, [])
      | Some task_id \<Rightarrow>
          let pause_active_goal =
                (case goals s task_id of None \<Rightarrow> False
                 | Some g \<Rightarrow> (case gs_goal g of None \<Rightarrow> False | Some goal \<Rightarrow> tg_status goal = Active));
              t = timeline_of s task_id
          in case tl_active_turn_id t of
               None \<Rightarrow> (set_timeline task_id t s, [])
             | Some turn_id \<Rightarrow>
                 if tl_interrupt_pending t then (set_timeline task_id t s, [])
                 else let s1 = set_timeline task_id
                            (t\<lparr>tl_interrupt_pending := True, tl_goal_continuation_pending := False\<rparr>) s
                      in if pause_active_goal
                         then (set_goal_state task_id
                                 ((goal_of s1 task_id)\<lparr>gs_status := load_status.Loading\<rparr>) s1,
                               [effect.SetGoal task_id None (Some Paused) None,
                                InterruptTurn task_id turn_id])
                         else (s1, [InterruptTurn task_id turn_id]))"

definition turn_started :: "str \<Rightarrow> str \<Rightarrow> app_state \<Rightarrow> step_result" where
  "turn_started task_id turn_id s =
     (let s1 = s\<lparr>background_completion_task_ids :=
                   filter (\<lambda>c. c \<noteq> task_id) (background_completion_task_ids s)\<rparr>;
          t = timeline_of s1 task_id;
          t1 = (if tl_active_turn_id t \<noteq> Some turn_id
                then t\<lparr>tl_retryable_turn := None, tl_safety_buffering := None\<rparr> else t);
          t2 = (if tl_active_review_turn_id t1 \<noteq> Some turn_id
                then t1\<lparr>tl_active_review_turn_id := None\<rparr> else t1);
          t3 = t2\<lparr>tl_active_turn_id := Some turn_id, tl_interrupt_pending := False,
                  tl_goal_continuation_pending := False,
                  tl_last_turn_diff := Some \<lparr>td_turn_id = turn_id, td_unified_diff = [],
                                             td_truncated = False\<rparr>\<rparr>
      in (set_task_status task_id task_run_status.Running (set_timeline task_id t3 s1), []))"

definition turn_submission_recorded ::
  "str \<Rightarrow> str \<Rightarrow> retryable_turn_submission \<Rightarrow> app_state \<Rightarrow> step_result" where
  "turn_submission_recorded task_id turn_id submission s =
     (let t = timeline_of s task_id
      in if tl_active_turn_id t \<noteq> Some turn_id then (set_timeline task_id t s, [])
         else let submission = normalize_retryable_submission submission
              in if rs_messages submission = [] then (set_timeline task_id t s, [])
                 else (set_timeline task_id
                         (update_buffering (\<lambda>b. sb_turn_id b = turn_id)
                            (\<lambda>b. let was_available = sb_retry_available b;
                                    b1 = b\<lparr>sb_retry_available := (sb_faster_model b \<noteq> None)\<rparr>
                                in if was_available \<noteq> sb_retry_available b1
                                   then b1\<lparr>sb_dismissed := False, sb_retry_pending := False\<rparr>
                                   else b1)
                            (t\<lparr>tl_retryable_turn := Some submission\<rparr>)) s, []))"

definition turn_steer_recorded ::
  "str \<Rightarrow> str \<Rightarrow> retryable_user_message \<Rightarrow> app_state \<Rightarrow> step_result" where
  "turn_steer_recorded task_id turn_id message s =
     (let t = timeline_of s task_id
      in if tl_active_turn_id t \<noteq> Some turn_id then (set_timeline task_id t s, [])
         else let message = normalize_retryable_user_message message
              in case tl_retryable_turn t of
                   Some submission \<Rightarrow>
                     if length (rs_messages submission) < MAX_RETRYABLE_TURN_MESSAGES
                     then (set_timeline task_id (t\<lparr>tl_retryable_turn :=
                             Some (submission\<lparr>rs_messages := rs_messages submission @ [message]\<rparr>)\<rparr>) s, [])
                     else (set_timeline task_id
                             (update_buffering (\<lambda>b. sb_turn_id b = turn_id \<and> sb_retry_available b)
                                (\<lambda>b. b\<lparr>sb_retry_available := False, sb_dismissed := False,
                                       sb_retry_pending := False\<rparr>)
                                (t\<lparr>tl_retryable_turn := None\<rparr>)) s, [])
                 | None \<Rightarrow>
                     (set_timeline task_id
                        (update_buffering (\<lambda>b. sb_turn_id b = turn_id \<and> sb_retry_available b)
                           (\<lambda>b. b\<lparr>sb_retry_available := False, sb_dismissed := False,
                                  sb_retry_pending := False\<rparr>)
                           (t\<lparr>tl_retryable_turn := None\<rparr>)) s, []))"

text \<open>The part of the timeline that the end of a turn resets, shared by the two ways it ends.\<close>

definition end_turn :: "str \<Rightarrow> timeline_state \<Rightarrow> timeline_state" where
  "end_turn turn_id t =
     (let t1 = (if tl_active_turn_id t = Some turn_id
                then t\<lparr>tl_active_turn_id := None, tl_retryable_turn := None\<rparr> else t);
          t2 = (if tl_active_review_turn_id t1 = Some turn_id
                then t1\<lparr>tl_active_review_turn_id := None\<rparr> else t1)
      in (drop_buffering turn_id t2)
           \<lparr>tl_interrupt_pending := False, tl_compaction_in_flight := False\<rparr>)"

definition push_background_completion :: "str \<Rightarrow> str list \<Rightarrow> str list" where
  "push_background_completion task_id ids =
     (let kept = filter (\<lambda>c. c \<noteq> task_id) ids
      in (if length kept \<ge> MAX_VISIBLE_THREADS then drop 1 kept else kept) @ [task_id])"

definition turn_completed :: "str \<Rightarrow> str \<Rightarrow> bool \<Rightarrow> bool \<Rightarrow> app_state \<Rightarrow> step_result" where
  "turn_completed task_id turn_id completed failed s =
     (let s1 = clear_unresolved_detached_review_terminal task_id turn_id
                 (record_pending_review_terminal task_id turn_id s);
          t = timeline_of s1 task_id
      in if tl_active_turn_id t \<noteq> None \<and> tl_active_turn_id t \<noteq> Some turn_id
         then (set_timeline task_id t s1, [])
         else let completed_active = (tl_active_turn_id t = Some turn_id);
                  s2 = set_timeline task_id (end_turn turn_id t) s1;
                  known_task_id =
                    (if list_ex (\<lambda>task. ts_id task = task_id) (tasks s2)
                        \<and> length task_id \<le> MAX_PINNED_TASK_ID_BYTES
                     then Some task_id else None);
                  s3 = set_task_status task_id
                         (if failed then task_run_status.Failed else task_run_status.Completed) s2;
                  s4 = (case known_task_id of
                          Some known \<Rightarrow>
                            if completed_active \<and> completed \<and> \<not> failed
                               \<and> selected_task_id s3 \<noteq> Some task_id
                            then s3\<lparr>background_completion_task_ids :=
                                   push_background_completion known (background_completion_task_ids s3)\<rparr>
                            else s3
                        | None \<Rightarrow> s3)
              in schedule_goal_continuation task_id s4)"

definition turn_interrupted :: "str \<Rightarrow> str \<Rightarrow> app_state \<Rightarrow> step_result" where
  "turn_interrupted task_id turn_id s =
     (let s1 = clear_unresolved_detached_review_terminal task_id turn_id
                 (record_pending_review_terminal task_id turn_id s);
          t = timeline_of s1 task_id
      in if tl_active_turn_id t \<noteq> None \<and> tl_active_turn_id t \<noteq> Some turn_id
         then (set_timeline task_id t s1, [])
         else (set_task_status task_id task_run_status.Interrupted
                 (set_timeline task_id
                    ((end_turn turn_id t)\<lparr>tl_goal_continuation_pending := False\<rparr>) s1), []))"

definition turn_diff_updated :: "str \<Rightarrow> str \<Rightarrow> str \<Rightarrow> bool \<Rightarrow> app_state \<Rightarrow> step_result" where
  "turn_diff_updated task_id turn_id diff truncated s =
     (let t = timeline_of s task_id
      in if (tl_active_turn_id t \<noteq> None \<and> tl_active_turn_id t \<noteq> Some turn_id)
            \<or> (tl_active_turn_id t = None
               \<and> (case tl_last_turn_diff t of None \<Rightarrow> False
                  | Some current \<Rightarrow> td_turn_id current \<noteq> turn_id))
         then (set_timeline task_id t s, [])
         else let was_truncated = (length diff > MAX_TURN_DIFF_BYTES)
              in (set_timeline task_id
                    (t\<lparr>tl_last_turn_diff :=
                         Some \<lparr>td_turn_id = turn_id,
                               td_unified_diff = bounded_string diff MAX_TURN_DIFF_BYTES,
                               td_truncated = (truncated \<or> was_truncated)\<rparr>\<rparr>) s, []))"

definition turn_interrupt_failed :: "str \<Rightarrow> str \<Rightarrow> app_state \<Rightarrow> step_result" where
  "turn_interrupt_failed task_id message s =
     ((set_timeline task_id ((timeline_of s task_id)\<lparr>tl_interrupt_pending := False\<rparr>) s)
        \<lparr>status_message := Some message\<rparr>, [])"

definition safety_buffering_updated ::
  "str \<Rightarrow> str \<Rightarrow> bool \<Rightarrow> str option \<Rightarrow> app_state \<Rightarrow> step_result" where
  "safety_buffering_updated task_id turn_id show_buffering_ui faster_model s =
     (let t = timeline_of s task_id
      in if tl_active_turn_id t \<noteq> Some turn_id then (set_timeline task_id t s, [])
         else if \<not> show_buffering_ui then (set_timeline task_id (drop_buffering turn_id t) s, [])
         else if list_ex (\<lambda>item. ti_turn_id item = turn_id \<and> ti_kind item = timeline_kind.Agent)
                   (tl_items t)
         then (set_timeline task_id (t\<lparr>tl_safety_buffering := None\<rparr>) s, [])
         else let retry_available = (faster_model \<noteq> None
                    \<and> (case tl_retryable_turn t of None \<Rightarrow> False
                       | Some submission \<Rightarrow> rs_messages submission \<noteq> []
                           \<and> length (rs_messages submission) \<le> MAX_RETRYABLE_TURN_MESSAGES));
                  previous = (case tl_safety_buffering t of None \<Rightarrow> None
                    | Some b \<Rightarrow> if sb_turn_id b = turn_id then Some b else None);
                  availability_changed = (case previous of None \<Rightarrow> False
                    | Some b \<Rightarrow> sb_retry_available b \<noteq> retry_available)
              in (set_timeline task_id
                    (t\<lparr>tl_safety_buffering :=
                         Some \<lparr>sb_turn_id = turn_id, sb_faster_model = faster_model,
                               sb_retry_available = retry_available,
                               sb_dismissed =
                                 ((case previous of None \<Rightarrow> False | Some b \<Rightarrow> sb_dismissed b)
                                  \<and> \<not> availability_changed),
                               sb_retry_pending =
                                 ((case previous of None \<Rightarrow> False | Some b \<Rightarrow> sb_retry_pending b)
                                  \<and> \<not> availability_changed)\<rparr>\<rparr>) s, []))"

definition dismiss_safety_buffering :: "str \<Rightarrow> str \<Rightarrow> app_state \<Rightarrow> step_result" where
  "dismiss_safety_buffering task_id turn_id s =
     (set_timeline task_id
        (update_buffering (\<lambda>b. sb_turn_id b = turn_id) (\<lambda>b. b\<lparr>sb_dismissed := True\<rparr>)
           (timeline_of s task_id)) s, [])"

definition retry_safety_buffered_turn :: "str \<Rightarrow> str \<Rightarrow> app_state \<Rightarrow> step_result" where
  "retry_safety_buffered_turn task_id turn_id s =
     (if selected_task_id s \<noteq> Some task_id then (s, [])
      else let t = timeline_of s task_id; same = (set_timeline task_id t s, [])
           in if tl_active_turn_id t \<noteq> Some turn_id then same
              else case tl_safety_buffering t of
                     None \<Rightarrow> same
                   | Some b \<Rightarrow>
                       if \<not> (sb_turn_id b = turn_id \<and> sb_retry_available b \<and> \<not> sb_dismissed b
                             \<and> \<not> sb_retry_pending b)
                       then same
                       else (case (sb_faster_model b, tl_retryable_turn t) of
                               (Some faster_model, Some submission) \<Rightarrow>
                                 (set_timeline task_id
                                    (t\<lparr>tl_safety_buffering :=
                                         Some (b\<lparr>sb_retry_pending := True, sb_dismissed := True\<rparr>)\<rparr>) s,
                                  [effect.RetrySafetyBufferedTurn task_id turn_id faster_model submission])
                             | _ \<Rightarrow> same))"

definition safety_buffered_retry_failed ::
  "str \<Rightarrow> str \<Rightarrow> str option \<Rightarrow> retryable_user_message option \<Rightarrow> str \<Rightarrow> app_state \<Rightarrow> step_result" where
  "safety_buffered_retry_failed source_task_id turn_id restore_task_id prompt message s =
     (let s1 = set_timeline source_task_id
                 (update_buffering (\<lambda>b. sb_turn_id b = turn_id)
                    (\<lambda>b. b\<lparr>sb_retry_pending := False, sb_dismissed := (restore_task_id \<noteq> None)\<rparr>)
                    (timeline_of s source_task_id)) s;
          s2 = (case prompt of
                  Some prompt \<Rightarrow>
                    if restore_task_id = selected_task_id s1
                    then restore_retry_prompt (normalize_retryable_user_message prompt) s1 else s1
                | None \<Rightarrow> s1)
      in (s2\<lparr>status_message := Some (bounded_string message MAX_COMPOSER_BYTES)\<rparr>, []))"

definition dismiss_background_completion :: "app_state \<Rightarrow> step_result" where
  "dismiss_background_completion s =
     (s\<lparr>background_completion_task_ids := butlast (background_completion_task_ids s)\<rparr>, [])"

subsection \<open>Dispatch\<close>

datatype (plugins only: code size) turn_action =
    InterruptActiveTurn
  | TurnStarted str str
  | TurnSubmissionRecorded str str retryable_turn_submission
  | TurnSteerRecorded str str retryable_user_message
  | TurnCompleted str str bool bool
  | TurnInterrupted str str
  | TurnDiffUpdated str str str bool
  | TurnInterruptFailed str str
  | SafetyBufferingUpdated str str bool "str option"
  | DismissSafetyBuffering str str
  | RetrySafetyBufferedTurn str str
  | SafetyBufferedRetryFailed str str "str option" "retryable_user_message option" str
  | DismissBackgroundCompletion

fun reduce_turn :: "app_state \<Rightarrow> turn_action \<Rightarrow> step_result" where
  "reduce_turn s InterruptActiveTurn = interrupt_active_turn s"
| "reduce_turn s (TurnStarted t u) = turn_started t u s"
| "reduce_turn s (TurnSubmissionRecorded t u r) = turn_submission_recorded t u r s"
| "reduce_turn s (TurnSteerRecorded t u m) = turn_steer_recorded t u m s"
| "reduce_turn s (TurnCompleted t u c f) = turn_completed t u c f s"
| "reduce_turn s (TurnInterrupted t u) = turn_interrupted t u s"
| "reduce_turn s (TurnDiffUpdated t u d b) = turn_diff_updated t u d b s"
| "reduce_turn s (TurnInterruptFailed t m) = turn_interrupt_failed t m s"
| "reduce_turn s (SafetyBufferingUpdated t u b f) = safety_buffering_updated t u b f s"
| "reduce_turn s (DismissSafetyBuffering t u) = dismiss_safety_buffering t u s"
| "reduce_turn s (turn_action.RetrySafetyBufferedTurn t u) = retry_safety_buffered_turn t u s"
| "reduce_turn s (SafetyBufferedRetryFailed t u r p m) = safety_buffered_retry_failed t u r p m s"
| "reduce_turn s DismissBackgroundCompletion = dismiss_background_completion s"

lemmas turn_handler_defs = interrupt_active_turn_def turn_started_def
  turn_submission_recorded_def turn_steer_recorded_def turn_completed_def turn_interrupted_def
  turn_diff_updated_def turn_interrupt_failed_def safety_buffering_updated_def
  dismiss_safety_buffering_def retry_safety_buffered_turn_def safety_buffered_retry_failed_def
  dismiss_background_completion_def

subsection \<open>Invariant\<close>

definition submission_ok :: "retryable_turn_submission \<Rightarrow> bool" where
  "submission_ok r \<longleftrightarrow>
     rs_messages r \<noteq> [] \<and> length (rs_messages r) \<le> MAX_RETRYABLE_TURN_MESSAGES
     \<and> (\<forall>m \<in> set (rs_messages r). length (rm_text m) \<le> MAX_COMPOSER_BYTES
          \<and> length (rm_attachments m) \<le> MAX_COMPOSER_ATTACHMENTS)"

definition buffering_ok :: "timeline_state \<Rightarrow> safety_buffering_state \<Rightarrow> bool" where
  "buffering_ok t b \<longleftrightarrow>
     tl_active_turn_id t = Some (sb_turn_id b)
     \<and> (sb_retry_pending b \<longrightarrow> sb_dismissed b)
     \<and> (sb_retry_available b \<longrightarrow> sb_faster_model b \<noteq> None \<and> tl_retryable_turn t \<noteq> None)"

definition turn_ok :: "timeline_state \<Rightarrow> bool" where
  "turn_ok t \<longleftrightarrow>
     (\<forall>r. tl_retryable_turn t = Some r \<longrightarrow> tl_active_turn_id t \<noteq> None \<and> submission_ok r)
     \<and> (\<forall>b. tl_safety_buffering t = Some b \<longrightarrow> buffering_ok t b)
     \<and> (\<forall>d. tl_last_turn_diff t = Some d \<longrightarrow> length (td_unified_diff d) \<le> MAX_TURN_DIFF_BYTES)"

definition background_ok :: "str list \<Rightarrow> bool" where
  "background_ok ids \<longleftrightarrow>
     distinct ids \<and> length ids \<le> MAX_VISIBLE_THREADS
     \<and> (\<forall>i \<in> set ids. length i \<le> MAX_PINNED_TASK_ID_BYTES)"

definition terminals_ok :: "review_terminal_identity list \<Rightarrow> bool" where
  "terminals_ok ts \<longleftrightarrow> distinct ts \<and> length ts \<le> MAX_REVIEW_START_TERMINALS"

definition turns_inv :: "app_state \<Rightarrow> bool" where
  "turns_inv s \<longleftrightarrow>
     (\<forall>t \<in> ran (timelines s). turn_ok t) \<and> background_ok (background_completion_task_ids s)
     \<and> terminals_ok (rv_terminal_events (review_start s))"

lemma default_turn_ok [simp]: "turn_ok default_timeline"
  by (simp add: turn_ok_def default_timeline_def)

lemma timeline_of_turn_ok: "turns_inv s \<Longrightarrow> turn_ok (timeline_of s t)"
  unfolding turns_inv_def by (rule get_or_ran) simp_all

lemma set_timeline_turns: "turns_inv s \<Longrightarrow> turn_ok v \<Longrightarrow> turns_inv (set_timeline t v s)"
  by (auto simp: turns_inv_def ran_def split: if_splits)

lemma turns_inv_update [simp]:
  "turns_inv (s\<lparr>status_message := m\<rparr>) = turns_inv s"
  "turns_inv (s\<lparr>goals := g\<rparr>) = turns_inv s"
  "turns_inv (s\<lparr>tasks := k\<rparr>) = turns_inv s"
  "turns_inv (s\<lparr>composer_controls := c\<rparr>) = turns_inv s"
  "turns_inv (set_task_status t st s) = turns_inv s"
  "turns_inv (restore_retry_prompt p s) = turns_inv s"
  by (simp_all add: turns_inv_def set_task_status_def restore_retry_prompt_def Let_def)

lemma turn_ok_update [simp]:
  "turn_ok (t\<lparr>tl_interrupt_pending := b\<rparr>) = turn_ok t"
  "turn_ok (t\<lparr>tl_goal_continuation_pending := b\<rparr>) = turn_ok t"
  "turn_ok (t\<lparr>tl_compaction_in_flight := b\<rparr>) = turn_ok t"
  "turn_ok (t\<lparr>tl_active_review_turn_id := r\<rparr>) = turn_ok t"
  "turn_ok (t\<lparr>tl_status := st\<rparr>) = turn_ok t"
  "turn_ok (t\<lparr>tl_items := items\<rparr>) = turn_ok t"
  by (simp_all add: turn_ok_def buffering_ok_def)

lemma schedule_goal_turns: "turns_inv s \<Longrightarrow> turns_inv (fst (schedule_goal_continuation t s))"
  using timeline_of_turn_ok [of s t]
  by (simp add: schedule_goal_continuation_def Let_def set_timeline_turns)

subsection \<open>The handlers keep it\<close>

lemma normalized_submission_ok:
  "rs_messages (normalize_retryable_submission r) \<noteq> [] \<Longrightarrow> submission_ok (normalize_retryable_submission r)"
  by (auto simp: submission_ok_def normalize_retryable_submission_def Let_def
      normalized_message_bounds)

lemma end_turn_ok: "turn_ok t \<Longrightarrow> turn_ok (end_turn u t)"
  by (auto simp: end_turn_def Let_def drop_buffering_def turn_ok_def buffering_ok_def
      split: option.splits)

lemma drop_buffering_ok: "turn_ok t \<Longrightarrow> turn_ok (drop_buffering u t)"
  by (auto simp: drop_buffering_def turn_ok_def buffering_ok_def split: option.splits)

lemma update_buffering_ok:
  assumes "turn_ok t"
    and "\<And>b. tl_safety_buffering t = Some b \<Longrightarrow> p b \<Longrightarrow> buffering_ok t b \<Longrightarrow> buffering_ok t (f b)"
  shows "turn_ok (update_buffering p f t)"
proof (cases "tl_safety_buffering t")
  case None
  with assms(1) show ?thesis by (simp add: update_buffering_def)
next
  case (Some b)
  then have b: "buffering_ok t b" using assms(1) by (simp add: turn_ok_def)
  have frame: "buffering_ok (t\<lparr>tl_safety_buffering := c\<rparr>) x = buffering_ok t x" for c x
    by (simp add: buffering_ok_def)
  show ?thesis
    using assms Some b by (auto simp: update_buffering_def turn_ok_def frame)
qed

lemma background_push_ok:
  "background_ok ids \<Longrightarrow> length t \<le> MAX_PINNED_TASK_ID_BYTES \<Longrightarrow>
   background_ok (push_background_completion t ids)"
proof -
  assume ok: "background_ok ids" and len: "length t \<le> MAX_PINNED_TASK_ID_BYTES"
  let ?kept = "filter (\<lambda>c. c \<noteq> t) ids"
  have kept: "length ?kept \<le> MAX_VISIBLE_THREADS"
    using ok unfolding background_ok_def by (intro length_filter_bound) blast
  have "distinct ?kept" using ok by (simp add: background_ok_def)
  with kept ok len show ?thesis
    by (auto simp: push_background_completion_def Let_def background_ok_def MAX_VISIBLE_THREADS_def
        distinct_drop dest: in_set_dropD)
qed

lemma record_terminal_inv: "turns_inv s \<Longrightarrow> turns_inv (record_pending_review_terminal t u s)"
proof -
  assume inv: "turns_inv s"
  have "terminals_ok ((if length ts = MAX_REVIEW_START_TERMINALS then remove_at 0 ts else ts) @ [x])"
    if "terminals_ok ts" "x \<notin> set ts" for ts and x :: review_terminal_identity
    using that set_remove_at [of 0 ts] distinct_remove_at [of ts 0]
    by (auto simp: terminals_ok_def length_remove_at_if MAX_REVIEW_START_TERMINALS_def)
  with inv show ?thesis
    by (auto simp: record_pending_review_terminal_def Let_def turns_inv_def list_ex_iff)
qed

lemma clear_terminal_inv: "turns_inv s \<Longrightarrow> turns_inv (clear_unresolved_detached_review_terminal t u s)"
  by (auto simp: clear_unresolved_detached_review_terminal_def Let_def turns_inv_def
      split: option.splits)

lemma review_helpers_timelines [simp]:
  "timelines (record_pending_review_terminal t u s) = timelines s"
  "timelines (clear_unresolved_detached_review_terminal t u s) = timelines s"
  "tasks (record_pending_review_terminal t u s) = tasks s"
  "tasks (clear_unresolved_detached_review_terminal t u s) = tasks s"
  "selected_task_id (record_pending_review_terminal t u s) = selected_task_id s"
  "selected_task_id (clear_unresolved_detached_review_terminal t u s) = selected_task_id s"
  by (auto simp: record_pending_review_terminal_def clear_unresolved_detached_review_terminal_def
      Let_def split: option.splits)

end
