(* ===== verification/Turn_Properties.thy ===== *)
theory Turn_Properties
  imports Turns
begin

text \<open>
  What turns and goals promise: the turn invariant over runs, that only the active turn's end
  ends it, that a buffered turn is retried once per offer, that a completed goal is cleared
  once, and that every continuation of a goal was scheduled.
\<close>

subsection \<open>Every turn action keeps the invariant\<close>

lemma start_inv: "turns_inv s \<Longrightarrow> turns_inv (fst (turn_started t u s))"
proof -
  assume inv: "turns_inv s"
  have ok: "turn_ok (timeline_of s t)" by (rule timeline_of_turn_ok [OF inv])
  let ?ids = "filter (\<lambda>c. c \<noteq> t) (background_completion_task_ids s)"
  have "background_ok ?ids"
    using inv by (auto simp: turns_inv_def background_ok_def intro: length_filter_bound)
  with inv have s1: "turns_inv (s\<lparr>background_completion_task_ids := ?ids\<rparr>)"
    by (simp add: turns_inv_def)
  define s1 where "s1 = s\<lparr>background_completion_task_ids := ?ids\<rparr>"
  have "timeline_of s1 t = timeline_of s t" by (simp add: s1_def)
  with ok s1 show ?thesis
    unfolding turn_started_def Let_def s1_def [symmetric]
    by (auto intro!: set_timeline_turns simp: turn_ok_def buffering_ok_def)
qed

lemma end_inv:
  assumes "turns_inv s"
  shows "turns_inv (fst (turn_interrupted t u s))" and "turns_inv (fst (turn_completed t u c f s))"
proof -
  define s1 where "s1 = clear_unresolved_detached_review_terminal t u (record_pending_review_terminal t u s)"
  have s1: "turns_inv s1" unfolding s1_def by (intro clear_terminal_inv record_terminal_inv assms)
  have ok: "turn_ok (timeline_of s1 t)" by (rule timeline_of_turn_ok [OF s1])
  show "turns_inv (fst (turn_interrupted t u s))"
    unfolding turn_interrupted_def Let_def s1_def [symmetric]
    using s1 ok by (auto intro!: set_timeline_turns end_turn_ok)
  have pushed: "turns_inv (x\<lparr>background_completion_task_ids :=
      push_background_completion t (background_completion_task_ids x)\<rparr>)"
    if "turns_inv x" "length t \<le> MAX_PINNED_TASK_ID_BYTES" for x
    using that background_push_ok by (simp add: turns_inv_def)
  define s2 where "s2 = set_task_status t (if f then task_run_status.Failed else task_run_status.Completed)
      (set_timeline t (end_turn u (timeline_of s1 t)) s1)"
  have s2: "turns_inv s2" using s1 ok by (simp add: s2_def set_timeline_turns end_turn_ok)
  show "turns_inv (fst (turn_completed t u c f s))"
    unfolding turn_completed_def Let_def s1_def [symmetric] s2_def [symmetric]
    using s1 ok s2
    by (auto split: option.split if_split intro!: schedule_goal_turns pushed set_timeline_turns)
qed

lemma recorded_inv:
  assumes "turns_inv s"
  shows "turns_inv (fst (turn_submission_recorded t u r s))"
    and "turns_inv (fst (turn_steer_recorded t u m s))"
proof -
  have ok: "turn_ok (timeline_of s t)" by (rule timeline_of_turn_ok [OF assms])
  have stored: "turn_ok (v\<lparr>tl_retryable_turn := Some q\<rparr>)"
    if "turn_ok v" "tl_active_turn_id v \<noteq> None" "submission_ok q" for v q
    using that by (auto simp: turn_ok_def buffering_ok_def)
  show "turns_inv (fst (turn_submission_recorded t u r s))"
    unfolding turn_submission_recorded_def Let_def using assms ok
    by (auto intro!: set_timeline_turns update_buffering_ok stored normalized_submission_ok
        simp: buffering_ok_def)
  have pushed: "submission_ok (q\<lparr>rs_messages := rs_messages q @ [normalize_retryable_user_message m]\<rparr>)"
    if "submission_ok q" "length (rs_messages q) < MAX_RETRYABLE_TURN_MESSAGES" for q
    using that by (auto simp: submission_ok_def normalized_message_bounds)
  let ?off = "\<lambda>b. b\<lparr>sb_retry_available := False, sb_dismissed := False, sb_retry_pending := False\<rparr>"
  have dropped: "turn_ok (update_buffering (\<lambda>b. sb_turn_id b = u \<and> sb_retry_available b) ?off
      (v\<lparr>tl_retryable_turn := None\<rparr>))" if "turn_ok v" "tl_active_turn_id v = Some u" for v
    using that
    by (auto simp: turn_ok_def update_buffering_def buffering_ok_def split: option.splits)
  have message: "turn_ok (timeline_of s t) \<Longrightarrow> tl_retryable_turn (timeline_of s t) = Some q \<Longrightarrow>
      submission_ok q" for q
    by (simp add: turn_ok_def)
  show "turns_inv (fst (turn_steer_recorded t u m s))"
    unfolding turn_steer_recorded_def Let_def using assms ok
    by (auto split: option.split intro!: set_timeline_turns stored pushed dropped
        intro: message)
qed

lemma buffering_inv:
  assumes "turns_inv s"
  shows "turns_inv (fst (safety_buffering_updated t u b f s))"
    and "turns_inv (fst (dismiss_safety_buffering t u s))"
    and "turns_inv (fst (retry_safety_buffered_turn t u s))"
    and "turns_inv (fst (safety_buffered_retry_failed t u r p m s))"
proof -
  have ok: "turn_ok (timeline_of s t)" by (rule timeline_of_turn_ok [OF assms])
  have new: "turn_ok (v\<lparr>tl_safety_buffering := Some x\<rparr>)" if "turn_ok v" "buffering_ok v x" for v x
    using that by (auto simp: turn_ok_def buffering_ok_def)
  have none: "turn_ok (v\<lparr>tl_safety_buffering := None\<rparr>)" if "turn_ok v" for v
    using that by (auto simp: turn_ok_def buffering_ok_def)
  have old: "tl_safety_buffering (timeline_of s t) = Some x \<Longrightarrow> buffering_ok (timeline_of s t) x" for x
    using ok by (simp add: turn_ok_def)
  show "turns_inv (fst (safety_buffering_updated t u b f s))"
    unfolding safety_buffering_updated_def Let_def using assms ok
    by (auto intro!: set_timeline_turns drop_buffering_ok none new simp: buffering_ok_def
        split: option.splits dest: old)
  show "turns_inv (fst (dismiss_safety_buffering t u s))"
    unfolding dismiss_safety_buffering_def using assms ok
    by (auto intro!: set_timeline_turns update_buffering_ok simp: buffering_ok_def)
  show "turns_inv (fst (retry_safety_buffered_turn t u s))"
    unfolding retry_safety_buffered_turn_def Let_def using assms ok
    by (auto intro!: set_timeline_turns new simp: buffering_ok_def split: option.splits dest: old)
  show "turns_inv (fst (safety_buffered_retry_failed t u r p m s))"
    unfolding safety_buffered_retry_failed_def Let_def using assms ok
    by (auto intro!: set_timeline_turns update_buffering_ok simp: buffering_ok_def
        split: option.splits)
qed

lemma other_turn_inv:
  assumes "turns_inv s"
  shows "turns_inv (fst (interrupt_active_turn s))"
    and "turns_inv (fst (turn_diff_updated t u d b s))"
    and "turns_inv (fst (turn_interrupt_failed t m s))"
    and "turns_inv (fst (dismiss_background_completion s))"
proof -
  note ok = timeline_of_turn_ok [OF assms]
  show "turns_inv (fst (interrupt_active_turn s))"
    unfolding interrupt_active_turn_def Let_def using assms ok
    by (auto split: option.splits intro!: set_timeline_turns)
  have "turn_ok (v\<lparr>tl_last_turn_diff := Some \<lparr>td_turn_id = u,
      td_unified_diff = bounded_string d MAX_TURN_DIFF_BYTES, td_truncated = q\<rparr>\<rparr>)"
    if "turn_ok v" for v q
    using that by (auto simp: turn_ok_def buffering_ok_def)
  then show "turns_inv (fst (turn_diff_updated t u d b s))"
    unfolding turn_diff_updated_def Let_def using assms ok by (auto intro!: set_timeline_turns)
  show "turns_inv (fst (turn_interrupt_failed t m s))"
    unfolding turn_interrupt_failed_def using assms ok by (auto intro!: set_timeline_turns)
  have "background_ok (butlast ids)" if "background_ok ids" for ids
    using that by (auto simp: background_ok_def distinct_butlast dest: in_set_butlastD)
  then show "turns_inv (fst (dismiss_background_completion s))"
    using assms by (simp add: dismiss_background_completion_def turns_inv_def)
qed

lemma reduce_turn_inv: "turns_inv s \<Longrightarrow> turns_inv (fst (reduce_turn s a))"
  by (cases a) (simp_all add: start_inv end_inv recorded_inv buffering_inv other_turn_inv)

interpretation turns: reducer_component reduce_turn turns_inv
  by unfold_locales (rule reduce_turn_inv)

subsection \<open>Counting continuations\<close>

fun continued :: "str \<Rightarrow> effect list \<Rightarrow> nat" where
  "continued t [] = 0"
| "continued t (ContinueGoal t' # es) = (if t' = t then 1 else 0) + continued t es"
| "continued t (_ # es) = continued t es"

fun scheduled :: "str \<Rightarrow> effect list \<Rightarrow> nat" where
  "scheduled t [] = 0"
| "scheduled t (ScheduleGoalContinuation t' # es) = (if t' = t then 1 else 0) + scheduled t es"
| "scheduled t (_ # es) = scheduled t es"

lemma continued_append: "continued t (xs @ ys) = continued t xs + continued t ys"
  by (induction t xs rule: continued.induct) auto

lemma scheduled_append: "scheduled t (xs @ ys) = scheduled t xs + scheduled t ys"
  by (induction t xs rule: scheduled.induct) auto

fun pending_in :: "timeline_state option \<Rightarrow> nat" where
  "pending_in None = 0"
| "pending_in (Some v) = (if tl_goal_continuation_pending v then 1 else 0)"

definition pending_continuation :: "app_state \<Rightarrow> str \<Rightarrow> nat" where
  "pending_continuation s t = pending_in (timelines s t)"

text \<open>A step pays each continuation from the pending one, which only scheduling sets.\<close>

definition continuation_paid :: "str \<Rightarrow> app_state \<Rightarrow> step_result \<Rightarrow> bool" where
  "continuation_paid t s r \<longleftrightarrow>
     continued t (snd r) + pending_continuation (fst r) t
     \<le> pending_continuation s t + scheduled t (snd r)"

lemma restore_keeps_timelines [simp]: "timelines (restore_retry_prompt p s) = timelines s"
  by (simp add: restore_retry_prompt_def Let_def)

lemma pending_get_or: "pending_in (timelines s t) = (if tl_goal_continuation_pending (timeline_of s t) then 1 else 0)"
  by (cases "timelines s t") (simp_all add: get_or_def default_timeline_def)

lemma schedule_paid: "continuation_paid t s (schedule_goal_continuation t' s)"
  by (auto simp: continuation_paid_def schedule_goal_continuation_def Let_def
      pending_continuation_def pending_get_or)

lemma snapshot_paid:
  "pending_continuation (fst (apply_thread_goal_snapshot g s)) t \<le> pending_continuation s t"
  "continued t (snd (apply_thread_goal_snapshot g s)) = 0"
  by (simp_all add: apply_thread_goal_snapshot_def Let_def pending_continuation_def)

lemma goal_paid: "continuation_paid t s (reduce_goal s a)"
proof (cases a)
  case (GoalLoaded t' g)
  show ?thesis
  proof (cases g)
    case None
    then show ?thesis
      by (simp add: GoalLoaded goal_loaded_def continuation_paid_def pending_continuation_def)
  next
    case (Some goal)
    have "continuation_paid t s (schedule_goal_continuation t' (fst (apply_thread_goal_snapshot goal s)))"
      using schedule_paid [of t "fst (apply_thread_goal_snapshot goal s)" t'] snapshot_paid(1) [of goal s t]
      by (simp add: continuation_paid_def)
    moreover have "continuation_paid t s (apply_thread_goal_snapshot goal s)"
      using snapshot_paid(1) [of goal s t] snapshot_paid(2) [of t goal s]
      by (simp add: continuation_paid_def)
    ultimately show ?thesis
      by (auto simp: GoalLoaded Some goal_loaded_def case_prod_beta Let_def)
  qed
next
  case (GoalUpdated g)
  then show ?thesis
    using snapshot_paid(1) [of g s t] snapshot_paid(2) [of t g s] by (simp add: continuation_paid_def)
next
  case (GoalContinuationDue t')
  then show ?thesis
    by (auto simp: goal_continuation_due_def continuation_paid_def Let_def pending_continuation_def
        split: option.splits)
next
  case (MaybeContinueGoal t')
  then show ?thesis by (simp add: schedule_paid)
qed (auto simp: continuation_paid_def goal_load_failed_def goal_attachment_start_failed_def
      set_goal_def set_goal_status_def clear_goal_def goal_cleared_def goal_continuation_failed_def
      Let_def pending_continuation_def split: option.splits)

lemma goals_paid:
  "continued t (snd (run reduce_goal s as)) + pending_continuation (fst (run reduce_goal s as)) t
   \<le> pending_continuation s t + scheduled t (snd (run reduce_goal s as))"
proof (induction as arbitrary: s)
  case Nil
  then show ?case by simp
next
  case (Cons a as)
  from goal_paid [of t s a] Cons.IH [of "fst (reduce_goal s a)"] show ?case
    by (simp add: continuation_paid_def run_Cons_fst run_Cons_snd continued_append scheduled_append
        del: run.simps)
qed

subsection \<open>Repeated snapshots of a completed goal\<close>

definition goal_acknowledged :: "thread_goal \<Rightarrow> app_state \<Rightarrow> bool" where
  "goal_acknowledged g s \<longleftrightarrow>
     (case gs_completed_goal (goal_of s (tg_task_id g)) of
        None \<Rightarrow> False | Some c \<Rightarrow> tg_updated_at c = tg_updated_at g)"

lemma acknowledged_step:
  assumes "tg_status g = Complete" and "goal_acknowledged g s"
    and "a = GoalUpdated g \<or> a = GoalCleared (tg_task_id g)"
  shows "goal_acknowledged g (fst (reduce_goal s a)) \<and> snd (reduce_goal s a) = []
    \<and> (gs_goal (goal_of s (tg_task_id g)) = None \<longrightarrow>
         gs_goal (goal_of (fst (reduce_goal s a)) (tg_task_id g)) = None)"
  using assms
  by (auto simp: goal_acknowledged_def apply_thread_goal_snapshot_def goal_cleared_def Let_def
      split: option.splits if_splits)

lemma acknowledged_run:
  assumes "tg_status g = Complete" and "goal_acknowledged g s"
    and "set as \<subseteq> {GoalUpdated g, GoalCleared (tg_task_id g)}"
  shows "snd (run reduce_goal s as) = [] \<and>
    (gs_goal (goal_of s (tg_task_id g)) = None \<longrightarrow>
       gs_goal (goal_of (fst (run reduce_goal s as)) (tg_task_id g)) = None)"
  using assms(2,3)
proof (induction as arbitrary: s)
  case Nil
  then show ?case by simp
next
  case (Cons a as)
  then have a: "a = GoalUpdated g \<or> a = GoalCleared (tg_task_id g)" by simp
  from acknowledged_step [OF assms(1) Cons.prems(1) a] Cons.IH [of "fst (reduce_goal s a)"]
    Cons.prems(2)
  show ?case by (simp add: run_Cons_fst run_Cons_snd del: run.simps reduce_goal.simps)
qed

lemma snapshot_acknowledges:
  "tg_status g = Complete \<Longrightarrow> goal_acknowledged g (fst (reduce_goal s (GoalUpdated g)))"
  by (auto simp: goal_acknowledged_def apply_thread_goal_snapshot_def Let_def split: option.splits)

subsection \<open>Properties\<close>

text \<open>
  C20: the end of a turn acts on the turn it names. When another turn is active, nothing of the
  task changes; when it is the active one, no active turn, retryable submission or safety
  buffering is left; other tasks' timelines never change.
\<close>

theorem turn_end_is_targeted:
  assumes "turns_inv s" and "a = TurnCompleted t u c f \<or> a = TurnInterrupted t u"
  shows "case reduce_turn s a of (s', es) \<Rightarrow>
      (\<forall>v. tl_active_turn_id (timeline_of s t) = Some v \<and> v \<noteq> u \<longrightarrow>
         timeline_of s' t = timeline_of s t \<and> tasks s' = tasks s \<and> es = []
         \<and> background_completion_task_ids s' = background_completion_task_ids s)
    \<and> (tl_active_turn_id (timeline_of s t) = Some u \<longrightarrow>
         tl_active_turn_id (timeline_of s' t) = None \<and> tl_retryable_turn (timeline_of s' t) = None
         \<and> tl_safety_buffering (timeline_of s' t) = None)
    \<and> (\<forall>t'. t' \<noteq> t \<longrightarrow> timeline_of s' t' = timeline_of s t')"
proof -
  define s1 where "s1 = clear_unresolved_detached_review_terminal t u (record_pending_review_terminal t u s)"
  have tl: "timelines s1 = timelines s" "tasks s1 = tasks s" by (simp_all add: s1_def)
  have bg: "background_completion_task_ids s1 = background_completion_task_ids s"
    by (auto simp: s1_def record_pending_review_terminal_def
        clear_unresolved_detached_review_terminal_def Let_def split: option.splits)
  have ok: "turn_ok (timeline_of s t)" by (rule timeline_of_turn_ok [OF assms(1)])
  let ?e = "end_turn u (timeline_of s t)"
  have ended: "tl_active_turn_id (timeline_of s t) = Some u \<Longrightarrow>
      tl_active_turn_id ?e = None \<and> tl_retryable_turn ?e = None \<and> tl_safety_buffering ?e = None"
    using ok
    by (auto simp: end_turn_def Let_def drop_buffering_def turn_ok_def buffering_ok_def
        split: option.splits)
  have scheduled_frame: "tl_active_turn_id (timeline_of (fst (schedule_goal_continuation k x)) k')
        = tl_active_turn_id (timeline_of x k')
      \<and> tl_retryable_turn (timeline_of (fst (schedule_goal_continuation k x)) k')
        = tl_retryable_turn (timeline_of x k')
      \<and> tl_safety_buffering (timeline_of (fst (schedule_goal_continuation k x)) k')
        = tl_safety_buffering (timeline_of x k')
      \<and> (k' \<noteq> k \<longrightarrow> timeline_of (fst (schedule_goal_continuation k x)) k' = timeline_of x k')"
    for k k' x
    by (cases "k' = k") (simp_all add: schedule_goal_continuation_def Let_def)
  from assms(2) show ?thesis
  proof
    assume a: "a = TurnInterrupted t u"
    show ?thesis using ended tl bg
      by (auto simp: a turn_interrupted_def Let_def s1_def [symmetric] set_task_status_def)
  next
    assume a: "a = TurnCompleted t u c f"
    show ?thesis
    proof (cases "tl_active_turn_id (timeline_of s t) \<noteq> None \<and> tl_active_turn_id (timeline_of s t) \<noteq> Some u")
      case True
      then show ?thesis using tl bg
        by (auto simp: a turn_completed_def Let_def s1_def [symmetric])
    next
      case False
      obtain x where x: "reduce_turn s a = schedule_goal_continuation t x"
        "timelines x = (timelines s)(t \<mapsto> ?e)"
        using False tl
        by (auto simp: a turn_completed_def Let_def s1_def [symmetric] set_task_status_def
            split: option.splits if_splits)
      then show ?thesis
        using False ended scheduled_frame [where k = t and x = x]
        by (auto simp: case_prod_beta)
    qed
  qed
qed


text \<open>
  C22: a completed goal is cleared on the server exactly once. Whatever repeated snapshots of
  it and clear notices arrive after the first snapshot, no second request is sent, and once the
  goal has been cleared locally a late snapshot does not bring it back.
\<close>

theorem goal_completion_cleared_once:
  assumes "tg_status g = Complete" and "\<not> goal_acknowledged g s"
    and "set as \<subseteq> {GoalUpdated g, GoalCleared (tg_task_id g)}"
    and "set bs \<subseteq> {GoalUpdated g, GoalCleared (tg_task_id g)}"
  shows "snd (run reduce_goal s (GoalUpdated g # as @ GoalCleared (tg_task_id g) # bs))
      = [effect.ClearGoal (tg_task_id g)]
    \<and> gs_goal (goal_of (fst (run reduce_goal s
        (GoalUpdated g # as @ GoalCleared (tg_task_id g) # bs))) (tg_task_id g)) = None"
proof -
  let ?s1 = "fst (reduce_goal s (GoalUpdated g))"
  let ?s2 = "fst (run reduce_goal ?s1 as)"
  let ?c = "GoalCleared (tg_task_id g)"
  have ack: "goal_acknowledged g ?s1" by (rule snapshot_acknowledges [OF assms(1)])
  have kept: "goal_acknowledged g (fst (run reduce_goal x cs))"
    if "goal_acknowledged g x" "set cs \<subseteq> {GoalUpdated g, ?c}" for x cs
    using that
  proof (induction cs arbitrary: x)
    case (Cons a cs)
    then have "a = GoalUpdated g \<or> a = ?c" by simp
    from acknowledged_step [OF assms(1) Cons.prems(1) this] Cons.IH Cons.prems(2)
    show ?case by (simp add: run_Cons_fst del: run.simps reduce_goal.simps)
  qed simp
  have ack2: "goal_acknowledged g ?s2" by (rule kept [OF ack assms(3)])
  have ack3: "goal_acknowledged g (fst (reduce_goal ?s2 ?c))" "snd (reduce_goal ?s2 ?c) = []"
    using acknowledged_step [OF assms(1) ack2, of ?c] by simp_all
  have first: "snd (reduce_goal s (GoalUpdated g)) = [effect.ClearGoal (tg_task_id g)]"
    using assms(1,2)
    by (auto simp: goal_acknowledged_def apply_thread_goal_snapshot_def Let_def split: option.splits)
  have gone: "gs_goal (goal_of (fst (reduce_goal ?s2 ?c)) (tg_task_id g)) = None"
    by (simp add: goal_cleared_def)
  show ?thesis
    using first gone ack3(2) acknowledged_run [OF assms(1) ack assms(3)]
      acknowledged_run [OF assms(1) ack3(1) assms(4)]
    by (simp add: run_Cons_fst run_Cons_snd run_append run_append_snd
        del: run.simps reduce_goal.simps)
qed

text \<open>
  C23: a goal is continued with a new turn at most as often as a continuation was scheduled for
  it (or was pending at the start), whatever the order of the goal events.
\<close>

theorem goal_continuations_scheduled:
  "continued t (snd (run reduce_goal s as))
   \<le> pending_continuation s t + scheduled t (snd (run reduce_goal s as))"
  using goals_paid [of t s as] by simp

subsection \<open>Witnesses\<close>

definition demo_submission :: retryable_turn_submission where
  "demo_submission =
     \<lparr>rs_messages = [\<lparr>rm_text = ''fix it'', rm_attachments = []\<rparr>], rs_model = None, rs_effort = None,
      rs_service_tier = None, rs_permissions = None, rs_approval_policy = None,
      rs_approvals_reviewer = None, rs_plan_mode = False, rs_personality = NoPersonality\<rparr>"

definition demo_turn_start :: app_state where
  "demo_turn_start = default_app_state\<lparr>selected_task_id := Some ''t''\<rparr>"

definition demo_turn :: app_state where
  "demo_turn = fst (run reduce_turn demo_turn_start
     [TurnStarted ''t'' ''u'', TurnSubmissionRecorded ''t'' ''u'' demo_submission,
      SafetyBufferingUpdated ''t'' ''u'' True (Some ''fast'')])"

definition demo_buffering :: safety_buffering_state where
  "demo_buffering = \<lparr>sb_turn_id = ''u'', sb_faster_model = Some ''fast'', sb_retry_available = True,
     sb_dismissed = False, sb_retry_pending = False\<rparr>"

lemma demo_turn_start_inv: "turns_inv demo_turn_start"
  by (simp add: turns_inv_def background_ok_def terminals_ok_def demo_turn_start_def
      default_app_state_def default_review_start_def)

lemma demo_turn_inv: "turns_inv demo_turn"
  unfolding demo_turn_def by (rule turns.run_inv [OF demo_turn_start_inv])

lemma demo_turn_values:
  "selected_task_id demo_turn = Some ''t''"
  "tl_active_turn_id (timeline_of demo_turn ''t'') = Some ''u''"
  "tl_safety_buffering (timeline_of demo_turn ''t'') = Some demo_buffering"
  by (simp_all add: demo_turn_def demo_turn_start_def turn_started_def turn_submission_recorded_def
      safety_buffering_updated_def Let_def demo_submission_def normalize_retryable_submission_def
      normalize_retryable_user_message_def MAX_RETRYABLE_TURN_MESSAGES_def update_buffering_def
      set_task_status_def default_app_state_def default_timeline_def get_or_def demo_buffering_def)

theorem turn_end_is_targeted_witness:
  "tl_active_turn_id (timeline_of (fst (reduce_turn demo_turn (TurnInterrupted ''t'' ''u''))) ''t'') = None
   \<and> timeline_of (fst (reduce_turn demo_turn (TurnInterrupted ''t'' ''other''))) ''t''
     = timeline_of demo_turn ''t''"
  using turn_end_is_targeted [OF demo_turn_inv, of "TurnInterrupted ''t'' ''u''" "''t''" "''u''" True True]
    turn_end_is_targeted [OF demo_turn_inv, of "TurnInterrupted ''t'' ''other''" "''t''" "''other''" True True]
    demo_turn_values(2)
  by (simp add: case_prod_beta)


definition demo_goal :: thread_goal where
  "demo_goal = \<lparr>tg_task_id = ''t'', tg_objective = ''ship'', tg_status = Complete, tg_tokens_used = 1,
     tg_token_budget = None, tg_time_used_seconds = 1, tg_created_at = 0, tg_updated_at = 5\<rparr>"

theorem goal_completion_cleared_once_witness:
  "snd (run reduce_goal demo_turn_start
     [GoalUpdated demo_goal, GoalUpdated demo_goal, GoalCleared ''t'', GoalUpdated demo_goal])
   = [effect.ClearGoal ''t'']"
proof -
  have "tg_status demo_goal = Complete" "tg_task_id demo_goal = ''t''"
    and "\<not> goal_acknowledged demo_goal demo_turn_start"
    by (simp_all add: demo_goal_def goal_acknowledged_def demo_turn_start_def default_app_state_def
        get_or_def default_goal_state_def)
  then show ?thesis
    using goal_completion_cleared_once [of demo_goal demo_turn_start "[GoalUpdated demo_goal]"
        "[GoalUpdated demo_goal]"]
    by (simp del: run.simps)
qed

end
