(* ===== verification/Approvals.thy ===== *)
theory Approvals
  imports Turns
begin

text \<open>
  Requests that wait for the user (the approval and user input actions of \<open>reduce\<close>,
  \<open>normalize_user_input_request\<close> and \<open>validate_user_input_answers\<close> in
  \<open>crates/codex-core/src/lib.rs\<close>): two queues that drop their oldest request at a limit, answered
  at most once and only with a valid answer.
\<close>

subsection \<open>Bounds\<close>

definition MAX_PENDING_APPROVALS :: nat where
  "MAX_PENDING_APPROVALS = 64"

definition MAX_PENDING_USER_INPUT_REQUESTS :: nat where
  "MAX_PENDING_USER_INPUT_REQUESTS = 64"

definition MAX_USER_INPUT_QUESTIONS :: nat where
  "MAX_USER_INPUT_QUESTIONS = 3"

definition MAX_USER_INPUT_OPTIONS :: nat where
  "MAX_USER_INPUT_OPTIONS = 64"

definition MAX_USER_INPUT_VALUE_BYTES :: nat where
  "MAX_USER_INPUT_VALUE_BYTES = 8 * 1024"

subsection \<open>Approvals\<close>

definition approval_requested :: "approval_request \<Rightarrow> app_state \<Rightarrow> step_result" where
  "approval_requested request s =
     (let s1 = (if length (approvals s) = MAX_PENDING_APPROVALS
                then s\<lparr>approvals := drop 1 (approvals s),
                       status_message :=
                         Some ''Oldest pending approval was dropped at the queue limit.''\<rparr>
                else s);
          s2 = set_task_status (ap_task_id request) WaitingForApproval s1
      in (s2\<lparr>approvals := approvals s2 @ [request]\<rparr>, []))"

definition resolve_approval :: "str \<Rightarrow> approval_decision \<Rightarrow> app_state \<Rightarrow> step_result" where
  "resolve_approval request_id decision s =
     (case position (\<lambda>r. ap_request_id r = request_id) (approvals s) of
        Some index \<Rightarrow>
          if index < length (approvals s)
          then let request = approvals s ! index;
                   s1 = s\<lparr>approvals := remove_at index (approvals s)\<rparr>
               in (s1, [if ap_kind request = DynamicTool then RespondApproval request_id decision
                        else RespondStandardApproval request decision])
          else (s, [])
      | None \<Rightarrow> (s, []))"

subsection \<open>Structured user input\<close>

definition bounded_field :: "str \<Rightarrow> str" where
  "bounded_field v = bounded_string (trim v) MAX_MCP_SERVER_FIELD_BYTES"

definition normalize_user_input_option :: "user_input_option \<Rightarrow> user_input_option" where
  "normalize_user_input_option o' =
     o'\<lparr>uo_label := bounded_string (trim (uo_label o')) MAX_USER_INPUT_VALUE_BYTES,
        uo_description := bounded_field (uo_description o')\<rparr>"

definition normalize_user_input_question :: "user_input_question \<Rightarrow> user_input_question" where
  "normalize_user_input_question q =
     q\<lparr>uq_id := bounded_field (uq_id q), uq_header := bounded_field (uq_header q),
       uq_question := bounded_field (uq_question q),
       uq_options :=
         retain_first uo_label {}
           (filter (\<lambda>o'. uo_label o' \<noteq> [])
             (map normalize_user_input_option (take MAX_USER_INPUT_OPTIONS (uq_options q))))\<rparr>"

definition normalize_user_input_request :: "user_input_request \<Rightarrow> user_input_request" where
  "normalize_user_input_request r =
     r\<lparr>ui_request_id := bounded_field (ui_request_id r), ui_task_id := bounded_field (ui_task_id r),
       ui_turn_id := bounded_field (ui_turn_id r), ui_item_id := bounded_field (ui_item_id r),
       ui_questions :=
         retain_first uq_id {}
           (filter (\<lambda>q. uq_id q \<noteq> [] \<and> uq_question q \<noteq> [])
             (map normalize_user_input_question (take MAX_USER_INPUT_QUESTIONS (ui_questions r))))\<rparr>"

definition answer_allowed :: "user_input_question \<Rightarrow> str \<Rightarrow> bool" where
  "answer_allowed q value \<longleftrightarrow>
     uq_options q = [] \<or> list_ex (\<lambda>o'. uo_label o' = value) (uq_options q) \<or> uq_is_other q"

fun answers_valid :: "user_input_question list \<Rightarrow> str set \<Rightarrow> user_input_answer list \<Rightarrow> bool" where
  "answers_valid questions answered [] = True"
| "answers_valid questions answered (a # as) =
     (case find (\<lambda>q. uq_id q = ua_question_id a) questions of
        None \<Rightarrow> False
      | Some question \<Rightarrow>
          if ua_question_id a \<in> answered \<or> length (ua_answers a) \<noteq> 1 then False
          else let value = trim (ua_answers a ! 0)
               in if value = [] \<or> length value > MAX_USER_INPUT_VALUE_BYTES then False
                  else answer_allowed question value
                       \<and> answers_valid questions (insert (ua_question_id a) answered) as)"

definition validate_user_input_answers :: "user_input_request \<Rightarrow> user_input_answers \<Rightarrow> bool" where
  "validate_user_input_answers request response =
     (if length response > length (ui_questions request) then False
      else answers_valid (ui_questions request) {} response)"

definition user_input_requested :: "user_input_request \<Rightarrow> app_state \<Rightarrow> step_result" where
  "user_input_requested request s =
     (if list_ex (\<lambda>pending. ui_request_id pending = ui_request_id request) (user_input_requests s)
      then (s, [])
      else let request = normalize_user_input_request request
           in if ui_questions request = []
              then (s\<lparr>status_message :=
                        Some ''The structured input request did not contain a valid question.''\<rparr>, [])
              else let s1 = (if length (user_input_requests s) = MAX_PENDING_USER_INPUT_REQUESTS
                             then s\<lparr>user_input_requests := drop 1 (user_input_requests s),
                                    status_message := Some
                                      ''Oldest pending input request was dropped at the queue limit.''\<rparr>
                             else s);
                       s2 = set_task_status (ui_task_id request) WaitingForApproval s1
                   in (s2\<lparr>user_input_requests := user_input_requests s2 @ [request]\<rparr>, []))"

definition resolve_user_input :: "str \<Rightarrow> user_input_answers \<Rightarrow> app_state \<Rightarrow> step_result" where
  "resolve_user_input request_id answers s =
     (case position (\<lambda>r. ui_request_id r = request_id) (user_input_requests s) of
        None \<Rightarrow> (s, [])
      | Some index \<Rightarrow>
          if \<not> validate_user_input_answers (user_input_requests s ! index) answers
          then (s\<lparr>status_message := Some ''The structured input response is invalid.''\<rparr>, [])
          else (s\<lparr>user_input_requests := remove_at index (user_input_requests s)\<rparr>,
                [RespondUserInput (user_input_requests s ! index) answers]))"

subsection \<open>Dispatch\<close>

datatype (plugins only: code size) request_action =
    ApprovalRequested approval_request
  | ResolveApproval str approval_decision
  | UserInputRequested user_input_request
  | ResolveUserInput str user_input_answers

fun reduce_request :: "app_state \<Rightarrow> request_action \<Rightarrow> step_result" where
  "reduce_request s (ApprovalRequested r) = approval_requested r s"
| "reduce_request s (ResolveApproval i d) = resolve_approval i d s"
| "reduce_request s (UserInputRequested r) = user_input_requested r s"
| "reduce_request s (ResolveUserInput i a) = resolve_user_input i a s"

subsection \<open>Invariant\<close>

definition question_ok :: "user_input_question \<Rightarrow> bool" where
  "question_ok q \<longleftrightarrow>
     uq_id q \<noteq> [] \<and> uq_question q \<noteq> [] \<and> distinct (map uo_label (uq_options q))
     \<and> length (uq_options q) \<le> MAX_USER_INPUT_OPTIONS
     \<and> (\<forall>o' \<in> set (uq_options q). uo_label o' \<noteq> [] \<and> length (uo_label o') \<le> MAX_USER_INPUT_VALUE_BYTES)"

definition input_request_ok :: "user_input_request \<Rightarrow> bool" where
  "input_request_ok r \<longleftrightarrow>
     ui_questions r \<noteq> [] \<and> length (ui_questions r) \<le> MAX_USER_INPUT_QUESTIONS
     \<and> distinct (map uq_id (ui_questions r)) \<and> (\<forall>q \<in> set (ui_questions r). question_ok q)"

definition requests_inv :: "app_state \<Rightarrow> bool" where
  "requests_inv s \<longleftrightarrow>
     length (approvals s) \<le> MAX_PENDING_APPROVALS
     \<and> length (user_input_requests s) \<le> MAX_PENDING_USER_INPUT_REQUESTS
     \<and> (\<forall>r \<in> set (user_input_requests s). input_request_ok r)"

lemma normalized_question_ok:
  "uq_id (normalize_user_input_question q) \<noteq> [] \<Longrightarrow> uq_question (normalize_user_input_question q) \<noteq> []
   \<Longrightarrow> question_ok (normalize_user_input_question q)"
proof -
  let ?os = "filter (\<lambda>o'. uo_label o' \<noteq> [])
    (map normalize_user_input_option (take MAX_USER_INPUT_OPTIONS (uq_options q)))"
  let ?kept = "retain_first uo_label {} ?os"
  assume ne: "uq_id (normalize_user_input_question q) \<noteq> []" "uq_question (normalize_user_input_question q) \<noteq> []"
  have opts: "uq_options (normalize_user_input_question q) = ?kept"
    by (simp add: normalize_user_input_question_def)
  have "length ?os \<le> MAX_USER_INPUT_OPTIONS" by (rule length_filter_bound) simp
  then have len: "length ?kept \<le> MAX_USER_INPUT_OPTIONS"
    using length_retain_first [of uo_label "{}" ?os] by linarith
  have "uo_label x \<noteq> [] \<and> length (uo_label x) \<le> MAX_USER_INPUT_VALUE_BYTES" if "x \<in> set ?kept" for x
    using in_set_retain_firstD [OF that] by (auto simp: normalize_user_input_option_def)
  moreover have "distinct (map uo_label ?kept)" by (rule distinct_retain_first)
  ultimately show ?thesis unfolding question_ok_def opts using ne len by blast
qed

lemma normalized_request_ok:
  "ui_questions (normalize_user_input_request r) \<noteq> [] \<Longrightarrow> input_request_ok (normalize_user_input_request r)"
proof -
  let ?qs = "filter (\<lambda>q. uq_id q \<noteq> [] \<and> uq_question q \<noteq> [])
    (map normalize_user_input_question (take MAX_USER_INPUT_QUESTIONS (ui_questions r)))"
  let ?kept = "retain_first uq_id {} ?qs"
  assume ne: "ui_questions (normalize_user_input_request r) \<noteq> []"
  have qs: "ui_questions (normalize_user_input_request r) = ?kept"
    by (simp add: normalize_user_input_request_def)
  have "length ?qs \<le> MAX_USER_INPUT_QUESTIONS" by (rule length_filter_bound) simp
  then have len: "length ?kept \<le> MAX_USER_INPUT_QUESTIONS"
    using length_retain_first [of uq_id "{}" ?qs] by linarith
  have "question_ok x" if "x \<in> set ?kept" for x
    using in_set_retain_firstD [OF that] by (auto intro: normalized_question_ok)
  moreover have "distinct (map uq_id ?kept)" by (rule distinct_retain_first)
  ultimately show ?thesis using ne len unfolding input_request_ok_def qs by blast
qed

lemma set_task_status_requests [simp]:
  "approvals (set_task_status t st s) = approvals s"
  "user_input_requests (set_task_status t st s) = user_input_requests s"
  by (simp_all add: set_task_status_def)

lemma approval_requested_queue:
  "approvals (fst (approval_requested r s)) = push_dropping MAX_PENDING_APPROVALS r (approvals s)"
  by (simp add: approval_requested_def Let_def push_dropping_def drop_Suc)

interpretation approval_queue:
  bounded_queue "\<lambda>r s. fst (approval_requested r s)" approvals MAX_PENDING_APPROVALS
  by unfold_locales
    (simp add: approval_requested_queue push_dropping_last_n MAX_PENDING_APPROVALS_def)

lemma requested_inv:
  assumes "requests_inv s"
  shows "requests_inv (fst (approval_requested r s))"
    and "requests_inv (fst (user_input_requested q s))"
proof -
  show "requests_inv (fst (approval_requested r s))"
    using assms approval_queue.push_bounded [of s r]
    by (simp add: requests_inv_def) (simp add: approval_requested_def Let_def)
  have push: "push_dropping MAX_PENDING_USER_INPUT_REQUESTS x xs
      = (if length xs = MAX_PENDING_USER_INPUT_REQUESTS then drop 1 xs else xs) @ [x]"
    for x and xs :: "user_input_request list"
    by (simp add: push_dropping_def drop_Suc)
  have bound: "length xs \<le> MAX_PENDING_USER_INPUT_REQUESTS \<Longrightarrow>
      length (push_dropping MAX_PENDING_USER_INPUT_REQUESTS x xs) \<le> MAX_PENDING_USER_INPUT_REQUESTS"
    for x and xs :: "user_input_request list"
    by (rule length_push_dropping) (simp_all add: MAX_PENDING_USER_INPUT_REQUESTS_def)
  show "requests_inv (fst (user_input_requested q s))"
  proof (cases "list_ex (\<lambda>p. ui_request_id p = ui_request_id q) (user_input_requests s)
      \<or> ui_questions (normalize_user_input_request q) = []")
    case True
    with assms show ?thesis by (auto simp: user_input_requested_def Let_def requests_inv_def)
  next
    case False
    let ?s' = "fst (user_input_requested q s)"
    have "user_input_requests ?s' = push_dropping MAX_PENDING_USER_INPUT_REQUESTS
        (normalize_user_input_request q) (user_input_requests s)"
      and "approvals ?s' = approvals s"
      using False by (simp_all add: user_input_requested_def Let_def push)
    moreover have "input_request_ok (normalize_user_input_request q)"
      using False by (intro normalized_request_ok) simp
    ultimately show ?thesis
      using assms bound [of "user_input_requests s"]
      by (auto simp: requests_inv_def push dest: in_set_dropD)
  qed
qed

lemma resolved_inv:
  assumes "requests_inv s"
  shows "requests_inv (fst (resolve_approval i d s))"
    and "requests_inv (fst (resolve_user_input i a s))"
proof -
  show "requests_inv (fst (resolve_approval i d s))"
    using assms by (auto simp: resolve_approval_def Let_def requests_inv_def length_remove_at_if
        split: option.split)
  have "requests_inv (s\<lparr>user_input_requests := remove_at k (user_input_requests s)\<rparr>)" for k
    using assms by (auto simp: requests_inv_def length_remove_at_if dest: in_set_remove_atD)
  then show "requests_inv (fst (resolve_user_input i a s))"
    using assms by (simp add: resolve_user_input_def split: option.split) (simp add: requests_inv_def)
qed

lemma reduce_request_inv: "requests_inv s \<Longrightarrow> requests_inv (fst (reduce_request s a))"
  by (cases a) (simp_all add: requested_inv resolved_inv)

interpretation requests: reducer_component reduce_request requests_inv
  by unfold_locales (rule reduce_request_inv)

subsection \<open>Valid answers\<close>

text \<open>What a valid response is, without the loop.\<close>

definition valid_answer :: "user_input_question list \<Rightarrow> user_input_answer \<Rightarrow> bool" where
  "valid_answer questions a \<longleftrightarrow>
     (\<exists>q v. find (\<lambda>q. uq_id q = ua_question_id a) questions = Some q \<and> ua_answers a = [v]
       \<and> trim v \<noteq> [] \<and> length (trim v) \<le> MAX_USER_INPUT_VALUE_BYTES \<and> answer_allowed q (trim v))"

lemma answers_valid_spec:
  "answers_valid questions answered as \<longleftrightarrow>
     (\<forall>a \<in> set as. valid_answer questions a) \<and> distinct (map ua_question_id as)
     \<and> set (map ua_question_id as) \<inter> answered = {}"
proof (induction questions answered as rule: answers_valid.induct)
  case (1 questions answered)
  then show ?case by simp
next
  case (2 questions answered a as)
  show ?case
  proof (cases "valid_answer questions a \<and> ua_question_id a \<notin> answered")
    case True
    then obtain q v where q: "find (\<lambda>q. uq_id q = ua_question_id a) questions = Some q"
      "ua_answers a = [v]" "trim v \<noteq> []" "length (trim v) \<le> MAX_USER_INPUT_VALUE_BYTES"
      "answer_allowed q (trim v)"
      by (auto simp: valid_answer_def)
    with True 2 show ?thesis by (auto simp: Let_def)
  next
    case False
    then have "\<not> answers_valid questions answered (a # as)"
      by (auto simp: valid_answer_def Let_def length_Suc_conv not_le split: option.splits if_splits)
    with False show ?thesis by auto
  qed
qed

subsection \<open>Properties\<close>

text \<open>
  C24: however many approvals are requested, the queue holds exactly the newest 64 of them, in
  their order; nothing is dropped before the limit is reached.
\<close>

theorem approvals_keep_newest:
  assumes "length (approvals s) \<le> MAX_PENDING_APPROVALS"
  shows "approvals (fst (run reduce_request s (map ApprovalRequested rs)))
    = last_n MAX_PENDING_APPROVALS (approvals s @ rs)"
proof -
  have "fst (run reduce_request s (map ApprovalRequested rs))
      = fold (\<lambda>r s. fst (approval_requested r s)) rs s"
    by (induction rs arbitrary: s) (simp_all add: run_Cons_fst del: run.simps(2))
  then show ?thesis using approval_queue.items_pushes [OF assms, of rs] by simp
qed


text \<open>
  C26: an answer is sent for a pending request only when it is valid: at most one answer per
  question, to questions of that request, each a single non-blank bounded value which is one of
  the options if the question has options and does not accept others. Otherwise the request
  stays pending.
\<close>

theorem user_input_answers_checked:
  assumes "position (\<lambda>r. ui_request_id r = i) (user_input_requests s) = Some k"
  defines "r \<equiv> user_input_requests s ! k"
  shows "if length answers \<le> length (ui_questions r) \<and> distinct (map ua_question_id answers)
      \<and> (\<forall>a \<in> set answers. valid_answer (ui_questions r) a)
    then reduce_request s (ResolveUserInput i answers)
      = (s\<lparr>user_input_requests := remove_at k (user_input_requests s)\<rparr>, [RespondUserInput r answers])
    else snd (reduce_request s (ResolveUserInput i answers)) = []
      \<and> user_input_requests (fst (reduce_request s (ResolveUserInput i answers))) = user_input_requests s"
  using assms
  by (auto simp: resolve_user_input_def validate_user_input_answers_def answers_valid_spec)

subsection \<open>Witnesses\<close>

definition demo_approval :: "str \<Rightarrow> approval_request" where
  "demo_approval i =
     \<lparr>ap_request_id = i, ap_task_id = ''t'', ap_turn_id = None, ap_kind = DynamicTool,
      ap_title = ''Run'', ap_detail = ''tool'', ap_context = DynamicToolContext\<rparr>"

definition demo_input :: "str \<Rightarrow> user_input_request" where
  "demo_input i =
     \<lparr>ui_request_id = i, ui_task_id = ''t'', ui_turn_id = ''u'', ui_item_id = ''x'',
      ui_auto_resolution_ms = None,
      ui_questions = [\<lparr>uq_id = ''q'', uq_header = ''h'', uq_question = ''ok?'',
        uq_options = [\<lparr>uo_label = ''yes'', uo_description = []\<rparr>], uq_is_other = False,
        uq_is_secret = False\<rparr>]\<rparr>"

definition demo_queue :: app_state where
  "demo_queue = default_app_state\<lparr>approvals := [demo_approval ''a'', demo_approval ''b''],
     user_input_requests := [demo_input ''r'']\<rparr>"

lemma demo_queue_inv: "requests_inv demo_queue"
  by (simp add: requests_inv_def demo_queue_def default_app_state_def input_request_ok_def
      question_ok_def demo_input_def MAX_PENDING_APPROVALS_def MAX_PENDING_USER_INPUT_REQUESTS_def
      MAX_USER_INPUT_QUESTIONS_def MAX_USER_INPUT_OPTIONS_def MAX_USER_INPUT_VALUE_BYTES_def)

theorem approvals_keep_newest_witness:
  "length (approvals (fst (run reduce_request demo_queue
     (map ApprovalRequested (replicate 100 (demo_approval ''c'')))))) = 64"
proof -
  have "length (approvals demo_queue) \<le> MAX_PENDING_APPROVALS"
    by (simp add: demo_queue_def MAX_PENDING_APPROVALS_def)
  then show ?thesis
    using approvals_keep_newest [of demo_queue "replicate 100 (demo_approval ''c'')"]
    by (simp add: length_last_n MAX_PENDING_APPROVALS_def del: run.simps replicate.simps)
qed


theorem user_input_answers_checked_witness:
  "snd (reduce_request demo_queue (ResolveUserInput ''r''
     [\<lparr>ua_question_id = ''q'', ua_answers = [''maybe'']\<rparr>])) = []"
proof -
  have "position (\<lambda>r. ui_request_id r = ''r'') (user_input_requests demo_queue) = Some 0"
    by (simp add: demo_queue_def demo_input_def)
  moreover have "\<not> valid_answer (ui_questions (user_input_requests demo_queue ! 0))
      \<lparr>ua_question_id = ''q'', ua_answers = [''maybe'']\<rparr>"
    by (simp add: demo_queue_def demo_input_def valid_answer_def answer_allowed_def trim_def
        trim_chars_def is_whitespace_def utf8_width_def)
  ultimately show ?thesis
    using user_input_answers_checked [of "''r''" demo_queue 0
        "[\<lparr>ua_question_id = ''q'', ua_answers = [''maybe'']\<rparr>]"]
    by (simp del: reduce_request.simps)
qed

subsection \<open>Deduplication of input requests\<close>

text \<open>
  The duplicate check of \<open>UserInputRequested\<close> compares the identifier as sent with the trimmed
  identifiers of the pending requests, so a padded identifier gets in twice.
\<close>

lemma padded_request_stored_twice:
  "map ui_request_id (user_input_requests (fst (run reduce_request default_app_state
     [UserInputRequested (demo_input '' r''), UserInputRequested (demo_input '' r'')])))
   = [''r'', ''r'']"
  by (simp add: user_input_requested_def Let_def default_app_state_def demo_input_def
      normalize_user_input_request_def normalize_user_input_question_def
      normalize_user_input_option_def bounded_field_def bounded_string_def trim_def trim_chars_def
      is_whitespace_def utf8_width_def MAX_MCP_SERVER_FIELD_BYTES_def MAX_USER_INPUT_VALUE_BYTES_def
      MAX_USER_INPUT_QUESTIONS_def MAX_USER_INPUT_OPTIONS_def MAX_PENDING_USER_INPUT_REQUESTS_def
      set_task_status_def)

end
