(* ===== verification/Terminals.thy ===== *)
theory Terminals
  imports App_State Interfaces Limits
begin

text \<open>
  The integrated terminals (\<open>spawn_terminal_tab\<close>, \<open>impl TerminalState\<close> and the terminal actions
  of \<open>reduce\<close> in \<open>crates/codex-core/src/lib.rs\<close>): at most 16 tabs, 8 per task, one active tab for
  every task that has tabs, and the start, run, stop life of a tab.
\<close>

subsection \<open>Bounds\<close>

definition MAX_TERMINAL_TABS :: nat where
  "MAX_TERMINAL_TABS = 16"

definition MAX_TERMINAL_TABS_PER_TASK :: nat where
  "MAX_TERMINAL_TABS_PER_TASK = 8"

definition MAX_TERMINAL_BYTES :: nat where
  "MAX_TERMINAL_BYTES = 4 * 1024 * 1024"

definition MAX_TERMINAL_INPUT_BYTES :: nat where
  "MAX_TERMINAL_INPUT_BYTES = 64 * 1024"

definition TERMINAL_PERSISTED_MAX_SIZE :: u32 where
  "TERMINAL_PERSISTED_MAX_SIZE = 16384"

fun terminal_min_size :: "terminal_dock_location \<Rightarrow> u32" where
  "terminal_min_size Bottom = 160"
| "terminal_min_size Right = 320"

definition normalized_terminal_dock_size :: "terminal_dock_location \<Rightarrow> u32 \<Rightarrow> u32" where
  "normalized_terminal_dock_size location size' =
     (if size' < terminal_min_size location then terminal_min_size location
      else if size' > TERMINAL_PERSISTED_MAX_SIZE then TERMINAL_PERSISTED_MAX_SIZE else size')"

subsection \<open>Tabs\<close>

definition tabs_for :: "str \<Rightarrow> terminal_state \<Rightarrow> terminal_tab_state list" where
  "tabs_for task_id t = filter (\<lambda>tab. tt_task_id tab = task_id) (te_tabs t)"

definition active_tab_for :: "str \<Rightarrow> terminal_state \<Rightarrow> terminal_tab_state option" where
  "active_tab_for task_id t =
     Option.bind (te_active_tab_ids t task_id) (\<lambda>active_id.
       find (\<lambda>tab. tt_id tab = active_id \<and> tt_task_id tab = task_id) (te_tabs t))"

definition new_tab :: "u64 \<Rightarrow> task_summary \<Rightarrow> integrated_terminal_shell option \<Rightarrow> terminal_tab_state" where
  "new_tab tab_id task shell =
     \<lparr>tt_id = tab_id, tt_task_id = ts_id task, tt_cwd = ts_cwd task, tt_shell = shell,
      tt_process_id = None, tt_title = [], tt_output = [], tt_starting = True, tt_running = False,
      tt_stopping = False, tt_truncated = False, tt_exit_code = None, tt_error = None\<rparr>"

definition spawn_terminal_tab :: "app_state \<Rightarrow> step_result" where
  "spawn_terminal_tab s =
     (case Option.bind (selected_task_id s) (\<lambda>task_id. find (\<lambda>task. ts_id task = task_id) (tasks s)) of
        None \<Rightarrow> (s\<lparr>status_message := Some ''Select a task before opening a terminal.''\<rparr>, [])
      | Some task \<Rightarrow>
          let t = terminal s
          in if length (te_tabs t) \<ge> MAX_TERMINAL_TABS
             then (s\<lparr>status_message :=
                       Some (''Close a terminal before opening another one (maximum ''
                             @ dec MAX_TERMINAL_TABS @ '').'')\<rparr>, [])
             else if length (tabs_for (ts_id task) t) \<ge> MAX_TERMINAL_TABS_PER_TASK
             then (s\<lparr>status_message :=
                       Some (''Close a terminal for this chat before opening another one (maximum ''
                             @ dec MAX_TERMINAL_TABS_PER_TASK @ '').'')\<rparr>, [])
             else let tab_id = te_next_tab_id t; shell = te_shell t
                  in (s\<lparr>terminal :=
                          t\<lparr>te_next_tab_id := sat_succ (te_next_tab_id t),
                            te_tabs := te_tabs t @ [new_tab tab_id task shell],
                            te_active_tab_ids := (te_active_tab_ids t)(ts_id task \<mapsto> tab_id)\<rparr>\<rparr>,
                      [SpawnTerminal tab_id (ts_cwd task) shell]))"

definition select_terminal_tab :: "u64 \<Rightarrow> app_state \<Rightarrow> step_result" where
  "select_terminal_tab tab_id s =
     (case find (\<lambda>tab. tt_id tab = tab_id) (te_tabs (terminal s)) of
        None \<Rightarrow> (s, [])
      | Some tab \<Rightarrow>
          if selected_task_id s = Some (tt_task_id tab)
          then (s\<lparr>terminal := (terminal s)\<lparr>te_active_tab_ids :=
                    (te_active_tab_ids (terminal s))(tt_task_id tab \<mapsto> tab_id)\<rparr>\<rparr>, [])
          else (s, []))"

definition close_terminal_tab :: "u64 \<Rightarrow> app_state \<Rightarrow> step_result" where
  "close_terminal_tab tab_id s =
     (case position (\<lambda>tab. tt_id tab = tab_id) (te_tabs (terminal s)) of
        None \<Rightarrow> (s, [])
      | Some index \<Rightarrow>
          let tab = te_tabs (terminal s) ! index;
              t1 = (terminal s)\<lparr>te_tabs := remove_at index (te_tabs (terminal s))\<rparr>;
              s1 = (if te_active_tab_ids t1 (tt_task_id tab) = Some tab_id
                    then case find (\<lambda>c. tt_task_id c = tt_task_id tab) (rev (te_tabs t1)) of
                           Some next_tab \<Rightarrow>
                             s\<lparr>terminal := t1\<lparr>te_active_tab_ids :=
                                 (te_active_tab_ids t1)(tt_task_id tab \<mapsto> tt_id next_tab)\<rparr>\<rparr>
                         | None \<Rightarrow>
                             let s2 = s\<lparr>terminal := t1\<lparr>te_active_tab_ids :=
                                          (te_active_tab_ids t1)(tt_task_id tab := None)\<rparr>\<rparr>
                             in if selected_task_id s2 = Some (tt_task_id tab)
                                then s2\<lparr>terminal_dock_open := False\<rparr> else s2
                    else s\<lparr>terminal := t1\<rparr>)
          in (s1, if tt_running tab \<or> tt_starting tab \<or> tt_stopping tab
                  then [StopTerminal tab_id] else []))"

text \<open>The tab that the selected task's active identifier names.\<close>

definition selected_tab :: "app_state \<Rightarrow> terminal_tab_state option" where
  "selected_tab s =
     Option.bind (selected_task_id s) (\<lambda>task_id.
       Option.bind (te_active_tab_ids (terminal s) task_id) (\<lambda>tab_id.
         find (\<lambda>tab. tt_id tab = tab_id) (te_tabs (terminal s))))"

definition update_tab ::
  "u64 \<Rightarrow> (terminal_tab_state \<Rightarrow> terminal_tab_state) \<Rightarrow> app_state \<Rightarrow> app_state" where
  "update_tab tab_id f s =
     s\<lparr>terminal := (terminal s)\<lparr>te_tabs :=
         update_first (\<lambda>tab. tt_id tab = tab_id) f (te_tabs (terminal s))\<rparr>\<rparr>"

definition restart_terminal :: "app_state \<Rightarrow> step_result" where
  "restart_terminal s =
     (case selected_tab s of
        None \<Rightarrow> (s, [])
      | Some tab \<Rightarrow>
          if tt_starting tab \<or> tt_stopping tab then (s, [])
          else (update_tab (tt_id tab)
                  (\<lambda>tab. tab\<lparr>tt_starting := True, tt_running := False, tt_stopping := False,
                            tt_process_id := None, tt_output := [], tt_truncated := False,
                            tt_exit_code := None, tt_error := None\<rparr>) s,
                [RestartTerminal (tt_id tab) (tt_cwd tab) (tt_shell tab)]))"

definition terminal_started :: "u64 \<Rightarrow> str \<Rightarrow> app_state \<Rightarrow> step_result" where
  "terminal_started tab_id process_id s =
     (update_tab tab_id
        (\<lambda>tab. tab\<lparr>tt_process_id := Some process_id, tt_starting := False, tt_running := True,
                  tt_stopping := False, tt_output := [], tt_truncated := False,
                  tt_exit_code := None, tt_error := None\<rparr>) s, [])"

definition terminal_start_failed :: "u64 \<Rightarrow> str \<Rightarrow> app_state \<Rightarrow> step_result" where
  "terminal_start_failed tab_id message s =
     (let message = bounded_string message (16 * 1024)
      in ((update_tab tab_id
             (\<lambda>tab. tab\<lparr>tt_starting := False, tt_running := False, tt_stopping := False,
                       tt_process_id := None, tt_error := Some message\<rparr>) s)
            \<lparr>status_message := Some message\<rparr>, []))"

definition terminal_title_changed :: "u64 \<Rightarrow> str \<Rightarrow> app_state \<Rightarrow> step_result" where
  "terminal_title_changed tab_id title s =
     (update_tab tab_id (\<lambda>tab. tab\<lparr>tt_title := bounded_string title 512\<rparr>) s, [])"

definition terminal_screen :: "u64 \<Rightarrow> str \<Rightarrow> app_state \<Rightarrow> step_result" where
  "terminal_screen tab_id screen s =
     (update_tab tab_id
        (\<lambda>tab. let output = bounded_string screen MAX_TERMINAL_BYTES
               in tab\<lparr>tt_output := output,
                      tt_truncated := (tt_truncated tab \<or> length output = MAX_TERMINAL_BYTES)\<rparr>) s, [])"

definition terminal_output_truncated :: "u64 \<Rightarrow> app_state \<Rightarrow> step_result" where
  "terminal_output_truncated tab_id s = (update_tab tab_id (\<lambda>tab. tab\<lparr>tt_truncated := True\<rparr>) s, [])"

definition submit_terminal_input :: "str \<Rightarrow> app_state \<Rightarrow> step_result" where
  "submit_terminal_input input s =
     (let active_tab_id = Option.bind (selected_task_id s) (te_active_tab_ids (terminal s));
          running = (case active_tab_id of None \<Rightarrow> False
            | Some tab_id \<Rightarrow> list_ex (\<lambda>tab. tt_id tab = tab_id \<and> tt_running tab \<and> \<not> tt_stopping tab)
                              (te_tabs (terminal s)))
      in if running \<and> length input \<le> MAX_TERMINAL_INPUT_BYTES
         then (s, [WriteTerminal (case active_tab_id of None \<Rightarrow> 0 | Some tab_id \<Rightarrow> tab_id) input])
         else (if length input > MAX_TERMINAL_INPUT_BYTES
               then s\<lparr>status_message := Some ''Terminal input exceeds 64 KiB.''\<rparr> else s, []))"

definition stop_terminal :: "app_state \<Rightarrow> step_result" where
  "stop_terminal s =
     (case selected_tab s of
        None \<Rightarrow> (s, [])
      | Some tab \<Rightarrow>
          if \<not> tt_running tab \<or> tt_stopping tab then (s, [])
          else (update_tab (tt_id tab) (\<lambda>tab. tab\<lparr>tt_stopping := True\<rparr>) s, [StopTerminal (tt_id tab)]))"

definition terminal_exited :: "u64 \<Rightarrow> u32 \<Rightarrow> app_state \<Rightarrow> step_result" where
  "terminal_exited tab_id code s =
     (update_tab tab_id
        (\<lambda>tab. tab\<lparr>tt_starting := False, tt_running := False, tt_stopping := False,
                  tt_process_id := None, tt_exit_code := Some code\<rparr>) s, [])"

subsection \<open>Dispatch\<close>

datatype (plugins only: code size) terminal_action =
    SpawnTerminal
  | SelectTerminalTab u64
  | CloseTerminalTab u64
  | RestartTerminal
  | TerminalStarted u64 str
  | TerminalStartFailed u64 str
  | TerminalTitleChanged u64 str
  | TerminalScreen u64 str
  | TerminalOutputTruncated u64
  | SubmitTerminalInput str
  | StopTerminal
  | TerminalExited u64 u32

fun reduce_terminal :: "app_state \<Rightarrow> terminal_action \<Rightarrow> step_result" where
  "reduce_terminal s terminal_action.SpawnTerminal = spawn_terminal_tab s"
| "reduce_terminal s (SelectTerminalTab i) = select_terminal_tab i s"
| "reduce_terminal s (CloseTerminalTab i) = close_terminal_tab i s"
| "reduce_terminal s terminal_action.RestartTerminal = restart_terminal s"
| "reduce_terminal s (TerminalStarted i p) = terminal_started i p s"
| "reduce_terminal s (TerminalStartFailed i m) = terminal_start_failed i m s"
| "reduce_terminal s (TerminalTitleChanged i m) = terminal_title_changed i m s"
| "reduce_terminal s (TerminalScreen i m) = terminal_screen i m s"
| "reduce_terminal s (TerminalOutputTruncated i) = terminal_output_truncated i s"
| "reduce_terminal s (SubmitTerminalInput m) = submit_terminal_input m s"
| "reduce_terminal s terminal_action.StopTerminal = stop_terminal s"
| "reduce_terminal s (TerminalExited i c) = terminal_exited i c s"

lemmas terminal_handler_defs = spawn_terminal_tab_def select_terminal_tab_def
  close_terminal_tab_def restart_terminal_def terminal_started_def terminal_start_failed_def
  terminal_title_changed_def terminal_screen_def terminal_output_truncated_def
  submit_terminal_input_def stop_terminal_def terminal_exited_def

subsection \<open>Invariant\<close>

definition tab_ok :: "terminal_tab_state \<Rightarrow> bool" where
  "tab_ok tab \<longleftrightarrow>
     (tt_running tab \<longleftrightarrow> tt_process_id tab \<noteq> None) \<and> \<not> (tt_starting tab \<and> tt_running tab)
     \<and> (tt_stopping tab \<longrightarrow> tt_running tab)
     \<and> length (tt_output tab) \<le> MAX_TERMINAL_BYTES \<and> length (tt_title tab) \<le> 512"

definition active_ok_for :: "terminal_state \<Rightarrow> str \<Rightarrow> bool" where
  "active_ok_for t task_id \<longleftrightarrow>
     (te_active_tab_ids t task_id = None \<longrightarrow> tabs_for task_id t = [])
     \<and> (\<forall>i. te_active_tab_ids t task_id = Some i \<longrightarrow> i \<in> tt_id ` set (tabs_for task_id t))"

definition terminal_ok :: "terminal_state \<Rightarrow> bool" where
  "terminal_ok t \<longleftrightarrow>
     length (te_tabs t) \<le> MAX_TERMINAL_TABS \<and> (\<forall>tab \<in> set (te_tabs t). tab_ok tab)
     \<and> (\<forall>k. length (tabs_for k t) \<le> MAX_TERMINAL_TABS_PER_TASK \<and> active_ok_for t k)"

definition terminals_inv :: "app_state \<Rightarrow> bool" where
  "terminals_inv s \<longleftrightarrow> terminal_ok (terminal s)"

text \<open>An update of one tab that keeps its identity.\<close>

lemma map_update_first_pair:
  "(\<And>x. g (f x) = g x) \<Longrightarrow> (\<And>x. h (f x) = h x) \<Longrightarrow>
   map g (filter (\<lambda>x. h x = k) (update_first p f xs)) = map g (filter (\<lambda>x. h x = k) xs)"
  by (induction xs) auto

lemma update_first_find:
  "x \<in> set (update_first p f xs) \<Longrightarrow> x \<in> set xs \<or> (\<exists>y. find p xs = Some y \<and> x = f y)"
  by (induction xs) (auto split: if_splits)

lemma update_tab_inv:
  assumes "terminals_inv s" and "\<And>x. tt_id (f x) = tt_id x" and "\<And>x. tt_task_id (f x) = tt_task_id x"
    and "\<And>x. find (\<lambda>tab. tt_id tab = i) (te_tabs (terminal s)) = Some x \<Longrightarrow> tab_ok x \<Longrightarrow> tab_ok (f x)"
  shows "terminals_inv (update_tab i f s)"
proof -
  let ?t = "terminal s" and ?t' = "terminal (update_tab i f s)"
  have ids: "map tt_id (tabs_for k ?t') = map tt_id (tabs_for k ?t)" for k
    unfolding tabs_for_def update_tab_def using assms(2,3) by (simp add: map_update_first_pair)
  have len: "length (tabs_for k ?t') = length (tabs_for k ?t)" for k
    using arg_cong [OF ids [of k], of length] by simp
  have set: "tt_id ` set (tabs_for k ?t') = tt_id ` set (tabs_for k ?t)" for k
    using arg_cong [OF ids [of k], of set] by simp
  have nil: "tabs_for k ?t' = [] \<longleftrightarrow> tabs_for k ?t = []" for k
    using len [of k] by (metis length_0_conv)
  have act: "te_active_tab_ids ?t' = te_active_tab_ids ?t" by (simp add: update_tab_def)
  have "tab_ok x" if "x \<in> set (te_tabs ?t')" for x
  proof -
    have "x \<in> set (te_tabs ?t) \<or> (\<exists>y. find (\<lambda>tab. tt_id tab = i) (te_tabs ?t) = Some y \<and> x = f y)"
      using that by (intro update_first_find) (simp add: update_tab_def)
    moreover have "y \<in> set (te_tabs ?t)" if "find (\<lambda>tab. tt_id tab = i) (te_tabs ?t) = Some y" for y
      using that by (auto simp: find_Some_iff)
    ultimately show ?thesis using assms(1,4) by (auto simp: terminals_inv_def terminal_ok_def)
  qed
  moreover have "length (te_tabs ?t') = length (te_tabs ?t)" by (simp add: update_tab_def)
  ultimately show ?thesis
    using assms(1) by (simp add: terminals_inv_def terminal_ok_def active_ok_for_def len set nil act)
qed

lemma terminals_inv_frame [simp]:
  "terminals_inv (s\<lparr>status_message := m\<rparr>) = terminals_inv s"
  "terminals_inv (s\<lparr>terminal_dock_open := b\<rparr>) = terminals_inv s"
  by (simp_all add: terminals_inv_def)

lemma spawn_inv: "terminals_inv s \<Longrightarrow> terminals_inv (fst (spawn_terminal_tab s))"
proof -
  assume inv: "terminals_inv s"
  let ?t = "terminal s"
  have added: "terminal_ok (?t\<lparr>te_next_tab_id := n, te_tabs := te_tabs ?t @ [new_tab i task shell],
      te_active_tab_ids := (te_active_tab_ids ?t)(ts_id task \<mapsto> i)\<rparr>)"
    if "length (te_tabs ?t) < MAX_TERMINAL_TABS"
      "length (tabs_for (ts_id task) ?t) < MAX_TERMINAL_TABS_PER_TASK" for n i task shell
    using inv that
    by (auto simp: terminals_inv_def terminal_ok_def tabs_for_def active_ok_for_def new_tab_def
        tab_ok_def split: option.splits)
  show ?thesis
    using inv
    by (auto simp: spawn_terminal_tab_def Let_def not_le terminals_inv_def
        split: option.split intro!: added)
qed

lemma tabs_for_remove:
  assumes "index < length (te_tabs t)"
  shows "k \<noteq> tt_task_id (te_tabs t ! index) \<Longrightarrow>
      tabs_for k (t\<lparr>te_tabs := remove_at index (te_tabs t)\<rparr>) = tabs_for k t"
    and "set (tabs_for k (t\<lparr>te_tabs := remove_at index (te_tabs t)\<rparr>)) \<subseteq> set (tabs_for k t)"
    and "length (tabs_for k (t\<lparr>te_tabs := remove_at index (te_tabs t)\<rparr>)) \<le> length (tabs_for k t)"
    and "tab \<in> set (tabs_for k t) \<Longrightarrow> tt_id tab \<noteq> tt_id (te_tabs t ! index) \<Longrightarrow>
      tab \<in> set (tabs_for k (t\<lparr>te_tabs := remove_at index (te_tabs t)\<rparr>))"
proof -
  have split: "te_tabs t = take index (te_tabs t) @ te_tabs t ! index # drop (Suc index) (te_tabs t)"
    using assms by (rule id_take_nth_drop)
  have all: "tabs_for k t = filter (\<lambda>tab. tt_task_id tab = k) (take index (te_tabs t))
      @ filter (\<lambda>tab. tt_task_id tab = k) (te_tabs t ! index # drop (Suc index) (te_tabs t))"
    unfolding tabs_for_def by (subst split) simp
  show "k \<noteq> tt_task_id (te_tabs t ! index) \<Longrightarrow>
      tabs_for k (t\<lparr>te_tabs := remove_at index (te_tabs t)\<rparr>) = tabs_for k t"
    and "set (tabs_for k (t\<lparr>te_tabs := remove_at index (te_tabs t)\<rparr>)) \<subseteq> set (tabs_for k t)"
    and "length (tabs_for k (t\<lparr>te_tabs := remove_at index (te_tabs t)\<rparr>)) \<le> length (tabs_for k t)"
    and "tab \<in> set (tabs_for k t) \<Longrightarrow> tt_id tab \<noteq> tt_id (te_tabs t ! index) \<Longrightarrow>
      tab \<in> set (tabs_for k (t\<lparr>te_tabs := remove_at index (te_tabs t)\<rparr>))"
    unfolding all by (auto simp: tabs_for_def remove_at_def split: if_splits)
qed

lemma close_inv:
  assumes "terminals_inv s"
  shows "terminals_inv (fst (close_terminal_tab i s))"
proof (cases "position (\<lambda>tab. tt_id tab = i) (te_tabs (terminal s))")
  case None
  with assms show ?thesis by (simp add: close_terminal_tab_def)
next
  case (Some index)
  let ?t = "terminal s" and ?tab = "te_tabs (terminal s) ! index"
  let ?t1 = "?t\<lparr>te_tabs := remove_at index (te_tabs ?t)\<rparr>"
  have at: "index < length (te_tabs ?t)" "tt_id ?tab = i"
    using position_Some [OF Some] by simp_all
  note rest = tabs_for_remove [OF at(1)]
  have ok: "terminal_ok ?t" using assms by (simp add: terminals_inv_def)
  have base: "length (te_tabs ?t1) \<le> MAX_TERMINAL_TABS" "\<forall>tab \<in> set (te_tabs ?t1). tab_ok tab"
    "length (tabs_for k ?t1) \<le> MAX_TERMINAL_TABS_PER_TASK" for k
    using ok rest(3) [of k]
    by (auto simp: terminal_ok_def length_remove_at_if dest: in_set_remove_atD intro: order_trans)
  have tabs_same: "tabs_for k (?t1\<lparr>te_active_tab_ids := m\<rparr>) = tabs_for k ?t1" for k m
    by (simp add: tabs_for_def)
  have other: "active_ok_for (?t1\<lparr>te_active_tab_ids := (te_active_tab_ids ?t)(tt_task_id ?tab := v)\<rparr>) k"
    if "k \<noteq> tt_task_id ?tab" for k v
    using ok that rest(1) [OF that] unfolding active_ok_for_def tabs_same
    by (auto simp: terminal_ok_def active_ok_for_def split: option.splits)
  have whole: "terminal_ok (?t1\<lparr>te_active_tab_ids := (te_active_tab_ids ?t)(tt_task_id ?tab := v)\<rparr>)"
    if "case v of None \<Rightarrow> tabs_for (tt_task_id ?tab) ?t1 = []
        | Some j \<Rightarrow> j \<in> tt_id ` set (tabs_for (tt_task_id ?tab) ?t1)" for v
    unfolding terminal_ok_def
  proof (intro conjI allI)
    fix k
    show "active_ok_for (?t1\<lparr>te_active_tab_ids := (te_active_tab_ids ?t)(tt_task_id ?tab := v)\<rparr>) k"
      using other [of k v] that
      by (cases "k = tt_task_id ?tab") (auto simp: active_ok_for_def tabs_same split: option.splits)
  qed (use base in \<open>simp_all add: tabs_same\<close>)
  show ?thesis
  proof (cases "te_active_tab_ids ?t (tt_task_id ?tab) = Some i")
    case False
    have "terminal_ok (?t1\<lparr>te_active_tab_ids := (te_active_tab_ids ?t)
        (tt_task_id ?tab := te_active_tab_ids ?t (tt_task_id ?tab))\<rparr>)"
    proof (rule whole)
      have tab: "?tab \<in> set (tabs_for (tt_task_id ?tab) ?t)" using at(1) by (simp add: tabs_for_def)
      show "case te_active_tab_ids ?t (tt_task_id ?tab) of
          None \<Rightarrow> tabs_for (tt_task_id ?tab) ?t1 = []
        | Some j \<Rightarrow> j \<in> tt_id ` set (tabs_for (tt_task_id ?tab) ?t1)"
      proof (cases "te_active_tab_ids ?t (tt_task_id ?tab)")
        case None
        with ok have "tabs_for (tt_task_id ?tab) ?t = []"
          by (auto simp: terminal_ok_def active_ok_for_def split: option.splits)
        with tab show ?thesis by simp
      next
        case (Some j)
        with ok have "j \<in> tt_id ` set (tabs_for (tt_task_id ?tab) ?t)"
          by (auto simp: terminal_ok_def active_ok_for_def split: option.splits)
        then obtain x where "x \<in> set (tabs_for (tt_task_id ?tab) ?t)" "tt_id x = j" by auto
        with Some False at(2) rest(4) [of x "tt_task_id ?tab"] show ?thesis by auto
      qed
    qed
    with False Some show ?thesis by (simp add: close_terminal_tab_def Let_def terminals_inv_def)
  next
    case True
    show ?thesis
    proof (cases "find (\<lambda>c. tt_task_id c = tt_task_id ?tab) (rev (te_tabs ?t1))")
      case None
      then have "tabs_for (tt_task_id ?tab) ?t1 = []"
        by (auto simp: tabs_for_def find_None_iff filter_empty_conv)
      then have "terminal_ok (?t1\<lparr>te_active_tab_ids := (te_active_tab_ids ?t)(tt_task_id ?tab := None)\<rparr>)"
        by (intro whole) simp
      with None True Some show ?thesis
        by (simp add: close_terminal_tab_def Let_def) (simp add: terminals_inv_def)
    next
      case (Some nxt)
      then have "nxt \<in> set (te_tabs ?t1)" "tt_task_id nxt = tt_task_id ?tab"
        by (auto simp: find_Some_iff) (metis length_rev nth_mem set_rev)
      then have "nxt \<in> set (tabs_for (tt_task_id ?tab) ?t1)" by (simp add: tabs_for_def)
      then have "terminal_ok (?t1\<lparr>te_active_tab_ids := (te_active_tab_ids ?t)(tt_task_id ?tab := Some (tt_id nxt))\<rparr>)"
        by (intro whole) simp
      with Some True \<open>position _ _ = _\<close> show ?thesis
        by (simp add: close_terminal_tab_def Let_def terminals_inv_def)
    qed
  qed
qed

lemma select_inv: "terminals_inv s \<Longrightarrow> terminals_inv (fst (select_terminal_tab i s))"
proof (cases "find (\<lambda>tab. tt_id tab = i) (te_tabs (terminal s))")
  case None
  then show "terminals_inv s \<Longrightarrow> ?thesis" by (simp add: select_terminal_tab_def)
next
  case (Some tab)
  assume inv: "terminals_inv s"
  from Some have tab: "tab \<in> set (te_tabs (terminal s))" "tt_id tab = i"
    by (auto simp: find_Some_iff)
  then have mem: "tab \<in> set (tabs_for (tt_task_id tab) (terminal s))" by (simp add: tabs_for_def)
  have same: "tabs_for k ((terminal s)\<lparr>te_active_tab_ids := m\<rparr>) = tabs_for k (terminal s)" for k m
    by (simp add: tabs_for_def)
  from inv mem tab(2)
  have "terminal_ok ((terminal s)\<lparr>te_active_tab_ids :=
      (te_active_tab_ids (terminal s))(tt_task_id tab \<mapsto> i)\<rparr>)"
    by (auto simp: terminals_inv_def terminal_ok_def active_ok_for_def same)
  with inv Some show ?thesis by (simp add: select_terminal_tab_def terminals_inv_def)
qed

lemma selected_tab_found:
  "selected_tab s = Some tab \<Longrightarrow> find (\<lambda>x. tt_id x = tt_id tab) (te_tabs (terminal s)) = Some tab"
proof -
  assume "selected_tab s = Some tab"
  then obtain i where "find (\<lambda>x. tt_id x = i) (te_tabs (terminal s)) = Some tab"
    by (auto simp: selected_tab_def split: bind_splits)
  moreover from this have "tt_id tab = i" by (auto simp: find_Some_iff)
  ultimately show ?thesis by simp
qed

lemma tab_life_inv:
  assumes "terminals_inv s"
  shows "terminals_inv (fst (restart_terminal s))"
    and "terminals_inv (fst (stop_terminal s))"
    and "terminals_inv (fst (terminal_started i p s))"
    and "terminals_inv (fst (terminal_start_failed i m s))"
    and "terminals_inv (fst (terminal_title_changed i m s))"
    and "terminals_inv (fst (terminal_screen i m s))"
    and "terminals_inv (fst (terminal_output_truncated i s))"
    and "terminals_inv (fst (terminal_exited i c s))"
    and "terminals_inv (fst (submit_terminal_input m s))"
proof -
  show "terminals_inv (fst (restart_terminal s))"
    using assms
    by (auto simp: restart_terminal_def tab_ok_def split: option.split intro!: update_tab_inv)
  show "terminals_inv (fst (terminal_started i p s))" "terminals_inv (fst (terminal_start_failed i m s))"
    "terminals_inv (fst (terminal_title_changed i m s))" "terminals_inv (fst (terminal_screen i m s))"
    "terminals_inv (fst (terminal_output_truncated i s))" "terminals_inv (fst (terminal_exited i c s))"
    using assms
    by (auto simp: terminal_started_def terminal_start_failed_def terminal_title_changed_def
        terminal_screen_def terminal_output_truncated_def terminal_exited_def Let_def tab_ok_def
        intro!: update_tab_inv)
  show "terminals_inv (fst (submit_terminal_input m s))"
    using assms by (simp add: submit_terminal_input_def Let_def)
  show "terminals_inv (fst (stop_terminal s))"
    using assms
    by (auto simp: stop_terminal_def tab_ok_def split: option.split intro!: update_tab_inv
        dest: selected_tab_found)
qed

lemma reduce_terminal_inv: "terminals_inv s \<Longrightarrow> terminals_inv (fst (reduce_terminal s a))"
  by (cases a) (simp_all add: spawn_inv select_inv close_inv tab_life_inv)

interpretation terminals: reducer_component reduce_terminal terminals_inv
  by unfold_locales (rule reduce_terminal_inv)

subsection \<open>Tab identifiers\<close>

definition tab_ids :: "app_state \<Rightarrow> u64 list" where
  "tab_ids s = map tt_id (te_tabs (terminal s))"

definition tab_ids_inv :: "app_state \<Rightarrow> bool" where
  "tab_ids_inv s \<longleftrightarrow>
     distinct (tab_ids s) \<and> (\<forall>i \<in> set (tab_ids s). i < te_next_tab_id (terminal s))"

lemma update_tab_ids: "(\<And>x. tt_id (f x) = tt_id x) \<Longrightarrow> tab_ids (update_tab i f s) = tab_ids s"
  by (simp add: tab_ids_def update_tab_def map_update_first)

lemma update_tab_next [simp]:
  "te_next_tab_id (terminal (update_tab i f s)) = te_next_tab_id (terminal s)"
  by (simp add: update_tab_def)

lemma tab_ids_frame [simp]:
  "tab_ids (s\<lparr>status_message := m\<rparr>) = tab_ids s" "tab_ids (s\<lparr>terminal_dock_open := b\<rparr>) = tab_ids s"
  by (simp_all add: tab_ids_def)

text \<open>Every action adds the next identifier, or removes some, or keeps the identifiers.\<close>

lemma reduce_terminal_ids:
  "(tab_ids (fst (reduce_terminal s a)) = tab_ids s @ [te_next_tab_id (terminal s)]
     \<and> te_next_tab_id (terminal (fst (reduce_terminal s a))) = sat_succ (te_next_tab_id (terminal s)))
   \<or> ((\<exists>k. tab_ids (fst (reduce_terminal s a)) = remove_at k (tab_ids s))
       \<or> tab_ids (fst (reduce_terminal s a)) = tab_ids s)
     \<and> te_next_tab_id (terminal (fst (reduce_terminal s a))) = te_next_tab_id (terminal s)"
proof (cases a)
  case SpawnTerminal
  then show ?thesis
    by (auto simp: spawn_terminal_tab_def Let_def tab_ids_def new_tab_def split: option.split)
next
  case (CloseTerminalTab i)
  show ?thesis
  proof (cases "position (\<lambda>tab. tt_id tab = i) (te_tabs (terminal s))")
    case (Some index)
    have "te_tabs (terminal (fst (close_terminal_tab i s))) = remove_at index (te_tabs (terminal s))"
      and "te_next_tab_id (terminal (fst (close_terminal_tab i s))) = te_next_tab_id (terminal s)"
      using Some by (auto simp: close_terminal_tab_def Let_def split: option.split)
    then show ?thesis by (auto simp: CloseTerminalTab tab_ids_def map_remove_at)
  qed (simp add: CloseTerminalTab close_terminal_tab_def)
next
  case (SelectTerminalTab i)
  then show ?thesis by (auto simp: select_terminal_tab_def tab_ids_def split: option.split)
qed (auto simp: restart_terminal_def stop_terminal_def terminal_started_def terminal_start_failed_def
      terminal_title_changed_def terminal_screen_def terminal_output_truncated_def
      terminal_exited_def submit_terminal_input_def Let_def update_tab_ids split: option.split)

lemma tab_ids_step:
  assumes "tab_ids_inv s" and "te_next_tab_id (terminal s) \<noteq> -1"
  shows "tab_ids_inv (fst (reduce_terminal s a))
    \<and> unat (te_next_tab_id (terminal (fst (reduce_terminal s a))))
      \<le> Suc (unat (te_next_tab_id (terminal s)))"
proof -
  have less: "te_next_tab_id (terminal s) < sat_succ (te_next_tab_id (terminal s))"
    using unat_sat_succ_less [OF assms(2)] by (simp add: word_less_nat_alt)
  have le: "unat (sat_succ (te_next_tab_id (terminal s))) \<le> Suc (unat (te_next_tab_id (terminal s)))"
    by (simp add: unat_sat_succ)
  from reduce_terminal_ids [of s a] show ?thesis
  proof (elim disjE conjE exE)
    fix k
    assume "tab_ids (fst (reduce_terminal s a)) = remove_at k (tab_ids s)"
      and "te_next_tab_id (terminal (fst (reduce_terminal s a))) = te_next_tab_id (terminal s)"
    with assms(1) show ?thesis
      by (auto simp: tab_ids_inv_def distinct_remove_at dest: in_set_remove_atD)
  qed (use assms(1) less le in \<open>auto simp: tab_ids_inv_def dest: order.strict_trans\<close>)
qed

lemma run_tab_ids:
  "tab_ids_inv s \<Longrightarrow> unat (te_next_tab_id (terminal s)) + length as < 2 ^ 64 - 1 \<Longrightarrow>
   tab_ids_inv (fst (run reduce_terminal s as))"
proof (induction as arbitrary: s)
  case Nil
  then show ?case by simp
next
  case (Cons a as)
  have "te_next_tab_id (terminal s) \<noteq> -1"
    using Cons.prems(2) by (auto simp: unat_minus_one_word)
  with tab_ids_step [OF Cons.prems(1) this, of a] Cons.prems(2) Cons.IH [of "fst (reduce_terminal s a)"]
  show ?case by (simp add: run_Cons_fst del: run.simps)
qed

subsection \<open>Properties\<close>

text \<open>
  Tab identifiers stay pairwise distinct over any run that is shorter than what the 64-bit
  counter has left; so a process event reaches the one tab it is about.
\<close>

theorem terminal_ids_unique:
  assumes "tab_ids_inv s" and "unat (te_next_tab_id (terminal s)) + length as < 2 ^ 64 - 1"
  shows "distinct (tab_ids (fst (run reduce_terminal s as)))"
  using run_tab_ids [OF assms] by (simp add: tab_ids_inv_def)

subsection \<open>Witnesses and examples\<close>

definition demo_terminal_task :: task_summary where
  "demo_terminal_task =
     \<lparr>ts_id = ''t'', ts_title = ''Build'', ts_preview = [], ts_cwd = ''/w'', ts_created_at = 0,
      ts_updated_at = 0, ts_parent_task_id = None, ts_forked_from_id = None,
      ts_status = task_run_status.Idle\<rparr>"

definition demo_terminals :: app_state where
  "demo_terminals =
     default_app_state\<lparr>tasks := [demo_terminal_task], selected_task_id := Some ''t''\<rparr>"

lemma demo_terminals_inv: "terminals_inv demo_terminals \<and> tab_ids_inv demo_terminals"
  by (simp add: terminals_inv_def terminal_ok_def active_ok_for_def tabs_for_def tab_ids_inv_def
      tab_ids_def demo_terminals_def default_app_state_def default_terminal_def)

theorem terminal_ids_unique_witness:
  "distinct (tab_ids (fst (run reduce_terminal demo_terminals
     [terminal_action.SpawnTerminal, terminal_action.SpawnTerminal])))"
  using demo_terminals_inv
  by (intro terminal_ids_unique)
    (simp_all add: demo_terminals_def default_app_state_def default_terminal_def)

text \<open>
  The truncation flag of a screen compares the kept length with the limit: it misses a cut
  that falls inside a character, and it marks a complete screen of exactly the limit.
\<close>

lemma screen_of_exact_size_marked:
  assumes "length screen = MAX_TERMINAL_BYTES" and "te_tabs (terminal s) = [tab]"
  shows "map tt_truncated (te_tabs (terminal (fst (terminal_screen (tt_id tab) screen s)))) = [True]
    \<and> map tt_output (te_tabs (terminal (fst (terminal_screen (tt_id tab) screen s)))) = [screen]"
  using assms by (simp add: terminal_screen_def update_tab_def Let_def bounded_string_id)

end
