(* ===== verification/Task_Lists.thy ===== *)
theory Task_Lists
  imports Turns
begin

text \<open>
  The task list, its search, pins and archive (\<open>record_task_without_selecting\<close>,
  \<open>normalize_pinned_task_ids\<close>, \<open>load_pinned_tasks_effect\<close> and the task list, search, pin and
  archive actions of \<open>reduce\<close> in \<open>crates/codex-core/src/lib.rs\<close>). Every list is bounded, its
  replies carry the generation of their request, and pages are requested by cursor.
\<close>

subsection \<open>Bounds\<close>

definition MAX_LOADED_THREADS :: nat where
  "MAX_LOADED_THREADS = 20"

definition MAX_ARCHIVED_TASK_PAGINATION_PAGES :: nat where
  "MAX_ARCHIVED_TASK_PAGINATION_PAGES = 32"

definition MAX_TASK_SEARCH_QUERY_BYTES :: nat where
  "MAX_TASK_SEARCH_QUERY_BYTES = 1024"

definition MAX_TASK_SEARCH_RESULTS :: nat where
  "MAX_TASK_SEARCH_RESULTS = 500"

definition MAX_SEEN_MODEL_UPGRADE_IDS :: nat where
  "MAX_SEEN_MODEL_UPGRADE_IDS = 64"

definition MAX_SEEN_MODEL_UPGRADE_ID_BYTES :: nat where
  "MAX_SEEN_MODEL_UPGRADE_ID_BYTES = 512"

subsection \<open>Helpers\<close>

text \<open>
  The loop of the two \<open>normalize_*_ids\<close> functions: keep what is acceptable and new, stop at the
  limit.
\<close>

fun keep_ids :: "(str \<Rightarrow> bool) \<Rightarrow> nat \<Rightarrow> str list \<Rightarrow> str list \<Rightarrow> str list" where
  "keep_ids acceptable limit normalized [] = normalized"
| "keep_ids acceptable limit normalized (x # xs) =
     (if \<not> acceptable x \<or> list_ex (\<lambda>e. e = x) normalized
      then keep_ids acceptable limit normalized xs
      else let normalized1 = normalized @ [x]
           in if length normalized1 = limit then normalized1
              else keep_ids acceptable limit normalized1 xs)"

definition normalize_pinned_task_ids :: "str list \<Rightarrow> str list" where
  "normalize_pinned_task_ids =
     keep_ids (\<lambda>x. x \<noteq> [] \<and> length x \<le> MAX_PINNED_TASK_ID_BYTES) MAX_PINNED_TASKS []"

definition normalize_seen_model_upgrade_ids :: "str list \<Rightarrow> str list" where
  "normalize_seen_model_upgrade_ids =
     keep_ids (\<lambda>x. x \<noteq> [] \<and> length x \<le> MAX_SEEN_MODEL_UPGRADE_ID_BYTES
                  \<and> \<not> list_ex is_control (chars x)) MAX_SEEN_MODEL_UPGRADE_IDS []"

definition load_pinned_tasks_effect :: "app_state \<Rightarrow> effect option" where
  "load_pinned_tasks_effect s =
     (let task_ids = filter (\<lambda>i. \<not> list_ex (\<lambda>task. ts_id task = i) (tasks s)) (pinned_task_ids s)
      in if task_ids \<noteq> [] then Some (LoadPinnedTasks task_ids) else None)"

text \<open>\<open>retain(id differs)\<close>, \<open>insert(0, task)\<close>.\<close>

definition move_to_front :: "task_summary \<Rightarrow> task_summary list \<Rightarrow> task_summary list" where
  "move_to_front task ts = task # filter (\<lambda>e. ts_id e \<noteq> ts_id task) ts"

definition record_task_without_selecting :: "task_summary \<Rightarrow> app_state \<Rightarrow> app_state" where
  "record_task_without_selecting task s =
     (let selected_task = Option.bind (selected_task_id s)
            (\<lambda>i. find (\<lambda>e. ts_id e = i) (tasks s));
          ts1 = take MAX_VISIBLE_THREADS (move_to_front task (tasks s));
          ts2 = (case selected_task of
                   Some sel \<Rightarrow>
                     if \<not> list_ex (\<lambda>e. ts_id e = ts_id sel) ts1 \<and> ts1 \<noteq> []
                     then butlast ts1 @ [sel] else ts1
                 | None \<Rightarrow> ts1)
      in s\<lparr>tasks := ts2,
           timelines := entry_or (default_timeline\<lparr>tl_runtime_status_loaded := True\<rparr>)
                          (ts_id task) (timelines s),
           goals := entry_or default_goal_state (ts_id task) (goals s)\<rparr>)"

subsection \<open>Task list\<close>

definition refresh_tasks :: "app_state \<Rightarrow> step_result" where
  "refresh_tasks s =
     (let generation = sat_succ (task_generation s)
      in (s\<lparr>task_generation := generation, task_status := load_status.Loading\<rparr>,
          [LoadTasks generation None]))"

definition load_more_tasks :: "app_state \<Rightarrow> step_result" where
  "load_more_tasks s =
     (if task_status s = load_status.Loading \<or> next_task_cursor s = None then (s, [])
      else if length (tasks s) \<ge> MAX_VISIBLE_THREADS then (s\<lparr>next_task_cursor := None\<rparr>, [])
      else (s\<lparr>task_status := load_status.Loading\<rparr>,
            [LoadTasks (task_generation s) (next_task_cursor s)]))"

definition tasks_failed :: "u64 \<Rightarrow> str \<Rightarrow> app_state \<Rightarrow> step_result" where
  "tasks_failed generation message s =
     (if generation = task_generation s
      then (s\<lparr>task_status := load_status.Failed, status_message := Some message\<rparr>, [])
      else (s, []))"

fun resume_all :: "str list \<Rightarrow> app_state \<Rightarrow> step_result" where
  "resume_all [] s = (s, [])"
| "resume_all (i # is) s =
     (let (s1, e) = resume_task_effect i s; (s2, es) = resume_all is s1 in (s2, e # es))"

definition loaded_tasks_restored :: "task_summary list \<Rightarrow> bool \<Rightarrow> app_state \<Rightarrow> step_result" where
  "loaded_tasks_restored loaded truncated s =
     (let loaded = take MAX_LOADED_THREADS loaded;
          resume_ids = remdups (rev (filter (\<lambda>i. selected_task_id s \<noteq> Some i) (map ts_id loaded)));
          ts1 = take MAX_VISIBLE_THREADS (foldr move_to_front loaded (tasks s));
          s1 = s\<lparr>tasks := ts1\<rparr>;
          s2 = (if truncated
                then s1\<lparr>status_message := Some (''Restored the first '' @ dec MAX_LOADED_THREADS
                          @ '' loaded chats.'')\<rparr>
                else s1)
      in resume_all (rev resume_ids) s2)"

definition fork_task_failed :: "u64 \<Rightarrow> str \<Rightarrow> app_state \<Rightarrow> step_result" where
  "fork_task_failed request_id message s =
     (let current = (case pending_task_fork s of None \<Rightarrow> False
            | Some p \<Rightarrow> tf_request_id p = request_id \<and> tf_selection_task_id p = selected_task_id s
                       \<and> tf_selection_generation p = task_selection_generation s);
          s1 = (case pending_task_fork s of None \<Rightarrow> s
            | Some p \<Rightarrow> if tf_request_id p = request_id then s\<lparr>pending_task_fork := None\<rparr> else s)
      in (if current
          then s1\<lparr>status_message :=
                    Some (bounded_string (''Failed to create chat: '' @ message) (16 * 1024))\<rparr>
          else s1, []))"

definition rename_task :: "str \<Rightarrow> str \<Rightarrow> app_state \<Rightarrow> step_result" where
  "rename_task task_id name s =
     (let name = trim name
      in if name = [] then (s\<lparr>status_message := Some ''Chat name cannot be empty''\<rparr>, [])
         else if length name > MAX_TASK_TITLE_BYTES
         then (s\<lparr>status_message := Some (''Chat name is longer than '' @ dec MAX_TASK_TITLE_BYTES
                   @ '' bytes'')\<rparr>, [])
         else if list_ex (\<lambda>task. ts_id task = task_id) (tasks s)
         then (s, [RenameTask task_id name]) else (s, []))"

definition task_renamed :: "str \<Rightarrow> str \<Rightarrow> app_state \<Rightarrow> step_result" where
  "task_renamed task_id name s =
     (let in_list = list_ex (\<lambda>task. ts_id task = task_id) (tasks s);
          in_search = list_ex (\<lambda>r. ts_id (sr_task r) = task_id) (se_results (task_search s));
          s1 = s\<lparr>tasks := update_first (\<lambda>task. ts_id task = task_id) (\<lambda>task. task\<lparr>ts_title := name\<rparr>)
                            (tasks s),
                 task_search := (task_search s)\<lparr>se_results :=
                   update_first (\<lambda>r. ts_id (sr_task r) = task_id)
                     (\<lambda>r. r\<lparr>sr_task := (sr_task r)\<lparr>ts_title := name\<rparr>\<rparr>) (se_results (task_search s))\<rparr>\<rparr>
      in (if in_list \<or> in_search then s1\<lparr>status_message := Some ''Chat renamed''\<rparr> else s1, []))"

subsection \<open>Pins\<close>

definition toggle_task_pinned :: "str \<Rightarrow> app_state \<Rightarrow> step_result" where
  "toggle_task_pinned task_id s =
     (case position (\<lambda>i. i = task_id) (pinned_task_ids s) of
        Some index \<Rightarrow>
          let ids = remove_at index (pinned_task_ids s)
          in (s\<lparr>pinned_task_ids := ids, status_message := Some ''Chat unpinned''\<rparr>,
              [PersistPinnedTasks ids])
      | None \<Rightarrow>
          if \<not> (length task_id \<le> MAX_PINNED_TASK_ID_BYTES
                \<and> list_ex (\<lambda>task. ts_id task = task_id) (tasks s))
          then (s, [])
          else if length (pinned_task_ids s) = MAX_PINNED_TASKS
          then (s\<lparr>status_message :=
                    Some (''Up to '' @ dec MAX_PINNED_TASKS @ '' chats can be pinned'')\<rparr>, [])
          else let ids = task_id # pinned_task_ids s
               in (s\<lparr>pinned_task_ids := ids, status_message := Some ''Chat pinned''\<rparr>,
                   [PersistPinnedTasks ids]))"

text \<open>Replace the task with the same identifier, or add it at the end.\<close>

definition replace_or_push :: "('a \<Rightarrow> str) \<Rightarrow> 'a \<Rightarrow> 'a list \<Rightarrow> 'a list" where
  "replace_or_push key x xs =
     (if list_ex (\<lambda>e. key e = key x) xs then update_first (\<lambda>e. key e = key x) (\<lambda>_. x) xs else xs @ [x])"

definition pinned_tasks_loaded :: "task_summary list \<Rightarrow> app_state \<Rightarrow> step_result" where
  "pinned_tasks_loaded loaded s =
     (let known = filter (\<lambda>task. list_ex (\<lambda>i. i = ts_id task) (pinned_task_ids s)) loaded
      in (s\<lparr>tasks := take MAX_VISIBLE_THREADS (fold (replace_or_push ts_id) known (tasks s))\<rparr>, []))"

subsection \<open>Search\<close>

definition task_search_query_changed :: "str \<Rightarrow> app_state \<Rightarrow> step_result" where
  "task_search_query_changed query s =
     (let query = bounded_string (trim query) MAX_TASK_SEARCH_QUERY_BYTES;
          se = task_search s;
          generation = sat_succ (se_generation se);
          se1 = se\<lparr>se_generation := generation, se_query := query, se_results := [],
                   se_next_cursor := None\<rparr>
      in if query = []
         then (s\<lparr>task_search := se1\<lparr>se_status := load_status.Idle\<rparr>\<rparr>, [])
         else (s\<lparr>task_search := se1\<lparr>se_status := load_status.Loading\<rparr>\<rparr>,
               [ScheduleTaskSearch generation query]))"

definition task_search_due :: "u64 \<Rightarrow> str \<Rightarrow> app_state \<Rightarrow> step_result" where
  "task_search_due generation query s =
     (if generation \<noteq> se_generation (task_search s) \<or> query \<noteq> se_query (task_search s) then (s, [])
      else (s, [SearchTasks generation query None]))"

definition load_more_task_search_results :: "app_state \<Rightarrow> step_result" where
  "load_more_task_search_results s =
     (let se = task_search s
      in if se_status se = load_status.Loading \<or> se_query se = [] \<or> se_next_cursor se = None
            \<or> length (se_results se) \<ge> MAX_TASK_SEARCH_RESULTS
         then (s, [])
         else (s\<lparr>task_search := se\<lparr>se_status := load_status.Loading\<rparr>\<rparr>,
               [SearchTasks (se_generation se) (se_query se) (se_next_cursor se)]))"

definition result_id :: "task_search_result \<Rightarrow> str" where
  "result_id r = ts_id (sr_task r)"

definition task_search_results_loaded ::
  "u64 \<Rightarrow> task_search_result list \<Rightarrow> str option \<Rightarrow> bool \<Rightarrow> app_state \<Rightarrow> step_result" where
  "task_search_results_loaded generation results next_cursor append_page s =
     (let se = task_search s
      in if generation \<noteq> se_generation se then (s, [])
         else let old = (if append_page then se_results se else []);
                  all = take MAX_TASK_SEARCH_RESULTS (fold (replace_or_push result_id) results old)
              in (s\<lparr>task_search :=
                      se\<lparr>se_results := all,
                         se_next_cursor :=
                           (if length all < MAX_TASK_SEARCH_RESULTS then next_cursor else None),
                         se_status := load_status.Ready\<rparr>\<rparr>, []))"

definition task_search_failed :: "u64 \<Rightarrow> str \<Rightarrow> app_state \<Rightarrow> step_result" where
  "task_search_failed generation message s =
     (if generation = se_generation (task_search s)
      then (s\<lparr>task_search := (task_search s)\<lparr>se_status := load_status.Failed\<rparr>,
              status_message := Some message\<rparr>, [])
      else (s, []))"

subsection \<open>Archive\<close>

definition refresh_archived_tasks :: "app_state \<Rightarrow> step_result" where
  "refresh_archived_tasks s =
     (let ar = archived_tasks s; generation = sat_succ (ar_generation ar)
      in (s\<lparr>archived_tasks :=
              ar\<lparr>ar_generation := generation, ar_status := load_status.Loading,
                 ar_next_cursor := None, ar_pagination_cursors := [], ar_pagination_pages := 0\<rparr>\<rparr>,
          [LoadArchivedTasks generation None]))"

definition load_more_archived_tasks :: "app_state \<Rightarrow> step_result" where
  "load_more_archived_tasks s =
     (let ar = archived_tasks s
      in case ar_next_cursor ar of
           None \<Rightarrow> (s, [])
         | Some cursor \<Rightarrow>
             if ar_status ar = load_status.Loading then (s, [])
             else if length (ar_tasks ar) \<ge> MAX_VISIBLE_THREADS
                     \<or> ar_pagination_pages ar \<ge> MAX_ARCHIVED_TASK_PAGINATION_PAGES
                     \<or> list_ex (\<lambda>seen. seen = cursor) (ar_pagination_cursors ar)
             then (s\<lparr>archived_tasks := ar\<lparr>ar_next_cursor := None, ar_status := load_status.Ready\<rparr>\<rparr>, [])
             else (s\<lparr>archived_tasks :=
                       ar\<lparr>ar_pagination_cursors := ar_pagination_cursors ar @ [cursor],
                          ar_pagination_pages := ar_pagination_pages ar + 1,
                          ar_status := load_status.Loading\<rparr>\<rparr>,
                   [LoadArchivedTasks (ar_generation ar) (Some cursor)]))"

definition archived_tasks_loaded ::
  "u64 \<Rightarrow> task_summary list \<Rightarrow> str option \<Rightarrow> bool \<Rightarrow> app_state \<Rightarrow> step_result" where
  "archived_tasks_loaded generation loaded next_cursor append_page s =
     (let ar = archived_tasks s
      in if generation \<noteq> ar_generation ar then (s, [])
         else let ar1 = (if append_page then ar\<lparr>ar_tasks := ar_tasks ar @ loaded\<rparr>
                         else ar\<lparr>ar_tasks := loaded, ar_pagination_cursors := [],
                                 ar_pagination_pages := 0\<rparr>);
                  ar2 = ar1\<lparr>ar_tasks := take MAX_VISIBLE_THREADS (ar_tasks ar1)\<rparr>;
                  next_cursor = (case next_cursor of None \<Rightarrow> None
                    | Some cursor \<Rightarrow>
                        if length (ar_tasks ar2) < MAX_VISIBLE_THREADS
                           \<and> ar_pagination_pages ar2 < MAX_ARCHIVED_TASK_PAGINATION_PAGES
                           \<and> \<not> list_ex (\<lambda>seen. seen = cursor) (ar_pagination_cursors ar2)
                        then Some cursor else None)
              in (s\<lparr>archived_tasks :=
                      ar2\<lparr>ar_next_cursor := next_cursor, ar_status := load_status.Ready\<rparr>\<rparr>, []))"

definition archived_tasks_failed :: "u64 \<Rightarrow> str \<Rightarrow> app_state \<Rightarrow> step_result" where
  "archived_tasks_failed generation message s =
     (let ar = archived_tasks s
      in if generation = ar_generation ar
         then let ar1 = ar\<lparr>ar_status := load_status.Failed\<rparr>
              in (s\<lparr>archived_tasks :=
                      (if ar_pagination_cursors ar1 \<noteq> []
                       then ar1\<lparr>ar_pagination_cursors := butlast (ar_pagination_cursors ar1),
                                ar_pagination_pages := ar_pagination_pages ar1 - 1\<rparr>
                       else ar1),
                    status_message := Some message\<rparr>, [])
         else (s, []))"

definition unarchive_task :: "str \<Rightarrow> app_state \<Rightarrow> step_result" where
  "unarchive_task task_id s =
     (if list_ex (\<lambda>task. ts_id task = task_id) (ar_tasks (archived_tasks s))
      then (s, [UnarchiveTask task_id]) else (s, []))"

definition task_unarchived :: "task_summary \<Rightarrow> app_state \<Rightarrow> step_result" where
  "task_unarchived task s =
     (s\<lparr>archived_tasks := (archived_tasks s)\<lparr>ar_tasks :=
          filter (\<lambda>a. ts_id a \<noteq> ts_id task) (ar_tasks (archived_tasks s))\<rparr>,
        tasks := take MAX_VISIBLE_THREADS (move_to_front task (tasks s)),
        status_message := Some ''Chat unarchived''\<rparr>, [])"

definition delete_archived_tasks ::
  "str list \<Rightarrow> archived_task_delete_kind \<Rightarrow> app_state \<Rightarrow> step_result" where
  "delete_archived_tasks task_ids kind s =
     (let all_known = (task_ids \<noteq> [] \<and> length task_ids \<le> length (ar_tasks (archived_tasks s))
            \<and> distinct task_ids
            \<and> list_all (\<lambda>i. list_ex (\<lambda>task. ts_id task = i) (ar_tasks (archived_tasks s))) task_ids)
      in if all_known then (s, [DeleteArchivedTasks task_ids kind]) else (s, []))"

definition archived_tasks_deleted ::
  "str list \<Rightarrow> archived_task_delete_kind \<Rightarrow> app_state \<Rightarrow> step_result" where
  "archived_tasks_deleted task_ids kind s =
     (let deleted_count = length task_ids
      in (s\<lparr>archived_tasks := (archived_tasks s)\<lparr>ar_tasks :=
              filter (\<lambda>a. ts_id a \<notin> set task_ids) (ar_tasks (archived_tasks s))\<rparr>,
            status_message := Some
              (case kind of
                 Single \<Rightarrow> ''Deleted archived chat''
               | _ \<Rightarrow> if deleted_count = 1 then ''Deleted 1 archived chat''
                      else ''Deleted '' @ dec deleted_count @ '' archived chats'')\<rparr>, []))"

subsection \<open>Dispatch\<close>

datatype (plugins only: code size) task_list_action =
    RefreshTasks
  | LoadMoreTasks
  | TasksFailed u64 str
  | LoadedTasksRestored "task_summary list" bool
  | ForkTaskFailed u64 str
  | RenameTask str str
  | TaskRenamed str str
  | ToggleTaskPinned str
  | PinnedTasksLoaded "task_summary list"
  | TaskSearchQueryChanged str
  | TaskSearchDue u64 str
  | LoadMoreTaskSearchResults
  | TaskSearchResultsLoaded u64 "task_search_result list" "str option" bool
  | TaskSearchFailed u64 str
  | RefreshArchivedTasks
  | LoadMoreArchivedTasks
  | ArchivedTasksLoaded u64 "task_summary list" "str option" bool
  | ArchivedTasksFailed u64 str
  | UnarchiveTask str
  | TaskUnarchived task_summary
  | DeleteArchivedTasks "str list" archived_task_delete_kind
  | ArchivedTasksDeleted "str list" archived_task_delete_kind

fun reduce_task_list :: "app_state \<Rightarrow> task_list_action \<Rightarrow> step_result" where
  "reduce_task_list s RefreshTasks = refresh_tasks s"
| "reduce_task_list s LoadMoreTasks = load_more_tasks s"
| "reduce_task_list s (TasksFailed g m) = tasks_failed g m s"
| "reduce_task_list s (LoadedTasksRestored ts b) = loaded_tasks_restored ts b s"
| "reduce_task_list s (ForkTaskFailed r m) = fork_task_failed r m s"
| "reduce_task_list s (task_list_action.RenameTask t n) = rename_task t n s"
| "reduce_task_list s (TaskRenamed t n) = task_renamed t n s"
| "reduce_task_list s (ToggleTaskPinned t) = toggle_task_pinned t s"
| "reduce_task_list s (PinnedTasksLoaded ts) = pinned_tasks_loaded ts s"
| "reduce_task_list s (TaskSearchQueryChanged q) = task_search_query_changed q s"
| "reduce_task_list s (TaskSearchDue g q) = task_search_due g q s"
| "reduce_task_list s LoadMoreTaskSearchResults = load_more_task_search_results s"
| "reduce_task_list s (TaskSearchResultsLoaded g rs c a) = task_search_results_loaded g rs c a s"
| "reduce_task_list s (TaskSearchFailed g m) = task_search_failed g m s"
| "reduce_task_list s RefreshArchivedTasks = refresh_archived_tasks s"
| "reduce_task_list s LoadMoreArchivedTasks = load_more_archived_tasks s"
| "reduce_task_list s (ArchivedTasksLoaded g ts c a) = archived_tasks_loaded g ts c a s"
| "reduce_task_list s (ArchivedTasksFailed g m) = archived_tasks_failed g m s"
| "reduce_task_list s (task_list_action.UnarchiveTask t) = unarchive_task t s"
| "reduce_task_list s (TaskUnarchived t) = task_unarchived t s"
| "reduce_task_list s (task_list_action.DeleteArchivedTasks ts k) = delete_archived_tasks ts k s"
| "reduce_task_list s (ArchivedTasksDeleted ts k) = archived_tasks_deleted ts k s"

lemmas task_list_handler_defs = refresh_tasks_def load_more_tasks_def tasks_failed_def
  loaded_tasks_restored_def fork_task_failed_def rename_task_def task_renamed_def
  toggle_task_pinned_def pinned_tasks_loaded_def task_search_query_changed_def
  task_search_due_def load_more_task_search_results_def task_search_results_loaded_def
  task_search_failed_def refresh_archived_tasks_def load_more_archived_tasks_def
  archived_tasks_loaded_def archived_tasks_failed_def unarchive_task_def task_unarchived_def
  delete_archived_tasks_def archived_tasks_deleted_def

end
