(* ===== verification/Task_Properties.thy ===== *)
theory Task_Properties
  imports Task_Lists
begin

text \<open>
  What the task lists guarantee: their invariant, late search and archive replies are dropped,
  archive paging stops, pins round trip, and a task that is recorded in the background never
  pushes out the selected one.
\<close>

subsection \<open>Lists with one element per key\<close>

lemma map_replace_or_push:
  "map key (replace_or_push key x xs)
   = (if key x \<in> key ` set xs then map key xs else map key xs @ [key x])"
proof -
  have "map key (update_first (\<lambda>e. key e = key x) (\<lambda>_. x) xs) = map key xs"
    by (rule map_update_first_on) simp
  moreover have "list_ex (\<lambda>e. key e = key x) xs \<longleftrightarrow> key x \<in> key ` set xs"
    by (auto simp: list_ex_iff image_iff dest: sym)
  ultimately show ?thesis by (simp add: replace_or_push_def)
qed

lemma distinct_replace_or_push:
  "distinct (map key xs) \<Longrightarrow> distinct (map key (replace_or_push key x xs))"
  by (simp add: map_replace_or_push)

lemma distinct_fold_replace:
  "distinct (map key xs) \<Longrightarrow> distinct (map key (fold (replace_or_push key) ys xs))"
  by (induction ys arbitrary: xs) (simp_all add: distinct_replace_or_push)

lemma length_move_to_front: "length (move_to_front t ts) \<le> Suc (length ts)"
  by (simp add: move_to_front_def)

lemma distinct_move_to_front:
  "distinct (map ts_id ts) \<Longrightarrow> distinct (map ts_id (move_to_front t ts))"
  by (auto simp: move_to_front_def distinct_map_filter)

lemma keep_ids_reference:
  "length normalized < limit \<Longrightarrow>
   keep_ids acceptable limit normalized xs
   = take limit (normalized @ retain_first id (set normalized) (filter acceptable xs))"
proof (induction xs arbitrary: normalized)
  case Nil
  then show ?case by simp
next
  case (Cons x xs)
  show ?case
  proof (cases "acceptable x \<and> x \<notin> set normalized")
    case False
    then show ?thesis using Cons by (auto simp: list_ex_iff)
  next
    case True
    then have step: "keep_ids acceptable limit normalized (x # xs)
        = (if length (normalized @ [x]) = limit then normalized @ [x]
           else keep_ids acceptable limit (normalized @ [x]) xs)"
      by (auto simp: list_ex_iff Let_def)
    show ?thesis
    proof (cases "length (normalized @ [x]) = limit")
      case True
      then have limit: "limit = Suc (length normalized)" by simp
      from step True have "keep_ids acceptable limit normalized (x # xs) = normalized @ [x]"
        by presburger
      with \<open>acceptable x \<and> x \<notin> set normalized\<close> show ?thesis by (simp add: limit del: keep_ids.simps)
    next
      case False
      with Cons.prems have "length (normalized @ [x]) < limit" by simp
      from Cons.IH [OF this] step False True show ?thesis by (simp del: keep_ids.simps)
    qed
  qed
qed

subsection \<open>Invariant\<close>

definition search_ok :: "app_state \<Rightarrow> bool" where
  "search_ok s \<longleftrightarrow>
     distinct (map result_id (se_results (task_search s)))
     \<and> length (se_results (task_search s)) \<le> MAX_TASK_SEARCH_RESULTS
     \<and> length (se_query (task_search s)) \<le> MAX_TASK_SEARCH_QUERY_BYTES"

definition archive_ok :: "app_state \<Rightarrow> bool" where
  "archive_ok s \<longleftrightarrow>
     length (ar_tasks (archived_tasks s)) \<le> MAX_VISIBLE_THREADS
     \<and> length (ar_pagination_cursors (archived_tasks s)) = ar_pagination_pages (archived_tasks s)
     \<and> ar_pagination_pages (archived_tasks s) \<le> MAX_ARCHIVED_TASK_PAGINATION_PAGES
     \<and> distinct (ar_pagination_cursors (archived_tasks s))"

definition pins_ok :: "app_state \<Rightarrow> bool" where
  "pins_ok s \<longleftrightarrow>
     distinct (pinned_task_ids s) \<and> length (pinned_task_ids s) \<le> MAX_PINNED_TASKS
     \<and> (\<forall>i \<in> set (pinned_task_ids s). length i \<le> MAX_PINNED_TASK_ID_BYTES)"

definition task_lists_inv :: "app_state \<Rightarrow> bool" where
  "task_lists_inv s \<longleftrightarrow>
     length (tasks s) \<le> MAX_VISIBLE_THREADS \<and> search_ok s \<and> archive_ok s \<and> pins_ok s"

lemmas task_lists_defs = task_lists_inv_def search_ok_def archive_ok_def pins_ok_def

lemma resume_all_frame:
  "tasks (fst (resume_all is s)) = tasks s" "task_search (fst (resume_all is s)) = task_search s"
  "archived_tasks (fst (resume_all is s)) = archived_tasks s"
  "pinned_task_ids (fst (resume_all is s)) = pinned_task_ids s"
  by (induction "is" arbitrary: s)
    (simp_all add: case_prod_beta Let_def resume_task_effect_def)

lemma bounds_positive [simp]:
  "MAX_ARCHIVED_TASK_PAGINATION_PAGES = 32" "MAX_TASK_SEARCH_RESULTS = 500" "MAX_PINNED_TASKS = 50"
  "MAX_VISIBLE_THREADS = 500"
  by (simp_all add: MAX_ARCHIVED_TASK_PAGINATION_PAGES_def MAX_TASK_SEARCH_RESULTS_def
      MAX_PINNED_TASKS_def MAX_VISIBLE_THREADS_def)

lemma reduce_task_list_inv:
  assumes inv: "task_lists_inv s"
  shows "task_lists_inv (fst (reduce_task_list s a))"
proof (cases a)
  case (TaskSearchQueryChanged q)
  with inv show ?thesis
    by (auto simp: task_lists_defs task_search_query_changed_def Let_def length_bounded_string)
next
  case (TaskSearchResultsLoaded g rs c ap)
  with inv show ?thesis
    by (auto simp: task_lists_defs task_search_results_loaded_def Let_def
        intro!: distinct_map_take distinct_fold_replace)
next
  case (LoadedTasksRestored ts b)
  with inv show ?thesis
    by (auto simp: task_lists_defs loaded_tasks_restored_def Let_def resume_all_frame)
next
  case (ToggleTaskPinned t)
  with inv show ?thesis
    by (auto simp: task_lists_defs toggle_task_pinned_def Let_def position_None list_ex_iff
        length_remove_at_if dest: in_set_remove_atD intro: distinct_remove_at split: option.splits)
next
  case (TaskRenamed t n)
  with inv show ?thesis
    by (auto simp: task_lists_defs task_renamed_def Let_def result_id_def map_update_first)
next
  case LoadMoreArchivedTasks
  with inv show ?thesis
    by (auto simp: task_lists_defs load_more_archived_tasks_def Let_def list_ex_iff
        split: option.splits)
next
  case (ArchivedTasksFailed g m)
  with inv show ?thesis
    by (auto simp: task_lists_defs archived_tasks_failed_def Let_def distinct_butlast)
next
  case (ArchivedTasksDeleted ids k)
  with inv show ?thesis
    by (auto simp: task_lists_defs archived_tasks_deleted_def Let_def intro: length_filter_bound)
next
  case (TaskUnarchived t)
  with inv show ?thesis
    by (auto simp: task_lists_defs task_unarchived_def intro: length_filter_bound)
qed (use inv in \<open>auto simp: task_lists_defs refresh_tasks_def load_more_tasks_def tasks_failed_def
    fork_task_failed_def rename_task_def pinned_tasks_loaded_def task_search_due_def
    load_more_task_search_results_def task_search_failed_def refresh_archived_tasks_def
    archived_tasks_loaded_def unarchive_task_def delete_archived_tasks_def Let_def
    split: option.splits\<close>)

interpretation task_lists: reducer_component reduce_task_list task_lists_inv
  by unfold_locales (rule reduce_task_list_inv)

subsection \<open>Replies to earlier requests\<close>

abbreviation search_request :: "str \<Rightarrow> app_state \<Rightarrow> app_state" where
  "search_request q s \<equiv> fst (reduce_task_list s (TaskSearchQueryChanged q))"

fun search_reply ::
  "u64 \<Rightarrow> (task_search_result list \<times> str option \<times> bool) + str \<Rightarrow> app_state \<Rightarrow> app_state" where
  "search_reply g (Inl (results, cursor, append_page)) s =
     fst (reduce_task_list s (TaskSearchResultsLoaded g results cursor append_page))"
| "search_reply g (Inr message) s = fst (reduce_task_list s (TaskSearchFailed g message))"

interpretation search_guard:
  generation_guard "\<lambda>s. se_generation (task_search s)" search_request search_reply
proof
  fix q s
  show "se_generation (task_search (search_request q s)) = sat_succ (se_generation (task_search s))"
    by (simp add: task_search_query_changed_def Let_def)
next
  fix g r s
  show "se_generation (task_search (search_reply g r s)) = se_generation (task_search s)"
    by (cases "(g, r, s)" rule: search_reply.cases)
      (auto simp: task_search_results_loaded_def task_search_failed_def Let_def)
next
  fix g r and s :: app_state
  assume "g \<noteq> se_generation (task_search s)"
  then show "search_reply g r s = s"
    by (cases "(g, r, s)" rule: search_reply.cases)
      (auto simp: task_search_results_loaded_def task_search_failed_def Let_def)
qed

subsection \<open>Archive paging\<close>

type_synonym archive_page = "u64 \<times> task_summary list \<times> str option"

fun archive_page_arrives :: "archive_page \<Rightarrow> app_state \<Rightarrow> app_state" where
  "archive_page_arrives (g, ts, cursor) s = fst (archived_tasks_loaded g ts cursor True s)"

interpretation archive_paging:
  cursor_pagination "\<lambda>s. ar_pagination_cursors (archived_tasks s)"
    "\<lambda>s. ar_pagination_pages (archived_tasks s)" MAX_ARCHIVED_TASK_PAGINATION_PAGES
    load_more_archived_tasks archive_page_arrives
  by unfold_locales
    (auto simp: load_more_archived_tasks_def archived_tasks_loaded_def Let_def list_ex_iff
      split: option.splits if_splits)

subsection \<open>Recording a task in the background\<close>

lemma find_ts_id: "find (\<lambda>e. ts_id e = i) ts = Some t \<Longrightarrow> t \<in> set ts \<and> ts_id t = i"
  by (auto simp: find_Some_iff)

lemma list_ex_ts_id: "list_ex (\<lambda>e. ts_id e = i) ts \<longleftrightarrow> i \<in> ts_id ` set ts"
  by (auto simp: list_ex_iff image_iff dest: sym)

lemma recorded_tasks:
  assumes "find (\<lambda>e. ts_id e = i) ts = Some sel"
    and "ts_id sel \<notin> ts_id ` set (take n (move_to_front t ts))" and "1 < n"
  shows "length (take n (move_to_front t ts)) = n"
    and "hd (butlast (take n (move_to_front t ts)) @ [sel]) = t"
proof -
  have "sel \<in> set ts" using find_ts_id [OF assms(1)] by simp
  moreover have "ts_id sel \<noteq> ts_id t" using assms(2,3) by (auto simp: move_to_front_def take_Cons')
  ultimately have "sel \<in> set (move_to_front t ts)" by (simp add: move_to_front_def)
  then have "\<not> length (move_to_front t ts) \<le> n" using assms(2) by auto
  then show len: "length (take n (move_to_front t ts)) = n" by simp
  with assms(3) obtain b bs where "filter (\<lambda>e. ts_id e \<noteq> ts_id t) ts = b # bs"
    by (cases "filter (\<lambda>e. ts_id e \<noteq> ts_id t) ts") (auto simp: move_to_front_def)
  with assms(3) show "hd (butlast (take n (move_to_front t ts)) @ [sel]) = t"
    by (cases n) (auto simp: move_to_front_def take_Cons')
qed

subsection \<open>Properties\<close>

text \<open>
  Once the query has changed, neither results nor a failure of an earlier search change
  anything, whatever other searches and replies came in between, until the 64-bit counter is
  exhausted.
\<close>

theorem late_search_reply_ignored:
  assumes "se_generation (task_search s) \<noteq> -1" and "unat g \<le> unat (se_generation (task_search s))"
  shows "search_reply g r (mixed search_request search_reply ops (search_request q s))
    = mixed search_request search_reply ops (search_request q s)"
  by (rule search_guard.late_reply_ignored [OF assms])

text \<open>
  However the server continues its pages, scrolling through the archive sends at most 32
  page requests, and never the same cursor twice.
\<close>

theorem archive_paging_bounded:
  assumes "distinct (ar_pagination_cursors (archived_tasks s))"
  shows "length (snd (paging load_more_archived_tasks archive_page_arrives pages s))
      \<le> MAX_ARCHIVED_TASK_PAGINATION_PAGES - ar_pagination_pages (archived_tasks s)
    \<and> distinct (ar_pagination_cursors (archived_tasks
        (fst (paging load_more_archived_tasks archive_page_arrives pages s))))"
  using archive_paging.bounded.paging_bounded archive_paging.paging_distinct [OF assms] by blast

text \<open>
  Pinning a listed task and unpinning it restores the pins, and both times exactly the new
  list is persisted.
\<close>

theorem pin_roundtrip:
  assumes "t \<notin> set (pinned_task_ids s)" and "t \<in> ts_id ` set (tasks s)"
    and "length t \<le> MAX_PINNED_TASK_ID_BYTES" and "length (pinned_task_ids s) < MAX_PINNED_TASKS"
  shows "run reduce_task_list s [ToggleTaskPinned t, ToggleTaskPinned t]
    = (s\<lparr>status_message := Some ''Chat unpinned''\<rparr>,
       [PersistPinnedTasks (t # pinned_task_ids s), PersistPinnedTasks (pinned_task_ids s)])"
proof -
  have "position (\<lambda>i. i = t) (pinned_task_ids s) = None"
    using assms(1) by (auto simp: position_None list_ex_iff)
  moreover have "list_ex (\<lambda>task. ts_id task = t) (tasks s)"
    using assms(2) by (auto simp: list_ex_iff)
  ultimately show ?thesis
    using assms(3,4) by (simp add: toggle_task_pinned_def Let_def remove_at_def)
qed

text \<open>
  The pins read from disk are normalised to the first 50 distinct identifiers that are
  neither empty nor longer than 256 bytes, and the pins that a run of the reducer persists are
  read back unchanged.
\<close>

theorem pins_normalized:
  "normalize_pinned_task_ids ids
     = take MAX_PINNED_TASKS (retain_first id {}
         (filter (\<lambda>x. x \<noteq> [] \<and> length x \<le> MAX_PINNED_TASK_ID_BYTES) ids))
   \<and> (pins_ok s \<and> [] \<notin> set (pinned_task_ids s)
      \<longrightarrow> normalize_pinned_task_ids (pinned_task_ids s) = pinned_task_ids s)"
proof (intro conjI impI)
  show reference: "normalize_pinned_task_ids ids
      = take MAX_PINNED_TASKS (retain_first id {}
          (filter (\<lambda>x. x \<noteq> [] \<and> length x \<le> MAX_PINNED_TASK_ID_BYTES) ids))" for ids
    by (simp add: normalize_pinned_task_ids_def keep_ids_reference)
  assume "pins_ok s \<and> [] \<notin> set (pinned_task_ids s)"
  then have ok: "pins_ok s" "[] \<notin> set (pinned_task_ids s)" by simp_all
  have "filter (\<lambda>x. x \<noteq> [] \<and> length x \<le> MAX_PINNED_TASK_ID_BYTES) (pinned_task_ids s)
      = pinned_task_ids s"
    using ok by (intro filter_True) (auto simp: pins_ok_def)
  moreover have "retain_first id {} (pinned_task_ids s) = pinned_task_ids s"
    using ok(1) by (intro retain_first_id) (simp_all add: pins_ok_def)
  ultimately show "normalize_pinned_task_ids (pinned_task_ids s) = pinned_task_ids s"
    using ok(1) by (simp add: reference pins_ok_def)
qed

text \<open>
  Recording a task that was created in the background puts it first, keeps at most 500 tasks
  with distinct identifiers, and keeps the selected task listed.
\<close>

theorem background_task_recorded:
  assumes "distinct (map ts_id (tasks s))"
  shows "let ts = tasks (record_task_without_selecting t s)
    in hd ts = t \<and> length ts \<le> MAX_VISIBLE_THREADS \<and> distinct (map ts_id ts)
       \<and> (\<forall>i \<in> ts_id ` set (tasks s). selected_task_id s = Some i \<longrightarrow> i \<in> ts_id ` set ts)"
proof -
  define ts1 where "ts1 = take MAX_VISIBLE_THREADS (move_to_front t (tasks s))"
  define sel where "sel = Option.bind (selected_task_id s) (\<lambda>i. find (\<lambda>e. ts_id e = i) (tasks s))"
  have ts: "tasks (record_task_without_selecting t s)
      = (case sel of Some c \<Rightarrow> if ts_id c \<notin> ts_id ` set ts1 \<and> ts1 \<noteq> [] then butlast ts1 @ [c] else ts1
         | None \<Rightarrow> ts1)"
    by (simp add: record_task_without_selecting_def sel_def ts1_def Let_def list_ex_ts_id
        split: option.split)
  have d1: "distinct (map ts_id ts1)" using distinct_move_to_front [OF assms]
    unfolding ts1_def by (rule distinct_map_take)
  have h1: "hd ts1 = t" and n1: "ts1 \<noteq> []" and l1: "length ts1 \<le> MAX_VISIBLE_THREADS"
    by (simp_all add: ts1_def move_to_front_def)
  show ?thesis
  proof (cases sel)
    case None
    have "\<not> selected_task_id s = Some i" if "i \<in> ts_id ` set (tasks s)" for i
      using None that by (auto simp: sel_def find_None_iff)
    with None d1 h1 l1 show ?thesis by (simp add: ts)
  next
    case (Some c)
    then obtain i where i: "selected_task_id s = Some i" "find (\<lambda>e. ts_id e = i) (tasks s) = Some c"
      by (auto simp: sel_def bind_eq_Some_conv)
    then have c: "c \<in> set (tasks s)" "ts_id c = i" using find_ts_id by auto
    show ?thesis
    proof (cases "ts_id c \<in> ts_id ` set ts1")
      case True
      with Some c i d1 h1 l1 show ?thesis by (auto simp: ts)
    next
      case False
      then have "hd (butlast ts1 @ [c]) = t"
        using recorded_tasks(2) [OF i(2), of MAX_VISIBLE_THREADS t] by (simp add: ts1_def)
      moreover have "distinct (map ts_id (butlast ts1))"
        using d1 by (simp add: map_butlast distinct_butlast)
      moreover have "ts_id c \<notin> ts_id ` set (butlast ts1)" using False by (auto dest: in_set_butlastD)
      ultimately show ?thesis using Some False c i l1 n1 by (auto simp: ts Let_def)
    qed
  qed
qed

subsection \<open>Witnesses and examples\<close>

definition demo_task_of :: "str \<Rightarrow> task_summary" where
  "demo_task_of key =
     \<lparr>ts_id = key, ts_title = ''Chat'', ts_preview = [], ts_cwd = ''/w'', ts_created_at = 0,
      ts_updated_at = 0, ts_parent_task_id = None, ts_forked_from_id = None,
      ts_status = task_run_status.Idle\<rparr>"

definition demo_lists :: app_state where
  "demo_lists = default_app_state\<lparr>tasks := map demo_task_of [''a'', ''b''], selected_task_id := Some ''b''\<rparr>"

lemmas demo_lists_simps = demo_lists_def demo_task_of_def default_state_defs

lemma demo_lists_inv: "task_lists_inv demo_lists"
  by (simp add: task_lists_defs demo_lists_simps)

theorem late_search_reply_ignored_witness:
  "search_reply 0 (Inr ''late'') (search_request ''bug'' demo_lists) = search_request ''bug'' demo_lists"
proof -
  have "se_generation (task_search demo_lists) \<noteq> -1"
    and "unat (0 :: u64) \<le> unat (se_generation (task_search demo_lists))"
    by (simp_all add: demo_lists_simps)
  from late_search_reply_ignored [OF this, of "Inr ''late''" "[]" "''bug''"] show ?thesis by simp
qed

theorem archive_paging_bounded_witness:
  "length (snd (paging load_more_archived_tasks archive_page_arrives
     [(0, [], Some ''c1''), (0, [], Some ''c1'')] demo_lists)) \<le> 32"
proof -
  have "distinct (ar_pagination_cursors (archived_tasks demo_lists))"
    and "ar_pagination_pages (archived_tasks demo_lists) = 0"
    by (simp_all add: demo_lists_simps)
  with archive_paging_bounded [of demo_lists "[(0, [], Some ''c1''), (0, [], Some ''c1'')]"]
  show ?thesis by simp
qed

theorem pin_roundtrip_witness:
  "snd (run reduce_task_list demo_lists [ToggleTaskPinned ''a'', ToggleTaskPinned ''a''])
   = [PersistPinnedTasks [''a''], PersistPinnedTasks []]"
proof -
  have "''a'' \<notin> set (pinned_task_ids demo_lists)" "''a'' \<in> ts_id ` set (tasks demo_lists)"
    and "length ''a'' \<le> MAX_PINNED_TASK_ID_BYTES" "length (pinned_task_ids demo_lists) < MAX_PINNED_TASKS"
    and "pinned_task_ids demo_lists = []"
    by (simp_all add: demo_lists_simps MAX_PINNED_TASK_ID_BYTES_def)
  with pin_roundtrip [of "''a''" demo_lists] show ?thesis by simp
qed

theorem pins_normalized_witness:
  "normalize_pinned_task_ids [''a'', ''b''] = [''a'', ''b'']"
proof -
  let ?s = "demo_lists\<lparr>pinned_task_ids := [''a'', ''b'']\<rparr>"
  have "pins_ok ?s \<and> [] \<notin> set (pinned_task_ids ?s)"
    by (simp add: pins_ok_def MAX_PINNED_TASK_ID_BYTES_def)
  with pins_normalized [of "[]" ?s] show ?thesis by simp
qed

theorem background_task_recorded_witness:
  "hd (tasks (record_task_without_selecting (demo_task_of ''c'') demo_lists)) = demo_task_of ''c''
   \<and> ''b'' \<in> ts_id ` set (tasks (record_task_without_selecting (demo_task_of ''c'') demo_lists))"
proof -
  have "distinct (map ts_id (tasks demo_lists))" "''b'' \<in> ts_id ` set (tasks demo_lists)"
    and "selected_task_id demo_lists = Some ''b''"
    by (simp_all add: demo_lists_simps)
  with background_task_recorded [of demo_lists "demo_task_of ''c''"] show ?thesis
    by (simp add: Let_def)
qed

text \<open>
  Restoring a task from the archive does not protect the selected task: with 500 tasks listed
  and the last one selected, the selected task leaves the list.
\<close>

lemma unarchive_drops_selected:
  "\<exists>s t. selected_task_id s = Some [] \<and> [] \<in> ts_id ` set (tasks s) \<and> length (tasks s) = 500
     \<and> [] \<notin> ts_id ` set (tasks (fst (reduce_task_list s (TaskUnarchived t))))"
proof -
  let ?old = "replicate 499 (demo_task_of ''x'') @ [demo_task_of []]"
  let ?s = "demo_lists\<lparr>tasks := ?old, selected_task_id := Some []\<rparr>"
  have "filter (\<lambda>e. ts_id e \<noteq> ''new'') ?old = ?old" by (simp add: demo_task_of_def)
  then have "tasks (fst (reduce_task_list ?s (TaskUnarchived (demo_task_of ''new''))))
      = demo_task_of ''new'' # replicate 499 (demo_task_of ''x'')"
    by (simp add: task_unarchived_def move_to_front_def demo_task_of_def)
  moreover have "[] \<in> ts_id ` set (tasks ?s)" by (simp add: demo_task_of_def)
  ultimately show ?thesis
    by (intro exI [of _ ?s] exI [of _ "demo_task_of ''new''"]) (simp add: demo_task_of_def)
qed

end
