(* ===== verification/Process_Manager.thy ===== *)
theory Process_Manager
  imports Task_Properties
begin

text \<open>
  The background processes of the selected task (\<open>ProcessManagerState\<close> and its actions in
  \<open>reduce\<close>, \<open>crates/codex-core/src/lib.rs\<close>): listing by page, terminating one, stopping all.
\<close>

definition MAX_BACKGROUND_TERMINALS :: nat where
  "MAX_BACKGROUND_TERMINALS = 256"

definition manager_for :: "str \<Rightarrow> process_manager_state" where
  "manager_for task_id = default_process_manager\<lparr>pg_task_id := Some task_id\<rparr>"

subsection \<open>Handlers\<close>

definition refresh_background_terminals :: "app_state \<Rightarrow> step_result" where
  "refresh_background_terminals s =
     (case selected_task_id s of
        None \<Rightarrow> (s\<lparr>status_message := Some ''Open a chat before opening Process Manager.''\<rparr>, [])
      | Some task_id \<Rightarrow>
          if pg_status (process_manager s) = load_status.Loading then (s, [])
          else let m = (if pg_task_id (process_manager s) \<noteq> Some task_id then manager_for task_id
                        else process_manager s)
               in (s\<lparr>process_manager :=
                       m\<lparr>pg_status := load_status.Loading, pg_next_cursor := None, pg_error := None\<rparr>\<rparr>,
                   [LoadBackgroundTerminals task_id None]))"

definition load_more_background_terminals :: "app_state \<Rightarrow> step_result" where
  "load_more_background_terminals s =
     (let m = process_manager s
      in case pg_task_id m of
           None \<Rightarrow> (s, [])
         | Some task_id \<Rightarrow>
             if selected_task_id s \<noteq> Some task_id \<or> pg_status m = load_status.Loading
                \<or> pg_next_cursor m = None \<or> length (pg_terminals m) \<ge> MAX_BACKGROUND_TERMINALS
             then (s, [])
             else (s\<lparr>process_manager := m\<lparr>pg_status := load_status.Loading, pg_error := None\<rparr>\<rparr>,
                   [LoadBackgroundTerminals task_id (pg_next_cursor m)]))"

text \<open>A listed process is replaced, a new one added while there is room.\<close>

definition add_background_terminal ::
  "background_terminal \<Rightarrow> background_terminal list \<Rightarrow> background_terminal list" where
  "add_background_terminal b bs =
     (if list_ex (\<lambda>e. bt_process_id e = bt_process_id b) bs
      then update_first (\<lambda>e. bt_process_id e = bt_process_id b) (\<lambda>_. b) bs
      else if length bs < MAX_BACKGROUND_TERMINALS then bs @ [b] else bs)"

definition background_terminals_loaded ::
  "str \<Rightarrow> background_terminal list \<Rightarrow> str option \<Rightarrow> bool \<Rightarrow> app_state \<Rightarrow> step_result" where
  "background_terminals_loaded task_id loaded next_cursor append_page s =
     (let m = process_manager s
      in if pg_task_id m \<noteq> Some task_id then (s, [])
         else let old = (if append_page then pg_terminals m else []);
                  all = fold add_background_terminal (take MAX_BACKGROUND_TERMINALS loaded) old
              in (s\<lparr>process_manager :=
                      m\<lparr>pg_terminals := all,
                        pg_next_cursor :=
                          (if length all < MAX_BACKGROUND_TERMINALS then next_cursor else None),
                        pg_status := load_status.Ready, pg_error := None\<rparr>\<rparr>, []))"

definition background_terminals_failed :: "str \<Rightarrow> str \<Rightarrow> app_state \<Rightarrow> step_result" where
  "background_terminals_failed task_id message s =
     (if pg_task_id (process_manager s) = Some task_id
      then (s\<lparr>process_manager := (process_manager s)
                \<lparr>pg_status := load_status.Failed,
                 pg_error := Some (bounded_string message (16 * 1024))\<rparr>\<rparr>, [])
      else (s, []))"

definition terminate_background_terminal :: "str \<Rightarrow> app_state \<Rightarrow> step_result" where
  "terminate_background_terminal process_id s =
     (let m = process_manager s
      in case pg_task_id m of
           None \<Rightarrow> (s, [])
         | Some task_id \<Rightarrow>
             if selected_task_id s \<noteq> Some task_id \<or> pg_cleaning m
                \<or> list_ex (\<lambda>pending. pending = process_id) (pg_terminating_process_ids m)
                \<or> \<not> list_ex (\<lambda>b. bt_process_id b = process_id) (pg_terminals m)
             then (s, [])
             else (s\<lparr>process_manager :=
                       m\<lparr>pg_terminating_process_ids := pg_terminating_process_ids m @ [process_id],
                         pg_error := None\<rparr>\<rparr>,
                   [effect.TerminateBackgroundTerminal task_id process_id]))"

definition background_terminal_terminated :: "str \<Rightarrow> str \<Rightarrow> bool \<Rightarrow> app_state \<Rightarrow> step_result" where
  "background_terminal_terminated task_id process_id terminated s =
     (let m = process_manager s
      in if pg_task_id m \<noteq> Some task_id then (s, [])
         else let m1 = m\<lparr>pg_terminating_process_ids :=
                           filter (\<lambda>pending. pending \<noteq> process_id) (pg_terminating_process_ids m)\<rparr>
              in if terminated
                 then (s\<lparr>process_manager :=
                           m1\<lparr>pg_terminals :=
                                filter (\<lambda>b. bt_process_id b \<noteq> process_id) (pg_terminals m1)\<rparr>,
                         status_message := Some ''Process stopped''\<rparr>, [])
                 else (s\<lparr>process_manager := m1\<lparr>pg_error := Some ''Process is no longer running''\<rparr>\<rparr>, []))"

definition background_terminal_terminate_failed :: "str \<Rightarrow> str \<Rightarrow> str \<Rightarrow> app_state \<Rightarrow> step_result" where
  "background_terminal_terminate_failed task_id process_id message s =
     (let m = process_manager s
      in if pg_task_id m = Some task_id
         then (s\<lparr>process_manager :=
                   m\<lparr>pg_terminating_process_ids :=
                       filter (\<lambda>pending. pending \<noteq> process_id) (pg_terminating_process_ids m),
                     pg_error := Some (bounded_string message (16 * 1024))\<rparr>\<rparr>, [])
         else (s, []))"

definition clean_background_terminals :: "app_state \<Rightarrow> step_result" where
  "clean_background_terminals s =
     (let m = process_manager s
      in case pg_task_id m of
           None \<Rightarrow> (s, [])
         | Some task_id \<Rightarrow>
             if selected_task_id s \<noteq> Some task_id \<or> pg_cleaning m \<or> pg_terminals m = []
             then (s, [])
             else (s\<lparr>process_manager := m\<lparr>pg_cleaning := True, pg_error := None\<rparr>\<rparr>,
                   [effect.CleanBackgroundTerminals task_id]))"

definition background_terminals_cleaned :: "str \<Rightarrow> app_state \<Rightarrow> step_result" where
  "background_terminals_cleaned task_id s =
     (let m = process_manager s
      in if pg_task_id m = Some task_id
         then (s\<lparr>process_manager :=
                   m\<lparr>pg_cleaning := False, pg_terminals := [], pg_next_cursor := None,
                     pg_terminating_process_ids := [], pg_status := load_status.Ready,
                     pg_error := None\<rparr>,
                 status_message := Some ''Background terminals stopped''\<rparr>, [])
         else (s, []))"

definition background_terminals_clean_failed :: "str \<Rightarrow> str \<Rightarrow> app_state \<Rightarrow> step_result" where
  "background_terminals_clean_failed task_id message s =
     (let m = process_manager s
      in if pg_task_id m = Some task_id
         then (s\<lparr>process_manager :=
                   m\<lparr>pg_cleaning := False, pg_error := Some (bounded_string message (16 * 1024))\<rparr>\<rparr>, [])
         else (s, []))"

subsection \<open>Dispatch\<close>

datatype (plugins only: code size) process_action =
    RefreshBackgroundTerminals
  | LoadMoreBackgroundTerminals
  | BackgroundTerminalsLoaded str "background_terminal list" "str option" bool
  | BackgroundTerminalsFailed str str
  | TerminateBackgroundTerminal str
  | BackgroundTerminalTerminated str str bool
  | BackgroundTerminalTerminateFailed str str str
  | CleanBackgroundTerminals
  | BackgroundTerminalsCleaned str
  | BackgroundTerminalsCleanFailed str str

fun reduce_process :: "app_state \<Rightarrow> process_action \<Rightarrow> step_result" where
  "reduce_process s RefreshBackgroundTerminals = refresh_background_terminals s"
| "reduce_process s LoadMoreBackgroundTerminals = load_more_background_terminals s"
| "reduce_process s (BackgroundTerminalsLoaded t bs c a) = background_terminals_loaded t bs c a s"
| "reduce_process s (BackgroundTerminalsFailed t m) = background_terminals_failed t m s"
| "reduce_process s (process_action.TerminateBackgroundTerminal p) = terminate_background_terminal p s"
| "reduce_process s (BackgroundTerminalTerminated t p b) = background_terminal_terminated t p b s"
| "reduce_process s (BackgroundTerminalTerminateFailed t p m) =
     background_terminal_terminate_failed t p m s"
| "reduce_process s process_action.CleanBackgroundTerminals = clean_background_terminals s"
| "reduce_process s (BackgroundTerminalsCleaned t) = background_terminals_cleaned t s"
| "reduce_process s (BackgroundTerminalsCleanFailed t m) = background_terminals_clean_failed t m s"

lemmas process_handler_defs = refresh_background_terminals_def load_more_background_terminals_def
  background_terminals_loaded_def background_terminals_failed_def terminate_background_terminal_def
  background_terminal_terminated_def background_terminal_terminate_failed_def
  clean_background_terminals_def background_terminals_cleaned_def background_terminals_clean_failed_def

subsection \<open>Invariant\<close>

definition process_inv :: "app_state \<Rightarrow> bool" where
  "process_inv s \<longleftrightarrow>
     distinct (map bt_process_id (pg_terminals (process_manager s)))
     \<and> length (pg_terminals (process_manager s)) \<le> MAX_BACKGROUND_TERMINALS
     \<and> distinct (pg_terminating_process_ids (process_manager s))
     \<and> (length (pg_terminals (process_manager s)) = MAX_BACKGROUND_TERMINALS
          \<longrightarrow> pg_next_cursor (process_manager s) = None)"

lemma add_terminal_ids:
  "map bt_process_id (add_background_terminal b bs)
   = (if bt_process_id b \<in> bt_process_id ` set bs then map bt_process_id bs
      else if length bs < MAX_BACKGROUND_TERMINALS then map bt_process_id bs @ [bt_process_id b]
      else map bt_process_id bs)"
proof -
  have "add_background_terminal b bs
      = (if bt_process_id b \<in> bt_process_id ` set bs \<or> length bs < MAX_BACKGROUND_TERMINALS
         then replace_or_push bt_process_id b bs else bs)"
    by (auto simp: add_background_terminal_def replace_or_push_def list_ex_iff image_iff dest: sym)
  then show ?thesis by (simp add: map_replace_or_push)
qed

lemma add_terminals_ok:
  "distinct (map bt_process_id bs) \<Longrightarrow> length bs \<le> MAX_BACKGROUND_TERMINALS \<Longrightarrow>
   distinct (map bt_process_id (fold add_background_terminal new bs))
   \<and> length (fold add_background_terminal new bs) \<le> MAX_BACKGROUND_TERMINALS"
proof (induction new arbitrary: bs)
  case Nil
  then show ?case by simp
next
  case (Cons b new)
  have "distinct (map bt_process_id (add_background_terminal b bs))"
    using Cons.prems by (simp add: add_terminal_ids)
  moreover have "length (add_background_terminal b bs) \<le> MAX_BACKGROUND_TERMINALS"
    using Cons.prems arg_cong [OF add_terminal_ids [of b bs], of length] by (auto split: if_splits)
  ultimately show ?case by (simp add: Cons.IH)
qed

lemma filter_full: "length (filter q xs) = n \<Longrightarrow> length xs \<le> n \<Longrightarrow> length xs = n"
  using length_filter_le [of q xs] by simp

lemma reduce_process_inv: "process_inv s \<Longrightarrow> process_inv (fst (reduce_process s a))"
proof (cases a)
  case (BackgroundTerminalsLoaded t bs c ap)
  assume "process_inv s"
  then have "distinct (map bt_process_id (if ap then pg_terminals (process_manager s) else []))"
    and "length (if ap then pg_terminals (process_manager s) else []) \<le> MAX_BACKGROUND_TERMINALS"
    by (auto simp: process_inv_def)
  from add_terminals_ok [OF this] BackgroundTerminalsLoaded \<open>process_inv s\<close> show ?thesis
    by (auto simp: process_inv_def background_terminals_loaded_def Let_def)
next
  case (BackgroundTerminalTerminated t p b)
  assume "process_inv s"
  then show ?thesis using BackgroundTerminalTerminated
    by (auto simp: process_inv_def background_terminal_terminated_def Let_def distinct_map_filter
        length_filter_bound dest: filter_full)
qed (auto simp: process_inv_def process_handler_defs manager_for_def default_process_manager_def
    MAX_BACKGROUND_TERMINALS_def Let_def list_ex_iff split: option.splits)

interpretation processes: reducer_component reduce_process process_inv
  by unfold_locales (rule reduce_process_inv)

subsection \<open>A pending termination\<close>

definition terminating :: "str \<Rightarrow> str \<Rightarrow> app_state \<Rightarrow> bool" where
  "terminating t p s \<longleftrightarrow>
     pg_task_id (process_manager s) = Some t \<and> selected_task_id s = Some t
     \<and> p \<in> set (pg_terminating_process_ids (process_manager s))"

text \<open>The replies that end the termination of one process.\<close>

fun ends_termination :: "str \<Rightarrow> str \<Rightarrow> process_action \<Rightarrow> bool" where
  "ends_termination t p (BackgroundTerminalTerminated t' p' b) = (t' = t \<and> p' = p)"
| "ends_termination t p (BackgroundTerminalTerminateFailed t' p' m) = (t' = t \<and> p' = p)"
| "ends_termination t p (BackgroundTerminalsCleaned t') = (t' = t)"
| "ends_termination t p a = False"

abbreviation terminations :: "str \<Rightarrow> str \<Rightarrow> effect list \<Rightarrow> nat" where
  "terminations t p es \<equiv> length (filter (\<lambda>e. e = effect.TerminateBackgroundTerminal t p) es)"

lemma terminating_step:
  "terminating t p s \<Longrightarrow> \<not> ends_termination t p a \<Longrightarrow>
   terminating t p (fst (reduce_process s a)) \<and> terminations t p (snd (reduce_process s a)) = 0"
  by (cases a) (auto simp: terminating_def process_handler_defs Let_def list_ex_iff
      split: option.splits)

lemma terminating_run:
  "terminating t p s \<Longrightarrow> \<forall>a \<in> set as. \<not> ends_termination t p a \<Longrightarrow>
   terminations t p (snd (run reduce_process s as)) = 0"
proof (induction as arbitrary: s)
  case Nil
  then show ?case by simp
next
  case (Cons a as)
  then show ?case using terminating_step [of t p s a]
    by (simp add: run_Cons_snd del: run.simps)
qed

lemma termination_sent:
  "terminations t p (snd (reduce_process s a)) = 0
   \<or> terminations t p (snd (reduce_process s a)) = 1 \<and> terminating t p (fst (reduce_process s a))"
  by (cases a) (auto simp: terminating_def process_handler_defs Let_def list_ex_iff
      split: option.splits)

subsection \<open>Properties\<close>

text \<open>
  Until the app server answers, a process is asked to terminate at most once, whatever
  pages are loaded, other processes are stopped or the user repeats the request.
\<close>

theorem process_terminated_once:
  assumes "\<forall>a \<in> set as. \<not> ends_termination t p a"
  shows "terminations t p (snd (run reduce_process s as)) \<le> 1"
  using assms
proof (induction as arbitrary: s)
  case Nil
  then show ?case by simp
next
  case (Cons a as)
  have rest: "\<forall>a \<in> set as. \<not> ends_termination t p a" using Cons.prems by simp
  from termination_sent [of t p s a] show ?case
  proof
    assume "terminations t p (snd (reduce_process s a)) = 0"
    with Cons.IH [OF rest, of "fst (reduce_process s a)"] show ?thesis
      by (simp add: run_Cons_snd del: run.simps)
  next
    assume "terminations t p (snd (reduce_process s a)) = 1
      \<and> terminating t p (fst (reduce_process s a))"
    with terminating_run [OF _ rest, of "fst (reduce_process s a)"] show ?thesis
      by (simp add: run_Cons_snd del: run.simps)
  qed
qed

subsection \<open>Witnesses\<close>

definition demo_process :: background_terminal where
  "demo_process =
     \<lparr>bt_item_id = ''i'', bt_process_id = ''p'', bt_command = ''sleep'', bt_cwd = ''/w'',
      bt_os_pid = None, bt_cpu_percent = None, bt_rss_kb = None\<rparr>"

definition demo_processes :: app_state where
  "demo_processes = default_app_state\<lparr>selected_task_id := Some ''t'',
     process_manager := (manager_for ''t'')\<lparr>pg_terminals := [demo_process]\<rparr>\<rparr>"

theorem process_terminated_once_witness:
  "snd (run reduce_process demo_processes
     [process_action.TerminateBackgroundTerminal ''p'', process_action.TerminateBackgroundTerminal ''p''])
   = [effect.TerminateBackgroundTerminal ''t'' ''p'']"
proof -
  let ?as = "[process_action.TerminateBackgroundTerminal ''p'',
    process_action.TerminateBackgroundTerminal ''p'']"
  have "terminations ''t'' ''p'' (snd (run reduce_process demo_processes ?as)) \<le> 1"
    by (rule process_terminated_once) simp
  then show ?thesis
    by (simp add: demo_processes_def demo_process_def manager_for_def default_process_manager_def
        terminate_background_terminal_def Let_def)
qed

end
