(* ===== verification/Utf8.thy ===== *)
theory Utf8
  imports Bounded_Text
begin

text \<open>
  UTF-8 validity and \<open>String::from_utf8_lossy\<close> as Rust's standard library defines them, and the
  text bounds of the platform crate that look for a character boundary from the limit
  downwards: \<open>bounded_text\<close> (\<open>browser_agent.rs\<close>, \<open>browser.rs\<close>, \<open>computer_apps.rs\<close>,
  \<open>computer_use.rs\<close>) and \<open>push_bounded_text\<close> (\<open>git.rs\<close>). On valid text they agree with
  \<^const>\<open>bounded_string\<close>, which the core crate uses.
\<close>

subsection \<open>One character\<close>

abbreviation continuation :: "char \<Rightarrow> bool" where
  "continuation c \<equiv> 128 \<le> byte c \<and> byte c < 192"

text \<open>Which second bytes may follow a first byte: no overlong forms, no surrogates, no code
  point above U+10FFFF.\<close>

definition second_ok :: "char \<Rightarrow> char \<Rightarrow> bool" where
  "second_ok a b \<longleftrightarrow> continuation b
     \<and> (byte a = 224 \<longrightarrow> 160 \<le> byte b) \<and> (byte a = 237 \<longrightarrow> byte b < 160)
     \<and> (byte a = 240 \<longrightarrow> 144 \<le> byte b) \<and> (byte a = 244 \<longrightarrow> byte b < 144)"

text \<open>Whether a character starts the bytes, and its length or that of the invalid part.\<close>

fun utf8_step :: "str \<Rightarrow> bool \<times> nat" where
  "utf8_step [] = (False, 0)"
| "utf8_step (a # bs) =
     (if byte a < 128 then (True, 1)
      else if byte a < 194 \<or> byte a > 244 then (False, 1)
      else case bs of
             [] \<Rightarrow> (False, 1)
           | b # cs \<Rightarrow>
               if \<not> second_ok a b then (False, 1)
               else if byte a < 224 then (True, 2)
               else (case cs of
                       [] \<Rightarrow> (False, 2)
                     | c # ds \<Rightarrow>
                         if \<not> continuation c then (False, 2)
                         else if byte a < 240 then (True, 3)
                         else (case ds of
                                 [] \<Rightarrow> (False, 3)
                               | d # _ \<Rightarrow> if continuation d then (True, 4) else (False, 3))))"

lemma utf8_step_pos: "bs \<noteq> [] \<Longrightarrow> 0 < snd (utf8_step bs)"
  by (cases bs) (auto split: list.split)

lemma utf8_step_shorter: "bs \<noteq> [] \<Longrightarrow> (ok, n) = utf8_step bs \<Longrightarrow> length (drop n bs) < length bs"
  using utf8_step_pos [of bs] by (cases bs) (auto simp: prod_eq_iff simp del: utf8_step.simps)

function utf8_valid :: "str \<Rightarrow> bool" where
  "utf8_valid bs =
     (if bs = [] then True else let (ok, n) = utf8_step bs in ok \<and> utf8_valid (drop n bs))"
  by auto
termination
  by (relation "measure length") (simp, simp only: in_measure utf8_step_shorter not_False_eq_True)

declare utf8_valid.simps [simp del]

definition REPLACEMENT :: str where
  "REPLACEMENT = [CHR 0xEF, CHR 0xBF, CHR 0xBD]"

function from_utf8_lossy :: "str \<Rightarrow> str" where
  "from_utf8_lossy bs =
     (if bs = [] then []
      else let (ok, n) = utf8_step bs
           in (if ok then take n bs else REPLACEMENT) @ from_utf8_lossy (drop n bs))"
  by auto
termination
  by (relation "measure length") (simp, simp only: in_measure utf8_step_shorter not_False_eq_True)

declare from_utf8_lossy.simps [simp del]


subsection \<open>Valid text is a sequence of characters\<close>

text \<open>The lead byte is no continuation byte, the others are.\<close>

definition well_formed :: "str \<Rightarrow> bool" where
  "well_formed c \<longleftrightarrow> c \<noteq> [] \<and> \<not> continuation (hd c) \<and> list_all continuation (tl c)"

lemma utf8_stepD:
  assumes "utf8_step bs = (True, n)"
  shows "n \<le> length bs" and "n = utf8_width (hd bs)" and "well_formed (take n bs)"
    and "utf8_step (take n bs @ r) = (True, n)"
proof -
  obtain a as where bs: "bs = a # as" using assms by (cases bs) auto
  consider "byte a < 128" "n = 1"
    | b cs where "as = b # cs" "second_ok a b" "194 \<le> byte a" "byte a < 224" "n = 2"
    | b c ds where "as = b # c # ds" "second_ok a b" "continuation c" "224 \<le> byte a" "byte a < 240" "n = 3"
    | b c d es where "as = b # c # d # es" "second_ok a b" "continuation c" "continuation d"
        "240 \<le> byte a" "byte a \<le> 244" "n = 4"
    using assms unfolding bs
    by (simp only: utf8_step.simps split: if_splits list.splits; simp only: prod.inject simp_thms; linarith?)
      (metis linorder_not_less)+
  then show "n \<le> length bs" and "n = utf8_width (hd bs)" and "well_formed (take n bs)"
    and "utf8_step (take n bs @ r) = (True, n)"
    unfolding bs
    by (cases; simp add: utf8_width_def well_formed_def second_ok_def)+
qed


definition utf8_char :: "str \<Rightarrow> bool" where
  "utf8_char c \<longleftrightarrow> c \<noteq> [] \<and> utf8_step c = (True, length c)"

lemma utf8_char_step: "utf8_char c \<Longrightarrow> utf8_step (c @ r) = (True, length c)"
  using utf8_stepD(4) [of c "length c" r] by (simp add: utf8_char_def)

lemma utf8_char_width: "utf8_char c \<Longrightarrow> length c = utf8_width (hd c)"
  using utf8_stepD(2) [of c] by (simp add: utf8_char_def)

lemma utf8_char_wf: "utf8_char c \<Longrightarrow> well_formed c"
  using utf8_stepD(3) [of c "length c"] by (simp add: utf8_char_def)

lemma utf8_step_char: "utf8_step bs = (True, n) \<Longrightarrow> utf8_char (take n bs)"
proof -
  assume step: "utf8_step bs = (True, n)"
  then have "bs \<noteq> []" by auto
  with step have "0 < n" using utf8_step_pos [of bs] by simp
  with step \<open>bs \<noteq> []\<close> show ?thesis
    using utf8_stepD(1) [OF step] utf8_stepD(4) [OF step, of "[]"] by (simp add: utf8_char_def)
qed

lemma chars_Cons_char: "utf8_char c \<Longrightarrow> chars (c @ r) = c # chars r"
  using utf8_char_width [of c] by (cases c) (auto simp: utf8_char_def)

lemma valid_chars: "utf8_valid bs \<Longrightarrow> \<forall>c \<in> set (chars bs). utf8_char c"
proof (induction bs rule: utf8_valid.induct)
  case (1 bs)
  show ?case
  proof (cases "bs = []")
    case True
    then show ?thesis by simp
  next
    case False
    with 1(2) obtain n where n: "utf8_step bs = (True, n)" "utf8_valid (drop n bs)"
      by (subst (asm) utf8_valid.simps) (auto split: prod.splits)
    have "chars bs = take n bs # chars (drop n bs)"
      using chars_Cons_char [OF utf8_step_char [OF n(1)], of "drop n bs"] by simp
    with 1(1) [OF False] n utf8_step_char [OF n(1)] show ?thesis by simp
  qed
qed

lemma chars_valid:
  "\<forall>c \<in> set cs. utf8_char c \<Longrightarrow> utf8_valid (concat cs) \<and> chars (concat cs) = cs"
proof (induction cs)
  case Nil
  then show ?case by (simp add: utf8_valid.simps)
next
  case (Cons c cs)
  then have c: "utf8_char c" by simp
  have "utf8_valid (c @ concat cs)"
    using Cons utf8_char_step [OF c] by (subst utf8_valid.simps) simp
  with Cons chars_Cons_char [OF c] show ?case by simp
qed

lemma utf8_valid_iff: "utf8_valid bs \<longleftrightarrow> (\<forall>c \<in> set (chars bs). utf8_char c)"
  using valid_chars chars_valid [of "chars bs"] by auto

lemma valid_append:
  assumes "utf8_valid a" and "utf8_valid b"
  shows "utf8_valid (a @ b)" and "chars (a @ b) = chars a @ chars b"
proof -
  have "\<forall>c \<in> set (chars a @ chars b). utf8_char c" using assms by (auto simp: utf8_valid_iff)
  from chars_valid [OF this] show "utf8_valid (a @ b)" "chars (a @ b) = chars a @ chars b"
    by simp_all
qed

lemma valid_concat:
  "\<forall>v \<in> set vs. utf8_valid v \<Longrightarrow> utf8_valid (concat vs) \<and> chars (concat vs) = concat (map chars vs)"
  by (induction vs) (auto simp: valid_append, simp add: utf8_valid.simps)

lemma ascii_valid: "list_all (\<lambda>c. byte c < 128) s \<Longrightarrow> utf8_valid s"
proof -
  assume ascii: "list_all (\<lambda>c. byte c < 128) s"
  have "concat (map (\<lambda>c. [c]) s) = s" by (induction s) simp_all
  moreover have "\<forall>c \<in> set (map (\<lambda>c. [c]) s). utf8_char c"
    using ascii by (simp add: utf8_char_def list_all_iff)
  ultimately show ?thesis using chars_valid by metis
qed

subsection \<open>Lossy decoding\<close>

lemma replacement_char: "utf8_char REPLACEMENT"
  by (simp add: utf8_char_def REPLACEMENT_def second_ok_def)

lemma lossy_valid: "utf8_valid (from_utf8_lossy bs)"
proof (induction bs rule: from_utf8_lossy.induct)
  case (1 bs)
  show ?case
  proof (cases "bs = []")
    case True
    then show ?thesis by (simp add: from_utf8_lossy.simps utf8_valid.simps)
  next
    case False
    obtain ok n where n: "utf8_step bs = (ok, n)" by fastforce
    have "utf8_char (if ok then take n bs else REPLACEMENT)"
      using n utf8_step_char replacement_char by simp
    then have "utf8_valid (if ok then take n bs else REPLACEMENT)"
      using chars_valid [of "[if ok then take n bs else REPLACEMENT]"] by simp
    moreover have "utf8_valid (from_utf8_lossy (drop n bs))" using 1 [OF False] n by simp
    ultimately have "utf8_valid ((if ok then take n bs else REPLACEMENT) @ from_utf8_lossy (drop n bs))"
      by (rule valid_append)
    then show ?thesis using False n by (subst from_utf8_lossy.simps) simp
  qed
qed

lemma lossy_id: "utf8_valid bs \<Longrightarrow> from_utf8_lossy bs = bs"
proof (induction bs rule: utf8_valid.induct)
  case (1 bs)
  show ?case
  proof (cases "bs = []")
    case True
    then show ?thesis by (simp add: from_utf8_lossy.simps)
  next
    case False
    with 1(2) obtain n where n: "utf8_step bs = (True, n)" "utf8_valid (drop n bs)"
      by (subst (asm) utf8_valid.simps) (auto split: prod.splits)
    with 1(1) [OF False] False show ?thesis by (subst from_utf8_lossy.simps) simp
  qed
qed


subsection \<open>Character boundaries\<close>

lemma continuation_nth:
  assumes "well_formed c" and "0 < i" and "i < length c"
  shows "continuation (c ! i)"
proof -
  have "c ! i = tl c ! (i - 1)" "i - 1 < length (tl c)"
    using assms by (simp_all add: nth_tl)
  then show ?thesis using assms(1) by (simp add: well_formed_def list_all_length)
qed

lemma boundary_concat:
  assumes "\<forall>c \<in> set cs. well_formed c"
  shows "i \<le> length (concat cs) \<Longrightarrow>
    is_char_boundary (concat cs) i \<longleftrightarrow> (\<exists>j. i = length (concat (take j cs)))"
  using assms
proof (induction cs arbitrary: i)
  case Nil
  then show ?case by (simp add: is_char_boundary_def)
next
  case (Cons c cs)
  have c: "well_formed c" using Cons.prems by simp
  have ne: "c \<noteq> []" using c by (simp add: well_formed_def)
  consider "i = 0" | "0 < i" "i < length c" | "length c \<le> i" by linarith
  then show ?case
  proof cases
    case 1
    then show ?thesis by (auto simp: is_char_boundary_def intro: exI [of _ 0])
  next
    case 2
    then have "\<not> is_char_boundary (concat (c # cs)) i"
      using continuation_nth [OF c] by (auto simp: is_char_boundary_def nth_append)
    moreover have "i \<noteq> length (concat (take j (c # cs)))" for j
      using 2 by (cases j) auto
    ultimately show ?thesis by blast
  next
    case 3
    then obtain k where k: "i = length c + k" by (metis le_add_diff_inverse)
    have "is_char_boundary (concat (c # cs)) i \<longleftrightarrow> is_char_boundary (concat cs) k"
    proof (cases "k < length (concat cs)")
      case True
      have "\<not> continuation (concat cs ! 0)"
      proof -
        obtain d ds where "concat cs = d @ ds" "well_formed d"
          using True Cons.prems by (cases cs) auto
        then show ?thesis by (cases d) (auto simp: well_formed_def)
      qed
      with True ne k show ?thesis by (auto simp: is_char_boundary_def nth_append)
    next
      case False
      with k Cons.prems(1) show ?thesis by (auto simp: is_char_boundary_def)
    qed
    also have "\<dots> \<longleftrightarrow> (\<exists>j. k = length (concat (take j cs)))"
      using Cons.IH [of k] Cons.prems k by simp
    also have "\<dots> \<longleftrightarrow> (\<exists>j. i = length (concat (take j (c # cs))))"
    proof
      assume "\<exists>j. k = length (concat (take j cs))"
      then obtain j where "k = length (concat (take j cs))" ..
      then have "i = length (concat (take (Suc j) (c # cs)))" using k by simp
      then show "\<exists>j. i = length (concat (take j (c # cs)))" ..
    next
      assume "\<exists>j. i = length (concat (take j (c # cs)))"
      then obtain j where j: "i = length (concat (take j (c # cs)))" ..
      with k ne obtain m where "j = Suc m" by (cases j) auto
      with j k show "\<exists>j. k = length (concat (take j cs))" by auto
    qed
    finally show ?thesis .
  qed
qed

lemma valid_boundary:
  assumes "utf8_valid s" and "i \<le> length s"
  shows "is_char_boundary s i \<longleftrightarrow> (\<exists>j. i = length (concat (take j (chars s))))"
  using boundary_concat [of "chars s" i] assms utf8_char_wf by (auto simp: utf8_valid_iff)

subsection \<open>The bounds of the platform crate\<close>

text \<open>\<open>while !value.is_char_boundary(end) { end -= 1 }\<close>; zero is always a boundary.\<close>

fun boundary_below :: "str \<Rightarrow> nat \<Rightarrow> nat" where
  "boundary_below value 0 = 0"
| "boundary_below value (Suc n) =
     (if is_char_boundary value (Suc n) then Suc n else boundary_below value n)"

definition bounded_text :: "str \<Rightarrow> nat \<Rightarrow> str" where
  "bounded_text value max_bytes =
     (if length value \<le> max_bytes then value else take (boundary_below value max_bytes) value)"

text \<open>The output and the flag after one push.\<close>

definition push_bounded_text :: "str \<Rightarrow> nat \<Rightarrow> str \<times> bool \<Rightarrow> str \<times> bool" where
  "push_bounded_text value limit state =
     (let (output, truncated) = state
      in if truncated then (output, truncated)
         else let remaining = limit - length output
              in if length value \<le> remaining then (output @ value, truncated)
                 else (output @ take (boundary_below value (min remaining (length value))) value, True))"

lemma boundary_below_fit:
  assumes "utf8_valid s" and "n < length s"
  shows "boundary_below s n = length (concat (fit n (chars s)))"
proof -
  let ?e = "length (concat (fit n (chars s)))"
  obtain k where k: "fit n (chars s) = take k (chars s)" using fit_prefix by blast
  have le: "?e \<le> n" by (rule fit_length)
  have "boundary_below s m = ?e" if "?e \<le> m" "m \<le> n" for m
    using that
  proof (induction m)
    case 0
    then show ?case by simp
  next
    case (Suc m)
    show ?case
    proof (cases "?e = Suc m")
      case True
      have "is_char_boundary s ?e"
        using valid_boundary [OF assms(1), of ?e] k le assms(2) by auto
      then show ?thesis unfolding True by simp
    next
      case False
      have "\<not> is_char_boundary s (Suc m)"
      proof
        assume "is_char_boundary s (Suc m)"
        then obtain j where j: "Suc m = length (concat (take j (chars s)))"
          using valid_boundary [OF assms(1), of "Suc m"] Suc.prems assms(2) by auto
        with Suc.prems have "length (concat (take j (chars s))) \<le> n" by simp
        from fit_maximal [OF this] j Suc.prems False show False by simp
      qed
      with Suc False show ?thesis by simp
    qed
  qed
  with le show ?thesis by blast
qed

lemma bounded_text_bounded_string: "utf8_valid s \<Longrightarrow> bounded_text s n = bounded_string s n"
  by (simp add: bounded_text_def bounded_string_def boundary_below_fit last_boundary_fit)


lemma fit_append:
  "fit n (cs @ ds) =
     (if length (concat cs) \<le> n then cs @ fit (n - length (concat cs)) ds else fit n cs)"
  by (induction cs arbitrary: n) auto

lemma pushes_step:
  assumes "utf8_valid a" and "utf8_valid v"
  shows "push_bounded_text v limit (bounded_string a limit, limit < length a)
    = (bounded_string (a @ v) limit, limit < length (a @ v))"
proof (cases "limit < length a")
  case True
  then show ?thesis
    using valid_append [OF assms]
    by (simp add: push_bounded_text_def bounded_string_fit fit_append)
next
  case False
  then have a: "bounded_string a limit = a" by (simp add: bounded_string_id)
  show ?thesis
  proof (cases "length v \<le> limit - length a")
    case True
    with False show ?thesis by (simp add: push_bounded_text_def a bounded_string_id)
  next
    case cut: False
    then have "boundary_below v (min (limit - length a) (length v))
        = length (concat (fit (limit - length a) (chars v)))"
      using boundary_below_fit [OF assms(2), of "limit - length a"] by (simp add: min_def)
    with False cut show ?thesis
      using valid_append(2) [OF assms]
      by (simp add: push_bounded_text_def a take_concat_fit) (simp add: bounded_string_fit fit_append)
  qed
qed

text \<open>A one-byte character is followed by a boundary.\<close>

lemma ascii_boundary:
  assumes "utf8_valid s" and "Suc i < length s" and "byte (s ! i) < 128"
  shows "is_char_boundary s (Suc i)"
proof -
  have tail: "128 \<le> byte (c ! k)" if "utf8_char c" "Suc k < length c" for c k
  proof (cases k)
    case 0
    with that utf8_char_width [OF that(1)] show ?thesis
      by (cases c) (auto simp: utf8_width_def split: if_splits)
  next
    case (Suc m)
    with that continuation_nth [OF utf8_char_wf [OF that(1)], of k] show ?thesis by simp
  qed
  have "is_char_boundary (concat cs) (Suc i)"
    if "\<forall>c \<in> set cs. utf8_char c" "Suc i < length (concat cs)" "byte (concat cs ! i) < 128" for cs
    using that
  proof (induction cs arbitrary: i)
    case Nil
    then show ?case by simp
  next
    case (Cons c cs)
    have c: "utf8_char c" and cs: "\<forall>d \<in> set cs. well_formed d"
      using Cons.prems(1) utf8_char_wf by auto
    have wf: "\<forall>d \<in> set (c # cs). well_formed d" using utf8_char_wf [OF c] cs by simp
    consider "Suc i < length c" | "Suc i = length c" | k where "i = length c + k"
      by (metis le_add_diff_inverse not_less_eq linorder_neqE_nat not_less)
    then show ?case
    proof cases
      case 1
      with tail [OF c, of i] Cons.prems(3) show ?thesis by (simp add: nth_append)
    next
      case 2
      then have "Suc i = length (concat (take 1 (c # cs)))" by simp
      then show ?thesis
        using boundary_concat [OF wf, of "Suc i"] Cons.prems(2) by fastforce
    next
      case (3 k)
      with Cons.prems have "is_char_boundary (concat cs) (Suc k)" by (intro Cons.IH) (auto simp: nth_append)
      then obtain j where j: "Suc k = length (concat (take j cs))"
        using boundary_concat [OF cs, of "Suc k"] Cons.prems(2) 3 by auto
      then have "Suc i = length (concat (take (Suc j) (c # cs)))" using 3 by simp
      then show ?thesis
        using boundary_concat [OF wf, of "Suc i"] Cons.prems(2) by fastforce
    qed
  qed
  from this [of "chars s"] assms show ?thesis by (simp add: utf8_valid_iff)
qed

subsection \<open>Properties\<close>

text \<open>
  On valid text the platform crate's bound, which searches a boundary downwards from the
  limit, returns what the core crate's bound returns, the longest prefix of whole characters that
  fits; the result is valid again.
\<close>

theorem text_bounds_agree:
  assumes "utf8_valid s"
  shows "bounded_text s n = bounded_string s n
    \<and> bounded_text s n = concat (fit n (chars s)) \<and> utf8_valid (bounded_text s n)"
proof -
  obtain k where k: "fit n (chars s) = take k (chars s)" using fit_prefix by blast
  have "\<forall>c \<in> set (fit n (chars s)). utf8_char c"
    unfolding k using assms by (auto simp: utf8_valid_iff dest: in_set_takeD)
  then have "utf8_valid (concat (fit n (chars s)))" using chars_valid by blast
  then show ?thesis using assms by (simp add: bounded_text_bounded_string bounded_string_fit)
qed

text \<open>
  Pushing valid texts one after another collects the longest prefix of whole characters of
  their concatenation that fits the limit, and sets the flag exactly when something is missing.
\<close>

theorem pushes_collect_prefix:
  assumes "\<forall>v \<in> set vs. utf8_valid v"
  shows "fold (\<lambda>v. push_bounded_text v limit) vs ([], False)
    = (bounded_string (concat vs) limit, limit < length (concat vs))"
  using assms
proof (induction vs rule: rev_induct)
  case Nil
  then show ?case by (simp add: bounded_string_id)
next
  case (snoc v vs)
  then have "utf8_valid (concat vs)" using valid_concat by auto
  with snoc show ?case by (simp add: pushes_step)
qed

text \<open>
  Lossy decoding always gives valid text, and gives valid text back unchanged.
\<close>

theorem lossy_decoding:
  "utf8_valid (from_utf8_lossy bs) \<and> (from_utf8_lossy bs = bs \<longleftrightarrow> utf8_valid bs)"
  using lossy_valid [of bs] lossy_id [of bs] by metis

subsection \<open>Witnesses\<close>

lemma utf8_example: "utf8_valid (''a'' @ ellipsis)"
  by (simp add: utf8_valid.simps ellipsis_def second_ok_def)

theorem text_bounds_agree_witness: "bounded_text (''a'' @ ellipsis) 3 = ''a''"
  using text_bounds_agree [OF utf8_example, of 3]
  by (simp add: bounded_string_fit ellipsis_def utf8_width_def)

theorem pushes_collect_prefix_witness:
  "fold (\<lambda>v. push_bounded_text v 6) [''a'' @ ellipsis, ''a'' @ ellipsis] ([], False)
   = (''a'' @ ellipsis @ ''a'', True)"
proof -
  have "\<forall>v \<in> set [''a'' @ ellipsis, ''a'' @ ellipsis]. utf8_valid v" by (simp only: list.set utf8_example) (use utf8_example in simp)
  from pushes_collect_prefix [OF this, of 6] show ?thesis
    by (simp add: bounded_string_fit ellipsis_def utf8_width_def)
qed

end
