(* ===== verification/Dates.thy ===== *)
theory Dates
  imports Utf8
begin

text \<open>
  The three date checks of \<open>crates/codex-core/src/lib.rs\<close>: the dates of the account's daily
  usage (\<open>is_valid_account_daily_usage_date\<close>) and the date and date-time answers of an MCP
  form (\<open>valid_iso_date\<close>, \<open>valid_rfc3339_datetime\<close>), against the calendar. The arithmetic on
  digits stays far below its \<open>u8\<close> and \<open>u16\<close> widths and is done on naturals; a slice that
  would panic is \<open>None\<close>.
\<close>

subsection \<open>The code\<close>

definition digit_of :: "str \<Rightarrow> nat \<Rightarrow> nat" where
  "digit_of v i = byte (v ! i) - 48"

text \<open>The \<open>match month\<close> of both date checks.\<close>

definition days_in_month :: "bool \<Rightarrow> nat \<Rightarrow> nat option" where
  "days_in_month leap month =
     (if month \<in> {1, 3, 5, 7, 8, 10, 12} then Some 31
      else if month \<in> {4, 6, 9, 11} then Some 30
      else if month = 2 then Some (if leap then 29 else 28)
      else None)"

definition is_valid_account_daily_usage_date :: "str \<Rightarrow> bool" where
  "is_valid_account_daily_usage_date v =
     (if length v \<noteq> 10 \<or> v ! 4 \<noteq> CHR ''-'' \<or> v ! 7 \<noteq> CHR ''-'' then False
      else if list_ex (\<lambda>i. i \<noteq> 4 \<and> i \<noteq> 7 \<and> \<not> is_ascii_digit (v ! i)) [0..<10] then False
      else let year = digit_of v 0 * 1000 + digit_of v 1 * 100 + digit_of v 2 * 10 + digit_of v 3;
               month = digit_of v 5 * 10 + digit_of v 6;
               day = digit_of v 8 * 10 + digit_of v 9
           in case days_in_month (year mod 400 = 0 \<or> (year mod 4 = 0 \<and> year mod 100 \<noteq> 0)) month of
                None \<Rightarrow> False
              | Some days \<Rightarrow> year > 0 \<and> day > 0 \<and> day \<le> days)"

text \<open>\<open>value.get(a..b).and_then(|value| value.parse::<u32>().ok())\<close>.\<close>

definition number_at :: "str \<Rightarrow> nat \<Rightarrow> nat \<Rightarrow> nat option" where
  "number_at v a b = Option.bind (str_get v a b) parse_u32"

definition valid_iso_date :: "str \<Rightarrow> bool" where
  "valid_iso_date v =
     (if length v \<noteq> 10 \<or> byte_at v 4 \<noteq> Some (CHR ''-'') \<or> byte_at v 7 \<noteq> Some (CHR ''-'') then False
      else case (number_at v 0 4, number_at v 5 7, number_at v 8 10) of
             (Some year, Some month, Some day) \<Rightarrow>
               (case days_in_month (4 dvd year \<and> (\<not> 100 dvd year \<or> 400 dvd year)) month of
                  None \<Rightarrow> False
                | Some maximum \<Rightarrow> 1 \<le> day \<and> day \<le> maximum)
           | _ \<Rightarrow> False)"

text \<open>\<open>&value[i..]\<close> and \<open>&value[..i]\<close>, which panic off a character boundary.\<close>

definition slice_from :: "str \<Rightarrow> nat \<Rightarrow> str option" where
  "slice_from v i = str_get v i (length v)"

definition slice_to :: "str \<Rightarrow> nat \<Rightarrow> str option" where
  "slice_to v i = str_get v 0 i"

definition find_sign :: "str \<Rightarrow> nat option" where
  "find_sign suffix =
     map_option fst (find (\<lambda>(i, c). c = ''+'' \<or> c = ''-'')
       (zip (char_offsets 0 (chars suffix)) (chars suffix)))"

definition all_digits :: "str \<Rightarrow> bool" where
  "all_digits v = list_all (\<lambda>c. length c = 1 \<and> is_ascii_digit (hd c)) (chars v)"

text \<open>The optional fraction before the offset: \<open>None\<close> when \<open>fraction[1..]\<close> panics.\<close>

definition fraction_ok :: "str \<Rightarrow> bool option" where
  "fraction_ok fraction =
     (if fraction = [] then Some True
      else if hd fraction \<noteq> CHR ''.'' then Some False
      else if length fraction = 1 then Some False
      else map_option all_digits (slice_from fraction 1))"

definition timezone_ok :: "str \<Rightarrow> bool" where
  "timezone_ok timezone \<longleftrightarrow>
     length timezone = 6 \<and> byte_at timezone 3 = Some (CHR '':'')
     \<and> (case number_at timezone 1 3 of None \<Rightarrow> False | Some hour \<Rightarrow> hour \<le> 23)
     \<and> (case number_at timezone 4 6 of None \<Rightarrow> False | Some minute \<Rightarrow> minute \<le> 59)"

definition valid_rfc3339_datetime :: "str \<Rightarrow> bool option" where
  "valid_rfc3339_datetime v =
     (if length v < 20
         \<or> \<not> valid_iso_date (case str_get v 0 10 of None \<Rightarrow> [] | Some d \<Rightarrow> d) then Some False
      else if (byte_at v 10 \<noteq> Some (CHR ''T'') \<and> byte_at v 10 \<noteq> Some (CHR ''t''))
              \<or> byte_at v 13 \<noteq> Some (CHR '':'') \<or> byte_at v 16 \<noteq> Some (CHR '':'') then Some False
      else case (number_at v 11 13, number_at v 14 16, number_at v 17 19) of
             (Some hour, Some minute, Some second) \<Rightarrow>
               if \<not> (hour \<le> 23 \<and> minute \<le> 59 \<and> second \<le> 59) then Some False
               else Option.bind (slice_from v 19) (\<lambda>suffix.
                 if suffix = ''Z'' \<or> suffix = ''z'' then Some True
                 else case find_sign suffix of
                        None \<Rightarrow> Some False
                      | Some timezone_start \<Rightarrow>
                          Option.bind (slice_to suffix timezone_start) (\<lambda>fraction.
                          Option.bind (fraction_ok fraction) (\<lambda>ok.
                            if \<not> ok then Some False
                            else map_option timezone_ok (slice_from suffix timezone_start))))
           | _ \<Rightarrow> Some False)"

subsection \<open>The calendar\<close>

definition leap_year :: "nat \<Rightarrow> bool" where
  "leap_year y \<longleftrightarrow> 4 dvd y \<and> (100 dvd y \<longrightarrow> 400 dvd y)"

definition calendar_date :: "nat \<Rightarrow> nat \<Rightarrow> nat \<Rightarrow> bool" where
  "calendar_date y m d \<longleftrightarrow>
     1 \<le> m \<and> m \<le> 12 \<and> 1 \<le> d
     \<and> d \<le> [31, if leap_year y then 29 else 28, 31, 30, 31, 30, 31, 31, 30, 31, 30, 31] ! (m - 1)"

definition digit :: "nat \<Rightarrow> char" where
  "digit n = char_of (48 + n mod 10)"

definition iso_date :: "nat \<Rightarrow> nat \<Rightarrow> nat \<Rightarrow> str" where
  "iso_date y m d =
     [digit (y div 1000), digit (y div 100), digit (y div 10), digit y, CHR ''-'',
      digit (m div 10), digit m, CHR ''-'', digit (d div 10), digit d]"

lemma byte_digit [simp]: "byte (digit n) = 48 + n mod 10"
proof -
  have "48 + n mod 10 < 256" by (rule less_le_trans [of _ "48 + 10"]) simp_all
  then show ?thesis by (simp add: digit_def)
qed

lemma digit_is_digit [simp]: "is_ascii_digit (digit n)"
proof -
  have "n mod 10 \<le> 9" by (rule less_Suc_eq_le [THEN iffD1]) simp
  then show ?thesis by (simp add: is_ascii_digit_def)
qed

lemma digit_ascii: "\<not> 128 \<le> byte (digit n)"
proof -
  have "n mod 10 < 10" by simp
  then show ?thesis unfolding byte_digit by linarith
qed

lemma digit_not_sign [simp]: "digit n \<noteq> CHR ''+''"
proof
  assume "digit n = CHR ''+''"
  then have "byte (digit n) = byte (CHR ''+'')" by (rule arg_cong)
  then show False by simp
qed

lemma two_digits: "n < 100 \<Longrightarrow> (n div 10 mod 10) * 10 + n mod 10 = (n :: nat)"
proof -
  assume "n < 100"
  then have "n div 10 < 10" by (simp add: div_less_iff_less_mult)
  then show ?thesis by (simp add: div_mult_mod_eq)
qed

lemma four_digits:
  fixes n :: nat
  assumes "n < 10000"
  shows "(n div 1000 mod 10) * 1000 + (n div 100 mod 10) * 100 + (n div 10 mod 10) * 10 + n mod 10 = n"
proof -
  have "n div 1000 < 10" using assms by (simp add: div_less_iff_less_mult)
  then have 1: "n div 1000 mod 10 = n div 1000" by simp
  have 2: "n div 100 div 10 = n div 1000" "n div 10 div 10 = n div 100"
    by (simp_all add: div_mult2_eq [symmetric])
  have "n = n div 10 * 10 + n mod 10" "n div 10 = n div 10 div 10 * 10 + n div 10 mod 10"
    and "n div 100 = n div 100 div 10 * 10 + n div 100 mod 10"
    by (simp_all only: div_mult_mod_eq)
  with 1 2 show ?thesis by linarith
qed

lemma days_in_month_calendar:
  "(case days_in_month (leap_year y) m of None \<Rightarrow> False | Some days \<Rightarrow> 1 \<le> d \<and> d \<le> days)
   \<longleftrightarrow> calendar_date y m d"
proof (cases "1 \<le> m \<and> m \<le> 12")
  case True
  then have "m = 1 \<or> m = 2 \<or> m = 3 \<or> m = 4 \<or> m = 5 \<or> m = 6 \<or> m = 7 \<or> m = 8 \<or> m = 9 \<or> m = 10
      \<or> m = 11 \<or> m = 12" by arith
  then show ?thesis by (elim disjE) (auto simp: days_in_month_def calendar_date_def)
next
  case False
  then have "m = 0 \<or> 12 < m" by arith
  then have "days_in_month (leap_year y) m = None" unfolding days_in_month_def by (elim disjE) simp_all
  moreover have "\<not> calendar_date y m d" unfolding calendar_date_def using False by blast
  ultimately show ?thesis by simp
qed

lemma leap_year_mod:
  fixes y :: nat
  shows "(y mod 400 = 0 \<or> (y mod 4 = 0 \<and> y mod 100 \<noteq> 0)) \<longleftrightarrow> leap_year y"
proof -
  have "400 dvd y \<Longrightarrow> 4 dvd y" by (rule dvd_trans [of 4 400]) simp_all
  then show ?thesis unfolding leap_year_def dvd_eq_mod_eq_0 by metis
qed

lemma leap_year_dvd: "(4 dvd y \<and> (\<not> 100 dvd y \<or> 400 dvd y)) \<longleftrightarrow> leap_year y"
  by (auto simp: leap_year_def)

subsection \<open>The checks agree with the calendar\<close>

lemma usage_date_iso:
  assumes "y < 10000" and "m < 100" and "d < 100"
  shows "is_valid_account_daily_usage_date (iso_date y m d) \<longleftrightarrow> 0 < y \<and> calendar_date y m d"
proof -
  have digits: "\<not> list_ex (\<lambda>i. i \<noteq> 4 \<and> i \<noteq> 7 \<and> \<not> is_ascii_digit (iso_date y m d ! i)) [0..<10]"
    by (simp add: iso_date_def upt_rec)
  have numbers: "digit_of (iso_date y m d) 0 * 1000 + digit_of (iso_date y m d) 1 * 100
        + digit_of (iso_date y m d) 2 * 10 + digit_of (iso_date y m d) 3 = y"
    "digit_of (iso_date y m d) 5 * 10 + digit_of (iso_date y m d) 6 = m"
    "digit_of (iso_date y m d) 8 * 10 + digit_of (iso_date y m d) 9 = d"
    using four_digits [OF assms(1)] two_digits [OF assms(2)] two_digits [OF assms(3)]
    by (simp_all add: digit_of_def iso_date_def)
  have shape: "length (iso_date y m d) = 10" "iso_date y m d ! 4 = CHR ''-''"
    "iso_date y m d ! 7 = CHR ''-''"
    by (simp_all add: iso_date_def)
  show ?thesis
    unfolding is_valid_account_daily_usage_date_def Let_def numbers leap_year_mod
      days_in_month_calendar [symmetric]
    using digits shape by (auto split: option.split)
qed

lemma boundary_before_digit: "is_ascii_digit (v ! i) \<Longrightarrow> i < length v \<Longrightarrow> is_char_boundary v i"
  by (auto simp: is_char_boundary_def is_ascii_digit_def)

lemma boundary_before_dash: "v ! i = CHR ''-'' \<Longrightarrow> i < length v \<Longrightarrow> is_char_boundary v i"
  by (auto simp: is_char_boundary_def)

lemma digit_eq: "is_ascii_digit c \<Longrightarrow> digit (byte c - 48) = c"
proof -
  assume c: "is_ascii_digit c"
  then have "(byte c - 48) mod 10 = byte c - 48" by (auto simp: is_ascii_digit_def)
  with c show ?thesis by (simp add: digit_def is_ascii_digit_def)
qed

lemma digit_horner: "b < 10 \<Longrightarrow> (a * 10 + b) div 10 = a \<and> digit (a * 10 + b) = digit b"
  by (simp add: digit_def)

lemma digit_below: "is_ascii_digit c \<Longrightarrow> byte c - 48 < 10"
  by (auto simp: is_ascii_digit_def)

lemma below_100: "x < 10 \<Longrightarrow> y < 10 \<Longrightarrow> x * 10 + y < (100 :: nat)"
  by simp

lemma below_10000:
  "x < 10 \<Longrightarrow> y < 10 \<Longrightarrow> z < 10 \<Longrightarrow> w < 10 \<Longrightarrow> ((x * 10 + y) * 10 + z) * 10 + w < (10000 :: nat)"
  by simp

lemma iso_date_cover:
  assumes len: "length v = 10" and dash: "v ! 4 = CHR ''-''" "v ! 7 = CHR ''-''"
    and digits: "\<forall>i < 10. i \<noteq> 4 \<and> i \<noteq> 7 \<longrightarrow> is_ascii_digit (v ! i)"
  shows "\<exists>y m d. y < 10000 \<and> m < 100 \<and> d < 100 \<and> v = iso_date y m d"
proof -
  define a :: "nat \<Rightarrow> nat" where "a i = byte (v ! i) - 48" for i
  have lt: "a i < 10" and eq: "digit (a i) = v ! i" if "i < 10" "i \<noteq> 4" "i \<noteq> 7" for i
    using digits that by (simp_all add: a_def digit_eq digit_below)
  let ?y = "((a 0 * 10 + a 1) * 10 + a 2) * 10 + a 3"
  let ?m = "a 5 * 10 + a 6" and ?d = "a 8 * 10 + a 9"
  have y: "?y div 10 = (a 0 * 10 + a 1) * 10 + a 2" "((a 0 * 10 + a 1) * 10 + a 2) div 10 = a 0 * 10 + a 1"
    "(a 0 * 10 + a 1) div 10 = a 0"
    using lt [of 1] lt [of 2] lt [of 3] by (simp_all only: digit_horner)
  have div: "?y div 100 = ?y div 10 div 10" "?y div 1000 = ?y div 10 div 10 div 10"
    by (simp_all only: div_mult2_eq [symmetric]) simp_all
  have low: "digit ?y = digit (a 3)" "digit ((a 0 * 10 + a 1) * 10 + a 2) = digit (a 2)"
    "digit (a 0 * 10 + a 1) = digit (a 1)" "digit ?m = digit (a 6)" "digit ?d = digit (a 9)"
    using lt [of 1] lt [of 2] lt [of 3] lt [of 6] lt [of 9] by (simp_all only: digit_horner)
  have high: "?m div 10 = a 5" "?d div 10 = a 8"
    using lt [of 6] lt [of 9] by (simp_all only: digit_horner)
  have "iso_date ?y ?m ?d = [v ! 0, v ! 1, v ! 2, v ! 3, v ! 4, v ! 5, v ! 6, v ! 7, v ! 8, v ! 9]"
    unfolding iso_date_def div y low high dash by (simp add: eq)
  also have "\<dots> = v"
    using len by (intro nth_equalityI) (auto simp: less_Suc_eq numeral_eq_Suc)
  finally have "v = iso_date ?y ?m ?d" by (rule sym)
  moreover have "?y < 10000" "?m < 100" "?d < 100"
  proof -
    have "a 0 < 10" "a 1 < 10" "a 2 < 10" "a 3 < 10" "a 5 < 10" "a 6 < 10" "a 8 < 10" "a 9 < 10"
      by (simp_all add: lt)
    then show "?y < 10000" "?m < 100" "?d < 100" by (simp_all only: below_10000 below_100)
  qed
  ultimately show ?thesis by blast
qed

lemma iso_date_parts:
  "str_get (iso_date y m d) 0 4 = Some [digit (y div 1000), digit (y div 100), digit (y div 10), digit y]"
  "str_get (iso_date y m d) 5 7 = Some [digit (m div 10), digit m]"
  "str_get (iso_date y m d) 8 10 = Some [digit (d div 10), digit d]"
proof -
  let ?v = "iso_date y m d"
  have len: "length ?v = 10" by (simp add: iso_date_def)
  have "is_char_boundary ?v i" if "i \<in> {0, 4, 5, 7, 8, 10}" for i
  proof -
    have "?v ! 4 = CHR ''-''" "?v ! 5 = digit (m div 10)" "?v ! 7 = CHR ''-''" "?v ! 8 = digit (d div 10)"
      by (simp_all add: iso_date_def)
    with that digit_ascii show ?thesis unfolding is_char_boundary_def len by auto
  qed
  then show "str_get ?v 0 4 = Some [digit (y div 1000), digit (y div 100), digit (y div 10), digit y]"
    "str_get ?v 5 7 = Some [digit (m div 10), digit m]"
    "str_get ?v 8 10 = Some [digit (d div 10), digit d]"
    by (simp_all add: str_get_def len) (simp_all add: iso_date_def)
qed

lemma parse_u32_digit:
  "parse_u32 (digit n # ds) = parse_digits_u32 (digit n # ds)"
  by (simp add: parse_u32_def)

lemma iso_date_numbers:
  assumes "y < 10000" and "m < 100" and "d < 100"
  shows "number_at (iso_date y m d) 0 4 = Some y" "number_at (iso_date y m d) 5 7 = Some m"
    "number_at (iso_date y m d) 8 10 = Some d"
proof -
  have horner: "10 * (10 * (10 * (10 * 0 + (48 + a - 48)) + (48 + b - 48)) + (48 + c - 48)) + (48 + e - 48)
      = a * 1000 + b * 100 + c * 10 + e" for a b c e :: nat
    by simp
  have vy: "digits_value [digit (y div 1000), digit (y div 100), digit (y div 10), digit y] = y"
    unfolding digits_value_def foldl.simps byte_digit horner by (rule four_digits [OF assms(1)])
  have horner2: "10 * (10 * 0 + (48 + a - 48)) + (48 + b - 48) = a * 10 + b" for a b :: nat
    by simp
  have v2: "digits_value [digit (n div 10), digit n] = n" if "n < 100" for n
    unfolding digits_value_def foldl.simps byte_digit horner2 by (rule two_digits [OF that])
  show "number_at (iso_date y m d) 0 4 = Some y"
    using assms(1) by (simp add: number_at_def iso_date_parts parse_u32_digit parse_digits_u32_def vy)
  show "number_at (iso_date y m d) 5 7 = Some m" "number_at (iso_date y m d) 8 10 = Some d"
    using assms(2,3) by (simp_all add: number_at_def iso_date_parts parse_u32_digit parse_digits_u32_def v2)
qed

lemma iso_date_valid:
  assumes "y < 10000" and "m < 100" and "d < 100"
  shows "valid_iso_date (iso_date y m d) \<longleftrightarrow> calendar_date y m d"
proof -
  have shape: "length (iso_date y m d) = 10" "byte_at (iso_date y m d) 4 = Some (CHR ''-'')"
    "byte_at (iso_date y m d) 7 = Some (CHR ''-'')"
    by (simp_all add: iso_date_def byte_at_def)
  show ?thesis
    unfolding valid_iso_date_def iso_date_numbers [OF assms] shape leap_year_dvd
      days_in_month_calendar [symmetric]
    by simp
qed

subsection \<open>No slice panics\<close>

text \<open>In UTF-8 no continuation byte follows an ASCII byte.\<close>

definition ascii_then_boundary :: "str \<Rightarrow> bool" where
  "ascii_then_boundary v \<longleftrightarrow>
     (\<forall>i. Suc i < length v \<longrightarrow> byte (v ! i) < 128 \<longrightarrow> is_char_boundary v (Suc i))"

lemma offsets_zip:
  "(i, c) \<in> set (zip (char_offsets k cs) cs) \<Longrightarrow>
   k \<le> i \<and> (\<exists>rest. drop (i - k) (concat cs) = c @ rest)"
proof (induction cs arbitrary: k)
  case Nil
  then show ?case by simp
next
  case (Cons d cs)
  show ?case
  proof (cases "(i, c) = (k, d)")
    case True
    then show ?thesis by simp
  next
    case False
    with Cons.prems have "(i, c) \<in> set (zip (char_offsets (k + length d) cs) cs)" by auto
    from Cons.IH [OF this] obtain rest
      where "k + length d \<le> i" "drop (i - (k + length d)) (concat cs) = c @ rest" by blast
    then show ?thesis by (auto simp: diff_diff_left)
  qed
qed

lemma find_sign_sound:
  assumes "find_sign v = Some i"
  shows "i < length v" and "v ! i = CHR ''+'' \<or> v ! i = CHR ''-''"
proof -
  let ?p = "\<lambda>(i :: nat, c). c = ''+'' \<or> c = ''-''"
  obtain c where "find ?p (zip (char_offsets 0 (chars v)) (chars v)) = Some (i, c)"
    using assms by (auto simp: find_sign_def)
  then have c: "(i, c) \<in> set (zip (char_offsets 0 (chars v)) (chars v))" "c = ''+'' \<or> c = ''-''"
    by (auto simp: find_Some_iff in_set_conv_nth)
  from offsets_zip [OF c(1)] obtain rest where "drop i v = c @ rest" by auto
  with c(2) obtain b where d: "drop i v = b # rest" "b = CHR ''+'' \<or> b = CHR ''-''" by auto
  then show i: "i < length v" by (metis drop_eq_Nil list.distinct(1) not_le)
  from d i show "v ! i = CHR ''+'' \<or> v ! i = CHR ''-''"
    by (simp add: Cons_nth_drop_Suc [symmetric])
qed

lemma sign_boundary: "find_sign v = Some i \<Longrightarrow> is_char_boundary v i"
  using find_sign_sound [of v i] by (auto simp: is_char_boundary_def)

lemma boundary_ends [simp]: "is_char_boundary v 0" "is_char_boundary v (length v)"
  by (simp_all add: is_char_boundary_def)

lemma number_boundary: "number_at v a b = Some n \<Longrightarrow> b \<le> length v \<and> is_char_boundary v b"
  by (auto simp: number_at_def str_get_def split: if_splits)

lemma fraction_returns:
  assumes "ascii_then_boundary v" and "fraction = take n (drop k v)" and "k + n \<le> length v"
  shows "fraction_ok fraction \<noteq> None"
proof (cases "2 \<le> length fraction \<and> hd fraction = CHR ''.''")
  case True
  have bytes: "fraction ! 0 = v ! k" "fraction ! 1 = v ! Suc k" and len: "Suc k < length v"
    using assms(2,3) True by (auto simp: min_def split: if_splits)
  have "fraction ! 0 = CHR ''.''" using True by (cases fraction) auto
  then have "byte (v ! k) < 128" by (simp add: bytes(1) [symmetric])
  with assms(1) len have "is_char_boundary v (Suc k)" by (auto simp: ascii_then_boundary_def)
  with len have "\<not> (128 \<le> byte (v ! Suc k) \<and> byte (v ! Suc k) < 192)"
    by (auto simp: is_char_boundary_def)
  with True bytes(2) have "is_char_boundary fraction 1" by (auto simp: is_char_boundary_def)
  with True show ?thesis by (auto simp: fraction_ok_def slice_from_def str_get_def)
next
  case False
  then show ?thesis by (cases fraction) (auto simp: fraction_ok_def Suc_le_eq)
qed

lemma datetime_returns:
  assumes v: "ascii_then_boundary v"
  shows "valid_rfc3339_datetime v \<noteq> None"
proof -
  have tail: "Option.bind (slice_from v 19) (\<lambda>suffix.
      if suffix = ''Z'' \<or> suffix = ''z'' then Some True
      else case find_sign suffix of None \<Rightarrow> Some False
         | Some i \<Rightarrow> Option.bind (slice_to suffix i) (\<lambda>fraction. Option.bind (fraction_ok fraction)
             (\<lambda>ok. if \<not> ok then Some False else map_option timezone_ok (slice_from suffix i)))) \<noteq> None"
    if "number_at v 17 19 = Some n" for n
  proof -
    define suffix where "suffix = drop 19 v"
    from number_boundary [OF that] have s: "slice_from v 19 = Some suffix"
      by (simp add: slice_from_def str_get_def suffix_def)
    show ?thesis
    proof (cases "find_sign suffix")
      case None
      with s show ?thesis by (simp del: not_None_eq)
    next
      case (Some i)
      note i = find_sign_sound(1) [OF Some] sign_boundary [OF Some]
      have "fraction_ok (take i suffix) \<noteq> None"
        using fraction_returns [OF v, of "take i suffix" i 19] i(1) by (simp add: suffix_def)
      then obtain ok where ok: "fraction_ok (take i suffix) = Some ok" by blast
      have "slice_to suffix i = Some (take i suffix)" "slice_from suffix i = Some (drop i suffix)"
        using i by (simp_all add: slice_to_def slice_from_def str_get_def)
      with s Some ok show ?thesis by (simp del: not_None_eq)
    qed
  qed
  show ?thesis
    unfolding valid_rfc3339_datetime_def using tail by (simp del: not_None_eq split: option.split)
qed

text \<open>
  \<open>str::parse\<close> accepts a plus sign, so the two form checks accept dates that have fewer digits
  than ISO 8601 and RFC 3339 require; they also accept the year zero.
\<close>

lemmas date_evaluation = valid_iso_date_def valid_rfc3339_datetime_def number_at_def str_get_def
  is_char_boundary_def byte_at_def parse_u32_def parse_digits_u32_def digits_value_def
  days_in_month_def is_ascii_digit_def slice_from_def

lemma signed_dates_accepted:
  "valid_iso_date ''+024-+1-+1''" "valid_rfc3339_datetime ''2024-01-01T+1:+2:+3Z'' = Some True"
  "valid_iso_date ''0000-01-01''"
  by (simp_all add: date_evaluation)

subsection \<open>Properties\<close>

text \<open>
  Written in the ISO form, a year, month and day of at most 4, 2 and 2 digits are accepted
  by the check of the form answers exactly when they are a date of the Gregorian calendar, and
  by the check of the account's usage exactly when the year is also positive.
\<close>

theorem printed_dates_checked:
  assumes "y < 10000" and "m < 100" and "d < 100"
  shows "(valid_iso_date (iso_date y m d) \<longleftrightarrow> calendar_date y m d)
    \<and> (is_valid_account_daily_usage_date (iso_date y m d) \<longleftrightarrow> 0 < y \<and> calendar_date y m d)"
  using iso_date_valid [OF assms] usage_date_iso [OF assms] by blast

text \<open>
  The two date checks differ only where the form check is more liberal: a usage date is an
  ISO date whose other eight bytes are digits and whose year is not zero.
\<close>

theorem usage_date_is_strict_iso:
  "is_valid_account_daily_usage_date v \<longleftrightarrow>
     valid_iso_date v \<and> (\<forall>i < 10. i \<noteq> 4 \<and> i \<noteq> 7 \<longrightarrow> is_ascii_digit (v ! i)) \<and> take 4 v \<noteq> ''0000''"
proof (cases "length v = 10 \<and> v ! 4 = CHR ''-'' \<and> v ! 7 = CHR ''-''
    \<and> (\<forall>i < 10. i \<noteq> 4 \<and> i \<noteq> 7 \<longrightarrow> is_ascii_digit (v ! i))")
  case True
  then obtain y m d where b: "y < 10000" "m < 100" "d < 100" and v: "v = iso_date y m d"
    using iso_date_cover [of v] by blast
  have "take 4 v = ''0000'' \<longleftrightarrow> y = 0"
  proof
    assume "take 4 v = ''0000''"
    then have "map byte (take 4 v) = map byte ''0000''" by (rule arg_cong)
    then have "y div 1000 mod 10 = 0" "y div 100 mod 10 = 0" "y div 10 mod 10 = 0" "y mod 10 = 0"
      by (simp_all add: v iso_date_def)
    with four_digits [OF b(1)] show "y = 0" by linarith
  next
    assume "y = 0"
    then show "take 4 v = ''0000''" by (simp add: v iso_date_def digit_def char_of_eq_iff)
  qed
  moreover have "\<forall>i < 10. i \<noteq> 4 \<and> i \<noteq> 7 \<longrightarrow> is_ascii_digit (v ! i)" using True by blast
  ultimately show ?thesis
    using iso_date_valid [OF b] usage_date_iso [OF b] unfolding v by blast
next
  case False
  then have "\<not> is_valid_account_daily_usage_date v"
    by (auto simp: is_valid_account_daily_usage_date_def list_ex_iff)
  moreover have "\<not> (valid_iso_date v \<and> (\<forall>i < 10. i \<noteq> 4 \<and> i \<noteq> 7 \<longrightarrow> is_ascii_digit (v ! i)))"
    using False by (auto simp: valid_iso_date_def byte_at_def)
  ultimately show ?thesis by blast
qed

text \<open>
  Checking the date-time answer of a form never panics on a string slice, for any UTF-8
  input.
\<close>

theorem datetime_check_never_panics:
  assumes "utf8_valid v"
  shows "valid_rfc3339_datetime v \<noteq> None"
  by (rule datetime_returns) (simp add: ascii_then_boundary_def ascii_boundary [OF assms])

subsection \<open>Witnesses\<close>

theorem printed_dates_checked_witness:
  "valid_iso_date ''2024-02-29'' \<and> \<not> valid_iso_date ''2023-02-29''"
proof -
  have "iso_date 2024 2 29 = ''2024-02-29''" "iso_date 2023 2 29 = ''2023-02-29''"
    by (simp_all add: iso_date_def digit_def char_of_eq_iff)
  moreover have "calendar_date 2024 2 29" "\<not> calendar_date 2023 2 29"
    by (simp_all add: calendar_date_def leap_year_def)
  ultimately show ?thesis
    using printed_dates_checked [of 2024 2 29] printed_dates_checked [of 2023 2 29] by simp
qed

theorem usage_date_is_strict_iso_witness:
  "is_valid_account_daily_usage_date ''2024-02-29''"
proof -
  have "valid_iso_date ''2024-02-29''" by (simp add: date_evaluation)
  moreover have "\<forall>i < 10. i \<noteq> 4 \<and> i \<noteq> 7 \<longrightarrow> is_ascii_digit (''2024-02-29'' ! i)"
    by (simp add: numeral_eq_Suc All_less_Suc is_ascii_digit_def)
  ultimately show ?thesis by (simp add: usage_date_is_strict_iso)
qed

theorem datetime_check_never_panics_witness:
  "valid_rfc3339_datetime ''2024-01-01T00:00:00Z'' \<noteq> None"
  by (rule datetime_check_never_panics, rule ascii_valid) simp

end
