(* ===== verification/Account.thy ===== *)
theory Account
  imports App_State Interfaces Dates
begin

text \<open>
  The account and the feedback form (\<open>AccountState\<close>, \<open>FeedbackUploadState\<close> and their actions in
  \<open>reduce\<close>, \<open>crates/codex-core/src/lib.rs\<close>): sign-in by browser, device code, API key or Amazon
  Bedrock, its cancellation, sign-out, and the account details.
\<close>

definition MAX_ACCOUNT_FIELD_BYTES :: nat where
  "MAX_ACCOUNT_FIELD_BYTES = 512"

definition MAX_USAGE_LIMIT_WINDOWS :: nat where
  "MAX_USAGE_LIMIT_WINDOWS = 2"

definition MAX_ACCOUNT_DAILY_USAGE_BUCKETS :: nat where
  "MAX_ACCOUNT_DAILY_USAGE_BUCKETS = 31"

definition MAX_FEEDBACK_DETAILS_BYTES :: nat where
  "MAX_FEEDBACK_DETAILS_BYTES = 16 * 1024"

subsection \<open>Helpers\<close>

definition account_auth_refresh_blocked :: "account_auth_operation \<Rightarrow> bool" where
  "account_auth_refresh_blocked operation \<longleftrightarrow>
     operation \<in> {StartingLogin, AwaitingLogin, CancelingLogin}"

text \<open>An optional text field, trimmed, bounded and dropped when empty.\<close>

definition account_field :: "str option \<Rightarrow> str option" where
  "account_field field =
     Option.bind field (\<lambda>v.
       let v = bounded_string (trim v) MAX_ACCOUNT_FIELD_BYTES in if v \<noteq> [] then Some v else None)"

text \<open>The five assignments that end or restart a sign-in, with the error it leaves.\<close>

definition set_login :: "account_auth_operation \<Rightarrow> str option \<Rightarrow> account_state \<Rightarrow> account_state" where
  "set_login operation error a =
     a\<lparr>ac_auth_operation := operation, ac_login_id := None, ac_login_verification_url := None,
       ac_login_user_code := None, ac_auth_error := error\<rparr>"

definition API_KEY_FAILED :: str where
  "API_KEY_FAILED = ''API key sign-in failed. Please try again.''"

definition BEDROCK_RESTARTING :: str where
  "BEDROCK_RESTARTING = ''Amazon Bedrock credentials saved. Restarting Codex runtime'' @ ellipsis"

abbreviation set_account :: "account_state \<Rightarrow> app_state \<Rightarrow> app_state" where
  "set_account a s \<equiv> s\<lparr>account := a\<rparr>"

subsection \<open>Account details\<close>

definition refresh_account :: "app_state \<Rightarrow> step_result" where
  "refresh_account s =
     (if account_auth_refresh_blocked (ac_auth_operation (account s)) then (s, [])
      else (set_account ((account s)\<lparr>ac_status := load_status.Loading, ac_error := None,
              ac_usage_error := None, ac_token_activity_error := None\<rparr>) s, [LoadAccount]))"

definition normalize_profile :: "account_profile \<Rightarrow> account_profile" where
  "normalize_profile p =
     p\<lparr>af_email := account_field (af_email p), af_plan := account_field (af_plan p)\<rparr>"

definition normalize_token_activity ::
  "account_token_activity_summary \<Rightarrow> account_token_activity_summary" where
  "normalize_token_activity t =
     t\<lparr>at_daily_usage_buckets :=
         filter (\<lambda>b. db_tokens b \<ge> 0 \<and> is_valid_account_daily_usage_date (db_start_date b))
           (take MAX_ACCOUNT_DAILY_USAGE_BUCKETS (at_daily_usage_buckets t))\<rparr>"

definition account_loaded ::
  "account_profile option \<Rightarrow> bool \<Rightarrow> usage_limit_window list \<Rightarrow> account_credits option \<Rightarrow> u32 option
   \<Rightarrow> str option \<Rightarrow> account_token_activity_summary option \<Rightarrow> str option \<Rightarrow> app_state \<Rightarrow> step_result" where
  "account_loaded profile requires_openai_auth usage_limits credits reset_credits usage_error
     token_activity token_activity_error s =
     (let profile = map_option normalize_profile profile;
          a = (account s)
            \<lparr>ac_status := load_status.Ready, ac_profile := profile,
             ac_requires_openai_auth := requires_openai_auth,
             ac_usage_limits := take MAX_USAGE_LIMIT_WINDOWS usage_limits,
             ac_credits := map_option (\<lambda>c. c\<lparr>cr_balance := account_field (cr_balance c)\<rparr>) credits,
             ac_rate_limit_reset_credits_available := reset_credits,
             ac_usage_error := map_option (\<lambda>m. bounded_string m MAX_ACCOUNT_FIELD_BYTES) usage_error,
             ac_token_activity := map_option normalize_token_activity token_activity,
             ac_token_activity_error :=
               map_option (\<lambda>m. bounded_string m MAX_ACCOUNT_FIELD_BYTES) token_activity_error,
             ac_error := None\<rparr>
      in (set_account
            (if profile \<noteq> None \<and> ac_auth_operation a \<noteq> LoggingOut
             then set_login account_auth_operation.Idle None a
             else if ac_auth_operation a = SubmittingApiKey
             then set_login account_auth_operation.Idle (Some API_KEY_FAILED) a
             else a) s, []))"

definition account_load_failed :: "str \<Rightarrow> app_state \<Rightarrow> step_result" where
  "account_load_failed message s =
     (let submitting_api_key = (ac_auth_operation (account s) = SubmittingApiKey);
          a = (account s)\<lparr>ac_status := load_status.Failed,
                ac_error := Some (if submitting_api_key then ''Could not load account details.''
                                  else bounded_string message MAX_ACCOUNT_FIELD_BYTES)\<rparr>
      in (set_account
            (if submitting_api_key
             then set_login account_auth_operation.Idle (Some API_KEY_FAILED) a else a) s, []))"

subsection \<open>Sign-in\<close>

text \<open>The guard and the assignments shared by the four ways to start.\<close>

definition start_login :: "account_auth_operation \<Rightarrow> effect list \<Rightarrow> app_state \<Rightarrow> step_result" where
  "start_login operation effects s =
     (if ac_profile (account s) \<noteq> None \<or> ac_auth_operation (account s) \<noteq> account_auth_operation.Idle
      then (s, [])
      else (set_account (set_login operation None (account s)) s, effects))"

definition account_login_started :: "str \<Rightarrow> str \<Rightarrow> str option \<Rightarrow> app_state \<Rightarrow> step_result" where
  "account_login_started login_id authorization_url user_code s =
     (if ac_auth_operation (account s) \<noteq> StartingLogin then (s, [])
      else if login_id = [] \<or> length login_id > MAX_ACCOUNT_FIELD_BYTES
              \<or> authorization_url = [] \<or> length authorization_url > 8 * 1024
              \<or> (case user_code of None \<Rightarrow> False
                 | Some code \<Rightarrow> code = [] \<or> length code > MAX_ACCOUNT_FIELD_BYTES)
      then (set_account (set_login account_auth_operation.Idle
              (Some ''Could not start ChatGPT sign-in. Please try again.'') (account s)) s, [])
      else (set_account ((account s)\<lparr>ac_auth_operation := AwaitingLogin,
              ac_login_id := Some login_id, ac_login_verification_url := Some authorization_url,
              ac_login_user_code := user_code, ac_auth_error := None\<rparr>) s, []))"

text \<open>The failure of one of the four ways, when it is still the one in progress.\<close>

definition login_start_failed ::
  "account_auth_operation \<Rightarrow> str \<Rightarrow> app_state \<Rightarrow> step_result" where
  "login_start_failed operation message s =
     (if ac_auth_operation (account s) = operation
      then (set_account (set_login account_auth_operation.Idle (Some message) (account s)) s, [])
      else (s, []))"

definition account_login_start_failed :: "str \<Rightarrow> app_state \<Rightarrow> step_result" where
  "account_login_start_failed message s =
     login_start_failed StartingLogin (bounded_string message MAX_ACCOUNT_FIELD_BYTES) s"

definition account_api_key_login_start_failed :: "app_state \<Rightarrow> step_result" where
  "account_api_key_login_start_failed s = login_start_failed SubmittingApiKey API_KEY_FAILED s"

definition account_bedrock_login_start_failed :: "app_state \<Rightarrow> step_result" where
  "account_bedrock_login_start_failed s =
     login_start_failed SubmittingBedrock
       ''Amazon Bedrock sign-in failed. Check the API key and AWS Region, then try again.'' s"

definition account_bedrock_login_accepted :: "app_state \<Rightarrow> step_result" where
  "account_bedrock_login_accepted s =
     (if ac_auth_operation (account s) \<noteq> SubmittingBedrock then (s, [])
      else (s\<lparr>account := set_login RestartingBedrock None (account s),
              connection := connection_status.Connecting,
              status_message := Some BEDROCK_RESTARTING\<rparr>, []))"

definition clear_restarting_message :: "app_state \<Rightarrow> app_state" where
  "clear_restarting_message s =
     (if status_message s = Some BEDROCK_RESTARTING then s\<lparr>status_message := None\<rparr> else s)"

definition account_bedrock_restart_failed :: "app_state \<Rightarrow> step_result" where
  "account_bedrock_restart_failed s =
     (if ac_auth_operation (account s) \<noteq> RestartingBedrock then (s, [])
      else (clear_restarting_message
              (s\<lparr>account := set_login account_auth_operation.Idle
                   (Some (''Amazon Bedrock credentials were saved, but Codex runtime could not ''
                          @ ''restart. Retry the connection.'')) (account s),
                 connection := connection_status.Failed
                   ''Could not restart Codex runtime. Please try again.''\<rparr>), []))"

definition account_login_authorization_url_rejected :: "app_state \<Rightarrow> step_result" where
  "account_login_authorization_url_rejected s =
     (case ac_login_id (account s) of
        None \<Rightarrow> (s, [])
      | Some login_id \<Rightarrow>
          if ac_auth_operation (account s) \<noteq> AwaitingLogin then (s, [])
          else (set_account ((account s)\<lparr>ac_auth_operation := CancelingLogin,
                  ac_login_verification_url := None, ac_login_user_code := None,
                  ac_auth_error := Some ''The sign-in service returned an unsupported URL.''\<rparr>) s,
                [effect.CancelAccountLogin login_id]))"

definition cancel_account_login :: "app_state \<Rightarrow> step_result" where
  "cancel_account_login s =
     (case ac_login_id (account s) of
        None \<Rightarrow> (s, [])
      | Some login_id \<Rightarrow>
          if ac_auth_operation (account s) \<noteq> AwaitingLogin then (s, [])
          else (set_account ((account s)\<lparr>ac_auth_operation := CancelingLogin,
                  ac_auth_error := None\<rparr>) s, [effect.CancelAccountLogin login_id]))"

definition account_login_canceled :: "str \<Rightarrow> app_state \<Rightarrow> step_result" where
  "account_login_canceled login_id s =
     (if ac_login_id (account s) \<noteq> Some login_id then (s, [])
      else (set_account (set_login account_auth_operation.Idle (ac_auth_error (account s)) (account s)) s,
            []))"

definition account_login_cancel_failed :: "str \<Rightarrow> app_state \<Rightarrow> step_result" where
  "account_login_cancel_failed message s =
     (if ac_auth_operation (account s) = CancelingLogin
      then (set_account ((account s)\<lparr>ac_auth_operation := AwaitingLogin,
              ac_auth_error := Some (bounded_string message MAX_ACCOUNT_FIELD_BYTES)\<rparr>) s, [])
      else (s, []))"

definition account_login_completed :: "str option \<Rightarrow> bool \<Rightarrow> app_state \<Rightarrow> step_result" where
  "account_login_completed login_id success s =
     (let a = account s
      in if ac_auth_operation a = account_auth_operation.Idle then (s, [])
         else if ac_auth_operation a = SubmittingApiKey then
           (if login_id \<noteq> None then (s, [])
            else if success
            then (set_account ((set_login account_auth_operation.Idle None a)
                     \<lparr>ac_status := load_status.Loading\<rparr>) s, [LoadAccount])
            else (set_account (set_login account_auth_operation.Idle (Some API_KEY_FAILED) a) s, []))
         else case ac_login_id a of
                None \<Rightarrow> (s, [])
              | Some expected \<Rightarrow>
                  if login_id \<noteq> Some expected then (s, [])
                  else if ac_auth_operation a = CancelingLogin
                  then (if success then (set_account (set_login LoggingOut None a) s, [effect.LogoutAccount])
                        else (s, []))
                  else if success
                  then (set_account ((set_login account_auth_operation.Idle None a)
                           \<lparr>ac_status := load_status.Loading\<rparr>) s, [LoadAccount])
                  else (set_account (set_login account_auth_operation.Idle
                           (Some ''ChatGPT sign-in failed. Please try again.'') a) s, []))"

subsection \<open>Sign-out\<close>

definition logout_account :: "app_state \<Rightarrow> step_result" where
  "logout_account s =
     (if ac_profile (account s) = None \<or> ac_auth_operation (account s) \<noteq> account_auth_operation.Idle
      then (s, [])
      else (set_account ((account s)\<lparr>ac_auth_operation := LoggingOut, ac_auth_error := None\<rparr>) s,
            [effect.LogoutAccount]))"

definition account_logged_out :: "app_state \<Rightarrow> step_result" where
  "account_logged_out s =
     ((clear_restarting_message s)\<lparr>account := default_account\<lparr>ac_status := load_status.Loading\<rparr>\<rparr>,
      [LoadAccount])"

definition account_logout_failed :: "str \<Rightarrow> app_state \<Rightarrow> step_result" where
  "account_logout_failed message s =
     (if ac_auth_operation (account s) = LoggingOut
      then (set_account ((account s)\<lparr>ac_auth_operation := account_auth_operation.Idle,
              ac_auth_error := Some (bounded_string message MAX_ACCOUNT_FIELD_BYTES)\<rparr>) s, [])
      else (s, []))"

subsection \<open>Feedback\<close>

definition submit_feedback :: "feedback_classification \<Rightarrow> str \<Rightarrow> bool \<Rightarrow> app_state \<Rightarrow> step_result" where
  "submit_feedback classification reason include_logs s =
     (if fb_pending (feedback s) then (s, [])
      else let reason = trim reason;
               f = (feedback s)\<lparr>fb_feedback_id := None, fb_error := None\<rparr>
           in if reason = []
              then (s\<lparr>feedback := f\<lparr>fb_error := Some ''Share details before submitting.''\<rparr>\<rparr>, [])
              else if length reason > MAX_FEEDBACK_DETAILS_BYTES
              then (s\<lparr>feedback := f\<lparr>fb_error := Some ''Feedback details are too long.''\<rparr>\<rparr>, [])
              else (s\<lparr>feedback := f\<lparr>fb_pending := True\<rparr>\<rparr>,
                    [effect.SubmitFeedback classification reason include_logs (selected_task_id s)]))"

definition feedback_submitted :: "str \<Rightarrow> app_state \<Rightarrow> step_result" where
  "feedback_submitted feedback_id s =
     (if \<not> fb_pending (feedback s) then (s, [])
      else (s\<lparr>feedback := (feedback s)\<lparr>fb_pending := False, fb_error := None,
                fb_feedback_id := Some (bounded_string (trim feedback_id) MAX_ACCOUNT_FIELD_BYTES)\<rparr>,
              status_message := Some ''Feedback uploaded''\<rparr>, []))"

definition feedback_failed :: "str \<Rightarrow> app_state \<Rightarrow> step_result" where
  "feedback_failed message s =
     (if fb_pending (feedback s)
      then (s\<lparr>feedback := (feedback s)\<lparr>fb_pending := False,
                fb_error := Some (bounded_string (trim message) MAX_ACCOUNT_FIELD_BYTES)\<rparr>\<rparr>, [])
      else (s, []))"

definition clear_feedback_error :: "app_state \<Rightarrow> step_result" where
  "clear_feedback_error s =
     (if fb_pending (feedback s) then (s, [])
      else (s\<lparr>feedback := (feedback s)\<lparr>fb_error := None, fb_feedback_id := None\<rparr>\<rparr>, []))"

subsection \<open>Dispatch\<close>

datatype (plugins only: code size) account_action =
    RefreshAccount
  | AccountLoaded "account_profile option" bool "usage_limit_window list" "account_credits option"
      "u32 option" "str option" "account_token_activity_summary option" "str option"
  | AccountLoadFailed str
  | StartAccountLogin
  | StartAccountDeviceCodeLogin
  | StartApiKeyLogin
  | StartBedrockLogin
  | AccountLoginStarted str str "str option"
  | AccountLoginStartFailed str
  | AccountApiKeyLoginStartFailed
  | AccountBedrockLoginStartFailed
  | AccountBedrockLoginAccepted
  | AccountBedrockRestartFailed
  | AccountLoginAuthorizationUrlRejected
  | CancelAccountLogin
  | AccountLoginCanceled str
  | AccountLoginCancelFailed str
  | AccountLoginCompleted "str option" bool
  | LogoutAccount
  | AccountLoggedOut
  | AccountLogoutFailed str
  | SubmitFeedback feedback_classification str bool
  | FeedbackSubmitted str
  | FeedbackFailed str
  | ClearFeedbackError

fun reduce_account :: "app_state \<Rightarrow> account_action \<Rightarrow> step_result" where
  "reduce_account s RefreshAccount = refresh_account s"
| "reduce_account s (AccountLoaded p r u c n e t te) = account_loaded p r u c n e t te s"
| "reduce_account s (AccountLoadFailed m) = account_load_failed m s"
| "reduce_account s account_action.StartAccountLogin =
     start_login StartingLogin [effect.StartAccountLogin] s"
| "reduce_account s account_action.StartAccountDeviceCodeLogin =
     start_login StartingLogin [effect.StartAccountDeviceCodeLogin] s"
| "reduce_account s StartApiKeyLogin = start_login SubmittingApiKey [] s"
| "reduce_account s StartBedrockLogin = start_login SubmittingBedrock [] s"
| "reduce_account s (AccountLoginStarted l u c) = account_login_started l u c s"
| "reduce_account s (AccountLoginStartFailed m) = account_login_start_failed m s"
| "reduce_account s AccountApiKeyLoginStartFailed = account_api_key_login_start_failed s"
| "reduce_account s AccountBedrockLoginStartFailed = account_bedrock_login_start_failed s"
| "reduce_account s AccountBedrockLoginAccepted = account_bedrock_login_accepted s"
| "reduce_account s AccountBedrockRestartFailed = account_bedrock_restart_failed s"
| "reduce_account s AccountLoginAuthorizationUrlRejected = account_login_authorization_url_rejected s"
| "reduce_account s account_action.CancelAccountLogin = cancel_account_login s"
| "reduce_account s (AccountLoginCanceled l) = account_login_canceled l s"
| "reduce_account s (AccountLoginCancelFailed m) = account_login_cancel_failed m s"
| "reduce_account s (AccountLoginCompleted l b) = account_login_completed l b s"
| "reduce_account s account_action.LogoutAccount = logout_account s"
| "reduce_account s AccountLoggedOut = account_logged_out s"
| "reduce_account s (AccountLogoutFailed m) = account_logout_failed m s"
| "reduce_account s (account_action.SubmitFeedback c r l) = submit_feedback c r l s"
| "reduce_account s (FeedbackSubmitted i) = feedback_submitted i s"
| "reduce_account s (FeedbackFailed m) = feedback_failed m s"
| "reduce_account s ClearFeedbackError = clear_feedback_error s"

lemmas account_handler_defs = refresh_account_def account_loaded_def account_load_failed_def
  start_login_def account_login_started_def login_start_failed_def account_login_start_failed_def
  account_api_key_login_start_failed_def account_bedrock_login_start_failed_def
  account_bedrock_login_accepted_def account_bedrock_restart_failed_def
  account_login_authorization_url_rejected_def cancel_account_login_def account_login_canceled_def
  account_login_cancel_failed_def account_login_completed_def logout_account_def
  account_logged_out_def account_logout_failed_def submit_feedback_def feedback_submitted_def
  feedback_failed_def clear_feedback_error_def

subsection \<open>Invariant\<close>

definition field_ok :: "str option \<Rightarrow> bool" where
  "field_ok f \<longleftrightarrow> (\<forall>v. f = Some v \<longrightarrow> v \<noteq> [] \<and> length v \<le> MAX_ACCOUNT_FIELD_BYTES)"

definition login_ok :: "account_state \<Rightarrow> bool" where
  "login_ok a \<longleftrightarrow>
     (ac_login_id a \<noteq> None \<longleftrightarrow> ac_auth_operation a \<in> {AwaitingLogin, CancelingLogin})
     \<and> (ac_login_verification_url a \<noteq> None \<longrightarrow> ac_login_id a \<noteq> None)
     \<and> (ac_login_user_code a \<noteq> None \<longrightarrow> ac_login_verification_url a \<noteq> None)
     \<and> (ac_profile a \<noteq> None \<longrightarrow> ac_auth_operation a \<in> {account_auth_operation.Idle, LoggingOut})
     \<and> field_ok (ac_login_id a) \<and> field_ok (ac_login_user_code a)"

definition details_ok :: "account_state \<Rightarrow> bool" where
  "details_ok a \<longleftrightarrow>
     length (ac_usage_limits a) \<le> MAX_USAGE_LIMIT_WINDOWS
     \<and> (\<forall>p. ac_profile a = Some p \<longrightarrow> field_ok (af_email p) \<and> field_ok (af_plan p))
     \<and> (\<forall>c. ac_credits a = Some c \<longrightarrow> field_ok (cr_balance c))
     \<and> (\<forall>t. ac_token_activity a = Some t \<longrightarrow>
          length (at_daily_usage_buckets t) \<le> MAX_ACCOUNT_DAILY_USAGE_BUCKETS
          \<and> (\<forall>b \<in> set (at_daily_usage_buckets t).
               db_tokens b \<ge> 0 \<and> is_valid_account_daily_usage_date (db_start_date b)))"

definition feedback_ok :: "feedback_upload_state \<Rightarrow> bool" where
  "feedback_ok f \<longleftrightarrow> (fb_pending f \<longrightarrow> fb_error f = None \<and> fb_feedback_id f = None)"

definition account_inv :: "app_state \<Rightarrow> bool" where
  "account_inv s \<longleftrightarrow> login_ok (account s) \<and> details_ok (account s) \<and> feedback_ok (feedback s)"

lemma account_field_ok [simp]: "field_ok (account_field f)"
  by (auto simp: field_ok_def account_field_def bind_eq_Some_conv Let_def split: if_splits)

lemma field_ok_None [simp]: "field_ok None"
  by (simp add: field_ok_def)

lemma normalize_activity_ok:
  "length (at_daily_usage_buckets (normalize_token_activity t)) \<le> MAX_ACCOUNT_DAILY_USAGE_BUCKETS"
  "b \<in> set (at_daily_usage_buckets (normalize_token_activity t)) \<Longrightarrow>
     db_tokens b \<ge> 0 \<and> is_valid_account_daily_usage_date (db_start_date b)"
  by (auto simp: normalize_token_activity_def intro: length_filter_bound)

lemma set_login_ok:
  "login_ok a \<Longrightarrow> op \<notin> {AwaitingLogin, CancelingLogin} \<Longrightarrow>
   (ac_profile a \<noteq> None \<longrightarrow> op \<in> {account_auth_operation.Idle, LoggingOut}) \<Longrightarrow>
   login_ok (set_login op e a)"
  by (auto simp: login_ok_def set_login_def)

lemma set_login_details [simp]: "details_ok (set_login op e a) = details_ok a"
  by (simp add: details_ok_def set_login_def)

lemma details_ok_update [simp]:
  "details_ok (a\<lparr>ac_status := st\<rparr>) = details_ok a"
  "details_ok (a\<lparr>ac_error := e\<rparr>) = details_ok a"
  "details_ok (a\<lparr>ac_usage_error := e\<rparr>) = details_ok a"
  "details_ok (a\<lparr>ac_token_activity_error := e\<rparr>) = details_ok a"
  "details_ok (a\<lparr>ac_auth_operation := op\<rparr>) = details_ok a"
  "details_ok (a\<lparr>ac_auth_error := e\<rparr>) = details_ok a"
  "details_ok (a\<lparr>ac_login_id := i\<rparr>) = details_ok a"
  "details_ok (a\<lparr>ac_login_verification_url := u\<rparr>) = details_ok a"
  "details_ok (a\<lparr>ac_login_user_code := c\<rparr>) = details_ok a"
  by (simp_all add: details_ok_def)

lemma login_ok_update [simp]:
  "login_ok (a\<lparr>ac_status := st\<rparr>) = login_ok a"
  "login_ok (a\<lparr>ac_error := e\<rparr>) = login_ok a"
  "login_ok (a\<lparr>ac_usage_error := e\<rparr>) = login_ok a"
  "login_ok (a\<lparr>ac_token_activity_error := e\<rparr>) = login_ok a"
  "login_ok (a\<lparr>ac_auth_error := e\<rparr>) = login_ok a"
  by (simp_all add: login_ok_def)

lemma account_loaded_inv:
  assumes "account_inv s"
  shows "account_inv (fst (account_loaded p r u c n e t te s))"
proof -
  have d: "details_ok a" if "ac_profile a = map_option normalize_profile p"
    "ac_usage_limits a = take MAX_USAGE_LIMIT_WINDOWS u"
    "ac_credits a = map_option (\<lambda>c. c\<lparr>cr_balance := account_field (cr_balance c)\<rparr>) c"
    "ac_token_activity a = map_option normalize_token_activity t" for a
    using that by (auto simp: details_ok_def normalize_profile_def normalize_activity_ok
        dest: normalize_activity_ok(2))
  show ?thesis
    using assms unfolding account_inv_def account_loaded_def Let_def
    by (auto intro!: d simp: login_ok_def set_login_def)
qed

lemma default_account_ok [simp]: "login_ok default_account" "details_ok default_account"
  by (simp_all add: login_ok_def details_ok_def default_account_def)

lemma clear_restarting_frame [simp]:
  "account (clear_restarting_message s) = account s" "feedback (clear_restarting_message s) = feedback s"
  by (simp_all add: clear_restarting_message_def)

lemma reduce_account_inv: "account_inv s \<Longrightarrow> account_inv (fst (reduce_account s a))"
proof (cases a)
  case (AccountLoaded p r u c n e t te)
  assume "account_inv s"
  with AccountLoaded show ?thesis by (simp add: account_loaded_inv)
next
  case (AccountLoginStarted l u c)
  assume "account_inv s"
  with AccountLoginStarted show ?thesis
    by (auto simp: account_inv_def account_login_started_def login_ok_def set_login_def field_ok_def
        split: option.splits)
qed (auto simp: account_inv_def account_handler_defs Let_def feedback_ok_def set_login_ok
    split: option.splits, auto simp: login_ok_def set_login_def field_ok_def)

interpretation account: reducer_component reduce_account account_inv
  by unfold_locales (rule reduce_account_inv)

end
