(* ===== verification/Account_Properties.thy ===== *)
theory Account_Properties
  imports Account
begin

text \<open>
  What sign-in promises: its invariant, its protocol as a relation on the operation in progress
  with the request each edge sends, and that a cancelled sign-in never stays signed in.
\<close>

subsection \<open>The protocol\<close>

text \<open>
  One step of the sign-in protocol and the requests it sends to the app server: anything may
  fall back to idle, everything else is an edge of this relation.
\<close>

inductive auth_step :: "account_auth_operation \<Rightarrow> effect list \<Rightarrow> account_auth_operation \<Rightarrow> bool" where
  stay: "auth_step op [] op"
| idle: "auth_step op [] account_auth_operation.Idle"
| browser: "auth_step account_auth_operation.Idle [effect.StartAccountLogin] StartingLogin"
| device: "auth_step account_auth_operation.Idle [effect.StartAccountDeviceCodeLogin] StartingLogin"
| api_key: "auth_step account_auth_operation.Idle [] SubmittingApiKey"
| bedrock: "auth_step account_auth_operation.Idle [] SubmittingBedrock"
| restart: "auth_step SubmittingBedrock [] RestartingBedrock"
| await: "auth_step StartingLogin [] AwaitingLogin"
| cancel: "auth_step AwaitingLogin [effect.CancelAccountLogin l] CancelingLogin"
| cancel_failed: "auth_step CancelingLogin [] AwaitingLogin"
| cancelled_late: "auth_step CancelingLogin [effect.LogoutAccount] LoggingOut"
| logout: "auth_step account_auth_operation.Idle [effect.LogoutAccount] LoggingOut"

inductive_simps auth_from_idle: "auth_step account_auth_operation.Idle es op"
inductive_cases auth_to_logout: "auth_step op es LoggingOut"

definition is_auth_request :: "effect \<Rightarrow> bool" where
  "is_auth_request e \<longleftrightarrow>
     e = effect.StartAccountLogin \<or> e = effect.StartAccountDeviceCodeLogin \<or> e = effect.LogoutAccount
     \<or> (\<exists>l. e = effect.CancelAccountLogin l)"

lemma auth_request_simps [simp]:
  "is_auth_request effect.StartAccountLogin" "is_auth_request effect.StartAccountDeviceCodeLogin"
  "is_auth_request effect.LogoutAccount" "is_auth_request (effect.CancelAccountLogin l)"
  "\<not> is_auth_request LoadAccount" "\<not> is_auth_request (effect.SubmitFeedback c r i t)"
  by (simp_all add: is_auth_request_def)

abbreviation operation :: "app_state \<Rightarrow> account_auth_operation" where
  "operation s \<equiv> ac_auth_operation (account s)"

lemma set_login_operation [simp]: "ac_auth_operation (set_login op e a) = op"
  by (simp add: set_login_def)

lemma login_state:
  "login_ok a \<Longrightarrow> ac_login_id a = Some l \<Longrightarrow> ac_auth_operation a = AwaitingLogin \<or> ac_auth_operation a = CancelingLogin"
  by (auto simp: login_ok_def)

subsection \<open>Properties\<close>

text \<open>
  C27: whatever action arrives, the sign-in operation follows the protocol and exactly the
  request of the protocol's edge is sent: a login starts only when idle, a cancellation is
  requested once and only while the login is awaited, and a sign-out is requested only from idle
  or for a login that completed while it was being cancelled.
\<close>

theorem sign_in_protocol:
  assumes "account_inv s"
  shows "auth_step (operation s) (filter is_auth_request (snd (reduce_account s a)))
     (operation (fst (reduce_account s a)))"
proof -
  have ok: "login_ok (account s)" using assms by (simp add: account_inv_def)
  note state = login_state [OF ok]
  show ?thesis
    by (cases a)
      (auto simp: account_handler_defs Let_def default_account_def clear_restarting_message_def
        intro: auth_step.intros dest: state split: option.splits)
qed


subsection \<open>Witnesses\<close>

definition demo_login :: app_state where
  "demo_login = fst (run reduce_account default_app_state
     [account_action.StartAccountLogin, AccountLoginStarted ''l1'' ''https://login'' None])"

lemma default_account_inv: "account_inv default_app_state"
proof -
  have "account default_app_state = default_account" by (simp add: default_app_state_def)
  moreover have "feedback_ok (feedback default_app_state)"
    by (simp add: default_app_state_def feedback_ok_def)
  ultimately show ?thesis by (simp add: account_inv_def)
qed

lemma demo_login_state: "operation demo_login = AwaitingLogin" "ac_login_id (account demo_login) = Some ''l1''"
  by (simp_all add: demo_login_def default_app_state_def default_account_def start_login_def
      set_login_def account_login_started_def MAX_ACCOUNT_FIELD_BYTES_def)

theorem sign_in_protocol_witness:
  "auth_step AwaitingLogin [effect.CancelAccountLogin ''l1''] CancelingLogin"
proof -
  have "account_inv demo_login" unfolding demo_login_def
    by (rule account.run_inv [OF default_account_inv])
  from sign_in_protocol [OF this, of account_action.CancelAccountLogin] show ?thesis
    by (simp add: demo_login_state cancel_account_login_def)
qed


end
