(* ===== verification/Component_Frames.thy ===== *)
theory Component_Frames
  imports Fork_Progress Remote_Properties Timeline_Properties Turn_Properties Approvals Terminals
    Task_Properties Process_Manager Account_Properties
begin

text \<open>
  All components work on the same \<open>AppState\<close>. What each component leaves unchanged, and that the
  fields two components share (timelines, tasks, connection, composer) stay well formed for both.
\<close>

subsection \<open>What each component leaves unchanged\<close>

text \<open>The state without the fields a component may write.\<close>

abbreviation without_forks :: "app_state \<Rightarrow> app_state" where
  "without_forks s \<equiv> s\<lparr>pending_task_fork := None, next_task_fork_request_id := 0,
     pending_worktree_fork := None, queued_worktree_forks := [], next_worktree_fork_request_id := 0,
     status_message := None\<rparr>"

abbreviation without_remote :: "app_state \<Rightarrow> app_state" where
  "without_remote s \<equiv> s\<lparr>composer_controls := default_composer_controls,
     remote_control := default_remote_control, status_message := None\<rparr>"

abbreviation without_requests :: "app_state \<Rightarrow> app_state" where
  "without_requests s \<equiv> s\<lparr>tasks := [], approvals := [], user_input_requests := [], status_message := None\<rparr>"

abbreviation without_terminal :: "app_state \<Rightarrow> app_state" where
  "without_terminal s \<equiv> s\<lparr>terminal := default_terminal, terminal_dock_open := False, status_message := None\<rparr>"

abbreviation without_processes :: "app_state \<Rightarrow> app_state" where
  "without_processes s \<equiv> s\<lparr>process_manager := default_process_manager, status_message := None\<rparr>"

abbreviation without_composer :: "app_state \<Rightarrow> app_state" where
  "without_composer s \<equiv> s\<lparr>new_chat_draft_generation := 0, composer_draft_generation := 0,
     composer := [], composer_attachments := [], composer_error := None,
     composer_controls := default_composer_controls, status_message := None\<rparr>"

abbreviation without_turns :: "app_state \<Rightarrow> app_state" where
  "without_turns s \<equiv> (without_composer s)\<lparr>timelines := Map.empty, goals := Map.empty, tasks := [],
     review_start := default_review_start, background_completion_task_ids := []\<rparr>"

abbreviation without_task_lists :: "app_state \<Rightarrow> app_state" where
  "without_task_lists s \<equiv> s\<lparr>task_status := load_status.Idle, task_generation := 0, tasks := [],
     next_task_cursor := None, task_search := default_task_search, pending_task_fork := None,
     archived_tasks := default_archived_tasks, pinned_task_ids := [], timelines := Map.empty,
     goals := Map.empty, status_message := None\<rparr>"

abbreviation without_account :: "app_state \<Rightarrow> app_state" where
  "without_account s \<equiv> s\<lparr>connection := Offline, account := default_account,
     feedback := \<lparr>fb_pending = False, fb_error = None, fb_feedback_id = None\<rparr>,
     status_message := None\<rparr>"

lemma start_next_frame: "without_forks (fst (start_next_worktree_fork s)) = without_forks s"
  by (simp add: start_next_worktree_fork_def Let_def split: option.split list.split)

lemma fork_task_frame: "without_forks (fst (fork_task t b s)) = without_forks s"
  by (simp add: fork_task_def Let_def start_next_frame split: option.split list.split)

lemma fork_frame: "without_forks (fst (reduce_fork s a)) = without_forks s"
  by (cases a)
    (simp_all add: fork_handler_defs fork_task_frame with_pending_def start_next_frame
      Let_def split: option.split)

lemma request_frame: "without_requests (fst (reduce_request s a)) = without_requests s"
  by (cases a)
    (simp_all add: approval_requested_def resolve_approval_def user_input_requested_def
      resolve_user_input_def set_task_status_def Let_def split: option.split)

lemma process_frame: "without_processes (fst (reduce_process s a)) = without_processes s"
  by (cases a) (simp_all add: process_handler_defs Let_def split: option.split)

lemma without_account_update:
  "without_account (s\<lparr>account := a\<rparr>) = without_account s"
  "without_account (s\<lparr>connection := c\<rparr>) = without_account s"
  "without_account (s\<lparr>feedback := f\<rparr>) = without_account s"
  "without_account (s\<lparr>status_message := m\<rparr>) = without_account s"
  by simp_all

lemma account_frame: "without_account (fst (reduce_account s a)) = without_account s"
  by (cases a)
    (simp_all only: reduce_account.simps account_handler_defs clear_restarting_message_def Let_def
      fst_conv without_account_update if_distrib [of fst] if_distrib [of without_account] if_cancel option.case_distrib
      split: option.split if_split, simp_all only: fst_conv without_account_update simp_thms)

lemma composer_frame: "without_composer (fst (reduce_composer s a)) = without_composer s"
  by (cases a)
    (simp_all add: composer_submission_failed_def composer_changed_def add_composer_attachments_def
      remove_composer_attachment_def toggle_plan_mode_def toggle_goal_mode_def restore_retry_prompt_def
      advance_composer_draft_generation_def advance_new_chat_draft_generation_def Let_def
      case_prod_beta)


lemma without_remote_update:
  "without_remote (s\<lparr>composer_controls := c\<rparr>) = without_remote s"
  "without_remote (s\<lparr>remote_control := r\<rparr>) = without_remote s"
  "without_remote (s\<lparr>status_message := m\<rparr>) = without_remote s"
  by simp_all

lemma status_refresh_frame:
  "without_remote (fst (begin_remote_status_refresh s)) = without_remote s"
  "without_remote (fst (finish_remote_status_refresh_if_pending s)) = without_remote s"
  by (simp_all add: begin_remote_status_refresh_def finish_remote_status_refresh_if_pending_def Let_def)

lemma remote_frame: "without_remote (fst (reduce_remote s a)) = without_remote s"
  by (cases a)
    (simp_all only: reduce_remote.simps remote_handler_defs set_remote_enabled_def Let_def case_prod_beta
      fst_conv without_remote_update status_refresh_frame if_distrib [of fst]
      if_distrib [of without_remote] if_cancel option.case_distrib
      split: option.split if_split,
     simp_all only: fst_conv without_remote_update status_refresh_frame simp_thms)

lemma terminal_frame: "without_terminal (fst (reduce_terminal s a)) = without_terminal s"
  by (cases a)
    (simp_all add: terminal_handler_defs update_tab_def Let_def split: option.split)

lemma timeline_frame: "(fst (timeline_step s a))\<lparr>timelines := m\<rparr> = s\<lparr>timelines := m\<rparr>"
  by (cases a)
    (auto simp: timeline_step_def load_more_timeline_def timeline_loaded_def timeline_failed_def
      thread_token_usage_updated_def timeline_delta_def upsert_timeline_item_def
      timeline_item_completed_def Let_def case_prod_beta split: option.split)

lemma goal_frame: "without_turns (fst (reduce_goal s a)) = without_turns s"
  by (cases a)
    (simp_all add: goal_handler_defs restore_retry_prompt_def Let_def case_prod_beta split: option.split)

lemma turn_helpers_frame:
  "without_turns (clear_unresolved_detached_review_terminal t u s) = without_turns s"
  "without_turns (record_pending_review_terminal t u s) = without_turns s"
  "without_turns (set_task_status t st s) = without_turns s"
  "without_turns (restore_retry_prompt p s) = without_turns s"
  "without_turns (fst (schedule_goal_continuation t s)) = without_turns s"
  "without_turns (set_timeline t v s) = without_turns s"
  "without_turns (s\<lparr>goals := g\<rparr>) = without_turns s"
  "without_turns (s\<lparr>composer_controls := c\<rparr>) = without_turns s"
  "without_turns (s\<lparr>background_completion_task_ids := b\<rparr>) = without_turns s"
  "without_turns (s\<lparr>status_message := m\<rparr>) = without_turns s"
  by (simp_all add: clear_unresolved_detached_review_terminal_def record_pending_review_terminal_def
      set_task_status_def restore_retry_prompt_def schedule_goal_continuation_def Let_def
      split: option.split)

lemma turn_frame: "without_turns (fst (reduce_turn s a)) = without_turns s"
  by (cases a)
    (simp_all only: reduce_turn.simps turn_handler_defs Let_def case_prod_beta fst_conv
      turn_helpers_frame if_distrib [of fst] if_distrib [of without_turns] if_cancel
      split: option.split if_split,
     simp_all only: fst_conv turn_helpers_frame simp_thms)

lemma resume_all_without: "without_task_lists (fst (resume_all ids s)) = without_task_lists s"
  by (induction ids arbitrary: s) (simp_all add: resume_task_effect_def Let_def case_prod_beta)

lemma task_list_frame: "without_task_lists (fst (reduce_task_list s a)) = without_task_lists s"
  by (cases a)
    (simp_all add: task_list_handler_defs resume_all_without Let_def case_prod_beta split: option.split)


subsection \<open>Invariants of the other components\<close>

lemmas inv_defs = fork_inv_def remote_inv_def deferred_ok_def remote_control_permitted_def
  timelines_ok_def turns_inv_def requests_inv_def terminals_inv_def task_lists_defs process_inv_def
  account_inv_def composer_ok_def

lemma frame_inv:
  assumes "e s' = e s" and "\<And>s. p (e s) = (p s :: bool)"
  shows "p s' = p s"
  using assms by metis

lemma fork_others:
  fixes s :: app_state and a
  defines "s' \<equiv> fst (reduce_fork s a)"
  shows "remote_inv s' = remote_inv s" "timelines_ok s' = timelines_ok s" "turns_inv s' = turns_inv s"
    "requests_inv s' = requests_inv s" "terminals_inv s' = terminals_inv s"
    "task_lists_inv s' = task_lists_inv s" "process_inv s' = process_inv s"
    "account_inv s' = account_inv s" "composer_ok s' = composer_ok s"
  unfolding s'_def by (rule frame_inv [where e = without_forks, OF fork_frame];
      simp add: inv_defs cong: option.case_cong)+

lemma remote_others:
  fixes s :: app_state and a
  defines "s' \<equiv> fst (reduce_remote s a)"
  shows "fork_inv s' = fork_inv s" "timelines_ok s' = timelines_ok s" "turns_inv s' = turns_inv s"
    "requests_inv s' = requests_inv s" "terminals_inv s' = terminals_inv s"
    "task_lists_inv s' = task_lists_inv s" "process_inv s' = process_inv s"
    "account_inv s' = account_inv s" "composer_ok s' = composer_ok s"
  unfolding s'_def by (rule frame_inv [where e = without_remote, OF remote_frame];
      simp add: inv_defs cong: option.case_cong)+

lemma terminal_others:
  fixes s :: app_state and a
  defines "s' \<equiv> fst (reduce_terminal s a)"
  shows "fork_inv s' = fork_inv s" "remote_inv s' = remote_inv s" "timelines_ok s' = timelines_ok s"
    "turns_inv s' = turns_inv s" "requests_inv s' = requests_inv s"
    "task_lists_inv s' = task_lists_inv s" "process_inv s' = process_inv s"
    "account_inv s' = account_inv s" "composer_ok s' = composer_ok s"
  unfolding s'_def by (rule frame_inv [where e = without_terminal, OF terminal_frame];
      simp add: inv_defs cong: option.case_cong)+

lemma process_others:
  fixes s :: app_state and a
  defines "s' \<equiv> fst (reduce_process s a)"
  shows "fork_inv s' = fork_inv s" "remote_inv s' = remote_inv s" "timelines_ok s' = timelines_ok s"
    "turns_inv s' = turns_inv s" "requests_inv s' = requests_inv s" "terminals_inv s' = terminals_inv s"
    "task_lists_inv s' = task_lists_inv s" "account_inv s' = account_inv s" "composer_ok s' = composer_ok s"
  unfolding s'_def by (rule frame_inv [where e = without_processes, OF process_frame];
      simp add: inv_defs cong: option.case_cong)+

lemma composer_others:
  fixes s :: app_state and a
  defines "s' \<equiv> fst (reduce_composer s a)"
  shows "fork_inv s' = fork_inv s" "remote_inv s' = remote_inv s" "timelines_ok s' = timelines_ok s"
    "turns_inv s' = turns_inv s" "requests_inv s' = requests_inv s" "terminals_inv s' = terminals_inv s"
    "task_lists_inv s' = task_lists_inv s" "process_inv s' = process_inv s" "account_inv s' = account_inv s"
  unfolding s'_def by (rule frame_inv [where e = without_composer, OF composer_frame];
      simp add: inv_defs cong: option.case_cong)+

lemma account_others:
  fixes s :: app_state and a
  defines "s' \<equiv> fst (reduce_account s a)"
  shows "fork_inv s' = fork_inv s" "timelines_ok s' = timelines_ok s" "turns_inv s' = turns_inv s"
    "requests_inv s' = requests_inv s" "terminals_inv s' = terminals_inv s"
    "task_lists_inv s' = task_lists_inv s" "process_inv s' = process_inv s" "composer_ok s' = composer_ok s"
  unfolding s'_def
  by (rule frame_inv [where e = without_account, OF account_frame];
      simp add: inv_defs cong: option.case_cong)+

lemma request_others:
  fixes s :: app_state and a
  defines "s' \<equiv> fst (reduce_request s a)"
  shows "fork_inv s' = fork_inv s" "remote_inv s' = remote_inv s" "timelines_ok s' = timelines_ok s"
    "turns_inv s' = turns_inv s" "terminals_inv s' = terminals_inv s" "process_inv s' = process_inv s"
    "account_inv s' = account_inv s" "composer_ok s' = composer_ok s"
  unfolding s'_def
  by (rule frame_inv [where e = without_requests, OF request_frame];
      simp add: inv_defs cong: option.case_cong)+

lemma turn_others:
  fixes s :: app_state and a
  defines "s' \<equiv> fst (reduce_turn s a)"
  shows "fork_inv s' = fork_inv s" "remote_inv s' = remote_inv s" "requests_inv s' = requests_inv s"
    "terminals_inv s' = terminals_inv s" "process_inv s' = process_inv s" "account_inv s' = account_inv s"
  unfolding s'_def
  by (rule frame_inv [where e = without_turns, OF turn_frame];
      simp add: inv_defs cong: option.case_cong)+

lemma goal_others:
  fixes s :: app_state and a
  defines "s' \<equiv> fst (reduce_goal s a)"
  shows "fork_inv s' = fork_inv s" "remote_inv s' = remote_inv s" "requests_inv s' = requests_inv s"
    "terminals_inv s' = terminals_inv s" "process_inv s' = process_inv s" "account_inv s' = account_inv s"
  unfolding s'_def
  by (rule frame_inv [where e = without_turns, OF goal_frame];
      simp add: inv_defs cong: option.case_cong)+

lemma task_list_others:
  fixes s :: app_state and a
  defines "s' \<equiv> fst (reduce_task_list s a)"
  shows "fork_inv s' = fork_inv s" "remote_inv s' = remote_inv s" "requests_inv s' = requests_inv s"
    "terminals_inv s' = terminals_inv s" "process_inv s' = process_inv s" "account_inv s' = account_inv s"
    "composer_ok s' = composer_ok s"
  unfolding s'_def
  by (rule frame_inv [where e = without_task_lists, OF task_list_frame];
      simp add: inv_defs cong: option.case_cong)+

lemma timeline_others:
  fixes s :: app_state and a
  defines "s' \<equiv> fst (timeline_step s a)"
  shows "fork_inv s' = fork_inv s" "remote_inv s' = remote_inv s" "requests_inv s' = requests_inv s"
    "terminals_inv s' = terminals_inv s" "task_lists_inv s' = task_lists_inv s"
    "process_inv s' = process_inv s" "account_inv s' = account_inv s" "composer_ok s' = composer_ok s"
  unfolding s'_def
  by (rule frame_inv [where e = "\<lambda>s. s\<lparr>timelines := Map.empty\<rparr>", OF timeline_frame];
      simp add: inv_defs cong: option.case_cong)+

subsection \<open>Shared fields\<close>

text \<open>Signing in may take the connection down, never up.\<close>

lemma account_connection:
  "connection (fst (reduce_account s a)) = Online \<Longrightarrow> connection s = Online"
  by (cases a; simp add: account_handler_defs clear_restarting_message_def Let_def
      split: option.splits if_splits)

lemma account_remote_control: "remote_control (fst (reduce_account s a)) = remote_control s"
  using arg_cong [OF account_frame, of remote_control s a] by simp

lemma account_remote: "remote_inv s \<Longrightarrow> remote_inv (fst (reduce_account s a))"
  using account_connection [of s a] account_remote_control [of s a]
  by (auto simp: remote_inv_def deferred_ok_def remote_control_permitted_def)

lemma request_tasks: "length (tasks (fst (reduce_request s a))) = length (tasks s)"
  by (cases a)
    (simp_all add: approval_requested_def resolve_approval_def user_input_requested_def
      resolve_user_input_def set_task_status_def Let_def split: option.split)

lemma timelines_ok_update [simp]:
  "timelines_ok (s\<lparr>goals := g\<rparr>) = timelines_ok s"
  "timelines_ok (s\<lparr>status_message := m\<rparr>) = timelines_ok s"
  "timelines_ok (s\<lparr>composer_controls := c\<rparr>) = timelines_ok s"
  "timelines_ok (s\<lparr>background_completion_task_ids := b\<rparr>) = timelines_ok s"
  "timelines_ok (set_task_status t st s) = timelines_ok s"
  "timelines_ok (restore_retry_prompt p s) = timelines_ok s"
  by (simp_all add: timelines_ok_def set_task_status_def restore_retry_prompt_def Let_def)

lemma timeline_ok_others [simp]:
  "timeline_ok (t\<lparr>tl_goal_continuation_pending := b\<rparr>) = timeline_ok t"
  "timeline_ok (t\<lparr>tl_interrupt_pending := b\<rparr>) = timeline_ok t"
  "timeline_ok (t\<lparr>tl_compaction_in_flight := b\<rparr>) = timeline_ok t"
  "timeline_ok (t\<lparr>tl_active_turn_id := u\<rparr>) = timeline_ok t"
  "timeline_ok (t\<lparr>tl_active_review_turn_id := u\<rparr>) = timeline_ok t"
  "timeline_ok (t\<lparr>tl_last_turn_diff := d\<rparr>) = timeline_ok t"
  "timeline_ok (t\<lparr>tl_retryable_turn := r\<rparr>) = timeline_ok t"
  "timeline_ok (t\<lparr>tl_safety_buffering := w\<rparr>) = timeline_ok t"
  "timeline_ok (t\<lparr>tl_runtime_generation := g\<rparr>) = timeline_ok t"
  "timeline_ok (t\<lparr>tl_settings_generation := g\<rparr>) = timeline_ok t"
  "timeline_ok (t\<lparr>tl_runtime_status_loaded := b\<rparr>) = timeline_ok t"
  "timeline_ok (end_turn v t) = timeline_ok t"
  "timeline_ok (drop_buffering v t) = timeline_ok t"
  "timeline_ok (update_buffering p f t) = timeline_ok t"
  by (auto simp: timeline_ok_def indices_ok_def paging_ok_def usage_ok_def end_turn_def
      drop_buffering_def update_buffering_def Let_def split: option.split)


lemma schedule_goal_timelines_ok [simp]:
  "timelines_ok s \<Longrightarrow> timelines_ok (fst (schedule_goal_continuation t s))"
  by (rule schedule_goal_timelines)

lemma timeline_stored_ok:
  "timelines_ok s0 \<Longrightarrow> timeline_ok v \<Longrightarrow> timelines_ok (s\<lparr>timelines := (timelines s0)(t \<mapsto> v)\<rparr>)"
  by (auto simp: timelines_ok_def ran_def split: if_splits)

lemma timeline_stored_turns:
  "turns_inv s0 \<Longrightarrow> turns_inv s \<Longrightarrow> turn_ok v \<Longrightarrow>
   turns_inv (s\<lparr>timelines := (timelines s0)(t \<mapsto> v)\<rparr>)"
  by (auto simp: turns_inv_def ran_def split: if_splits)

lemma goal_timelines:
  assumes "timelines_ok s"
  shows "timelines_ok (fst (reduce_goal s a))"
proof -
  have found: "timelines s t = Some v \<Longrightarrow> timeline_ok v" for t v
    using assms by (auto simp: timelines_ok_def intro: ranI)
  show ?thesis
    using assms timeline_of_ok [OF assms]
    by (cases a)
      (auto simp: goal_loaded_def goal_load_failed_def goal_attachment_start_failed_def set_goal_def
        set_goal_status_def clear_goal_def goal_cleared_def goal_continuation_due_def
        goal_continuation_failed_def apply_thread_goal_snapshot_def Let_def case_prod_beta
        intro!: timeline_stored_ok intro: found split: option.splits)
qed

lemma goal_turns:
  assumes "turns_inv s"
  shows "turns_inv (fst (reduce_goal s a))"
proof -
  have found: "timelines s t = Some v \<Longrightarrow> turn_ok v" for t v
    using assms by (auto simp: turns_inv_def intro: ranI)
  show ?thesis
    using assms timeline_of_turn_ok [OF assms] schedule_goal_turns
    by (cases a)
      (auto simp: goal_loaded_def goal_load_failed_def goal_attachment_start_failed_def set_goal_def
        set_goal_status_def clear_goal_def goal_cleared_def goal_continuation_due_def
        goal_continuation_failed_def apply_thread_goal_snapshot_def Let_def case_prod_beta
        intro!: timeline_stored_turns schedule_goal_turns intro: found split: option.splits)
qed


lemma helpers_timelines [simp]:
  "timelines_ok (clear_unresolved_detached_review_terminal t u s) = timelines_ok s"
  "timelines_ok (record_pending_review_terminal t u s) = timelines_ok s"
  by (simp_all add: timelines_ok_def)

lemma turn_timelines:
  assumes "timelines_ok s"
  shows "timelines_ok (fst (reduce_turn s a))"
  using assms
  by (cases a)
    (auto simp: turn_handler_defs Let_def case_prod_beta timeline_of_ok
      intro!: timeline_stored_ok schedule_goal_timelines split: option.splits)

lemma restored_bounds:
  "composer_ok s \<Longrightarrow> composer_ok (restore_retry_prompt (normalize_retryable_user_message p) s)"
  by (rule restore_ok [OF normalized_message_bounds])

lemma composer_ok_update [simp]:
  "composer_ok (s\<lparr>timelines := m\<rparr>) = composer_ok s"
  "composer_ok (s\<lparr>goals := g\<rparr>) = composer_ok s"
  "composer_ok (s\<lparr>tasks := ts\<rparr>) = composer_ok s"
  "composer_ok (s\<lparr>review_start := r\<rparr>) = composer_ok s"
  "composer_ok (s\<lparr>composer_controls := c\<rparr>) = composer_ok s"
  "composer_ok (s\<lparr>status_message := e\<rparr>) = composer_ok s"
  "composer_ok (s\<lparr>background_completion_task_ids := b\<rparr>) = composer_ok s"
  by (simp_all add: composer_ok_def)

lemma helpers_composer [simp]:
  "composer_ok (clear_unresolved_detached_review_terminal t u s) = composer_ok s"
  "composer_ok (record_pending_review_terminal t u s) = composer_ok s"
  "composer_ok (fst (schedule_goal_continuation t s)) = composer_ok s"
  "composer_ok (set_task_status t st s) = composer_ok s"
  by (simp_all add: clear_unresolved_detached_review_terminal_def record_pending_review_terminal_def
      schedule_goal_continuation_def set_task_status_def Let_def split: option.split)

lemma turn_composer: "composer_ok s \<Longrightarrow> composer_ok (fst (reduce_turn s a))"
  by (cases a)
    (auto simp: turn_handler_defs Let_def case_prod_beta intro!: restored_bounds split: option.splits)

lemma goal_composer: "composer_ok s \<Longrightarrow> composer_ok (fst (reduce_goal s a))"
  by (cases a)
    (auto simp: goal_handler_defs Let_def case_prod_beta intro!: restored_bounds split: option.splits)


lemma resume_all_timelines:
  "timelines_ok s \<Longrightarrow> timelines_ok (fst (resume_all ids s))"
  by (induction ids arbitrary: s)
    (simp_all add: resume_task_effect_def Let_def case_prod_beta set_timeline_ok timeline_of_ok)

lemma resume_turn_ok [simp]:
  "turn_ok (t\<lparr>tl_runtime_generation := g\<rparr>) = turn_ok t"
  "turn_ok (t\<lparr>tl_settings_generation := g\<rparr>) = turn_ok t"
  "turn_ok (t\<lparr>tl_runtime_status_loaded := b\<rparr>) = turn_ok t"
  "turn_ok (t\<lparr>tl_item_indices := m\<rparr>) = turn_ok t"
  "turn_ok (t\<lparr>tl_next_cursor := c\<rparr>) = turn_ok t"
  "turn_ok (t\<lparr>tl_pagination_cursors := cs\<rparr>) = turn_ok t"
  "turn_ok (t\<lparr>tl_pagination_pages := n\<rparr>) = turn_ok t"
  "turn_ok (t\<lparr>tl_context_window_usage := u\<rparr>) = turn_ok t"
  by (simp_all add: turn_ok_def buffering_ok_def)

lemma resume_all_turns: "turns_inv s \<Longrightarrow> turns_inv (fst (resume_all ids s))"
  by (induction ids arbitrary: s)
    (simp_all add: resume_task_effect_def Let_def case_prod_beta set_timeline_turns timeline_of_turn_ok)

lemma task_list_timelines:
  assumes "timelines_ok s"
  shows "timelines_ok (fst (reduce_task_list s a))"
proof -
  have kept: "timelines_ok (s\<lparr>tasks := ts\<rparr>)" "timelines_ok (s\<lparr>tasks := ts, status_message := m\<rparr>)"
    for ts m using assms by (simp_all add: timelines_ok_def)
  have restored: "timelines_ok (fst (loaded_tasks_restored ts b s))" for ts b
    by (simp add: loaded_tasks_restored_def Let_def case_prod_beta resume_all_timelines kept)
  show ?thesis
  proof (cases "\<exists>ts b. a = LoadedTasksRestored ts b")
    case True
    then show ?thesis using restored by auto
  next
    case False
    with assms show ?thesis
      by (cases a) (auto simp: task_list_handler_defs timelines_ok_def Let_def ran_def split: option.split)
  qed
qed

lemma task_list_turns:
  assumes "turns_inv s"
  shows "turns_inv (fst (reduce_task_list s a))"
proof -
  have kept: "turns_inv (s\<lparr>tasks := ts, status_message := m\<rparr>)" for ts m
    using assms by (simp add: turns_inv_def)
  have restored: "turns_inv (fst (loaded_tasks_restored ts b s))" for ts b
    using assms by (simp add: loaded_tasks_restored_def Let_def case_prod_beta resume_all_turns kept)
  show ?thesis
  proof (cases "\<exists>ts b. a = LoadedTasksRestored ts b")
    case True
    then show ?thesis using restored by auto
  next
    case False
    with assms show ?thesis
      by (cases a) (auto simp: task_list_handler_defs turns_inv_def Let_def ran_def split: option.split)
  qed
qed

lemma push_item_turn_ok [simp]: "turn_ok (push_item item t) = turn_ok t"
  by (simp add: push_item_def trim_items_def rebuild_item_indices_def Let_def)

lemma update_item_turn_ok: "update_item_at i f t = Some t' \<Longrightarrow> turn_ok t' = turn_ok t"
  by (auto simp: update_item_at_def split: if_splits)

lemma agent_answered_turn_ok: "turn_ok t \<Longrightarrow> turn_ok (agent_answered k u t)"
  by (auto simp: agent_answered_def turn_ok_def)

lemma timeline_turns:
  assumes "turns_inv s"
  shows "turns_inv (fst (timeline_step s a))"
proof -
  have stored: "turns_inv (fst (case map_option (\<lambda>v. (set_timeline t v s, [])) r of
      None \<Rightarrow> (s, []) | Some p \<Rightarrow> p))" if "\<And>v. r = Some v \<Longrightarrow> turn_ok v" for r t
    using that assms by (cases r) (auto intro: set_timeline_turns)
  have old: "turn_ok (timeline_of s t)" for t by (rule timeline_of_turn_ok [OF assms])
  have set: "turns_inv (set_timeline t v s)" if "turn_ok v" for t v
    using assms that by (rule set_timeline_turns)
  show ?thesis
  proof (cases a)
    case (TimelineDelta t u i k d)
    have "turn_ok v" if "(case item_index (agent_answered k u (timeline_of s t)) i of
          Some index \<Rightarrow> update_item_at index (append_delta d) (agent_answered k u (timeline_of s t))
        | None \<Rightarrow> Some (push_item (delta_item u i k d) (agent_answered k u (timeline_of s t)))) = Some v" for v
      using that agent_answered_turn_ok [OF old]
      by (auto split: option.splits dest: update_item_turn_ok)
    then show ?thesis
      unfolding TimelineDelta timeline_step_def reduce_timeline.simps timeline_delta_def Let_def
      by (rule stored)
  next
    case (UpsertTimelineItem t item)
    define v where "v = (if ti_kind item = ContextCompaction \<and> ti_completed item
      then (agent_answered (ti_kind item) (ti_turn_id item) (timeline_of s t))\<lparr>tl_compaction_in_flight := False\<rparr>
      else agent_answered (ti_kind item) (ti_turn_id item) (timeline_of s t))"
    have v: "turn_ok v" using agent_answered_turn_ok [OF old] by (simp add: v_def)
    have "turn_ok w" if "(case item_index v (ti_id item) of
          Some index \<Rightarrow> update_item_at index (\<lambda>_. item) v
        | None \<Rightarrow> Some (push_item item v)) = Some w" for w
      using that v by (auto split: option.splits dest: update_item_turn_ok)
    then show ?thesis
      unfolding UpsertTimelineItem timeline_step_def reduce_timeline.simps upsert_timeline_item_def
        Let_def v_def [symmetric]
      by (rule stored)
  next
    case (TimelineItemCompleted t i)
    show ?thesis
      unfolding TimelineItemCompleted timeline_step_def reduce_timeline.simps
        timeline_item_completed_def Let_def
      by (rule stored) (auto simp: old split: option.splits if_splits dest: update_item_turn_ok)
  qed (auto simp: timeline_step_def load_more_timeline_def timeline_loaded_def timeline_failed_def
      thread_token_usage_updated_def trim_items_def rebuild_item_indices_def Let_def old assms
      intro!: set split: option.splits)
qed


lemma timeline_length_update [simp]: "task_lists_inv (set_timeline t v s) = task_lists_inv s"
  by (simp add: task_lists_defs)

lemma helpers_task_count:
  "length (tasks (clear_unresolved_detached_review_terminal t u s)) = length (tasks s)"
  "length (tasks (record_pending_review_terminal t u s)) = length (tasks s)"
  "length (tasks (set_task_status t st s)) = length (tasks s)"
  "length (tasks (restore_retry_prompt p s)) = length (tasks s)"
  "length (tasks (fst (schedule_goal_continuation t s))) = length (tasks s)"
  "length (tasks (set_timeline t v s)) = length (tasks s)"
  "length (tasks (s\<lparr>goals := g\<rparr>)) = length (tasks s)"
  "length (tasks (s\<lparr>composer_controls := c\<rparr>)) = length (tasks s)"
  "length (tasks (s\<lparr>background_completion_task_ids := b\<rparr>)) = length (tasks s)"
  "length (tasks (s\<lparr>status_message := m\<rparr>)) = length (tasks s)"
  by (simp_all add: clear_unresolved_detached_review_terminal_def record_pending_review_terminal_def
      set_task_status_def restore_retry_prompt_def schedule_goal_continuation_def Let_def
      split: option.split)

lemma turn_tasks: "length (tasks (fst (reduce_turn s a))) = length (tasks s)"
  by (cases a)
    (simp_all only: reduce_turn.simps turn_handler_defs Let_def case_prod_beta fst_conv
      helpers_task_count if_distrib [of fst] if_distrib [of tasks] if_distrib [of length] if_cancel
      split: option.split if_split,
     simp_all only: fst_conv helpers_task_count simp_thms)

lemma turn_lists:
  "task_search (fst (reduce_turn s a)) = task_search s"
  "archived_tasks (fst (reduce_turn s a)) = archived_tasks s"
  "pinned_task_ids (fst (reduce_turn s a)) = pinned_task_ids s"
  using arg_cong [OF turn_frame, of task_search s a] arg_cong [OF turn_frame, of archived_tasks s a]
    arg_cong [OF turn_frame, of pinned_task_ids s a]
  by simp_all

lemma turn_task_lists: "task_lists_inv (fst (reduce_turn s a)) = task_lists_inv s"
  by (simp add: task_lists_defs turn_lists turn_tasks)

lemma goal_task_lists: "task_lists_inv (fst (reduce_goal s a)) = task_lists_inv s"
  by (cases a)
    (auto simp: task_lists_defs goal_handler_defs restore_retry_prompt_def Let_def case_prod_beta
      split: option.split)

lemma request_task_lists: "task_lists_inv (fst (reduce_request s a)) = task_lists_inv s"
  using arg_cong [OF request_frame, of task_search s a] arg_cong [OF request_frame, of archived_tasks s a]
    arg_cong [OF request_frame, of pinned_task_ids s a]
  by (simp add: task_lists_defs request_tasks)

end
