(* ===== verification/Composition.thy ===== *)
theory Composition
  imports Component_Frames
begin

text \<open>
  The components under one dispatch: \<open>reduce\<close> of \<open>crates/codex-core/src/lib.rs\<close> matches every
  action on the same \<open>AppState\<close>. Each component leaves the fields of the others alone or keeps
  their invariants, so all invariants hold together over any interleaving of all actions.
\<close>

subsection \<open>One dispatch\<close>

datatype (plugins only: code size) app_action =
    On_Fork fork_action
  | On_Remote remote_action
  | On_Timeline timeline_action
  | On_Turn turn_action
  | On_Goal goal_action
  | On_Request request_action
  | On_Terminal terminal_action
  | On_Task_List task_list_action
  | On_Process process_action
  | On_Account account_action
  | On_Composer composer_action

fun reduce_app :: "app_state \<Rightarrow> app_action \<Rightarrow> step_result option" where
  "reduce_app s (On_Fork a) = Some (reduce_fork s a)"
| "reduce_app s (On_Remote a) = Some (reduce_remote s a)"
| "reduce_app s (On_Timeline a) = reduce_timeline s a"
| "reduce_app s (On_Turn a) = Some (reduce_turn s a)"
| "reduce_app s (On_Goal a) = Some (reduce_goal s a)"
| "reduce_app s (On_Request a) = Some (reduce_request s a)"
| "reduce_app s (On_Terminal a) = Some (reduce_terminal s a)"
| "reduce_app s (On_Task_List a) = Some (reduce_task_list s a)"
| "reduce_app s (On_Process a) = Some (reduce_process s a)"
| "reduce_app s (On_Account a) = Some (reduce_account s a)"
| "reduce_app s (On_Composer a) = Some (reduce_composer s a)"

text \<open>A run stops (\<open>None\<close>) at the first panic.\<close>

fun run_app :: "app_state \<Rightarrow> app_action list \<Rightarrow> step_result option" where
  "run_app s [] = Some (s, [])"
| "run_app s (a # as) =
     Option.bind (reduce_app s a) (\<lambda>(s1, es1).
       map_option (\<lambda>(s2, es2). (s2, es1 @ es2)) (run_app s1 as))"

definition app_inv :: "app_state \<Rightarrow> bool" where
  "app_inv s \<longleftrightarrow>
     fork_inv s \<and> remote_inv s \<and> timelines_ok s \<and> turns_inv s \<and> requests_inv s
     \<and> terminals_inv s \<and> task_lists_inv s \<and> process_inv s \<and> account_inv s \<and> composer_ok s"

lemma step_keeps_all:
  assumes "app_inv s"
  shows "\<exists>s' es. reduce_app s a = Some (s', es) \<and> app_inv s'"
proof -
  have all: "fork_inv s" "remote_inv s" "timelines_ok s" "turns_inv s" "requests_inv s"
    "terminals_inv s" "task_lists_inv s" "process_inv s" "account_inv s" "composer_ok s"
    using assms by (simp_all add: app_inv_def)
  note own = fork_queue.step_inv remote.step_inv timeline.step_inv turns.step_inv requests.step_inv
    terminals.step_inv task_lists.step_inv processes.step_inv account.step_inv composer.step_inv
  have total: "\<exists>s' es. Some r = Some (s', es) \<and> app_inv s'" if "app_inv (fst r)" for r :: step_result
    using that by (cases r) simp
  show ?thesis
  proof (cases a)
    case (On_Timeline b)
    obtain s' es where r: "reduce_timeline s b = Some (s', es)"
      using reduce_timeline_ok [OF all(3), of b] by (auto simp: returns_ok_def)
    then have "s' = fst (timeline_step s b)" by (simp add: timeline_step_def)
    then have "app_inv s'"
      using all timeline_step_ok timeline_turns by (simp add: app_inv_def timeline_others)
    with On_Timeline r show ?thesis by simp
  qed (simp_all only: reduce_app.simps, (rule total, simp add: app_inv_def all own fork_others remote_others terminal_others
      process_others composer_others account_others request_others turn_others goal_others
      task_list_others account_remote request_task_lists turn_task_lists goal_task_lists
      turn_timelines goal_timelines goal_turns task_list_timelines task_list_turns turn_composer
      goal_composer)+)
qed

text \<open>
  No interleaving of the actions of all components panics, and every state it reaches
  satisfies the invariants of all components: bounded and distinct queues, lists, tabs and texts,
  well-formed forks, remote control, turns and sign-in, and exact item indices.
\<close>

theorem reducer_safe:
  assumes "app_inv s"
  shows "\<exists>s' es. run_app s as = Some (s', es) \<and> app_inv s'"
  using assms
proof (induction as arbitrary: s)
  case Nil
  then show ?case by simp
next
  case (Cons a as)
  obtain s1 es1 where step: "reduce_app s a = Some (s1, es1)" and inv: "app_inv s1"
    using step_keeps_all [OF Cons.prems] by blast
  obtain s' es where "run_app s1 as = Some (s', es)" "app_inv s'" using Cons.IH [OF inv] by blast
  with step show ?case by simp
qed

text \<open>The state a client starts with satisfies all invariants.\<close>

lemma default_app_inv: "app_inv default_app_state"
proof -
  have "login_ok default_account" "details_ok default_account" by simp_all
  then show ?thesis
    by (simp add: app_inv_def inv_defs default_app_state_def default_remote_control_def remote_ok_def
        busy_ok_def link_ok_def devices_ok_def bounded_remote_cursor_def terminal_ok_def
        active_ok_for_def tabs_for_def background_ok_def terminals_ok_def feedback_ok_def
        default_terminal_def default_task_search_def default_archived_tasks_def
        default_process_manager_def default_review_start_def MAX_PENDING_WORKTREE_FORKS_def)
qed

lemma reducer_safe_witness:
  "\<exists>s' es. run_app default_app_state
     [On_Composer (ComposerChanged ''hi''), On_Account account_action.StartAccountLogin,
      On_Timeline (TimelineDelta ''t'' ''u'' ''i'' timeline_kind.Agent ''text''),
      On_Turn (TurnStarted ''t'' ''u''), On_Remote RefreshRemoteControlStatus] = Some (s', es) \<and> app_inv s'"
  by (rule reducer_safe [OF default_app_inv])

end
