(* ===== verification/Text_Split.thy ===== *)
theory Text_Split
  imports Utf8
begin

text \<open>
  The splitting functions of Rust's standard library that the parsers use: \<open>slice::split\<close>,
  \<open>splitn\<close>, \<open>str::lines\<close>, \<open>str::split_whitespace\<close>, \<open>str::strip_prefix\<close>, and what each gives back
  on text that was joined.
\<close>

subsection \<open>Definitions\<close>

fun split_by :: "('a \<Rightarrow> bool) \<Rightarrow> 'a list \<Rightarrow> 'a list list" where
  "split_by p [] = [[]]"
| "split_by p (x # xs) =
     (if p x then [] # split_by p xs
      else (case split_by p xs of [] \<Rightarrow> [[x]] | y # ys \<Rightarrow> (x # y) # ys))"

fun splitn :: "nat \<Rightarrow> char \<Rightarrow> str \<Rightarrow> str list" where
  "splitn 0 c v = []"
| "splitn (Suc 0) c v = [v]"
| "splitn (Suc (Suc n)) c v =
     (case dropWhile (\<lambda>x. x \<noteq> c) v of
        [] \<Rightarrow> [v]
      | _ # rest \<Rightarrow> takeWhile (\<lambda>x. x \<noteq> c) v # splitn (Suc n) c rest)"

definition strip_prefix :: "str \<Rightarrow> str \<Rightarrow> str option" where
  "strip_prefix prefix v =
     (if take (length prefix) v = prefix then Some (drop (length prefix) v) else None)"

definition LF :: char where
  "LF = CHR 0x0A"

definition CR :: char where
  "CR = CHR 0x0D"

text \<open>A line ends with LF or CR LF; the rest after the last LF is a line unless it is empty.\<close>

definition str_lines :: "str \<Rightarrow> str list" where
  "str_lines v =
     (let parts = split_by (\<lambda>c. c = LF) v;
          strip = (\<lambda>l. if l \<noteq> [] \<and> last l = CR then butlast l else l)
      in map strip (butlast parts) @ (if last parts = [] then [] else [last parts]))"

definition split_whitespace :: "str \<Rightarrow> str list" where
  "split_whitespace v =
     map concat (filter (\<lambda>w. w \<noteq> []) (split_by is_whitespace (chars v)))"

subsection \<open>Splitting what was joined\<close>

lemma split_by_nonempty [simp]: "split_by p xs \<noteq> []"
  by (induction xs) (auto split: list.splits)

lemma split_by_no: "list_all (\<lambda>x. \<not> p x) xs \<Longrightarrow> split_by p xs = [xs]"
  by (induction xs) auto

lemma split_by_append:
  "list_all (\<lambda>x. \<not> p x) xs \<Longrightarrow> p c \<Longrightarrow> split_by p (xs @ c # ys) = xs # split_by p ys"
  by (induction xs) auto

text \<open>Every record is followed by the separator.\<close>

lemma split_by_terminated:
  "\<forall>xs \<in> set xss. list_all (\<lambda>x. \<not> p x) xs \<Longrightarrow> p c \<Longrightarrow>
   split_by p (concat (map (\<lambda>xs. xs @ [c]) xss) @ ys) = xss @ split_by p ys"
  by (induction xss) (auto simp: split_by_append)

lemma splitn_join:
  "c \<notin> set v \<Longrightarrow> splitn (Suc (Suc n)) c (v @ c # rest) = v # splitn (Suc n) c rest"
proof -
  assume v: "c \<notin> set v"
  then have "\<forall>x \<in> set v. x \<noteq> c" by auto
  then have "dropWhile (\<lambda>x. x \<noteq> c) (v @ c # rest) = c # rest"
    and "takeWhile (\<lambda>x. x \<noteq> c) (v @ c # rest) = v"
    by (simp_all add: dropWhile_append2 takeWhile_append2)
  then show ?thesis by simp
qed

lemma splitn_length: "length (splitn n c v) \<le> n"
  by (induction n c v rule: splitn.induct) (auto split: list.split)

lemma strip_prefix_append [simp]: "strip_prefix p (p @ v) = Some v"
  by (simp add: strip_prefix_def)

lemma strip_prefix_Some: "strip_prefix p v = Some r \<longleftrightarrow> v = p @ r"
  by (auto simp: strip_prefix_def) (metis append_take_drop_id)

lemma str_lines_terminated:
  assumes "\<forall>l \<in> set ls. LF \<notin> set l \<and> (l = [] \<or> last l \<noteq> CR)"
  shows "str_lines (concat (map (\<lambda>l. l @ [LF]) ls)) = ls"
proof -
  have "split_by (\<lambda>c. c = LF) (concat (map (\<lambda>l. l @ [LF]) ls) @ []) = ls @ [[]]"
    using assms by (subst split_by_terminated) (auto simp: list_all_iff)
  moreover have "map (\<lambda>l. if l \<noteq> [] \<and> last l = CR then butlast l else l) ls = ls"
    by (rule map_idI) (use assms in auto)
  ultimately show ?thesis by (simp add: str_lines_def)
qed

text \<open>Two words.\<close>

lemma ascii_chars: "list_all (\<lambda>c. byte c < 128) v \<Longrightarrow> chars v = map (\<lambda>c. [c]) v"
  by (induction v) (simp_all add: utf8_width_def)

lemma split_whitespace_two:
  assumes "list_all (\<lambda>c. 33 \<le> byte c \<and> byte c < 127) v" and "list_all (\<lambda>c. 33 \<le> byte c \<and> byte c < 127) w"
    and "v \<noteq> []" and "w \<noteq> []"
  shows "split_whitespace (v @ CHR '' '' # w) = [v, w]"
proof -
  have printed: "list_all (\<lambda>c. \<not> is_whitespace c) (map (\<lambda>c. [c]) u)"
    if "list_all (\<lambda>c. 33 \<le> byte c \<and> byte c < 127) u" for u
    using that by (auto simp: list_all_iff is_whitespace_def Let_def)
  have "list_all (\<lambda>c. byte c < 128) (v @ CHR '' '' # w)" using assms by (auto simp: list_all_iff)
  from ascii_chars [OF this]
  have "chars (v @ CHR '' '' # w) = map (\<lambda>c. [c]) v @ '' '' # map (\<lambda>c. [c]) w" by simp
  moreover have "is_whitespace '' ''" by (simp add: is_whitespace_def)
  ultimately have "split_by is_whitespace (chars (v @ CHR '' '' # w))
      = [map (\<lambda>c. [c]) v, map (\<lambda>c. [c]) w]"
    using printed assms(1,2) by (simp add: split_by_append split_by_no)
  moreover have "concat (map (\<lambda>c. [c]) u) = u" for u :: str by (induction u) simp_all
  ultimately show ?thesis using assms(3,4) by (simp add: split_whitespace_def)
qed

end
