(* ===== verification/Browser_Permissions.thy ===== *)
theory Browser_Permissions
  imports Core_Types Text_Split "HOL-Library.Char_ord" "HOL-Library.List_Lexorder"
begin

text \<open>
  The browser permissions of \<open>crates/codex-core/src/lib.rs\<close>: the list of sites with what each may
  do, kept sorted by origin, one entry per origin and bounded, and the decision for the sites that
  match an address. Origins are compared as \<open>str\<close> compares them, byte by byte.
\<close>

definition MAX_BROWSER_PERMISSION_ORIGIN_BYTES :: nat where
  "MAX_BROWSER_PERMISSION_ORIGIN_BYTES = 8 * 1024"

definition MAX_BROWSER_SITE_PERMISSIONS :: nat where
  "MAX_BROWSER_SITE_PERMISSIONS = 200"

datatype browser_approval_mode = AlwaysAsk | NeverAsk

datatype browser_permission_value = Default | Allow | Block

datatype browser_permission_resource = Browse | Download | Upload | FullCdp

record browser_site_permission =
  sp_origin :: str
  sp_browse :: browser_permission_value
  sp_download :: browser_permission_value
  sp_upload :: browser_permission_value
  sp_full_cdp :: browser_permission_value

definition permission :: "browser_permission_resource \<Rightarrow> browser_site_permission \<Rightarrow> browser_permission_value" where
  "permission resource s =
     (case resource of
        Browse \<Rightarrow> sp_browse s | Download \<Rightarrow> sp_download s | Upload \<Rightarrow> sp_upload s | FullCdp \<Rightarrow> sp_full_cdp s)"

definition set_permission ::
  "browser_permission_resource \<Rightarrow> browser_permission_value \<Rightarrow> browser_site_permission
   \<Rightarrow> browser_site_permission" where
  "set_permission resource value s =
     (case resource of
        Browse \<Rightarrow> s\<lparr>sp_browse := value\<rparr> | Download \<Rightarrow> s\<lparr>sp_download := value\<rparr>
      | Upload \<Rightarrow> s\<lparr>sp_upload := value\<rparr> | FullCdp \<Rightarrow> s\<lparr>sp_full_cdp := value\<rparr>)"

definition is_default :: "browser_site_permission \<Rightarrow> bool" where
  "is_default s \<longleftrightarrow>
     sp_browse s = Default \<and> sp_download s = Default \<and> sp_upload s = Default \<and> sp_full_cdp s = Default"

record browser_permissions_state =
  bp_approval_mode :: browser_approval_mode
  bp_download_approval_mode :: browser_approval_mode
  bp_upload_approval_mode :: browser_approval_mode
  bp_full_cdp_access_enabled :: bool
  bp_sites :: "browser_site_permission list"

definition default_browser_permissions :: browser_permissions_state where
  "default_browser_permissions =
     \<lparr>bp_approval_mode = AlwaysAsk, bp_download_approval_mode = AlwaysAsk,
      bp_upload_approval_mode = AlwaysAsk, bp_full_cdp_access_enabled = False, bp_sites = []\<rparr>"

definition bounded_origin :: "browser_site_permission \<Rightarrow> browser_site_permission" where
  "bounded_origin s =
     s\<lparr>sp_origin := bounded_string (trim (sp_origin s)) MAX_BROWSER_PERMISSION_ORIGIN_BYTES\<rparr>"

definition origin_allowed :: "str \<Rightarrow> bool" where
  "origin_allowed origin \<longleftrightarrow> origin \<noteq> [] \<and> \<not> list_ex is_control (chars origin)"

definition normalized :: "browser_permissions_state \<Rightarrow> browser_permissions_state" where
  "normalized p =
     (let kept = retain_first sp_origin {}
            (filter (\<lambda>s. origin_allowed (sp_origin s) \<and> \<not> is_default s) (map bounded_origin (bp_sites p)))
      in p\<lparr>bp_sites := sort_key sp_origin (take MAX_BROWSER_SITE_PERMISSIONS kept)\<rparr>)"

definition upsert_site :: "browser_site_permission \<Rightarrow> browser_permissions_state \<Rightarrow> browser_permissions_state" where
  "upsert_site site p =
     (let site = bounded_origin site
      in if \<not> origin_allowed (sp_origin site) then p
         else let sites = filter (\<lambda>entry. sp_origin entry \<noteq> sp_origin site) (bp_sites p);
                  sites = (if \<not> is_default site \<and> length sites < MAX_BROWSER_SITE_PERMISSIONS
                           then sites @ [site] else sites)
              in p\<lparr>bp_sites := sort_key sp_origin sites\<rparr>)"

definition remove_site :: "str \<Rightarrow> browser_permissions_state \<Rightarrow> browser_permissions_state" where
  "remove_site origin p = p\<lparr>bp_sites := filter (\<lambda>s. sp_origin s \<noteq> origin) (bp_sites p)\<rparr>"

fun permission_scan ::
  "browser_permission_resource \<Rightarrow> (str \<Rightarrow> bool) \<Rightarrow> bool \<Rightarrow> browser_site_permission list
   \<Rightarrow> browser_permission_value" where
  "permission_scan resource matches allowed [] = (if allowed then Allow else Default)"
| "permission_scan resource matches allowed (s # ss) =
     (if \<not> matches (sp_origin s) then permission_scan resource matches allowed ss
      else case permission resource s of
             Block \<Rightarrow> Block
           | Allow \<Rightarrow> permission_scan resource matches True ss
           | Default \<Rightarrow> permission_scan resource matches allowed ss)"

definition permission_matching ::
  "browser_permission_resource \<Rightarrow> (str \<Rightarrow> bool) \<Rightarrow> browser_permissions_state
   \<Rightarrow> browser_permission_value" where
  "permission_matching resource matches p = permission_scan resource matches False (bp_sites p)"

subsection \<open>Well-formed permissions\<close>

definition site_ok :: "browser_site_permission \<Rightarrow> bool" where
  "site_ok s \<longleftrightarrow>
     origin_allowed (sp_origin s) \<and> \<not> is_default s
     \<and> length (sp_origin s) \<le> MAX_BROWSER_PERMISSION_ORIGIN_BYTES"

definition permissions_ok :: "browser_permissions_state \<Rightarrow> bool" where
  "permissions_ok p \<longleftrightarrow>
     (\<forall>s \<in> set (bp_sites p). site_ok s) \<and> distinct (map sp_origin (bp_sites p))
     \<and> sorted (map sp_origin (bp_sites p)) \<and> length (bp_sites p) \<le> MAX_BROWSER_SITE_PERMISSIONS"

lemma bounded_origin_length: "length (sp_origin (bounded_origin s)) \<le> MAX_BROWSER_PERMISSION_ORIGIN_BYTES"
  by (simp add: bounded_origin_def)

lemma is_default_bounded [simp]: "is_default (bounded_origin s) = is_default s"
  by (simp add: is_default_def bounded_origin_def)

lemma distinct_sort_key: "distinct (map f (sort_key f xs)) = distinct (map f xs)"
  by (metis mset_map mset_sort mset_eq_imp_distinct_iff)

lemma default_permissions_ok: "permissions_ok default_browser_permissions"
  by (simp add: permissions_ok_def default_browser_permissions_def)

lemma filter_bounded: "length xs \<le> n \<Longrightarrow> length (filter P xs) \<le> n"
  using length_filter_le order_trans by blast

lemma upsert_site_ok:
  assumes "permissions_ok p"
  shows "permissions_ok (upsert_site site p)"
proof -
  let ?site = "bounded_origin site"
  let ?rest = "filter (\<lambda>entry. sp_origin entry \<noteq> sp_origin ?site) (bp_sites p)"
  have "distinct (map sp_origin ?rest)" using assms by (simp add: permissions_ok_def distinct_map_filter)
  moreover have "length ?rest \<le> MAX_BROWSER_SITE_PERMISSIONS"
    using assms by (intro filter_bounded) (simp add: permissions_ok_def)
  moreover have "sp_origin ?site \<notin> set (map sp_origin ?rest)" by auto
  moreover have "\<forall>s \<in> set ?rest. site_ok s" using assms by (simp add: permissions_ok_def)
  ultimately show ?thesis
    using assms bounded_origin_length [of site]
    unfolding upsert_site_def permissions_ok_def Let_def
    by (auto simp: distinct_sort_key site_ok_def)
qed

lemma remove_ok: "permissions_ok p \<Longrightarrow> permissions_ok (remove_site origin p)"
  by (simp add: permissions_ok_def remove_site_def distinct_map_filter sorted_filter filter_bounded)

lemma normalized_ok: "permissions_ok (normalized p)"
proof -
  let ?kept = "retain_first sp_origin {}
      (filter (\<lambda>s. origin_allowed (sp_origin s) \<and> \<not> is_default s) (map bounded_origin (bp_sites p)))"
  have "distinct (map sp_origin ?kept)" by (rule distinct_retain_first)
  then have "distinct (map sp_origin (take MAX_BROWSER_SITE_PERMISSIONS ?kept))"
    unfolding take_map [symmetric] by (rule distinct_take)
  moreover have "site_ok s" if "s \<in> set (take MAX_BROWSER_SITE_PERMISSIONS ?kept)" for s
    using in_set_retain_firstD [OF in_set_takeD [OF that]] bounded_origin_length
    by (auto simp: site_ok_def)
  ultimately show ?thesis by (simp add: permissions_ok_def normalized_def Let_def distinct_sort_key)
qed


lemma normalized_id:
  assumes "permissions_ok p" and "\<forall>s \<in> set (bp_sites p). trim (sp_origin s) = sp_origin s"
  shows "normalized p = p"
proof -
  have bounded: "map bounded_origin (bp_sites p) = bp_sites p"
  proof (rule map_idI)
    fix s assume "s \<in> set (bp_sites p)"
    with assms show "bounded_origin s = s"
      by (simp add: bounded_origin_def permissions_ok_def site_ok_def bounded_string_id)
  qed
  have "filter (\<lambda>s. origin_allowed (sp_origin s) \<and> \<not> is_default s) (bp_sites p) = bp_sites p"
    using assms(1) by (simp add: permissions_ok_def site_ok_def filter_id_conv)
  moreover have "retain_first sp_origin {} (bp_sites p) = bp_sites p"
    using assms(1) by (intro retain_first_id) (simp_all add: permissions_ok_def)
  moreover have "sort_key sp_origin (bp_sites p) = bp_sites p"
    using assms(1) by (intro sort_key_id_if_sorted) (simp add: permissions_ok_def)
  ultimately show ?thesis using assms(1) by (simp add: normalized_def bounded permissions_ok_def)
qed

subsection \<open>Decisions\<close>

lemma permission_scan_spec:
  "permission_scan resource matches allowed ss =
     (if \<exists>s \<in> set ss. matches (sp_origin s) \<and> permission resource s = Block then Block
      else if allowed \<or> (\<exists>s \<in> set ss. matches (sp_origin s) \<and> permission resource s = Allow) then Allow
      else Default)"
proof (induction ss arbitrary: allowed)
  case Nil
  show ?case by simp
next
  case (Cons s ss)
  show ?case
    by (cases "matches (sp_origin s)"; cases "permission resource s") (auto simp: Cons.IH)
qed

lemma permission_matching_spec:
  "permission_matching resource matches p =
     (if \<exists>s \<in> set (bp_sites p). matches (sp_origin s) \<and> permission resource s = Block then Block
      else if \<exists>s \<in> set (bp_sites p). matches (sp_origin s) \<and> permission resource s = Allow then Allow
      else Default)"
  by (simp add: permission_matching_def permission_scan_spec)

lemma upsert_sites:
  assumes "origin_allowed (sp_origin (bounded_origin site))"
    and "length (filter (\<lambda>s. sp_origin s \<noteq> sp_origin (bounded_origin site)) (bp_sites p)) < MAX_BROWSER_SITE_PERMISSIONS"
  shows "set (bp_sites (upsert_site site p))
    = {s \<in> set (bp_sites p). sp_origin s \<noteq> sp_origin (bounded_origin site)}
      \<union> (if is_default site then {} else {bounded_origin site})"
  using assms by (auto simp: upsert_site_def Let_def)

lemma permission_bounded [simp]: "permission resource (bounded_origin s) = permission resource s"
  by (simp add: permission_def bounded_origin_def split: browser_permission_resource.split)

lemma permission_default: "is_default s \<Longrightarrow> permission resource s = Default"
  by (simp add: permission_def is_default_def split: browser_permission_resource.split)



end
