(* ===== verification/Mcp_Elicitations.thy ===== *)
theory Mcp_Elicitations
  imports Approvals Dates Browser_Permissions
begin

text \<open>
  What MCP servers ask of the user (the elicitation actions of \<open>reduce\<close>,
  \<open>normalize_mcp_elicitation\<close> and \<open>validate_mcp_form_content\<close> in \<open>crates/codex-core/src/lib.rs\<close>):
  a bounded queue of questions, forms that are accepted only when every field is valid, and browser
  decisions that may be recorded as permissions. \<open>parse_f64\<close> stands for \<open>str::parse::<f64>\<close>, whose
  rounding is not modelled. The state is the reducer's state with the two fields these actions add.
\<close>

definition MAX_PENDING_MCP_ELICITATIONS :: nat where
  "MAX_PENDING_MCP_ELICITATIONS = 64"

definition MAX_MCP_FORM_FIELDS :: nat where
  "MAX_MCP_FORM_FIELDS = 32"

definition MAX_MCP_FORM_OPTIONS :: nat where
  "MAX_MCP_FORM_OPTIONS = 64"

definition MAX_MCP_FORM_VALUE_BYTES :: nat where
  "MAX_MCP_FORM_VALUE_BYTES = 8 * 1024"

definition MAX_MCP_FORM_IMAGE_DATA_URL_BYTES :: nat where
  "MAX_MCP_FORM_IMAGE_DATA_URL_BYTES = 4 * 1024 * 1024"

datatype mcp_elicitation_decision = McpAccept | McpDecline | McpCancel

datatype browser_origin_elicitation_decision = OriginAllowOnce | AllowSite | AllowAll | OriginDeny

datatype browser_resource_elicitation_decision =
  ResourceAllowOnce | AllowConversation | AlwaysAllow | ResourceDeny

datatype mcp_elicitation_value =
    McpString str | McpNumber str | McpBoolean bool | McpStrings "str list"

datatype mcp_form_string_format = Email | Uri | Date | DateTime

record mcp_form_option =
  fo_value :: str
  fo_label :: str

record mcp_form_image_picker_item =
  ip_value :: str
  ip_title :: str
  ip_image_data_url :: str

datatype mcp_form_field_kind =
    StringField "nat option" "nat option" "mcp_form_string_format option"
  | SingleSelect "mcp_form_option list"
  | MultiSelect "mcp_form_option list" "nat option" "nat option"
  | ImagePicker "mcp_form_image_picker_item list"
  | BooleanField
  | NumberField bool "str option" "str option"

record mcp_form_field =
  ff_name :: str
  ff_title :: str
  ff_description :: "str option"
  ff_required :: bool
  ff_kind :: mcp_form_field_kind
  ff_default :: "mcp_elicitation_value option"

text \<open>The fields that all four kinds of request have.\<close>

record mcp_request =
  mr_request_id :: str
  mr_task_id :: str
  mr_turn_id :: "str option"
  mr_server_name :: str
  mr_message :: str

record mcp_browser_origin_elicitation = mcp_request +
  bo_source_name :: str
  bo_origin :: str
  bo_reason :: "str option"

record mcp_browser_resource_elicitation = mcp_request +
  br_source_name :: str
  br_origin :: str
  br_resource :: browser_permission_resource
  br_reason :: "str option"
  br_persist_session :: bool
  br_persist_always :: bool
  br_elevated_risk :: bool

record mcp_url_elicitation = mcp_request +
  ul_elicitation_id :: str
  ul_url :: str
  ul_link_opened :: bool

record mcp_form_elicitation = mcp_request +
  fm_openai :: bool
  fm_unsupported_openai :: bool
  fm_fields :: "mcp_form_field list"

datatype mcp_elicitation =
    BrowserOrigin mcp_browser_origin_elicitation
  | BrowserResource mcp_browser_resource_elicitation
  | UrlRequest mcp_url_elicitation
  | FormRequest mcp_form_elicitation

fun request_id :: "mcp_elicitation \<Rightarrow> str" where
  "request_id (BrowserOrigin r) = mr_request_id r"
| "request_id (BrowserResource r) = mr_request_id r"
| "request_id (UrlRequest r) = mr_request_id r"
| "request_id (FormRequest r) = mr_request_id r"

fun elicitation_task_id :: "mcp_elicitation \<Rightarrow> str" where
  "elicitation_task_id (BrowserOrigin r) = mr_task_id r"
| "elicitation_task_id (BrowserResource r) = mr_task_id r"
| "elicitation_task_id (UrlRequest r) = mr_task_id r"
| "elicitation_task_id (FormRequest r) = mr_task_id r"

type_synonym elicitation_content = "(str \<times> mcp_elicitation_value) list"

subsection \<open>Normalisation\<close>

definition bounded_optional :: "str option \<Rightarrow> str option" where
  "bounded_optional v =
     (case map_option bounded_field v of
        None \<Rightarrow> None
      | Some v \<Rightarrow> if v = [] then None else Some v)"

definition normalize_mcp_request :: "'a mcp_request_scheme \<Rightarrow> 'a mcp_request_scheme" where
  "normalize_mcp_request r =
     r\<lparr>mr_task_id := bounded_field (mr_task_id r), mr_turn_id := bounded_optional (mr_turn_id r),
       mr_server_name := bounded_field (mr_server_name r), mr_message := bounded_field (mr_message r)\<rparr>"

definition normalize_mcp_option :: "mcp_form_option \<Rightarrow> mcp_form_option" where
  "normalize_mcp_option o' =
     (let value = bounded_string (trim (fo_value o')) MAX_MCP_FORM_VALUE_BYTES;
          label = bounded_field (fo_label o')
      in o'\<lparr>fo_value := value, fo_label := if label = [] then value else label\<rparr>)"

definition normalize_mcp_options :: "mcp_form_option list \<Rightarrow> mcp_form_option list" where
  "normalize_mcp_options options =
     retain_first fo_value {}
       (filter (\<lambda>o'. fo_value o' \<noteq> []) (map normalize_mcp_option (take MAX_MCP_FORM_OPTIONS options)))"

definition normalize_mcp_image :: "mcp_form_image_picker_item \<Rightarrow> mcp_form_image_picker_item" where
  "normalize_mcp_image i =
     (let value = bounded_string (ip_value i) MAX_MCP_FORM_VALUE_BYTES;
          title = bounded_string (ip_title i) MAX_MCP_SERVER_FIELD_BYTES
      in i\<lparr>ip_value := value, ip_title := if trim title = [] then value else title\<rparr>)"

definition normalize_mcp_images ::
  "mcp_form_image_picker_item list \<Rightarrow> mcp_form_image_picker_item list" where
  "normalize_mcp_images images =
     retain_first ip_value {}
       (filter (\<lambda>i. trim (ip_value i) \<noteq> []
            \<and> length (ip_image_data_url i) \<le> MAX_MCP_FORM_IMAGE_DATA_URL_BYTES)
         (map normalize_mcp_image (take MAX_MCP_FORM_OPTIONS images)))"

definition normalize_mcp_kind :: "mcp_form_field_kind \<Rightarrow> mcp_form_field_kind" where
  "normalize_mcp_kind k =
     (case k of
        StringField min_length max_length format \<Rightarrow>
          StringField (map_option (\<lambda>n. min n MAX_MCP_FORM_VALUE_BYTES) min_length)
            (map_option (\<lambda>n. min n MAX_MCP_FORM_VALUE_BYTES) max_length) format
      | SingleSelect options \<Rightarrow> SingleSelect (normalize_mcp_options options)
      | MultiSelect options min_items max_items \<Rightarrow>
          MultiSelect (normalize_mcp_options options) min_items max_items
      | ImagePicker images \<Rightarrow> ImagePicker (normalize_mcp_images images)
      | BooleanField \<Rightarrow> BooleanField
      | NumberField integer minimum maximum \<Rightarrow>
          NumberField integer (map_option (\<lambda>v. bounded_string v MAX_MCP_FORM_VALUE_BYTES) minimum)
            (map_option (\<lambda>v. bounded_string v MAX_MCP_FORM_VALUE_BYTES) maximum))"

definition normalize_mcp_default :: "mcp_elicitation_value \<Rightarrow> mcp_elicitation_value" where
  "normalize_mcp_default v =
     (case v of
        McpString s \<Rightarrow> McpString (bounded_string s MAX_MCP_FORM_VALUE_BYTES)
      | McpNumber s \<Rightarrow> McpNumber (bounded_string s MAX_MCP_FORM_VALUE_BYTES)
      | McpBoolean b \<Rightarrow> McpBoolean b
      | McpStrings vs \<Rightarrow>
          McpStrings (map (\<lambda>s. bounded_string s MAX_MCP_FORM_VALUE_BYTES) (take MAX_MCP_FORM_OPTIONS vs)))"

definition normalize_mcp_form_field :: "mcp_form_field \<Rightarrow> mcp_form_field" where
  "normalize_mcp_form_field f =
     f\<lparr>ff_kind := normalize_mcp_kind (ff_kind f),
       ff_default := map_option normalize_mcp_default (ff_default f)\<rparr>"

text \<open>A field that is kept, with its name and title; one without a name is dropped.\<close>

definition normalize_mcp_field :: "mcp_form_field \<Rightarrow> mcp_form_field" where
  "normalize_mcp_field f =
     (let name = bounded_field (ff_name f); title = bounded_field (ff_title f)
      in normalize_mcp_form_field
           (f\<lparr>ff_name := name, ff_title := if title = [] then name else title,
              ff_description := bounded_optional (ff_description f)\<rparr>))"

definition normalize_mcp_fields :: "mcp_form_field list \<Rightarrow> mcp_form_field list" where
  "normalize_mcp_fields fs =
     retain_first ff_name {}
       (filter (\<lambda>f. ff_name f \<noteq> []) (map normalize_mcp_field (take MAX_MCP_FORM_FIELDS fs)))"

fun normalize_mcp_elicitation :: "mcp_elicitation \<Rightarrow> mcp_elicitation" where
  "normalize_mcp_elicitation (BrowserOrigin r) =
     BrowserOrigin ((normalize_mcp_request r)
       \<lparr>bo_source_name := bounded_field (bo_source_name r),
        bo_origin := bounded_string (trim (bo_origin r)) MAX_BROWSER_PERMISSION_ORIGIN_BYTES,
        bo_reason := bounded_optional (bo_reason r)\<rparr>)"
| "normalize_mcp_elicitation (BrowserResource r) =
     BrowserResource ((normalize_mcp_request r)
       \<lparr>br_source_name := bounded_field (br_source_name r),
        br_origin := bounded_string (trim (br_origin r)) MAX_BROWSER_PERMISSION_ORIGIN_BYTES,
        br_reason := bounded_optional (br_reason r)\<rparr>)"
| "normalize_mcp_elicitation (UrlRequest r) =
     UrlRequest ((normalize_mcp_request r)
       \<lparr>ul_elicitation_id := bounded_field (ul_elicitation_id r),
        ul_url := bounded_field (ul_url r), ul_link_opened := False\<rparr>)"
| "normalize_mcp_elicitation (FormRequest r) =
     FormRequest ((normalize_mcp_request r)\<lparr>fm_fields := normalize_mcp_fields (fm_fields r)\<rparr>)"

subsection \<open>Form values\<close>

text \<open>\<open>Finite k\<close> is \<open>k\<close> times \<open>2 ^ -1074\<close>: every finite double is such a multiple.\<close>

datatype f64 = NotANumber | Infinite bool | Finite int

text \<open>\<open>a >= b\<close> for a finite \<open>a\<close>.\<close>

definition finite_ge :: "int \<Rightarrow> f64 \<Rightarrow> bool" where
  "finite_ge a b \<longleftrightarrow>
     (case b of NotANumber \<Rightarrow> False | Infinite positive \<Rightarrow> \<not> positive | Finite v \<Rightarrow> v \<le> a)"

definition finite_le :: "int \<Rightarrow> f64 \<Rightarrow> bool" where
  "finite_le a b \<longleftrightarrow>
     (case b of NotANumber \<Rightarrow> False | Infinite positive \<Rightarrow> positive | Finite v \<Rightarrow> a \<le> v)"

definition split_once :: "char \<Rightarrow> str \<Rightarrow> (str \<times> str) option" where
  "split_once c v =
     (case dropWhile (\<lambda>b. b \<noteq> c) v of
        [] \<Rightarrow> None
      | _ # rest \<Rightarrow> Some (takeWhile (\<lambda>b. b \<noteq> c) v, rest))"

definition scheme_char :: "char \<Rightarrow> bool" where
  "scheme_char c \<longleftrightarrow>
     is_ascii_alphanumeric c \<or> c = CHR ''+'' \<or> c = CHR ''-'' \<or> c = CHR ''.''"

definition mcp_form_string_matches :: "mcp_form_string_format \<Rightarrow> str \<Rightarrow> bool" where
  "mcp_form_string_matches format value \<longleftrightarrow>
     (case format of
        Email \<Rightarrow>
          \<not> list_ex is_whitespace (chars value)
          \<and> (case split_once (CHR ''@'') value of
               None \<Rightarrow> False
             | Some (local, domain) \<Rightarrow>
                 local \<noteq> [] \<and> domain \<noteq> [] \<and> CHR ''.'' \<in> set domain
                 \<and> hd domain \<noteq> CHR ''.'' \<and> last domain \<noteq> CHR ''.'')
      | Uri \<Rightarrow>
          \<not> list_ex is_whitespace (chars value)
          \<and> (case split_once (CHR '':'') value of
               None \<Rightarrow> False
             | Some (scheme, rest) \<Rightarrow>
                 rest \<noteq> []
                 \<and> (case scheme of
                      [] \<Rightarrow> True
                    | c # cs \<Rightarrow> is_ascii_alphabetic c \<and> list_all scheme_char cs))
      | Date \<Rightarrow> valid_iso_date value
      | DateTime \<Rightarrow> valid_rfc3339_datetime value = Some True)"

definition option_all :: "('a \<Rightarrow> bool) \<Rightarrow> 'a option \<Rightarrow> bool" where
  "option_all p v \<longleftrightarrow> (case v of None \<Rightarrow> True | Some x \<Rightarrow> p x)"

definition number_valid ::
  "(str \<Rightarrow> f64 option) \<Rightarrow> bool \<Rightarrow> str option \<Rightarrow> str option \<Rightarrow> str \<Rightarrow> bool" where
  "number_valid parse_f64 integer minimum maximum value \<longleftrightarrow>
     length value \<le> MAX_MCP_FORM_VALUE_BYTES
     \<and> (case parse_f64 value of
          Some (Finite n) \<Rightarrow>
            (\<not> integer \<or> 2 ^ 1074 dvd n)
            \<and> option_all (finite_ge n) (Option.bind minimum parse_f64)
            \<and> option_all (finite_le n) (Option.bind maximum parse_f64)
        | _ \<Rightarrow> False)"

definition field_value_valid ::
  "(str \<Rightarrow> f64 option) \<Rightarrow> mcp_form_field \<Rightarrow> mcp_elicitation_value option \<Rightarrow> bool" where
  "field_value_valid parse_f64 f value \<longleftrightarrow>
     (case (ff_kind f, value) of
        (StringField min_length max_length format, Some (McpString v)) \<Rightarrow>
          \<not> (ff_required f \<or> v \<noteq> [])
          \<or> length v \<le> MAX_MCP_FORM_VALUE_BYTES
            \<and> option_all (\<lambda>n. n \<le> length (chars v)) min_length
            \<and> option_all (\<lambda>n. length (chars v) \<le> n) max_length
            \<and> option_all (\<lambda>fmt. mcp_form_string_matches fmt v) format
      | (SingleSelect options, Some (McpString v)) \<Rightarrow>
          \<not> (ff_required f \<or> v \<noteq> [])
          \<or> length v \<le> MAX_MCP_FORM_VALUE_BYTES \<and> list_ex (\<lambda>o'. fo_value o' = v) options
      | (ImagePicker images, Some (McpString v)) \<Rightarrow>
          \<not> (ff_required f \<or> v \<noteq> [])
          \<or> length v \<le> MAX_MCP_FORM_VALUE_BYTES \<and> list_ex (\<lambda>i. ip_value i = v) images
      | (MultiSelect options min_items max_items, Some (McpStrings vs)) \<Rightarrow>
          \<not> (ff_required f \<or> vs \<noteq> [])
          \<or> length vs \<le> MAX_MCP_FORM_OPTIONS
            \<and> option_all (\<lambda>n. n \<le> length vs) min_items \<and> option_all (\<lambda>n. length vs \<le> n) max_items
            \<and> list_all (\<lambda>v. length v \<le> MAX_MCP_FORM_VALUE_BYTES
                \<and> list_ex (\<lambda>o'. fo_value o' = v) options) vs
      | (BooleanField, Some (McpBoolean b)) \<Rightarrow> True
      | (NumberField integer minimum maximum, Some (McpNumber v)) \<Rightarrow>
          \<not> (ff_required f \<or> v \<noteq> []) \<or> number_valid parse_f64 integer minimum maximum v
      | (_, None) \<Rightarrow> \<not> ff_required f
      | _ \<Rightarrow> False)"

text \<open>The first loop: the map of the values and the names that are not accepted.\<close>

fun collect_values ::
  "mcp_form_field list \<Rightarrow> elicitation_content \<Rightarrow> (str \<rightharpoonup> mcp_elicitation_value)
   \<Rightarrow> (str \<rightharpoonup> mcp_elicitation_value) \<times> str list" where
  "collect_values fs [] found = (found, [])"
| "collect_values fs ((name, value) # rest) found =
     (if name = [] \<or> MAX_MCP_SERVER_FIELD_BYTES < length name
      then let (m, invalid) = collect_values fs rest found
           in (m, bounded_string name MAX_MCP_SERVER_FIELD_BYTES # invalid)
      else let (m, invalid) = collect_values fs rest (found(name \<mapsto> value))
           in (m, if found name \<noteq> None \<or> \<not> list_ex (\<lambda>f. ff_name f = name) fs
                  then bounded_string name MAX_MCP_SERVER_FIELD_BYTES # invalid else invalid))"

definition validate_mcp_form_content ::
  "(str \<Rightarrow> f64 option) \<Rightarrow> mcp_form_elicitation \<Rightarrow> elicitation_content \<Rightarrow> str list" where
  "validate_mcp_form_content parse_f64 request content =
     (if MAX_MCP_FORM_FIELDS < length content then [[]]
      else let (found, invalid) = collect_values (fm_fields request) content Map.empty;
               invalid = invalid @ map ff_name
                 (filter (\<lambda>f. \<not> field_value_valid parse_f64 f (found (ff_name f))) (fm_fields request))
           in remdups_adj (sort invalid))"


subsection \<open>Handlers\<close>

record elicitation_state =
  el_core :: app_state
  mcp_elicitations :: "mcp_elicitation list"
  browser_permissions :: browser_permissions_state

datatype elicitation_effect =
    RespondMcpElicitation mcp_elicitation mcp_elicitation_decision "elicitation_content option"
  | RespondBrowserOriginElicitation mcp_elicitation browser_origin_elicitation_decision
  | RespondBrowserResourceElicitation mcp_elicitation browser_resource_elicitation_decision
  | PersistBrowserPermissions browser_permissions_state
  | ConfigureBrowserPermissions browser_permissions_state

type_synonym elicitation_result = "elicitation_state \<times> elicitation_effect list"

definition set_message :: "str \<Rightarrow> elicitation_state \<Rightarrow> elicitation_state" where
  "set_message m s = s\<lparr>el_core := (el_core s)\<lparr>status_message := Some m\<rparr>\<rparr>"

definition mcp_elicitation_requested :: "mcp_elicitation \<Rightarrow> elicitation_state \<Rightarrow> elicitation_result" where
  "mcp_elicitation_requested request s =
     (if list_ex (\<lambda>pending. request_id pending = request_id request) (mcp_elicitations s) then (s, [])
      else let request = normalize_mcp_elicitation request;
               s1 = (if length (mcp_elicitations s) = MAX_PENDING_MCP_ELICITATIONS
                     then set_message ''Oldest pending MCP action was dropped at the queue limit.''
                            (s\<lparr>mcp_elicitations := drop 1 (mcp_elicitations s)\<rparr>)
                     else s);
               s2 = s1\<lparr>el_core := set_task_status (elicitation_task_id request) WaitingForApproval (el_core s1)\<rparr>
           in (s2\<lparr>mcp_elicitations := mcp_elicitations s2 @ [request]\<rparr>, []))"

definition mark_mcp_url_elicitation_opened :: "str \<Rightarrow> elicitation_state \<Rightarrow> elicitation_result" where
  "mark_mcp_url_elicitation_opened rid s =
     (s\<lparr>mcp_elicitations :=
          update_first (\<lambda>r. request_id r = rid)
            (\<lambda>r. case r of UrlRequest u \<Rightarrow> UrlRequest (u\<lparr>ul_link_opened := True\<rparr>) | _ \<Rightarrow> r)
            (mcp_elicitations s)\<rparr>, [])"

text \<open>
  The content an accepted request is answered with, or the message why it is not answered yet.
\<close>

definition accepted_content ::
  "(str \<Rightarrow> f64 option) \<Rightarrow> mcp_elicitation \<Rightarrow> mcp_elicitation_decision \<Rightarrow> elicitation_content option
   \<Rightarrow> str + elicitation_content option" where
  "accepted_content parse_f64 r decision content =
     (if decision \<noteq> McpAccept then Inr None
      else case r of
             UrlRequest u \<Rightarrow>
               if \<not> ul_link_opened u then Inl ''Open the requested link before continuing.'' else Inr None
           | FormRequest f \<Rightarrow>
               (case content of
                  None \<Rightarrow> Inl ''Complete the requested form before continuing.''
                | Some c \<Rightarrow>
                    if validate_mcp_form_content parse_f64 f c \<noteq> []
                    then Inl ''Complete the highlighted fields before continuing.'' else Inr (Some c))
           | _ \<Rightarrow> Inr None)"

definition resolve_mcp_elicitation ::
  "(str \<Rightarrow> f64 option) \<Rightarrow> str \<Rightarrow> mcp_elicitation_decision \<Rightarrow> elicitation_content option
   \<Rightarrow> elicitation_state \<Rightarrow> elicitation_result" where
  "resolve_mcp_elicitation parse_f64 rid decision content s =
     (case position (\<lambda>r. request_id r = rid) (mcp_elicitations s) of
        None \<Rightarrow> (s, [])
      | Some i \<Rightarrow>
          let r = mcp_elicitations s ! i
          in (case accepted_content parse_f64 r decision content of
                Inl m \<Rightarrow> (set_message m s, [])
              | Inr c \<Rightarrow>
                  (s\<lparr>mcp_elicitations := remove_at i (mcp_elicitations s)\<rparr>,
                   [RespondMcpElicitation r decision c])))"

text \<open>\<open>browser_permissions\<close> is replaced, stored and applied when it has changed.\<close>

definition change_permissions ::
  "browser_permissions_state \<Rightarrow> elicitation_state \<Rightarrow> elicitation_result" where
  "change_permissions p s =
     (if p = browser_permissions s then (s, [])
      else (s\<lparr>browser_permissions := p\<rparr>, [PersistBrowserPermissions p, ConfigureBrowserPermissions p]))"

definition site_or_default :: "str \<Rightarrow> browser_permissions_state \<Rightarrow> browser_site_permission" where
  "site_or_default origin p =
     (case find (\<lambda>s. sp_origin s = origin) (bp_sites p) of
        Some s \<Rightarrow> s
      | None \<Rightarrow> \<lparr>sp_origin = origin, sp_browse = Default, sp_download = Default, sp_upload = Default,
                  sp_full_cdp = Default\<rparr>)"

definition allow_site ::
  "browser_permission_resource \<Rightarrow> str \<Rightarrow> elicitation_state \<Rightarrow> elicitation_result" where
  "allow_site resource origin s =
     change_permissions
       (upsert_site (set_permission resource Allow (site_or_default origin (browser_permissions s)))
         (browser_permissions s)) s"

definition resolve_browser_origin_elicitation ::
  "str \<Rightarrow> browser_origin_elicitation_decision \<Rightarrow> elicitation_state \<Rightarrow> elicitation_result" where
  "resolve_browser_origin_elicitation rid decision s =
     (case position (\<lambda>r. case r of BrowserOrigin b \<Rightarrow> mr_request_id b = rid | _ \<Rightarrow> False)
             (mcp_elicitations s) of
        None \<Rightarrow> (s, [])
      | Some i \<Rightarrow>
          (case mcp_elicitations s ! i of
             BrowserOrigin b \<Rightarrow>
               let s1 = s\<lparr>mcp_elicitations := remove_at i (mcp_elicitations s)\<rparr>;
                   (s2, es) = (case decision of
                       AllowSite \<Rightarrow> allow_site Browse (bo_origin b) s1
                     | AllowAll \<Rightarrow>
                         change_permissions ((browser_permissions s1)\<lparr>bp_approval_mode := NeverAsk\<rparr>) s1
                     | _ \<Rightarrow> (s1, []))
               in (s2, es @ [RespondBrowserOriginElicitation (BrowserOrigin b) decision])
           | _ \<Rightarrow> (s, [])))"

definition resolve_browser_resource_elicitation ::
  "str \<Rightarrow> browser_resource_elicitation_decision \<Rightarrow> elicitation_state \<Rightarrow> elicitation_result" where
  "resolve_browser_resource_elicitation rid decision s =
     (case position (\<lambda>r. case r of BrowserResource b \<Rightarrow> mr_request_id b = rid | _ \<Rightarrow> False)
             (mcp_elicitations s) of
        None \<Rightarrow> (s, [])
      | Some i \<Rightarrow>
          (case mcp_elicitations s ! i of
             BrowserResource b \<Rightarrow>
               let s1 = s\<lparr>mcp_elicitations := remove_at i (mcp_elicitations s)\<rparr>;
                   (s2, es) = (if decision = AlwaysAllow
                               then allow_site (br_resource b) (br_origin b) s1 else (s1, []))
               in (s2, es @ [RespondBrowserResourceElicitation (BrowserResource b) decision])
           | _ \<Rightarrow> (s, [])))"

subsection \<open>Permission settings\<close>

definition browser_permissions_loaded ::
  "browser_permissions_state \<Rightarrow> elicitation_state \<Rightarrow> elicitation_result" where
  "browser_permissions_loaded p s =
     (s\<lparr>browser_permissions := normalized p\<rparr>, [ConfigureBrowserPermissions (normalized p)])"

definition set_browser_approval_mode ::
  "browser_approval_mode \<Rightarrow> elicitation_state \<Rightarrow> elicitation_result" where
  "set_browser_approval_mode m s =
     change_permissions ((browser_permissions s)\<lparr>bp_approval_mode := m\<rparr>) s"

definition set_browser_full_cdp_access_enabled :: "bool \<Rightarrow> elicitation_state \<Rightarrow> elicitation_result" where
  "set_browser_full_cdp_access_enabled enabled s =
     change_permissions ((browser_permissions s)\<lparr>bp_full_cdp_access_enabled := enabled\<rparr>) s"

definition upsert_browser_site_permission ::
  "browser_site_permission \<Rightarrow> elicitation_state \<Rightarrow> elicitation_result" where
  "upsert_browser_site_permission site s = change_permissions (upsert_site site (browser_permissions s)) s"

definition remove_browser_site_permission :: "str \<Rightarrow> elicitation_state \<Rightarrow> elicitation_result" where
  "remove_browser_site_permission origin s =
     change_permissions
       (remove_site (bounded_string (trim origin) MAX_BROWSER_PERMISSION_ORIGIN_BYTES)
         (browser_permissions s)) s"

datatype elicitation_action =
    McpElicitationRequested mcp_elicitation
  | MarkMcpUrlElicitationOpened str
  | ResolveMcpElicitation str mcp_elicitation_decision "elicitation_content option"
  | ResolveBrowserOriginElicitation str browser_origin_elicitation_decision
  | ResolveBrowserResourceElicitation str browser_resource_elicitation_decision
  | BrowserPermissionsLoaded browser_permissions_state
  | SetBrowserApprovalMode browser_approval_mode
  | SetBrowserFullCdpAccessEnabled bool
  | UpsertBrowserSitePermission browser_site_permission
  | RemoveBrowserSitePermission str

fun reduce_elicitation ::
  "(str \<Rightarrow> f64 option) \<Rightarrow> elicitation_state \<Rightarrow> elicitation_action \<Rightarrow> elicitation_result" where
  "reduce_elicitation parse_f64 s (McpElicitationRequested r) = mcp_elicitation_requested r s"
| "reduce_elicitation parse_f64 s (MarkMcpUrlElicitationOpened rid) = mark_mcp_url_elicitation_opened rid s"
| "reduce_elicitation parse_f64 s (ResolveMcpElicitation rid d c) = resolve_mcp_elicitation parse_f64 rid d c s"
| "reduce_elicitation parse_f64 s (ResolveBrowserOriginElicitation rid d) =
     resolve_browser_origin_elicitation rid d s"
| "reduce_elicitation parse_f64 s (ResolveBrowserResourceElicitation rid d) =
     resolve_browser_resource_elicitation rid d s"
| "reduce_elicitation parse_f64 s (BrowserPermissionsLoaded p) = browser_permissions_loaded p s"
| "reduce_elicitation parse_f64 s (SetBrowserApprovalMode m) = set_browser_approval_mode m s"
| "reduce_elicitation parse_f64 s (SetBrowserFullCdpAccessEnabled b) = set_browser_full_cdp_access_enabled b s"
| "reduce_elicitation parse_f64 s (UpsertBrowserSitePermission site) = upsert_browser_site_permission site s"
| "reduce_elicitation parse_f64 s (RemoveBrowserSitePermission origin) = remove_browser_site_permission origin s"

end
