(* ===== verification/Client_State.thy ===== *)
theory Client_State
  imports Mcp_Elicitations
begin

text \<open>
  The state of the client around the composer and the selected task: the fields of \<open>AppState\<close> of
  \<open>crates/codex-core/src/lib.rs\<close> that selecting a task, submitting the composer and the connection
  read or write beside those of \<open>App_State\<close> and \<open>Mcp_Elicitations\<close>, and the effects they add. The
  marketplace and import states are restricted to the fields these handlers touch.
\<close>

datatype main_route = Tasks | Repository | PullRequests | Marketplace | Settings

datatype inspector_pane = Hidden | Changes | Outputs | Files | Terminal | ComputerUse | Browser

record local_project_summary =
  lp_path :: path
  lp_name :: str
  lp_pinned :: bool
  lp_last_opened_at :: int

subsection \<open>File search and previews\<close>

datatype fuzzy_file_match_type = File | Directory

record fuzzy_file_result =
  fr_name :: str
  fr_path :: path
  fr_detail :: str
  fr_match_type :: fuzzy_file_match_type

record fuzzy_file_search_state =
  ff_status :: load_status
  ff_generation :: u64
  ff_session_id :: "str option"
  ff_query :: str
  ff_roots :: "path list"
  ff_results :: "fuzzy_file_result list"
  ff_error :: "str option"

definition default_fuzzy_file_search :: fuzzy_file_search_state where
  "default_fuzzy_file_search =
     \<lparr>ff_status = load_status.Idle, ff_generation = 0, ff_session_id = None, ff_query = [],
      ff_roots = [], ff_results = [], ff_error = None\<rparr>"

datatype artifact_preview_kind = Text | Image | TooLarge | Unsupported

record artifact_preview =
  pw_path :: path
  pw_file_name :: str
  pw_extension :: str
  pw_size_bytes :: u64
  pw_kind :: artifact_preview_kind
  pw_text :: "str option"
  pw_truncated :: bool

record artifact_state =
  as_selected_path :: "path option"
  as_selected_line_range :: "(u32 \<times> u32) option"
  as_status :: load_status
  as_preview :: "artifact_preview option"
  as_error :: "str option"

definition default_artifacts :: artifact_state where
  "default_artifacts =
     \<lparr>as_selected_path = None, as_selected_line_range = None, as_status = load_status.Idle,
      as_preview = None, as_error = None\<rparr>"

subsection \<open>Git and pull requests\<close>

datatype git_file_kind =
    Added | Modified | Deleted | Renamed | Copied | Untracked | Conflicted | TypeChanged

record git_file_state =
  gf_path :: path
  gf_old_path :: "path option"
  gf_kind :: git_file_kind
  gf_staged :: bool
  gf_unstaged :: bool
  gf_staged_additions :: u32
  gf_staged_deletions :: u32
  gf_unstaged_additions :: u32
  gf_unstaged_deletions :: u32

record git_branch_state =
  gb_name :: str
  gb_commit :: str
  gb_current :: bool

record git_worktree_state =
  gw_path :: path
  gw_branch :: "str option"
  gw_bare :: bool
  gw_detached :: bool
  gw_locked :: bool

record git_review_commit_state =
  rc_sha :: str
  rc_subject :: str
  rc_message :: str
  rc_committed_at :: int

datatype git_diff_scope = LastTurn | Uncommitted | Unstaged | Staged | Committed | Branch

record git_branch_conflict_state =
  bc_branch :: str
  bc_create_branch :: bool
  bc_paths :: "path list"
  bc_truncated :: bool

datatype git_commit_phase = GeneratingMessage | Committing | Pushing

datatype git_pull_request_provider =
    Unknown | Loading | Available | CliMissing | AuthenticationRequired | Unavailable

record git_pull_request_state =
  gq_number :: "u64 option"
  gq_title :: str
  gq_url :: str
  gq_base_branch :: str
  gq_head_branch :: str
  gq_is_draft :: bool

datatype git_pull_request_phase = GeneratingMessages | Committing | Pushing | Creating

record git_state =
  gi_refresh_generation :: u64
  gi_mutation_generation :: u64
  gi_repository_root :: "path option"
  gi_branch :: "str option"
  gi_default_branch :: "str option"
  gi_review_default_base :: "str option"
  gi_upstream_ref :: "str option"
  gi_ahead :: u32
  gi_behind :: u32
  gi_changed_files :: nat
  gi_staged_files :: nat
  gi_files :: "git_file_state list"
  gi_branches :: "git_branch_state list"
  gi_review_branches :: "str list"
  gi_worktrees :: "git_worktree_state list"
  gi_commits :: "git_review_commit_state list"
  gi_selected_commit_sha :: "str option"
  gi_selected_review_base :: "str option"
  gi_diff_generation :: u64
  gi_selected_scope :: git_diff_scope
  gi_selected_path :: "path option"
  gi_unified_diff :: str
  gi_diff_status :: "load_status option"
  gi_diff_base_sha :: "str option"
  gi_diff_error :: "str option"
  gi_diff_truncated :: bool
  gi_truncated :: bool
  gi_pending_branch_operation :: "str option"
  gi_branch_mutation_error :: "str option"
  gi_branch_conflict :: "git_branch_conflict_state option"
  gi_pending_commit :: "git_commit_phase option"
  gi_commit_error :: "str option"
  gi_pull_request_provider :: git_pull_request_provider
  gi_pull_request :: "git_pull_request_state option"
  gi_pending_pull_request :: "git_pull_request_phase option"
  gi_pull_request_error :: "str option"

definition default_git :: git_state where
  "default_git =
     \<lparr>gi_refresh_generation = 0, gi_mutation_generation = 0, gi_repository_root = None,
      gi_branch = None, gi_default_branch = None, gi_review_default_base = None,
      gi_upstream_ref = None, gi_ahead = 0, gi_behind = 0, gi_changed_files = 0,
      gi_staged_files = 0, gi_files = [], gi_branches = [], gi_review_branches = [],
      gi_worktrees = [], gi_commits = [], gi_selected_commit_sha = None,
      gi_selected_review_base = None, gi_diff_generation = 0, gi_selected_scope = Unstaged,
      gi_selected_path = None, gi_unified_diff = [], gi_diff_status = None,
      gi_diff_base_sha = None, gi_diff_error = None, gi_diff_truncated = False,
      gi_truncated = False, gi_pending_branch_operation = None, gi_branch_mutation_error = None,
      gi_branch_conflict = None, gi_pending_commit = None, gi_commit_error = None,
      gi_pull_request_provider = Unknown, gi_pull_request = None,
      gi_pending_pull_request = None, gi_pull_request_error = None\<rparr>"

datatype pull_request_relationship = All | Authored | ReviewRequested | Reviewed

datatype pull_request_lifecycle = All | Open | Merged | Closed

datatype pull_request_state = Open | Closed | Merged

datatype pull_request_ci_status = NoChecks | Pending | Passing | Failing

datatype pull_request_detail_tab = Summary | Timeline | Code

record pull_request_identity =
  qi_hostname :: str
  qi_owner :: str
  qi_repository :: str
  qi_number :: u64

record pull_request_summary =
  qs_identity :: pull_request_identity
  qs_node_id :: str
  qs_title :: str
  qs_url :: str
  qs_state :: pull_request_state
  qs_is_draft :: bool
  qs_author_login :: "str option"
  qs_base_branch :: str
  qs_head_branch :: str
  qs_additions :: u64
  qs_deletions :: u64
  qs_created_at :: str
  qs_updated_at :: str
  qs_ci_status :: pull_request_ci_status
  qs_is_author :: bool

datatype pull_request_activity_kind = Event | Comment | Review | ReviewComment

record pull_request_activity =
  qa_id :: str
  qa_kind :: pull_request_activity_kind
  qa_actor_login :: "str option"
  qa_body :: str
  qa_created_at :: str
  qa_event :: "str option"
  qa_url :: "str option"
  qa_path :: "str option"
  qa_line :: "u64 option"
  qa_start_line :: "u64 option"
  qa_review_thread_id :: "str option"

datatype pull_request_check_status = Pending | Passing | Failing | Neutral | Skipped | Unknown

record pull_request_check =
  qc_name :: str
  qc_workflow :: "str option"
  qc_status :: pull_request_check_status
  qc_description :: "str option"
  qc_link :: "str option"
  qc_started_at :: "str option"
  qc_completed_at :: "str option"

record pull_request_detail =
  qd_summary :: pull_request_summary
  qd_body :: str
  qd_head_revision :: str
  qd_review_decision :: "str option"
  qd_mergeable :: "str option"
  qd_merge_state_status :: "str option"
  qd_checks :: "pull_request_check list"
  qd_activity :: "pull_request_activity list"
  qd_checks_partial :: bool
  qd_activity_partial :: bool

datatype pull_request_mutation_kind =
    Comment | Approve | ReviewComment | RequestChanges | MarkDraft | MarkReady | EditTitle
  | EditDescription | Merge | Squash

datatype pull_request_review_event = Approve | Comment | RequestChanges

datatype pull_request_review_state = Draft | Ready

datatype pull_request_mutation =
    Comment str
  | Review pull_request_review_event str
  | SetReviewState pull_request_review_state
  | EditTitle str
  | EditDescription str
  | Merge pull_request_merge_method

record pull_request_inbox_state =
  pq_generation :: u64
  pq_status :: load_status
  pq_account_login :: "str option"
  pq_account_avatar_url :: "str option"
  pq_query :: str
  pq_relationship :: pull_request_relationship
  pq_lifecycle :: pull_request_lifecycle
  pq_items :: "pull_request_summary list"
  pq_total_count :: u64
  pq_next_cursor :: "str option"
  pq_truncated :: bool
  pq_loading_more :: bool
  pq_selected :: "pull_request_identity option"
  pq_detail_generation :: u64
  pq_detail_status :: load_status
  pq_detail :: "pull_request_detail option"
  pq_error :: "str option"
  pq_detail_error :: "str option"
  pq_detail_tab :: pull_request_detail_tab
  pq_diff_generation :: u64
  pq_diff_status :: load_status
  pq_diff_head_revision :: "str option"
  pq_unified_diff :: str
  pq_diff_error :: "str option"
  pq_mutation_generation :: u64
  pq_pending_mutation :: "pull_request_mutation_kind option"
  pq_mutation_error :: "str option"

subsection \<open>Imports\<close>

datatype import_provider = ClaudeCode | ClaudeCowork | Cursor

datatype import_item_type =
    AgentsMd | Config | Skills | Plugins | McpServerConfig | Subagents | Hooks | Commands | Memory | Sessions

record import_plugin_migration =
  ig_marketplace_name :: str
  ig_plugin_names :: "str list"

record import_session_migration =
  ie_cwd :: str
  ie_path :: str
  ie_title :: "str option"

record import_migration_details =
  id_commands :: "str list"
  id_hooks :: "str list"
  id_mcp_servers :: "str list"
  id_memory :: "str list"
  id_plugins :: "import_plugin_migration list"
  id_sessions :: "import_session_migration list"
  id_skills :: "str list"
  id_subagents :: "str list"

record import_migration_item =
  ii_cwd :: "str option"
  ii_description :: str
  ii_details :: "import_migration_details option"
  ii_item_type :: import_item_type
  ii_selected :: bool

record import_provider_items =
  ip_provider :: import_provider
  ip_items :: "import_migration_item list"
  ip_selected :: bool

record import_item_success =
  iu_item_type :: import_item_type
  iu_cwd :: "str option"
  iu_source :: "str option"
  iu_target :: "str option"

record import_item_failure =
  if_item_type :: import_item_type

record import_type_result =
  it_item_type :: import_item_type
  it_successes :: "import_item_success list"
  it_failures :: "import_item_failure list"

record import_history =
  ih_import_id :: str
  ih_completed_at_ms :: int
  ih_successes :: "import_item_success list"
  ih_failures :: "import_item_failure list"

record imported_connector_candidate =
  ic_name :: str
  ic_session_count :: u32

record import_batch =
  ib_provider :: import_provider
  ib_items :: "import_migration_item list"
  ib_wait_for_completion :: bool

record started_import =
  is_import_id :: str
  is_wait_for_completion :: bool

subsection \<open>Marketplace\<close>

datatype marketplace_tab = Plugins | Skills

datatype plugin_directory_tab = CuratedByOpenAi | SharedWithYou | CreatedByMe | Workspace | Local

text \<open>The key of a server and the address it must be authorised at; the rest of a card mirrors the server.\<close>

record mcp_server_card =
  ms_key :: str
  ms_authorization_url :: "str option"

record plugin_detail_view =
  dv_plugin_id :: str

record app_detail_view =
  dv_app_id :: str

record mcp_resource_content_card =
  rk_uri :: str
  rk_mime_type :: "str option"
  rk_text :: "str option"
  rk_blob_bytes :: "u64 option"
  rk_truncated :: bool

record mcp_resource_read_state =
  rr_server :: "str option"
  rr_uri :: "str option"
  rr_status :: "load_status option"
  rr_contents :: "mcp_resource_content_card list"
  rr_error :: "str option"

definition default_mcp_resource_read :: mcp_resource_read_state where
  "default_mcp_resource_read =
     \<lparr>rr_server = None, rr_uri = None, rr_status = None, rr_contents = [], rr_error = None\<rparr>"

record marketplace_state =
  mk_selected_tab :: marketplace_tab
  mk_selected_directory_tab :: plugin_directory_tab
  mk_manage_mode :: bool
  mk_status :: "load_status option"
  mk_marketplace_generation :: u64
  mk_apps_status :: "load_status option"
  mk_installed_apps_status :: "load_status option"
  mk_mcp_status :: "load_status option"
  mk_mcp_generation :: u64
  mk_skills_status :: "load_status option"
  mk_skills_generation :: u64
  mk_composer_plugins_generation :: u64
  mk_mcp_servers :: "mcp_server_card list"
  mk_plugin_mcp_servers :: "mcp_server_card list"
  mk_mcp_errors :: "str list"
  mk_pending_plugin_id :: "str option"
  mk_pending_app_id :: "str option"
  mk_pending_mcp_key :: "str option"
  mk_pending_mcp_auth_name :: "str option"
  mk_mcp_auth_scopes :: "str \<rightharpoonup> str option"
  mk_pending_skill_path :: "path option"
  mk_pending_plugin_skill_name :: "str option"
  mk_add_pending :: bool
  mk_pending_remove :: "str option"
  mk_upgrade_pending :: bool
  mk_pending_upgrade_name :: "str option"
  mk_selected_plugin_id :: "str option"
  mk_plugin_detail_status :: "load_status option"
  mk_plugin_detail :: "plugin_detail_view option"
  mk_plugin_detail_error :: "str option"
  mk_selected_app_id :: "str option"
  mk_app_detail_status :: "load_status option"
  mk_app_detail :: "app_detail_view option"
  mk_app_detail_error :: "str option"
  mk_mcp_resource_read :: mcp_resource_read_state

subsection \<open>Browser, imports, personalization and memories\<close>

record browser_tab_state =
  bt_id :: str
  bt_url :: str
  bt_title :: str
  bt_loading :: bool
  bt_can_go_back :: bool
  bt_can_go_forward :: bool

record browser_frame_state =
  bf_tab_id :: str
  bf_jpeg :: str
  bf_width :: u32
  bf_height :: u32

record browser_state =
  bs_status :: load_status
  bs_executable :: "path option"
  bs_tabs :: "browser_tab_state list"
  bs_active_tab_id :: "str option"
  bs_frame :: "browser_frame_state option"
  bs_error :: "str option"

definition default_browser :: browser_state where
  "default_browser =
     \<lparr>bs_status = load_status.Idle, bs_executable = None, bs_tabs = [], bs_active_tab_id = None,
      bs_frame = None, bs_error = None\<rparr>"

record import_migration_state =
  im_detection_status :: load_status
  im_providers :: "import_provider_items list"
  im_detection_failures :: "import_provider list"
  im_history_status :: load_status
  im_histories :: "import_history list"
  im_connectors :: "imported_connector_candidate list"
  im_import_status :: load_status
  im_active_import_ids :: "str set"
  im_progress :: "import_type_result list"
  im_error :: "str option"
  im_history_error :: "str option"
  im_visible_history_count :: nat

record computer_application_state =
  cp_id :: str
  cp_display_name :: "str option"
  cp_last_used_date :: "str option"
  cp_use_count :: "u32 option"
  cp_is_running :: bool
  cp_window_count :: nat

record computer_window_state =
  cw_id :: str
  cw_application :: str
  cw_application_id :: str
  cw_title :: str
  cw_width :: u32
  cw_height :: u32
  cw_minimized :: bool
  cw_focused :: bool

record computer_use_state =
  cu_available :: bool
  cu_enabled :: bool
  cu_selected_window_id :: "str option"
  cu_selected_window_title :: "str option"
  cu_selected_application_id :: "str option"
  cu_input_authorized :: bool
  cu_last_capture_label :: "str option"
  cu_applications :: "computer_application_state list"
  cu_launching_application_id :: "str option"
  cu_windows :: "computer_window_state list"
  cu_windows_loading :: bool
  cu_error :: "str option"

definition default_computer_use :: computer_use_state where
  "default_computer_use =
     \<lparr>cu_available = False, cu_enabled = False, cu_selected_window_id = None,
      cu_selected_window_title = None, cu_selected_application_id = None, cu_input_authorized = False,
      cu_last_capture_label = None, cu_applications = [], cu_launching_application_id = None,
      cu_windows = [], cu_windows_loading = False, cu_error = None\<rparr>"

record computer_use_settings_state =
  us_status :: load_status
  us_always_allowed_app_ids :: "str list"
  us_pending_removal_app_id :: "str option"
  us_error :: "str option"

record personalization_state =
  pz_status :: load_status
  pz_personality :: personality
  pz_memory_available :: bool
  pz_generate_memories :: bool
  pz_use_memories :: bool
  pz_memories_enabled :: bool
  pz_allow_memory_generation_from_tool_assisted_chats :: bool
  pz_pending :: bool
  pz_error :: "str option"

datatype personalization_mutation_kind = PersonalityChange | MemoriesChange | ToolAssistedMemoriesChange

text \<open>
  The preferences of the chats are a \<open>HashMap\<close>: an association list with distinct keys, whose order
  stands for nothing.
\<close>

record chat_memory_preferences =
  cm_generate_memories :: bool
  cm_use_memories :: bool

record chat_memory_state =
  cm_new_chat_preferences :: "chat_memory_preferences option"
  cm_thread_preferences :: "(str \<times> chat_memory_preferences) list"
  cm_pending_thread_updates :: "str set"

subsection \<open>The client\<close>

record client_state =
  asks :: elicitation_state
  route :: main_route
  inspector :: inspector_pane
  local_projects :: "local_project_summary list"
  new_chat_cwd :: "path option"
  fuzzy_file_search :: fuzzy_file_search_state
  git :: git_state
  pull_requests :: pull_request_inbox_state
  marketplace :: marketplace_state
  artifacts :: artifact_state
  browser :: "str \<rightharpoonup> browser_state"
  import_migration :: import_migration_state
  computer_use_settings :: computer_use_settings_state
  personalization :: personalization_state
  chat_memory :: chat_memory_state
  seen_model_upgrade_ids :: "str list"
  computer_use :: "str \<rightharpoonup> computer_use_state"

text \<open>The part of the state that \<open>App_State\<close> holds.\<close>

definition core :: "client_state \<Rightarrow> app_state" where
  "core c = el_core (asks c)"

definition with_core :: "app_state \<Rightarrow> client_state \<Rightarrow> client_state" where
  "with_core s c = c\<lparr>asks := (asks c)\<lparr>el_core := s\<rparr>\<rparr>"

lemma core_with_core [simp]: "core (with_core s c) = s"
  by (simp add: core_def with_core_def)

lemma with_core_same [simp]: "with_core (core c) c = c"
  by (simp add: core_def with_core_def)

lemma with_core_twice [simp]: "with_core s (with_core t c) = with_core s c"
  by (simp add: with_core_def)

lemma core_update [simp]:
  "core (c\<lparr>route := x0\<rparr>) = core c"
  "core (c\<lparr>inspector := x1\<rparr>) = core c"
  "core (c\<lparr>local_projects := x2\<rparr>) = core c"
  "core (c\<lparr>new_chat_cwd := x3\<rparr>) = core c"
  "core (c\<lparr>fuzzy_file_search := x4\<rparr>) = core c"
  "core (c\<lparr>git := x5\<rparr>) = core c"
  "core (c\<lparr>pull_requests := x6\<rparr>) = core c"
  "core (c\<lparr>marketplace := x7\<rparr>) = core c"
  "core (c\<lparr>artifacts := x8\<rparr>) = core c"
  "core (c\<lparr>browser := x9\<rparr>) = core c"
  "core (c\<lparr>import_migration := x10\<rparr>) = core c"
  "core (c\<lparr>computer_use_settings := x11\<rparr>) = core c"
  "core (c\<lparr>personalization := x12\<rparr>) = core c"
  "core (c\<lparr>chat_memory := x13\<rparr>) = core c"
  "core (c\<lparr>seen_model_upgrade_ids := x14\<rparr>) = core c"
  "core (c\<lparr>computer_use := x15\<rparr>) = core c"
  by (simp_all add: core_def)

lemma with_core_fields [simp]:
  "route (with_core s c) = route c"
  "inspector (with_core s c) = inspector c"
  "local_projects (with_core s c) = local_projects c"
  "new_chat_cwd (with_core s c) = new_chat_cwd c"
  "fuzzy_file_search (with_core s c) = fuzzy_file_search c"
  "git (with_core s c) = git c"
  "pull_requests (with_core s c) = pull_requests c"
  "marketplace (with_core s c) = marketplace c"
  "artifacts (with_core s c) = artifacts c"
  "browser (with_core s c) = browser c"
  "import_migration (with_core s c) = import_migration c"
  "computer_use_settings (with_core s c) = computer_use_settings c"
  "personalization (with_core s c) = personalization c"
  "chat_memory (with_core s c) = chat_memory c"
  "seen_model_upgrade_ids (with_core s c) = seen_model_upgrade_ids c"
  "computer_use (with_core s c) = computer_use c"
  "mcp_elicitations (asks (with_core s c)) = mcp_elicitations (asks c)"
  "browser_permissions (asks (with_core s c)) = browser_permissions (asks c)"
  by (simp_all add: with_core_def)

text \<open>What a submission asks of a turn, and what it asks of a new task.\<close>

record turn_request =
  tq_text :: str
  tq_model :: "str option"
  tq_effort :: "str option"
  tq_service_tier :: "str option"
  tq_permissions :: "str option"
  tq_approval_policy :: "str option"
  tq_approvals_reviewer :: "approvals_reviewer option"
  tq_attachments :: "composer_attachment list"
  tq_plan_mode :: bool
  tq_goal_objective :: "str option"

datatype (plugins only: code size) client_effect =
    Core effect
  | Ask elicitation_effect
  | ConnectAppServer
  | ScheduleAppServerReconnect
  | LoadLoadedTasks
  | LoadModels
  | LoadPermissionProfiles "path option"
  | LoadPersonalization
  | LoadComposerDesktopApps
  | LoadComputerUsePolicy
  | LoadGoal str
  | RefreshSkills u64 "path list" bool
  | RefreshComposerPlugins u64 "path list" bool
  | RefreshApps bool "str option"
  | RefreshInstalledApps bool "str option"
  | RefreshMarketplace u64 "path list" plugin_directory_tab bool bool
  | RefreshMcpServers u64 "path option" "str option"
  | SearchPullRequests u64 path pull_request_relationship pull_request_lifecycle str "str option" bool
  | StopFuzzyFileSearch str
  | PersistUiState main_route inspector_pane
  | RememberWorkspace path
  | RefreshGit u64 path
  | StartBrowser str
  | BrowserOpenTab str "str option"
  | ActivateBrowser str
  | StartTurn str u64 turn_request
  | SteerTurn str u64 str str "composer_attachment list"
  | CreateTask "path option" u64 turn_request "chat_memory_preferences option" u64
  | EditLastUserMessage str str bool turn_request
  | CompactThread str
  | RunThreadShellCommand str u64 str
  | PersistComposerModelDefaults str str "str option"
  | PersistComposerServiceTierDefault "str option" "str option"
  | PersistSeenModelUpgradeIds "str list"
  | SearchFuzzyFiles str "path list" str bool
  | RenameLocalProject path str
  | SetLocalProjectPinned path bool
  | RemoveLocalProject path
  | OpenWorkspacePath path path
  | SchedulePullRequestSearch u64
  | LoadPullRequestDetail u64 path pull_request_identity str
  | LoadPullRequestDiff u64 path pull_request_identity
  | MutatePullRequest u64 path pull_request_identity str pull_request_mutation
  | StartReview u64 str review_target review_delivery
  | ArchiveTask str
  | ConfigureComputerUse str bool "str option" "str option" bool
  | LoadComputerWindows str
  | LaunchComputerApp str str
  | CaptureComputerWindow str str
  | RemoveComputerUseAllowedApp str "str list"
  | DetectExternalAgentConfig "path list"
  | LoadExternalAgentImportHistories
  | ImportExternalAgentConfig "import_batch list"
  | SetPersonality personality
  | SetMemoriesEnabled bool
  | SetToolAssistedMemoriesEnabled bool
  | SetThreadMemoryMode str bool chat_memory_preferences
  | ResetMemories

type_synonym client_result = "client_state \<times> client_effect list"

text \<open>A handler of the core part, run on the client.\<close>

definition on_core :: "(app_state \<Rightarrow> step_result) \<Rightarrow> client_state \<Rightarrow> client_result" where
  "on_core f c = (let (s, es) = f (core c) in (with_core s c, map Core es))"

definition update_core :: "(app_state \<Rightarrow> app_state) \<Rightarrow> client_state \<Rightarrow> client_state" where
  "update_core f c = with_core (f (core c)) c"

lemma core_update_core [simp]: "core (update_core f c) = f (core c)"
  by (simp add: update_core_def)

lemma update_core_fields [simp]:
  "route (update_core f c) = route c"
  "inspector (update_core f c) = inspector c"
  "local_projects (update_core f c) = local_projects c"
  "new_chat_cwd (update_core f c) = new_chat_cwd c"
  "fuzzy_file_search (update_core f c) = fuzzy_file_search c"
  "git (update_core f c) = git c"
  "pull_requests (update_core f c) = pull_requests c"
  "marketplace (update_core f c) = marketplace c"
  "artifacts (update_core f c) = artifacts c"
  "browser (update_core f c) = browser c"
  "import_migration (update_core f c) = import_migration c"
  "computer_use_settings (update_core f c) = computer_use_settings c"
  "personalization (update_core f c) = personalization c"
  "chat_memory (update_core f c) = chat_memory c"
  "seen_model_upgrade_ids (update_core f c) = seen_model_upgrade_ids c"
  "computer_use (update_core f c) = computer_use c"
  by (simp_all add: update_core_def)

end
