(* ===== verification/Workspace.thy ===== *)
theory Workspace
  imports Client_State Utf8 "HOL-Library.Char_ord" "HOL-Library.List_Lexorder" "HOL-Library.Product_Lexorder"
begin

text \<open>
  The project folders of the client, the file search of the composer and the reloads that follow a
  change of the folder (\<open>normalize_local_projects\<close>, \<open>remember_local_project\<close>,
  \<open>change_fuzzy_file_search\<close>, the \<open>refresh_*_effect\<close> helpers and their actions of \<open>reduce\<close> in
  \<open>crates/codex-core/src/lib.rs\<close>). Folders are equal when their components are, as \<open>PathBuf\<close>
  compares them on Unix.
\<close>

definition MAX_LOCAL_PROJECTS :: nat where
  "MAX_LOCAL_PROJECTS = 64"

definition MAX_LOCAL_PROJECT_NAME_BYTES :: nat where
  "MAX_LOCAL_PROJECT_NAME_BYTES = 256"

definition MAX_FUZZY_FILE_QUERY_BYTES :: nat where
  "MAX_FUZZY_FILE_QUERY_BYTES = 1024"

definition MAX_FUZZY_FILE_RESULTS :: nat where
  "MAX_FUZZY_FILE_RESULTS = 100"

definition MAX_FUZZY_FILE_ROOTS :: nat where
  "MAX_FUZZY_FILE_ROOTS = 8"

subsection \<open>Folders\<close>

definition path_key :: "path \<Rightarrow> bool \<times> str list" where
  "path_key p = (is_absolute p, path_components p)"

definition path_option_eq :: "path option \<Rightarrow> path option \<Rightarrow> bool" where
  "path_option_eq p q \<longleftrightarrow> map_option path_key p = map_option path_key q"

definition paths_eq :: "path list \<Rightarrow> path list \<Rightarrow> bool" where
  "paths_eq ps qs \<longleftrightarrow> map path_key ps = map path_key qs"

fun dedup_paths :: "path list \<Rightarrow> path list" where
  "dedup_paths [] = []"
| "dedup_paths [p] = [p]"
| "dedup_paths (p # q # ps) =
     (if path_eq p q then dedup_paths (p # ps) else p # dedup_paths (q # ps))"

text \<open>\<open>Path::cmp\<close> of absolute paths: a parent component comes before every named one.\<close>

definition path_order :: "path \<Rightarrow> str list" where
  "path_order p = map (\<lambda>c. if c = ''..'' then [] else c) (path_components p)"

definition selected_task_cwds :: "app_state \<Rightarrow> path list" where
  "selected_task_cwds s =
     (case Option.bind (selected_task_id s) (\<lambda>i. find (\<lambda>t. ts_id t = i) (tasks s)) of
        None \<Rightarrow> [] | Some t \<Rightarrow> [ts_cwd t])"

definition composer_workspace_roots :: "client_state \<Rightarrow> path list" where
  "composer_workspace_roots c =
     (let roots = selected_task_cwds (core c);
          roots = (if roots = [] then (case new_chat_cwd c of None \<Rightarrow> [] | Some cwd \<Rightarrow> [cwd]) else roots)
      in take MAX_FUZZY_FILE_ROOTS (dedup_paths (filter is_absolute roots)))"

subsection \<open>Reloads\<close>

definition with_marketplace :: "(marketplace_state \<Rightarrow> marketplace_state) \<Rightarrow> client_state \<Rightarrow> client_state" where
  "with_marketplace f c = c\<lparr>marketplace := f (marketplace c)\<rparr>"

definition refresh_skills_effect :: "path list \<Rightarrow> bool \<Rightarrow> client_state \<Rightarrow> client_state \<times> client_effect" where
  "refresh_skills_effect cwds force c =
     (let g = sat_succ (mk_skills_generation (marketplace c))
      in (with_marketplace (\<lambda>m. m\<lparr>mk_skills_generation := g\<rparr>) c, RefreshSkills g cwds force))"

definition refresh_composer_plugins_effect ::
  "path list \<Rightarrow> bool \<Rightarrow> client_state \<Rightarrow> client_state \<times> client_effect" where
  "refresh_composer_plugins_effect cwds force c =
     (let g = sat_succ (mk_composer_plugins_generation (marketplace c))
      in (with_marketplace (\<lambda>m. m\<lparr>mk_composer_plugins_generation := g\<rparr>) c, RefreshComposerPlugins g cwds force))"

definition refresh_marketplace_effect ::
  "path list \<Rightarrow> plugin_directory_tab \<Rightarrow> bool \<Rightarrow> bool \<Rightarrow> client_state \<Rightarrow> client_state \<times> client_effect" where
  "refresh_marketplace_effect cwds tab force all_marketplaces c =
     (let g = sat_succ (mk_marketplace_generation (marketplace c))
      in (with_marketplace (\<lambda>m. m\<lparr>mk_marketplace_generation := g\<rparr>) c,
          RefreshMarketplace g cwds tab force all_marketplaces))"

definition refresh_mcp_servers_effect :: "path option \<Rightarrow> client_state \<Rightarrow> client_state \<times> client_effect" where
  "refresh_mcp_servers_effect cwd c =
     (let g = sat_succ (mk_mcp_generation (marketplace c))
      in (with_marketplace (\<lambda>m. m\<lparr>mk_mcp_generation := g\<rparr>) c,
          RefreshMcpServers g cwd (selected_task_id (core c))))"

definition refresh_apps_effect :: "bool \<Rightarrow> client_state \<Rightarrow> client_effect" where
  "refresh_apps_effect force c = RefreshApps force (selected_task_id (core c))"

definition refresh_installed_apps_effect :: "bool \<Rightarrow> client_state \<Rightarrow> client_effect" where
  "refresh_installed_apps_effect force c = RefreshInstalledApps force (selected_task_id (core c))"

text \<open>The two reloads that follow every change of the folder, with the status they set.\<close>

definition reload_skills :: "path list \<Rightarrow> client_state \<Rightarrow> client_result" where
  "reload_skills cwds c =
     (let (c1, e1) = refresh_skills_effect cwds False
                       (with_marketplace (\<lambda>m. m\<lparr>mk_skills_status := Some load_status.Loading\<rparr>) c);
          (c2, e2) = refresh_composer_plugins_effect cwds False c1
      in (c2, [e1, e2]))"

subsection \<open>File search\<close>

definition clear_fuzzy_file_search :: "client_state \<Rightarrow> client_result" where
  "clear_fuzzy_file_search c =
     (c\<lparr>fuzzy_file_search := default_fuzzy_file_search\<lparr>ff_generation := ff_generation (fuzzy_file_search c)\<rparr>\<rparr>,
      case ff_session_id (fuzzy_file_search c) of None \<Rightarrow> [] | Some i \<Rightarrow> [StopFuzzyFileSearch i])"

definition session_name :: "u64 \<Rightarrow> str" where
  "session_name g = ''codexrs-fuzzy-file-search-'' @ dec (unat g)"

definition change_fuzzy_file_search :: "str option \<Rightarrow> client_state \<Rightarrow> client_result" where
  "change_fuzzy_file_search query c =
     (let query = (case query of None \<Rightarrow> [] | Some q \<Rightarrow> bounded_string (trim q) MAX_FUZZY_FILE_QUERY_BYTES);
          roots = composer_workspace_roots c;
          f = fuzzy_file_search c
      in if query = [] \<or> roots = [] then clear_fuzzy_file_search c
         else let same_roots = paths_eq (ff_roots f) roots
              in if same_roots \<and> ff_query f = query \<and> ff_session_id f \<noteq> None
                    \<and> ff_status f \<noteq> load_status.Failed then (c, [])
                 else let keep = (if same_roots then ff_session_id f else None);
                          stop = (case ff_session_id f of
                                    Some i \<Rightarrow> if same_roots then [] else [StopFuzzyFileSearch i]
                                  | None \<Rightarrow> []);
                          g = (if keep = None then sat_succ (ff_generation f) else ff_generation f);
                          session = (case keep of Some i \<Rightarrow> i | None \<Rightarrow> session_name g)
                      in (c\<lparr>fuzzy_file_search :=
                              \<lparr>ff_status = load_status.Loading, ff_generation = g, ff_session_id = Some session,
                               ff_query = query, ff_roots = roots, ff_results = [], ff_error = None\<rparr>\<rparr>,
                          stop @ [SearchFuzzyFiles session roots query (keep = None)]))"

definition fuzzy_file_search_updated ::
  "str \<Rightarrow> str \<Rightarrow> fuzzy_file_result list \<Rightarrow> client_state \<Rightarrow> client_result" where
  "fuzzy_file_search_updated session query results c =
     (let f = fuzzy_file_search c
      in if ff_session_id f \<noteq> Some session \<or> ff_query f \<noteq> query then (c, [])
         else (c\<lparr>fuzzy_file_search := f\<lparr>ff_results := take MAX_FUZZY_FILE_RESULTS results, ff_error := None\<rparr>\<rparr>, []))"

definition fuzzy_file_search_completed :: "str \<Rightarrow> client_state \<Rightarrow> client_result" where
  "fuzzy_file_search_completed session c =
     (let f = fuzzy_file_search c
      in if ff_session_id f = Some session
         then (c\<lparr>fuzzy_file_search := f\<lparr>ff_status := load_status.Ready, ff_error := None\<rparr>\<rparr>, []) else (c, []))"

definition fuzzy_file_search_failed :: "str \<Rightarrow> str \<Rightarrow> str \<Rightarrow> client_state \<Rightarrow> client_result" where
  "fuzzy_file_search_failed session query message c =
     (let f = fuzzy_file_search c
      in if ff_session_id f = Some session \<and> ff_query f = query
         then (c\<lparr>fuzzy_file_search := f\<lparr>ff_status := load_status.Failed, ff_results := [],
                 ff_error := Some (bounded_string message MAX_COMPOSER_BYTES)\<rparr>\<rparr>, []) else (c, []))"

subsection \<open>Local projects\<close>

definition valid_local_project_name :: "str \<Rightarrow> str option" where
  "valid_local_project_name name =
     (let name = trim name
      in if name \<noteq> [] \<and> length name \<le> MAX_LOCAL_PROJECT_NAME_BYTES \<and> \<not> list_ex is_control (chars name)
         then Some name else None)"

definition default_local_project_name :: "path \<Rightarrow> str" where
  "default_local_project_name p =
     (case Option.bind (map_option from_utf8_lossy (file_name p)) valid_local_project_name of
        None \<Rightarrow> ''Project'' | Some name \<Rightarrow> name)"

definition name_project :: "local_project_summary \<Rightarrow> local_project_summary" where
  "name_project p =
     p\<lparr>lp_name := (case valid_local_project_name (lp_name p) of
                     None \<Rightarrow> default_local_project_name (lp_path p) | Some name \<Rightarrow> name)\<rparr>"

definition project_order :: "local_project_summary \<Rightarrow> bool \<times> int \<times> str list" where
  "project_order p = (\<not> lp_pinned p, - lp_last_opened_at p, path_order (lp_path p))"

definition normalize_local_projects :: "local_project_summary list \<Rightarrow> local_project_summary list" where
  "normalize_local_projects ps =
     take MAX_LOCAL_PROJECTS
       (sort_key project_order
         (map name_project (retain_first (path_key \<circ> lp_path) {} (filter (is_absolute \<circ> lp_path) ps))))"

text \<open>The time after all others: \<open>max()\<close>, \<open>unwrap_or_default\<close> and \<open>saturating_add(1)\<close> on \<open>i64\<close>.\<close>

definition next_opened_at :: "local_project_summary list \<Rightarrow> int" where
  "next_opened_at ps =
     (case map lp_last_opened_at ps of
        [] \<Rightarrow> 1
      | t # ts \<Rightarrow> min (fold max ts t + 1) (2 ^ 63 - 1))"

definition remember_local_project :: "path \<Rightarrow> client_state \<Rightarrow> client_state" where
  "remember_local_project p c =
     (if \<not> is_absolute p then c
      else let ps = local_projects c; at = next_opened_at ps;
               ps1 = (if list_ex (\<lambda>q. path_eq (lp_path q) p) ps
                      then update_first (\<lambda>q. path_eq (lp_path q) p) (\<lambda>q. q\<lparr>lp_last_opened_at := at\<rparr>) ps
                      else ps @ [\<lparr>lp_path = p, lp_name = default_local_project_name p, lp_pinned = False,
                                  lp_last_opened_at = at\<rparr>])
           in c\<lparr>local_projects := normalize_local_projects ps1\<rparr>)"

definition set_client_message :: "str \<Rightarrow> client_state \<Rightarrow> client_state" where
  "set_client_message m c = update_core (\<lambda>s. s\<lparr>status_message := Some m\<rparr>) c"

definition rename_local_project :: "path \<Rightarrow> str \<Rightarrow> client_state \<Rightarrow> client_result" where
  "rename_local_project p name c =
     (case valid_local_project_name name of
        None \<Rightarrow> (set_client_message ''Project names must be short and recognizable.'' c, [])
      | Some name \<Rightarrow>
          let ps = local_projects c; at = next_opened_at ps
          in (case find (\<lambda>q. path_eq (lp_path q) p) ps of
                None \<Rightarrow> (c, [])
              | Some q \<Rightarrow>
                  if lp_name q = name then (c, [])
                  else (set_client_message ''Project renamed''
                          (c\<lparr>local_projects := normalize_local_projects
                               (update_first (\<lambda>q. path_eq (lp_path q) p)
                                 (\<lambda>q. q\<lparr>lp_name := name, lp_last_opened_at := at\<rparr>) ps)\<rparr>),
                        [RenameLocalProject p name])))"

definition toggle_local_project_pinned :: "path \<Rightarrow> client_state \<Rightarrow> client_result" where
  "toggle_local_project_pinned p c =
     (let ps = local_projects c
      in (case find (\<lambda>q. path_eq (lp_path q) p) ps of
            None \<Rightarrow> (c, [])
          | Some q \<Rightarrow>
              let pinned = \<not> lp_pinned q
              in (set_client_message (if pinned then ''Project pinned'' else ''Project unpinned'')
                    (c\<lparr>local_projects := normalize_local_projects
                         (update_first (\<lambda>q. path_eq (lp_path q) p) (\<lambda>q. q\<lparr>lp_pinned := pinned\<rparr>) ps)\<rparr>),
                  [SetLocalProjectPinned p pinned])))"

definition remove_local_project :: "path \<Rightarrow> client_state \<Rightarrow> client_result" where
  "remove_local_project p c =
     (let ps = filter (\<lambda>q. \<not> path_eq (lp_path q) p) (local_projects c)
      in if length ps = length (local_projects c) then (c, [])
         else let c1 = c\<lparr>local_projects := ps\<rparr>;
                  (c2, es) = (if selected_task_id (core c1) = None \<and> path_option_eq (new_chat_cwd c1) (Some p)
                      then let (c2, es) = clear_fuzzy_file_search c1;
                               (c3, es') = reload_skills []
                                 (with_marketplace (\<lambda>m. m\<lparr>mk_pending_skill_path := None\<rparr>)
                                   (update_core advance_new_chat_draft_generation (c2\<lparr>new_chat_cwd := None\<rparr>)))
                           in (c3, es @ es')
                      else (c1, []))
              in (set_client_message ''Project removed'' c2, es @ [RemoveLocalProject p]))"

definition open_local_project :: "path \<Rightarrow> client_state \<Rightarrow> client_result" where
  "open_local_project p c =
     (if \<not> is_absolute p \<or> \<not> list_ex (\<lambda>q. path_eq (lp_path q) p) (local_projects c)
      then (set_client_message ''The selected project folder is unavailable.'' c, [])
      else (c, [OpenWorkspacePath p p]))"

definition local_projects_loaded :: "local_project_summary list \<Rightarrow> client_state \<Rightarrow> client_result" where
  "local_projects_loaded ps c = (c\<lparr>local_projects := normalize_local_projects ps\<rparr>, [])"

end
