(* ===== verification/Composer_Settings.thy ===== *)
theory Composer_Settings
  imports Client_State Remote_Control Task_Lists
begin

text \<open>
  The models, efforts, service tiers and permission modes a message is sent with
  (\<open>permission_mode_options\<close>, \<open>apply_composer_settings\<close> and the actions of \<open>reduce\<close> that load and
  select them in \<open>crates/codex-core/src/lib.rs\<close>). A permission mode is offered only as far as the
  administrator's requirements allow it.
\<close>

definition STANDARD_SERVICE_TIER_ID :: str where
  "STANDARD_SERVICE_TIER_ID = ''default''"

subsection \<open>Permission modes\<close>

definition profile_allowed :: "permission_profile_option list \<Rightarrow> str \<Rightarrow> bool" where
  "profile_allowed profiles i =
     (case find (\<lambda>p. pp_id p = i) profiles of None \<Rightarrow> False | Some p \<Rightarrow> pp_allowed p)"

definition policy_allowed :: "permission_requirements \<Rightarrow> str \<Rightarrow> bool" where
  "policy_allowed r policy =
     (case pr_allowed_approval_policies r of None \<Rightarrow> True | Some allowed \<Rightarrow> policy \<in> set allowed)"

definition reviewer_allowed :: "permission_requirements \<Rightarrow> approvals_reviewer \<Rightarrow> bool" where
  "reviewer_allowed r reviewer =
     (case pr_allowed_approvals_reviewers r of None \<Rightarrow> True | Some allowed \<Rightarrow> reviewer \<in> set allowed)"

definition preset ::
  "permission_profile_option list \<Rightarrow> permission_requirements \<Rightarrow> str \<Rightarrow> str \<Rightarrow> str \<Rightarrow> str \<Rightarrow> str
   \<Rightarrow> approvals_reviewer \<Rightarrow> permission_mode_option" where
  "preset profiles r i label description permissions policy reviewer =
     \<lparr>pm_id = i, pm_label = label, pm_description = Some description, pm_permissions = permissions,
      pm_approval_policy = Some policy, pm_approvals_reviewer = Some reviewer,
      pm_allowed = (profile_allowed profiles permissions \<and> policy_allowed r policy
        \<and> reviewer_allowed r reviewer)\<rparr>"

definition profile_mode :: "permission_profile_option \<Rightarrow> permission_mode_option" where
  "profile_mode p =
     \<lparr>pm_id = ''profile:'' @ pp_id p,
      pm_label = map (\<lambda>c. if c = CHR ''-'' \<or> c = CHR ''_'' then CHR '' '' else c)
        (dropWhile (\<lambda>c. c = CHR '':'') (pp_id p)),
      pm_description = pp_description p, pm_permissions = pp_id p, pm_approval_policy = None,
      pm_approvals_reviewer = None, pm_allowed = pp_allowed p\<rparr>"

definition permission_mode_options ::
  "permission_profile_option list \<Rightarrow> permission_requirements \<Rightarrow> permission_mode_option list" where
  "permission_mode_options profiles r =
     take MAX_COMPOSER_OPTIONS
       ([preset profiles r ''preset:ask-for-approval'' ''Ask for approval''
           ''Codex can work in the current workspace and asks before higher-risk actions.''
           '':workspace'' ''on-request'' approvals_reviewer.User,
         preset profiles r ''preset:auto-review'' ''Auto-review''
           ''Only ask for actions detected as potentially unsafe.''
           '':workspace'' ''on-request'' AutoReview,
         preset profiles r ''preset:full-access'' ''Full access''
           ''Codex can edit outside the workspace and access the internet without asking.''
           '':danger-full-access'' ''never'' approvals_reviewer.User,
         preset profiles r ''preset:read-only'' ''Read only''
           ''Codex can read workspace files and asks before edits or network access.''
           '':read-only'' ''on-request'' approvals_reviewer.User]
        @ map profile_mode
            (filter (\<lambda>p. pp_id p \<notin> {'':workspace'', '':danger-full-access'', '':read-only''}) profiles))"

text \<open>The selected mode, as a submission looks it up.\<close>

definition permission_mode :: "composer_controls_state \<Rightarrow> permission_mode_option option" where
  "permission_mode c =
     Option.bind (cc_selected_permission_mode c)
       (\<lambda>selected. find (\<lambda>m. pm_id m = selected \<and> pm_allowed m) (cc_permission_modes c))"

definition default_permission_mode ::
  "permission_requirements \<Rightarrow> permission_mode_option list \<Rightarrow> str option" where
  "default_permission_mode r modes =
     (case Option.bind (pr_default_permissions r)
             (\<lambda>d. find (\<lambda>m. pm_allowed m \<and> pm_permissions m = d) modes) of
        Some m \<Rightarrow> Some (pm_id m)
      | None \<Rightarrow>
          map_option pm_id
            (case find (\<lambda>m. pm_allowed m \<and> pm_id m = ''preset:ask-for-approval'') modes of
               Some m \<Rightarrow> Some m
             | None \<Rightarrow> find pm_allowed modes))"

subsection \<open>Models\<close>

definition model_named :: "str \<Rightarrow> model_option list \<Rightarrow> model_option option" where
  "model_named i models = find (\<lambda>m. mo_id m = i) models"

definition selected_model_option :: "composer_controls_state \<Rightarrow> model_option option" where
  "selected_model_option c = Option.bind (cc_selected_model c) (\<lambda>i. model_named i (cc_models c))"

definition supports_effort :: "model_option \<Rightarrow> str \<Rightarrow> bool" where
  "supports_effort m e = list_ex (\<lambda>o'. re_id o' = e) (mo_supported_efforts m)"

definition offers_tier :: "model_option \<Rightarrow> str \<Rightarrow> bool" where
  "offers_tier m t = list_ex (\<lambda>o'. st_id o' = t) (mo_service_tiers m)"

text \<open>The model's own effort when it is listed, or the first that is.\<close>

definition model_effort :: "model_option \<Rightarrow> str option" where
  "model_effort m =
     map_option re_id
       (case find (\<lambda>o'. re_id o' = mo_default_effort m) (mo_supported_efforts m) of
          Some o' \<Rightarrow> Some o'
        | None \<Rightarrow> (case mo_supported_efforts m of [] \<Rightarrow> None | o' # _ \<Rightarrow> Some o'))"

definition model_tier :: "model_option \<Rightarrow> str option" where
  "model_tier m =
     (case mo_default_service_tier m of
        None \<Rightarrow> None
      | Some d \<Rightarrow> if offers_tier m d then Some d else None)"

definition keep_effort :: "model_option \<Rightarrow> str option \<Rightarrow> str option" where
  "keep_effort m selected =
     (case selected of
        Some e \<Rightarrow> if supports_effort m e then Some e else model_effort m
      | None \<Rightarrow> model_effort m)"

definition apply_model :: "str option \<Rightarrow> composer_controls_state \<Rightarrow> composer_controls_state" where
  "apply_model model c =
     (case model of
        Some m \<Rightarrow> if model_named m (cc_models c) \<noteq> None then c\<lparr>cc_selected_model := Some m\<rparr> else c
      | None \<Rightarrow> c)"

definition apply_effort :: "str option \<Rightarrow> composer_controls_state \<Rightarrow> composer_controls_state" where
  "apply_effort effort c =
     (case (effort, selected_model_option c) of
        (Some e, Some m) \<Rightarrow> if supports_effort m e then c\<lparr>cc_selected_effort := Some e\<rparr> else c
      | _ \<Rightarrow> c)"

definition apply_tier :: "bool \<Rightarrow> str option \<Rightarrow> composer_controls_state \<Rightarrow> composer_controls_state" where
  "apply_tier use_default tier c =
     c\<lparr>cc_selected_service_tier :=
       (if use_default \<and> tier = None then Option.bind (selected_model_option c) model_tier else tier)\<rparr>"

definition apply_permissions ::
  "str option \<Rightarrow> str option \<Rightarrow> approvals_reviewer option \<Rightarrow> composer_controls_state
   \<Rightarrow> composer_controls_state" where
  "apply_permissions permissions policy reviewer c =
     (case permissions of
        None \<Rightarrow> c
      | Some p \<Rightarrow>
          c\<lparr>cc_selected_permission_mode :=
            map_option pm_id (find (\<lambda>m. pm_allowed m \<and> pm_permissions m = p
                \<and> (take 8 (pm_id m) = ''profile:''
                   \<or> pm_approval_policy m = policy \<and> pm_approvals_reviewer m = reviewer))
              (cc_permission_modes c))\<rparr>)"

definition apply_settings :: "composer_settings \<Rightarrow> composer_controls_state \<Rightarrow> composer_controls_state" where
  "apply_settings st c =
     apply_permissions (cs_permissions st) (cs_approval_policy st) (cs_approvals_reviewer st)
       (apply_tier (cs_use_model_default_service_tier st) (cs_service_tier st)
         (apply_effort (cs_effort st) (apply_model (cs_model st) c)))"

definition apply_composer_settings :: "composer_settings \<Rightarrow> app_state \<Rightarrow> app_state" where
  "apply_composer_settings st s = s\<lparr>composer_controls := apply_settings st (composer_controls s)\<rparr>"

text \<open>The loop of \<open>ModelsLoaded\<close> over the three selections.\<close>

definition load_models :: "model_option list \<Rightarrow> composer_controls_state \<Rightarrow> composer_controls_state" where
  "load_models models c =
     (let selected = (case Option.bind (cc_selected_model c) (\<lambda>i. model_named i models) of
                        Some m \<Rightarrow> Some (mo_id m)
                      | None \<Rightarrow> map_option mo_id
                          (case find mo_is_default models of
                             Some m \<Rightarrow> Some m
                           | None \<Rightarrow> (case models of [] \<Rightarrow> None | m # _ \<Rightarrow> Some m)));
          model = Option.bind selected (\<lambda>i. model_named i models)
      in c\<lparr>cc_models := models, cc_selected_model := selected,
           cc_selected_effort := Option.bind model (\<lambda>m. keep_effort m (cc_selected_effort c)),
           cc_selected_service_tier := Option.bind model (\<lambda>m.
             case cc_selected_service_tier c of
               Some t \<Rightarrow> if offers_tier m t then Some t else model_tier m
             | None \<Rightarrow> model_tier m),
           cc_models_status := load_status.Ready\<rparr>)"

subsection \<open>Handlers\<close>

definition with_controls ::
  "(composer_controls_state \<Rightarrow> composer_controls_state) \<Rightarrow> app_state \<Rightarrow> app_state" where
  "with_controls f s = s\<lparr>composer_controls := f (composer_controls s)\<rparr>"

definition refresh_models :: "client_state \<Rightarrow> client_result" where
  "refresh_models c =
     (if connection (core c) \<noteq> Online
         \<or> cc_models_status (composer_controls (core c)) = load_status.Loading then (c, [])
      else (update_core (with_controls (\<lambda>t. t\<lparr>cc_models_status := load_status.Loading\<rparr>)) c, [LoadModels]))"

definition models_loaded :: "model_option list \<Rightarrow> client_state \<Rightarrow> client_result" where
  "models_loaded models c =
     (update_core (with_controls (load_models (take MAX_COMPOSER_OPTIONS models))) c, [])"

definition models_failed :: "str \<Rightarrow> client_state \<Rightarrow> client_result" where
  "models_failed message c =
     (update_core (\<lambda>s. (with_controls (\<lambda>t. t\<lparr>cc_models_status := load_status.Failed\<rparr>) s)
        \<lparr>status_message := Some message\<rparr>) c, [])"

definition permission_profiles_loaded ::
  "permission_profile_option list \<Rightarrow> permission_requirements \<Rightarrow> app_state \<Rightarrow> step_result" where
  "permission_profiles_loaded profiles requirements s =
     (let r = (remote_control s)\<lparr>rc_managed_allow_remote_control := pr_managed_allow_remote_control requirements,
                                 rc_policy_status := load_status.Ready\<rparr>;
          r = (if rc_managed_allow_remote_control r = Some False then clear_remote_control_runtime r else r);
          modes = permission_mode_options (take MAX_COMPOSER_OPTIONS profiles) requirements;
          c = composer_controls s;
          selected = (case Option.bind (cc_selected_permission_mode c)
                            (\<lambda>i. find (\<lambda>m. pm_id m = i \<and> pm_allowed m) modes) of
                        Some m \<Rightarrow> Some (pm_id m)
                      | None \<Rightarrow> default_permission_mode requirements modes)
      in begin_remote_status_refresh
           (s\<lparr>remote_control := r,
              composer_controls := c\<lparr>cc_permission_modes := modes, cc_selected_permission_mode := selected,
                                     cc_permission_profiles_status := load_status.Ready\<rparr>\<rparr>))"

definition composer_defaults_loaded ::
  "composer_settings \<Rightarrow> str option \<Rightarrow> bool \<Rightarrow> app_state \<Rightarrow> step_result" where
  "composer_defaults_loaded settings profile managed s =
     (let defaults = settings\<lparr>cs_use_model_default_service_tier := True\<rparr>;
          s1 = with_controls (\<lambda>t. t\<lparr>cc_new_chat_defaults := defaults, cc_active_profile := profile,
                 cc_has_managed_new_thread_settings := managed\<rparr>) s
      in (if selected_task_id s1 = None then apply_composer_settings defaults s1 else s1, []))"

definition composer_defaults_write_failed :: "str \<Rightarrow> client_state \<Rightarrow> client_result" where
  "composer_defaults_write_failed message c =
     (update_core (\<lambda>s. s\<lparr>status_message := Some message\<rparr>) c, [LoadPermissionProfiles None])"

text \<open>A changed setting is sent to the selected task, with a new settings generation.\<close>

definition update_thread_settings ::
  "str \<Rightarrow> str option \<Rightarrow> str option \<Rightarrow> str option option \<Rightarrow> permission_mode_option option \<Rightarrow> client_state
   \<Rightarrow> client_result" where
  "update_thread_settings task_id model effort tier mode c =
     (let (s, generation) = advance_task_settings_generation task_id (core c)
      in (with_core s c,
          [Core (UpdateThreadSettings task_id generation model effort tier (map_option pm_permissions mode)
             (Option.bind mode pm_approval_policy) (Option.bind mode pm_approvals_reviewer))]))"

text \<open>A new choice of the user; a change advances the draft of a new chat.\<close>

definition change_controls ::
  "(composer_controls_state \<Rightarrow> composer_controls_state) \<Rightarrow> bool \<Rightarrow> client_state \<Rightarrow> client_state" where
  "change_controls f changed c =
     (let c1 = update_core (with_controls f) c
      in if changed then update_core advance_new_chat_draft_generation c1 else c1)"

definition select_model :: "str \<Rightarrow> client_state \<Rightarrow> client_result" where
  "select_model i c =
     (let t = composer_controls (core c)
      in (case model_named i (cc_models t) of
            None \<Rightarrow> (c, [])
          | Some m \<Rightarrow>
              let effort = keep_effort m (cc_selected_effort t);
                  tier = (case cc_selected_service_tier t of
                            Some x \<Rightarrow> if offers_tier m x then Some x else model_tier m
                          | None \<Rightarrow> None);
                  changed = ((cc_selected_model t, cc_selected_effort t, cc_selected_service_tier t)
                             \<noteq> (Some (mo_id m), effort, tier));
                  c1 = change_controls (\<lambda>t. t\<lparr>cc_selected_model := Some (mo_id m), cc_selected_effort := effort,
                         cc_selected_service_tier := tier\<rparr>) changed c
              in (case selected_task_id (core c1) of
                    Some task_id \<Rightarrow> update_thread_settings task_id (Some (mo_id m)) effort (Some tier) None c1
                  | None \<Rightarrow>
                      if cc_has_managed_new_thread_settings t then (c1, [])
                      else (case effort of
                              None \<Rightarrow> (c1, [])
                            | Some e \<Rightarrow>
                                (update_core (with_controls (\<lambda>t. t\<lparr>cc_new_chat_defaults :=
                                   (cc_new_chat_defaults t)\<lparr>cs_model := Some (mo_id m), cs_effort := Some e\<rparr>\<rparr>)) c1,
                                 [PersistComposerModelDefaults (mo_id m) e (cc_active_profile t)])))))"

definition dismiss_model_availability_nux :: "str \<Rightarrow> client_state \<Rightarrow> client_result" where
  "dismiss_model_availability_nux i c =
     (let available = list_ex (\<lambda>m. mo_id m = i \<and> mo_availability_nux m \<noteq> None)
                        (cc_models (composer_controls (core c)))
      in if \<not> available \<or> i \<in> set (seen_model_upgrade_ids c) \<or> i = []
            \<or> MAX_SEEN_MODEL_UPGRADE_ID_BYTES < length i \<or> list_ex is_control (chars i) then (c, [])
         else let seen = (if length (seen_model_upgrade_ids c) = MAX_SEEN_MODEL_UPGRADE_IDS
                          then drop 1 (seen_model_upgrade_ids c) else seen_model_upgrade_ids c) @ [i]
              in (c\<lparr>seen_model_upgrade_ids := seen\<rparr>, [PersistSeenModelUpgradeIds seen]))"

definition select_reasoning_effort :: "str \<Rightarrow> client_state \<Rightarrow> client_result" where
  "select_reasoning_effort e c =
     (let t = composer_controls (core c)
      in (case selected_model_option t of
            None \<Rightarrow> (c, [])
          | Some m \<Rightarrow>
              if \<not> supports_effort m e then (c, [])
              else let c1 = change_controls (\<lambda>t. t\<lparr>cc_selected_effort := Some e\<rparr>) (cc_selected_effort t \<noteq> Some e) c
                   in (case selected_task_id (core c1) of
                         Some task_id \<Rightarrow> update_thread_settings task_id None (Some e) None None c1
                       | None \<Rightarrow>
                           if cc_has_managed_new_thread_settings t then (c1, [])
                           else (case cc_selected_model t of
                                   None \<Rightarrow> (c1, [])
                                 | Some model \<Rightarrow>
                                     (update_core (with_controls (\<lambda>t. t\<lparr>cc_new_chat_defaults :=
                                        (cc_new_chat_defaults t)\<lparr>cs_model := Some model, cs_effort := Some e\<rparr>\<rparr>)) c1,
                                      [PersistComposerModelDefaults model e (cc_active_profile t)])))))"

definition select_service_tier :: "str \<Rightarrow> client_state \<Rightarrow> client_result" where
  "select_service_tier i c =
     (let t = composer_controls (core c);
          standard = (i = STANDARD_SERVICE_TIER_ID);
          valid = (case selected_model_option t of None \<Rightarrow> False | Some m \<Rightarrow> offers_tier m i);
          selected = (if standard then None else Some i)
      in if \<not> standard \<and> \<not> valid then (c, [])
         else let c1 = change_controls (\<lambda>t. t\<lparr>cc_selected_service_tier := selected\<rparr>)
                         (cc_selected_service_tier t \<noteq> selected) c
              in (case selected_task_id (core c1) of
                    Some task_id \<Rightarrow> update_thread_settings task_id None None (Some selected) None c1
                  | None \<Rightarrow>
                      if cc_has_managed_new_thread_settings t then (c1, [])
                      else (update_core (with_controls (\<lambda>t. t\<lparr>cc_new_chat_defaults :=
                              (cc_new_chat_defaults t)\<lparr>cs_service_tier := selected\<rparr>\<rparr>)) c1,
                            [PersistComposerServiceTierDefault selected (cc_active_profile t)])))"

definition select_permission_mode :: "str \<Rightarrow> client_state \<Rightarrow> client_result" where
  "select_permission_mode i c =
     (let t = composer_controls (core c)
      in (case find (\<lambda>m. pm_id m = i \<and> pm_allowed m) (cc_permission_modes t) of
            None \<Rightarrow> (c, [])
          | Some mode \<Rightarrow>
              let c1 = change_controls (\<lambda>t. t\<lparr>cc_selected_permission_mode := Some i\<rparr>)
                         (cc_selected_permission_mode t \<noteq> Some i) c
              in (case selected_task_id (core c1) of
                    None \<Rightarrow> (c1, [])
                  | Some task_id \<Rightarrow> update_thread_settings task_id None None None (Some mode) c1)))"

text \<open>A reply about the settings of a task counts only for the selected task and its last request.\<close>

definition settings_current :: "str \<Rightarrow> u64 \<Rightarrow> app_state \<Rightarrow> bool" where
  "settings_current task_id generation s \<longleftrightarrow>
     selected_task_id s = Some task_id
     \<and> (case timelines s task_id of None \<Rightarrow> False | Some t \<Rightarrow> tl_settings_generation t = generation)"

definition task_settings_loaded :: "str \<Rightarrow> u64 \<Rightarrow> composer_settings \<Rightarrow> app_state \<Rightarrow> step_result" where
  "task_settings_loaded task_id generation settings s =
     (if \<not> settings_current task_id generation s then (s, [])
      else (apply_composer_settings (settings\<lparr>cs_use_model_default_service_tier := False\<rparr>) s, []))"

definition thread_settings_update_failed :: "str \<Rightarrow> u64 \<Rightarrow> str \<Rightarrow> app_state \<Rightarrow> step_result" where
  "thread_settings_update_failed task_id generation message s =
     (if \<not> settings_current task_id generation s then (s, [])
      else let (s1, e) = resume_task_effect task_id (s\<lparr>status_message := Some message\<rparr>) in (s1, [e]))"

datatype (plugins only: code size) settings_action =
    RefreshModels
  | ModelsLoaded "model_option list"
  | ModelsFailed str
  | PermissionProfilesLoaded "permission_profile_option list" permission_requirements
  | ComposerDefaultsLoaded composer_settings "str option" bool
  | ComposerDefaultsWriteFailed str
  | SelectModel str
  | DismissModelAvailabilityNux str
  | SelectReasoningEffort str
  | SelectServiceTier str
  | SelectPermissionMode str
  | TaskSettingsLoaded str u64 composer_settings
  | ThreadSettingsUpdateFailed str u64 str

fun reduce_settings :: "client_state \<Rightarrow> settings_action \<Rightarrow> client_result" where
  "reduce_settings c RefreshModels = refresh_models c"
| "reduce_settings c (ModelsLoaded models) = models_loaded models c"
| "reduce_settings c (ModelsFailed m) = models_failed m c"
| "reduce_settings c (PermissionProfilesLoaded ps r) = on_core (permission_profiles_loaded ps r) c"
| "reduce_settings c (ComposerDefaultsLoaded st p b) = on_core (composer_defaults_loaded st p b) c"
| "reduce_settings c (ComposerDefaultsWriteFailed m) = composer_defaults_write_failed m c"
| "reduce_settings c (SelectModel i) = select_model i c"
| "reduce_settings c (DismissModelAvailabilityNux i) = dismiss_model_availability_nux i c"
| "reduce_settings c (SelectReasoningEffort e) = select_reasoning_effort e c"
| "reduce_settings c (SelectServiceTier i) = select_service_tier i c"
| "reduce_settings c (SelectPermissionMode i) = select_permission_mode i c"
| "reduce_settings c (TaskSettingsLoaded t g st) = on_core (task_settings_loaded t g st) c"
| "reduce_settings c (ThreadSettingsUpdateFailed t g m) = on_core (thread_settings_update_failed t g m) c"

end
