(* ===== verification/Task_Selection.thy ===== *)
theory Task_Selection
  imports Workspace Composer_Settings Task_Lists
begin

text \<open>
  The selected task (\<open>prepare_new_chat\<close>, \<open>clear_git_for_context_change\<close>,
  \<open>clear_mcp_auth_for_context_change\<close>, \<open>prepare_browser_effect\<close> and the actions of \<open>reduce\<close> that
  select a task, start a new chat or take in a created one, in \<open>crates/codex-core/src/lib.rs\<close>).
  Leaving a task clears what belongs to it: the draft, the artifact, the Git pane and the
  authorisations of its MCP servers.
\<close>

subsection \<open>Leaving a context\<close>

definition next_git_refresh_generation :: "client_state \<Rightarrow> client_state \<times> u64" where
  "next_git_refresh_generation c =
     (let g = sat_succ (gi_refresh_generation (git c))
      in (c\<lparr>git := (git c)\<lparr>gi_refresh_generation := g\<rparr>\<rparr>, g))"

definition clear_git_for_context_change :: "client_state \<Rightarrow> client_state" where
  "clear_git_for_context_change c =
     c\<lparr>git := default_git\<lparr>gi_refresh_generation := sat_succ (gi_refresh_generation (git c)),
                          gi_diff_generation := sat_succ (gi_diff_generation (git c)),
                          gi_mutation_generation := sat_succ (gi_mutation_generation (git c))\<rparr>\<rparr>"

text \<open>The servers whose sign-in was asked for by the departing task lose it.\<close>

definition clear_mcp_auth_for_context_change :: "str option \<Rightarrow> client_state \<Rightarrow> client_state" where
  "clear_mcp_auth_for_context_change departing c =
     (case departing of
        None \<Rightarrow> c
      | Some task_id \<Rightarrow>
          let scopes = mk_mcp_auth_scopes (marketplace c);
              scoped = (\<lambda>name. scopes name = Some (Some task_id));
              forget = map (\<lambda>server. if scoped (ms_key server)
                         then server\<lparr>ms_authorization_url := None\<rparr> else server)
          in with_marketplace (\<lambda>m. m
               \<lparr>mk_mcp_auth_scopes := (\<lambda>name. if scoped name then None else scopes name),
                mk_pending_mcp_auth_name :=
                  (case mk_pending_mcp_auth_name m of
                     Some name \<Rightarrow> if scoped name then None else Some name
                   | None \<Rightarrow> None),
                mk_mcp_servers := forget (mk_mcp_servers m),
                mk_plugin_mcp_servers := forget (mk_plugin_mcp_servers m)\<rparr>) c)"

definition clear_pull_request_diff :: "pull_request_inbox_state \<Rightarrow> pull_request_inbox_state" where
  "clear_pull_request_diff p =
     p\<lparr>pq_diff_status := load_status.Idle, pq_diff_head_revision := None, pq_unified_diff := [],
       pq_diff_error := None\<rparr>"

definition invalidate_pull_requests_for_workspace_change :: "client_state \<Rightarrow> client_state" where
  "invalidate_pull_requests_for_workspace_change c =
     (let p = pull_requests c
      in c\<lparr>pull_requests := clear_pull_request_diff (p
           \<lparr>pq_generation := sat_succ (pq_generation p),
            pq_detail_generation := sat_succ (pq_detail_generation p),
            pq_diff_generation := sat_succ (pq_diff_generation p), pq_status := load_status.Idle,
            pq_items := [], pq_total_count := 0, pq_next_cursor := None, pq_truncated := False,
            pq_loading_more := False, pq_selected := None, pq_detail_status := load_status.Idle,
            pq_detail := None, pq_error := None, pq_detail_error := None, pq_detail_tab := Summary,
            pq_mutation_error := None\<rparr>)\<rparr>)"

definition prepare_browser_effect :: "str \<Rightarrow> bool \<Rightarrow> client_state \<Rightarrow> client_state \<times> client_effect option" where
  "prepare_browser_effect task_id open_new_tab c =
     (let b = get_or default_browser task_id (browser c);
          c1 = c\<lparr>browser := (browser c)(task_id \<mapsto> b)\<rparr>
      in case bs_status b of
           load_status.Loading \<Rightarrow> (c1, None)
         | load_status.Ready \<Rightarrow>
             (c1, Some (if open_new_tab then BrowserOpenTab task_id None else ActivateBrowser task_id))
         | _ \<Rightarrow>
             (c\<lparr>browser := (browser c)(task_id \<mapsto> b\<lparr>bs_status := load_status.Loading, bs_error := None\<rparr>)\<rparr>,
              Some (StartBrowser task_id)))"

subsection \<open>New chats\<close>

definition forget_drafts :: "app_state \<Rightarrow> app_state" where
  "forget_drafts s =
     (let s1 = apply_composer_settings (cc_new_chat_defaults (composer_controls s)) s
      in advance_new_chat_draft_generation
           (s1\<lparr>composer := [], composer_attachments := [], composer_error := None,
               composer_controls := (composer_controls s1)\<lparr>cc_plan_mode := False, cc_goal_mode := False\<rparr>\<rparr>))"

definition prepare_new_chat :: "path option \<Rightarrow> client_state \<Rightarrow> client_result" where
  "prepare_new_chat cwd c =
     (let departing = selected_task_id (core c);
          c1 = (if departing \<noteq> None \<or> \<not> path_option_eq (new_chat_cwd c) cwd
                then with_marketplace (\<lambda>m. m\<lparr>mk_pending_skill_path := None\<rparr>)
                       (clear_mcp_auth_for_context_change departing (clear_git_for_context_change c))
                else c);
          (c2, stop) = clear_fuzzy_file_search c1;
          c3 = update_core (\<lambda>s. (if selected_task_id s \<noteq> None
                   then clear_pending_task_fork_status (advance_task_selection_generation s) else s)
                 \<lparr>selected_task_id := None\<rparr>) (c2\<lparr>route := main_route.Tasks\<rparr>);
          c4 = (if departing \<noteq> None
                then with_marketplace (\<lambda>m. m\<lparr>mk_mcp_generation := sat_succ (mk_mcp_generation m),
                       mk_mcp_status := None, mk_mcp_errors := []\<rparr>) c3 else c3);
          c5 = update_core forget_drafts
                 (update_core (\<lambda>s. s\<lparr>process_manager := default_process_manager\<rparr>)
                   (c4\<lparr>new_chat_cwd := cwd, artifacts := default_artifacts,
                       chat_memory := (chat_memory c4)\<lparr>cm_new_chat_preferences := None\<rparr>\<rparr>));
          (c6, skills) = reload_skills (composer_workspace_roots c5) c5;
          c7 = with_marketplace (\<lambda>m. m\<lparr>mk_apps_status := Some load_status.Loading\<rparr>) c6
      in (c7, stop @ skills @ [refresh_apps_effect False c7, PersistUiState (route c7) (inspector c7)]))"

definition begin_new_chat :: "client_state \<Rightarrow> client_result" where
  "begin_new_chat c =
     prepare_new_chat
       (case Option.bind (selected_task_id (core c)) (\<lambda>i. find (\<lambda>t. ts_id t = i) (tasks (core c))) of
          Some t \<Rightarrow> Some (ts_cwd t)
        | None \<Rightarrow> new_chat_cwd c) c"

definition select_workspace :: "path \<Rightarrow> client_state \<Rightarrow> client_result" where
  "select_workspace p c =
     (if \<not> is_absolute p then (set_client_message ''The selected project folder is unavailable.'' c, [])
      else let (c1, es) = prepare_new_chat (Some p) (remember_local_project p c)
           in (c1, es @ [RememberWorkspace p]))"

definition select_composer_workspace :: "path \<Rightarrow> client_state \<Rightarrow> client_result" where
  "select_composer_workspace p c =
     (if selected_task_id (core c) \<noteq> None then (c, [])
      else if \<not> is_absolute p then (set_client_message ''The selected project folder is unavailable.'' c, [])
      else let changed = \<not> path_option_eq (new_chat_cwd c) (Some p);
               c1 = remember_local_project p (if changed then clear_git_for_context_change c else c);
               (c2, stop) = clear_fuzzy_file_search c1;
               c3 = c2\<lparr>route := main_route.Tasks, new_chat_cwd := Some p\<rparr>;
               c4 = (if changed
                     then with_marketplace (\<lambda>m. m\<lparr>mk_pending_skill_path := None\<rparr>)
                            (update_core advance_new_chat_draft_generation c3)
                     else c3);
               (c5, skills) = reload_skills (composer_workspace_roots c4) c4
           in (c5, stop @ skills @ [PersistUiState (route c5) (inspector c5), RememberWorkspace p]))"

definition use_git_worktree :: "path \<Rightarrow> client_state \<Rightarrow> client_result" where
  "use_git_worktree p c =
     (if \<not> list_ex (\<lambda>w. path_eq (gw_path w) p \<and> \<not> gw_bare w) (gi_worktrees (git c))
      then (set_client_message ''The selected Git worktree is unavailable.'' c, [])
      else prepare_new_chat (Some p) c)"

subsection \<open>Created tasks\<close>

definition leave_task :: "app_state \<Rightarrow> app_state" where
  "leave_task s =
     clear_active_composer_draft (clear_pending_task_fork_status (advance_task_selection_generation s))"

definition task_created :: "task_summary \<Rightarrow> client_state \<Rightarrow> client_result" where
  "task_created task c =
     (let task_id = ts_id task; cwd = ts_cwd task;
          previous = selected_task_id (core c);
          previous_cwd = (case selected_task_cwds (core c) of [] \<Rightarrow> None | p # _ \<Rightarrow> Some p);
          git_changed = (previous \<noteq> Some task_id \<or> \<not> path_option_eq previous_cwd (Some cwd));
          c1 = (if previous \<noteq> Some task_id
                then clear_mcp_auth_for_context_change previous (update_core leave_task c) else c);
          c2 = (remember_local_project cwd c1)
                 \<lparr>new_chat_cwd := None,
                  chat_memory := (chat_memory c1)\<lparr>cm_new_chat_preferences := None\<rparr>,
                  artifacts := default_artifacts\<rparr>;
          c3 = update_core (\<lambda>s. s\<lparr>tasks := take MAX_VISIBLE_THREADS
                       (task # filter (\<lambda>t. ts_id t \<noteq> task_id) (tasks s)),
                     selected_task_id := Some task_id,
                     timelines := (timelines s)(task_id \<mapsto> default_timeline\<lparr>tl_runtime_status_loaded := True\<rparr>),
                     goals := (goals s)(task_id \<mapsto> default_goal_state)\<rparr>) c2;
          c4 = (if git_changed then clear_git_for_context_change c3 else c3);
          (c5, generation) = next_git_refresh_generation c4;
          c6 = with_marketplace (\<lambda>m. m\<lparr>mk_apps_status := Some load_status.Loading\<rparr>) c5
      in (c6, [RememberWorkspace cwd, RefreshGit generation cwd, refresh_apps_effect False c6]))"

definition new_chat_task_created :: "task_summary \<Rightarrow> u64 \<Rightarrow> client_state \<Rightarrow> client_result" where
  "new_chat_task_created task generation c =
     (if selected_task_id (core c) = None \<and> new_chat_draft_generation (core c) = generation
      then task_created task c
      else (update_core (record_task_without_selecting task) c, []))"

definition fork_is_current :: "u64 \<Rightarrow> app_state \<Rightarrow> bool" where
  "fork_is_current rid s \<longleftrightarrow>
     (case pending_task_fork s of
        None \<Rightarrow> False
      | Some p \<Rightarrow> tf_request_id p = rid \<and> tf_selection_task_id p = selected_task_id s
          \<and> tf_selection_generation p = task_selection_generation s)"

definition settle_fork :: "u64 \<Rightarrow> app_state \<Rightarrow> app_state" where
  "settle_fork rid s =
     (case pending_task_fork s of
        None \<Rightarrow> s
      | Some p \<Rightarrow> if tf_request_id p = rid then s\<lparr>pending_task_fork := None\<rparr> else s)"

definition fork_task_completed ::
  "u64 \<Rightarrow> task_summary \<Rightarrow> str option \<Rightarrow> client_state \<Rightarrow> client_result" where
  "fork_task_completed rid task title_error c =
     (let current = fork_is_current rid (core c);
          c1 = update_core (settle_fork rid) c
      in if current
         then let (c2, es) = task_created task c1
              in (update_core (\<lambda>s. s\<lparr>status_message :=
                    map_option (\<lambda>e. bounded_string (''Chat created, but its title could not be copied: '' @ e)
                                       (16 * 1024)) title_error\<rparr>) c2, es)
         else (update_core (record_task_without_selecting task) c1, []))"

subsection \<open>Selecting a task\<close>

text \<open>A task that is known from the search only is put in front of the list.\<close>

definition list_searched_task :: "str \<Rightarrow> app_state \<Rightarrow> app_state" where
  "list_searched_task task_id s =
     (if list_ex (\<lambda>t. ts_id t = task_id) (tasks s) then s
      else (case find (\<lambda>r. ts_id (sr_task r) = task_id) (se_results (task_search s)) of
              None \<Rightarrow> s
            | Some r \<Rightarrow> s\<lparr>tasks := take MAX_VISIBLE_THREADS (sr_task r # tasks s)\<rparr>))"

definition clear_task_views :: "client_state \<Rightarrow> client_state" where
  "clear_task_views c =
     with_marketplace (\<lambda>m. m\<lparr>mk_mcp_resource_read := default_mcp_resource_read,
         mk_selected_app_id := None, mk_app_detail_status := None, mk_app_detail := None,
         mk_app_detail_error := None\<rparr>)
       (c\<lparr>artifacts := default_artifacts\<rparr>)"

text \<open>The reloads of a changed folder: skills, plugins and the plugin directory.\<close>

definition reload_workspace :: "client_state \<Rightarrow> client_result" where
  "reload_workspace c =
     (let (c1, skills) = reload_skills (composer_workspace_roots c)
                           (with_marketplace (\<lambda>m. m\<lparr>mk_pending_skill_path := None\<rparr>) c);
          c2 = with_marketplace (\<lambda>m. m\<lparr>mk_selected_plugin_id := None, mk_plugin_detail_status := None,
                 mk_plugin_detail := None, mk_plugin_detail_error := None,
                 mk_pending_plugin_skill_name := None, mk_status := Some load_status.Loading\<rparr>) c1;
          (c3, e) = refresh_marketplace_effect (selected_task_cwds (core c2))
                      (mk_selected_directory_tab (marketplace c2)) False (mk_manage_mode (marketplace c2)) c2
      in (c3, skills @ [e]))"

definition reload_apps :: "client_state \<Rightarrow> client_result" where
  "reload_apps c =
     (let c1 = with_marketplace (\<lambda>m. m\<lparr>mk_apps_status := Some load_status.Loading,
                 mk_installed_apps_status := Some load_status.Loading\<rparr>) c;
          apps = [refresh_apps_effect False c1, refresh_installed_apps_effect False c1]
      in if mk_mcp_status (marketplace c1) = None then (c1, apps)
         else let (c2, e) = refresh_mcp_servers_effect
                     (case selected_task_cwds (core c1) of [] \<Rightarrow> None | p # _ \<Rightarrow> Some p)
                     (with_marketplace (\<lambda>m. m\<lparr>mk_mcp_status := Some load_status.Loading\<rparr>) c1)
              in (c2, apps @ [e]))"

text \<open>The goal and the timeline are loaded unless they are there or on their way.\<close>

definition load_goal_if_needed :: "str \<Rightarrow> client_state \<Rightarrow> client_result" where
  "load_goal_if_needed task_id c =
     (let g = goal_of (core c) task_id
      in if gs_status g = load_status.Idle \<or> gs_status g = load_status.Failed
         then (update_core (set_goal_state task_id (g\<lparr>gs_status := load_status.Loading\<rparr>)) c, [LoadGoal task_id])
         else (update_core (set_goal_state task_id g) c, []))"

definition load_timeline_if_needed :: "str \<Rightarrow> client_state \<Rightarrow> client_result" where
  "load_timeline_if_needed task_id c =
     (let t = timeline_of (core c) task_id;
          t1 = t\<lparr>tl_generation := sat_succ (tl_generation t), tl_status := load_status.Loading\<rparr>
      in if tl_status t = load_status.Idle \<or> tl_status t = load_status.Failed
         then (update_core (set_timeline task_id t1) c, [Core (LoadTimeline task_id (tl_generation t1) None)])
         else (update_core (set_timeline task_id t) c, []))"

definition show_task :: "str \<Rightarrow> bool \<Rightarrow> client_state \<Rightarrow> client_state" where
  "show_task task_id changed c =
     (let c1 = update_core (\<lambda>s. list_searched_task task_id (s
                 \<lparr>background_completion_task_ids := filter (\<lambda>i. i \<noteq> task_id) (background_completion_task_ids s)\<rparr>)) c;
          c2 = (if changed
                then clear_task_views (clear_mcp_auth_for_context_change (selected_task_id (core c1))
                       (update_core leave_task c1))
                else c1)
      in update_core (\<lambda>s. s\<lparr>selected_task_id := Some task_id,
           process_manager := (if pg_task_id (process_manager s) = Some task_id then process_manager s
                               else default_process_manager\<lparr>pg_task_id := Some task_id\<rparr>)\<rparr>) c2)"

definition select_task :: "str \<Rightarrow> client_state \<Rightarrow> client_result" where
  "select_task task_id c =
     (let previous_roots = composer_workspace_roots c;
          changed = (selected_task_id (core c) \<noteq> Some task_id);
          previous_cwd = (case selected_task_cwds (core c) of [] \<Rightarrow> None | p # _ \<Rightarrow> Some p);
          c1 = show_task task_id changed c;
          cwd = map_option ts_cwd (find (\<lambda>t. ts_id t = task_id) (tasks (core c1)));
          c2 = (case cwd of Some p \<Rightarrow> remember_local_project p c1 | None \<Rightarrow> c1);
          cwd_changed = \<not> path_option_eq previous_cwd cwd;
          c3 = (if changed \<or> cwd_changed then clear_git_for_context_change c2 else c2);
          c4 = (if cwd_changed then invalidate_pull_requests_for_workspace_change c3 else c3);
          (c5, es5) = (case cwd of
             None \<Rightarrow> (c4, [])
           | Some p \<Rightarrow> let (c', generation) = next_git_refresh_generation c4
                       in (c', [RememberWorkspace p, RefreshGit generation p]));
          (c6, es6) = (if paths_eq (composer_workspace_roots c5) previous_roots then (c5, [])
                       else reload_workspace c5);
          (c7, es7) = (if changed then reload_apps c6 else (c6, []));
          (c8, goal) = load_goal_if_needed task_id c7;
          (c9, timeline) = load_timeline_if_needed task_id c8;
          (c10, es10) = (if inspector c9 = Browser
             then let (c', e) = prepare_browser_effect task_id False c9 in (c', case e of None \<Rightarrow> [] | Some e \<Rightarrow> [e])
             else (c9, []));
          (s, resume) = resume_task_effect task_id (core c10)
      in (with_core s c10, Core resume # timeline @ goal @ es5 @ es6 @ es7 @ es10))"

definition open_background_completion :: "client_state \<Rightarrow> client_result" where
  "open_background_completion c =
     (case rev (background_completion_task_ids (core c)) of
        [] \<Rightarrow> (c, [])
      | task_id # rest \<Rightarrow>
          let c1 = update_core (\<lambda>s. s\<lparr>background_completion_task_ids := rev rest\<rparr>) c
          in if \<not> list_ex (\<lambda>t. ts_id t = task_id) (tasks (core c1)) then (c1, []) else select_task task_id c1)"

subsection \<open>The task list arrives\<close>

definition list_tasks :: "task_summary list \<Rightarrow> str option \<Rightarrow> bool \<Rightarrow> app_state \<Rightarrow> app_state" where
  "list_tasks loaded next_cursor append' s =
     (let kept = (case selected_task_id s of
                    None \<Rightarrow> None
                  | Some i \<Rightarrow> if list_ex (\<lambda>t. ts_id t = i) loaded then None
                              else find (\<lambda>t. ts_id t = i) (tasks s));
          ts = take MAX_VISIBLE_THREADS
                 (if append' then tasks s @ loaded
                  else (case kept of None \<Rightarrow> loaded | Some t \<Rightarrow> t # loaded))
      in s\<lparr>tasks := ts,
           background_completion_task_ids :=
             filter (\<lambda>i. list_ex (\<lambda>t. ts_id t = i) ts) (background_completion_task_ids s),
           next_task_cursor := (if length ts < MAX_VISIBLE_THREADS then next_cursor else None),
           task_status := load_status.Ready\<rparr>)"

definition tasks_loaded :: "u64 \<Rightarrow> task_summary list \<Rightarrow> str option \<Rightarrow> bool \<Rightarrow> client_state \<Rightarrow> client_result" where
  "tasks_loaded generation loaded next_cursor append' c =
     (if generation \<noteq> task_generation (core c) then (c, [])
      else let c1 = update_core (list_tasks loaded next_cursor append') c
           in (case rv_unresolved_detached (review_start (core c1)) of
                 None \<Rightarrow> (c1, [])
               | Some u \<Rightarrow>
                   if \<not> list_ex (\<lambda>t. ts_id t = ud_review_thread_id u) (tasks (core c1)) then (c1, [])
                   else let c2 = update_core (\<lambda>s. s\<lparr>review_start :=
                               (review_start s)\<lparr>rv_unresolved_detached := None,
                                 rv_error := (case rv_error (review_start s) of
                                    Some e \<Rightarrow> if rx_source_task_id e = ud_source_task_id u then None else Some e
                                  | None \<Rightarrow> None)\<rparr>\<rparr>) c1
                        in if selected_task_id (core c2) = Some (ud_source_task_id u)
                           then select_task (ud_review_thread_id u) c2 else (c2, [])))"

datatype (plugins only: code size) selection_action =
    BeginNewChat
  | BeginProjectlessChat
  | SelectWorkspace path
  | SelectComposerWorkspace path
  | RenameLocalProject path str
  | ToggleLocalProjectPinned path
  | RemoveLocalProject path
  | OpenLocalProject path
  | LocalProjectsLoaded "local_project_summary list"
  | UseGitWorktree path
  | NewChatTaskCreated task_summary u64
  | ForkTaskCompleted u64 task_summary "str option"
  | TaskCreated task_summary
  | TasksLoaded u64 "task_summary list" "str option" bool
  | SelectTask str
  | OpenBackgroundCompletion
  | ComposerFileSearchChanged "str option"
  | FuzzyFileSearchUpdated str str "fuzzy_file_result list"
  | FuzzyFileSearchCompleted str
  | FuzzyFileSearchFailed str str str

fun reduce_selection :: "client_state \<Rightarrow> selection_action \<Rightarrow> client_result" where
  "reduce_selection c BeginNewChat = begin_new_chat c"
| "reduce_selection c BeginProjectlessChat = prepare_new_chat None c"
| "reduce_selection c (SelectWorkspace p) = select_workspace p c"
| "reduce_selection c (SelectComposerWorkspace p) = select_composer_workspace p c"
| "reduce_selection c (selection_action.RenameLocalProject p name) = rename_local_project p name c"
| "reduce_selection c (ToggleLocalProjectPinned p) = toggle_local_project_pinned p c"
| "reduce_selection c (selection_action.RemoveLocalProject p) = remove_local_project p c"
| "reduce_selection c (OpenLocalProject p) = open_local_project p c"
| "reduce_selection c (LocalProjectsLoaded ps) = local_projects_loaded ps c"
| "reduce_selection c (UseGitWorktree p) = use_git_worktree p c"
| "reduce_selection c (NewChatTaskCreated t g) = new_chat_task_created t g c"
| "reduce_selection c (ForkTaskCompleted r t e) = fork_task_completed r t e c"
| "reduce_selection c (TaskCreated t) = task_created t c"
| "reduce_selection c (TasksLoaded g ts n a) = tasks_loaded g ts n a c"
| "reduce_selection c (SelectTask i) = select_task i c"
| "reduce_selection c OpenBackgroundCompletion = open_background_completion c"
| "reduce_selection c (ComposerFileSearchChanged q) = change_fuzzy_file_search q c"
| "reduce_selection c (FuzzyFileSearchUpdated i q rs) = fuzzy_file_search_updated i q rs c"
| "reduce_selection c (FuzzyFileSearchCompleted i) = fuzzy_file_search_completed i c"
| "reduce_selection c (FuzzyFileSearchFailed i q m) = fuzzy_file_search_failed i q m c"

end
