(* ===== verification/Connection.thy ===== *)
theory Connection
  imports Task_Selection Account Turns
begin

text \<open>
  The connection to the app server (the connection actions of \<open>reduce\<close> and
  \<open>Action::TaskRuntimeLoaded\<close> in \<open>crates/codex-core/src/lib.rs\<close>): what is reset when it is lost, what
  is loaded when it is back, and when a task may be written to again.
\<close>

definition RECONNECTING :: str where
  "RECONNECTING = ''Connection lost. Reconnecting'' @ ellipsis"

text \<open>The sign-in that the account component leaves behind, with every detail cleared.\<close>

definition end_login :: "account_state \<Rightarrow> account_state" where
  "end_login a =
     a\<lparr>ac_auth_operation := account_auth_operation.Idle, ac_login_id := None,
       ac_login_verification_url := None, ac_login_user_code := None, ac_auth_error := None\<rparr>"

subsection \<open>Back online\<close>

definition now_online :: "app_state \<Rightarrow> app_state" where
  "now_online s =
     (let restarting = (ac_auth_operation (account s) = RestartingBedrock);
          a = (if restarting then end_login (account s) else account s);
          clear = (status_message s = Some RECONNECTING
                   \<or> restarting \<and> status_message s = Some BEDROCK_RESTARTING)
      in s\<lparr>connection := Online,
           account := a\<lparr>ac_status := load_status.Loading, ac_error := None, ac_usage_error := None,
                        ac_token_activity_error := None\<rparr>,
           status_message := (if clear then None else status_message s),
           task_generation := sat_succ (task_generation s), task_status := load_status.Loading,
           composer_controls := (composer_controls s)
             \<lparr>cc_models_status := load_status.Loading, cc_permission_profiles_status := load_status.Loading\<rparr>,
           remote_control := (remote_control s)\<lparr>rc_policy_status := load_status.Loading\<rparr>\<rparr>)"

definition reload_all :: "client_state \<Rightarrow> client_result" where
  "reload_all c =
     (let c1 = c\<lparr>personalization := (personalization c)\<lparr>pz_status := load_status.Loading, pz_pending := False,
                   pz_error := None\<rparr>,
                 computer_use_settings := (computer_use_settings c)\<lparr>us_status := load_status.Loading,
                   us_error := None\<rparr>\<rparr>;
          (c2, skills) = reload_skills (composer_workspace_roots c1)
                           (with_marketplace (\<lambda>m. m\<lparr>mk_apps_status := Some load_status.Loading,
                              mk_installed_apps_status := Some load_status.Loading\<rparr>) c1)
      in (c2, [Core (LoadTasks (task_generation (core c2)) None), LoadLoadedTasks, LoadModels,
               LoadPermissionProfiles None, LoadPersonalization]
              @ skills
              @ [refresh_apps_effect False c2, refresh_installed_apps_effect False c2,
                 LoadComposerDesktopApps, LoadComputerUsePolicy, Core LoadAccount]))"

definition resume_search :: "app_state \<Rightarrow> step_result" where
  "resume_search s =
     (let pinned = (case load_pinned_tasks_effect s of None \<Rightarrow> [] | Some e \<Rightarrow> [e]); se = task_search s
      in if se_query se = [] then (s, pinned)
         else (s\<lparr>task_search := se\<lparr>se_status := load_status.Loading\<rparr>\<rparr>,
               pinned @ [ScheduleTaskSearch (se_generation se) (se_query se)]))"

definition resume_selected :: "client_state \<Rightarrow> client_result" where
  "resume_selected c =
     (case selected_task_id (core c) of
        None \<Rightarrow> (c, [])
      | Some i \<Rightarrow>
          let (s1, resume) = resume_task_effect i (core c);
              s2 = set_goal_state i ((goal_of s1 i)\<lparr>gs_status := load_status.Loading\<rparr>) s1;
              t = timeline_of s2 i;
              t1 = t\<lparr>tl_generation := sat_succ (tl_generation t), tl_status := load_status.Loading,
                     tl_next_cursor := None\<rparr>
          in (with_core (set_timeline i t1 s2) c,
              [Core resume, LoadGoal i, Core (LoadTimeline i (tl_generation t1) None)]))"

definition load_marketplace_route_effect :: "client_state \<Rightarrow> client_result" where
  "load_marketplace_route_effect c =
     (let m = marketplace c
      in if route c \<noteq> main_route.Marketplace then (c, [])
         else case mk_selected_tab m of
                Plugins \<Rightarrow>
                  if mk_status m = Some load_status.Ready then (c, [])
                  else let (c1, e) = refresh_marketplace_effect (selected_task_cwds (core c))
                             (mk_selected_directory_tab m) False False
                             (with_marketplace (\<lambda>m. m\<lparr>mk_status := Some load_status.Loading\<rparr>) c)
                       in (c1, [e])
              | Skills \<Rightarrow>
                  if mk_skills_status m = Some load_status.Loading \<or> mk_skills_status m = Some load_status.Ready
                  then (c, [])
                  else let (c1, e) = refresh_skills_effect (composer_workspace_roots c) False
                             (with_marketplace (\<lambda>m. m\<lparr>mk_skills_status := Some load_status.Loading\<rparr>) c)
                       in (c1, [e]))"

definition pull_request_cwd :: "client_state \<Rightarrow> path" where
  "pull_request_cwd c =
     (case Option.bind (selected_task_id (core c)) (\<lambda>i. find (\<lambda>t. ts_id t = i) (tasks (core c))) of
        Some t \<Rightarrow> ts_cwd t
      | None \<Rightarrow> (case gi_repository_root (git c) of Some p \<Rightarrow> p | None \<Rightarrow> ''.''))"

definition pull_request_search_effect :: "str option \<Rightarrow> bool \<Rightarrow> client_state \<Rightarrow> client_effect" where
  "pull_request_search_effect cursor append' c =
     (let p = pull_requests c
      in SearchPullRequests (pq_generation p) (pull_request_cwd c) (pq_relationship p) (pq_lifecycle p)
           (pq_query p) cursor append')"

definition reset_pull_request_search :: "pull_request_inbox_state \<Rightarrow> pull_request_inbox_state" where
  "reset_pull_request_search p =
     clear_pull_request_diff (p
       \<lparr>pq_generation := sat_succ (pq_generation p), pq_status := load_status.Loading,
        pq_loading_more := False, pq_next_cursor := None, pq_error := None, pq_selected := None,
        pq_detail := None, pq_detail_status := load_status.Idle, pq_detail_error := None,
        pq_detail_tab := Summary, pq_mutation_error := None\<rparr>)"

definition load_pull_requests_route_effect :: "client_state \<Rightarrow> client_result" where
  "load_pull_requests_route_effect c =
     (let p = pull_requests c
      in if route c \<noteq> main_route.PullRequests \<or> pq_status p = load_status.Loading
            \<or> pq_status p = load_status.Ready then (c, [])
         else let c1 = c\<lparr>pull_requests := reset_pull_request_search p\<rparr>
              in (c1, [pull_request_search_effect None False c1]))"

definition connected :: "client_state \<Rightarrow> client_result" where
  "connected c =
     (let (c1, es1) = reload_all (update_core now_online c);
          (c2, es2) = on_core resume_search c1;
          (c3, es3) = resume_selected c2;
          (c4, es4) = load_marketplace_route_effect c3;
          (c5, es5) = load_pull_requests_route_effect c4
      in (c5, es1 @ es2 @ es3 @ es4 @ es5))"

subsection \<open>Lost and retried\<close>

definition reset_timeline :: "timeline_state \<Rightarrow> timeline_state" where
  "reset_timeline t =
     update_buffering sb_retry_pending (\<lambda>b. b\<lparr>sb_retry_pending := False, sb_dismissed := False\<rparr>)
       (t\<lparr>tl_runtime_status_loaded := False, tl_interrupt_pending := False,
          tl_goal_continuation_pending := False\<rparr>)"

text \<open>What is always dropped, even while a connection is being made.\<close>

definition forget_transients :: "app_state \<Rightarrow> app_state" where
  "forget_transients s =
     (let bedrock = (ac_auth_operation (account s) = SubmittingBedrock
                     \<or> ac_auth_operation (account s) = RestartingBedrock)
      in s\<lparr>review_start := (review_start s)\<lparr>rv_pending := None, rv_terminal_events := []\<rparr>,
           account := end_login (account s),
           status_message := (if bedrock \<and> status_message s = Some BEDROCK_RESTARTING then None
                              else status_message s)\<rparr>)"

definition is_connecting :: "connection_status \<Rightarrow> bool" where
  "is_connecting st \<longleftrightarrow> (case st of connection_status.Connecting \<Rightarrow> True | Recovering _ _ _ \<Rightarrow> True | _ \<Rightarrow> False)"

definition fail_imports :: "import_migration_state \<Rightarrow> import_migration_state" where
  "fail_imports i =
     (let i1 = (if im_import_status i = load_status.Loading
                then i\<lparr>im_import_status := load_status.Failed,
                       im_error := Some ''Couldn't finish the import because Codex disconnected.''\<rparr> else i);
          i2 = (if im_detection_status i1 = load_status.Loading
                then i1\<lparr>im_detection_status := load_status.Failed\<rparr> else i1);
          i3 = (if im_history_status i2 = load_status.Loading
                then i2\<lparr>im_history_status := load_status.Failed\<rparr> else i2)
      in i3\<lparr>im_active_import_ids := {}\<rparr>)"

definition drop_pending_changes :: "marketplace_state \<Rightarrow> marketplace_state" where
  "drop_pending_changes m =
     m\<lparr>mk_pending_plugin_id := None, mk_pending_app_id := None, mk_pending_mcp_key := None,
       mk_pending_mcp_auth_name := None, mk_pending_skill_path := None, mk_pending_plugin_skill_name := None,
       mk_add_pending := False, mk_pending_remove := None, mk_upgrade_pending := False,
       mk_pending_upgrade_name := None\<rparr>"

definition connection_lost :: "client_state \<Rightarrow> client_result" where
  "connection_lost c =
     (let c1 = update_core forget_transients c
      in if is_connecting (connection (core c1)) then (c1, [])
         else let c2 = update_core (\<lambda>s. s
                    \<lparr>connection := Recovering 0 None None, status_message := Some RECONNECTING,
                     remote_control := clear_remote_control_runtime (remote_control s),
                     timelines := (\<lambda>i. map_option reset_timeline (timelines s i))\<rparr>) c1;
                  c3 = c2\<lparr>asks := (asks c2)\<lparr>mcp_elicitations := []\<rparr>,
                          personalization := (personalization c2)\<lparr>pz_pending := False\<rparr>,
                          import_migration := fail_imports (import_migration c2),
                          fuzzy_file_search := default_fuzzy_file_search
                            \<lparr>ff_generation := ff_generation (fuzzy_file_search c2)\<rparr>\<rparr>
              in (with_marketplace drop_pending_changes c3, [ScheduleAppServerReconnect]))"

definition connect :: "client_state \<Rightarrow> client_result" where
  "connect c = (update_core (\<lambda>s. s\<lparr>connection := connection_status.Connecting\<rparr>) c, [ConnectAppServer])"

definition connection_retry_scheduled ::
  "u32 \<Rightarrow> u64 \<Rightarrow> str option \<Rightarrow> app_state \<Rightarrow> step_result" where
  "connection_retry_scheduled attempt retry_in_ms last_error s =
     (case connection s of
        Recovering _ _ _ \<Rightarrow> (s\<lparr>connection := Recovering attempt (Some retry_in_ms) last_error\<rparr>, [])
      | _ \<Rightarrow> (s, []))"

definition connection_retry_started :: "u32 \<Rightarrow> app_state \<Rightarrow> step_result" where
  "connection_retry_started attempt s =
     (case connection s of
        Recovering _ _ last_error \<Rightarrow> (s\<lparr>connection := Recovering attempt None last_error\<rparr>, [])
      | _ \<Rightarrow> (s, []))"

definition connection_failed :: "str \<Rightarrow> app_state \<Rightarrow> step_result" where
  "connection_failed message s = (s\<lparr>connection := connection_status.Failed message\<rparr>, [])"

subsection \<open>The runtime of a task\<close>

definition runtime_timeline :: "str option \<Rightarrow> bool \<Rightarrow> timeline_state \<Rightarrow> timeline_state" where
  "runtime_timeline active review t =
     (let same = (active \<noteq> None \<and> tl_active_turn_id t = active);
          t1 = t\<lparr>tl_runtime_status_loaded := True, tl_active_turn_id := active\<rparr>;
          t2 = (if review \<and> active \<noteq> None then t1\<lparr>tl_active_review_turn_id := active\<rparr>
                else if tl_active_review_turn_id t1 \<noteq> active then t1\<lparr>tl_active_review_turn_id := None\<rparr> else t1);
          t3 = (if same
                then (case tl_safety_buffering t2 of
                        Some b \<Rightarrow> if active \<noteq> Some (sb_turn_id b) then t2\<lparr>tl_safety_buffering := None\<rparr> else t2
                      | None \<Rightarrow> t2)
                else t2\<lparr>tl_interrupt_pending := False, tl_retryable_turn := None, tl_safety_buffering := None\<rparr>)
      in if active = None then t3 else t3\<lparr>tl_goal_continuation_pending := False\<rparr>)"

definition task_runtime_loaded ::
  "str \<Rightarrow> u64 \<Rightarrow> str option \<Rightarrow> bool \<Rightarrow> task_run_status option \<Rightarrow> app_state \<Rightarrow> step_result" where
  "task_runtime_loaded task_id generation active review status s =
     (let t = timeline_of s task_id
      in if generation \<noteq> tl_runtime_generation t then (set_timeline task_id t s, [])
         else let s1 = set_timeline task_id (runtime_timeline active review t) s;
                  s2 = (case status of None \<Rightarrow> s1 | Some st \<Rightarrow> set_task_status task_id st s1)
              in if active = None then schedule_goal_continuation task_id s2 else (s2, []))"

datatype (plugins only: code size) connection_action =
    Connect
  | Connected
  | ConnectionLost
  | ConnectionRetryScheduled u32 u64 "str option"
  | ConnectionRetryStarted u32
  | ConnectionFailed str
  | RetryConnection
  | TaskRuntimeLoaded str u64 "str option" bool "task_run_status option"

fun reduce_connection :: "client_state \<Rightarrow> connection_action \<Rightarrow> client_result" where
  "reduce_connection c Connect = connect c"
| "reduce_connection c RetryConnection = connect c"
| "reduce_connection c connection_action.Connected = connected c"
| "reduce_connection c ConnectionLost = connection_lost c"
| "reduce_connection c (ConnectionRetryScheduled a r e) = on_core (connection_retry_scheduled a r e) c"
| "reduce_connection c (ConnectionRetryStarted a) = on_core (connection_retry_started a) c"
| "reduce_connection c (ConnectionFailed m) = on_core (connection_failed m) c"
| "reduce_connection c (TaskRuntimeLoaded t g a r st) = on_core (task_runtime_loaded t g a r st) c"

end
