(* ===== verification/Composer_Submit.thy ===== *)
theory Composer_Submit
  imports Task_Selection Worktree_Forks Turns
begin

text \<open>
  Submitting the composer (\<open>Action::SubmitComposer\<close>) and editing the last message
  (\<open>Action::EditLastUserMessage\<close> and its replies in \<open>crates/codex-core/src/lib.rs\<close>): the commands
  \<open>/new\<close>, \<open>/fork\<close>, \<open>/compact\<close> and \<open>/shell\<close>, goals with and without attachments, and messages that
  start a task, start a turn or steer the active one.
\<close>

subsection \<open>Guards\<close>

definition selected_thread_runtime_ready :: "app_state \<Rightarrow> bool" where
  "selected_thread_runtime_ready s =
     (case selected_task_id s of
        None \<Rightarrow> True
      | Some i \<Rightarrow> (case timelines s i of None \<Rightarrow> False | Some t \<Rightarrow> tl_runtime_status_loaded t))"

definition compose_error :: "str \<Rightarrow> app_state \<Rightarrow> app_state" where
  "compose_error m s = s\<lparr>composer_error := Some m\<rparr>"

definition take_draft :: "app_state \<Rightarrow> app_state" where
  "take_draft s = s\<lparr>composer := [], composer_attachments := [], composer_error := None\<rparr>"

text \<open>The request of a turn with the settings of the composer.\<close>

definition turn_request_of ::
  "composer_controls_state \<Rightarrow> str \<Rightarrow> composer_attachment list \<Rightarrow> bool \<Rightarrow> str option \<Rightarrow> turn_request" where
  "turn_request_of t text attachments plan goal =
     \<lparr>tq_text = text, tq_model = cc_selected_model t, tq_effort = cc_selected_effort t,
      tq_service_tier = cc_selected_service_tier t,
      tq_permissions = map_option pm_permissions (permission_mode t),
      tq_approval_policy = Option.bind (permission_mode t) pm_approval_policy,
      tq_approvals_reviewer = Option.bind (permission_mode t) pm_approvals_reviewer,
      tq_attachments = attachments, tq_plan_mode = plan, tq_goal_objective = goal\<rparr>"

subsection \<open>Commands\<close>

definition submit_fork :: "app_state \<Rightarrow> step_result" where
  "submit_fork s =
     (if composer_attachments s \<noteq> []
      then (compose_error ''Continue in new chat requires an empty composer.'' s, [])
      else (case selected_task_id s of
              None \<Rightarrow> (compose_error ''Open a chat before continuing in a new chat.'' s, [])
            | Some i \<Rightarrow> fork_task i False (s\<lparr>composer := [], composer_error := None\<rparr>)))"

definition submit_compact :: "app_state \<Rightarrow> app_state \<times> client_effect list" where
  "submit_compact s =
     (if composer_attachments s \<noteq> [] then (compose_error ''Compact requires an empty composer.'' s, [])
      else (case selected_task_id s of
              None \<Rightarrow> (compose_error ''Open a chat before compacting context.'' s, [])
            | Some i \<Rightarrow>
                if \<not> selected_thread_runtime_ready s then (s, [])
                else let t = timeline_of s i; s1 = set_timeline i t s
                     in if tl_active_turn_id t \<noteq> None
                        then (compose_error ''Compact is disabled while a chat is in progress.'' s1, [])
                        else if tl_compaction_in_flight t
                        then (compose_error ''Context compaction is already in progress.'' s1, [])
                        else ((set_timeline i (t\<lparr>tl_compaction_in_flight := True\<rparr>) s)
                                \<lparr>composer := [], composer_error := None\<rparr>, [CompactThread i])))"

definition submit_shell :: "str \<Rightarrow> app_state \<Rightarrow> app_state \<times> client_effect list" where
  "submit_shell command s =
     (if composer_attachments s \<noteq> [] then (compose_error ''Shell commands do not support attachments.'' s, [])
      else (case selected_task_id s of
              None \<Rightarrow> (compose_error ''Open a chat before running a shell command.'' s, [])
            | Some i \<Rightarrow>
                let command = trim command
                in if command = [] then (compose_error ''Enter a shell command to run.'' s, [])
                   else (s\<lparr>composer := [], composer_error := None\<rparr>,
                         [RunThreadShellCommand i (composer_draft_generation s) command])))"

subsection \<open>Goals\<close>

definition goal_submission_error :: "str \<Rightarrow> app_state \<Rightarrow> str option" where
  "goal_submission_error text s =
     (if list_ex (\<lambda>a. ca_kind a \<noteq> Mention \<and> ca_kind a \<noteq> LocalImage) (composer_attachments s)
      then Some ''Goals support only local files, folders, and images.''
      else if text = [] then Some ''Goal objective cannot be empty.''
      else if MAX_GOAL_OBJECTIVE_BYTES < length text
      then Some (''Goal objective is longer than '' @ dec MAX_GOAL_OBJECTIVE_BYTES @ '' bytes.'')
      else if composer_attachments s = [] then None
      else (case selected_task_id s of
              None \<Rightarrow> None
            | Some i \<Rightarrow>
                let busy = list_ex (\<lambda>t. ts_id t = i
                      \<and> (ts_status t = task_run_status.Running \<or> ts_status t = WaitingForApproval)) (tasks s)
                in (case timelines s i of
                      None \<Rightarrow> Some ''Wait for the chat to finish loading before adding Goal attachments.''
                    | Some t \<Rightarrow>
                        if \<not> tl_runtime_status_loaded t
                        then Some ''Wait for the chat to finish loading before adding Goal attachments.''
                        else if tl_active_turn_id t \<noteq> None \<or> busy
                        then Some ''Goal attachments require an idle chat.'' else None)))"

definition leave_goal_mode :: "app_state \<Rightarrow> app_state" where
  "leave_goal_mode s = s\<lparr>composer_controls := (composer_controls s)\<lparr>cc_goal_mode := False\<rparr>\<rparr>"

definition goal_pending :: "str \<Rightarrow> app_state \<Rightarrow> app_state" where
  "goal_pending i s =
     stop_goal_continuation i (set_goal_state i ((goal_of s i)\<lparr>gs_status := load_status.Loading\<rparr>) s)"

definition submit_goal ::
  "chat_memory_preferences option \<Rightarrow> path option \<Rightarrow> str \<Rightarrow> app_state \<Rightarrow> app_state \<times> client_effect list" where
  "submit_goal memories cwd text s =
     (case goal_submission_error text s of
        Some m \<Rightarrow> (compose_error m s, [])
      | None \<Rightarrow>
          let attachments = composer_attachments s;
              request = turn_request_of (composer_controls s) (''/goal '' @ text) attachments False (Some text);
              s1 = leave_goal_mode (take_draft s)
          in (case selected_task_id s of
                Some i \<Rightarrow>
                  (goal_pending i s1,
                   if attachments \<noteq> [] then [StartTurn i (composer_draft_generation s1) request]
                   else [Core (effect.SetGoal i (Some text) (Some Active) None)])
              | None \<Rightarrow>
                  (s1, [CreateTask cwd (composer_draft_generation s1) request memories
                          (new_chat_draft_generation s1)])))"

subsection \<open>Messages\<close>

definition review_blocks :: "app_state \<Rightarrow> str option" where
  "review_blocks s =
     (if (case rv_pending (review_start s) of
            None \<Rightarrow> False
          | Some p \<Rightarrow> pv_delivery p = Inline \<and> selected_task_id s = Some (pv_source_task_id p))
      then Some ''A review is starting.''
      else if (case Option.bind (selected_task_id s) (timelines s) of
                 None \<Rightarrow> False
               | Some t \<Rightarrow> tl_active_turn_id t = tl_active_review_turn_id t \<and> tl_active_turn_id t \<noteq> None)
      then Some ''A review is in progress.'' else None)"

definition submit_message ::
  "chat_memory_preferences option \<Rightarrow> path option \<Rightarrow> str \<Rightarrow> app_state \<Rightarrow> app_state \<times> client_effect list" where
  "submit_message memories cwd text s =
     (if text = [] \<and> composer_attachments s = [] then (s, [])
      else if \<not> selected_thread_runtime_ready s then (s, [])
      else (case review_blocks s of
              Some m \<Rightarrow> (compose_error m s, [])
            | None \<Rightarrow>
                let attachments = composer_attachments s;
                    t = composer_controls s;
                    request = turn_request_of t text attachments (cc_plan_mode t) None;
                    s1 = take_draft s;
                    draft = composer_draft_generation s1
                in (case selected_task_id s of
                      Some i \<Rightarrow>
                        (s1, case Option.bind (timelines s i) tl_active_turn_id of
                               Some turn \<Rightarrow> [SteerTurn i draft turn text attachments]
                             | None \<Rightarrow> [StartTurn i draft request])
                    | None \<Rightarrow>
                        (s1, [CreateTask cwd draft request memories (new_chat_draft_generation s1)]))))"

definition on_client :: "(app_state \<Rightarrow> app_state \<times> client_effect list) \<Rightarrow> client_state \<Rightarrow> client_result" where
  "on_client f c = (let (s, es) = f (core c) in (with_core s c, es))"

text \<open>\<open>u8::is_ascii_whitespace\<close>.\<close>

definition is_ascii_whitespace :: "char \<Rightarrow> bool" where
  "is_ascii_whitespace b \<longleftrightarrow> byte b \<in> {9, 10, 12, 13, 32}"

definition shell_command :: "str \<Rightarrow> str option" where
  "shell_command text =
     (case strip_prefix ''/shell'' text of
        None \<Rightarrow> None
      | Some [] \<Rightarrow> Some []
      | Some (b # rest) \<Rightarrow> if is_ascii_whitespace b then Some (b # rest) else None)"

definition submit_composer :: "client_state \<Rightarrow> client_result" where
  "submit_composer c =
     (let s = core c; text = trim (composer s);
          memories = cm_new_chat_preferences (chat_memory c)
      in if text = ''/new''
         then if composer_attachments s \<noteq> []
              then (update_core (compose_error ''New chat requires an empty composer.'') c, [])
              else begin_new_chat c
         else if text = ''/fork'' then on_core submit_fork c
         else if text = ''/compact'' then on_client submit_compact c
         else (case shell_command text of
                 Some command \<Rightarrow> on_client (submit_shell command) c
               | None \<Rightarrow>
                   if cc_goal_mode (composer_controls s)
                   then on_client (submit_goal memories (new_chat_cwd c) text) c
                   else on_client (submit_message memories (new_chat_cwd c) text) c))"

subsection \<open>Editing the last message\<close>

text \<open>
  The edit that is sent and whether the turn must still be rolled back, or the message why none is
  sent, or neither when an edit is on its way.
\<close>

definition prepare_edit ::
  "str \<Rightarrow> str \<Rightarrow> timeline_state \<Rightarrow> str option + message_edit_state \<times> bool" where
  "prepare_edit turn_id text t =
     (case tl_message_edit t of
        Some e \<Rightarrow>
          if me_turn_id e \<noteq> turn_id \<or> me_in_flight e then Inl None
          else Inr (e\<lparr>me_draft := text, me_in_flight := True, me_error := None\<rparr>, \<not> me_rollback_applied e)
      | None \<Rightarrow>
          (case find (\<lambda>i. ti_kind i = timeline_kind.User) (rev (tl_items t)) of
             None \<Rightarrow> Inl None
           | Some m \<Rightarrow>
               if ti_turn_id m \<noteq> turn_id then Inl (Some ''Only the most recent message can be edited.'')
               else if \<not> ti_edit_supported m
               then Inl (Some ''This message contains attachments that cannot be edited.'')
               else if text = [] \<and> ti_attachments m = [] then Inl (Some ''Message cannot be empty.'')
               else Inr (\<lparr>me_turn_id = turn_id, me_draft = text, me_attachments = ti_attachments m,
                          me_rollback_applied = False, me_in_flight = True, me_error = None\<rparr>, True)))"

definition edit_last_user_message ::
  "str \<Rightarrow> str \<Rightarrow> str \<Rightarrow> app_state \<Rightarrow> app_state \<times> client_effect list" where
  "edit_last_user_message task_id turn_id text s =
     (if selected_task_id s \<noteq> Some task_id then (s, [])
      else let text = trim text
           in if MAX_COMPOSER_BYTES < length text
              then (s\<lparr>status_message := Some (''Edited message is longer than '' @ dec MAX_COMPOSER_BYTES
                        @ '' bytes.'')\<rparr>, [])
              else let t = timeline_of s task_id; s1 = set_timeline task_id t s; cc = composer_controls s
                   in if tl_active_turn_id t \<noteq> None
                      then (s1\<lparr>status_message := Some ''Stop the active turn before editing its message.''\<rparr>, [])
                      else (case prepare_edit turn_id text t of
                              Inl None \<Rightarrow> (s1, [])
                            | Inl (Some m) \<Rightarrow> (s1\<lparr>status_message := Some m\<rparr>, [])
                            | Inr (e, rollback) \<Rightarrow>
                                (set_timeline task_id (t\<lparr>tl_message_edit := Some e\<rparr>) s,
                                 [EditLastUserMessage task_id turn_id rollback
                                    (turn_request_of cc text (take MAX_COMPOSER_ATTACHMENTS (me_attachments e))
                                       (cc_plan_mode cc) None)])))"

definition update_edit ::
  "str \<Rightarrow> str \<Rightarrow> (message_edit_state \<Rightarrow> message_edit_state) \<Rightarrow> app_state \<Rightarrow> app_state" where
  "update_edit task_id turn_id f s =
     (let t = timeline_of s task_id
      in set_timeline task_id
           (case tl_message_edit t of
              Some e \<Rightarrow> if me_turn_id e = turn_id then t\<lparr>tl_message_edit := Some (f e)\<rparr> else t
            | None \<Rightarrow> t) s)"

definition cancel_last_user_message_edit :: "str \<Rightarrow> str \<Rightarrow> app_state \<Rightarrow> step_result" where
  "cancel_last_user_message_edit task_id turn_id s =
     (let t = timeline_of s task_id
      in (case tl_message_edit t of
            None \<Rightarrow> (set_timeline task_id t s, [])
          | Some e \<Rightarrow>
              if me_turn_id e \<noteq> turn_id \<or> me_in_flight e then (set_timeline task_id t s, [])
              else let t1 = t\<lparr>tl_message_edit := None\<rparr>;
                       t2 = t1\<lparr>tl_generation := sat_succ (tl_generation t1), tl_status := load_status.Loading\<rparr>
                   in if me_rollback_applied e
                      then (set_timeline task_id t2 s, [LoadTimeline task_id (tl_generation t2) None])
                      else (set_timeline task_id t1 s, [])))"

definition last_user_message_rollback_applied :: "str \<Rightarrow> str \<Rightarrow> app_state \<Rightarrow> step_result" where
  "last_user_message_rollback_applied task_id turn_id s =
     (update_edit task_id turn_id (\<lambda>e. e\<lparr>me_rollback_applied := True\<rparr>) s, [])"

definition last_user_message_edit_succeeded :: "str \<Rightarrow> str \<Rightarrow> app_state \<Rightarrow> step_result" where
  "last_user_message_edit_succeeded task_id turn_id s =
     (let t = timeline_of s task_id
      in (set_timeline task_id
            (case tl_message_edit t of
               Some e \<Rightarrow>
                 if me_turn_id e = turn_id
                 then (rebuild_item_indices (t\<lparr>tl_items := filter (\<lambda>i. ti_turn_id i \<noteq> turn_id) (tl_items t)\<rparr>))
                        \<lparr>tl_message_edit := None\<rparr>
                 else t
             | None \<Rightarrow> t) s, []))"

definition last_user_message_edit_failed :: "str \<Rightarrow> str \<Rightarrow> bool \<Rightarrow> str \<Rightarrow> app_state \<Rightarrow> step_result" where
  "last_user_message_edit_failed task_id turn_id rollback_applied message s =
     (let message = bounded_string message MAX_COMPOSER_BYTES
      in ((update_edit task_id turn_id
             (\<lambda>e. e\<lparr>me_rollback_applied := (me_rollback_applied e \<or> rollback_applied),
                    me_in_flight := False, me_error := Some message\<rparr>) s)
            \<lparr>status_message := Some message\<rparr>, []))"

subsection \<open>Failures\<close>

definition compact_thread_failed :: "str \<Rightarrow> str \<Rightarrow> app_state \<Rightarrow> step_result" where
  "compact_thread_failed task_id message s =
     ((set_timeline task_id ((timeline_of s task_id)\<lparr>tl_compaction_in_flight := False\<rparr>) s)
        \<lparr>status_message := Some (bounded_string message MAX_COMPOSER_BYTES)\<rparr>, [])"

definition thread_shell_command_failed :: "str \<Rightarrow> str \<Rightarrow> app_state \<Rightarrow> step_result" where
  "thread_shell_command_failed task_id message s =
     (if selected_task_id s = Some task_id
      then (s\<lparr>status_message := Some (bounded_string message MAX_COMPOSER_BYTES)\<rparr>, []) else (s, []))"

datatype (plugins only: code size) submit_action =
    SubmitComposer
  | EditLastUserMessage str str str
  | CancelLastUserMessageEdit str str
  | LastUserMessageRollbackApplied str str
  | LastUserMessageEditSucceeded str str
  | LastUserMessageEditFailed str str bool str
  | CompactThreadFailed str str
  | ThreadShellCommandFailed str str

fun reduce_submit :: "client_state \<Rightarrow> submit_action \<Rightarrow> client_result" where
  "reduce_submit c SubmitComposer = submit_composer c"
| "reduce_submit c (submit_action.EditLastUserMessage t u text) = on_client (edit_last_user_message t u text) c"
| "reduce_submit c (CancelLastUserMessageEdit t u) = on_core (cancel_last_user_message_edit t u) c"
| "reduce_submit c (LastUserMessageRollbackApplied t u) = on_core (last_user_message_rollback_applied t u) c"
| "reduce_submit c (LastUserMessageEditSucceeded t u) = on_core (last_user_message_edit_succeeded t u) c"
| "reduce_submit c (LastUserMessageEditFailed t u r m) = on_core (last_user_message_edit_failed t u r m) c"
| "reduce_submit c (CompactThreadFailed t m) = on_core (compact_thread_failed t m) c"
| "reduce_submit c (ThreadShellCommandFailed t m) = on_core (thread_shell_command_failed t m) c"

end
