(* ===== verification/Effect_Safety.thy ===== *)
theory Effect_Safety
  imports Interfaces
begin

text \<open>
  The contract of a component whose effects are safe as long as its invariant holds: what every
  allowed action sends satisfies \<open>safe\<close>, and the invariant is kept.
\<close>

locale effect_safety =
  fixes step :: "'s \<Rightarrow> 'a \<Rightarrow> 's \<times> 'e list"
    and inv :: "'s \<Rightarrow> bool"
    and allowed :: "'a \<Rightarrow> bool"
    and safe :: "'e \<Rightarrow> bool"
  assumes step_inv: "inv s \<Longrightarrow> allowed a \<Longrightarrow> inv (fst (step s a))"
    and step_safe: "inv s \<Longrightarrow> allowed a \<Longrightarrow> list_all safe (snd (step s a))"
begin

lemma run_safe:
  "inv s \<Longrightarrow> list_all allowed as \<Longrightarrow> inv (fst (run step s as)) \<and> list_all safe (snd (run step s as))"
proof (induction as arbitrary: s)
  case Nil
  then show ?case by simp
next
  case (Cons a as)
  then have "inv (fst (run step (fst (step s a)) as)) \<and> list_all safe (snd (run step (fst (step s a)) as))"
    by (intro Cons.IH step_inv) simp_all
  then show ?case unfolding run_Cons_fst run_Cons_snd using Cons.prems step_safe by simp
qed

end

end
