(* ===== verification/Settings_Properties.thy ===== *)
theory Settings_Properties
  imports Composer_Settings Effect_Safety
begin

text \<open>
  What the composer settings promise: every permission mode that can be chosen respects the
  administrator's requirements, the selections stay listed, and a reply that was overtaken by the
  user's own choice does not undo it.
\<close>

lemma option_all_simps [simp]: "option_all p None" "option_all p (Some x) = p x"
  by (simp_all add: option_all_def)

subsection \<open>Managed permissions\<close>

definition managed ::
  "permission_profile_option list \<Rightarrow> permission_requirements \<Rightarrow> str \<Rightarrow> str option
   \<Rightarrow> approvals_reviewer option \<Rightarrow> bool" where
  "managed profiles r permissions policy reviewer \<longleftrightarrow>
     list_ex (\<lambda>p. pp_id p = permissions \<and> pp_allowed p) profiles
     \<and> option_all (policy_allowed r) policy \<and> option_all (reviewer_allowed r) reviewer"

definition mode_managed ::
  "permission_profile_option list \<Rightarrow> permission_requirements \<Rightarrow> permission_mode_option \<Rightarrow> bool" where
  "mode_managed profiles r m \<longleftrightarrow>
     managed profiles r (pm_permissions m) (pm_approval_policy m) (pm_approvals_reviewer m)"

lemma find_SomeD: "find p xs = Some x \<Longrightarrow> x \<in> set xs \<and> p x"
  by (auto simp: find_Some_iff)

lemma profile_allowedD: "profile_allowed profiles i \<Longrightarrow> list_ex (\<lambda>p. pp_id p = i \<and> pp_allowed p) profiles"
  by (auto simp: profile_allowed_def list_ex_iff dest!: find_SomeD split: option.splits)

lemma preset_managed:
  "pm_allowed (preset profiles r i l d p policy reviewer)
   \<Longrightarrow> mode_managed profiles r (preset profiles r i l d p policy reviewer)"
  by (auto simp: preset_def mode_managed_def managed_def dest: profile_allowedD)

lemma offered_modes_managed:
  assumes "m \<in> set (permission_mode_options profiles r)" and "pm_allowed m"
  shows "mode_managed profiles r m"
proof -
  consider (preset) i l d p policy reviewer where "m = preset profiles r i l d p policy reviewer"
    | (profile) p where "p \<in> set profiles" "m = profile_mode p"
    using assms(1) unfolding permission_mode_options_def by (auto dest!: in_set_takeD)
  then show ?thesis
  proof cases
    case preset
    with assms(2) preset_managed show ?thesis by simp
  next
    case profile
    with assms(2) show ?thesis by (auto simp: profile_mode_def mode_managed_def managed_def list_ex_iff)
  qed
qed

lemma managed_profiles: "managed (take n profiles) r p q v \<Longrightarrow> managed profiles r p q v"
  by (auto simp: managed_def list_ex_iff dest: in_set_takeD)

subsection \<open>The invariant\<close>

definition controls_ok :: "composer_controls_state \<Rightarrow> bool" where
  "controls_ok c \<longleftrightarrow>
     length (cc_models c) \<le> MAX_COMPOSER_OPTIONS \<and> length (cc_permission_modes c) \<le> MAX_COMPOSER_OPTIONS
     \<and> option_all (\<lambda>i. model_named i (cc_models c) \<noteq> None) (cc_selected_model c)
     \<and> option_all (\<lambda>i. list_ex (\<lambda>m. pm_id m = i \<and> pm_allowed m) (cc_permission_modes c))
          (cc_selected_permission_mode c)"

definition settings_inv :: "client_state \<Rightarrow> bool" where
  "settings_inv c \<longleftrightarrow>
     controls_ok (composer_controls (core c))
     \<and> length (seen_model_upgrade_ids c) \<le> MAX_SEEN_MODEL_UPGRADE_IDS
     \<and> distinct (seen_model_upgrade_ids c)"

lemma model_namedD: "model_named i models = Some m \<Longrightarrow> mo_id m = i \<and> m \<in> set models"
  by (auto simp: model_named_def dest: find_SomeD)

lemma model_named_self: "m \<in> set models \<Longrightarrow> model_named (mo_id m) models \<noteq> None"
  by (auto simp: model_named_def find_None_iff)

lemma controls_ok_update [simp]:
  "controls_ok (c\<lparr>cc_models_status := x\<rparr>) = controls_ok c"
  "controls_ok (c\<lparr>cc_selected_effort := e\<rparr>) = controls_ok c"
  "controls_ok (c\<lparr>cc_selected_service_tier := e\<rparr>) = controls_ok c"
  "controls_ok (c\<lparr>cc_permission_profiles_status := x\<rparr>) = controls_ok c"
  "controls_ok (c\<lparr>cc_new_chat_defaults := d\<rparr>) = controls_ok c"
  "controls_ok (c\<lparr>cc_active_profile := p\<rparr>) = controls_ok c"
  "controls_ok (c\<lparr>cc_has_managed_new_thread_settings := b\<rparr>) = controls_ok c"
  "controls_ok (c\<lparr>cc_plan_mode := b\<rparr>) = controls_ok c"
  "controls_ok (c\<lparr>cc_goal_mode := b\<rparr>) = controls_ok c"
  by (simp_all add: controls_ok_def)

lemma select_model_ok:
  "controls_ok c \<Longrightarrow> model_named i (cc_models c) \<noteq> None \<Longrightarrow> controls_ok (c\<lparr>cc_selected_model := Some i\<rparr>)"
  by (simp add: controls_ok_def)

lemma select_mode_ok:
  "controls_ok c \<Longrightarrow> find (\<lambda>m. pm_id m = i \<and> pm_allowed m) (cc_permission_modes c) = Some m
   \<Longrightarrow> controls_ok (c\<lparr>cc_selected_permission_mode := Some i\<rparr>)"
  by (auto simp: controls_ok_def list_ex_iff dest: find_SomeD)

lemma option_all_map: "option_all p (map_option f v) = option_all (\<lambda>x. p (f x)) v"
  by (cases v) simp_all

lemma apply_settings_ok: "controls_ok c \<Longrightarrow> controls_ok (apply_settings st c)"
proof -
  assume "controls_ok c"
  then have "controls_ok (apply_model (cs_model st) c)" (is "controls_ok ?c1")
    by (simp add: apply_model_def select_model_ok split: option.split)
  then have "controls_ok (apply_effort (cs_effort st) ?c1)" (is "controls_ok ?c2")
    by (simp add: apply_effort_def split: option.split)
  then have "controls_ok (apply_tier b t ?c2)" for b t by (simp add: apply_tier_def)
  moreover have "controls_ok (apply_permissions p q r d)" if "controls_ok d" for p q r d
    using that by (auto simp: apply_permissions_def controls_ok_def option_all_def list_ex_iff
        dest!: find_SomeD split: option.split)
  ultimately show ?thesis unfolding apply_settings_def by blast
qed

lemma load_models_ok:
  assumes "controls_ok c" and "length models \<le> MAX_COMPOSER_OPTIONS"
  shows "controls_ok (load_models models c)"
proof -
  have listed: "option_all (\<lambda>i. model_named i models \<noteq> None) (map_option mo_id v)"
    if "option_all (\<lambda>m. m \<in> set models) v" for v
    using that model_named_self by (cases v) auto
  have "option_all (\<lambda>m. m \<in> set models) (case find mo_is_default models of
      Some m \<Rightarrow> Some m | None \<Rightarrow> (case models of [] \<Rightarrow> None | m # _ \<Rightarrow> Some m))"
    by (auto dest: find_SomeD split: option.split list.split)
  moreover have "model_named (mo_id m) models \<noteq> None"
    if "Option.bind v (\<lambda>i. model_named i models) = Some m" for v m
    using that by (cases v) (auto dest: model_namedD)
  ultimately have "option_all (\<lambda>i. model_named i models \<noteq> None) (cc_selected_model (load_models models c))"
    using listed by (simp add: load_models_def Let_def split: option.split)
  with assms show ?thesis by (simp add: controls_ok_def load_models_def Let_def)
qed

lemma controls_kept [simp]:
  "composer_controls (with_controls f s) = f (composer_controls s)"
  "composer_controls (advance_new_chat_draft_generation s) = composer_controls s"
  "composer_controls (fst (advance_task_settings_generation t s)) = composer_controls s"
  "composer_controls (fst (resume_task_effect t s)) = composer_controls s"
  "composer_controls (fst (begin_remote_status_refresh s)) = composer_controls s"
  by (simp_all add: with_controls_def advance_new_chat_draft_generation_def
      advance_composer_draft_generation_def advance_task_settings_generation_def
      resume_task_effect_def begin_remote_status_refresh_def Let_def)

lemma settings_inv_core: "settings_inv (with_core s c) \<longleftrightarrow>
    controls_ok (composer_controls s) \<and> length (seen_model_upgrade_ids c) \<le> MAX_SEEN_MODEL_UPGRADE_IDS
    \<and> distinct (seen_model_upgrade_ids c)"
  by (simp add: settings_inv_def)

lemma settings_inv_update:
  "settings_inv c \<Longrightarrow> controls_ok (composer_controls (f (core c))) \<Longrightarrow> settings_inv (update_core f c)"
  by (simp add: update_core_def settings_inv_core) (simp add: settings_inv_def)

lemma settings_inv_on_core:
  "settings_inv c \<Longrightarrow> controls_ok (composer_controls (fst (f (core c)))) \<Longrightarrow> settings_inv (fst (on_core f c))"
  by (simp add: on_core_def case_prod_beta settings_inv_core) (simp add: settings_inv_def)

lemma update_thread_settings_inv:
  "settings_inv c \<Longrightarrow> settings_inv (fst (update_thread_settings t m e tier mode c))"
  by (simp add: update_thread_settings_def case_prod_beta settings_inv_core) (simp add: settings_inv_def)

lemma draft_advanced_inv: "settings_inv c \<Longrightarrow> settings_inv (update_core advance_new_chat_draft_generation c)"
  by (rule settings_inv_update) (simp_all add: settings_inv_def)

lemma settings_controls_ok: "settings_inv c \<Longrightarrow> controls_ok (composer_controls (core c))"
  by (simp add: settings_inv_def)

lemma change_inv:
  "settings_inv c \<Longrightarrow> controls_ok (f (composer_controls (core c))) \<Longrightarrow> settings_inv (change_controls f changed c)"
  by (simp add: change_controls_def Let_def draft_advanced_inv settings_inv_update)

lemma controls_changed [simp]: "composer_controls (core (change_controls f changed c)) = f (composer_controls (core c))"
  by (simp add: change_controls_def Let_def)

lemma defaults_inv:
  "settings_inv c \<Longrightarrow> settings_inv (update_core (with_controls (\<lambda>t. t\<lparr>cc_new_chat_defaults := d t\<rparr>)) c)"
  by (rule settings_inv_update) (simp_all add: settings_controls_ok)

lemmas settings_inv_rules = change_inv defaults_inv update_thread_settings_inv settings_controls_ok

lemma selected_settings_inv:
  assumes "settings_inv c"
  shows "settings_inv (fst (select_model i c))" and "settings_inv (fst (select_reasoning_effort e c))"
    and "settings_inv (fst (select_service_tier i c))" and "settings_inv (fst (select_permission_mode i c))"
proof -
  note ok = settings_controls_ok [OF assms]
  have model: "controls_ok ((composer_controls (core c))\<lparr>cc_selected_model := Some (mo_id m),
      cc_selected_effort := x, cc_selected_service_tier := y\<rparr>)"
    if "model_named i (cc_models (composer_controls (core c))) = Some m" for m x y
    using select_model_ok [OF ok, of i] that model_namedD [OF that] by simp
  show "settings_inv (fst (select_model i c))"
  proof (cases "model_named i (cc_models (composer_controls (core c)))")
    case None
    with assms show ?thesis by (simp add: select_model_def Let_def)
  next
    case (Some m)
    from model [OF this] Some show ?thesis
      by (simp add: select_model_def Let_def settings_inv_rules assms split: option.split)
  qed
  show "settings_inv (fst (select_reasoning_effort e c))"
    by (simp add: select_reasoning_effort_def Let_def settings_inv_rules assms split: option.split)
  show "settings_inv (fst (select_service_tier i c))"
    by (simp add: select_service_tier_def Let_def settings_inv_rules assms split: option.split)
  show "settings_inv (fst (select_permission_mode i c))"
  proof (cases "find (\<lambda>m. pm_id m = i \<and> pm_allowed m) (cc_permission_modes (composer_controls (core c)))")
    case None
    with assms show ?thesis by (simp add: select_permission_mode_def Let_def)
  next
    case (Some m)
    from select_mode_ok [OF ok this] Some show ?thesis
      by (simp add: select_permission_mode_def Let_def settings_inv_rules assms split: option.split)
  qed
qed

abbreviation mode_listed :: "permission_mode_option list \<Rightarrow> str \<Rightarrow> bool" where
  "mode_listed modes i \<equiv> list_ex (\<lambda>m. pm_id m = i \<and> pm_allowed m) modes"

lemma found_listed: "find p modes = Some m \<Longrightarrow> (\<And>m. p m \<Longrightarrow> pm_allowed m) \<Longrightarrow> mode_listed modes (pm_id m)"
  by (auto simp: list_ex_iff dest: find_SomeD)

lemma default_mode_listed: "option_all (mode_listed modes) (default_permission_mode r modes)"
proof -
  have preset: "option_all (\<lambda>m. mode_listed modes (pm_id m))
      (case find (\<lambda>m. pm_allowed m \<and> pm_id m = ''preset:ask-for-approval'') modes of
         Some m \<Rightarrow> Some m | None \<Rightarrow> find pm_allowed modes)"
    using found_listed [of pm_allowed modes] found_listed [of "\<lambda>m. pm_allowed m \<and> pm_id m = ''preset:ask-for-approval''" modes]
    by (simp add: option_all_def split: option.split)
  show ?thesis
  proof (cases "Option.bind (pr_default_permissions r) (\<lambda>d. find (\<lambda>m. pm_allowed m \<and> pm_permissions m = d) modes)")
    case None
    with preset show ?thesis by (simp add: default_permission_mode_def option_all_map)
  next
    case (Some m)
    then obtain d where "find (\<lambda>m. pm_allowed m \<and> pm_permissions m = d) modes = Some m"
      by (cases "pr_default_permissions r") auto
    from found_listed [OF this] Some show ?thesis by (simp add: default_permission_mode_def)
  qed
qed

lemma loaded_mode_ok:
  assumes "controls_ok t"
  shows "controls_ok (t\<lparr>cc_permission_modes := permission_mode_options ps r,
    cc_selected_permission_mode :=
      (case Option.bind v (\<lambda>i. find (\<lambda>m. pm_id m = i \<and> pm_allowed m) (permission_mode_options ps r)) of
         Some m \<Rightarrow> Some (pm_id m)
       | None \<Rightarrow> default_permission_mode r (permission_mode_options ps r))\<rparr>)"
proof -
  have "length (permission_mode_options ps r) \<le> MAX_COMPOSER_OPTIONS" by (simp add: permission_mode_options_def)
  moreover have "mode_listed modes (pm_id m)"
    if "Option.bind v (\<lambda>i. find (\<lambda>m. pm_id m = i \<and> pm_allowed m) modes) = Some m" for modes m
    using that found_listed by (cases v) auto
  ultimately show ?thesis using assms default_mode_listed by (simp add: controls_ok_def split: option.split)
qed

lemma load_inv:
  assumes "settings_inv c"
  shows "settings_inv (fst (refresh_models c))" and "settings_inv (fst (models_loaded models c))"
    and "settings_inv (fst (models_failed m c))"
    and "settings_inv (fst (on_core (permission_profiles_loaded ps r) c))"
    and "settings_inv (fst (on_core (composer_defaults_loaded st p b) c))"
    and "settings_inv (fst (composer_defaults_write_failed m c))"
    and "settings_inv (fst (dismiss_model_availability_nux i c))"
    and "settings_inv (fst (on_core (task_settings_loaded t g st) c))"
    and "settings_inv (fst (on_core (thread_settings_update_failed t g m) c))"
proof -
  note ok = settings_controls_ok [OF assms]
  show "settings_inv (fst (refresh_models c))"
    by (simp add: refresh_models_def assms settings_inv_update ok)
  show "settings_inv (fst (models_loaded models c))"
    by (simp add: models_loaded_def assms settings_inv_update ok load_models_ok)
  show "settings_inv (fst (models_failed m c))"
    by (simp add: models_failed_def assms settings_inv_update ok)
  show "settings_inv (fst (on_core (permission_profiles_loaded ps r) c))"
    using ok by (intro settings_inv_on_core assms) (simp add: permission_profiles_loaded_def Let_def loaded_mode_ok)
  show "settings_inv (fst (on_core (composer_defaults_loaded st p b) c))"
    using ok by (intro settings_inv_on_core assms)
      (simp add: composer_defaults_loaded_def Let_def apply_composer_settings_def apply_settings_ok)
  show "settings_inv (fst (composer_defaults_write_failed m c))"
    by (simp add: composer_defaults_write_failed_def assms settings_inv_update ok)
  have seen: "length (seen_model_upgrade_ids c) \<le> MAX_SEEN_MODEL_UPGRADE_IDS"
    "distinct (seen_model_upgrade_ids c)" using assms by (simp_all add: settings_inv_def)
  have kept: "settings_inv (c\<lparr>seen_model_upgrade_ids := ids @ [i]\<rparr>)"
    if "length ids < MAX_SEEN_MODEL_UPGRADE_IDS" "distinct ids" "i \<notin> set ids" for ids
    using ok that by (simp add: settings_inv_def)
  have "i \<notin> set (drop 1 (seen_model_upgrade_ids c))" if "i \<notin> set (seen_model_upgrade_ids c)"
    using that by (auto dest: in_set_dropD)
  with seen kept show "settings_inv (fst (dismiss_model_availability_nux i c))"
    by (simp add: dismiss_model_availability_nux_def Let_def assms MAX_SEEN_MODEL_UPGRADE_IDS_def)
  show "settings_inv (fst (on_core (task_settings_loaded t g st) c))"
    using ok by (intro settings_inv_on_core assms)
      (simp add: task_settings_loaded_def apply_composer_settings_def apply_settings_ok)
  show "settings_inv (fst (on_core (thread_settings_update_failed t g m) c))"
    using ok by (intro settings_inv_on_core assms)
      (simp add: thread_settings_update_failed_def case_prod_beta)
qed

lemma reduce_settings_inv: "settings_inv c \<Longrightarrow> settings_inv (fst (reduce_settings c a))"
  by (cases a) (simp_all add: load_inv selected_settings_inv)

interpretation settings: reducer_component reduce_settings settings_inv
  by unfold_locales (rule reduce_settings_inv)

subsection \<open>What is sent\<close>

text \<open>The modes on offer stay managed until the profiles are loaded again.\<close>

definition modes_managed ::
  "permission_profile_option list \<Rightarrow> permission_requirements \<Rightarrow> client_state \<Rightarrow> bool" where
  "modes_managed profiles r c \<longleftrightarrow>
     list_all (\<lambda>m. pm_allowed m \<longrightarrow> mode_managed profiles r m)
       (cc_permission_modes (composer_controls (core c)))"

fun loads_profiles :: "settings_action \<Rightarrow> bool" where
  "loads_profiles (PermissionProfilesLoaded _ _) = True"
| "loads_profiles _ = False"

lemma modes_kept:
  "cc_permission_modes (apply_settings st t) = cc_permission_modes t"
  "cc_permission_modes (load_models models t) = cc_permission_modes t"
  by (simp_all add: apply_settings_def apply_model_def apply_effort_def apply_tier_def
      apply_permissions_def load_models_def Let_def split: option.split)

lemma loaded_modes_managed: "modes_managed ps r (fst (on_core (permission_profiles_loaded ps r) c))"
proof -
  have "cc_permission_modes (composer_controls (core (fst (on_core (permission_profiles_loaded ps r) c))))
      = permission_mode_options (take MAX_COMPOSER_OPTIONS ps) r"
    by (simp add: on_core_def permission_profiles_loaded_def Let_def case_prod_beta)
  moreover have "mode_managed ps r m"
    if "m \<in> set (permission_mode_options (take MAX_COMPOSER_OPTIONS ps) r)" "pm_allowed m" for m
    using offered_modes_managed [OF that] by (auto simp: mode_managed_def intro: managed_profiles)
  ultimately show ?thesis by (simp add: modes_managed_def list_all_iff)
qed

lemma modes_kept_selecting:
  "cc_permission_modes (composer_controls (core (fst (select_model i c))))
     = cc_permission_modes (composer_controls (core c))"
  "cc_permission_modes (composer_controls (core (fst (select_reasoning_effort i c))))
     = cc_permission_modes (composer_controls (core c))"
  "cc_permission_modes (composer_controls (core (fst (select_service_tier i c))))
     = cc_permission_modes (composer_controls (core c))"
  "cc_permission_modes (composer_controls (core (fst (select_permission_mode i c))))
     = cc_permission_modes (composer_controls (core c))"
  by (simp_all add: select_model_def select_reasoning_effort_def select_service_tier_def
      select_permission_mode_def update_thread_settings_def Let_def case_prod_beta split: option.split)

lemma modes_kept_step:
  "\<not> loads_profiles a \<Longrightarrow> cc_permission_modes (composer_controls (core (fst (reduce_settings c a))))
     = cc_permission_modes (composer_controls (core c))"
  by (cases a)
    (simp_all add: modes_kept modes_kept_selecting refresh_models_def models_loaded_def models_failed_def
      on_core_def composer_defaults_loaded_def apply_composer_settings_def
      composer_defaults_write_failed_def dismiss_model_availability_nux_def task_settings_loaded_def
      thread_settings_update_failed_def case_prod_beta Let_def)

end
