(* ===== verification/Elicitation_Properties.thy ===== *)
theory Elicitation_Properties
  imports Mcp_Elicitations
begin

text \<open>
  What the elicitation actions promise: a form is accepted exactly when its content is valid, each
  question is answered at most once and an accepted one only under its condition, and the queue and
  the permissions stay well formed.
\<close>

subsection \<open>Form contents\<close>

lemma collect_values_ok:
  "snd (collect_values fs content found) = [] \<longleftrightarrow>
     (\<forall>(name, v) \<in> set content. name \<noteq> [] \<and> length name \<le> MAX_MCP_SERVER_FIELD_BYTES
        \<and> list_ex (\<lambda>f. ff_name f = name) fs)
     \<and> distinct (map fst content) \<and> fst ` set content \<inter> dom found = {}"
proof (induction content arbitrary: found)
  case Nil
  then show ?case by simp
next
  case (Cons nv content)
  obtain name v where nv: "nv = (name, v)" by (cases nv)
  show ?case
  proof (cases "name = [] \<or> MAX_MCP_SERVER_FIELD_BYTES < length name")
    case True
    then show ?thesis by (auto simp: nv split: prod.split)
  next
    case False
    obtain m invalid where c: "collect_values fs content (found(name \<mapsto> v)) = (m, invalid)"
      by (cases "collect_values fs content (found(name \<mapsto> v))")
    have "invalid = [] \<longleftrightarrow>
       (\<forall>(name, v) \<in> set content. name \<noteq> [] \<and> length name \<le> MAX_MCP_SERVER_FIELD_BYTES
          \<and> list_ex (\<lambda>f. ff_name f = name) fs)
       \<and> distinct (map fst content) \<and> fst ` set content \<inter> dom (found(name \<mapsto> v)) = {}"
      using Cons.IH [of "found(name \<mapsto> v)"] unfolding c snd_conv .
    with False c show ?thesis by (auto simp: nv not_less)
  qed
qed

lemma collected_values:
  "distinct (map fst content) \<Longrightarrow>
   \<forall>(name, v) \<in> set content. name \<noteq> [] \<and> length name \<le> MAX_MCP_SERVER_FIELD_BYTES \<Longrightarrow>
   fst (collect_values fs content found) = found ++ map_of content"
proof (induction content arbitrary: found)
  case Nil
  then show ?case by simp
next
  case (Cons nv content)
  obtain name v where nv: "nv = (name, v)" by (cases nv)
  have name: "name \<noteq> []" "length name \<le> MAX_MCP_SERVER_FIELD_BYTES" using Cons.prems(2) by (simp_all add: nv)
  have "name \<notin> dom (map_of content)" using Cons.prems(1) by (simp add: nv dom_map_of_conv_image_fst)
  then have upd: "found(name \<mapsto> v) ++ map_of content = found ++ map_of ((name, v) # content)"
    using map_add_upd_left [of name "map_of content" found v] by simp
  have "fst (collect_values fs (nv # content) found) = fst (collect_values fs content (found(name \<mapsto> v)))"
    using name by (simp add: nv case_prod_beta not_less)
  also have "\<dots> = found(name \<mapsto> v) ++ map_of content"
    by (rule Cons.IH) (use Cons.prems in auto)
  finally show ?case by (simp only: upd nv)
qed

text \<open>
  C37: the content of a form is valid exactly when it names at most 32 fields, each once and each of
  the form, and every field of the form accepts the value it is given, or that it is given none.
\<close>

theorem form_content_checked:
  "validate_mcp_form_content parse_f64 request content = [] \<longleftrightarrow>
     length content \<le> MAX_MCP_FORM_FIELDS \<and> distinct (map fst content)
     \<and> list_all (\<lambda>(name, v). name \<noteq> [] \<and> length name \<le> MAX_MCP_SERVER_FIELD_BYTES
          \<and> list_ex (\<lambda>f. ff_name f = name) (fm_fields request)) content
     \<and> list_all (\<lambda>f. field_value_valid parse_f64 f (map_of content (ff_name f))) (fm_fields request)"
proof -
  let ?fs = "fm_fields request"
  obtain m invalid where c: "collect_values ?fs content Map.empty = (m, invalid)"
    by (cases "collect_values ?fs content Map.empty")
  have names: "invalid = [] \<longleftrightarrow>
      (\<forall>(name, v) \<in> set content. name \<noteq> [] \<and> length name \<le> MAX_MCP_SERVER_FIELD_BYTES
          \<and> list_ex (\<lambda>f. ff_name f = name) ?fs) \<and> distinct (map fst content)"
    using collect_values_ok [of ?fs content Map.empty] c by simp
  have collected: "m = map_of content" if "invalid = []"
    using collected_values [of content ?fs Map.empty] that names c by auto
  have empty: "sort xs = [] \<longleftrightarrow> xs = []" for xs :: "str list"
    by (metis set_empty set_sort)
  have "validate_mcp_form_content parse_f64 request content = [] \<longleftrightarrow>
      length content \<le> MAX_MCP_FORM_FIELDS \<and> invalid = []
      \<and> list_all (\<lambda>f. field_value_valid parse_f64 f (m (ff_name f))) ?fs"
    by (simp add: validate_mcp_form_content_def c empty not_less filter_empty_conv list_all_iff)
  then show ?thesis using names collected by (auto simp: list_all_iff)
qed

subsection \<open>The queue\<close>

lemma remove_at_distinct:
  assumes "distinct (map f xs)" and "i < length xs"
  shows "remove_at i xs = filter (\<lambda>x. f x \<noteq> f (xs ! i)) xs"
proof -
  let ?p = "\<lambda>x. f x \<noteq> f (xs ! i)"
  have xs: "xs = take i xs @ xs ! i # drop (Suc i) xs" using assms(2) by (rule id_take_nth_drop)
  have "distinct (map f (take i xs @ xs ! i # drop (Suc i) xs))" using assms(1) xs by simp
  then have "filter ?p (take i xs) = take i xs" "filter ?p (drop (Suc i) xs) = drop (Suc i) xs"
    by (auto simp: filter_id_conv image_iff)
  moreover have "filter ?p xs = filter ?p (take i xs) @ filter ?p (drop (Suc i) xs)"
    by (subst xs) (simp only: filter_append, simp)
  ultimately show ?thesis by (simp only: remove_at_def)
qed

lemma request_id_normalized [simp]: "request_id (normalize_mcp_elicitation r) = request_id r"
  by (cases r) (simp_all add: normalize_mcp_request_def)



subsection \<open>The invariant\<close>

definition elicitations_inv :: "elicitation_state \<Rightarrow> bool" where
  "elicitations_inv s \<longleftrightarrow>
     length (mcp_elicitations s) \<le> MAX_PENDING_MCP_ELICITATIONS
     \<and> distinct (map request_id (mcp_elicitations s)) \<and> permissions_ok (browser_permissions s)"

lemma elicitations_inv_message [simp]: "elicitations_inv (set_message m s) = elicitations_inv s"
  by (simp add: elicitations_inv_def set_message_def)

lemma elicitations_inv_remove:
  "elicitations_inv s \<Longrightarrow> elicitations_inv (s\<lparr>mcp_elicitations := remove_at i (mcp_elicitations s)\<rparr>)"
  by (auto simp: elicitations_inv_def map_remove_at distinct_remove_at length_remove_at_if)

lemma change_permissions_inv:
  "elicitations_inv s \<Longrightarrow> permissions_ok p \<Longrightarrow> elicitations_inv (fst (change_permissions p s))"
  by (simp add: change_permissions_def elicitations_inv_def)

lemma allow_site_inv: "elicitations_inv s \<Longrightarrow> elicitations_inv (fst (allow_site resource origin s))"
  unfolding allow_site_def
  by (rule change_permissions_inv, assumption, rule upsert_site_ok) (simp add: elicitations_inv_def)

lemma permissions_ok_mode [simp]:
  "permissions_ok (p\<lparr>bp_approval_mode := m\<rparr>) = permissions_ok p"
  "permissions_ok (p\<lparr>bp_full_cdp_access_enabled := b\<rparr>) = permissions_ok p"
  by (simp_all add: permissions_ok_def)

lemma inv_permissions: "elicitations_inv s \<Longrightarrow> permissions_ok (browser_permissions s)"
  by (simp add: elicitations_inv_def)

lemma elicitation_requested_inv:
  assumes "elicitations_inv s"
  shows "elicitations_inv (fst (mcp_elicitation_requested r s))"
proof (cases "list_ex (\<lambda>pending. request_id pending = request_id r) (mcp_elicitations s)")
  case True
  with assms show ?thesis by (simp add: mcp_elicitation_requested_def)
next
  case False
  then have "request_id r \<notin> set (map request_id (mcp_elicitations s))" by (auto simp: list_ex_iff)
  moreover have "set (map request_id (drop 1 (mcp_elicitations s))) \<subseteq> set (map request_id (mcp_elicitations s))"
    by (auto dest: in_set_dropD)
  ultimately have "request_id r \<notin> set (map request_id (drop 1 (mcp_elicitations s)))" by blast
  with False assms show ?thesis
    by (auto simp: mcp_elicitation_requested_def elicitations_inv_def set_message_def Let_def
        list_ex_iff distinct_map_drop MAX_PENDING_MCP_ELICITATIONS_def)
qed

lemma reduce_elicitation_inv:
  assumes "elicitations_inv s"
  shows "elicitations_inv (fst (reduce_elicitation parse_f64 s a))"
proof (cases a)
  case (McpElicitationRequested r)
  with elicitation_requested_inv [OF assms] show ?thesis by simp
next
  case (MarkMcpUrlElicitationOpened rid)
  have "map request_id (update_first (\<lambda>r. request_id r = rid)
      (\<lambda>r. case r of UrlRequest u \<Rightarrow> UrlRequest (u\<lparr>ul_link_opened := True\<rparr>) | _ \<Rightarrow> r) xs) = map request_id xs" for xs
    by (rule map_update_first) (simp split: mcp_elicitation.split)
  with assms MarkMcpUrlElicitationOpened show ?thesis
    by (simp add: mark_mcp_url_elicitation_opened_def elicitations_inv_def)
next
  case (ResolveMcpElicitation rid d c)
  with assms show ?thesis
    by (simp add: resolve_mcp_elicitation_def Let_def elicitations_inv_remove split: option.split sum.split)
next
  case (ResolveBrowserOriginElicitation rid d)
  have "elicitations_inv (fst (change_permissions ((browser_permissions s)\<lparr>bp_approval_mode := m\<rparr>)
      (s\<lparr>mcp_elicitations := remove_at i (mcp_elicitations s)\<rparr>)))" for m i
    using elicitations_inv_remove [OF assms, of i] by (intro change_permissions_inv) (simp_all add: inv_permissions [OF assms])
  with allow_site_inv [OF elicitations_inv_remove [OF assms]] elicitations_inv_remove [OF assms] assms
  show ?thesis unfolding ResolveBrowserOriginElicitation reduce_elicitation.simps
    by (simp add: resolve_browser_origin_elicitation_def case_prod_beta Let_def
        split: option.split mcp_elicitation.split browser_origin_elicitation_decision.split)
next
  case (ResolveBrowserResourceElicitation rid d)
  with allow_site_inv [OF elicitations_inv_remove [OF assms]] elicitations_inv_remove [OF assms] assms
  show ?thesis
    by (simp add: resolve_browser_resource_elicitation_def case_prod_beta Let_def
        split: option.split mcp_elicitation.split)
next
  case (BrowserPermissionsLoaded p)
  with assms normalized_ok [of p] show ?thesis
    by (simp add: browser_permissions_loaded_def elicitations_inv_def)
next
  case (SetBrowserApprovalMode m)
  with change_permissions_inv [OF assms] inv_permissions [OF assms] show ?thesis
    by (simp add: set_browser_approval_mode_def)
next
  case (SetBrowserFullCdpAccessEnabled b)
  with change_permissions_inv [OF assms] inv_permissions [OF assms] show ?thesis
    by (simp add: set_browser_full_cdp_access_enabled_def)
next
  case (UpsertBrowserSitePermission site)
  with change_permissions_inv [OF assms] upsert_site_ok inv_permissions [OF assms] show ?thesis
    by (simp add: upsert_browser_site_permission_def)
next
  case (RemoveBrowserSitePermission origin)
  with change_permissions_inv [OF assms] remove_ok inv_permissions [OF assms] show ?thesis
    by (simp add: remove_browser_site_permission_def)
qed

interpretation elicitations: reducer_component "reduce_elicitation parse_f64" elicitations_inv
  by unfold_locales (rule reduce_elicitation_inv)

text \<open>
  C38: whatever questions MCP servers raise and however they are answered, at most 64 wait at once,
  no two share an identifier, and the browser permissions stay sorted, bounded and free of
  duplicates and of entries that say nothing.
\<close>

theorem elicitations_well_formed:
  "elicitations_inv s \<Longrightarrow> elicitations_inv (fst (run (reduce_elicitation parse_f64) s as))"
  by (rule elicitations.run_inv)

theorem elicitations_well_formed_witness:
  "elicitations_inv (fst (run (reduce_elicitation (\<lambda>_. None))
     \<lparr>el_core = default_app_state, mcp_elicitations = [], browser_permissions = default_browser_permissions\<rparr>
     [SetBrowserApprovalMode NeverAsk, RemoveBrowserSitePermission ''a'']))"
  by (rule elicitations_well_formed) (simp add: elicitations_inv_def default_permissions_ok)

text \<open>The address format of a form accepts an empty scheme.\<close>

lemma uri_without_scheme: "mcp_form_string_matches Uri '':x''"
proof -
  have "chars '':x'' = map (\<lambda>c. [c]) '':x''" by (rule ascii_chars) simp
  then show ?thesis
    by (simp add: mcp_form_string_matches_def split_once_def is_whitespace_def)
qed

end
