(* ===== verification/Client_Defaults.thy ===== *)
theory Client_Defaults
  imports Client_State
begin

text \<open>
  The state a client starts with (the \<open>Default\<close> instances of \<open>crates/codex-core/src/lib.rs\<close>), as far
  as the client state models it.
\<close>

definition default_computer_use_settings :: computer_use_settings_state where
  "default_computer_use_settings =
     \<lparr>us_status = load_status.Idle, us_always_allowed_app_ids = [], us_pending_removal_app_id = None,
      us_error = None\<rparr>"

definition default_personalization :: personalization_state where
  "default_personalization =
     \<lparr>pz_status = load_status.Idle, pz_personality = Friendly, pz_memory_available = False,
      pz_generate_memories = True, pz_use_memories = True, pz_memories_enabled = False,
      pz_allow_memory_generation_from_tool_assisted_chats = False, pz_pending = False,
      pz_error = None\<rparr>"

definition default_import_migration :: import_migration_state where
  "default_import_migration =
     \<lparr>im_detection_status = load_status.Idle, im_providers = [], im_detection_failures = [],
      im_history_status = load_status.Idle, im_histories = [], im_connectors = [],
      im_import_status = load_status.Idle, im_active_import_ids = {}, im_progress = [],
      im_error = None, im_history_error = None, im_visible_history_count = 5\<rparr>"

definition default_pull_request_inbox :: pull_request_inbox_state where
  "default_pull_request_inbox =
     \<lparr>pq_generation = 0, pq_status = load_status.Idle, pq_account_login = None,
      pq_account_avatar_url = None, pq_query = [],
      pq_relationship = pull_request_relationship.ReviewRequested,
      pq_lifecycle = pull_request_lifecycle.Open, pq_items = [], pq_total_count = 0,
      pq_next_cursor = None, pq_truncated = False, pq_loading_more = False, pq_selected = None,
      pq_detail_generation = 0, pq_detail_status = load_status.Idle, pq_detail = None,
      pq_error = None, pq_detail_error = None, pq_detail_tab = Summary, pq_diff_generation = 0,
      pq_diff_status = load_status.Idle, pq_diff_head_revision = None, pq_unified_diff = [],
      pq_diff_error = None, pq_mutation_generation = 0, pq_pending_mutation = None,
      pq_mutation_error = None\<rparr>"

definition default_marketplace :: marketplace_state where
  "default_marketplace =
     \<lparr>mk_selected_tab = Plugins, mk_selected_directory_tab = CuratedByOpenAi,
      mk_manage_mode = False, mk_status = None, mk_marketplace_generation = 0,
      mk_apps_status = None, mk_installed_apps_status = None, mk_mcp_status = None,
      mk_mcp_generation = 0, mk_skills_status = None, mk_skills_generation = 0,
      mk_composer_plugins_generation = 0, mk_mcp_servers = [], mk_plugin_mcp_servers = [],
      mk_mcp_errors = [], mk_pending_plugin_id = None, mk_pending_app_id = None,
      mk_pending_mcp_key = None, mk_pending_mcp_auth_name = None, mk_mcp_auth_scopes = Map.empty,
      mk_pending_skill_path = None, mk_pending_plugin_skill_name = None, mk_add_pending = False,
      mk_pending_remove = None, mk_upgrade_pending = False, mk_pending_upgrade_name = None,
      mk_selected_plugin_id = None, mk_plugin_detail_status = None, mk_plugin_detail = None,
      mk_plugin_detail_error = None, mk_selected_app_id = None, mk_app_detail_status = None,
      mk_app_detail = None, mk_app_detail_error = None,
      mk_mcp_resource_read = default_mcp_resource_read\<rparr>"

definition default_chat_memory :: chat_memory_state where
  "default_chat_memory =
     \<lparr>cm_new_chat_preferences = None, cm_thread_preferences = [],
      cm_pending_thread_updates = {}\<rparr>"

definition default_client :: client_state where
  "default_client =
     \<lparr>asks = \<lparr>el_core = default_app_state, mcp_elicitations = [],
              browser_permissions = default_browser_permissions\<rparr>,
      route = main_route.Tasks, inspector = Hidden, local_projects = [], new_chat_cwd = None,
      fuzzy_file_search = default_fuzzy_file_search, git = default_git,
      pull_requests = default_pull_request_inbox, marketplace = default_marketplace,
      artifacts = default_artifacts, browser = Map.empty,
      import_migration = default_import_migration,
      computer_use_settings = default_computer_use_settings,
      personalization = default_personalization, chat_memory = default_chat_memory,
      seen_model_upgrade_ids = [], computer_use = Map.empty\<rparr>"

lemma core_default_client [simp]: "core default_client = default_app_state"
  by (simp add: default_client_def core_def)

end
