(* ===== verification/Client_Invariant.thy ===== *)
theory Client_Invariant
  imports Composition Connection Composer_Submit Settings_Properties Elicitation_Properties Client_Defaults
begin

text \<open>
  The handlers of the client keep the invariants of all components: which updates of the core state
  the invariants allow, and that every settings, selection, submission, connection and elicitation
  action consists of such updates.
\<close>

subsection \<open>Updates the invariants allow\<close>

lemma app_inv_update [simp]:
  "app_inv (s\<lparr>status_message := m\<rparr>) = app_inv s"
  "app_inv (s\<lparr>goals := g\<rparr>) = app_inv s"
  "app_inv (s\<lparr>composer_controls := cc\<rparr>) = app_inv s"
  "app_inv (s\<lparr>composer_error := e\<rparr>) = app_inv s"
  "app_inv (s\<lparr>selected_task_id := i\<rparr>) = app_inv s"
  "app_inv (s\<lparr>task_generation := tg\<rparr>) = app_inv s"
  "app_inv (s\<lparr>task_status := ts\<rparr>) = app_inv s"
  "app_inv (s\<lparr>next_task_cursor := n\<rparr>) = app_inv s"
  "app_inv (s\<lparr>pending_task_fork := pf\<rparr>) = app_inv s"
  "app_inv (s\<lparr>task_selection_generation := sg\<rparr>) = app_inv s"
  "app_inv (s\<lparr>new_chat_draft_generation := ng\<rparr>) = app_inv s"
  "app_inv (s\<lparr>composer_draft_generation := dg\<rparr>) = app_inv s"
  by (simp_all add: app_inv_def inv_defs cong: option.case_cong)

lemma app_inv_draft:
  "app_inv s \<Longrightarrow> app_inv (s\<lparr>composer := []\<rparr>)" "app_inv s \<Longrightarrow> app_inv (s\<lparr>composer_attachments := []\<rparr>)"
  by (simp_all add: app_inv_def inv_defs cong: option.case_cong)

lemma app_inv_tasks: "app_inv s \<Longrightarrow> length ts \<le> MAX_VISIBLE_THREADS \<Longrightarrow> app_inv (s\<lparr>tasks := ts\<rparr>)"
  by (simp add: app_inv_def inv_defs cong: option.case_cong)

lemma app_tasks: "app_inv s \<Longrightarrow> length (tasks s) \<le> MAX_VISIBLE_THREADS"
  by (simp add: app_inv_def task_lists_inv_def)

lemma app_inv_processes: "app_inv s \<Longrightarrow> app_inv (s\<lparr>process_manager := default_process_manager\<lparr>pg_task_id := i\<rparr>\<rparr>)"
  by (simp add: app_inv_def inv_defs default_process_manager_def MAX_BACKGROUND_TERMINALS_def cong: option.case_cong)

lemma app_inv_no_processes: "app_inv s \<Longrightarrow> app_inv (s\<lparr>process_manager := default_process_manager\<rparr>)"
  by (simp add: app_inv_def inv_defs default_process_manager_def MAX_BACKGROUND_TERMINALS_def cong: option.case_cong)

lemma app_inv_background:
  "app_inv s \<Longrightarrow> app_inv (s\<lparr>background_completion_task_ids := filter p (background_completion_task_ids s)\<rparr>)"
  by (auto simp: app_inv_def inv_defs background_ok_def intro: length_filter_bound cong: option.case_cong)

lemma app_inv_background_set:
  "app_inv s \<Longrightarrow> background_ok ids \<Longrightarrow> app_inv (s\<lparr>background_completion_task_ids := ids\<rparr>)"
  by (simp add: app_inv_def inv_defs cong: option.case_cong)

lemma app_inv_search:
  "app_inv s \<Longrightarrow> app_inv (s\<lparr>task_search := (task_search s)\<lparr>se_status := st\<rparr>\<rparr>)"
  by (simp add: app_inv_def inv_defs result_id_def cong: option.case_cong)

lemma app_inv_review:
  "app_inv s \<Longrightarrow> terminals_ok (rv_terminal_events r) \<Longrightarrow> app_inv (s\<lparr>review_start := r\<rparr>)"
  by (simp add: app_inv_def inv_defs cong: option.case_cong)

lemma app_inv_terminals: "app_inv s \<Longrightarrow> terminals_ok (rv_terminal_events (review_start s))"
  by (simp add: app_inv_def turns_inv_def)

lemma app_inv_account: "app_inv s \<Longrightarrow> login_ok a \<Longrightarrow> details_ok a \<Longrightarrow> app_inv (s\<lparr>account := a\<rparr>)"
  by (simp add: app_inv_def inv_defs cong: option.case_cong)

lemma app_inv_remote:
  "app_inv s \<Longrightarrow> remote_inv (s\<lparr>remote_control := r\<rparr>) \<Longrightarrow> app_inv (s\<lparr>remote_control := r\<rparr>)"
  by (simp add: app_inv_def inv_defs cong: option.case_cong)

lemma app_inv_connection:
  "app_inv s \<Longrightarrow> (st = Online \<longrightarrow> deferred_ok (s\<lparr>connection := st\<rparr>)) \<Longrightarrow> app_inv (s\<lparr>connection := st\<rparr>)"
  by (auto simp: app_inv_def inv_defs cong: option.case_cong)

definition timeline_inv :: "timeline_state \<Rightarrow> bool" where
  "timeline_inv t \<longleftrightarrow> timeline_ok t \<and> turn_ok t"

lemma app_inv_timelines:
  "app_inv s \<Longrightarrow> (\<And>i t. m i = Some t \<Longrightarrow> timeline_inv t) \<Longrightarrow> app_inv (s\<lparr>timelines := m\<rparr>)"
  by (auto simp: app_inv_def inv_defs timeline_inv_def ran_def cong: option.case_cong)

lemma app_timeline: "app_inv s \<Longrightarrow> timelines s i = Some t \<Longrightarrow> timeline_inv t"
  by (auto simp: app_inv_def timelines_ok_def turns_inv_def timeline_inv_def ran_def)

lemma app_timeline_of: "app_inv s \<Longrightarrow> timeline_inv (timeline_of s i)"
  by (simp add: app_inv_def timeline_inv_def timeline_of_ok timeline_of_turn_ok)

lemma app_inv_set_timeline: "app_inv s \<Longrightarrow> timeline_inv t \<Longrightarrow> app_inv (set_timeline i t s)"
  by (rule app_inv_timelines) (auto intro: app_timeline split: if_splits)

lemma app_inv_goal_timeline:
  "app_inv s \<Longrightarrow> timeline_inv t \<Longrightarrow> app_inv (s\<lparr>goals := g, timelines := (timelines s)(i \<mapsto> t)\<rparr>)"
  using app_inv_set_timeline [of "s\<lparr>goals := g\<rparr>" t i] by simp

lemma timeline_inv_update [simp]:
  "timeline_inv (t\<lparr>tl_generation := g\<rparr>) = timeline_inv t"
  "timeline_inv (t\<lparr>tl_status := st\<rparr>) = timeline_inv t"
  "timeline_inv (t\<lparr>tl_next_cursor := cu\<rparr>) = timeline_inv t"
  "timeline_inv (t\<lparr>tl_settings_generation := g\<rparr>) = timeline_inv t"
  "timeline_inv (t\<lparr>tl_runtime_generation := g\<rparr>) = timeline_inv t"
  "timeline_inv (t\<lparr>tl_runtime_status_loaded := b\<rparr>) = timeline_inv t"
  "timeline_inv (t\<lparr>tl_interrupt_pending := b\<rparr>) = timeline_inv t"
  "timeline_inv (t\<lparr>tl_goal_continuation_pending := b\<rparr>) = timeline_inv t"
  "timeline_inv (t\<lparr>tl_compaction_in_flight := b\<rparr>) = timeline_inv t"
  "timeline_inv (t\<lparr>tl_message_edit := ed\<rparr>) = timeline_inv t"
  "timeline_inv (t\<lparr>tl_active_review_turn_id := u\<rparr>) = timeline_inv t"
  by (simp_all add: timeline_inv_def turn_ok_def buffering_ok_def timeline_ok_def indices_ok_def
      paging_ok_def usage_ok_def)

lemma default_timeline_inv [simp]: "timeline_inv default_timeline"
  by (simp add: timeline_inv_def)

lemma runtime_timeline_inv: "timeline_inv t \<Longrightarrow> timeline_inv (runtime_timeline active review t)"
  by (auto simp: runtime_timeline_def Let_def timeline_inv_def turn_ok_def buffering_ok_def
      timeline_ok_def indices_ok_def paging_ok_def usage_ok_def split: option.splits)

lemma reset_timeline_inv:
  assumes "timeline_inv t"
  shows "timeline_inv (reset_timeline t)"
proof -
  let ?t = "t\<lparr>tl_runtime_status_loaded := False, tl_interrupt_pending := False,
    tl_goal_continuation_pending := False\<rparr>"
  have "timeline_inv ?t" using assms by simp
  then have "timeline_ok ?t" "turn_ok ?t" unfolding timeline_inv_def by blast+
  then show ?thesis unfolding reset_timeline_def timeline_inv_def
    by (intro conjI update_buffering_ok) (simp_all add: buffering_ok_def)
qed

lemma edited_timeline_inv:
  assumes "timeline_inv t"
  shows "timeline_inv (rebuild_item_indices (t\<lparr>tl_items := filter p (tl_items t)\<rparr>))" (is "timeline_inv ?t")
proof -
  have "indices_ok ?t" by simp
  moreover have "paging_ok ?t" "usage_ok ?t" "turn_ok ?t"
    using assms by (simp_all add: rebuild_item_indices_def timeline_inv_def timeline_ok_def turn_ok_def
        buffering_ok_def paging_ok_def usage_ok_def)
  moreover have "length (tl_items ?t) \<le> MAX_TIMELINE_ITEMS"
    using assms by (simp add: timeline_inv_def timeline_ok_def length_filter_bound)
  ultimately show ?thesis by (simp add: timeline_inv_def timeline_ok_def)
qed

subsection \<open>Shared steps\<close>

lemma app_inv_helpers:
  assumes "app_inv s"
  shows "app_inv (with_controls f s)"
    and "app_inv (advance_composer_draft_generation s)"
    and "app_inv (advance_new_chat_draft_generation s)"
    and "app_inv (advance_task_selection_generation s)"
    and "app_inv (clear_pending_task_fork_status s)"
    and "app_inv (clear_active_composer_draft s)"
    and "app_inv (fst (advance_task_settings_generation i s))"
    and "app_inv (fst (resume_task_effect i s))"
    and "app_inv (set_goal_state i g s)"
    and "app_inv (stop_goal_continuation i s)"
    and "app_inv (set_task_status i st s)"
    and "app_inv (apply_composer_settings cs s)"
    and "app_inv (fst (schedule_goal_continuation i s))"
    and "app_inv (restore_retry_prompt (normalize_retryable_user_message p) s)"
proof -
  have set: "app_inv (set_timeline i t s)" if "timeline_inv t" for i t
    using assms that by (rule app_inv_set_timeline)
  have of: "timeline_inv (timeline_of s i)" for i using assms by (rule app_timeline_of)
  show "app_inv (with_controls f s)" "app_inv (advance_composer_draft_generation s)"
    "app_inv (advance_new_chat_draft_generation s)" "app_inv (advance_task_selection_generation s)"
    "app_inv (clear_pending_task_fork_status s)" "app_inv (set_goal_state i g s)"
    "app_inv (apply_composer_settings cs s)"
    using assms by (simp_all add: with_controls_def advance_composer_draft_generation_def
        advance_new_chat_draft_generation_def advance_task_selection_generation_def
        clear_pending_task_fork_status_def apply_composer_settings_def Let_def)
  show "app_inv (clear_active_composer_draft s)"
    using assms by (simp add: clear_active_composer_draft_def advance_composer_draft_generation_def
        app_inv_draft Let_def)
  show "app_inv (fst (advance_task_settings_generation i s))" "app_inv (fst (resume_task_effect i s))"
    by (simp_all add: advance_task_settings_generation_def resume_task_effect_def Let_def set of)
  show "app_inv (stop_goal_continuation i s)" by (simp add: set of)
  show "app_inv (set_task_status i st s)"
    using assms app_tasks [OF assms] by (simp add: set_task_status_def app_inv_tasks)
  show "app_inv (fst (schedule_goal_continuation i s))"
    using assms by (simp add: schedule_goal_continuation_def Let_def set of)
  show "app_inv (restore_retry_prompt (normalize_retryable_user_message p) s)"
    using assms restored_bounds [of s p]
    by (simp add: app_inv_def inv_defs restore_retry_prompt_def Let_def cong: option.case_cong)
qed

subsection \<open>Settings\<close>

lemma core_asks [simp]: "core (c\<lparr>asks := a\<rparr>) = el_core a" "el_core (asks c) = core c"
  by (simp_all add: core_def)

lemma core_lifted [simp]:
  "core (fst (on_core f c)) = fst (f (core c))" "core (fst (on_client g c)) = fst (g (core c))"
  by (simp_all add: on_core_def on_client_def case_prod_beta)

lemma remote_ok_policy [simp]:
  "remote_ok (r\<lparr>rc_managed_allow_remote_control := m\<rparr>) = remote_ok r"
  "remote_ok (r\<lparr>rc_policy_status := st\<rparr>) = remote_ok r"
proof -
  have "busy_current b (r\<lparr>rc_managed_allow_remote_control := m\<rparr>) = busy_current b r"
    "busy_current b (r\<lparr>rc_policy_status := st\<rparr>) = busy_current b r" for b
    by (cases b; simp)+
  then show "remote_ok (r\<lparr>rc_managed_allow_remote_control := m\<rparr>) = remote_ok r"
    "remote_ok (r\<lparr>rc_policy_status := st\<rparr>) = remote_ok r"
    by (simp_all add: remote_ok_def busy_ok_def link_ok_def devices_ok_def cong: option.case_cong)
qed

lemma app_remote_ok: "app_inv s \<Longrightarrow> remote_ok (remote_control s)"
  by (simp add: app_inv_def remote_inv_def)

lemma app_inv_clear_remote: "app_inv s \<Longrightarrow> app_inv (s\<lparr>remote_control := clear_remote_control_runtime r\<rparr>)"
proof -
  have "\<not> rc_status_refresh_pending (clear_remote_control_runtime r)"
    by (simp add: clear_remote_control_runtime_def invalidate_remote_devices_def invalidate_remote_pairing_def)
  moreover assume "app_inv s"
  ultimately show ?thesis by (intro app_inv_remote) (simp_all add: remote_inv_def remote_ok_clear deferred_ok_def)
qed

lemma app_inv_refresh:
  assumes "app_inv s" and "remote_ok r"
  shows "app_inv (fst (begin_remote_status_refresh (s\<lparr>remote_control := r\<rparr>)))"
proof -
  let ?s = "s\<lparr>remote_control := r\<rparr>"
  have "fst (begin_remote_status_refresh ?s) = s\<lparr>remote_control := remote_control (fst (begin_remote_status_refresh ?s))\<rparr>"
    by (simp add: begin_remote_status_refresh_def Let_def)
  moreover have "remote_inv (fst (begin_remote_status_refresh ?s))" using assms(2) by (simp add: begin_inv)
  ultimately show ?thesis using app_inv_remote [OF assms(1)] by metis
qed

lemma app_inv_profiles_loaded:
  assumes "app_inv s"
  shows "app_inv (fst (permission_profiles_loaded ps r s))"
proof -
  have "app_inv (fst (begin_remote_status_refresh (s\<lparr>remote_control := x, composer_controls := y\<rparr>)))"
    if "remote_ok x" for x y
  proof -
    have "s\<lparr>remote_control := x, composer_controls := y\<rparr> = (s\<lparr>composer_controls := y\<rparr>)\<lparr>remote_control := x\<rparr>" by simp
    then show ?thesis using app_inv_refresh [of "s\<lparr>composer_controls := y\<rparr>" x] assms that
      by (simp only: app_inv_update)
  qed
  then show ?thesis unfolding permission_profiles_loaded_def Let_def
    by (simp add: app_remote_ok [OF assms] remote_ok_clear)
qed

lemma app_inv_thread_settings:
  "app_inv (core c) \<Longrightarrow> app_inv (core (fst (update_thread_settings i m e t mode c)))"
  by (simp add: update_thread_settings_def case_prod_beta app_inv_helpers)

lemma app_inv_controls: "app_inv (core c) \<Longrightarrow> app_inv (core (change_controls f b c))"
  by (simp add: change_controls_def Let_def app_inv_helpers)

lemma settings_app_inv: "app_inv (core c) \<Longrightarrow> app_inv (core (fst (reduce_settings c a)))"
proof (cases a)
  case (PermissionProfilesLoaded ps r)
  moreover assume "app_inv (core c)"
  ultimately show ?thesis by (simp add: app_inv_profiles_loaded)
qed (simp_all add: app_inv_helpers app_inv_thread_settings app_inv_controls
    refresh_models_def models_loaded_def models_failed_def composer_defaults_loaded_def
    composer_defaults_write_failed_def select_model_def dismiss_model_availability_nux_def
    select_reasoning_effort_def select_service_tier_def select_permission_mode_def
    task_settings_loaded_def thread_settings_update_failed_def case_prod_beta Let_def
    split: option.split)

subsection \<open>Selection\<close>

lemma core_kept [simp]:
  "core (with_marketplace f c) = core c"
  "core (fst (refresh_skills_effect cwds b c)) = core c"
  "core (fst (refresh_composer_plugins_effect cwds b c)) = core c"
  "core (fst (refresh_marketplace_effect cwds tab b b' c)) = core c"
  "core (fst (refresh_mcp_servers_effect cwd c)) = core c"
  "core (fst (reload_skills cwds c)) = core c"
  "core (fst (clear_fuzzy_file_search c)) = core c"
  "core (fst (next_git_refresh_generation c)) = core c"
  "core (clear_git_for_context_change c) = core c"
  "core (clear_mcp_auth_for_context_change d c) = core c"
  "core (invalidate_pull_requests_for_workspace_change c) = core c"
  "core (fst (prepare_browser_effect t b c)) = core c"
  "core (clear_task_views c) = core c"
  "core (fst (reload_workspace c)) = core c"
  "core (fst (reload_apps c)) = core c"
  "core (remember_local_project p c) = core c"
  by (simp_all add: with_marketplace_def refresh_skills_effect_def refresh_composer_plugins_effect_def
      refresh_marketplace_effect_def refresh_mcp_servers_effect_def reload_skills_def
      clear_fuzzy_file_search_def next_git_refresh_generation_def clear_git_for_context_change_def
      clear_mcp_auth_for_context_change_def invalidate_pull_requests_for_workspace_change_def
      prepare_browser_effect_def clear_task_views_def reload_workspace_def reload_apps_def
      remember_local_project_def case_prod_beta Let_def split: option.split load_status.split)

lemma core_search [simp]:
  "core (fst (change_fuzzy_file_search q c)) = core c"
  "core (fst (fuzzy_file_search_updated i s rs c)) = core c"
  "core (fst (fuzzy_file_search_completed i c)) = core c"
  "core (fst (fuzzy_file_search_failed i s m c)) = core c"
  "core (fst (local_projects_loaded ps c)) = core c"
  by (simp_all add: change_fuzzy_file_search_def fuzzy_file_search_updated_def
      fuzzy_file_search_completed_def fuzzy_file_search_failed_def local_projects_loaded_def Let_def
      split: option.split)

lemma app_inv_forget_drafts: "app_inv s \<Longrightarrow> app_inv (forget_drafts s)"
  by (simp add: forget_drafts_def Let_def app_inv_helpers app_inv_draft)

lemma app_inv_new_chat: "app_inv (core c) \<Longrightarrow> app_inv (core (fst (prepare_new_chat cwd c)))"
  by (simp add: prepare_new_chat_def case_prod_beta Let_def app_inv_forget_drafts app_inv_no_processes
      app_inv_helpers)

lemma app_inv_leave_task: "app_inv s \<Longrightarrow> app_inv (leave_task s)"
  by (simp add: leave_task_def app_inv_helpers)

lemma app_inv_task_created:
  assumes "app_inv (core c)"
  shows "app_inv (core (fst (task_created t c)))"
proof -
  have kept: "app_inv (s\<lparr>tasks := ts, selected_task_id := i,
      timelines := (timelines s)(j \<mapsto> default_timeline\<lparr>tl_runtime_status_loaded := True\<rparr>)\<rparr>)"
    if "app_inv s" "length ts \<le> MAX_VISIBLE_THREADS" for s ts i j
    using app_inv_set_timeline [of "s\<lparr>tasks := ts, selected_task_id := i\<rparr>"
        "default_timeline\<lparr>tl_runtime_status_loaded := True\<rparr>" j] that
    by (simp add: app_inv_tasks)
  show ?thesis
    using assms by (simp add: task_created_def case_prod_beta Let_def kept app_inv_leave_task)
qed

lemma app_inv_record_task:
  assumes "app_inv s"
  shows "app_inv (record_task_without_selecting t s)"
proof -
  have timelines: "app_inv (s'\<lparr>timelines := entry_or (default_timeline\<lparr>tl_runtime_status_loaded := True\<rparr>) i (timelines s)\<rparr>)"
    if "app_inv s'" for s' i
    using that by (rule app_inv_timelines) (use assms app_timeline in \<open>auto simp: entry_or_def split: if_splits option.splits\<close>)
  have "length (tasks (record_task_without_selecting t s)) \<le> MAX_VISIBLE_THREADS"
    by (auto simp: record_task_without_selecting_def Let_def split: option.split)
  then have "app_inv (s\<lparr>tasks := tasks (record_task_without_selecting t s)\<rparr>)"
    by (rule app_inv_tasks [OF assms])
  from timelines [OF this, of "ts_id t"] show ?thesis
    by (simp add: record_task_without_selecting_def Let_def)
qed

lemma app_inv_new_tasks:
  assumes "app_inv (core c)"
  shows "app_inv (core (fst (new_chat_task_created t g c)))"
    and "app_inv (core (fst (fork_task_completed r t e c)))"
proof -
  show "app_inv (core (fst (new_chat_task_created t g c)))"
    using assms by (simp add: new_chat_task_created_def app_inv_task_created app_inv_record_task)
  have "app_inv (settle_fork r s)" if "app_inv s" for s
    using that by (simp add: settle_fork_def split: option.split)
  with assms show "app_inv (core (fst (fork_task_completed r t e c)))"
    by (simp add: fork_task_completed_def case_prod_beta Let_def app_inv_task_created app_inv_record_task)
qed

lemma app_inv_show_task:
  assumes "app_inv (core c)"
  shows "app_inv (core (show_task i b c))"
proof -
  have "app_inv (list_searched_task i s)" if "app_inv s" for s
    using that by (simp add: list_searched_task_def app_inv_tasks split: option.split)
  then have listed: "app_inv (list_searched_task i (core c
      \<lparr>background_completion_task_ids := filter (\<lambda>j. j \<noteq> i) (background_completion_task_ids (core c))\<rparr>))" (is "app_inv ?s")
    using assms by (simp add: app_inv_background)
  have "app_inv (s\<lparr>selected_task_id := v, process_manager := (if q then process_manager s
      else default_process_manager\<lparr>pg_task_id := w\<rparr>)\<rparr>)" if "app_inv s" for s v q w
    using that app_inv_processes [of "s\<lparr>selected_task_id := v\<rparr>" w] by (cases q) simp_all
  with listed show ?thesis
    unfolding show_task_def Let_def by (simp add: app_inv_leave_task)
qed

lemma app_inv_select_task:
  assumes "app_inv (core c)"
  shows "app_inv (core (fst (select_task i c)))"
proof -
  have goal: "app_inv (core (fst (load_goal_if_needed i c)))" if "app_inv (core c)" for c
    using that by (simp add: load_goal_if_needed_def Let_def)
  have timeline: "app_inv (core (fst (load_timeline_if_needed i c)))" if "app_inv (core c)" for c
    using that app_timeline_of [OF that, of i]
    by (simp add: load_timeline_if_needed_def Let_def app_inv_set_timeline)
  show ?thesis
    using assms
    by (simp add: select_task_def case_prod_beta Let_def app_inv_show_task goal timeline app_inv_helpers
        if_distrib [of fst] if_distrib [of core] split: option.split)
qed

lemma app_inv_background_rest: "app_inv s \<Longrightarrow> rev (background_completion_task_ids s) = i # rest \<Longrightarrow>
  app_inv (s\<lparr>background_completion_task_ids := rev rest\<rparr>)"
proof -
  assume inv: "app_inv s" and ids: "rev (background_completion_task_ids s) = i # rest"
  from ids have "background_completion_task_ids s = rev rest @ [i]" by (simp add: rev_swap)
  with inv show ?thesis
    by (intro app_inv_background_set) (auto simp: app_inv_def turns_inv_def background_ok_def)
qed

lemma app_inv_listed:
  "app_inv s \<Longrightarrow> length ts \<le> MAX_VISIBLE_THREADS \<Longrightarrow>
   app_inv (s\<lparr>tasks := ts, background_completion_task_ids := filter p (background_completion_task_ids s)\<rparr>)"
  using app_inv_background [of "s\<lparr>tasks := ts\<rparr>" p] by (simp add: app_inv_tasks)

lemma app_inv_tasks_loaded:
  assumes "app_inv (core c)"
  shows "app_inv (core (fst (tasks_loaded g ts n a c)))"
proof -
  have "app_inv (list_tasks ts n a s)" if "app_inv s" for s
    using that by (simp add: list_tasks_def Let_def app_inv_listed)
  then have listed: "app_inv (list_tasks ts n a (core c))" using assms .
  show ?thesis
    using assms listed app_inv_terminals [OF listed]
    by (simp add: tasks_loaded_def Let_def app_inv_select_task app_inv_review split: option.split)
qed

lemma selection_app_inv:
  assumes "app_inv (core c)"
  shows "app_inv (core (fst (reduce_selection c a)))"
proof (cases a)
  case OpenBackgroundCompletion
  with assms show ?thesis
    by (simp add: open_background_completion_def Let_def app_inv_background_rest app_inv_select_task
        split: list.split)
next
  case (SelectComposerWorkspace p)
  with assms show ?thesis
    by (simp add: select_composer_workspace_def set_client_message_def case_prod_beta Let_def
        app_inv_helpers if_distrib [of core])
next
  case (RemoveLocalProject p)
  with assms show ?thesis
    by (simp add: remove_local_project_def set_client_message_def case_prod_beta Let_def
        app_inv_helpers if_distrib [of core])
qed (simp_all add: assms app_inv_new_chat app_inv_new_tasks app_inv_task_created app_inv_tasks_loaded
    app_inv_select_task begin_new_chat_def select_workspace_def use_git_worktree_def
    rename_local_project_def toggle_local_project_pinned_def open_local_project_def
    set_client_message_def case_prod_beta Let_def split: option.split)

subsection \<open>Submission\<close>

lemma app_inv_take_draft: "app_inv s \<Longrightarrow> app_inv (take_draft s)" "app_inv s \<Longrightarrow> app_inv (compose_error m s)"
  "app_inv s \<Longrightarrow> app_inv (leave_goal_mode s)" "app_inv s \<Longrightarrow> app_inv (goal_pending i s)"
  by (simp_all add: take_draft_def compose_error_def leave_goal_mode_def goal_pending_def Let_def
      app_inv_draft app_inv_goal_timeline app_timeline_of)

lemma app_inv_fork_task:
  assumes "app_inv s"
  shows "app_inv (fst (fork_task i b s))"
proof -
  have "fork_inv (fst (fork_task i b s))" using assms by (simp add: app_inv_def fork_task_inv)
  moreover note frame = frame_inv [where e = without_forks, OF fork_task_frame]
  have "remote_inv (fst (fork_task i b s)) = remote_inv s" "timelines_ok (fst (fork_task i b s)) = timelines_ok s"
    "turns_inv (fst (fork_task i b s)) = turns_inv s" "requests_inv (fst (fork_task i b s)) = requests_inv s"
    "terminals_inv (fst (fork_task i b s)) = terminals_inv s" "task_lists_inv (fst (fork_task i b s)) = task_lists_inv s"
    "process_inv (fst (fork_task i b s)) = process_inv s" "account_inv (fst (fork_task i b s)) = account_inv s"
    "composer_ok (fst (fork_task i b s)) = composer_ok s"
    by (rule frame; simp add: inv_defs cong: option.case_cong)+
  ultimately show ?thesis using assms by (simp add: app_inv_def)
qed

lemma submit_parts_app_inv:
  assumes "app_inv s"
  shows "app_inv (fst (submit_fork s))" and "app_inv (fst (submit_compact s))"
    and "app_inv (fst (submit_shell command s))" and "app_inv (fst (submit_goal m cwd text s))"
    and "app_inv (fst (submit_message m cwd text s))"
proof -
  have set: "app_inv (set_timeline i t s)" if "timeline_inv t" for i t
    using assms that by (rule app_inv_set_timeline)
  have of: "timeline_inv (timeline_of s i)" for i using assms by (rule app_timeline_of)
  note defs = submit_fork_def submit_compact_def submit_shell_def submit_goal_def submit_message_def
  note rules = assms set of app_inv_take_draft app_inv_fork_task app_inv_draft
  show "app_inv (fst (submit_fork s))" "app_inv (fst (submit_compact s))"
    "app_inv (fst (submit_shell command s))" "app_inv (fst (submit_goal m cwd text s))"
    "app_inv (fst (submit_message m cwd text s))"
    by (simp_all add: defs Let_def rules split: option.split)
qed

lemma submit_app_inv:
  assumes inv: "app_inv (core c)"
  shows "app_inv (core (fst (reduce_submit c a)))"
proof -
  have set: "app_inv (set_timeline i t (core c))" if "timeline_inv t" for i t
    using inv that by (rule app_inv_set_timeline)
  have of: "timeline_inv (timeline_of (core c) i)" for i using inv by (rule app_timeline_of)
  have edit: "app_inv (update_edit i u f (core c))" for i u f
    by (simp add: update_edit_def Let_def set of split: option.split)
  note defs = edit_last_user_message_def cancel_last_user_message_edit_def
    last_user_message_rollback_applied_def last_user_message_edit_succeeded_def
    last_user_message_edit_failed_def compact_thread_failed_def
    thread_shell_command_failed_def
  show ?thesis
  proof (cases a)
    case SubmitComposer
    then show ?thesis
      by (simp add: submit_composer_def Let_def inv begin_new_chat_def app_inv_new_chat app_inv_take_draft
          submit_parts_app_inv split: option.split)
  qed (simp_all add: defs Let_def set of edit inv edited_timeline_inv split: option.split sum.split)
qed

subsection \<open>Connection\<close>

lemma end_login_ok: "login_ok a \<Longrightarrow> login_ok (end_login a)" "details_ok (end_login a) = details_ok a"
  by (auto simp: end_login_def login_ok_def details_ok_def)

lemma account_update_ok:
  "login_ok (a\<lparr>ac_status := st, ac_error := e, ac_usage_error := u, ac_token_activity_error := v\<rparr>) = login_ok a"
  "details_ok (a\<lparr>ac_status := st, ac_error := e, ac_usage_error := u, ac_token_activity_error := v\<rparr>) = details_ok a"
  by (simp_all add: login_ok_def details_ok_def)

lemma app_account: "app_inv s \<Longrightarrow> login_ok (account s)" "app_inv s \<Longrightarrow> details_ok (account s)"
  by (simp_all add: app_inv_def account_inv_def)

lemma app_inv_now_online:
  assumes "app_inv s"
  shows "app_inv (now_online s)"
proof -
  have account: "app_inv (s\<lparr>account := (if b then end_login (account s) else account s)
      \<lparr>ac_status := load_status.Loading, ac_error := None, ac_usage_error := None, ac_token_activity_error := None\<rparr>\<rparr>)"
    (is "app_inv (s\<lparr>account := ?a\<rparr>)") for b
    using assms app_account [OF assms] by (intro app_inv_account) (simp_all add: account_update_ok end_login_ok)
  let ?r = "(remote_control s)\<lparr>rc_policy_status := load_status.Loading\<rparr>"
  have remote: "app_inv (s'\<lparr>remote_control := ?r\<rparr>)" if "app_inv s'" for s'
    using that app_remote_ok [OF assms]
    by (intro app_inv_remote) (simp_all add: remote_inv_def deferred_ok_def remote_control_permitted_def)
  have online: "app_inv ((s'\<lparr>remote_control := ?r\<rparr>)\<lparr>connection := Online\<rparr>)" if "app_inv s'" for s'
    using remote [OF that] by (rule app_inv_connection) (simp add: deferred_ok_def remote_control_permitted_def)
  have all: "app_inv (s\<lparr>connection := Online, account := a, status_message := m, task_generation := g, task_status := st,
      composer_controls := cc, remote_control := ?r\<rparr>)" if "app_inv (s\<lparr>account := a\<rparr>)" for a m g st cc
  proof -
    have "s\<lparr>connection := Online, account := a, status_message := m, task_generation := g, task_status := st,
        composer_controls := cc, remote_control := ?r\<rparr>
      = (((s\<lparr>account := a\<rparr>)\<lparr>status_message := m, task_generation := g, task_status := st, composer_controls := cc\<rparr>)
          \<lparr>remote_control := ?r\<rparr>)\<lparr>connection := Online\<rparr>" by simp
    moreover have "app_inv (((s\<lparr>account := a\<rparr>)\<lparr>status_message := m, task_generation := g, task_status := st,
        composer_controls := cc\<rparr>)\<lparr>remote_control := ?r\<rparr>\<lparr>connection := Online\<rparr>)"
      using that by (intro online) (simp only: app_inv_update)
    ultimately show ?thesis by metis
  qed
  show ?thesis unfolding now_online_def Let_def by (rule all) (rule account)
qed

lemma core_reload_all [simp]: "core (fst (reload_all c)) = core c"
  by (simp add: reload_all_def case_prod_beta Let_def)

lemma core_routes [simp]:
  "core (fst (load_marketplace_route_effect c)) = core c"
  "core (fst (load_pull_requests_route_effect c)) = core c"
  by (simp_all add: load_marketplace_route_effect_def load_pull_requests_route_effect_def case_prod_beta
      Let_def split: marketplace_tab.split)

lemma app_inv_resume_selected:
  assumes "app_inv (core c)"
  shows "app_inv (core (fst (resume_selected c)))"
proof (cases "selected_task_id (core c)")
  case None
  with assms show ?thesis by (simp add: resume_selected_def)
next
  case (Some i)
  let ?s = "fst (resume_task_effect i (core c))"
  have s: "app_inv ?s" using assms by (rule app_inv_helpers)
  have "timeline_inv (timeline_of ?s i)" by (rule app_timeline_of [OF s])
  then show ?thesis using s Some
    by (simp add: resume_selected_def case_prod_beta Let_def app_inv_goal_timeline)
qed

lemma app_inv_connected: "app_inv (core c) \<Longrightarrow> app_inv (core (fst (connected c)))"
proof -
  assume inv: "app_inv (core c)"
  have "app_inv (fst (resume_search s))" if "app_inv s" for s
    using that by (simp add: resume_search_def Let_def app_inv_search)
  with inv show ?thesis
    by (simp add: connected_def case_prod_beta Let_def app_inv_resume_selected app_inv_now_online)
qed

lemma app_inv_connection_lost:
  assumes "app_inv (core c)"
  shows "app_inv (core (fst (connection_lost c)))"
proof -
  let ?s = "forget_transients (core c)"
  have "app_inv ((core c)\<lparr>review_start := (review_start (core c))\<lparr>rv_pending := None, rv_terminal_events := []\<rparr>\<rparr>)"
    (is "app_inv ?r") using assms by (intro app_inv_review) (simp_all add: terminals_ok_def)
  then have forgotten: "app_inv ?s" unfolding forget_transients_def Let_def
    using app_inv_account [of ?r "end_login (account (core c))"] app_account [OF assms] end_login_ok
    by (simp only: app_inv_update)
  have clear: "app_inv ((s\<lparr>remote_control := clear_remote_control_runtime (remote_control s)\<rparr>)\<lparr>connection := Recovering 0 None None\<rparr>)"
    if "app_inv s" for s
    using app_inv_clear_remote [OF that] by (rule app_inv_connection) simp
  have all: "app_inv (s\<lparr>connection := Recovering 0 None None, status_message := m,
      remote_control := clear_remote_control_runtime (remote_control s),
      timelines := (\<lambda>i. map_option reset_timeline (timelines s i))\<rparr>)" if "app_inv s" for s m
  proof -
    have "s\<lparr>connection := Recovering 0 None None, status_message := m,
        remote_control := clear_remote_control_runtime (remote_control s),
        timelines := (\<lambda>i. map_option reset_timeline (timelines s i))\<rparr>
      = (((s\<lparr>remote_control := clear_remote_control_runtime (remote_control s)\<rparr>)\<lparr>connection := Recovering 0 None None\<rparr>)
          \<lparr>status_message := m\<rparr>)\<lparr>timelines := (\<lambda>i. map_option reset_timeline (timelines s i))\<rparr>" by simp
    moreover have "app_inv \<dots>"
      using clear [OF that] app_timeline [OF that] reset_timeline_inv
      by (intro app_inv_timelines) (auto simp only: app_inv_update map_option_eq_Some)
    ultimately show ?thesis by metis
  qed
  show ?thesis
    using forgotten all by (simp add: connection_lost_def Let_def)
qed

lemma connection_app_inv:
  assumes "app_inv (core c)"
  shows "app_inv (core (fst (reduce_connection c a)))"
proof (cases a)
  case (TaskRuntimeLoaded i g active review st)
  have set: "app_inv (set_timeline j t s)" if "app_inv s" "timeline_inv t" for j t s
    using that by (rule app_inv_set_timeline)
  have of: "timeline_inv (timeline_of (core c) j)" for j using assms by (rule app_timeline_of)
  show ?thesis
    using assms by (simp add: TaskRuntimeLoaded task_runtime_loaded_def Let_def set of runtime_timeline_inv
        app_inv_helpers split: option.split)
qed (auto simp: assms app_inv_connected app_inv_connection_lost connect_def connection_retry_scheduled_def
    connection_retry_started_def connection_failed_def intro: app_inv_connection split: connection_status.split)

end
