(* ===== verification/Client_Effects.thy ===== *)
theory Client_Effects
  imports Client_State
begin

text \<open>
  What an effect means outside: the permissions it asks for, the task it gives work to, and whether it
  decides about input into the windows of the user.
\<close>

text \<open>The permissions an effect asks for.\<close>

fun asked :: "client_effect \<Rightarrow> (str option \<times> str option \<times> approvals_reviewer option) option" where
  "asked (StartTurn i g r) = Some (tq_permissions r, tq_approval_policy r, tq_approvals_reviewer r)"
| "asked (CreateTask cwd g r m n) = Some (tq_permissions r, tq_approval_policy r, tq_approvals_reviewer r)"
| "asked (client_effect.EditLastUserMessage i u b r) =
     Some (tq_permissions r, tq_approval_policy r, tq_approvals_reviewer r)"
| "asked (Core (UpdateThreadSettings i g m e t p q v)) = Some (p, q, v)"
| "asked _ = None"

text \<open>The task an effect gives work to.\<close>

fun talks_to :: "client_effect \<Rightarrow> str option" where
  "talks_to (StartTurn i g r) = Some i"
| "talks_to (SteerTurn i g u v as) = Some i"
| "talks_to (CompactThread i) = Some i"
| "talks_to _ = None"

fun sets_input :: "client_effect \<Rightarrow> bool" where
  "sets_input (ConfigureComputerUse i b w app authorized) \<longleftrightarrow> True"
| "sets_input _ \<longleftrightarrow> False"

definition modest :: "client_effect \<Rightarrow> bool" where
  "modest e \<longleftrightarrow> asked e = None \<and> talks_to e = None"

definition plain :: "client_effect \<Rightarrow> bool" where
  "plain e \<longleftrightarrow> modest e \<and> \<not> sets_input e"

lemma plain_modest [simp]: "plain e \<Longrightarrow> modest e"
  by (simp add: plain_def)

lemma list_plain_modest: "list_all plain es \<Longrightarrow> list_all modest es"
  by (simp add: list_all_iff)

lemma configure_modest [simp]: "modest (ConfigureComputerUse i b w app authorized)"
  by (simp add: modest_def)

lemma plain_effects [simp]:
  "plain (Core e) \<longleftrightarrow> asked (Core e) = None"
  "plain ConnectAppServer"
  "plain ScheduleAppServerReconnect"
  "plain LoadLoadedTasks"
  "plain LoadModels"
  "plain (LoadPermissionProfiles p)"
  "plain LoadPersonalization"
  "plain LoadComposerDesktopApps"
  "plain LoadComputerUsePolicy"
  "plain (LoadGoal i)"
  "plain (RefreshSkills g cwds b)"
  "plain (RefreshComposerPlugins g cwds b)"
  "plain (RefreshApps b o1)"
  "plain (RefreshInstalledApps b o1)"
  "plain (RefreshMarketplace g cwds tab b b1)"
  "plain (RefreshMcpServers g p o1)"
  "plain (SearchPullRequests g cwd rel life q o1 b)"
  "plain (StopFuzzyFileSearch i)"
  "plain (PersistUiState rt pane)"
  "plain (RememberWorkspace cwd)"
  "plain (RefreshGit g cwd)"
  "plain (StartBrowser i)"
  "plain (BrowserOpenTab i o1)"
  "plain (ActivateBrowser i)"
  "plain (SearchFuzzyFiles i cwds q b)"
  "plain (RenameLocalProject cwd q)"
  "plain (SetLocalProjectPinned cwd b)"
  "plain (RemoveLocalProject cwd)"
  "plain (OpenWorkspacePath cwd cwd1)"
  "plain (SchedulePullRequestSearch g)"
  "plain (LoadPullRequestDetail g cwd pr login)"
  "plain (LoadPullRequestDiff g cwd pr)"
  "plain (MutatePullRequest g cwd pr head m)"
  "plain (StartReview g i target delivery)"
  "plain (ArchiveTask i)"
  "plain (LoadComputerWindows i)"
  "plain (LaunchComputerApp i app)"
  "plain (CaptureComputerWindow i w)"
  "plain (RemoveComputerUseAllowedApp app ids)"
  "plain (DetectExternalAgentConfig cwds)"
  "plain LoadExternalAgentImportHistories"
  "plain (ImportExternalAgentConfig batches)"
  "plain (SetPersonality p1)"
  "plain (SetMemoriesEnabled b)"
  "plain (SetToolAssistedMemoriesEnabled b)"
  "plain (SetThreadMemoryMode i b p2)"
  "plain ResetMemories"
  "plain (Ask q1)"
  by (simp_all add: plain_def modest_def)

end
