(* ===== verification/Pull_Requests.thy ===== *)
theory Pull_Requests
  imports Connection
begin

text \<open>
  The pull request inbox (the pull request actions of \<open>reduce\<close>, \<open>begin_pull_request_search\<close>,
  \<open>begin_pull_request_diff\<close> and \<open>begin_pull_request_mutation\<close> in \<open>crates/codex-core/src/lib.rs\<close>):
  the search with its pages, the selected pull request with its details and its diff, and the
  changes that may be made to it. Each of the four requests has a generation of its own.
\<close>

subsection \<open>Bounds\<close>

definition MAX_PULL_REQUEST_SEARCH_CHARS :: nat where
  "MAX_PULL_REQUEST_SEARCH_CHARS = 256"

definition MAX_PULL_REQUEST_ITEMS :: nat where
  "MAX_PULL_REQUEST_ITEMS = 1000"

definition MAX_GIT_PULL_REQUEST_TITLE_CHARS :: nat where
  "MAX_GIT_PULL_REQUEST_TITLE_CHARS = 120"

definition MAX_GIT_PULL_REQUEST_BODY_CHARS :: nat where
  "MAX_GIT_PULL_REQUEST_BODY_CHARS = 30000"

definition MAX_HEAD_REVISION_BYTES :: nat where
  "MAX_HEAD_REVISION_BYTES = 256"

abbreviation with_pull_requests ::
  "(pull_request_inbox_state \<Rightarrow> pull_request_inbox_state) \<Rightarrow> client_state \<Rightarrow> client_state" where
  "with_pull_requests f c \<equiv> c\<lparr>pull_requests := f (pull_requests c)\<rparr>"

subsection \<open>Searching\<close>

definition begin_pull_request_search :: "bool \<Rightarrow> client_state \<Rightarrow> client_result" where
  "begin_pull_request_search debounced c =
     (let c1 = with_pull_requests reset_pull_request_search c
      in (c1, [if debounced then SchedulePullRequestSearch (pq_generation (pull_requests c1))
               else pull_request_search_effect None False c1]))"

definition first_chars :: "nat \<Rightarrow> str \<Rightarrow> str" where
  "first_chars n s = concat (take n (chars s))"

definition pull_request_query_changed :: "str \<Rightarrow> client_state \<Rightarrow> client_result" where
  "pull_request_query_changed query c =
     (let query = first_chars MAX_PULL_REQUEST_SEARCH_CHARS query
      in if pq_query (pull_requests c) = query then (c, [])
         else let c1 = with_pull_requests (\<lambda>p. p\<lparr>pq_query := query\<rparr>) c
              in if route c1 = main_route.PullRequests then begin_pull_request_search True c1 else (c1, []))"

definition set_pull_request_relationship ::
  "pull_request_relationship \<Rightarrow> client_state \<Rightarrow> client_result" where
  "set_pull_request_relationship r c =
     (if pq_relationship (pull_requests c) = r then (c, [])
      else begin_pull_request_search False (with_pull_requests (\<lambda>p. p\<lparr>pq_relationship := r\<rparr>) c))"

definition set_pull_request_lifecycle :: "pull_request_lifecycle \<Rightarrow> client_state \<Rightarrow> client_result" where
  "set_pull_request_lifecycle l c =
     (if pq_lifecycle (pull_requests c) = l then (c, [])
      else begin_pull_request_search False (with_pull_requests (\<lambda>p. p\<lparr>pq_lifecycle := l\<rparr>) c))"

definition pull_request_search_due :: "u64 \<Rightarrow> client_state \<Rightarrow> client_result" where
  "pull_request_search_due generation c =
     (if generation \<noteq> pq_generation (pull_requests c) \<or> route c \<noteq> main_route.PullRequests then (c, [])
      else (c, [pull_request_search_effect None False c]))"

text \<open>The items whose identity has not been seen, each once.\<close>

fun unseen_items ::
  "pull_request_identity list \<Rightarrow> pull_request_summary list \<Rightarrow> pull_request_summary list" where
  "unseen_items seen [] = []"
| "unseen_items seen (i # items) =
     (if qs_identity i \<in> set seen then unseen_items seen items
      else i # unseen_items (qs_identity i # seen) items)"

definition add_items ::
  "bool \<Rightarrow> pull_request_summary list \<Rightarrow> pull_request_summary list \<Rightarrow> pull_request_summary list" where
  "add_items append' items old =
     take MAX_PULL_REQUEST_ITEMS
       (if append' then old @ unseen_items (map qs_identity old) items else items)"

definition pull_requests_loaded ::
  "u64 \<Rightarrow> str \<Rightarrow> str option \<Rightarrow> pull_request_summary list \<Rightarrow> u64 \<Rightarrow> str option \<Rightarrow> bool \<Rightarrow> bool
   \<Rightarrow> client_state \<Rightarrow> client_result" where
  "pull_requests_loaded generation login avatar items n cursor truncated append' c =
     (if generation \<noteq> pq_generation (pull_requests c) then (c, [])
      else (with_pull_requests (\<lambda>p. p
              \<lparr>pq_status := load_status.Ready, pq_loading_more := False, pq_error := None,
               pq_account_login := Some login, pq_account_avatar_url := avatar, pq_total_count := n,
               pq_next_cursor := cursor, pq_truncated := truncated,
               pq_items := add_items append' items (pq_items p)\<rparr>) c, []))"

definition pull_requests_failed :: "u64 \<Rightarrow> str \<Rightarrow> bool \<Rightarrow> client_state \<Rightarrow> client_result" where
  "pull_requests_failed generation message append' c =
     (if generation \<noteq> pq_generation (pull_requests c) then (c, [])
      else let c1 = with_pull_requests (\<lambda>p. p\<lparr>pq_loading_more := False, pq_error := Some message\<rparr>) c;
               c2 = (if append' then c1
                     else with_pull_requests (\<lambda>p. p
                       \<lparr>pq_status := load_status.Failed, pq_items := [], pq_next_cursor := None\<rparr>) c1)
           in (set_client_message message c2, []))"

definition load_more_pull_requests :: "client_state \<Rightarrow> client_result" where
  "load_more_pull_requests c =
     (if pq_loading_more (pull_requests c) then (c, [])
      else (case pq_next_cursor (pull_requests c) of
              None \<Rightarrow> (c, [])
            | Some cursor \<Rightarrow>
                let c1 = with_pull_requests (\<lambda>p. p\<lparr>pq_loading_more := True\<rparr>) c
                in (c1, [pull_request_search_effect (Some cursor) True c1])))"

subsection \<open>Details\<close>

definition select_pull_request :: "pull_request_identity \<Rightarrow> client_state \<Rightarrow> client_result" where
  "select_pull_request i c =
     (if \<not> list_ex (\<lambda>item. qs_identity item = i) (pq_items (pull_requests c)) then (c, [])
      else (case pq_account_login (pull_requests c) of
              None \<Rightarrow> (c, [])
            | Some login \<Rightarrow>
                let c1 = with_pull_requests (\<lambda>p. clear_pull_request_diff (p
                       \<lparr>pq_selected := Some i, pq_detail_generation := sat_succ (pq_detail_generation p),
                        pq_detail_status := load_status.Loading, pq_detail := None, pq_detail_error := None,
                        pq_detail_tab := Summary, pq_mutation_error := None\<rparr>)) c
                in (c1, [LoadPullRequestDetail (pq_detail_generation (pull_requests c1))
                           (pull_request_cwd c) i login])))"

definition pull_request_detail_loaded :: "u64 \<Rightarrow> pull_request_detail \<Rightarrow> client_state \<Rightarrow> client_result" where
  "pull_request_detail_loaded generation d c =
     (let i = qs_identity (qd_summary d)
      in if generation \<noteq> pq_detail_generation (pull_requests c) \<or> pq_selected (pull_requests c) \<noteq> Some i
         then (c, [])
         else (with_pull_requests (\<lambda>p. p
                 \<lparr>pq_detail_status := load_status.Ready, pq_detail_error := None,
                  pq_items := update_first (\<lambda>item. qs_identity item = i) (\<lambda>_. qd_summary d) (pq_items p),
                  pq_detail := Some d\<rparr>) c, []))"

definition pull_request_detail_failed :: "u64 \<Rightarrow> str \<Rightarrow> client_state \<Rightarrow> client_result" where
  "pull_request_detail_failed generation message c =
     (if generation \<noteq> pq_detail_generation (pull_requests c) then (c, [])
      else (set_client_message message (with_pull_requests (\<lambda>p. p
              \<lparr>pq_detail_status := load_status.Failed, pq_detail_error := Some message\<rparr>) c), []))"

definition close_pull_request_detail :: "client_state \<Rightarrow> client_result" where
  "close_pull_request_detail c =
     (if pq_pending_mutation (pull_requests c) \<noteq> None then (c, [])
      else (with_pull_requests (\<lambda>p. clear_pull_request_diff (p
              \<lparr>pq_selected := None, pq_detail_status := load_status.Idle, pq_detail := None,
               pq_detail_error := None, pq_detail_tab := Summary, pq_mutation_error := None\<rparr>)) c, []))"

subsection \<open>The diff\<close>

definition begin_pull_request_diff :: "client_state \<Rightarrow> client_result" where
  "begin_pull_request_diff c =
     (case pq_selected (pull_requests c) of
        None \<Rightarrow> (c, [])
      | Some i \<Rightarrow>
          let c1 = with_pull_requests (\<lambda>p. p
                 \<lparr>pq_diff_generation := sat_succ (pq_diff_generation p), pq_diff_status := load_status.Loading,
                  pq_diff_head_revision := None, pq_unified_diff := [], pq_diff_error := None\<rparr>) c
          in (c1, [LoadPullRequestDiff (pq_diff_generation (pull_requests c1)) (pull_request_cwd c1) i]))"

definition select_pull_request_detail_tab :: "pull_request_detail_tab \<Rightarrow> client_state \<Rightarrow> client_result" where
  "select_pull_request_detail_tab tab c =
     (if pq_selected (pull_requests c) = None then (c, [])
      else let c1 = with_pull_requests (\<lambda>p. p\<lparr>pq_detail_tab := tab\<rparr>) c
           in if tab = Code \<and> pq_diff_status (pull_requests c1) \<noteq> load_status.Loading
                \<and> pq_diff_status (pull_requests c1) \<noteq> load_status.Ready
              then begin_pull_request_diff c1 else (c1, []))"

definition refresh_pull_request_diff :: "client_state \<Rightarrow> client_result" where
  "refresh_pull_request_diff c =
     (if pq_detail_tab (pull_requests c) = Code then begin_pull_request_diff c else (c, []))"

definition diff_current :: "u64 \<Rightarrow> pull_request_identity \<Rightarrow> client_state \<Rightarrow> bool" where
  "diff_current generation i c \<longleftrightarrow>
     generation = pq_diff_generation (pull_requests c) \<and> pq_selected (pull_requests c) = Some i"

definition pull_request_diff_loaded ::
  "u64 \<Rightarrow> pull_request_identity \<Rightarrow> str \<Rightarrow> str \<Rightarrow> client_state \<Rightarrow> client_result" where
  "pull_request_diff_loaded generation i head diff c =
     (if \<not> diff_current generation i c then (c, [])
      else (with_pull_requests (\<lambda>p. p
              \<lparr>pq_diff_status := load_status.Ready, pq_diff_head_revision := Some head,
               pq_unified_diff := diff, pq_diff_error := None\<rparr>) c, []))"

definition pull_request_diff_failed ::
  "u64 \<Rightarrow> pull_request_identity \<Rightarrow> str \<Rightarrow> client_state \<Rightarrow> client_result" where
  "pull_request_diff_failed generation i message c =
     (if \<not> diff_current generation i c then (c, [])
      else (set_client_message message (with_pull_requests (\<lambda>p. p
              \<lparr>pq_diff_status := load_status.Failed, pq_diff_error := Some message\<rparr>) c), []))"

subsection \<open>Changes\<close>

fun mutation_kind :: "pull_request_mutation \<Rightarrow> pull_request_mutation_kind" where
  "mutation_kind (pull_request_mutation.Comment body) = pull_request_mutation_kind.Comment"
| "mutation_kind (pull_request_mutation.Review pull_request_review_event.Approve body) = pull_request_mutation_kind.Approve"
| "mutation_kind (pull_request_mutation.Review pull_request_review_event.Comment body) = pull_request_mutation_kind.ReviewComment"
| "mutation_kind (pull_request_mutation.Review pull_request_review_event.RequestChanges body) =
     pull_request_mutation_kind.RequestChanges"
| "mutation_kind (SetReviewState pull_request_review_state.Draft) = MarkDraft"
| "mutation_kind (SetReviewState pull_request_review_state.Ready) = MarkReady"
| "mutation_kind (pull_request_mutation.EditTitle title) = pull_request_mutation_kind.EditTitle"
| "mutation_kind (pull_request_mutation.EditDescription body) = pull_request_mutation_kind.EditDescription"
| "mutation_kind (pull_request_mutation.Merge pull_request_merge_method.Merge) = pull_request_mutation_kind.Merge"
| "mutation_kind (pull_request_mutation.Merge pull_request_merge_method.Squash) = pull_request_mutation_kind.Squash"

definition body_invalid :: "str \<Rightarrow> bool" where
  "body_invalid body \<longleftrightarrow> MAX_GIT_PULL_REQUEST_BODY_CHARS < length (chars body) \<or> CHR 0x00 \<in> set body"

fun comment_body :: "pull_request_mutation \<Rightarrow> str option" where
  "comment_body (pull_request_mutation.Comment body) = Some (trim body)"
| "comment_body (pull_request_mutation.Review event body) = Some (trim body)"
| "comment_body _ = None"

fun body_required :: "pull_request_mutation \<Rightarrow> bool" where
  "body_required (pull_request_mutation.Comment body) \<longleftrightarrow> True"
| "body_required (pull_request_mutation.Review event body) \<longleftrightarrow> event \<noteq> pull_request_review_event.Approve"
| "body_required _ \<longleftrightarrow> False"

fun is_review :: "pull_request_mutation \<Rightarrow> bool" where
  "is_review (pull_request_mutation.Review event body) \<longleftrightarrow> True"
| "is_review _ \<longleftrightarrow> False"

fun is_author_change :: "pull_request_mutation \<Rightarrow> bool" where
  "is_author_change (SetReviewState st) \<longleftrightarrow> True"
| "is_author_change (pull_request_mutation.EditTitle title) \<longleftrightarrow> True"
| "is_author_change (pull_request_mutation.EditDescription body) \<longleftrightarrow> True"
| "is_author_change _ \<longleftrightarrow> False"

definition to_ascii_uppercase :: "char \<Rightarrow> char" where
  "to_ascii_uppercase c = (if 97 \<le> byte c \<and> byte c \<le> 122 then char_of (byte c - 32) else c)"

definition ready_to_merge :: "pull_request_detail \<Rightarrow> bool" where
  "ready_to_merge d \<longleftrightarrow>
     qs_state (qd_summary d) = pull_request_state.Open \<and> \<not> qs_is_draft (qd_summary d)
     \<and> (case qd_mergeable d of None \<Rightarrow> False | Some v \<Rightarrow> eq_ignore_ascii_case v ''MERGEABLE'')
     \<and> (case qd_merge_state_status d of
          None \<Rightarrow> False
        | Some v \<Rightarrow> map to_ascii_uppercase v \<in> {''CLEAN'', ''HAS_HOOKS''})"

text \<open>
  The checks of one change, in their order: \<open>Some None\<close> refuses it silently, \<open>Some (Some m)\<close> with the
  message \<open>m\<close>, and \<open>None\<close> lets it pass.
\<close>

definition mutation_refused :: "pull_request_mutation \<Rightarrow> pull_request_detail \<Rightarrow> str option option" where
  "mutation_refused m d =
     (let s = qd_summary d in
      if (case comment_body m of None \<Rightarrow> False | Some body \<Rightarrow> body_invalid body)
         \<or> body_required m \<and> (case comment_body m of None \<Rightarrow> True | Some body \<Rightarrow> body = [])
      then Some (Some ''A valid pull request comment is required.'')
      else if is_review m \<and> qs_is_author s
      then Some (Some ''You cannot review your own pull request.'')
      else if is_author_change m \<and> (\<not> qs_is_author s \<or> qs_state s \<noteq> pull_request_state.Open)
      then Some (Some ''Only the author can update an open pull request.'')
      else (case m of
              SetReviewState st \<Rightarrow>
                if qs_is_draft s = (st = pull_request_review_state.Draft) then Some None else None
            | pull_request_mutation.EditTitle title \<Rightarrow>
                let title = trim title
                in if title = [] \<or> MAX_GIT_PULL_REQUEST_TITLE_CHARS < length (chars title)
                      \<or> list_ex is_control (chars title)
                   then Some (Some ''A valid pull request title is required.'') else None
            | pull_request_mutation.EditDescription body \<Rightarrow>
                if body_invalid body then Some (Some ''Pull request description is invalid.'') else None
            | pull_request_mutation.Merge method \<Rightarrow>
                if ready_to_merge d then None
                else Some (Some ''This pull request is not ready to merge.'')
            | _ \<Rightarrow> None))"

definition mutation_error :: "str \<Rightarrow> client_state \<Rightarrow> client_result" where
  "mutation_error m c = (with_pull_requests (\<lambda>p. p\<lparr>pq_mutation_error := Some m\<rparr>) c, [])"

definition head_revision_ok :: "str \<Rightarrow> bool" where
  "head_revision_ok head \<longleftrightarrow>
     head \<noteq> [] \<and> length head \<le> MAX_HEAD_REVISION_BYTES \<and> \<not> list_ex is_control (chars head)"

definition begin_pull_request_mutation :: "pull_request_mutation \<Rightarrow> client_state \<Rightarrow> client_result" where
  "begin_pull_request_mutation m c =
     (let p = pull_requests c in
      if pq_pending_mutation p \<noteq> None then (c, [])
      else (case pq_selected p of
              None \<Rightarrow> mutation_error ''Select a pull request first.'' c
            | Some i \<Rightarrow>
                (case pq_detail p of
                   None \<Rightarrow> mutation_error ''Pull request details are not available.'' c
                 | Some d \<Rightarrow>
                     if qs_identity (qd_summary d) \<noteq> i then (c, [])
                     else (case mutation_refused m d of
                             Some None \<Rightarrow> (c, [])
                           | Some (Some e) \<Rightarrow> mutation_error e c
                           | None \<Rightarrow>
                               let head = trim (qd_head_revision d)
                               in if \<not> head_revision_ok head
                                  then mutation_error
                                         ''Pull request head revision is unavailable; refresh and try again.'' c
                                  else let g = sat_succ (pq_mutation_generation p)
                                       in (with_pull_requests (\<lambda>p. p
                                             \<lparr>pq_mutation_generation := g,
                                              pq_pending_mutation := Some (mutation_kind m),
                                              pq_mutation_error := None\<rparr>) c,
                                           [MutatePullRequest g (pull_request_cwd c) i head m])))))"

fun mutation_done :: "pull_request_mutation_kind option \<Rightarrow> str" where
  "mutation_done (Some pull_request_mutation_kind.Comment) = ''Pull request comment posted.''"
| "mutation_done (Some pull_request_mutation_kind.Approve) = ''Pull request review submitted.''"
| "mutation_done (Some pull_request_mutation_kind.ReviewComment) = ''Pull request review submitted.''"
| "mutation_done (Some pull_request_mutation_kind.RequestChanges) = ''Pull request review submitted.''"
| "mutation_done (Some MarkDraft) = ''Pull request marked as draft.''"
| "mutation_done (Some MarkReady) = ''Pull request is ready for review.''"
| "mutation_done (Some pull_request_mutation_kind.EditTitle) = ''Pull request title updated.''"
| "mutation_done (Some pull_request_mutation_kind.EditDescription) = ''Pull request description updated.''"
| "mutation_done (Some pull_request_mutation_kind.Merge) = ''Pull request merged.''"
| "mutation_done (Some pull_request_mutation_kind.Squash) = ''Pull request merged.''"
| "mutation_done None = ''Pull request updated.''"

definition pull_request_mutation_completed ::
  "u64 \<Rightarrow> pull_request_identity \<Rightarrow> client_state \<Rightarrow> client_result" where
  "pull_request_mutation_completed generation i c =
     (if generation \<noteq> pq_mutation_generation (pull_requests c) then (c, [])
      else let completed = pq_pending_mutation (pull_requests c);
               c1 = set_client_message (mutation_done completed)
                      (with_pull_requests (\<lambda>p. p\<lparr>pq_pending_mutation := None, pq_mutation_error := None\<rparr>) c)
           in if pq_selected (pull_requests c1) \<noteq> Some i then (c1, [])
              else (case pq_account_login (pull_requests c1) of
                      None \<Rightarrow> (c1, [])
                    | Some login \<Rightarrow>
                        let c2 = with_pull_requests (\<lambda>p. p
                               \<lparr>pq_detail_generation := sat_succ (pq_detail_generation p),
                                pq_detail_status := load_status.Loading, pq_detail_error := None\<rparr>) c1;
                            c3 = (if completed = Some pull_request_mutation_kind.Merge
                                     \<or> completed = Some pull_request_mutation_kind.Squash
                                  then with_pull_requests clear_pull_request_diff c2 else c2)
                        in (c3, [LoadPullRequestDetail (pq_detail_generation (pull_requests c3))
                                   (pull_request_cwd c3) i login])))"

definition pull_request_mutation_failed ::
  "u64 \<Rightarrow> pull_request_identity \<Rightarrow> str \<Rightarrow> client_state \<Rightarrow> client_result" where
  "pull_request_mutation_failed generation i message c =
     (if generation \<noteq> pq_mutation_generation (pull_requests c) then (c, [])
      else (set_client_message message (with_pull_requests (\<lambda>p. p
              \<lparr>pq_pending_mutation := None,
               pq_mutation_error := (if pq_selected p = Some i then Some message else pq_mutation_error p)\<rparr>) c), []))"

definition clear_pull_request_mutation_error :: "client_state \<Rightarrow> client_result" where
  "clear_pull_request_mutation_error c =
     (with_pull_requests (\<lambda>p. p\<lparr>pq_mutation_error := None\<rparr>) c, [])"

subsection \<open>Dispatch\<close>

datatype (plugins only: code size) pull_request_action =
    RefreshPullRequests
  | PullRequestQueryChanged str
  | SetPullRequestRelationship pull_request_relationship
  | SetPullRequestLifecycle pull_request_lifecycle
  | PullRequestSearchDue u64
  | PullRequestsLoaded u64 str "str option" "pull_request_summary list" u64 "str option" bool bool
  | PullRequestsFailed u64 str bool
  | LoadMorePullRequests
  | SelectPullRequest pull_request_identity
  | PullRequestDetailLoaded u64 pull_request_detail
  | PullRequestDetailFailed u64 str
  | SelectPullRequestDetailTab pull_request_detail_tab
  | RefreshPullRequestDiff
  | PullRequestDiffLoaded u64 pull_request_identity str str
  | PullRequestDiffFailed u64 pull_request_identity str
  | SubmitPullRequestMutation pull_request_mutation
  | ClearPullRequestMutationError
  | PullRequestMutationCompleted u64 pull_request_identity
  | PullRequestMutationFailed u64 pull_request_identity str
  | ClosePullRequestDetail

fun reduce_pull_request :: "client_state \<Rightarrow> pull_request_action \<Rightarrow> client_result" where
  "reduce_pull_request c RefreshPullRequests = begin_pull_request_search False c"
| "reduce_pull_request c (PullRequestQueryChanged q) = pull_request_query_changed q c"
| "reduce_pull_request c (SetPullRequestRelationship r) = set_pull_request_relationship r c"
| "reduce_pull_request c (SetPullRequestLifecycle l) = set_pull_request_lifecycle l c"
| "reduce_pull_request c (PullRequestSearchDue g) = pull_request_search_due g c"
| "reduce_pull_request c (PullRequestsLoaded g login avatar items n cursor t a) =
     pull_requests_loaded g login avatar items n cursor t a c"
| "reduce_pull_request c (PullRequestsFailed g m a) = pull_requests_failed g m a c"
| "reduce_pull_request c LoadMorePullRequests = load_more_pull_requests c"
| "reduce_pull_request c (SelectPullRequest i) = select_pull_request i c"
| "reduce_pull_request c (PullRequestDetailLoaded g d) = pull_request_detail_loaded g d c"
| "reduce_pull_request c (PullRequestDetailFailed g m) = pull_request_detail_failed g m c"
| "reduce_pull_request c (SelectPullRequestDetailTab t) = select_pull_request_detail_tab t c"
| "reduce_pull_request c RefreshPullRequestDiff = refresh_pull_request_diff c"
| "reduce_pull_request c (PullRequestDiffLoaded g i h d) = pull_request_diff_loaded g i h d c"
| "reduce_pull_request c (PullRequestDiffFailed g i m) = pull_request_diff_failed g i m c"
| "reduce_pull_request c (SubmitPullRequestMutation m) = begin_pull_request_mutation m c"
| "reduce_pull_request c ClearPullRequestMutationError = clear_pull_request_mutation_error c"
| "reduce_pull_request c (PullRequestMutationCompleted g i) = pull_request_mutation_completed g i c"
| "reduce_pull_request c (PullRequestMutationFailed g i m) = pull_request_mutation_failed g i m c"
| "reduce_pull_request c ClosePullRequestDetail = close_pull_request_detail c"

end
