(* ===== verification/Computer_Use.thy ===== *)
theory Computer_Use
  imports Connection Text_Split
begin

text \<open>
  Computer use (the computer-use actions of \<open>reduce\<close>, \<open>normalize_computer_app_id\<close>,
  \<open>normalize_computer_app_ids\<close> and \<open>computer_app_id_matches\<close> in \<open>crates/codex-core/src/lib.rs\<close>): per
  task whether it is on, which window is selected and whether input into it is authorised, and the
  applications that are always allowed. \<open>str::to_lowercase\<close> is a parameter: its Unicode tables belong to
  the standard library.
\<close>

subsection \<open>Application identifiers\<close>

definition MAX_COMPUTER_WINDOWS :: nat where
  "MAX_COMPUTER_WINDOWS = 100"

definition MAX_COMPUTER_APPLICATIONS :: nat where
  "MAX_COMPUTER_APPLICATIONS = 40"

definition MAX_COMPUTER_ALLOWED_APPS :: nat where
  "MAX_COMPUTER_ALLOWED_APPS = 100"

definition MAX_COMPUTER_APP_ID_BYTES :: nat where
  "MAX_COMPUTER_APP_ID_BYTES = 512"

definition normalize_computer_app_id :: "(str \<Rightarrow> str) \<Rightarrow> str \<Rightarrow> str" where
  "normalize_computer_app_id to_lowercase app_id =
     (let app_id = to_lowercase (trim app_id)
      in if MAX_COMPUTER_APP_ID_BYTES < length app_id then [] else app_id)"

definition normalize_computer_app_ids :: "(str \<Rightarrow> str) \<Rightarrow> str list \<Rightarrow> str list" where
  "normalize_computer_app_ids to_lowercase app_ids =
     take MAX_COMPUTER_ALLOWED_APPS
       (remdups_adj (sort (filter (\<lambda>i. i \<noteq> []) (map (normalize_computer_app_id to_lowercase) app_ids))))"

definition PROCESS_PREFIX :: str where
  "PROCESS_PREFIX = ''process:''"

definition without_process_prefix :: "str \<Rightarrow> str" where
  "without_process_prefix app_id =
     (case str_get app_id 0 (length PROCESS_PREFIX) of
        None \<Rightarrow> app_id
      | Some prefix \<Rightarrow>
          if eq_ignore_ascii_case prefix PROCESS_PREFIX then drop (length PROCESS_PREFIX) app_id else app_id)"

text \<open>What \<open>rsplit\<close> at the two path separators yields first.\<close>

definition last_name :: "str \<Rightarrow> str" where
  "last_name s = rev (takeWhile (\<lambda>b. b \<noteq> CHR 0x5C \<and> b \<noteq> CHR ''/'') (rev s))"

definition computer_app_id_matches :: "str \<Rightarrow> str \<Rightarrow> bool" where
  "computer_app_id_matches configured actual \<longleftrightarrow>
     (let configured = trim configured; actual = trim actual;
          configured_process = without_process_prefix configured;
          actual_process = without_process_prefix actual
      in eq_ignore_ascii_case configured actual
         \<or> eq_ignore_ascii_case configured_process actual_process
         \<or> eq_ignore_ascii_case (last_name actual_process) configured_process)"

subsection \<open>One task\<close>

definition computer_of :: "client_state \<Rightarrow> str \<Rightarrow> computer_use_state" where
  "computer_of c i = get_or default_computer_use i (computer_use c)"

definition set_computer :: "str \<Rightarrow> computer_use_state \<Rightarrow> client_state \<Rightarrow> client_state" where
  "set_computer i u c = c\<lparr>computer_use := (computer_use c)(i \<mapsto> u)\<rparr>"

abbreviation cu_active :: "computer_use_state \<Rightarrow> bool" where
  "cu_active u \<equiv> cu_available u \<and> cu_enabled u"

definition configure :: "str \<Rightarrow> bool \<Rightarrow> computer_use_state \<Rightarrow> client_effect" where
  "configure i enabled u =
     ConfigureComputerUse i enabled (cu_selected_window_id u) (cu_selected_application_id u) (cu_input_authorized u)"

definition computer_use_available :: "str \<Rightarrow> client_state \<Rightarrow> client_result" where
  "computer_use_available i c = (set_computer i ((computer_of c i)\<lparr>cu_available := True\<rparr>) c, [])"

definition toggle_computer_use :: "str \<Rightarrow> bool \<Rightarrow> client_state \<Rightarrow> client_result" where
  "toggle_computer_use i enabled c =
     (let u = computer_of c i
      in if \<not> cu_available u
         then (set_client_message ''Create a new task before enabling Computer Use.'' (set_computer i u c), [])
         else let u1 = u\<lparr>cu_enabled := enabled\<rparr>;
                  u2 = (if enabled then u1\<lparr>cu_windows_loading := True, cu_error := None\<rparr>
                        else u1\<lparr>cu_input_authorized := False, cu_selected_window_id := None,
                                cu_selected_window_title := None, cu_selected_application_id := None,
                                cu_applications := [], cu_launching_application_id := None, cu_windows := [],
                                cu_windows_loading := False, cu_error := None\<rparr>)
              in (set_computer i u2 c,
                  configure i enabled u2 # (if enabled then [LoadComputerWindows i] else [])))"

definition always_allowed :: "client_state \<Rightarrow> str \<Rightarrow> bool" where
  "always_allowed c app =
     list_ex (\<lambda>configured. computer_app_id_matches configured app)
       (us_always_allowed_app_ids (computer_use_settings c))"

definition select_computer_use_window ::
  "(str \<Rightarrow> str) \<Rightarrow> str \<Rightarrow> str \<Rightarrow> str \<Rightarrow> str \<Rightarrow> client_state \<Rightarrow> client_result" where
  "select_computer_use_window to_lowercase i window title app c =
     (let u = computer_of c i
      in if cu_active u
         then let app = normalize_computer_app_id to_lowercase app;
                  u1 = u\<lparr>cu_selected_window_id := Some window, cu_selected_window_title := Some title,
                         cu_selected_application_id := Some app, cu_input_authorized := always_allowed c app\<rparr>
              in (set_computer i u1 c, [configure i True u1])
         else (set_computer i u c, []))"

definition authorize_computer_input :: "str \<Rightarrow> bool \<Rightarrow> client_state \<Rightarrow> client_result" where
  "authorize_computer_input i authorized c =
     (let u = computer_of c i;
          u1 = u\<lparr>cu_input_authorized := (authorized \<and> cu_active u \<and> cu_selected_window_id u \<noteq> None)\<rparr>
      in (set_computer i u1 c, [configure i (cu_enabled u1) u1]))"

definition refresh_computer_windows :: "str \<Rightarrow> client_state \<Rightarrow> client_result" where
  "refresh_computer_windows i c =
     (let u = computer_of c i
      in if cu_active u
         then (set_computer i (u\<lparr>cu_windows_loading := True, cu_error := None\<rparr>) c, [LoadComputerWindows i])
         else (set_computer i u c, []))"

definition computer_windows_loaded ::
  "str \<Rightarrow> computer_application_state list \<Rightarrow> computer_window_state list \<Rightarrow> client_state \<Rightarrow> client_result" where
  "computer_windows_loaded i apps windows c =
     (set_computer i ((computer_of c i)
        \<lparr>cu_applications := take MAX_COMPUTER_APPLICATIONS apps, cu_windows := take MAX_COMPUTER_WINDOWS windows,
         cu_windows_loading := False, cu_error := None\<rparr>) c, [])"

definition launch_computer_app :: "(str \<Rightarrow> str) \<Rightarrow> str \<Rightarrow> str \<Rightarrow> client_state \<Rightarrow> client_result" where
  "launch_computer_app to_lowercase i app c =
     (let u = computer_of c i; app = normalize_computer_app_id to_lowercase app
      in if \<not> cu_active u \<or> cu_launching_application_id u \<noteq> None
            \<or> \<not> list_ex (\<lambda>a. computer_app_id_matches (cp_id a) app) (cu_applications u)
         then (set_computer i u c, [])
         else (set_computer i (u\<lparr>cu_launching_application_id := Some app, cu_error := None\<rparr>) c,
               [LaunchComputerApp i app]))"

definition computer_app_launch_finished :: "str \<Rightarrow> str \<Rightarrow> str option \<Rightarrow> client_state \<Rightarrow> client_result" where
  "computer_app_launch_finished i app err c =
     (let u = computer_of c i
      in if cu_launching_application_id u \<noteq> Some app then (set_computer i u c, [])
         else let u1 = u\<lparr>cu_launching_application_id := None, cu_error := err\<rparr>
              in if err = None \<and> cu_enabled u1
                 then (set_computer i (u1\<lparr>cu_windows_loading := True\<rparr>) c, [LoadComputerWindows i])
                 else (set_computer i u1 c, []))"

definition computer_windows_failed :: "str \<Rightarrow> str \<Rightarrow> client_state \<Rightarrow> client_result" where
  "computer_windows_failed i message c =
     (set_computer i ((computer_of c i)\<lparr>cu_windows_loading := False, cu_error := Some message\<rparr>) c, [])"

definition capture_computer_window :: "str \<Rightarrow> client_state \<Rightarrow> client_result" where
  "capture_computer_window i c =
     (let u = computer_of c i
      in (set_computer i u c,
          if cu_active u
          then (case cu_selected_window_id u of None \<Rightarrow> [] | Some w \<Rightarrow> [CaptureComputerWindow i w]) else []))"

definition computer_capture_ready :: "str \<Rightarrow> str \<Rightarrow> client_state \<Rightarrow> client_result" where
  "computer_capture_ready i label c =
     (let u = computer_of c i
      in (set_computer i (if cu_enabled u then u\<lparr>cu_last_capture_label := Some label\<rparr> else u) c, []))"

subsection \<open>The applications that are always allowed\<close>

abbreviation with_policy ::
  "(computer_use_settings_state \<Rightarrow> computer_use_settings_state) \<Rightarrow> client_state \<Rightarrow> client_state" where
  "with_policy f c \<equiv> c\<lparr>computer_use_settings := f (computer_use_settings c)\<rparr>"

definition allow_app :: "(str \<Rightarrow> str) \<Rightarrow> str \<Rightarrow> client_state \<Rightarrow> client_state" where
  "allow_app to_lowercase app c =
     (let ids = us_always_allowed_app_ids (computer_use_settings c);
          ids = (if always_allowed c app then ids else ids @ [app])
      in with_policy (\<lambda>p. p\<lparr>us_always_allowed_app_ids := normalize_computer_app_ids to_lowercase ids,
                            us_status := load_status.Ready, us_error := None\<rparr>) c)"

definition computer_use_app_authorized ::
  "(str \<Rightarrow> str) \<Rightarrow> str \<Rightarrow> str \<Rightarrow> bool \<Rightarrow> client_state \<Rightarrow> client_result" where
  "computer_use_app_authorized to_lowercase i app always c =
     (let app = normalize_computer_app_id to_lowercase app; u = computer_of c i;
          u1 = (if cu_selected_application_id u = Some app then u\<lparr>cu_input_authorized := True\<rparr> else u);
          c1 = set_computer i u1 c
      in (if always \<and> app \<noteq> [] then allow_app to_lowercase app c1 else c1, []))"

definition refresh_computer_use_policy :: "client_state \<Rightarrow> client_result" where
  "refresh_computer_use_policy c =
     (with_policy (\<lambda>p. p\<lparr>us_status := load_status.Loading, us_error := None\<rparr>) c, [LoadComputerUsePolicy])"

definition computer_use_policy_loaded :: "(str \<Rightarrow> str) \<Rightarrow> str list \<Rightarrow> client_state \<Rightarrow> client_result" where
  "computer_use_policy_loaded to_lowercase ids c =
     (with_policy (\<lambda>p. p\<lparr>us_status := load_status.Ready,
        us_always_allowed_app_ids := normalize_computer_app_ids to_lowercase ids,
        us_pending_removal_app_id := None, us_error := None\<rparr>) c, [])"

definition computer_use_policy_failed :: "str \<Rightarrow> client_state \<Rightarrow> client_result" where
  "computer_use_policy_failed message c =
     (with_policy (\<lambda>p. p\<lparr>us_status := load_status.Failed, us_pending_removal_app_id := None,
        us_error := Some (bounded_string message MAX_COMPOSER_BYTES)\<rparr>) c, [])"

definition remove_computer_use_allowed_app :: "(str \<Rightarrow> str) \<Rightarrow> str \<Rightarrow> client_state \<Rightarrow> client_result" where
  "remove_computer_use_allowed_app to_lowercase app c =
     (let app = normalize_computer_app_id to_lowercase app; p = computer_use_settings c
      in if app = [] \<or> us_pending_removal_app_id p \<noteq> None \<or> app \<notin> set (us_always_allowed_app_ids p)
         then (c, [])
         else (with_policy (\<lambda>p. p\<lparr>us_pending_removal_app_id := Some app, us_error := None\<rparr>) c,
               [RemoveComputerUseAllowedApp app (filter (\<lambda>i. i \<noteq> app) (us_always_allowed_app_ids p))]))"

definition settle_removal :: "str \<Rightarrow> computer_use_settings_state \<Rightarrow> computer_use_settings_state" where
  "settle_removal app p =
     (if us_pending_removal_app_id p = Some app then p\<lparr>us_pending_removal_app_id := None\<rparr> else p)"

definition computer_use_allowed_app_removed ::
  "(str \<Rightarrow> str) \<Rightarrow> str \<Rightarrow> bool \<Rightarrow> client_state \<Rightarrow> client_result" where
  "computer_use_allowed_app_removed to_lowercase app overridden c =
     (let app = normalize_computer_app_id to_lowercase app;
          c1 = with_policy (\<lambda>p. (settle_removal app p)
                 \<lparr>us_always_allowed_app_ids := filter (\<lambda>i. i \<noteq> app) (us_always_allowed_app_ids p),
                  us_error := None\<rparr>) c
      in (if overridden
          then set_client_message ''Computer Use app policy is overridden by higher-priority configuration.'' c1
          else c1, []))"

definition computer_use_policy_mutation_failed ::
  "(str \<Rightarrow> str) \<Rightarrow> str \<Rightarrow> str \<Rightarrow> client_state \<Rightarrow> client_result" where
  "computer_use_policy_mutation_failed to_lowercase app message c =
     (let app = normalize_computer_app_id to_lowercase app
      in (with_policy (\<lambda>p. (settle_removal app p)
            \<lparr>us_error := Some (bounded_string message MAX_COMPOSER_BYTES)\<rparr>) c, []))"

subsection \<open>Dispatch\<close>

datatype (plugins only: code size) computer_action =
    ComputerUseAvailable str
  | ToggleComputerUse str bool
  | SelectComputerUseWindow str str str str
  | AuthorizeComputerInputForSession str bool
  | RefreshComputerWindows str
  | ComputerWindowsLoaded str "computer_application_state list" "computer_window_state list"
  | LaunchComputerApp str str
  | ComputerAppLaunchFinished str str "str option"
  | ComputerWindowsFailed str str
  | CaptureComputerWindow str
  | ComputerCaptureReady str str
  | ComputerUseAppAuthorized str str bool
  | RefreshComputerUsePolicy
  | ComputerUsePolicyLoaded "str list"
  | ComputerUsePolicyFailed str
  | RemoveComputerUseAllowedApp str
  | ComputerUseAllowedAppRemoved str bool
  | ComputerUsePolicyMutationFailed str str

fun reduce_computer :: "(str \<Rightarrow> str) \<Rightarrow> client_state \<Rightarrow> computer_action \<Rightarrow> client_result" where
  "reduce_computer lower c (ComputerUseAvailable i) = computer_use_available i c"
| "reduce_computer lower c (ToggleComputerUse i b) = toggle_computer_use i b c"
| "reduce_computer lower c (SelectComputerUseWindow i w t a) = select_computer_use_window lower i w t a c"
| "reduce_computer lower c (AuthorizeComputerInputForSession i b) = authorize_computer_input i b c"
| "reduce_computer lower c (RefreshComputerWindows i) = refresh_computer_windows i c"
| "reduce_computer lower c (ComputerWindowsLoaded i as ws) = computer_windows_loaded i as ws c"
| "reduce_computer lower c (computer_action.LaunchComputerApp i a) = launch_computer_app lower i a c"
| "reduce_computer lower c (ComputerAppLaunchFinished i a e) = computer_app_launch_finished i a e c"
| "reduce_computer lower c (ComputerWindowsFailed i m) = computer_windows_failed i m c"
| "reduce_computer lower c (computer_action.CaptureComputerWindow i) = capture_computer_window i c"
| "reduce_computer lower c (ComputerCaptureReady i l) = computer_capture_ready i l c"
| "reduce_computer lower c (ComputerUseAppAuthorized i a b) = computer_use_app_authorized lower i a b c"
| "reduce_computer lower c RefreshComputerUsePolicy = refresh_computer_use_policy c"
| "reduce_computer lower c (ComputerUsePolicyLoaded ids) = computer_use_policy_loaded lower ids c"
| "reduce_computer lower c (ComputerUsePolicyFailed m) = computer_use_policy_failed m c"
| "reduce_computer lower c (computer_action.RemoveComputerUseAllowedApp a) =
     remove_computer_use_allowed_app lower a c"
| "reduce_computer lower c (ComputerUseAllowedAppRemoved a b) = computer_use_allowed_app_removed lower a b c"
| "reduce_computer lower c (ComputerUsePolicyMutationFailed a m) =
     computer_use_policy_mutation_failed lower a m c"

end
