(* ===== verification/Imports.thy ===== *)
theory Imports
  imports Connection
begin

text \<open>
  Importing from other agents (the import actions of \<open>reduce\<close> and \<open>refresh_import_effects\<close> in
  \<open>crates/codex-core/src/lib.rs\<close>): what has been detected, what the user has selected of it, the
  imports that run and the history of earlier ones. What an item is made of (\<open>ImportMigrationDetails\<close>)
  only passes through the reducer.
\<close>

definition MAX_IMPORT_HISTORY_ENTRIES :: nat where
  "MAX_IMPORT_HISTORY_ENTRIES = 50"

definition MAX_IMPORT_DETAIL_ITEMS :: nat where
  "MAX_IMPORT_DETAIL_ITEMS = 100"

definition all_providers :: "import_provider list" where
  "all_providers = [ClaudeCode, ClaudeCowork, Cursor]"

definition all_item_types :: "import_item_type list" where
  "all_item_types = [AgentsMd, Config, import_item_type.Skills, import_item_type.Plugins, McpServerConfig,
     Subagents, Hooks, Commands, Memory, Sessions]"

fun provider_label :: "import_provider \<Rightarrow> str" where
  "provider_label ClaudeCode = ''Claude Code''"
| "provider_label ClaudeCowork = ''Claude Cowork''"
| "provider_label Cursor = ''Cursor''"

abbreviation with_imports ::
  "(import_migration_state \<Rightarrow> import_migration_state) \<Rightarrow> client_state \<Rightarrow> client_state" where
  "with_imports f c \<equiv> c\<lparr>import_migration := f (import_migration c)\<rparr>"

definition import_running :: "client_state \<Rightarrow> bool" where
  "import_running c \<longleftrightarrow> im_import_status (import_migration c) = load_status.Loading"

subsection \<open>Detection and history\<close>

definition refresh_import_effects :: "client_state \<Rightarrow> client_result" where
  "refresh_import_effects c =
     (let c1 = with_imports (\<lambda>m. m\<lparr>im_detection_status := load_status.Loading,
            im_history_status := load_status.Loading, im_error := None, im_history_error := None\<rparr>) c
      in (c1, [DetectExternalAgentConfig (composer_workspace_roots c1), LoadExternalAgentImportHistories]))"

definition refresh_imports :: "client_state \<Rightarrow> client_result" where
  "refresh_imports c =
     (let m = import_migration c
      in if connection (core c) \<noteq> Online \<or> import_running c \<or> im_detection_status m = load_status.Loading
            \<or> im_history_status m = load_status.Loading
         then (c, [])
         else refresh_import_effects
                (with_imports (\<lambda>m. m\<lparr>im_import_status := load_status.Idle, im_progress := []\<rparr>) c))"

definition import_detection_loaded ::
  "import_provider_items list \<Rightarrow> import_provider list \<Rightarrow> client_state \<Rightarrow> client_result" where
  "import_detection_loaded providers failures c =
     (with_imports (\<lambda>m. m
        \<lparr>im_providers := take (length all_providers) providers,
         im_detection_failures := take (length all_providers) failures,
         im_detection_status := load_status.Ready,
         im_error := (if im_history_status m \<noteq> load_status.Failed then None else im_error m)\<rparr>) c, [])"

definition import_detection_failed :: "str \<Rightarrow> client_state \<Rightarrow> client_result" where
  "import_detection_failed message c =
     (with_imports (\<lambda>m. m\<lparr>im_detection_status := load_status.Failed, im_error := Some message\<rparr>) c, [])"

definition import_histories_loaded ::
  "import_history list \<Rightarrow> imported_connector_candidate list \<Rightarrow> client_state \<Rightarrow> client_result" where
  "import_histories_loaded histories connectors c =
     (let histories = take MAX_IMPORT_HISTORY_ENTRIES
            (sort_key (\<lambda>h. - ih_completed_at_ms h) histories)
      in (with_imports (\<lambda>m. m
            \<lparr>im_histories := histories, im_connectors := take MAX_IMPORT_DETAIL_ITEMS connectors,
             im_history_status := load_status.Ready, im_history_error := None,
             im_visible_history_count := min (max (im_visible_history_count m) 5) (max (length histories) 5)\<rparr>) c, []))"

definition import_histories_failed :: "str \<Rightarrow> client_state \<Rightarrow> client_result" where
  "import_histories_failed message c =
     (with_imports (\<lambda>m. m\<lparr>im_history_status := load_status.Failed, im_history_error := Some message\<rparr>) c, [])"

definition show_more_import_history :: "client_state \<Rightarrow> client_result" where
  "show_more_import_history c =
     (with_imports (\<lambda>m. m\<lparr>im_visible_history_count :=
        min (im_visible_history_count m + 5) (length (im_histories m))\<rparr>) c, [])"

subsection \<open>Selection\<close>

definition toggle_import_provider :: "import_provider \<Rightarrow> client_state \<Rightarrow> client_result" where
  "toggle_import_provider provider c =
     (if import_running c then (c, [])
      else (with_imports (\<lambda>m. m\<lparr>im_providers := update_first (\<lambda>g. ip_provider g = provider)
              (\<lambda>g. g\<lparr>ip_selected := \<not> ip_selected g,
                     ip_items := map (\<lambda>item. item\<lparr>ii_selected := \<not> ip_selected g\<rparr>) (ip_items g)\<rparr>)
              (im_providers m)\<rparr>) c, []))"

definition toggle_item :: "nat \<Rightarrow> import_migration_item list \<Rightarrow> import_migration_item list" where
  "toggle_item n items =
     (if n < length items then items[n := (items ! n)\<lparr>ii_selected := \<not> ii_selected (items ! n)\<rparr>] else items)"

definition toggle_import_item :: "import_provider \<Rightarrow> nat \<Rightarrow> client_state \<Rightarrow> client_result" where
  "toggle_import_item provider n c =
     (if import_running c then (c, [])
      else (with_imports (\<lambda>m. m\<lparr>im_providers := update_first (\<lambda>g. ip_provider g = provider)
              (\<lambda>g. g\<lparr>ip_items := toggle_item n (ip_items g)\<rparr>) (im_providers m)\<rparr>) c, []))"

subsection \<open>Importing\<close>

definition batch_of :: "import_provider_items \<Rightarrow> import_batch option" where
  "batch_of g =
     (let items = filter ii_selected (ip_items g)
      in if items = [] then None
         else Some \<lparr>ib_provider = ip_provider g, ib_items = items,
                    ib_wait_for_completion = list_ex (\<lambda>item. ii_item_type item = Sessions) items\<rparr>)"

definition start_import :: "client_state \<Rightarrow> client_result" where
  "start_import c =
     (if connection (core c) \<noteq> Online \<or> import_running c then (c, [])
      else let batches = List.map_filter batch_of (im_providers (import_migration c))
           in if batches = [] then (c, [])
              else (with_imports (\<lambda>m. m\<lparr>im_import_status := load_status.Loading, im_active_import_ids := {},
                      im_progress := [], im_error := None\<rparr>) c,
                    [ImportExternalAgentConfig batches]))"

fun join :: "str \<Rightarrow> str list \<Rightarrow> str" where
  "join sep [] = []"
| "join sep [s] = s"
| "join sep (s # t # ss) = s @ sep @ join sep (t # ss)"

definition start_failure :: "import_provider list \<Rightarrow> str option" where
  "start_failure failures =
     (if failures = [] then None
      else Some (''Couldn't import from '' @ join '', '' (map provider_label failures) @ ''. Try again.''))"

text \<open>All awaited imports are over: the lists are loaded again, and the error stays.\<close>

definition imports_over :: "client_state \<Rightarrow> client_result" where
  "imports_over c =
     (let err = im_error (import_migration c);
          (c1, es) = refresh_import_effects (with_imports (\<lambda>m. m\<lparr>im_import_status := load_status.Ready\<rparr>) c)
      in (with_imports (\<lambda>m. m\<lparr>im_error := err\<rparr>) c1, es))"

definition external_imports_started ::
  "started_import list \<Rightarrow> import_provider list \<Rightarrow> client_state \<Rightarrow> client_result" where
  "external_imports_started started failures c =
     (let failure = start_failure failures;
          c1 = with_imports (\<lambda>m. m\<lparr>im_active_import_ids :=
                 set (map is_import_id (filter is_wait_for_completion started))\<rparr>) c;
          c2 = (case failure of None \<Rightarrow> c1 | Some m \<Rightarrow> set_client_message m c1)
      in if started = []
         then (with_imports (\<lambda>m. m\<lparr>im_import_status := load_status.Failed,
                 im_error := (case failure of Some m \<Rightarrow> Some m
                              | None \<Rightarrow> Some ''Couldn't finish the import. Try again.'')\<rparr>) c2, [])
         else let c3 = with_imports (\<lambda>m. m\<lparr>im_error := failure\<rparr>) c2
              in if im_active_import_ids (import_migration c3) \<noteq> {} then (c3, []) else imports_over c3)"

definition import_awaited :: "str \<Rightarrow> client_state \<Rightarrow> bool" where
  "import_awaited i c \<longleftrightarrow> import_running c \<and> i \<in> im_active_import_ids (import_migration c)"

definition external_import_progress ::
  "str \<Rightarrow> import_type_result list \<Rightarrow> client_state \<Rightarrow> client_result" where
  "external_import_progress i results c =
     (if \<not> import_awaited i c then (c, [])
      else (with_imports (\<lambda>m. m\<lparr>im_progress := take (length all_item_types) results\<rparr>) c, []))"

definition external_import_completed ::
  "str \<Rightarrow> import_type_result list \<Rightarrow> client_state \<Rightarrow> client_result" where
  "external_import_completed i results c =
     (if \<not> import_awaited i c then (c, [])
      else let results = take (length all_item_types) results;
               failed = sum_list (map (\<lambda>r. length (it_failures r)) results);
               c1 = with_imports (\<lambda>m. m\<lparr>im_progress := results,
                      im_active_import_ids := im_active_import_ids m - {i}\<rparr>) c;
               c2 = (if 0 < failed
                     then set_client_message (dec failed @ '' imported item'' @ (if failed = 1 then [] else ''s'')
                            @ '' did not import.'') c1
                     else c1)
           in if im_active_import_ids (import_migration c2) \<noteq> {} then (c2, []) else imports_over c2)"

subsection \<open>Dispatch\<close>

datatype (plugins only: code size) import_action =
    RefreshImports
  | ImportDetectionLoaded "import_provider_items list" "import_provider list"
  | ImportDetectionFailed str
  | ImportHistoriesLoaded "import_history list" "imported_connector_candidate list"
  | ImportHistoriesFailed str
  | ToggleImportProvider import_provider
  | ToggleImportItem import_provider nat
  | StartImport
  | ExternalImportsStarted "started_import list" "import_provider list"
  | ExternalImportProgress str "import_type_result list"
  | ExternalImportCompleted str "import_type_result list"
  | ShowMoreImportHistory

fun reduce_import :: "client_state \<Rightarrow> import_action \<Rightarrow> client_result" where
  "reduce_import c RefreshImports = refresh_imports c"
| "reduce_import c (ImportDetectionLoaded ps fs) = import_detection_loaded ps fs c"
| "reduce_import c (ImportDetectionFailed m) = import_detection_failed m c"
| "reduce_import c (ImportHistoriesLoaded hs cs) = import_histories_loaded hs cs c"
| "reduce_import c (ImportHistoriesFailed m) = import_histories_failed m c"
| "reduce_import c (ToggleImportProvider p) = toggle_import_provider p c"
| "reduce_import c (ToggleImportItem p n) = toggle_import_item p n c"
| "reduce_import c StartImport = start_import c"
| "reduce_import c (ExternalImportsStarted started fs) = external_imports_started started fs c"
| "reduce_import c (ExternalImportProgress i rs) = external_import_progress i rs c"
| "reduce_import c (ExternalImportCompleted i rs) = external_import_completed i rs c"
| "reduce_import c ShowMoreImportHistory = show_more_import_history c"

end
