(* ===== verification/Personalization.thy ===== *)
theory Personalization
  imports Connection "HOL-Library.AList"
begin

text \<open>
  Personality and memories (the personalization actions of \<open>reduce\<close>, \<open>ChatMemoryState\<close> and
  \<open>global_chat_memory_preferences\<close> in \<open>crates/codex-core/src/lib.rs\<close>): the settings of the account, one
  change of which is sent at a time, and the memory preferences of a chat. Which entry of a full
  \<open>HashMap\<close> its first key is, is a parameter: the iteration order is unspecified.
\<close>

subsection \<open>The settings\<close>

abbreviation with_personalization ::
  "(personalization_state \<Rightarrow> personalization_state) \<Rightarrow> client_state \<Rightarrow> client_state" where
  "with_personalization f c \<equiv> c\<lparr>personalization := f (personalization c)\<rparr>"

definition refresh_personalization :: "client_state \<Rightarrow> client_result" where
  "refresh_personalization c =
     (if pz_pending (personalization c) \<or> pz_status (personalization c) = load_status.Loading then (c, [])
      else (with_personalization (\<lambda>p. p\<lparr>pz_status := load_status.Loading, pz_error := None\<rparr>) c,
            [LoadPersonalization]))"

definition personalization_loaded ::
  "personality \<Rightarrow> bool \<Rightarrow> bool \<Rightarrow> bool \<Rightarrow> bool \<Rightarrow> bool \<Rightarrow> client_state \<Rightarrow> client_result" where
  "personalization_loaded personality available generate use enabled tool_assisted c =
     (c\<lparr>personalization := \<lparr>pz_status = load_status.Ready, pz_personality = personality,
         pz_memory_available = available, pz_generate_memories = generate, pz_use_memories = use,
         pz_memories_enabled = enabled,
         pz_allow_memory_generation_from_tool_assisted_chats = tool_assisted, pz_pending = False,
         pz_error = None\<rparr>\<rparr>, [])"

definition personalization_failed :: "str \<Rightarrow> client_state \<Rightarrow> client_result" where
  "personalization_failed message c =
     (with_personalization (\<lambda>p. p\<lparr>pz_status := load_status.Failed, pz_pending := False,
        pz_error := Some message\<rparr>) c, [])"

definition select_personality :: "personality \<Rightarrow> client_state \<Rightarrow> client_result" where
  "select_personality personality c =
     (if pz_pending (personalization c) \<or> pz_personality (personalization c) = personality
         \<or> connection (core c) \<noteq> Online
      then (c, [])
      else (with_personalization (\<lambda>p. p\<lparr>pz_personality := personality, pz_pending := True, pz_error := None\<rparr>) c,
            [SetPersonality personality]))"

definition set_memories_enabled :: "bool \<Rightarrow> client_state \<Rightarrow> client_result" where
  "set_memories_enabled enabled c =
     (let p = personalization c
      in if pz_pending p \<or> \<not> pz_memory_available p \<or> pz_memories_enabled p = enabled
            \<or> connection (core c) \<noteq> Online
         then (c, [])
         else (with_personalization (\<lambda>p. p\<lparr>pz_generate_memories := enabled, pz_use_memories := enabled,
                 pz_memories_enabled := enabled, pz_pending := True, pz_error := None\<rparr>) c,
               [SetMemoriesEnabled enabled]))"

definition set_tool_assisted_memories_enabled :: "bool \<Rightarrow> client_state \<Rightarrow> client_result" where
  "set_tool_assisted_memories_enabled enabled c =
     (let p = personalization c
      in if pz_pending p \<or> \<not> pz_memory_available p \<or> \<not> pz_memories_enabled p
            \<or> pz_allow_memory_generation_from_tool_assisted_chats p = enabled \<or> connection (core c) \<noteq> Online
         then (c, [])
         else (with_personalization (\<lambda>p. p\<lparr>pz_allow_memory_generation_from_tool_assisted_chats := enabled,
                 pz_pending := True, pz_error := None\<rparr>) c,
               [SetToolAssistedMemoriesEnabled enabled]))"

definition reset_memories :: "client_state \<Rightarrow> client_result" where
  "reset_memories c =
     (if pz_pending (personalization c) \<or> \<not> pz_memory_available (personalization c)
         \<or> connection (core c) \<noteq> Online
      then (c, [])
      else (with_personalization (\<lambda>p. p\<lparr>pz_pending := True, pz_error := None\<rparr>) c, [ResetMemories]))"

definition memories_reset :: "client_state \<Rightarrow> client_result" where
  "memories_reset c =
     (set_client_message ''Memories reset''
        (with_personalization (\<lambda>p. p\<lparr>pz_pending := False, pz_error := None\<rparr>) c), [])"

definition memory_reset_failed :: "str \<Rightarrow> client_state \<Rightarrow> client_result" where
  "memory_reset_failed message c =
     (set_client_message (''Unable to reset memories: '' @ message)
        (with_personalization (\<lambda>p. p\<lparr>pz_pending := False\<rparr>) c), [])"

fun setting_overridden :: "personalization_mutation_kind \<Rightarrow> str" where
  "setting_overridden PersonalityChange = ''Personality''"
| "setting_overridden MemoriesChange = ''Memory''"
| "setting_overridden ToolAssistedMemoriesChange = ''Tool-assisted memory''"

fun setting_failed :: "personalization_mutation_kind \<Rightarrow> str" where
  "setting_failed PersonalityChange = ''personality''"
| "setting_failed MemoriesChange = ''memory''"
| "setting_failed ToolAssistedMemoriesChange = ''tool-assisted memory''"

definition personalization_mutation_finished ::
  "personalization_mutation_kind \<Rightarrow> bool \<Rightarrow> client_state \<Rightarrow> client_result" where
  "personalization_mutation_finished kind overridden c =
     (let c1 = with_personalization (\<lambda>p. p\<lparr>pz_pending := False, pz_status := load_status.Loading,
            pz_error := None\<rparr>) c
      in (if overridden
          then set_client_message (setting_overridden kind
                 @ '' is overridden by higher-priority configuration.'') c1
          else c1, [LoadPersonalization]))"

definition personalization_mutation_failed ::
  "personalization_mutation_kind \<Rightarrow> str \<Rightarrow> client_state \<Rightarrow> client_result" where
  "personalization_mutation_failed kind message c =
     (set_client_message (''Unable to update '' @ setting_failed kind @ '': '' @ message)
        (with_personalization (\<lambda>p. p\<lparr>pz_pending := False, pz_status := load_status.Loading\<rparr>) c),
      [LoadPersonalization])"

subsection \<open>The memories of a chat\<close>

definition global_chat_memory_preferences :: "client_state \<Rightarrow> chat_memory_preferences" where
  "global_chat_memory_preferences c =
     \<lparr>cm_generate_memories = pz_generate_memories (personalization c),
      cm_use_memories = pz_use_memories (personalization c)\<rparr>"

definition preferences :: "str option \<Rightarrow> client_state \<Rightarrow> chat_memory_preferences" where
  "preferences task_id c =
     (case (case task_id of
              Some i \<Rightarrow> map_of (cm_thread_preferences (chat_memory c)) i
            | None \<Rightarrow> cm_new_chat_preferences (chat_memory c)) of
        Some p \<Rightarrow> p
      | None \<Rightarrow> global_chat_memory_preferences c)"

definition remember_thread_preferences ::
  "(str list \<Rightarrow> str) \<Rightarrow> str \<Rightarrow> chat_memory_preferences \<Rightarrow> chat_memory_state \<Rightarrow> chat_memory_state" where
  "remember_thread_preferences first_key i p m =
     (let ps = cm_thread_preferences m;
          ps = (if MAX_VISIBLE_THREADS \<le> length ps \<and> i \<notin> set (map fst ps)
                then AList.delete (first_key (map fst ps)) ps else ps)
      in m\<lparr>cm_thread_preferences := AList.update i p ps\<rparr>)"

abbreviation with_memory :: "(chat_memory_state \<Rightarrow> chat_memory_state) \<Rightarrow> client_state \<Rightarrow> client_state" where
  "with_memory f c \<equiv> c\<lparr>chat_memory := f (chat_memory c)\<rparr>"

definition set_new_chat_preferences :: "chat_memory_preferences \<Rightarrow> client_state \<Rightarrow> client_state" where
  "set_new_chat_preferences p c =
     update_core advance_new_chat_draft_generation
       (with_memory (\<lambda>m. m\<lparr>cm_new_chat_preferences := Some p\<rparr>) c)"

definition set_chat_use_memories :: "bool \<Rightarrow> client_state \<Rightarrow> client_result" where
  "set_chat_use_memories enabled c =
     (if \<not> pz_memory_available (personalization c) \<or> selected_task_id (core c) \<noteq> None then (c, [])
      else let p = preferences None c
           in if cm_use_memories p = enabled then (c, [])
              else (set_new_chat_preferences (p\<lparr>cm_use_memories := enabled\<rparr>) c, []))"

definition set_chat_generate_memories ::
  "(str list \<Rightarrow> str) \<Rightarrow> bool \<Rightarrow> client_state \<Rightarrow> client_result" where
  "set_chat_generate_memories first_key enabled c =
     (if \<not> pz_memory_available (personalization c) then (c, [])
      else (case selected_task_id (core c) of
              None \<Rightarrow>
                let p = preferences None c
                in if cm_generate_memories p = enabled then (c, [])
                   else (set_new_chat_preferences (p\<lparr>cm_generate_memories := enabled\<rparr>) c, [])
            | Some i \<Rightarrow>
                if connection (core c) \<noteq> Online \<or> i \<in> cm_pending_thread_updates (chat_memory c) then (c, [])
                else let previous = preferences (Some i) c
                     in if cm_generate_memories previous = enabled then (c, [])
                        else (with_memory (\<lambda>m. (remember_thread_preferences first_key i
                                  (previous\<lparr>cm_generate_memories := enabled\<rparr>) m)
                                \<lparr>cm_pending_thread_updates := insert i (cm_pending_thread_updates m)\<rparr>) c,
                              [SetThreadMemoryMode i enabled previous])))"

definition thread_preferences_remembered ::
  "(str list \<Rightarrow> str) \<Rightarrow> str \<Rightarrow> chat_memory_preferences \<Rightarrow> client_state \<Rightarrow> client_result" where
  "thread_preferences_remembered first_key i p c =
     (with_memory (remember_thread_preferences first_key i p) c, [])"

definition thread_memory_mode_set_finished :: "str \<Rightarrow> client_state \<Rightarrow> client_result" where
  "thread_memory_mode_set_finished i c =
     (with_memory (\<lambda>m. m\<lparr>cm_pending_thread_updates := cm_pending_thread_updates m - {i}\<rparr>) c, [])"

definition thread_memory_mode_set_failed ::
  "str \<Rightarrow> chat_memory_preferences \<Rightarrow> str \<Rightarrow> client_state \<Rightarrow> client_result" where
  "thread_memory_mode_set_failed i previous message c =
     (set_client_message (''Unable to update chat memories: '' @ message)
        (with_memory (\<lambda>m. m\<lparr>cm_pending_thread_updates := cm_pending_thread_updates m - {i},
           cm_thread_preferences := AList.update i previous (cm_thread_preferences m)\<rparr>) c), [])"

subsection \<open>Dispatch\<close>

datatype (plugins only: code size) personalization_action =
    RefreshPersonalization
  | PersonalizationLoaded personality bool bool bool bool bool
  | PersonalizationFailed str
  | SelectPersonality personality
  | SetMemoriesEnabled bool
  | SetToolAssistedMemoriesEnabled bool
  | SetChatUseMemories bool
  | SetChatGenerateMemories bool
  | RememberThreadMemoryPreferences str chat_memory_preferences
  | ThreadMemoryModeSetFinished str
  | ThreadMemoryModeSetFailed str chat_memory_preferences str
  | ResetMemories
  | MemoriesReset
  | MemoryResetFailed str
  | PersonalizationMutationFinished personalization_mutation_kind bool
  | PersonalizationMutationFailed personalization_mutation_kind str

fun reduce_personalization ::
  "(str list \<Rightarrow> str) \<Rightarrow> client_state \<Rightarrow> personalization_action \<Rightarrow> client_result" where
  "reduce_personalization first_key c RefreshPersonalization = refresh_personalization c"
| "reduce_personalization first_key c (PersonalizationLoaded p a g u e t) =
     personalization_loaded p a g u e t c"
| "reduce_personalization first_key c (PersonalizationFailed m) = personalization_failed m c"
| "reduce_personalization first_key c (SelectPersonality p) = select_personality p c"
| "reduce_personalization first_key c (personalization_action.SetMemoriesEnabled b) = set_memories_enabled b c"
| "reduce_personalization first_key c (personalization_action.SetToolAssistedMemoriesEnabled b) =
     set_tool_assisted_memories_enabled b c"
| "reduce_personalization first_key c (SetChatUseMemories b) = set_chat_use_memories b c"
| "reduce_personalization first_key c (SetChatGenerateMemories b) = set_chat_generate_memories first_key b c"
| "reduce_personalization first_key c (RememberThreadMemoryPreferences i p) =
     thread_preferences_remembered first_key i p c"
| "reduce_personalization first_key c (ThreadMemoryModeSetFinished i) = thread_memory_mode_set_finished i c"
| "reduce_personalization first_key c (ThreadMemoryModeSetFailed i p m) =
     thread_memory_mode_set_failed i p m c"
| "reduce_personalization first_key c personalization_action.ResetMemories = reset_memories c"
| "reduce_personalization first_key c MemoriesReset = memories_reset c"
| "reduce_personalization first_key c (MemoryResetFailed m) = memory_reset_failed m c"
| "reduce_personalization first_key c (PersonalizationMutationFinished k b) =
     personalization_mutation_finished k b c"
| "reduce_personalization first_key c (PersonalizationMutationFailed k m) =
     personalization_mutation_failed k m c"

end
