(* ===== verification/Client_Panels.thy ===== *)
theory Client_Panels
  imports Client_Invariant Client_Effects Pull_Requests Computer_Use Imports Personalization
begin

text \<open>
  The contract of the components beside the tasks: the pull request inbox, computer use, imports and
  personalization change of the core state only the status message and the generations of the
  draft, ask no questions, and give no work to a task. What holds of the whole client therefore
  survives their actions.
\<close>

subsection \<open>The contract\<close>

definition quiet :: "app_state \<Rightarrow> app_state" where
  "quiet s = s\<lparr>status_message := None, composer_draft_generation := 0, new_chat_draft_generation := 0\<rparr>"

definition questions :: "client_state \<Rightarrow> mcp_elicitation list \<times> browser_permissions_state \<times> str list" where
  "questions c = (mcp_elicitations (asks c), browser_permissions (asks c), seen_model_upgrade_ids c)"

lemma quiet_update [simp]:
  "quiet (s\<lparr>status_message := m\<rparr>) = quiet s"
  "quiet (advance_new_chat_draft_generation s) = quiet s"
  by (simp_all add: quiet_def advance_new_chat_draft_generation_def advance_composer_draft_generation_def)

lemma questions_update [simp]:
  "questions (c\<lparr>pull_requests := x1\<rparr>) = questions c"
  "questions (c\<lparr>computer_use := x2\<rparr>) = questions c"
  "questions (c\<lparr>computer_use_settings := x3\<rparr>) = questions c"
  "questions (c\<lparr>import_migration := x4\<rparr>) = questions c"
  "questions (c\<lparr>personalization := x5\<rparr>) = questions c"
  "questions (c\<lparr>chat_memory := x6\<rparr>) = questions c"
  "questions (update_core f c) = questions c"
  by (simp_all add: questions_def update_core_def)

lemma quiet_message [simp]:
  "quiet (core (set_client_message m c)) = quiet (core c)"
  "questions (set_client_message m c) = questions c"
  by (simp_all add: set_client_message_def)

locale client_panel =
  fixes step :: "client_state \<Rightarrow> 'a \<Rightarrow> client_result"
  assumes core_quiet: "quiet (core (fst (step c a))) = quiet (core c)"
    and no_questions: "questions (fst (step c a)) = questions c"
    and sends_modest: "list_all modest (snd (step c a))"
begin

lemma core_same: "(\<And>s. f (quiet s) = f s) \<Longrightarrow> f (core (fst (step c a))) = f (core c)"
  using core_quiet by metis

lemma panel_app_inv: "app_inv (core (fst (step c a))) = app_inv (core c)"
  by (rule core_same) (simp add: quiet_def)

lemma panel_controls: "composer_controls (core (fst (step c a))) = composer_controls (core c)"
  by (rule core_same) (simp add: quiet_def)

lemma panel_timelines: "timelines (core (fst (step c a))) = timelines (core c)"
  by (rule core_same) (simp add: quiet_def)

lemma panel_selected: "selected_task_id (core (fst (step c a))) = selected_task_id (core c)"
  by (rule core_same) (simp add: quiet_def)

lemma panel_elicitations: "elicitations_inv (asks (fst (step c a))) = elicitations_inv (asks c)"
  using no_questions [of c a] by (simp add: questions_def elicitations_inv_def)

lemma panel_settings: "settings_inv (fst (step c a)) = settings_inv c"
  using no_questions [of c a] by (simp add: questions_def settings_inv_def panel_controls)

end

subsection \<open>The pull request inbox\<close>

lemma begin_search_frame [simp]:
  "core (fst (begin_pull_request_search b c)) = core c"
  "questions (fst (begin_pull_request_search b c)) = questions c"
  "list_all plain (snd (begin_pull_request_search b c))"
  by (simp_all add: begin_pull_request_search_def pull_request_search_effect_def Let_def)

lemma begin_diff_frame [simp]:
  "core (fst (begin_pull_request_diff c)) = core c"
  "questions (fst (begin_pull_request_diff c)) = questions c"
  "list_all plain (snd (begin_pull_request_diff c))"
  by (simp_all add: begin_pull_request_diff_def Let_def split: option.split)

lemma begin_mutation_frame [simp]:
  "core (fst (begin_pull_request_mutation m c)) = core c"
  "questions (fst (begin_pull_request_mutation m c)) = questions c"
  "list_all plain (snd (begin_pull_request_mutation m c))"
  by (simp_all add: begin_pull_request_mutation_def mutation_error_def Let_def split: option.split)

lemmas pull_request_handler_defs = pull_request_query_changed_def set_pull_request_relationship_def
  set_pull_request_lifecycle_def pull_request_search_due_def pull_requests_loaded_def
  pull_requests_failed_def load_more_pull_requests_def select_pull_request_def
  pull_request_detail_loaded_def pull_request_detail_failed_def close_pull_request_detail_def
  select_pull_request_detail_tab_def refresh_pull_request_diff_def pull_request_diff_loaded_def
  pull_request_diff_failed_def pull_request_mutation_completed_def pull_request_mutation_failed_def
  clear_pull_request_mutation_error_def

lemma inbox_plain: "list_all plain (snd (reduce_pull_request c a))"
  by (cases a) (simp_all add: pull_request_handler_defs pull_request_search_effect_def Let_def split: option.split)

interpretation inbox: client_panel reduce_pull_request
proof unfold_locales
  fix c a
  show "quiet (core (fst (reduce_pull_request c a))) = quiet (core c)"
    by (cases a) (simp_all add: pull_request_handler_defs Let_def split: option.split)
  show "questions (fst (reduce_pull_request c a)) = questions c"
    by (cases a) (simp_all add: pull_request_handler_defs Let_def split: option.split)
  show "list_all modest (snd (reduce_pull_request c a))" by (rule list_plain_modest) (rule inbox_plain)
qed

subsection \<open>Computer use\<close>

lemma set_computer_frame [simp]:
  "core (set_computer i u c) = core c" "questions (set_computer i u c) = questions c"
  "modest (configure i b u)"
  by (simp_all add: set_computer_def configure_def)

lemmas computer_handler_defs = computer_use_available_def toggle_computer_use_def
  select_computer_use_window_def authorize_computer_input_def refresh_computer_windows_def
  computer_windows_loaded_def launch_computer_app_def computer_app_launch_finished_def
  computer_windows_failed_def capture_computer_window_def computer_capture_ready_def
  computer_use_app_authorized_def allow_app_def refresh_computer_use_policy_def
  computer_use_policy_loaded_def computer_use_policy_failed_def remove_computer_use_allowed_app_def
  computer_use_allowed_app_removed_def computer_use_policy_mutation_failed_def

interpretation computer: client_panel "reduce_computer lower" for lower
proof unfold_locales
  fix c a
  show "quiet (core (fst (reduce_computer lower c a))) = quiet (core c)"
    by (cases a) (simp_all add: computer_handler_defs Let_def split: option.split)
  show "questions (fst (reduce_computer lower c a)) = questions c"
    by (cases a) (simp_all add: computer_handler_defs Let_def split: option.split)
  show "list_all modest (snd (reduce_computer lower c a))"
    by (cases a) (simp_all add: computer_handler_defs Let_def split: option.split)
qed

subsection \<open>Imports\<close>

lemma import_frame [simp]:
  "core (fst (refresh_import_effects c)) = core c"
  "questions (fst (refresh_import_effects c)) = questions c"
  "list_all plain (snd (refresh_import_effects c))"
  "core (fst (imports_over c)) = core c"
  "questions (fst (imports_over c)) = questions c"
  "list_all plain (snd (imports_over c))"
  by (simp_all add: refresh_import_effects_def imports_over_def Let_def)

lemmas import_handler_defs = refresh_imports_def import_detection_loaded_def import_detection_failed_def
  import_histories_loaded_def import_histories_failed_def show_more_import_history_def
  toggle_import_provider_def toggle_import_item_def start_import_def external_imports_started_def
  external_import_progress_def external_import_completed_def

lemma imports_plain: "list_all plain (snd (reduce_import c a))"
  by (cases a) (simp_all add: import_handler_defs Let_def split: option.split)

interpretation importing: client_panel reduce_import
proof unfold_locales
  fix c a
  show "quiet (core (fst (reduce_import c a))) = quiet (core c)"
    by (cases a) (simp_all add: import_handler_defs Let_def split: option.split)
  show "questions (fst (reduce_import c a)) = questions c"
    by (cases a) (simp_all add: import_handler_defs Let_def split: option.split)
  show "list_all modest (snd (reduce_import c a))" by (rule list_plain_modest) (rule imports_plain)
qed

subsection \<open>Personalization\<close>

lemma new_chat_preferences_frame [simp]:
  "quiet (core (set_new_chat_preferences p c)) = quiet (core c)"
  "questions (set_new_chat_preferences p c) = questions c"
  by (simp_all add: set_new_chat_preferences_def)

lemmas personalization_handler_defs = refresh_personalization_def personalization_loaded_def
  personalization_failed_def select_personality_def set_memories_enabled_def
  set_tool_assisted_memories_enabled_def reset_memories_def memories_reset_def memory_reset_failed_def
  personalization_mutation_finished_def personalization_mutation_failed_def
  set_chat_use_memories_def set_chat_generate_memories_def thread_preferences_remembered_def
  thread_memory_mode_set_finished_def thread_memory_mode_set_failed_def

lemma personal_plain: "list_all plain (snd (reduce_personalization first_key c a))"
  by (cases a) (simp_all add: personalization_handler_defs Let_def split: option.split)

interpretation personal: client_panel "reduce_personalization first_key" for first_key
proof unfold_locales
  fix c a
  show "quiet (core (fst (reduce_personalization first_key c a))) = quiet (core c)"
    by (cases a) (simp_all add: personalization_handler_defs Let_def split: option.split)
  show "questions (fst (reduce_personalization first_key c a)) = questions c"
    by (cases a) (simp_all add: personalization_handler_defs Let_def split: option.split)
  show "list_all modest (snd (reduce_personalization first_key c a))" by (rule list_plain_modest) (rule personal_plain)
qed

end
