(* ===== verification/Panel_Invariant.thy ===== *)
theory Panel_Invariant
  imports Client_Panels
begin

text \<open>
  The invariant of the components beside the tasks: input into a window is authorised only where
  computer use is on and a window is selected, the applications that are always allowed are a
  bounded sorted list, and a chat has its memory preferences once.
\<close>

subsection \<open>Well-formed panels\<close>

definition computer_ok :: "computer_use_state \<Rightarrow> bool" where
  "computer_ok u \<longleftrightarrow>
     (cu_input_authorized u \<longrightarrow> cu_selected_window_id u \<noteq> None)
     \<and> (cu_selected_window_id u \<noteq> None \<longrightarrow> cu_available u \<and> cu_enabled u)
     \<and> (cu_selected_window_id u = None \<longleftrightarrow> cu_selected_application_id u = None)
     \<and> length (cu_windows u) \<le> MAX_COMPUTER_WINDOWS
     \<and> length (cu_applications u) \<le> MAX_COMPUTER_APPLICATIONS"

definition allowed_ok :: "str list \<Rightarrow> bool" where
  "allowed_ok ids \<longleftrightarrow> length ids \<le> MAX_COMPUTER_ALLOWED_APPS \<and> distinct ids \<and> [] \<notin> set ids"

definition panels ::
  "client_state \<Rightarrow> (str \<rightharpoonup> computer_use_state) \<times> str list \<times> (str \<times> chat_memory_preferences) list" where
  "panels c = (computer_use c, us_always_allowed_app_ids (computer_use_settings c),
     cm_thread_preferences (chat_memory c))"

definition panels_inv :: "client_state \<Rightarrow> bool" where
  "panels_inv c \<longleftrightarrow>
     (\<forall>i u. computer_use c i = Some u \<longrightarrow> computer_ok u)
     \<and> allowed_ok (us_always_allowed_app_ids (computer_use_settings c))
     \<and> distinct (map fst (cm_thread_preferences (chat_memory c)))"

lemma panels_inv_same: "panels c' = panels c \<Longrightarrow> panels_inv c' = panels_inv c"
  by (simp add: panels_def panels_inv_def)

lemma panels_update [simp]:
  "panels (c\<lparr>pull_requests := x1\<rparr>) = panels c"
  "panels (c\<lparr>import_migration := x2\<rparr>) = panels c"
  "panels (c\<lparr>personalization := x3\<rparr>) = panels c"
  "panels (update_core f c) = panels c" "panels (with_core s c) = panels c"
  "panels (set_client_message m c) = panels c"
  by (simp_all add: panels_def update_core_def with_core_def set_client_message_def)

lemma panels_memory:
  "cm_thread_preferences m = cm_thread_preferences (chat_memory c) \<Longrightarrow> panels (c\<lparr>chat_memory := m\<rparr>) = panels c"
  by (simp add: panels_def)

lemma panels_policy:
  "us_always_allowed_app_ids p = us_always_allowed_app_ids (computer_use_settings c)
   \<Longrightarrow> panels (c\<lparr>computer_use_settings := p\<rparr>) = panels c"
  by (simp add: panels_def)

subsection \<open>Every panel keeps it\<close>

lemma inbox_panels: "panels (fst (reduce_pull_request c a)) = panels c"
  by (cases a)
    (simp_all add: pull_request_handler_defs begin_pull_request_search_def begin_pull_request_diff_def
      begin_pull_request_mutation_def mutation_error_def Let_def split: option.split)

lemma imports_panels: "panels (fst (reduce_import c a)) = panels c"
proof -
  have refresh: "panels (fst (refresh_import_effects c)) = panels c" "panels (fst (imports_over c)) = panels c" for c
    by (simp_all add: refresh_import_effects_def imports_over_def Let_def)
  show ?thesis by (cases a) (simp_all add: import_handler_defs refresh Let_def split: option.split)
qed

lemma default_computer_ok: "computer_ok default_computer_use"
  by (simp add: default_computer_use_def computer_ok_def)

lemma computer_of_ok: "panels_inv c \<Longrightarrow> computer_ok (computer_of c i)"
  by (cases "computer_use c i")
    (auto simp: panels_inv_def computer_of_def get_or_def default_computer_ok)

lemma set_computer_inv: "panels_inv c \<Longrightarrow> computer_ok u \<Longrightarrow> panels_inv (set_computer i u c)"
  by (simp add: panels_inv_def set_computer_def)

lemma computer_ok_update [simp]:
  "computer_ok (u\<lparr>cu_windows_loading := b\<rparr>) = computer_ok u"
  "computer_ok (u\<lparr>cu_error := e\<rparr>) = computer_ok u"
  "computer_ok (u\<lparr>cu_launching_application_id := a\<rparr>) = computer_ok u"
  "computer_ok (u\<lparr>cu_last_capture_label := l\<rparr>) = computer_ok u"
  by (simp_all add: computer_ok_def)

lemma distinct_remdups_adj_sorted: "sorted (xs :: 'a :: linorder list) \<Longrightarrow> distinct (remdups_adj xs)"
  by (induction xs rule: remdups_adj.induct) (auto simp: antisym)

lemma normalized_allowed_ok: "allowed_ok (normalize_computer_app_ids lower ids)"
proof -
  have "distinct (remdups_adj (sort (filter (\<lambda>i. i \<noteq> []) (map (normalize_computer_app_id lower) ids))))"
    by (rule distinct_remdups_adj_sorted) simp
  then show ?thesis unfolding allowed_ok_def normalize_computer_app_ids_def
    by (auto simp: distinct_take dest: in_set_takeD)
qed

lemma allowed_filter: "allowed_ok ids \<Longrightarrow> allowed_ok (filter p ids)"
  by (simp add: allowed_ok_def length_filter_bound)

lemma computer_panels_inv:
  assumes "panels_inv c"
  shows "panels_inv (fst (reduce_computer lower c a))"
proof -
  note ok = computer_of_ok [OF assms]
  have set: "panels_inv (set_computer i u c)" if "computer_ok u" for i u
    using assms that by (rule set_computer_inv)
  have message: "panels_inv (set_client_message m d) = panels_inv d" for m d
    by (rule panels_inv_same) simp
  have policy: "panels_inv (d\<lparr>computer_use_settings := p\<rparr>)"
    if "panels_inv d" "allowed_ok (us_always_allowed_app_ids p)" for d p
    using that by (simp add: panels_inv_def)
  have allowed: "allowed_ok (us_always_allowed_app_ids (computer_use_settings c))"
    using assms by (simp add: panels_inv_def)
  have unchanged: "computer_ok (computer_of c i)" for i by (rule ok)
  show ?thesis
  proof (cases a)
    case (ComputerUseAvailable i)
    then show ?thesis using ok [of i] by (auto simp: computer_use_available_def computer_ok_def intro!: set)
  next
    case (ToggleComputerUse i b)
    then show ?thesis using ok [of i]
      by (auto simp: toggle_computer_use_def message computer_ok_def Let_def intro!: set)
  next
    case (SelectComputerUseWindow i w t app)
    then show ?thesis using ok [of i]
      by (auto simp: select_computer_use_window_def computer_ok_def Let_def intro!: set)
  next
    case (AuthorizeComputerInputForSession i b)
    then show ?thesis using ok [of i]
      by (auto simp: authorize_computer_input_def computer_ok_def Let_def intro!: set)
  next
    case (ComputerWindowsLoaded i apps ws)
    then show ?thesis using ok [of i]
      by (auto simp: computer_windows_loaded_def computer_ok_def Let_def intro!: set)
  next
    case (ComputerUseAppAuthorized i app b)
    let ?u = "computer_of c i" and ?app = "normalize_computer_app_id lower app"
    have "computer_ok (if cu_selected_application_id ?u = Some ?app then ?u\<lparr>cu_input_authorized := True\<rparr> else ?u)"
      using ok [of i] by (auto simp: computer_ok_def)
    then have "panels_inv (set_computer i
        (if cu_selected_application_id ?u = Some ?app then ?u\<lparr>cu_input_authorized := True\<rparr> else ?u) c)"
      by (rule set)
    then show ?thesis unfolding ComputerUseAppAuthorized reduce_computer.simps
      by (auto simp: computer_use_app_authorized_def allow_app_def Let_def
          intro!: policy normalized_allowed_ok)
  qed (auto simp: computer_handler_defs settle_removal_def message assms Let_def unchanged
      intro!: set policy normalized_allowed_ok allowed_filter allowed split: option.split)
qed

lemma remember_distinct:
  "distinct (map fst (cm_thread_preferences m))
   \<Longrightarrow> distinct (map fst (cm_thread_preferences (remember_thread_preferences first_key i p m)))"
  by (simp add: remember_thread_preferences_def Let_def distinct_update distinct_delete)

lemma personal_panels_inv:
  assumes "panels_inv c"
  shows "panels_inv (fst (reduce_personalization first_key c a))"
proof -
  have memory: "panels_inv (c\<lparr>chat_memory := m\<rparr>)" if "distinct (map fst (cm_thread_preferences m))" for m
    using assms that by (simp add: panels_inv_def)
  have keys: "distinct (map fst (cm_thread_preferences (chat_memory c)))"
    using assms by (simp add: panels_inv_def)
  have same: "panels_inv (c\<lparr>personalization := p\<rparr>)" for p using assms by (simp add: panels_inv_def)
  have message: "panels_inv (set_client_message m d) = panels_inv d"
    "panels_inv (update_core f d) = panels_inv d" for m d f
    by (rule panels_inv_same, simp)+
  show ?thesis
    by (cases a)
      (auto simp: personalization_handler_defs set_new_chat_preferences_def same message assms keys Let_def
        intro!: memory remember_distinct distinct_update split: option.split)
qed

lemma default_panels_inv: "panels_inv default_client"
  by (simp add: panels_inv_def default_client_def allowed_ok_def default_computer_use_settings_def
      default_chat_memory_def)

end
