(* ===== verification/Reviews.thy ===== *)
theory Reviews
  imports Connection
begin

text \<open>
  Code reviews and the end of a task (\<open>Action::StartReview\<close>, \<open>Action::ReviewStarted\<close>,
  \<open>Action::ReviewStartFailed\<close>, \<open>Action::ArchiveTask\<close> and \<open>Action::TaskArchived\<close> in
  \<open>crates/codex-core/src/lib.rs\<close>). A review runs in its task or detached in a new one, whose task
  may arrive later than the review starts or even ends.
\<close>

subsection \<open>Starting a review\<close>

definition MAX_GIT_BRANCH_BYTES :: nat where
  "MAX_GIT_BRANCH_BYTES = 1024"

definition MAX_REVIEW_START_ERROR_BYTES :: nat where
  "MAX_REVIEW_START_ERROR_BYTES = 4 * 1024"

text \<open>The target with its branch trimmed, or nothing when the branch may not be passed to git.\<close>

fun review_target_for :: "review_target \<Rightarrow> review_target option" where
  "review_target_for (BaseBranch branch) =
     (let branch = trim branch
      in if branch = [] \<or> MAX_GIT_BRANCH_BYTES < length branch \<or> hd branch = CHR ''-''
            \<or> list_ex is_control (chars branch)
         then None else Some (BaseBranch branch))"
| "review_target_for UncommittedChanges = Some UncommittedChanges"

definition review_possible :: "client_state \<Rightarrow> bool" where
  "review_possible c \<longleftrightarrow>
     (let s = core c
      in connection s = Online \<and> rv_pending (review_start s) = None
         \<and> rv_unresolved_detached (review_start s) = None \<and> gi_repository_root (git c) \<noteq> None
         \<and> gp_review_mode (git_preferences s) = Full \<and> trim (composer s) = []
         \<and> composer_attachments s = [])"

definition source_idle :: "str \<Rightarrow> app_state \<Rightarrow> bool" where
  "source_idle i s \<longleftrightarrow>
     list_ex (\<lambda>t. ts_id t = i) (tasks s)
     \<and> (case timelines s i of None \<Rightarrow> True | Some t \<Rightarrow> tl_active_turn_id t = None)"

definition start_review :: "review_target \<Rightarrow> review_delivery \<Rightarrow> client_state \<Rightarrow> client_result" where
  "start_review target delivery c =
     (if \<not> review_possible c then (c, [])
      else (case selected_task_id (core c) of
              None \<Rightarrow> (c, [])
            | Some i \<Rightarrow>
                if \<not> source_idle i (core c) then (c, [])
                else (case review_target_for target of
                        None \<Rightarrow> (c, [])
                      | Some target \<Rightarrow>
                          let g = sat_succ (rv_generation (review_start (core c)))
                          in (update_core (\<lambda>s. s\<lparr>review_start := (review_start s)
                                \<lparr>rv_generation := g,
                                 rv_pending := Some \<lparr>pv_generation = g, pv_source_task_id = i,
                                   pv_target = target, pv_delivery = delivery\<rparr>,
                                 rv_terminal_events := [], rv_error := None\<rparr>\<rparr>) c,
                              [StartReview g i target delivery]))))"

subsection \<open>The replies\<close>

text \<open>The pending review that a reply answers.\<close>

definition review_answered :: "u64 \<Rightarrow> str \<Rightarrow> app_state \<Rightarrow> pending_review_start option" where
  "review_answered generation source s =
     (case rv_pending (review_start s) of
        None \<Rightarrow> None
      | Some p \<Rightarrow> if pv_generation p = generation \<and> pv_source_task_id p = source then Some p else None)"

definition delivery_valid :: "review_delivery \<Rightarrow> str \<Rightarrow> str \<Rightarrow> bool" where
  "delivery_valid delivery source thread \<longleftrightarrow>
     (case delivery of Inline \<Rightarrow> thread = source | Detached \<Rightarrow> thread \<noteq> source)"

definition review_error :: "str \<Rightarrow> str \<Rightarrow> app_state \<Rightarrow> app_state" where
  "review_error source message s =
     s\<lparr>review_start := (review_start s)\<lparr>rv_error := Some \<lparr>rx_source_task_id = source, rx_message = message\<rparr>\<rparr>\<rparr>"

definition review_turn :: "str \<Rightarrow> str \<Rightarrow> app_state \<Rightarrow> step_result" where
  "review_turn thread turn_id s =
     (let (s1, es) = turn_started thread turn_id s
      in (set_timeline thread ((timeline_of s1 thread)\<lparr>tl_active_review_turn_id := Some turn_id\<rparr>) s1, es))"

definition unresolved_review :: "str \<Rightarrow> str \<Rightarrow> str \<Rightarrow> bool \<Rightarrow> app_state \<Rightarrow> app_state" where
  "unresolved_review source thread turn_id over s =
     (if over
      then s\<lparr>review_start := (review_start s)\<lparr>rv_unresolved_detached := None, rv_error := None\<rparr>\<rparr>
      else review_error source ''Review is running in a new chat. Waiting for it to load.''
             (s\<lparr>review_start := (review_start s)\<lparr>rv_unresolved_detached :=
                  Some \<lparr>ud_source_task_id = source, ud_review_thread_id = thread, ud_turn_id = turn_id\<rparr>\<rparr>\<rparr>))"

definition list_review_task :: "task_summary option \<Rightarrow> app_state \<Rightarrow> app_state" where
  "list_review_task task s =
     (let s1 = s\<lparr>review_start := (review_start s)\<lparr>rv_unresolved_detached := None\<rparr>\<rparr>;
          s2 = (case task of
                  None \<Rightarrow> s1
                | Some t \<Rightarrow> s1\<lparr>tasks := take MAX_VISIBLE_THREADS
                              (t # filter (\<lambda>e. ts_id e \<noteq> ts_id t) (tasks s1))\<rparr>)
      in s2\<lparr>review_start := (review_start s2)\<lparr>rv_error := None\<rparr>\<rparr>)"

definition review_started ::
  "u64 \<Rightarrow> str \<Rightarrow> str \<Rightarrow> str \<Rightarrow> bool \<Rightarrow> task_summary option \<Rightarrow> client_state \<Rightarrow> client_result" where
  "review_started generation source thread turn_id turn_active review_task c =
     (case review_answered generation source (core c) of
        None \<Rightarrow> (c, [])
      | Some p \<Rightarrow>
          let s = (core c)\<lparr>review_start := (review_start (core c))\<lparr>rv_pending := None\<rparr>\<rparr>
          in if \<not> delivery_valid (pv_delivery p) source thread
             then (with_core (review_error source ''Couldn't start review.''
                     (s\<lparr>review_start := (review_start s)\<lparr>rv_terminal_events := []\<rparr>\<rparr>)) c, [])
             else let (s1, terminal) = consume_pending_review_terminal thread turn_id s;
                      over = (terminal \<or> \<not> turn_active);
                      (s2, es) = (if over then (s1, []) else review_turn thread turn_id s1);
                      task = (case review_task of
                                None \<Rightarrow> None
                              | Some t \<Rightarrow> if ts_id t = thread then Some t else None)
                  in if pv_delivery p = Detached \<and> task = None
                     then let (s3, es3) = refresh_tasks (unresolved_review source thread turn_id over s2)
                          in (with_core s3 c, map Core (es @ es3))
                     else let c1 = with_core (list_review_task task s2) c
                          in if pv_delivery p = Detached \<and> selected_task_id (core c1) = Some source
                             then let (c2, es2) = select_task thread c1 in (c2, map Core es @ es2)
                             else (c1, map Core es))"

definition review_start_failed :: "u64 \<Rightarrow> str \<Rightarrow> str \<Rightarrow> app_state \<Rightarrow> step_result" where
  "review_start_failed generation source message s =
     (case review_answered generation source s of
        None \<Rightarrow> (s, [])
      | Some p \<Rightarrow>
          let message = bounded_string (trim message) MAX_REVIEW_START_ERROR_BYTES
          in (review_error source (if message = [] then ''Couldn't start review.'' else message)
                (s\<lparr>review_start := (review_start s)\<lparr>rv_pending := None, rv_terminal_events := []\<rparr>\<rparr>), []))"

subsection \<open>Archiving a task\<close>

definition archive_task :: "str \<Rightarrow> client_state \<Rightarrow> client_result" where
  "archive_task i c = (c, if list_ex (\<lambda>t. ts_id t = i) (tasks (core c)) then [ArchiveTask i] else [])"

definition forget_task :: "str \<Rightarrow> app_state \<Rightarrow> app_state" where
  "forget_task i s =
     (let archived = find (\<lambda>t. ts_id t = i) (tasks s);
          s1 = s\<lparr>background_completion_task_ids := filter (\<lambda>j. j \<noteq> i) (background_completion_task_ids s),
                 pinned_task_ids := filter (\<lambda>j. j \<noteq> i) (pinned_task_ids s),
                 tasks := (case position (\<lambda>t. ts_id t = i) (tasks s) of
                             None \<Rightarrow> tasks s | Some n \<Rightarrow> remove_at n (tasks s)),
                 task_search := (task_search s)
                   \<lparr>se_results := filter (\<lambda>r. ts_id (sr_task r) \<noteq> i) (se_results (task_search s))\<rparr>\<rparr>;
          s2 = (case archived of
                  None \<Rightarrow> s1
                | Some t \<Rightarrow>
                    if ar_status (archived_tasks s1) = load_status.Ready
                    then s1\<lparr>archived_tasks := (archived_tasks s1)
                           \<lparr>ar_tasks := take MAX_VISIBLE_THREADS
                              (t # filter (\<lambda>e. ts_id e \<noteq> ts_id t) (ar_tasks (archived_tasks s1)))\<rparr>\<rparr>
                    else s1)
      in s2\<lparr>timelines := (timelines s2)(i := None), goals := (goals s2)(i := None),
            process_manager := (if pg_task_id (process_manager s2) = Some i then default_process_manager
                                else process_manager s2),
            approvals := filter (\<lambda>a. ap_task_id a \<noteq> i) (approvals s2)\<rparr>)"

definition task_archived :: "str \<Rightarrow> client_state \<Rightarrow> client_result" where
  "task_archived i c =
     (let pinned_before = length (pinned_task_ids (core c));
          c1 = (update_core (forget_task i) c)
                 \<lparr>computer_use := (computer_use c)(i := None), browser := (browser c)(i := None)\<rparr>;
          c2 = (if selected_task_id (core c1) = Some i
                then (update_core (\<lambda>s. clear_active_composer_draft
                        ((clear_pending_task_fork_status (advance_task_selection_generation s))
                           \<lparr>selected_task_id := None\<rparr>)) (clear_mcp_auth_for_context_change (Some i) c1))
                       \<lparr>artifacts := default_artifacts\<rparr>
                else c1);
          c3 = set_client_message ''Chat archived'' c2
      in (c3, if length (pinned_task_ids (core c3)) \<noteq> pinned_before
              then [Core (PersistPinnedTasks (pinned_task_ids (core c3)))] else []))"

subsection \<open>Dispatch\<close>

datatype (plugins only: code size) review_action =
    StartReview review_target review_delivery
  | ReviewStarted u64 str str str bool "task_summary option"
  | ReviewStartFailed u64 str str
  | ArchiveTask str
  | TaskArchived str

fun reduce_review :: "client_state \<Rightarrow> review_action \<Rightarrow> client_result" where
  "reduce_review c (review_action.StartReview t d) = start_review t d c"
| "reduce_review c (ReviewStarted g src th u a t) = review_started g src th u a t c"
| "reduce_review c (ReviewStartFailed g src m) = on_core (review_start_failed g src m) c"
| "reduce_review c (review_action.ArchiveTask i) = archive_task i c"
| "reduce_review c (TaskArchived i) = task_archived i c"

end
