(* ===== verification/Submission_Properties.thy ===== *)
theory Submission_Properties
  imports Composer_Submit Settings_Properties Client_Defaults
begin

text \<open>
  What submitting the composer promises: the draft is sent once and whole or stays in the composer,
  a submission that fails gives it back, and nothing that is sent asks for permissions that the
  administrator has not allowed.
\<close>

subsection \<open>The draft is sent or kept\<close>

text \<open>
  What each effect must carry: the task and the draft generation of the submission, the trimmed
  text and all attachments.
\<close>

fun carries :: "client_state \<Rightarrow> client_effect \<Rightarrow> bool" where
  "carries c (StartTurn i g r) \<longleftrightarrow>
     selected_task_id (core c) = Some i \<and> g = composer_draft_generation (core c)
     \<and> tq_attachments r = composer_attachments (core c)
     \<and> (if cc_goal_mode (composer_controls (core c))
        then tq_text r = ''/goal '' @ trim (composer (core c)) \<and> tq_goal_objective r = Some (trim (composer (core c)))
        else tq_text r = trim (composer (core c)) \<and> tq_goal_objective r = None)"
| "carries c (SteerTurn i g turn text attachments) \<longleftrightarrow>
     selected_task_id (core c) = Some i \<and> g = composer_draft_generation (core c)
     \<and> Option.bind (timelines (core c) i) tl_active_turn_id = Some turn
     \<and> text = trim (composer (core c)) \<and> attachments = composer_attachments (core c)"
| "carries c (CreateTask cwd g r memories n) \<longleftrightarrow>
     selected_task_id (core c) = None \<and> cwd = new_chat_cwd c \<and> g = composer_draft_generation (core c)
     \<and> n = new_chat_draft_generation (core c) \<and> tq_attachments r = composer_attachments (core c)
     \<and> (if cc_goal_mode (composer_controls (core c))
        then tq_text r = ''/goal '' @ trim (composer (core c)) \<and> tq_goal_objective r = Some (trim (composer (core c)))
        else tq_text r = trim (composer (core c)) \<and> tq_goal_objective r = None)"
| "carries c (Core (effect.SetGoal i objective status budget)) \<longleftrightarrow>
     selected_task_id (core c) = Some i \<and> composer_attachments (core c) = []
     \<and> objective = Some (trim (composer (core c))) \<and> status = Some Active \<and> budget = None"
| "carries c (CompactThread i) \<longleftrightarrow>
     selected_task_id (core c) = Some i \<and> trim (composer (core c)) = ''/compact''
     \<and> composer_attachments (core c) = []"
| "carries c (RunThreadShellCommand i g command) \<longleftrightarrow>
     selected_task_id (core c) = Some i \<and> g = composer_draft_generation (core c)
     \<and> map_option trim (shell_command (trim (composer (core c)))) = Some command \<and> command \<noteq> []
     \<and> composer_attachments (core c) = []"
| "carries c _ \<longleftrightarrow> False"

definition draft_of :: "app_state \<Rightarrow> str \<times> composer_attachment list" where
  "draft_of s = (composer s, composer_attachments s)"

text \<open>One outcome: nothing is sent and the draft stays, or one effect carries it and it is gone.\<close>

definition sent_or_kept :: "client_state \<Rightarrow> client_result \<Rightarrow> bool" where
  "sent_or_kept c r \<longleftrightarrow>
     (case snd r of
        [] \<Rightarrow> draft_of (core (fst r)) = draft_of (core c)
      | [e] \<Rightarrow> carries c e \<and> draft_of (core (fst r)) = ([], [])
      | _ \<Rightarrow> False)"

lemma draft_simps [simp]:
  "draft_of (compose_error m s) = draft_of s"
  "draft_of (take_draft s) = ([], [])"
  "draft_of (leave_goal_mode s) = draft_of s"
  "draft_of (set_timeline i t s) = draft_of s"
  "draft_of (goal_pending i s) = draft_of s"
  by (simp_all add: draft_of_def compose_error_def take_draft_def leave_goal_mode_def
      goal_pending_def Let_def)

lemma generations_kept [simp]:
  "composer_draft_generation (leave_goal_mode (take_draft s)) = composer_draft_generation s"
  "new_chat_draft_generation (leave_goal_mode (take_draft s)) = new_chat_draft_generation s"
  "composer_draft_generation (take_draft s) = composer_draft_generation s"
  "new_chat_draft_generation (take_draft s) = new_chat_draft_generation s"
  by (simp_all add: take_draft_def leave_goal_mode_def)

lemma request_fields [simp]:
  "tq_text (turn_request_of t text a p g) = text" "tq_attachments (turn_request_of t text a p g) = a"
  "tq_goal_objective (turn_request_of t text a p g) = g" "tq_plan_mode (turn_request_of t text a p g) = p"
  by (simp_all add: turn_request_of_def)

lemma sent_or_kept_on_client:
  "sent_or_kept c (on_client f c) \<longleftrightarrow>
     (case snd (f (core c)) of
        [] \<Rightarrow> draft_of (fst (f (core c))) = draft_of (core c)
      | [e] \<Rightarrow> carries c e \<and> draft_of (fst (f (core c))) = ([], [])
      | _ \<Rightarrow> False)"
  by (simp add: sent_or_kept_def on_client_def case_prod_beta split: list.split)

lemma compact_sent:
  "trim (composer (core c)) = ''/compact'' \<Longrightarrow> sent_or_kept c (on_client submit_compact c)"
  unfolding sent_or_kept_on_client
  by (simp add: submit_compact_def Let_def draft_of_def compose_error_def split: option.split)

lemma shell_sent:
  "shell_command (trim (composer (core c))) = Some command \<Longrightarrow>
   sent_or_kept c (on_client (submit_shell command) c)"
  unfolding sent_or_kept_on_client
  by (simp add: submit_shell_def Let_def draft_of_def compose_error_def split: option.split)

lemma goal_sent:
  "cc_goal_mode (composer_controls (core c)) \<Longrightarrow>
   sent_or_kept c (on_client (submit_goal m (new_chat_cwd c) (trim (composer (core c)))) c)"
  unfolding sent_or_kept_on_client
  by (simp add: submit_goal_def Let_def split: option.split)

lemma message_sent:
  "\<not> cc_goal_mode (composer_controls (core c)) \<Longrightarrow>
   sent_or_kept c (on_client (submit_message m (new_chat_cwd c) (trim (composer (core c)))) c)"
  unfolding sent_or_kept_on_client
  by (simp add: submit_message_def Let_def split: option.split)

lemma submission_outcome:
  assumes "trim (composer (core c)) \<notin> {''/new'', ''/fork''}"
  shows "sent_or_kept c (submit_composer c)"
proof -
  consider (compact) "trim (composer (core c)) = ''/compact''"
    | (shell) command where "trim (composer (core c)) \<noteq> ''/compact''"
        "shell_command (trim (composer (core c))) = Some command"
    | (rest) "trim (composer (core c)) \<noteq> ''/compact''" "shell_command (trim (composer (core c))) = None"
    by (cases "shell_command (trim (composer (core c)))") auto
  then show ?thesis
  proof cases
    case compact
    then show ?thesis using compact_sent by (simp add: submit_composer_def Let_def)
  next
    case shell
    then show ?thesis using assms shell_sent by (simp add: submit_composer_def Let_def)
  next
    case rest
    then show ?thesis using assms goal_sent message_sent by (simp add: submit_composer_def Let_def)
  qed
qed


definition demo_client :: client_state where
  "demo_client = update_core (\<lambda>s. s\<lparr>selected_task_id := Some ''t'', composer := '' hi '',
     composer_attachments := [\<lparr>ca_path = ''/a.png'', ca_name = ''a.png'', ca_kind = LocalImage\<rparr>],
     timelines := [''t'' \<mapsto> default_timeline\<lparr>tl_runtime_status_loaded := True\<rparr>]\<rparr>) default_client"

lemma demo_trim: "trim '' hi '' = ''hi''"
proof -
  have c: "chars '' hi '' = map (\<lambda>c. [c]) '' hi ''" by (rule ascii_chars) simp
  show ?thesis unfolding trim_def c by (simp add: trim_chars_def is_whitespace_def)
qed

lemma demo_draft:
  "composer (core demo_client) = '' hi ''"
  "composer_attachments (core demo_client) = [\<lparr>ca_path = ''/a.png'', ca_name = ''a.png'', ca_kind = LocalImage\<rparr>]"
  "\<not> cc_goal_mode (composer_controls (core demo_client))"
  "selected_task_id (core demo_client) = Some ''t''"
  by (simp_all add: demo_client_def default_state_defs)

lemma demo_submission:
  "snd (submit_composer demo_client) =
     [StartTurn ''t'' 0 (turn_request_of (composer_controls (core demo_client)) ''hi''
        (composer_attachments (core demo_client)) False None)]"
proof -
  have t: "trim (composer (core demo_client)) = ''hi''" by (simp add: demo_draft demo_trim)
  have "shell_command ''hi'' = None" by (simp add: shell_command_def strip_prefix_def)
  then show ?thesis
    unfolding submit_composer_def Let_def t
    by (simp add: demo_client_def submit_message_def default_state_defs selected_thread_runtime_ready_def
        review_blocks_def take_draft_def on_client_def Let_def)
qed


subsection \<open>A failed submission\<close>

text \<open>The reply of the back end when sending a message has failed: it carries the prompt back.\<close>

fun submission_failure :: "str \<Rightarrow> client_effect \<Rightarrow> composer_action option" where
  "submission_failure m (StartTurn i g r) =
     Some (ComposerSubmissionFailed (Some i) None (Some g)
       \<lparr>rm_text = tq_text r, rm_attachments = tq_attachments r\<rparr> m)"
| "submission_failure m (SteerTurn i g turn text attachments) =
     Some (ComposerSubmissionFailed (Some i) None (Some g) \<lparr>rm_text = text, rm_attachments = attachments\<rparr> m)"
| "submission_failure m (CreateTask cwd g r memories n) =
     Some (ComposerSubmissionFailed None (Some n) None
       \<lparr>rm_text = tq_text r, rm_attachments = tq_attachments r\<rparr> m)"
| "submission_failure m _ = None"

text \<open>The composer still shows the draft the message was sent from: same task, no change since.\<close>

definition same_draft :: "app_state \<Rightarrow> app_state \<Rightarrow> bool" where
  "same_draft s s' \<longleftrightarrow>
     selected_task_id s' = selected_task_id s
     \<and> (if selected_task_id s = None then new_chat_draft_generation s' = new_chat_draft_generation s
        else composer_draft_generation s' = composer_draft_generation s)"

definition labels_ok :: "app_state \<Rightarrow> bool" where
  "labels_ok s \<longleftrightarrow> list_all (\<lambda>a. length (ca_name a) \<le> MAX_ATTACHMENT_LABEL_BYTES) (composer_attachments s)"

lemma normalize_sent:
  assumes "composer_ok s" and "labels_ok s"
  shows "normalize_retryable_user_message \<lparr>rm_text = trim (composer s), rm_attachments = composer_attachments s\<rparr>
    = \<lparr>rm_text = trim (composer s), rm_attachments = composer_attachments s\<rparr>"
proof -
  have "length (trim (composer s)) \<le> MAX_COMPOSER_BYTES"
    using assms(1) length_trim [of "composer s"] by (simp add: composer_ok_def)
  moreover have "map (\<lambda>a. a\<lparr>ca_name := bounded_string (ca_name a) MAX_ATTACHMENT_LABEL_BYTES\<rparr>) (composer_attachments s)
      = composer_attachments s"
    using assms(2) by (intro map_idI) (simp add: labels_ok_def list_all_iff bounded_string_id)
  ultimately show ?thesis
    using assms(1) by (simp add: normalize_retryable_user_message_def composer_ok_def bounded_string_id)
qed

lemma restore_empty:
  "draft_of s = ([], []) \<Longrightarrow> draft_of (restore_retry_prompt p s) = (rm_text p, rm_attachments p)"
  by (simp add: draft_of_def restore_retry_prompt_def Let_def)

lemma new_chat_effects: "4 \<le> length (snd (prepare_new_chat cwd c))"
  by (simp add: prepare_new_chat_def reload_skills_def case_prod_beta Let_def)

lemma message_not_command:
  assumes "snd (submit_composer c) = [e]" and "submission_failure m e = Some a"
  shows "trim (composer (core c)) \<notin> {''/new'', ''/fork''}"
proof -
  have "trim (composer (core c)) \<noteq> ''/new''"
  proof
    assume "trim (composer (core c)) = ''/new''"
    then have "submit_composer c = (update_core (compose_error ''New chat requires an empty composer.'') c, [])
        \<or> submit_composer c = begin_new_chat c" by (simp add: submit_composer_def Let_def)
    moreover have "snd (begin_new_chat c) \<noteq> [e]"
      using new_chat_effects [of _ c] unfolding begin_new_chat_def by (metis length_Cons list.size(3) numeral_le_one_iff
          One_nat_def semiring_norm(69))
    ultimately show False using assms(1) by auto
  qed
  moreover have "trim (composer (core c)) \<noteq> ''/fork''"
    using assms by (auto simp: submit_composer_def Let_def on_core_def case_prod_beta)
  ultimately show ?thesis by blast
qed

lemma sent_prompt:
  assumes "carries c e" and "submission_failure m e = Some a" and "\<not> cc_goal_mode (composer_controls (core c))"
  shows "\<exists>t n g. a = ComposerSubmissionFailed t n g
      \<lparr>rm_text = trim (composer (core c)), rm_attachments = composer_attachments (core c)\<rparr> m
    \<and> t = selected_task_id (core c)
    \<and> (if t = None then n = Some (new_chat_draft_generation (core c))
       else g = Some (composer_draft_generation (core c)))"
  using assms by (cases e) auto

lemma failure_in_same_draft:
  assumes "t = selected_task_id s0"
    and "if t = None then n = Some (new_chat_draft_generation s0) else g = Some (composer_draft_generation s0)"
  shows "draft_of (fst (composer_submission_failed t n g p m s)) =
    (if same_draft s0 s then draft_of (restore_retry_prompt (normalize_retryable_user_message p)
       (s\<lparr>status_message := Some (bounded_string m (16 * 1024))\<rparr>)) else draft_of s)"
  using assms by (auto simp: composer_submission_failed_def same_draft_def Let_def draft_of_def)

text \<open>
  C5: a message whose sending fails comes back to the composer, text and attachments, when the same
  task is selected and the draft has not been changed since; after another selection or a change
  the draft is left as the user has made it.
\<close>

theorem failed_submission_returns_draft:
  assumes "snd (submit_composer c) = [e]" and "submission_failure m e = Some a"
    and "\<not> cc_goal_mode (composer_controls (core c))" and "composer_ok (core c)" and "labels_ok (core c)"
  shows "(same_draft (core c) s \<and> draft_of s = ([], [])
      \<longrightarrow> draft_of (fst (reduce_composer s a)) = (trim (composer (core c)), composer_attachments (core c)))
    \<and> (\<not> same_draft (core c) s \<longrightarrow> draft_of (fst (reduce_composer s a)) = draft_of s)"
proof -
  let ?p = "\<lparr>rm_text = trim (composer (core c)), rm_attachments = composer_attachments (core c)\<rparr>"
  have "carries c e"
    using submission_outcome [OF message_not_command [OF assms(1,2)]] assms(1) by (simp add: sent_or_kept_def)
  from sent_prompt [OF this assms(2,3)] obtain t n g where a: "a = ComposerSubmissionFailed t n g ?p m"
    and owner: "t = selected_task_id (core c)"
      "if t = None then n = Some (new_chat_draft_generation (core c)) else g = Some (composer_draft_generation (core c))"
    by blast
  have draft: "draft_of (s\<lparr>status_message := x\<rparr>) = draft_of s" for x by (simp add: draft_of_def)
  show ?thesis
    using failure_in_same_draft [OF owner, of ?p m s] normalize_sent [OF assms(4,5)]
    by (simp add: a restore_empty draft)
qed

lemma failed_submission_returns_draft_witness:
  "draft_of (fst (reduce_composer (core (fst (submit_composer demo_client)))
      (ComposerSubmissionFailed (Some ''t'') None (Some 0)
        \<lparr>rm_text = ''hi'', rm_attachments = composer_attachments (core demo_client)\<rparr> ''offline'')))
   = (''hi'', composer_attachments (core demo_client))"
proof -
  let ?s = "core (fst (submit_composer demo_client))"
  have t: "trim (composer (core demo_client)) = ''hi''" by (simp add: demo_draft demo_trim)
  have shell: "shell_command ''hi'' = None" by (simp add: shell_command_def strip_prefix_def)
  have "?s = take_draft (core demo_client)"
    unfolding submit_composer_def Let_def t
    by (simp add: shell) (simp add: demo_client_def submit_message_def default_state_defs
      selected_thread_runtime_ready_def review_blocks_def on_client_def Let_def)
  then have "same_draft (core demo_client) ?s \<and> draft_of ?s = ([], [])" by (simp add: same_draft_def draft_of_def take_draft_def)
  moreover have "composer_ok (core demo_client)" "labels_ok (core demo_client)"
    by (simp_all add: composer_ok_def labels_ok_def demo_draft MAX_COMPOSER_BYTES_def
        MAX_COMPOSER_ATTACHMENTS_def MAX_ATTACHMENT_LABEL_BYTES_def)
  ultimately show ?thesis
    using failed_submission_returns_draft [OF demo_submission, of "''offline''" _ ?s] demo_draft t by simp
qed

subsection \<open>What the composer does not check\<close>

text \<open>
  An effort that the model of applied settings does not support stays selected: \<open>apply_composer_settings\<close>
  changes the effort only to a supported one, and leaves the old one beside a new model.
\<close>

lemma applied_model_keeps_unsupported_effort:
  assumes "model_named m (cc_models t) = Some (o'\<lparr>mo_supported_efforts := []\<rparr>)" and "cs_effort st = None"
    and "cs_model st = Some m" and "cs_permissions st = None"
  shows "cc_selected_model (apply_settings st t) = Some m
    \<and> cc_selected_effort (apply_settings st t) = cc_selected_effort t"
  using assms by (simp add: apply_settings_def apply_model_def apply_effort_def apply_tier_def apply_permissions_def)

text \<open>
  The standard tier, chosen as no tier, is kept when a model is selected but replaced by the default
  tier of the model when the models are loaded.
\<close>

lemma loading_models_replaces_standard_tier:
  assumes "cc_selected_model t = Some (mo_id m)" and "cc_selected_service_tier t = None"
    and "mo_default_service_tier m = Some d" and "offers_tier m d"
  shows "cc_selected_service_tier (load_models [m] t) = Some d"
  using assms by (simp add: load_models_def model_named_def model_tier_def Let_def)

text \<open>A failed edit is sent again with an empty text, which a first edit refuses.\<close>

lemma empty_retry_of_edit_sent:
  assumes "tl_message_edit t = Some e" and "me_turn_id e = u" and "\<not> me_in_flight e"
  shows "prepare_edit u [] t = Inr (e\<lparr>me_draft := [], me_in_flight := True, me_error := None\<rparr>, \<not> me_rollback_applied e)"
  using assms by (simp add: prepare_edit_def)

end
