(* ===== verification/Client_Frames.thy ===== *)
theory Client_Frames
  imports Client_Panels Panel_Invariant Reviews Submission_Properties
begin

text \<open>
  What the handlers of the client leave alone: the choices of the composer, the questions that wait,
  the notices that were seen and the state of the panels. Reviews and the archiving of a task keep the
  invariants of all components.
\<close>

subsection \<open>The choices of the composer\<close>

text \<open>What the models and permission modes on offer and chosen are; toggling a mode keeps them.\<close>

definition choices ::
  "composer_controls_state \<Rightarrow> model_option list \<times> permission_mode_option list \<times> str option \<times> str option" where
  "choices t = (cc_models t, cc_permission_modes t, cc_selected_model t, cc_selected_permission_mode t)"

lemma choices_ok: "choices t = choices u \<Longrightarrow> controls_ok t = controls_ok u"
  by (simp add: choices_def controls_ok_def)

lemma choices_update [simp]:
  "choices (t\<lparr>cc_plan_mode := b\<rparr>) = choices t"
  "choices (t\<lparr>cc_goal_mode := b\<rparr>) = choices t"
  "choices (t\<lparr>cc_models_status := st\<rparr>) = choices t"
  "choices (t\<lparr>cc_permission_profiles_status := st\<rparr>) = choices t"
  by (simp_all add: choices_def)

lemma frame_choices:
  "e s' = e s \<Longrightarrow> (\<And>s. composer_controls (e s) = composer_controls s) \<Longrightarrow>
   choices (composer_controls s') = choices (composer_controls s)"
  by metis

lemma remote_choices: "choices (composer_controls (fst (reduce_remote s a))) = choices (composer_controls s)"
proof -
  have refresh: "composer_controls (fst (begin_remote_status_refresh s)) = composer_controls s"
    "composer_controls (fst (finish_remote_status_refresh_if_pending s)) = composer_controls s" for s
    by (simp_all add: begin_remote_status_refresh_def finish_remote_status_refresh_if_pending_def Let_def)
  show ?thesis
    by (cases a)
      (simp_all add: remote_handler_defs set_remote_enabled_def refresh Let_def case_prod_beta
        split: option.split remote_control_busy.split)
qed

lemma composer_choices: "choices (composer_controls (fst (reduce_composer s a))) = choices (composer_controls s)"
  by (cases a)
    (simp_all add: composer_submission_failed_def composer_changed_def add_composer_attachments_def
      remove_composer_attachment_def toggle_plan_mode_def toggle_goal_mode_def restore_retry_prompt_def
      advance_composer_draft_generation_def advance_new_chat_draft_generation_def Let_def case_prod_beta)

lemma turn_helper_controls:
  "composer_controls (clear_unresolved_detached_review_terminal t u s) = composer_controls s"
  "composer_controls (record_pending_review_terminal t u s) = composer_controls s"
  "composer_controls (set_task_status t st s) = composer_controls s"
  "composer_controls (restore_retry_prompt p s) = composer_controls s"
  "composer_controls (fst (schedule_goal_continuation t s)) = composer_controls s"
  by (simp_all add: clear_unresolved_detached_review_terminal_def record_pending_review_terminal_def
      set_task_status_def restore_retry_prompt_def schedule_goal_continuation_def Let_def
      split: option.split)

lemma turn_choices: "choices (composer_controls (fst (reduce_turn s a))) = choices (composer_controls s)"
  by (cases a) (simp_all add: turn_handler_defs turn_helper_controls Let_def case_prod_beta split: option.split)

lemma goal_choices: "choices (composer_controls (fst (reduce_goal s a))) = choices (composer_controls s)"
  by (cases a) (simp_all add: goal_handler_defs turn_helper_controls Let_def case_prod_beta split: option.split)

lemma app_choices:
  assumes "reduce_app s a = Some (s', es)"
  shows "choices (composer_controls s') = choices (composer_controls s)"
proof -
  note frame = frame_choices [where s = s and s' = s']
  show ?thesis
  proof (cases a)
    case (On_Timeline b)
    with assms have "s' = fst (timeline_step s b)" by (simp add: timeline_step_def)
    then show ?thesis using frame [where e = "\<lambda>s. s\<lparr>timelines := Map.empty\<rparr>"] timeline_frame by simp
  next
    case (On_Fork b)
    with assms have "s' = fst (reduce_fork s b)" by simp
    then show ?thesis using frame [where e = without_forks] fork_frame by simp
  next
    case (On_Request b)
    with assms have "s' = fst (reduce_request s b)" by simp
    then show ?thesis using frame [where e = without_requests] request_frame by simp
  next
    case (On_Terminal b)
    with assms have "s' = fst (reduce_terminal s b)" by simp
    then show ?thesis using frame [where e = without_terminal] terminal_frame by simp
  next
    case (On_Task_List b)
    with assms have "s' = fst (reduce_task_list s b)" by simp
    then show ?thesis using frame [where e = without_task_lists] task_list_frame by simp
  next
    case (On_Process b)
    with assms have "s' = fst (reduce_process s b)" by simp
    then show ?thesis using frame [where e = without_processes] process_frame by simp
  next
    case (On_Account b)
    with assms have "s' = fst (reduce_account s b)" by simp
    then show ?thesis using frame [where e = without_account] account_frame by simp
  next
    case (On_Remote b)
    with assms have "s' = fst (reduce_remote s b)" by simp
    then show ?thesis by (simp add: remote_choices)
  next
    case (On_Turn b)
    with assms have "s' = fst (reduce_turn s b)" by simp
    then show ?thesis by (simp add: turn_choices)
  next
    case (On_Goal b)
    with assms have "s' = fst (reduce_goal s b)" by simp
    then show ?thesis by (simp add: goal_choices)
  next
    case (On_Composer b)
    with assms have "s' = fst (reduce_composer s b)" by simp
    then show ?thesis by (simp add: composer_choices)
  qed
qed

subsection \<open>The questions and notices around the core\<close>

definition around ::
  "client_state \<Rightarrow> (mcp_elicitation list \<times> browser_permissions_state) \<times> str list
     \<times> (str \<rightharpoonup> computer_use_state) \<times> str list \<times> (str \<times> chat_memory_preferences) list" where
  "around c = ((mcp_elicitations (asks c), browser_permissions (asks c)), seen_model_upgrade_ids c, panels c)"

lemma around_inv:
  "around c' = around c \<Longrightarrow> elicitations_inv (asks c') = elicitations_inv (asks c)"
  by (simp add: around_def elicitations_inv_def)

lemma around_panels: "around c' = around c \<Longrightarrow> panels_inv c' = panels_inv c"
  by (rule panels_inv_same) (simp add: around_def)

lemma around_settings:
  "around c' = around c \<Longrightarrow> controls_ok (composer_controls (core c')) \<Longrightarrow> settings_inv c \<Longrightarrow> settings_inv c'"
  by (simp add: around_def settings_inv_def)

lemma around_update [simp]:
  "around (c\<lparr>route := x0\<rparr>) = around c" "around (c\<lparr>inspector := x1\<rparr>) = around c"
  "around (c\<lparr>local_projects := x2\<rparr>) = around c" "around (c\<lparr>new_chat_cwd := x3\<rparr>) = around c"
  "around (c\<lparr>fuzzy_file_search := x4\<rparr>) = around c" "around (c\<lparr>git := x5\<rparr>) = around c"
  "around (c\<lparr>pull_requests := x6\<rparr>) = around c" "around (c\<lparr>marketplace := x7\<rparr>) = around c"
  "around (c\<lparr>artifacts := x8\<rparr>) = around c" "around (c\<lparr>browser := x9\<rparr>) = around c"
  "around (c\<lparr>import_migration := x10\<rparr>) = around c" "around (c\<lparr>personalization := x12\<rparr>) = around c"
  "around (with_core s c) = around c" "around (update_core f c) = around c"
  by (simp_all add: around_def update_core_def panels_def)

lemma memory_kept [simp]:
  "chat_memory (remember_local_project p c) = chat_memory c"
  "chat_memory (clear_mcp_auth_for_context_change d c) = chat_memory c"
  by (simp_all add: remember_local_project_def clear_mcp_auth_for_context_change_def with_marketplace_def Let_def
      split: option.split)

lemma around_update_policy [simp]:
  "us_always_allowed_app_ids p = us_always_allowed_app_ids (computer_use_settings c)
   \<Longrightarrow> around (c\<lparr>computer_use_settings := p\<rparr>) = around c"
  by (simp add: around_def panels_def)

lemma around_update_memory [simp]:
  "cm_thread_preferences m = cm_thread_preferences (chat_memory c)
   \<Longrightarrow> around (c\<lparr>chat_memory := m\<rparr>) = around c"
  by (simp add: around_def panels_def)

lemma around_lifted [simp]:
  "around (fst (on_core f c)) = around c" "around (fst (on_client g c)) = around c"
  by (simp_all add: on_core_def on_client_def case_prod_beta)

lemma around_kept [simp]:
  "around (with_marketplace f c) = around c"
  "around (fst (refresh_skills_effect cwds b c)) = around c"
  "around (fst (refresh_composer_plugins_effect cwds b c)) = around c"
  "around (fst (refresh_marketplace_effect cwds tab b b' c)) = around c"
  "around (fst (refresh_mcp_servers_effect cwd c)) = around c"
  "around (fst (reload_skills cwds c)) = around c"
  "around (fst (clear_fuzzy_file_search c)) = around c"
  "around (fst (next_git_refresh_generation c)) = around c"
  "around (clear_git_for_context_change c) = around c"
  "around (clear_mcp_auth_for_context_change d c) = around c"
  "around (invalidate_pull_requests_for_workspace_change c) = around c"
  "around (fst (prepare_browser_effect t b c)) = around c"
  "around (clear_task_views c) = around c"
  "around (fst (reload_workspace c)) = around c"
  "around (fst (reload_apps c)) = around c"
  "around (remember_local_project p c) = around c"
  "around (set_client_message m c) = around c"
  "around (change_controls h b c) = around c"
  "around (fst (update_thread_settings i m' e tier mode c)) = around c"
  by (simp_all add: with_marketplace_def refresh_skills_effect_def refresh_composer_plugins_effect_def
      refresh_marketplace_effect_def refresh_mcp_servers_effect_def reload_skills_def
      clear_fuzzy_file_search_def next_git_refresh_generation_def clear_git_for_context_change_def
      clear_mcp_auth_for_context_change_def invalidate_pull_requests_for_workspace_change_def
      prepare_browser_effect_def clear_task_views_def reload_workspace_def reload_apps_def
      remember_local_project_def set_client_message_def change_controls_def update_thread_settings_def
      case_prod_beta Let_def split: option.split load_status.split)

lemma around_tasks [simp]:
  "around (fst (prepare_new_chat cwd c)) = around c"
  "around (fst (task_created t c)) = around c"
  "around (show_task i b c) = around c"
  "around (fst (load_goal_if_needed i c)) = around c"
  "around (fst (load_timeline_if_needed i c)) = around c"
  by (simp_all add: prepare_new_chat_def task_created_def show_task_def load_goal_if_needed_def
      load_timeline_if_needed_def case_prod_beta Let_def)

lemma around_select_task [simp]: "around (fst (select_task i c)) = around c"
  by (simp add: select_task_def case_prod_beta Let_def if_distrib [of fst] if_distrib [of around]
      split: option.split)

lemma selection_around: "around (fst (reduce_selection c a)) = around c"
  by (cases a)
    (simp_all add: begin_new_chat_def select_workspace_def select_composer_workspace_def
      use_git_worktree_def rename_local_project_def toggle_local_project_pinned_def
      remove_local_project_def open_local_project_def local_projects_loaded_def
      new_chat_task_created_def fork_task_completed_def tasks_loaded_def open_background_completion_def
      change_fuzzy_file_search_def fuzzy_file_search_updated_def fuzzy_file_search_completed_def
      fuzzy_file_search_failed_def case_prod_beta Let_def if_distrib [of around]
      split: option.split list.split)

lemma submit_around: "around (fst (reduce_submit c a)) = around c"
  by (cases a) (simp_all add: submit_composer_def begin_new_chat_def Let_def split: option.split)

lemma settings_questions:
  "fst (around (fst (reduce_settings c a))) = fst (around c) \<and> panels (fst (reduce_settings c a)) = panels c"
proof (cases "\<exists>i. a = DismissModelAvailabilityNux i")
  case True
  then show ?thesis by (auto simp: dismiss_model_availability_nux_def around_def panels_def Let_def)
next
  case False
  then have "around (fst (reduce_settings c a)) = around c"
    by (cases a)
      (simp_all add: refresh_models_def models_loaded_def models_failed_def composer_defaults_write_failed_def
        select_model_def select_reasoning_effort_def select_service_tier_def select_permission_mode_def
        Let_def split: option.split)
  then show ?thesis by (simp add: around_def)
qed

lemma around_connection [simp]:
  "around (fst (reload_all c)) = around c" "around (fst (resume_selected c)) = around c"
  "around (fst (load_marketplace_route_effect c)) = around c"
  "around (fst (load_pull_requests_route_effect c)) = around c"
  by (simp_all add: reload_all_def resume_selected_def load_marketplace_route_effect_def
      load_pull_requests_route_effect_def case_prod_beta Let_def split: option.split marketplace_tab.split)

lemma around_unasked:
  "around (d\<lparr>asks := (asks d)\<lparr>mcp_elicitations := []\<rparr>\<rparr>) = (([], snd (fst (around d))), snd (around d))"
  by (simp add: around_def panels_def)

lemma connection_around:
  "around (fst (reduce_connection c a)) = around c
   \<or> around (fst (reduce_connection c a)) = (([], snd (fst (around c))), snd (around c))"
proof (cases a)
  case ConnectionLost
  then show ?thesis by (simp add: connection_lost_def Let_def around_unasked)
qed (simp_all add: connect_def connected_def case_prod_beta Let_def)

subsection \<open>Every action keeps the choices well formed\<close>

lemma controls_of_core [simp]:
  "composer_controls (leave_task s) = composer_controls s"
  "composer_controls (clear_active_composer_draft s) = composer_controls s"
  "composer_controls (advance_task_selection_generation s) = composer_controls s"
  "composer_controls (clear_pending_task_fork_status s) = composer_controls s"
  "composer_controls (settle_fork r s) = composer_controls s"
  "composer_controls (record_task_without_selecting t s) = composer_controls s"
  "composer_controls (list_searched_task i s) = composer_controls s"
  "composer_controls (list_tasks ts n a s) = composer_controls s"
  by (simp_all add: leave_task_def clear_active_composer_draft_def advance_composer_draft_generation_def
      advance_task_selection_generation_def clear_pending_task_fork_status_def settle_fork_def
      record_task_without_selecting_def list_searched_task_def list_tasks_def Let_def split: option.split)

lemma controls_of_task [simp]:
  "composer_controls (core (fst (task_created t c))) = composer_controls (core c)"
  "composer_controls (core (fst (load_goal_if_needed i c))) = composer_controls (core c)"
  "composer_controls (core (fst (load_timeline_if_needed i c))) = composer_controls (core c)"
  "composer_controls (core (show_task i b c)) = composer_controls (core c)"
  by (simp_all add: task_created_def load_goal_if_needed_def load_timeline_if_needed_def show_task_def
      case_prod_beta Let_def)

lemma controls_of_selected [simp]: "composer_controls (core (fst (select_task i c))) = composer_controls (core c)"
  by (simp add: select_task_def case_prod_beta Let_def if_distrib [of fst] if_distrib [of core]
      split: option.split)

lemma forget_drafts_controls:
  "composer_controls (forget_drafts s) =
     (apply_settings (cc_new_chat_defaults (composer_controls s)) (composer_controls s))
       \<lparr>cc_plan_mode := False, cc_goal_mode := False\<rparr>"
  by (simp add: forget_drafts_def apply_composer_settings_def Let_def)

lemma new_chat_controls:
  "composer_controls (core (fst (prepare_new_chat cwd c))) =
     (apply_settings (cc_new_chat_defaults (composer_controls (core c))) (composer_controls (core c)))
       \<lparr>cc_plan_mode := False, cc_goal_mode := False\<rparr>"
  by (simp add: prepare_new_chat_def forget_drafts_controls case_prod_beta Let_def)

lemma new_chat_controls_ok:
  "controls_ok (composer_controls (core c)) \<Longrightarrow> controls_ok (composer_controls (core (fst (prepare_new_chat cwd c))))"
  by (simp add: new_chat_controls apply_settings_ok)

lemma selection_controls_ok:
  "controls_ok (composer_controls (core c)) \<Longrightarrow> controls_ok (composer_controls (core (fst (reduce_selection c a))))"
  by (cases a)
    (simp_all add: begin_new_chat_def select_workspace_def select_composer_workspace_def
      use_git_worktree_def rename_local_project_def toggle_local_project_pinned_def
      remove_local_project_def open_local_project_def set_client_message_def
      new_chat_task_created_def fork_task_completed_def tasks_loaded_def open_background_completion_def
      new_chat_controls_ok case_prod_beta Let_def if_distrib [of core] split: option.split list.split)

lemma fork_task_controls [simp]: "composer_controls (fst (fork_task i b s)) = composer_controls s"
  using arg_cong [OF fork_task_frame, of composer_controls i b s] by simp

lemma submit_parts_controls:
  "choices (composer_controls (fst (submit_fork s))) = choices (composer_controls s)"
  "choices (composer_controls (fst (submit_compact s))) = choices (composer_controls s)"
  "choices (composer_controls (fst (submit_shell command s))) = choices (composer_controls s)"
  "choices (composer_controls (fst (submit_goal m cwd text s))) = choices (composer_controls s)"
  "choices (composer_controls (fst (submit_message m cwd text s))) = choices (composer_controls s)"
  by (simp_all add: submit_fork_def submit_compact_def submit_shell_def submit_goal_def submit_message_def
      compose_error_def take_draft_def leave_goal_mode_def goal_pending_def Let_def split: option.split)

lemma submit_controls_ok:
  assumes "controls_ok (composer_controls (core c))"
  shows "controls_ok (composer_controls (core (fst (reduce_submit c a))))"
proof (cases a)
  case SubmitComposer
  then show ?thesis
    using assms
    by (simp add: submit_parts_controls [THEN choices_ok] submit_composer_def begin_new_chat_def new_chat_controls_ok compose_error_def Let_def
        split: option.split)
qed (simp_all add: assms edit_last_user_message_def cancel_last_user_message_edit_def
    last_user_message_rollback_applied_def last_user_message_edit_succeeded_def
    last_user_message_edit_failed_def compact_thread_failed_def thread_shell_command_failed_def
    update_edit_def Let_def split: option.split sum.split)

lemma connection_choices:
  "choices (composer_controls (core (fst (reduce_connection c a)))) = choices (composer_controls (core c))"
  by (cases a)
    (simp_all add: connect_def connected_def connection_lost_def connection_retry_scheduled_def
      connection_retry_started_def connection_failed_def task_runtime_loaded_def now_online_def
      forget_transients_def resume_search_def resume_selected_def turn_helper_controls case_prod_beta Let_def
      split: option.split connection_status.split)

subsection \<open>Reviews and archiving\<close>

lemma app_inv_filtered:
  "app_inv s \<Longrightarrow> app_inv (s\<lparr>background_completion_task_ids := filter p (background_completion_task_ids s),
     pinned_task_ids := filter p (pinned_task_ids s)\<rparr>)"
  "app_inv s \<Longrightarrow> app_inv (s\<lparr>approvals := filter q (approvals s)\<rparr>)"
  "app_inv s \<Longrightarrow> app_inv (s\<lparr>task_search := (task_search s)\<lparr>se_results := filter r (se_results (task_search s))\<rparr>\<rparr>)"
  by (auto simp: app_inv_def inv_defs background_ok_def distinct_map_filter
      intro: length_filter_bound le_trans [OF length_filter_le] cong: option.case_cong)

lemma app_inv_archived:
  "app_inv s \<Longrightarrow> length ts \<le> MAX_VISIBLE_THREADS
   \<Longrightarrow> app_inv (s\<lparr>archived_tasks := (archived_tasks s)\<lparr>ar_tasks := ts\<rparr>\<rparr>)"
  by (simp add: app_inv_def inv_defs cong: option.case_cong)

lemma app_inv_removed_timeline: "app_inv s \<Longrightarrow> app_inv (s\<lparr>timelines := (timelines s)(i := None)\<rparr>)"
  by (rule app_inv_timelines) (auto intro: app_timeline split: if_splits)

lemma started_app_inv: "app_inv s \<Longrightarrow> app_inv (fst (turn_started t u s))"
  using step_keeps_all [of s "On_Turn (TurnStarted t u)"] by auto

lemma refreshed_app_inv: "app_inv s \<Longrightarrow> app_inv (fst (refresh_tasks s))"
  by (simp add: refresh_tasks_def Let_def)

lemma review_turn_app_inv: "app_inv s \<Longrightarrow> app_inv (fst (review_turn t u s))"
  using started_app_inv [of s t u]
  by (simp add: review_turn_def case_prod_beta app_inv_set_timeline app_timeline_of)

lemma app_inv_review_fields:
  "app_inv s \<Longrightarrow> rv_terminal_events r = rv_terminal_events (review_start s) \<or> rv_terminal_events r = []
   \<Longrightarrow> app_inv (s\<lparr>review_start := r\<rparr>)"
  using app_inv_terminals [of s] by (auto intro!: app_inv_review simp: terminals_ok_def)

lemma review_parts_app_inv:
  assumes "app_inv s"
  shows "app_inv (review_error i m s)" "app_inv (unresolved_review i t u b s)"
    "app_inv (list_review_task task s)" "app_inv (fst (consume_pending_review_terminal t u s))"
proof -
  show errors: "app_inv (review_error i m s)" for i m
    using assms by (simp add: review_error_def app_inv_review_fields)
  have cleared: "app_inv (s\<lparr>review_start := (review_start s)\<lparr>rv_unresolved_detached := d, rv_error := e\<rparr>\<rparr>)"
    "app_inv (s\<lparr>review_start := (review_start s)\<lparr>rv_unresolved_detached := d\<rparr>\<rparr>)" for d e
    using assms by (simp_all add: app_inv_review_fields)
  then show "app_inv (unresolved_review i t u b s)"
    by (auto simp: unresolved_review_def review_error_def intro: app_inv_review_fields)
  show "app_inv (fst (consume_pending_review_terminal t u s))"
    using assms by (simp add: consume_pending_review_terminal_def Let_def app_inv_review_fields)
  show "app_inv (list_review_task task s)"
    using cleared assms by (auto simp: list_review_task_def Let_def intro!: app_inv_review_fields app_inv_tasks split: option.split)
qed

lemma review_started_app_inv:
  assumes "app_inv (core c)"
  shows "app_inv (core (fst (review_started g i t u b task c)))"
proof (cases "review_answered g i (core c)")
  case None
  with assms show ?thesis by (simp add: review_started_def)
next
  case (Some p)
  let ?s = "(core c)\<lparr>review_start := (review_start (core c))\<lparr>rv_pending := None\<rparr>\<rparr>"
  have s: "app_inv ?s" "app_inv (?s\<lparr>review_start := (review_start ?s)\<lparr>rv_terminal_events := []\<rparr>\<rparr>)"
    using assms by (auto intro!: app_inv_review_fields)
  note turn = review_parts_app_inv(4) [OF s(1)] review_turn_app_inv [OF review_parts_app_inv(4) [OF s(1)]]
  show ?thesis
    using s turn
    by (auto simp: review_started_def Some case_prod_beta Let_def
        intro!: review_parts_app_inv refreshed_app_inv app_inv_select_task)
qed

lemma app_inv_forget_task:
  assumes "app_inv s"
  shows "app_inv (forget_task i s)"
proof -
  let ?ts = "case position (\<lambda>t. ts_id t = i) (tasks s) of None \<Rightarrow> tasks s | Some n \<Rightarrow> remove_at n (tasks s)"
  let ?s0 = "s\<lparr>background_completion_task_ids := filter (\<lambda>j. j \<noteq> i) (background_completion_task_ids s),
    pinned_task_ids := filter (\<lambda>j. j \<noteq> i) (pinned_task_ids s)\<rparr>"
  define s1 where "s1 = ?s0\<lparr>tasks := ?ts, task_search := (task_search s)
    \<lparr>se_results := filter (\<lambda>r. ts_id (sr_task r) \<noteq> i) (se_results (task_search s))\<rparr>\<rparr>"
  have "length ?ts \<le> MAX_VISIBLE_THREADS"
    using app_tasks [OF assms] by (auto simp: remove_at_def split: option.split)
  then have "app_inv (?s0\<lparr>tasks := ?ts\<rparr>)" using app_inv_filtered(1) [OF assms] by (intro app_inv_tasks)
  from app_inv_filtered(3) [OF this] have s1: "app_inv s1" by (simp add: s1_def)
  define s2 where "s2 = (case find (\<lambda>t. ts_id t = i) (tasks s) of
      None \<Rightarrow> s1
    | Some t \<Rightarrow> if ar_status (archived_tasks s1) = load_status.Ready
        then s1\<lparr>archived_tasks := (archived_tasks s1)\<lparr>ar_tasks := take MAX_VISIBLE_THREADS
               (t # filter (\<lambda>e. ts_id e \<noteq> ts_id t) (ar_tasks (archived_tasks s1)))\<rparr>\<rparr>
        else s1)"
  have s2: "app_inv s2" unfolding s2_def using s1 by (auto intro!: app_inv_archived split: option.split)
  define s3 where "s3 = s2\<lparr>timelines := (timelines s2)(i := None), goals := (goals s2)(i := None),
    process_manager := (if pg_task_id (process_manager s2) = Some i then default_process_manager
                        else process_manager s2)\<rparr>"
  have kept: "app_inv (s2\<lparr>timelines := (timelines s2)(i := None), goals := (goals s2)(i := None)\<rparr>)"
    using app_inv_removed_timeline [OF s2] by simp
  have s3: "app_inv s3"
    using kept app_inv_no_processes [OF kept] unfolding s3_def by (simp del: app_inv_update)
  have "forget_task i s = s3\<lparr>approvals := filter (\<lambda>a. ap_task_id a \<noteq> i) (approvals s3)\<rparr>"
    unfolding forget_task_def s3_def s2_def s1_def by (simp add: Let_def)
  then show ?thesis using app_inv_filtered(2) [OF s3] by simp
qed

lemma review_app_inv:
  assumes "app_inv (core c)"
  shows "app_inv (core (fst (reduce_review c a)))"
proof (cases a)
  case (StartReview target d)
  with assms show ?thesis
    by (auto simp: start_review_def Let_def intro!: app_inv_review_fields split: option.split)
next
  case (ReviewStarted g i t u b task)
  with review_started_app_inv [OF assms] show ?thesis by simp
next
  case (ReviewStartFailed g i m)
  with assms show ?thesis
    by (auto simp: review_start_failed_def Let_def intro!: review_parts_app_inv app_inv_review_fields split: option.split)
next
  case (TaskArchived i)
  with app_inv_forget_task [OF assms] show ?thesis
    by (simp add: task_archived_def set_client_message_def app_inv_helpers Let_def)
qed (simp add: archive_task_def assms)

lemma review_controls: "composer_controls (core (fst (reduce_review c a))) = composer_controls (core c)"
proof -
  have parts: "composer_controls (fst (turn_started t u s)) = composer_controls s"
    "composer_controls (fst (refresh_tasks s)) = composer_controls s"
    "composer_controls (list_review_task task s) = composer_controls s"
    "composer_controls (unresolved_review i t u b s) = composer_controls s"
    "composer_controls (review_error i m s) = composer_controls s"
    "composer_controls (forget_task i s) = composer_controls s"
    "composer_controls (fst (consume_pending_review_terminal t u s)) = composer_controls s" for t u s task i b m
    by (simp_all add: turn_started_def refresh_tasks_def list_review_task_def unresolved_review_def
        review_error_def forget_task_def consume_pending_review_terminal_def turn_helper_controls
        case_prod_beta Let_def split: option.split)
  show ?thesis
    by (cases a)
      (simp_all add: start_review_def review_started_def review_start_failed_def archive_task_def
        task_archived_def review_turn_def set_client_message_def parts case_prod_beta Let_def
        if_distrib [of core] if_distrib [of fst] split: option.split)
qed

lemma review_around: "\<forall>i. a \<noteq> TaskArchived i \<Longrightarrow> around (fst (reduce_review c a)) = around c"
  by (cases a)
    (simp_all add: start_review_def review_started_def archive_task_def case_prod_beta Let_def split: option.split)

lemma archived_around:
  "around (fst (task_archived i c)) =
     (fst (around c), fst (snd (around c)), (computer_use c)(i := None), snd (snd (snd (around c))))"
  by (simp add: task_archived_def around_def panels_def update_core_def clear_mcp_auth_for_context_change_def
      with_marketplace_def set_client_message_def Let_def)

end
