(* ===== verification/Client_Composition.thy ===== *)
theory Client_Composition
  imports Client_Frames
begin

text \<open>
  All actions of the client under one dispatch, as \<open>reduce\<close> of \<open>crates/codex-core/src/lib.rs\<close> matches
  them on one state: the invariants of all components hold together in every reachable state.
\<close>

subsection \<open>One dispatch\<close>

text \<open>
  The functions of the standard library whose definition is not part of the program: parsing a floating
  point number, the Unicode lower case of a text, and the key a \<open>HashMap\<close> iterates first.
\<close>

record std_functions =
  std_parse_f64 :: "str \<Rightarrow> f64 option"
  std_to_lowercase :: "str \<Rightarrow> str"
  std_first_key :: "str list \<Rightarrow> str"

datatype (plugins only: code size) client_action =
    On_App app_action
  | On_Settings settings_action
  | On_Selection selection_action
  | On_Submit submit_action
  | On_Connection connection_action
  | On_Ask elicitation_action
  | On_Inbox pull_request_action
  | On_Computer computer_action
  | On_Import import_action
  | On_Personal personalization_action
  | On_Review review_action

fun reduce_client ::
  "std_functions \<Rightarrow> client_state \<Rightarrow> client_action \<Rightarrow> client_result option" where
  "reduce_client std c (On_App a) =
     map_option (\<lambda>(s, es). (with_core s c, map Core es)) (reduce_app (core c) a)"
| "reduce_client std c (On_Settings a) = Some (reduce_settings c a)"
| "reduce_client std c (On_Selection a) = Some (reduce_selection c a)"
| "reduce_client std c (On_Submit a) = Some (reduce_submit c a)"
| "reduce_client std c (On_Connection a) = Some (reduce_connection c a)"
| "reduce_client std c (On_Ask a) =
     Some (let (s, es) = reduce_elicitation (std_parse_f64 std) (asks c) a in (c\<lparr>asks := s\<rparr>, map Ask es))"
| "reduce_client std c (On_Inbox a) = Some (reduce_pull_request c a)"
| "reduce_client std c (On_Computer a) = Some (reduce_computer (std_to_lowercase std) c a)"
| "reduce_client std c (On_Import a) = Some (reduce_import c a)"
| "reduce_client std c (On_Personal a) = Some (reduce_personalization (std_first_key std) c a)"
| "reduce_client std c (On_Review a) = Some (reduce_review c a)"

text \<open>A run stops (\<open>None\<close>) at the first panic.\<close>

fun run_client ::
  "std_functions \<Rightarrow> client_state \<Rightarrow> client_action list \<Rightarrow> client_result option" where
  "run_client std c [] = Some (c, [])"
| "run_client std c (a # as) =
     Option.bind (reduce_client std c a) (\<lambda>(c1, es1).
       map_option (\<lambda>(c2, es2). (c2, es1 @ es2)) (run_client std c1 as))"

definition client_inv :: "client_state \<Rightarrow> bool" where
  "client_inv c \<longleftrightarrow> app_inv (core c) \<and> settings_inv c \<and> elicitations_inv (asks c) \<and> panels_inv c"

subsection \<open>Every reachable state\<close>

lemma allowed_site_core [simp]:
  "el_core (fst (allow_site r o' s)) = el_core s" "el_core (fst (change_permissions p s)) = el_core s"
  by (simp_all add: allow_site_def change_permissions_def)

lemma elicitation_core:
  "app_inv (el_core s) \<Longrightarrow> app_inv (el_core (fst (reduce_elicitation parse_f64 s b)))"
  "composer_controls (el_core (fst (reduce_elicitation parse_f64 s b))) = composer_controls (el_core s)"
  by (cases b;
      simp add: mcp_elicitation_requested_def mark_mcp_url_elicitation_opened_def resolve_mcp_elicitation_def
        resolve_browser_origin_elicitation_def resolve_browser_resource_elicitation_def
        browser_permissions_loaded_def set_browser_approval_mode_def set_browser_full_cdp_access_enabled_def
        upsert_browser_site_permission_def remove_browser_site_permission_def set_message_def
        app_inv_helpers turn_helper_controls case_prod_beta Let_def
        split: option.split sum.split mcp_elicitation.split browser_origin_elicitation_decision.split)+

context client_panel
begin

lemma panel_client_inv: "client_inv c \<Longrightarrow> panels_inv (fst (step c a)) \<Longrightarrow> client_inv (fst (step c a))"
  by (simp add: client_inv_def panel_app_inv panel_settings panel_elicitations)

end

lemma client_inv_around:
  assumes "client_inv c" and "around c' = around c" and "app_inv (core c')"
    and "controls_ok (composer_controls (core c'))"
  shows "client_inv c'"
  using assms around_settings [OF assms(2,4)] around_inv [OF assms(2)] around_panels [OF assms(2)]
  by (simp add: client_inv_def)

lemma client_controls: "client_inv c \<Longrightarrow> controls_ok (composer_controls (core c))"
  by (simp add: client_inv_def settings_controls_ok)

lemma app_client_inv:
  assumes "client_inv c" and "reduce_app (core c) a = Some (s, es)" and "app_inv s"
  shows "client_inv (with_core s c)"
  using assms client_controls choices_ok [OF app_choices [OF assms(2)]]
  by (intro client_inv_around [OF assms(1)]) simp_all

lemma settings_client_inv:
  assumes "client_inv c"
  shows "client_inv (fst (reduce_settings c a))"
proof -
  have "elicitations_inv (asks (fst (reduce_settings c a)))" "panels_inv (fst (reduce_settings c a))"
    using assms settings_questions [of c a] panels_inv_same [of "fst (reduce_settings c a)" c]
    by (simp_all add: client_inv_def around_def elicitations_inv_def)
  with assms show ?thesis by (simp add: client_inv_def settings_app_inv reduce_settings_inv)
qed

lemma connection_client_inv:
  assumes "client_inv c"
  shows "client_inv (fst (reduce_connection c a))"
proof -
  have app: "app_inv (core (fst (reduce_connection c a)))"
    and controls: "controls_ok (composer_controls (core (fst (reduce_connection c a))))"
    using assms connection_app_inv choices_ok [OF connection_choices] client_controls
    by (simp_all add: client_inv_def)
  from connection_around [of c a] show ?thesis
  proof
    assume "around (fst (reduce_connection c a)) = around c"
    with assms app controls show ?thesis by (intro client_inv_around [OF assms])
  next
    assume cleared: "around (fst (reduce_connection c a)) = (([], snd (fst (around c))), snd (around c))"
    then have "panels_inv (fst (reduce_connection c a)) = panels_inv c"
      by (intro panels_inv_same) (simp add: around_def)
    with cleared assms app controls show ?thesis
      by (simp add: client_inv_def settings_inv_def elicitations_inv_def around_def)
  qed
qed

lemma ask_client_inv:
  assumes "client_inv c"
  shows "client_inv (c\<lparr>asks := fst (reduce_elicitation parse_f64 (asks c) a)\<rparr>)"
proof -
  define r where "r = reduce_elicitation parse_f64 (asks c) a"
  have "elicitations_inv (fst r)" unfolding r_def using assms
    by (intro reduce_elicitation_inv) (simp add: client_inv_def)
  moreover have "app_inv (el_core (fst r))" "composer_controls (el_core (fst r)) = composer_controls (core c)"
    using elicitation_core assms unfolding r_def core_def client_inv_def by blast+
  moreover have "panels_inv (c\<lparr>asks := fst r\<rparr>) = panels_inv c"
    by (rule panels_inv_same) (simp add: panels_def)
  ultimately show ?thesis using assms unfolding r_def [symmetric]
    by (simp add: client_inv_def settings_inv_def)
qed

lemma review_client_inv:
  assumes "client_inv c"
  shows "client_inv (fst (reduce_review c a))"
proof (cases "\<exists>i. a = TaskArchived i")
  case True
  then obtain i where a: "a = TaskArchived i" by blast
  have app: "app_inv (core (fst (task_archived i c)))"
    "composer_controls (core (fst (task_archived i c))) = composer_controls (core c)"
    using review_app_inv [of c a] review_controls [of c a] assms a by (simp_all add: client_inv_def)
  have "panels_inv (fst (task_archived i c))"
    using assms archived_around [of i c] by (simp add: client_inv_def panels_inv_def around_def panels_def)
  with app assms a archived_around [of i c] show ?thesis
    by (simp add: client_inv_def settings_inv_def elicitations_inv_def around_def)
next
  case False
  with assms show ?thesis
    by (intro client_inv_around [OF assms] review_around)
      (simp_all add: client_inv_def review_app_inv review_controls settings_controls_ok)
qed

lemma panel_steps_client_inv:
  assumes "client_inv c"
  shows "client_inv (fst (reduce_pull_request c a1))" "client_inv (fst (reduce_computer lower c a2))"
    "client_inv (fst (reduce_import c a3))" "client_inv (fst (reduce_personalization first_key c a4))"
proof -
  have inv: "panels_inv c" using assms by (simp add: client_inv_def)
  show "client_inv (fst (reduce_pull_request c a1))"
    using inv panels_inv_same [OF inbox_panels] by (intro inbox.panel_client_inv assms) blast
  show "client_inv (fst (reduce_computer lower c a2))"
    by (intro computer.panel_client_inv computer_panels_inv assms inv)
  show "client_inv (fst (reduce_import c a3))"
    using inv panels_inv_same [OF imports_panels] by (intro importing.panel_client_inv assms) blast
  show "client_inv (fst (reduce_personalization first_key c a4))"
    by (intro personal.panel_client_inv personal_panels_inv assms inv)
qed

lemma reduce_client_inv:
  assumes "client_inv c"
  shows "\<exists>c' es. reduce_client std c a = Some (c', es) \<and> client_inv c'"
proof -
  have inv: "app_inv (core c)" "panels_inv c" using assms by (simp_all add: client_inv_def)
  note controls = client_controls [OF assms]
  have total: "\<exists>c' es. Some r = Some (c', es) \<and> client_inv c'" if "client_inv (fst r)" for r :: client_result
    using that by (cases r) simp
  show ?thesis
  proof (cases a)
    case (On_App b)
    obtain s es where "reduce_app (core c) b = Some (s, es)" "app_inv s"
      using step_keeps_all [OF inv(1), of b] by blast
    with On_App app_client_inv [OF assms] show ?thesis by simp
  next
    case (On_Selection b)
    show ?thesis unfolding On_Selection reduce_client.simps
      by (intro total client_inv_around [OF assms] selection_around selection_app_inv selection_controls_ok inv controls)
  next
    case (On_Submit b)
    show ?thesis unfolding On_Submit reduce_client.simps
      by (intro total client_inv_around [OF assms] submit_around submit_app_inv submit_controls_ok inv controls)
  next
    case (On_Ask b)
    with ask_client_inv [OF assms] show ?thesis by (simp add: case_prod_beta)
  next
    case (On_Settings b)
    with total [OF settings_client_inv [OF assms]] show ?thesis by simp
  next
    case (On_Connection b)
    with total [OF connection_client_inv [OF assms]] show ?thesis by simp
  next
    case (On_Inbox b)
    with total [OF panel_steps_client_inv(1) [OF assms]] show ?thesis by simp
  next
    case (On_Computer b)
    with total [OF panel_steps_client_inv(2) [OF assms]] show ?thesis by simp
  next
    case (On_Import b)
    with total [OF panel_steps_client_inv(3) [OF assms]] show ?thesis by simp
  next
    case (On_Personal b)
    with total [OF panel_steps_client_inv(4) [OF assms]] show ?thesis by simp
  next
    case (On_Review b)
    with total [OF review_client_inv [OF assms]] show ?thesis by simp
  qed
qed


lemma default_client_inv: "client_inv default_client"
proof -
  have "asks default_client = \<lparr>el_core = default_app_state, mcp_elicitations = [],
      browser_permissions = default_browser_permissions\<rparr>" "seen_model_upgrade_ids default_client = []"
    by (simp_all add: default_client_def)
  moreover have "controls_ok (composer_controls default_app_state)"
    by (simp add: controls_ok_def default_state_defs)
  ultimately show ?thesis using default_app_inv default_permissions_ok
    by (simp add: client_inv_def settings_inv_def elicitations_inv_def default_panels_inv)
qed

text \<open>A standard library for texts in ASCII that parses no number.\<close>

definition ascii_std :: std_functions where
  "ascii_std = \<lparr>std_parse_f64 = (\<lambda>_. None), std_to_lowercase = map to_ascii_lowercase, std_first_key = hd\<rparr>"


end
