(* ===== verification/Client_Properties.thy ===== *)
theory Client_Properties
  imports Client_Composition Client_Effects
begin

text \<open>
  Safety of what the client sends, over any interleaving of its actions: nothing asks for
  permissions that the administrator has not allowed.
\<close>

subsection \<open>Runs\<close>

text \<open>A step of a client that never panics, as the contract of \<open>effect_safety\<close> takes it.\<close>

definition client_step :: "std_functions \<Rightarrow> client_state \<Rightarrow> client_action \<Rightarrow> client_result" where
  "client_step std c a = (case reduce_client std c a of None \<Rightarrow> (c, []) | Some r \<Rightarrow> r)"

lemma run_client_steps: "run_client std c as = Some r \<Longrightarrow> run (client_step std) c as = r"
proof (induction as arbitrary: c r)
  case Nil
  then show ?case by simp
next
  case (Cons a as)
  then obtain c1 es1 c2 es2 where "reduce_client std c a = Some (c1, es1)"
    "run_client std c1 as = Some (c2, es2)" "r = (c2, es1 @ es2)"
    by (auto simp: bind_eq_Some_conv)
  with Cons.IH show ?case by (simp add: client_step_def)
qed

lemma reduce_app_cases:
  assumes "reduce_app s a = Some (s', es)"
  obtains (Fork) b where "a = On_Fork b" "(s', es) = reduce_fork s b"
  | (Remote) b where "a = On_Remote b" "(s', es) = reduce_remote s b"
  | (Timeline) b where "a = On_Timeline b" "reduce_timeline s b = Some (s', es)"
  | (Turn) b where "a = On_Turn b" "(s', es) = reduce_turn s b"
  | (Goal) b where "a = On_Goal b" "(s', es) = reduce_goal s b"
  | (Request) b where "a = On_Request b" "(s', es) = reduce_request s b"
  | (Terminal) b where "a = On_Terminal b" "(s', es) = reduce_terminal s b"
  | (Task_List) b where "a = On_Task_List b" "(s', es) = reduce_task_list s b"
  | (Process) b where "a = On_Process b" "(s', es) = reduce_process s b"
  | (Account) b where "a = On_Account b" "(s', es) = reduce_account s b"
  | (Composer) b where "a = On_Composer b" "(s', es) = reduce_composer s b"
  using assms by (cases a) auto

subsection \<open>Managed requests\<close>

definition asks_managed :: "permission_profile_option list \<Rightarrow> permission_requirements \<Rightarrow> client_effect \<Rightarrow> bool" where
  "asks_managed ps r e \<longleftrightarrow>
     (case asked e of
        None \<Rightarrow> True
      | Some (None, policy, reviewer) \<Rightarrow> policy = None \<and> reviewer = None
      | Some (Some permissions, policy, reviewer) \<Rightarrow> managed ps r permissions policy reviewer)"

lemma not_asked [simp]: "asked e = None \<Longrightarrow> asks_managed ps r e"
  by (simp add: asks_managed_def)

lemma app_effect_not_asked:
  assumes "reduce_app s a = Some (s', es)"
  shows "list_all (\<lambda>e. asked (Core e) = None) es"
  using assms
proof (cases rule: reduce_app_cases)
  case (Fork b)
  have "list_all (\<lambda>e. asked (Core e) = None) (snd (fork_task i w s))"
    "list_all (\<lambda>e. asked (Core e) = None) (snd (start_next_worktree_fork s))" for i w s
    by (simp_all add: fork_task_def start_next_worktree_fork_def Let_def split: option.split list.split)
  then have "list_all (\<lambda>e. asked (Core e) = None) (snd (reduce_fork s b))"
    by (cases b) (simp_all add: fork_handler_defs with_pending_def Let_def split: option.split)
  then show ?thesis using Fork(2) by (metis snd_conv)
next
  case (Remote b)
  have refresh: "list_all (\<lambda>e. asked (Core e) = None) (snd (begin_remote_status_refresh s))"
    "list_all (\<lambda>e. asked (Core e) = None) (snd (finish_remote_status_refresh_if_pending s))" for s
    by (simp_all add: begin_remote_status_refresh_def finish_remote_status_refresh_if_pending_def Let_def)
  have "list_all (\<lambda>e. asked (Core e) = None) (snd (reduce_remote s b))"
    by (cases b) (simp_all add: remote_handler_defs set_remote_enabled_def refresh Let_def case_prod_beta
        split: option.split remote_control_busy.split)
  then show ?thesis using Remote(2) by (metis snd_conv)
next
  case (Timeline b)
  then show ?thesis
    by (cases b) (auto simp: load_more_timeline_def timeline_loaded_def timeline_failed_def
        thread_token_usage_updated_def timeline_delta_def upsert_timeline_item_def
        timeline_item_completed_def Let_def case_prod_beta split: option.splits if_splits)
next
  case (Turn b)
  have "list_all (\<lambda>e. asked (Core e) = None) (snd (schedule_goal_continuation i s))" for i s
    by (simp add: schedule_goal_continuation_def Let_def)
  then have "list_all (\<lambda>e. asked (Core e) = None) (snd (reduce_turn s b))"
    by (cases b) (simp_all add: turn_handler_defs Let_def case_prod_beta split: option.split)
  then show ?thesis using Turn(2) by (metis snd_conv)
next
  case (Goal b)
  have "list_all (\<lambda>e. asked (Core e) = None) (snd (schedule_goal_continuation i s))" for i s
    by (simp add: schedule_goal_continuation_def Let_def)
  then have "list_all (\<lambda>e. asked (Core e) = None) (snd (reduce_goal s b))"
    by (cases b) (simp_all add: goal_handler_defs Let_def case_prod_beta split: option.split)
  then show ?thesis using Goal(2) by (metis snd_conv)
next
  case (Request b)
  have "list_all (\<lambda>e. asked (Core e) = None) (snd (reduce_request s b))"
    by (cases b) (simp_all add: approval_requested_def resolve_approval_def user_input_requested_def
        resolve_user_input_def Let_def split: option.split)
  then show ?thesis using Request(2) by (metis snd_conv)
next
  case (Terminal b)
  have "list_all (\<lambda>e. asked (Core e) = None) (snd (reduce_terminal s b))"
    by (cases b) (simp_all add: terminal_handler_defs Let_def split: option.split)
  then show ?thesis using Terminal(2) by (metis snd_conv)
next
  case (Task_List b)
  have all: "list_all (\<lambda>e. asked (Core e) = None) (snd (resume_all is s))" for "is" s
    by (induction "is" arbitrary: s) (simp_all add: resume_task_effect_def Let_def case_prod_beta)
  have "list_all (\<lambda>e. asked (Core e) = None) (snd (reduce_task_list s b))"
    by (cases b) (simp_all add: task_list_handler_defs all Let_def case_prod_beta split: option.split)
  then show ?thesis using Task_List(2) by (metis snd_conv)
next
  case (Process b)
  have "list_all (\<lambda>e. asked (Core e) = None) (snd (reduce_process s b))"
    by (cases b) (simp_all add: process_handler_defs Let_def split: option.split)
  then show ?thesis using Process(2) by (metis snd_conv)
next
  case (Account b)
  have "list_all (\<lambda>e. asked (Core e) = None) (snd (reduce_account s b))"
    by (cases b) (simp_all add: account_handler_defs Let_def split: option.split)
  then show ?thesis using Account(2) by (metis snd_conv)
next
  case (Composer b)
  have "snd (reduce_composer s b) = []"
    by (cases b) (simp_all add: composer_submission_failed_def composer_changed_def add_composer_attachments_def
        remove_composer_attachment_def toggle_plan_mode_def toggle_goal_mode_def Let_def case_prod_beta)
  then show ?thesis using Composer(2) by (metis list.pred_inject(1) snd_conv)
qed

subsection \<open>Managed permissions\<close>

text \<open>The modes on offer change only when the permission profiles are loaded.\<close>

fun loads :: "client_action \<Rightarrow> bool" where
  "loads (On_Settings a) = loads_profiles a"
| "loads _ = False"

definition modes :: "client_state \<Rightarrow> permission_mode_option list" where
  "modes c = cc_permission_modes (composer_controls (core c))"

lemma choices_modes:
  "choices (composer_controls (core c')) = choices (composer_controls (core c)) \<Longrightarrow> modes c' = modes c"
  by (simp add: choices_def modes_def)

lemma new_chat_modes: "modes (fst (prepare_new_chat cwd c)) = modes c"
  by (simp add: modes_def new_chat_controls modes_kept)

lemma controls_modes: "composer_controls (core c') = composer_controls (core c) \<Longrightarrow> modes c' = modes c"
  by (simp add: modes_def)

lemma selection_modes: "modes (fst (reduce_selection c a)) = modes c"
proof -
  have plain: "modes (fst (new_chat_task_created t g c)) = modes c" "modes (fst (fork_task_completed r t e c)) = modes c"
    "modes (fst (tasks_loaded g ts n b c)) = modes c" "modes (fst (open_background_completion c)) = modes c"
    for t g r e ts n b
    by (auto intro!: controls_modes simp: new_chat_task_created_def fork_task_completed_def tasks_loaded_def
        open_background_completion_def case_prod_beta Let_def split: option.split list.split)
  have known: "modes (remember_local_project p c) = modes c" for p by (simp add: modes_def)
  show ?thesis
  proof (cases a)
    case (SelectComposerWorkspace p)
    then show ?thesis
      by (auto intro!: controls_modes simp: select_composer_workspace_def set_client_message_def
          case_prod_beta Let_def)
  next
    case (RemoveLocalProject p)
    then show ?thesis
      by (auto intro!: controls_modes simp: remove_local_project_def set_client_message_def case_prod_beta Let_def)
  next
    case (SelectWorkspace p)
    then show ?thesis
      by (simp add: select_workspace_def case_prod_beta Let_def new_chat_modes known)
        (simp add: set_client_message_def modes_def)
  next
    case (UseGitWorktree p)
    then show ?thesis
      by (simp add: use_git_worktree_def new_chat_modes) (simp add: set_client_message_def modes_def)
  qed (auto intro!: controls_modes simp: plain begin_new_chat_def new_chat_modes rename_local_project_def
      toggle_local_project_pinned_def open_local_project_def set_client_message_def case_prod_beta Let_def
      split: option.split)
qed

lemma submit_modes: "modes (fst (reduce_submit c a)) = modes c"
proof (cases a)
  case SubmitComposer
  have "modes (fst (on_core f c)) = modes c" if "choices (composer_controls (fst (f (core c)))) = choices (composer_controls (core c))"
    for f using that by (intro choices_modes) simp
  moreover have "modes (fst (on_client g c)) = modes c"
    if "choices (composer_controls (fst (g (core c)))) = choices (composer_controls (core c))"
    for g using that by (intro choices_modes) simp
  moreover have "modes (update_core (compose_error m) c) = modes c" for m by (simp add: modes_def compose_error_def)
  ultimately show ?thesis using SubmitComposer
    by (simp add: submit_composer_def begin_new_chat_def new_chat_modes submit_parts_controls Let_def
        split: option.split)
qed (auto intro!: controls_modes simp: edit_last_user_message_def cancel_last_user_message_edit_def
    last_user_message_rollback_applied_def last_user_message_edit_succeeded_def
    last_user_message_edit_failed_def compact_thread_failed_def thread_shell_command_failed_def
    update_edit_def Let_def split: option.split sum.split)

context client_panel
begin

lemma panel_modes: "modes (fst (step c a)) = modes c"
  by (simp add: modes_def panel_controls)

end

lemma review_modes: "modes (fst (reduce_review c a)) = modes c"
  by (rule controls_modes) (rule review_controls)

lemma client_modes: "\<not> loads a \<Longrightarrow> modes (fst (client_step std c a)) = modes c"
proof (cases a)
  case (On_App b)
  show ?thesis
  proof (cases "reduce_app (core c) b")
    case None
    with On_App show ?thesis by (simp add: client_step_def)
  next
    case (Some r)
    then obtain s es where r: "reduce_app (core c) b = Some (s, es)" by (cases r) simp
    with On_App show ?thesis using choices_modes [of "with_core s c" c] app_choices [OF r]
      by (simp add: client_step_def)
  qed
next
  case (On_Settings b)
  moreover assume "\<not> loads a"
  ultimately show ?thesis using modes_kept_step by (simp add: client_step_def modes_def)
next
  case (On_Connection b)
  then show ?thesis using choices_modes [OF connection_choices] by (simp add: client_step_def)
next
  case (On_Ask b)
  then show ?thesis using elicitation_core(2) [of "std_parse_f64 std" "asks c" b]
    by (simp add: client_step_def case_prod_beta modes_def)
qed (simp_all add: client_step_def selection_modes submit_modes review_modes inbox.panel_modes
    computer.panel_modes importing.panel_modes personal.panel_modes)

lemma permission_mode_managed:
  assumes "modes_managed ps r c" and "permission_mode (composer_controls (core c)) = Some m"
  shows "mode_managed ps r m"
  using assms by (auto simp: permission_mode_def modes_managed_def list_all_iff bind_eq_Some_conv dest!: find_SomeD)

lemma request_managed:
  assumes "modes_managed ps r c"
  shows "asks_managed ps r (StartTurn i g (turn_request_of (composer_controls (core c)) text as plan goal))"
    and "asks_managed ps r (CreateTask cwd g (turn_request_of (composer_controls (core c)) text as plan goal) m n)"
    and "asks_managed ps r (client_effect.EditLastUserMessage i u b
          (turn_request_of (composer_controls (core c)) text as plan goal))"
  using permission_mode_managed [OF assms]
  by (cases "permission_mode (composer_controls (core c))";
      simp add: asks_managed_def turn_request_of_def mode_managed_def)+

lemma settings_managed:
  assumes "modes_managed ps r c"
  shows "list_all (asks_managed ps r) (snd (reduce_settings c a))"
proof -
  have sent: "list_all (asks_managed ps r) (snd (update_thread_settings i m e t mode c'))"
    if "option_all (mode_managed ps r) mode" for i m e t mode c'
    using that by (cases mode) (simp_all add: update_thread_settings_def case_prod_beta asks_managed_def mode_managed_def)
  have found: "mode_managed ps r m" if "find (\<lambda>m. pm_id m = i \<and> pm_allowed m) (cc_permission_modes (composer_controls (core c))) = Some m" for i m
    using assms find_SomeD [OF that] by (simp add: modes_managed_def list_all_iff)
  have refresh: "list_all (\<lambda>e. asked (Core e) = None) (snd (begin_remote_status_refresh s))" for s
    by (simp add: begin_remote_status_refresh_def Let_def)
  show ?thesis
  proof (cases a)
    case (SelectPermissionMode i)
    then show ?thesis
      by (auto simp: select_permission_mode_def Let_def sent found split: option.split)
  next
    case (PermissionProfilesLoaded ps' r')
    show ?thesis using refresh unfolding PermissionProfilesLoaded reduce_settings.simps
      by (simp add: on_core_def permission_profiles_loaded_def case_prod_beta Let_def list_all_iff)
  qed (simp_all add: refresh_models_def models_loaded_def models_failed_def composer_defaults_loaded_def
      composer_defaults_write_failed_def select_model_def select_reasoning_effort_def
      select_service_tier_def dismiss_model_availability_nux_def task_settings_loaded_def
      thread_settings_update_failed_def resume_task_effect_def on_core_def sent case_prod_beta Let_def
      split: option.split)
qed

lemma resume_not_asked [simp]: "asked (Core (snd (resume_task_effect i s))) = None"
  by (simp add: resume_task_effect_def case_prod_beta Let_def)

lemma reload_plain:
  "list_all plain (snd (reload_skills cwds c))"
  "list_all plain (snd (clear_fuzzy_file_search c))"
  "plain (refresh_apps_effect b c)" "plain (refresh_installed_apps_effect b c)"
  "plain (snd (refresh_marketplace_effect cwds tab b b' c))"
  "plain (snd (refresh_mcp_servers_effect cwd c))"
  "plain (snd (refresh_skills_effect cwds b c))"
  "list_all plain (snd (prepare_new_chat p c))"
  "list_all plain (snd (task_created t c))"
  "list_all plain (snd (reload_workspace c))"
  "list_all plain (snd (reload_apps c))"
  "list_all plain (snd (load_goal_if_needed i c))"
  "list_all plain (snd (load_timeline_if_needed i c))"
  "option_all plain (snd (prepare_browser_effect i b c))"
  by (simp_all add: reload_skills_def clear_fuzzy_file_search_def refresh_apps_effect_def
      refresh_installed_apps_effect_def refresh_marketplace_effect_def refresh_mcp_servers_effect_def
      refresh_skills_effect_def refresh_composer_plugins_effect_def prepare_new_chat_def task_created_def
      reload_workspace_def reload_apps_def load_goal_if_needed_def load_timeline_if_needed_def
      prepare_browser_effect_def case_prod_beta Let_def
      split: option.split load_status.split)

lemma select_plain: "list_all plain (snd (select_task i c))"
proof -
  have browser: "list_all plain (case snd (prepare_browser_effect i False c) of None \<Rightarrow> [] | Some e \<Rightarrow> [e])" for c
    using reload_plain(14) [of i False c] by (cases "snd (prepare_browser_effect i False c)") simp_all
  show ?thesis
    by (simp add: select_task_def case_prod_beta Let_def reload_plain browser split: option.split)
qed

lemma selection_plain: "list_all plain (snd (reduce_selection c a))"
  by (cases a)
    (simp_all add: begin_new_chat_def select_workspace_def select_composer_workspace_def
      use_git_worktree_def rename_local_project_def toggle_local_project_pinned_def
      remove_local_project_def open_local_project_def local_projects_loaded_def
      new_chat_task_created_def fork_task_completed_def tasks_loaded_def open_background_completion_def
      change_fuzzy_file_search_def fuzzy_file_search_updated_def fuzzy_file_search_completed_def
      fuzzy_file_search_failed_def reload_plain select_plain case_prod_beta Let_def
      split: option.split list.split)

lemma modest_managed: "list_all modest es \<Longrightarrow> list_all (asks_managed ps r) es"
  by (simp add: list_all_iff modest_def)

lemmas plain_managed = modest_managed [OF list_plain_modest]

lemma submit_managed:
  assumes "modes_managed ps r c"
  shows "list_all (asks_managed ps r) (snd (reduce_submit c a))"
proof -
  note sent = request_managed [OF assms]
  have fork: "list_all (\<lambda>e. asked (Core e) = None) (snd (fork_task i w s))" for i w s
    by (simp add: fork_task_def start_next_worktree_fork_def Let_def split: option.split list.split)
  have parts: "list_all (asks_managed ps r) (snd (submit_goal m cwd v (core c)))"
    "list_all (asks_managed ps r) (snd (submit_message m cwd v (core c)))"
    "list_all (asks_managed ps r) (snd (submit_compact s))" "list_all (asks_managed ps r) (snd (submit_shell v s))"
    for m cwd v s
    by (simp_all add: submit_goal_def submit_message_def submit_compact_def submit_shell_def sent Let_def
        split: option.split)
  have "list_all (asks_managed ps r) (map Core (snd (submit_fork (core c))))"
    using fork by (simp add: submit_fork_def list_all_iff split: option.split)
  then show ?thesis
  proof (cases a)
    case (EditLastUserMessage i u v)
    then show ?thesis
      by (simp add: on_client_def edit_last_user_message_def sent case_prod_beta Let_def split: option.split sum.split)
  next
    case SubmitComposer
    assume "list_all (asks_managed ps r) (map Core (snd (submit_fork (core c))))"
    then show ?thesis
      using plain_managed [OF reload_plain(8)]
      by (simp add: SubmitComposer submit_composer_def begin_new_chat_def on_core_def on_client_def parts
          case_prod_beta Let_def split: option.split)
  qed (simp_all add: on_core_def case_prod_beta cancel_last_user_message_edit_def
      last_user_message_rollback_applied_def last_user_message_edit_succeeded_def
      last_user_message_edit_failed_def compact_thread_failed_def thread_shell_command_failed_def
      Let_def split: option.split)
qed

lemma connection_plain: "list_all plain (snd (reduce_connection c a))"
proof -
  have pins: "option_all (plain \<circ> Core) (load_pinned_tasks_effect s)" for s
    by (simp add: load_pinned_tasks_effect_def Let_def)
  have search: "list_all (plain \<circ> Core) (snd (resume_search s))" for s
    using pins [of s] by (cases "load_pinned_tasks_effect s") (simp_all add: resume_search_def Let_def)
  have parts: "list_all plain (snd (reload_all c))" "list_all plain (snd (resume_selected c))"
    "list_all plain (snd (load_marketplace_route_effect c))"
    "list_all plain (snd (load_pull_requests_route_effect c))" for c
    by (simp_all add: reload_all_def resume_selected_def load_marketplace_route_effect_def
        load_pull_requests_route_effect_def pull_request_search_effect_def resume_task_effect_def
        reload_plain case_prod_beta Let_def split: option.split marketplace_tab.split)
  show ?thesis
    using search
    by (cases a)
      (simp_all add: connect_def connected_def connection_lost_def connection_retry_scheduled_def
        connection_retry_started_def connection_failed_def task_runtime_loaded_def
        schedule_goal_continuation_def on_core_def parts list.pred_map case_prod_beta Let_def
        split: option.split connection_status.split)
qed

lemma review_plain: "list_all plain (snd (reduce_review c a))"
proof -
  have "list_all (\<lambda>e. asked (Core e) = None) (snd (turn_started t u s))"
    "list_all (\<lambda>e. asked (Core e) = None) (snd (refresh_tasks s))" for t u s
    by (simp_all add: turn_started_def refresh_tasks_def case_prod_beta Let_def)
  then have parts: "list_all (plain \<circ> Core) (snd (review_turn t u s))"
    "list_all (plain \<circ> Core) (snd (refresh_tasks s))" for t u s
    by (simp_all add: review_turn_def case_prod_beta comp_def)
  show ?thesis
    by (cases a)
      (simp_all add: start_review_def review_started_def review_start_failed_def archive_task_def
        task_archived_def on_core_def parts select_plain list.pred_map case_prod_beta Let_def split: option.split)
qed

lemma modes_managed_same: "modes c' = modes c \<Longrightarrow> modes_managed ps r c' = modes_managed ps r c"
  by (simp add: modes_managed_def modes_def)

lemma step_managed:
  assumes "modes_managed ps r c"
  shows "list_all (asks_managed ps r) (snd (client_step std c a))"
proof (cases a)
  case (On_App b)
  show ?thesis
  proof (cases "reduce_app (core c) b")
    case None
    with On_App show ?thesis by (simp add: client_step_def)
  next
    case (Some res)
    then obtain s es where r: "reduce_app (core c) b = Some (s, es)" by (cases res) simp
    have "list_all plain (map Core es)" using app_effect_not_asked [OF r] by (simp add: list_all_iff)
    with On_App r show ?thesis by (simp add: client_step_def plain_managed)
  qed
next
  case (On_Ask b)
  then show ?thesis by (simp add: client_step_def case_prod_beta list_all_iff)
qed (simp_all add: client_step_def settings_managed assms submit_managed
    plain_managed [OF selection_plain] plain_managed [OF connection_plain] plain_managed [OF review_plain]
    modest_managed [OF inbox.sends_modest] modest_managed [OF computer.sends_modest]
    modest_managed [OF importing.sends_modest] modest_managed [OF personal.sends_modest])

interpretation permissions: effect_safety "client_step std" "modes_managed ps r" "\<lambda>a. \<not> loads a"
    "asks_managed ps r" for std ps r
proof unfold_locales
  fix c a
  assume "modes_managed ps r c" "\<not> loads a"
  then show "modes_managed ps r (fst (client_step std c a))"
    using modes_managed_same [OF client_modes] by blast
qed (rule step_managed)


definition demo_profiles :: "permission_profile_option list" where
  "demo_profiles = [\<lparr>pp_id = '':workspace'', pp_description = None, pp_allowed = True\<rparr>]"

definition demo_requirements :: permission_requirements where
  "demo_requirements = \<lparr>pr_managed_allow_remote_control = None,
     pr_allowed_approval_policies = Some [''on-request''], pr_allowed_approvals_reviewers = None,
     pr_default_permissions = None\<rparr>"

definition managed_client :: client_state where
  "managed_client = fst (reduce_settings demo_client (PermissionProfilesLoaded demo_profiles demo_requirements))"

lemma managed_submission:
  "snd (submit_composer managed_client) =
     [StartTurn ''t'' 0 (turn_request_of (composer_controls (core managed_client)) ''hi''
        (composer_attachments (core managed_client)) False None)]"
proof -
  have kept: "composer (core managed_client) = composer (core demo_client)"
    "composer_attachments (core managed_client) = composer_attachments (core demo_client)"
    "selected_task_id (core managed_client) = selected_task_id (core demo_client)"
    "timelines (core managed_client) = timelines (core demo_client)"
    "review_start (core managed_client) = review_start (core demo_client)"
    "composer_draft_generation (core managed_client) = composer_draft_generation (core demo_client)"
    "cc_plan_mode (composer_controls (core managed_client)) = cc_plan_mode (composer_controls (core demo_client))"
    "cc_goal_mode (composer_controls (core managed_client)) = cc_goal_mode (composer_controls (core demo_client))"
    by (simp_all add: managed_client_def permission_profiles_loaded_def begin_remote_status_refresh_def
        on_core_def case_prod_beta Let_def)
  have demo: "timelines (core demo_client) = [''t'' \<mapsto> default_timeline\<lparr>tl_runtime_status_loaded := True\<rparr>]"
    "rv_pending (review_start (core demo_client)) = None" "composer_draft_generation (core demo_client) = 0"
    "\<not> cc_plan_mode (composer_controls (core demo_client))" "tl_active_turn_id default_timeline = None"
    by (simp_all add: demo_client_def default_state_defs)
  have t: "trim (composer (core managed_client)) = ''hi''" by (simp add: kept demo_draft demo_trim)
  have "shell_command ''hi'' = None" by (simp add: shell_command_def strip_prefix_def)
  then show ?thesis
    unfolding submit_composer_def Let_def t
    by (simp add: submit_message_def selected_thread_runtime_ready_def review_blocks_def take_draft_def
        on_client_def kept demo demo_draft Let_def)
qed


end
