(* ===== verification/Client_Runtime.thy ===== *)
theory Client_Runtime
  imports Client_Properties
begin

text \<open>
  The runtime of a task after the connection was lost: no action but the reply that loads it makes
  the state of a task known again, and until then no message, no steering and no compaction is sent.
\<close>

subsection \<open>Tasks whose runtime is known\<close>

definition known_within :: "str set \<Rightarrow> app_state \<Rightarrow> bool" where
  "known_within K s \<longleftrightarrow> (\<forall>i t. timelines s i = Some t \<longrightarrow> tl_runtime_status_loaded t \<longrightarrow> i \<in> K)"

lemma known_set_timeline:
  "known_within K s0 \<Longrightarrow> (tl_runtime_status_loaded v \<Longrightarrow> i \<in> K)
   \<Longrightarrow> known_within K (s\<lparr>timelines := (timelines s0)(i \<mapsto> v)\<rparr>)"
  by (simp add: known_within_def)

lemma known_timeline: "known_within K s \<Longrightarrow> timelines s i = Some t \<Longrightarrow> tl_runtime_status_loaded t \<Longrightarrow> i \<in> K"
  by (simp add: known_within_def)

lemma known_timeline_of: "known_within K s \<Longrightarrow> tl_runtime_status_loaded (timeline_of s i) \<Longrightarrow> i \<in> K"
  by (cases "timelines s i") (auto simp: known_within_def get_or_def default_timeline_def)

lemma known_timelines: "timelines s' = timelines s \<Longrightarrow> known_within K s' = known_within K s"
  by (simp add: known_within_def)

lemma flag_kept [simp]:
  "tl_runtime_status_loaded (end_turn v t) = tl_runtime_status_loaded t"
  "tl_runtime_status_loaded (drop_buffering v t) = tl_runtime_status_loaded t"
  "tl_runtime_status_loaded (update_buffering p f t) = tl_runtime_status_loaded t"
  "tl_runtime_status_loaded (agent_answered k u t) = tl_runtime_status_loaded t"
  "tl_runtime_status_loaded (push_item it t) = tl_runtime_status_loaded t"
  "tl_runtime_status_loaded (rebuild_item_indices t) = tl_runtime_status_loaded t"
  "tl_runtime_status_loaded (fst (trim_items n t)) = tl_runtime_status_loaded t"
  by (simp_all add: end_turn_def drop_buffering_def update_buffering_def agent_answered_def push_item_def
      trim_items_def rebuild_item_indices_def Let_def split: option.split)

lemma flag_update_item: "update_item_at n f t = Some t' \<Longrightarrow> tl_runtime_status_loaded t' = tl_runtime_status_loaded t"
  by (auto simp: update_item_at_def split: if_splits)

lemma known_update [simp]:
  "known_within K (s\<lparr>status_message := m\<rparr>) = known_within K s"
  "known_within K (s\<lparr>goals := g\<rparr>) = known_within K s"
  "known_within K (s\<lparr>tasks := ts\<rparr>) = known_within K s"
  "known_within K (s\<lparr>composer_controls := cc\<rparr>) = known_within K s"
  "known_within K (s\<lparr>background_completion_task_ids := ids\<rparr>) = known_within K s"
  "known_within K (set_task_status i st s) = known_within K s"
  "known_within K (restore_retry_prompt p s) = known_within K s"
  "known_within K (clear_unresolved_detached_review_terminal t u s) = known_within K s"
  "known_within K (record_pending_review_terminal t u s) = known_within K s"
  by (simp_all add: known_within_def set_task_status_def restore_retry_prompt_def Let_def)

lemma schedule_known: "known_within K s \<Longrightarrow> known_within K (fst (schedule_goal_continuation i s))"
  by (auto simp: schedule_goal_continuation_def Let_def intro!: known_set_timeline intro: known_timeline_of)

lemma turn_known:
  assumes "known_within K s"
  shows "known_within K (fst (reduce_turn s a))"
proof -
  have cur: "tl_runtime_status_loaded (timeline_of s i) \<Longrightarrow> i \<in> K" for i using assms by (rule known_timeline_of)
  have found: "timelines s i = Some t \<Longrightarrow> tl_runtime_status_loaded t \<Longrightarrow> i \<in> K" for i t
    using assms by (rule known_timeline)
  show ?thesis
    using assms
    by (cases a)
      (auto simp: turn_handler_defs Let_def case_prod_beta
        intro!: known_set_timeline schedule_known dest: found split: option.splits, (erule cur)+)
qed

lemma goal_known:
  assumes "known_within K s"
  shows "known_within K (fst (reduce_goal s a))"
proof -
  have cur: "tl_runtime_status_loaded (timeline_of s i) \<Longrightarrow> i \<in> K" for i using assms by (rule known_timeline_of)
  have found: "timelines s i = Some t \<Longrightarrow> tl_runtime_status_loaded t \<Longrightarrow> i \<in> K" for i t
    using assms by (rule known_timeline)
  show ?thesis
    using assms
    by (cases a)
      (auto simp: goal_loaded_def goal_load_failed_def goal_attachment_start_failed_def set_goal_def
        set_goal_status_def clear_goal_def goal_cleared_def goal_continuation_due_def
        goal_continuation_failed_def apply_thread_goal_snapshot_def Let_def case_prod_beta
        intro!: known_set_timeline schedule_known dest: found split: option.splits, (erule cur)+)
qed

lemma timeline_known:
  assumes "known_within K s" and "reduce_timeline s a = Some (s', es)"
  shows "known_within K s'"
  using assms
  by (cases a)
    (auto simp: load_more_timeline_def timeline_loaded_def timeline_failed_def thread_token_usage_updated_def
      timeline_delta_def upsert_timeline_item_def timeline_item_completed_def Let_def case_prod_beta
      intro!: known_set_timeline intro: known_timeline_of known_timeline
      dest!: flag_update_item split: option.splits if_splits)

lemma resume_known: "known_within K s \<Longrightarrow> known_within K (fst (resume_task_effect i s))"
  by (auto simp: resume_task_effect_def Let_def intro!: known_set_timeline)

lemma settings_generation_known:
  "known_within K s \<Longrightarrow> known_within K (fst (advance_task_settings_generation i s))"
  by (auto simp: advance_task_settings_generation_def Let_def intro!: known_set_timeline dest: known_timeline_of)

lemma task_list_known:
  assumes "known_within K s"
  shows "known_within K (fst (reduce_task_list s a))"
proof -
  have all: "known_within K (fst (resume_all ids s))" if "known_within K s" for ids s
    using that
  proof (induction ids arbitrary: s)
    case (Cons i ids)
    from Cons.IH [OF resume_known [OF Cons.prems]] show ?case by (simp add: case_prod_beta Let_def)
  qed simp
  have kept: "known_within K (s\<lparr>tasks := ts, status_message := m\<rparr>)" for ts m using assms by simp
  show ?thesis
  proof (cases "\<exists>ts b. a = LoadedTasksRestored ts b")
    case True
    then show ?thesis using assms all kept
      by (auto simp: loaded_tasks_restored_def Let_def case_prod_beta)
  next
    case False
    with assms show ?thesis
      by (cases a) (auto simp: task_list_handler_defs known_within_def Let_def split: option.split)
  qed
qed

lemma app_known:
  assumes "known_within K s" and "reduce_app s a = Some (s', es)"
  shows "known_within K s'"
proof -
  have same: "known_within K s'" if "e s' = e s" "\<And>s. timelines (e s) = timelines s" for e :: "app_state \<Rightarrow> app_state"
    using assms(1) known_timelines that by metis
  from assms(2) show ?thesis
  proof (cases rule: reduce_app_cases)
    case (Fork b)
    then have "s' = fst (reduce_fork s b)" by (metis fst_conv)
    then show ?thesis using same [of without_forks] fork_frame by simp
  next
    case (Remote b)
    then have "s' = fst (reduce_remote s b)" by (metis fst_conv)
    then show ?thesis using same [of without_remote] remote_frame by simp
  next
    case (Timeline b)
    then show ?thesis using timeline_known [OF assms(1)] by blast
  next
    case (Turn b)
    then have "s' = fst (reduce_turn s b)" by (metis fst_conv)
    then show ?thesis using turn_known [OF assms(1)] by simp
  next
    case (Goal b)
    then have "s' = fst (reduce_goal s b)" by (metis fst_conv)
    then show ?thesis using goal_known [OF assms(1)] by simp
  next
    case (Request b)
    then have "s' = fst (reduce_request s b)" by (metis fst_conv)
    then show ?thesis using same [of without_requests] request_frame by simp
  next
    case (Terminal b)
    then have "s' = fst (reduce_terminal s b)" by (metis fst_conv)
    then show ?thesis using same [of without_terminal] terminal_frame by simp
  next
    case (Task_List b)
    then have "s' = fst (reduce_task_list s b)" by (metis fst_conv)
    then show ?thesis using task_list_known [OF assms(1)] by simp
  next
    case (Process b)
    then have "s' = fst (reduce_process s b)" by (metis fst_conv)
    then show ?thesis using same [of without_processes] process_frame by simp
  next
    case (Account b)
    then have "s' = fst (reduce_account s b)" by (metis fst_conv)
    then show ?thesis using same [of without_account] account_frame by simp
  next
    case (Composer b)
    then have "s' = fst (reduce_composer s b)" by (metis fst_conv)
    then show ?thesis using same [of without_composer] composer_frame by simp
  qed
qed

lemma known_draft [simp]:
  "known_within K (with_controls f s) = known_within K s"
  "known_within K (advance_new_chat_draft_generation s) = known_within K s"
  "known_within K (leave_task s) = known_within K s"
  "known_within K (forget_drafts s) = known_within K s"
  "known_within K (advance_task_selection_generation s) = known_within K s"
  "known_within K (clear_pending_task_fork_status s) = known_within K s"
  "known_within K (apply_composer_settings cs s) = known_within K s"
  "known_within K (take_draft s) = known_within K s"
  "known_within K (compose_error m s) = known_within K s"
  "known_within K (leave_goal_mode s) = known_within K s"
  "known_within K (fst (begin_remote_status_refresh s)) = known_within K s"
  "known_within K (fst (fork_task i b s)) = known_within K s"
  "known_within K (list_searched_task i s) = known_within K s"
  "known_within K (list_tasks ts n a s) = known_within K s"
  "known_within K (s\<lparr>selected_task_id := sel\<rparr>) = known_within K s"
  "known_within K (s\<lparr>process_manager := pm\<rparr>) = known_within K s"
  "known_within K (s\<lparr>review_start := rs\<rparr>) = known_within K s"
  "known_within K (s\<lparr>composer := cp\<rparr>) = known_within K s"
  "known_within K (s\<lparr>composer_error := ce\<rparr>) = known_within K s"
  "known_within K (s\<lparr>remote_control := rc\<rparr>) = known_within K s"
  "known_within K (s\<lparr>connection := cn\<rparr>) = known_within K s"
  using arg_cong [OF fork_task_frame, of timelines i b s]
  by (simp_all add: known_within_def with_controls_def advance_new_chat_draft_generation_def
      advance_composer_draft_generation_def leave_task_def clear_active_composer_draft_def
      clear_pending_task_fork_status_def advance_task_selection_generation_def forget_drafts_def
      apply_composer_settings_def take_draft_def compose_error_def leave_goal_mode_def
      begin_remote_status_refresh_def list_searched_task_def list_tasks_def Let_def split: option.split)

lemma thread_settings_known:
  "known_within K (core c) \<Longrightarrow> known_within K (core (fst (update_thread_settings i m e t mode c)))"
  by (simp add: update_thread_settings_def case_prod_beta settings_generation_known)

lemma change_controls_known [simp]: "known_within K (core (change_controls f b c)) = known_within K (core c)"
  by (simp add: change_controls_def Let_def)

lemma settings_known: "known_within K (core c) \<Longrightarrow> known_within K (core (fst (reduce_settings c a)))"
  by (cases a)
    (simp_all add: refresh_models_def models_loaded_def models_failed_def composer_defaults_loaded_def
      permission_profiles_loaded_def
      composer_defaults_write_failed_def select_model_def dismiss_model_availability_nux_def
      select_reasoning_effort_def select_service_tier_def select_permission_mode_def
      task_settings_loaded_def thread_settings_update_failed_def thread_settings_known resume_known
      case_prod_beta Let_def split: option.split)

subsection \<open>Selecting, submitting and connecting\<close>

text \<open>The actions that bring the state of a task: its creation here and the reply that loads it.\<close>

fun reveals :: "str \<Rightarrow> client_action \<Rightarrow> bool" where
  "reveals i (On_Selection (TaskCreated t)) \<longleftrightarrow> ts_id t = i"
| "reveals i (On_Selection (NewChatTaskCreated t g)) \<longleftrightarrow> ts_id t = i"
| "reveals i (On_Selection (ForkTaskCompleted r t e)) \<longleftrightarrow> ts_id t = i"
| "reveals i (On_Connection (TaskRuntimeLoaded j g u r st)) \<longleftrightarrow> j = i"
| "reveals i a \<longleftrightarrow> False"

lemma known_record_task:
  "known_within K s \<Longrightarrow> ts_id t \<in> K \<Longrightarrow> known_within K (record_task_without_selecting t s)"
  by (auto simp: known_within_def record_task_without_selecting_def entry_or_def Let_def split: option.splits if_splits)

lemma known_views [simp]:
  "known_within K (core (clear_mcp_auth_for_context_change departing c)) = known_within K (core c)"
  "known_within K (settle_fork r s) = known_within K s"
  "known_within K (s\<lparr>tasks := ts, selected_task_id := sel, timelines := tm, goals := gs\<rparr>)
     = known_within K (s\<lparr>timelines := tm\<rparr>)"
  by (simp_all add: settle_fork_def known_within_def split: option.split)

lemma known_shown [simp]: "known_within K (core (show_task i b c)) = known_within K (core c)"
  by (simp add: show_task_def Let_def)

lemma leave_task_timelines [simp]: "timelines (leave_task s) = timelines s"
  by (simp add: leave_task_def clear_active_composer_draft_def advance_composer_draft_generation_def
      clear_pending_task_fork_status_def advance_task_selection_generation_def Let_def split: option.split)

lemma known_task_created:
  "known_within K (core c) \<Longrightarrow> ts_id t \<in> K \<Longrightarrow> known_within K (core (fst (task_created t c)))"
  by (auto simp: task_created_def case_prod_beta Let_def if_distrib [of core] intro!: known_set_timeline)

lemma known_new_chat [simp]: "known_within K (core (fst (prepare_new_chat cwd c))) = known_within K (core c)"
  by (simp add: prepare_new_chat_def case_prod_beta Let_def)

lemma known_loads:
  assumes "known_within K (core c)"
  shows "known_within K (core (fst (load_goal_if_needed i c)))"
    and "known_within K (core (fst (load_timeline_if_needed i c)))"
  using assms
  by (auto simp: load_goal_if_needed_def load_timeline_if_needed_def Let_def intro!: known_set_timeline
      intro: known_timeline_of)

lemma known_selected: "known_within K (core c) \<Longrightarrow> known_within K (core (fst (select_task i c)))"
  by (simp add: select_task_def case_prod_beta Let_def known_loads resume_known if_distrib [of fst]
      if_distrib [of core] split: option.split)

lemma selection_known:
  assumes "known_within (- {i}) (core c)" and "\<not> reveals i (On_Selection a)"
  shows "known_within (- {i}) (core (fst (reduce_selection c a)))"
  using assms
  by (cases a)
    (simp_all add: begin_new_chat_def select_workspace_def select_composer_workspace_def
      use_git_worktree_def rename_local_project_def toggle_local_project_pinned_def
      remove_local_project_def open_local_project_def set_client_message_def
      new_chat_task_created_def fork_task_completed_def tasks_loaded_def open_background_completion_def
      known_record_task known_task_created known_selected case_prod_beta Let_def
      if_distrib [of core] split: option.split list.split)

lemma core_on_client [simp]: "core (fst (on_client f c)) = fst (f (core c))" "snd (on_client f c) = snd (f (core c))"
  by (simp_all add: on_client_def case_prod_beta)

lemma known_edit: "known_within K s \<Longrightarrow> known_within K (update_edit i u f s)"
  by (auto simp: update_edit_def Let_def intro!: known_set_timeline dest: known_timeline_of split: option.splits if_splits)

lemma sent_timelines [simp]:
  "timelines (take_draft s) = timelines s" "timelines (leave_goal_mode s) = timelines s"
  by (simp_all add: take_draft_def leave_goal_mode_def)

lemma submit_known:
  assumes "known_within K (core c)"
  shows "known_within K (core (fst (reduce_submit c a)))"
proof -
  have cur: "tl_runtime_status_loaded (timeline_of (core c) i) \<Longrightarrow> i \<in> K" for i
    using assms by (rule known_timeline_of)
  have parts: "known_within K (fst (submit_fork (core c)))" "known_within K (fst (submit_compact (core c)))"
    "known_within K (fst (submit_shell v (core c)))" "known_within K (fst (submit_goal m p v (core c)))"
    "known_within K (fst (submit_message m p v (core c)))" for v m p
    using assms cur
    by (auto simp: submit_fork_def submit_compact_def submit_shell_def submit_goal_def submit_message_def
        goal_pending_def Let_def intro!: known_set_timeline
        split: option.split)
  show ?thesis
  proof (cases a)
    case SubmitComposer
    then show ?thesis using assms
      by (simp add: submit_composer_def begin_new_chat_def parts Let_def split: option.split)
  qed (use assms cur in \<open>auto simp: edit_last_user_message_def cancel_last_user_message_edit_def
      last_user_message_rollback_applied_def last_user_message_edit_succeeded_def
      last_user_message_edit_failed_def compact_thread_failed_def thread_shell_command_failed_def
      known_edit Let_def intro!: known_set_timeline split: option.split sum.split\<close>)
qed

lemma online_known [simp]:
  "known_within K (now_online s) = known_within K s"
  "known_within K (forget_transients s) = known_within K s"
  "known_within K (fst (resume_search s)) = known_within K s"
  by (rule known_timelines, simp add: now_online_def forget_transients_def resume_search_def Let_def)+

lemma known_routes [simp]:
  "known_within K (core (fst (reload_all c))) = known_within K (core c)"
  "known_within K (core (fst (load_marketplace_route_effect c))) = known_within K (core c)"
  "known_within K (core (fst (load_pull_requests_route_effect c))) = known_within K (core c)"
  by (simp_all add: reload_all_def load_marketplace_route_effect_def load_pull_requests_route_effect_def
      case_prod_beta Let_def split: option.split marketplace_tab.split)

lemma known_resume_selected:
  assumes "known_within K (core c)"
  shows "known_within K (core (fst (resume_selected c)))"
proof (cases "selected_task_id (core c)")
  case None
  with assms show ?thesis by (simp add: resume_selected_def)
next
  case (Some i)
  define s where "s = fst (resume_task_effect i (core c))"
  have s: "known_within K s" unfolding s_def using assms by (rule resume_known)
  define s2 where "s2 = set_goal_state i ((goal_of s i)\<lparr>gs_status := load_status.Loading\<rparr>) s"
  have s2: "known_within K s2" unfolding s2_def using s by simp
  have "fst (resume_selected c) = with_core (set_timeline i ((timeline_of s2 i)
      \<lparr>tl_generation := sat_succ (tl_generation (timeline_of s2 i)), tl_status := load_status.Loading,
        tl_next_cursor := None\<rparr>) s2) c"
    unfolding resume_selected_def Some s_def s2_def by (simp add: case_prod_beta Let_def)
  then show ?thesis using known_timeline_of [OF s2] by (auto intro!: known_set_timeline s2)
qed

lemma known_lost: "known_within K (core c) \<Longrightarrow> known_within K (core (fst (connection_lost c)))"
proof -
  assume "known_within K (core c)"
  have reset: "\<not> tl_runtime_status_loaded (reset_timeline t)" for t by (simp add: reset_timeline_def)
  show ?thesis
    using \<open>known_within K (core c)\<close> unfolding connection_lost_def Let_def
    by (simp add: known_within_def reset) (auto simp: forget_transients_def reset Let_def)
qed

lemma connection_known:
  assumes "known_within (- {i}) (core c)" and "\<not> reveals i (On_Connection a)"
  shows "known_within (- {i}) (core (fst (reduce_connection c a)))"
proof -
  have loaded: "known_within (- {i}) (fst (task_runtime_loaded j g u r st (core c)))" if "j \<noteq> i" for j g u r st
    using assms(1) that known_timeline_of [OF assms(1)]
    by (auto simp: task_runtime_loaded_def Let_def intro!: known_set_timeline schedule_known split: option.split)
  show ?thesis
    using assms loaded
    by (cases a)
      (simp_all add: connect_def connected_def connection_retry_scheduled_def known_lost known_resume_selected
        connection_retry_started_def connection_failed_def case_prod_beta Let_def
        split: option.split connection_status.split)
qed

lemma elicitation_known:
  "known_within K (el_core (fst (reduce_elicitation parse_f64 s b))) = known_within K (el_core s)"
proof -
  have site: "known_within K (el_core (fst (allow_site r o' s))) = known_within K (el_core s)"
    "known_within K (el_core (fst (change_permissions p s))) = known_within K (el_core s)" for r o' p s
    by (simp_all add: allow_site_def change_permissions_def)
  show ?thesis
    by (cases b;
        simp add: mcp_elicitation_requested_def mark_mcp_url_elicitation_opened_def resolve_mcp_elicitation_def
          resolve_browser_origin_elicitation_def resolve_browser_resource_elicitation_def
          browser_permissions_loaded_def set_browser_approval_mode_def set_browser_full_cdp_access_enabled_def
          upsert_browser_site_permission_def remove_browser_site_permission_def set_message_def site
          case_prod_beta Let_def
          split: option.split sum.split mcp_elicitation.split browser_origin_elicitation_decision.split)+
qed

context client_panel
begin

lemma panel_known: "known_within K (core (fst (step c a))) = known_within K (core c)"
  by (rule known_timelines) (rule panel_timelines)

end

lemma review_known:
  assumes "known_within K (core c)"
  shows "known_within K (core (fst (reduce_review c a)))"
proof -
  have started: "known_within K (fst (turn_started t u s))" if "known_within K s" for t u s
    using turn_known [OF that, of "TurnStarted t u"] by simp
  have turn: "known_within K (fst (review_turn t u s))" if "known_within K s" for t u s
    using started [OF that, of t u] known_timeline_of [OF started [OF that]]
    by (auto simp: review_turn_def case_prod_beta intro!: known_set_timeline)
  have same: "known_within K (review_error i m s) = known_within K s"
    "known_within K (unresolved_review i t u b s) = known_within K s"
    "known_within K (list_review_task task s) = known_within K s"
    "known_within K (fst (consume_pending_review_terminal t u s)) = known_within K s"
    "known_within K (fst (refresh_tasks s)) = known_within K s"
    "known_within K (s\<lparr>review_start := r\<rparr>) = known_within K s" for i m t u b s task r
    by (rule known_timelines, simp add: review_error_def unresolved_review_def list_review_task_def
        consume_pending_review_terminal_def refresh_tasks_def Let_def split: option.split)+
  have left: "known_within K (clear_active_composer_draft ((clear_pending_task_fork_status
      (advance_task_selection_generation s))\<lparr>selected_task_id := None\<rparr>)) = known_within K s" for s
    by (rule known_timelines, simp add: clear_active_composer_draft_def clear_pending_task_fork_status_def
        advance_task_selection_generation_def advance_composer_draft_generation_def Let_def)
  have forgotten: "known_within K (forget_task i s)" if "known_within K s" for i s
    using that by (auto simp: known_within_def forget_task_def Let_def split: option.split)
  show ?thesis
    using assms
    by (cases a)
      (simp_all add: start_review_def review_started_def review_start_failed_def archive_task_def
        task_archived_def set_client_message_def same turn known_selected forgotten left case_prod_beta Let_def
        split: option.split)
qed

lemma client_known:
  assumes "known_within (- {i}) (core c)" and "\<not> reveals i a"
  shows "known_within (- {i}) (core (fst (client_step std c a)))"
proof (cases a)
  case (On_App b)
  show ?thesis
  proof (cases "reduce_app (core c) b")
    case None
    with On_App assms show ?thesis by (simp add: client_step_def)
  next
    case (Some r)
    then obtain s es where r: "reduce_app (core c) b = Some (s, es)" by (cases r) simp
    from app_known [OF assms(1) r] On_App r show ?thesis by (simp add: client_step_def)
  qed
next
  case (On_Ask b)
  have "known_within (- {i}) (el_core (fst (reduce_elicitation (std_parse_f64 std) (asks c) b)))"
    using assms(1) unfolding core_def elicitation_known .
  with On_Ask show ?thesis by (simp add: client_step_def case_prod_beta)
qed (use assms in \<open>simp_all add: client_step_def settings_known selection_known submit_known connection_known
    review_known inbox.panel_known computer.panel_known importing.panel_known personal.panel_known\<close>)

subsection \<open>No work for a task whose state is unknown\<close>

definition idle_for :: "str \<Rightarrow> client_effect \<Rightarrow> bool" where
  "idle_for i e \<longleftrightarrow> talks_to e \<noteq> Some i"

lemma unknown_not_ready:
  assumes "known_within (- {i}) s"
  shows "timelines s i = Some t \<Longrightarrow> \<not> tl_runtime_status_loaded t"
    and "selected_task_id s = Some i \<Longrightarrow> \<not> selected_thread_runtime_ready s"
  using known_timeline [OF assms, of i]
  by (auto simp: selected_thread_runtime_ready_def split: option.split)

lemma modest_idle: "list_all modest es \<Longrightarrow> list_all (idle_for i) es"
  by (simp add: list_all_iff modest_def idle_for_def)

lemmas plain_idle = modest_idle [OF list_plain_modest]

lemma core_idle [simp]: "idle_for i (Core e)" "idle_for i (Ask q)"
  by (simp_all add: idle_for_def)

lemma submit_idle:
  assumes "known_within (- {i}) (core c)"
  shows "list_all (idle_for i) (snd (reduce_submit c a))"
proof -
  note not_ready = unknown_not_ready [OF assms]
  have parts: "list_all (idle_for i) (snd (submit_compact (core c)))"
    "list_all (idle_for i) (snd (submit_shell v (core c)))"
    "list_all (idle_for i) (snd (submit_goal m p v (core c)))"
    "list_all (idle_for i) (snd (submit_message m p v (core c)))" for v m p
    using not_ready
    by (auto simp: submit_compact_def submit_shell_def submit_goal_def submit_message_def
        goal_submission_error_def idle_for_def Let_def split: option.splits if_splits)
  have core: "list_all (idle_for i) (map Core es)" for es by (simp add: list_all_iff)
  show ?thesis
  proof (cases a)
    case SubmitComposer
    then show ?thesis
      using plain_idle [OF reload_plain(8)]
      by (simp add: submit_composer_def begin_new_chat_def parts on_core_def core case_prod_beta Let_def
          split: option.split)
  next
    case (EditLastUserMessage j u v)
    then show ?thesis
      by (simp add: edit_last_user_message_def idle_for_def Let_def split: option.split sum.split)
  qed (simp_all add: on_core_def core case_prod_beta)
qed

lemma settings_idle: "list_all (idle_for i) (snd (reduce_settings c a))"
proof -
  have core: "list_all (idle_for i) (map Core es)" for es by (simp add: list_all_iff)
  have sent: "list_all (idle_for i) (snd (update_thread_settings j m e t mode c'))" for j m e t mode c'
    by (simp add: update_thread_settings_def case_prod_beta)
  show ?thesis
    by (cases a)
      (simp_all add: refresh_models_def models_loaded_def models_failed_def composer_defaults_loaded_def
        composer_defaults_write_failed_def select_model_def select_reasoning_effort_def
        select_service_tier_def select_permission_mode_def dismiss_model_availability_nux_def
        task_settings_loaded_def thread_settings_update_failed_def on_core_def core sent idle_for_def
        case_prod_beta Let_def split: option.split)
qed

lemma step_idle:
  assumes "known_within (- {i}) (core c)"
  shows "list_all (idle_for i) (snd (client_step std c a))"
proof (cases a)
  case (On_App b)
  then show ?thesis
    by (cases "reduce_app (core c) b") (auto simp: client_step_def list_all_iff)
next
  case (On_Ask b)
  then show ?thesis by (simp add: client_step_def case_prod_beta list_all_iff)
qed (simp_all add: client_step_def settings_idle submit_idle assms
    plain_idle [OF selection_plain] plain_idle [OF connection_plain] plain_idle [OF review_plain]
    modest_idle [OF inbox.sends_modest] modest_idle [OF computer.sends_modest]
    modest_idle [OF importing.sends_modest] modest_idle [OF personal.sends_modest])

interpretation unknown: effect_safety "client_step std" "\<lambda>c. known_within (- {i}) (core c)"
    "\<lambda>a. \<not> reveals i a" "idle_for i" for std i
  by unfold_locales (rule client_known step_idle, assumption+)+

lemma lost_unknown:
  assumes "\<not> is_connecting (connection (core c))"
  shows "known_within {} (core (fst (connection_lost c)))"
proof -
  have "\<not> tl_runtime_status_loaded (reset_timeline t)" for t by (simp add: reset_timeline_def)
  moreover have "\<not> is_connecting (connection (forget_transients (core c)))"
    using assms by (simp add: forget_transients_def Let_def)
  ultimately show ?thesis unfolding connection_lost_def Let_def
    by (auto simp: known_within_def)
qed



end
