(* ===== verification/Panel_Properties.thy ===== *)
theory Panel_Properties
  imports Client_Properties
begin

text \<open>
  What the user can rely on in the components beside the tasks: input into a window of the computer
  only after consent, changes of a pull request exactly when they are permitted, and imports that end
  once everything awaited has been reported.
\<close>

subsection \<open>Input into windows\<close>

definition app_allowed :: "str list \<Rightarrow> str option \<Rightarrow> bool" where
  "app_allowed ids app =
     (case app of None \<Rightarrow> False | Some a \<Rightarrow> list_ex (\<lambda>configured. computer_app_id_matches configured a) ids)"

fun consents :: "str \<Rightarrow> client_action \<Rightarrow> bool" where
  "consents i (On_Computer (AuthorizeComputerInputForSession j authorized)) \<longleftrightarrow> j = i \<and> authorized"
| "consents i (On_Computer (ComputerUseAppAuthorized j app always)) \<longleftrightarrow> j = i \<or> always"
| "consents i (On_Computer (ComputerUsePolicyLoaded ids)) \<longleftrightarrow> True"
| "consents i _ \<longleftrightarrow> False"

fun input_allowed :: "str \<Rightarrow> str list \<Rightarrow> client_effect \<Rightarrow> bool" where
  "input_allowed i ids (ConfigureComputerUse j enabled window app authorized) =
     (if j = i \<and> authorized then app_allowed ids app else True)"
| "input_allowed i ids _ = True"

definition consented :: "str \<Rightarrow> str list \<Rightarrow> client_state \<Rightarrow> bool" where
  "consented i ids c \<longleftrightarrow>
     set (us_always_allowed_app_ids (computer_use_settings c)) \<subseteq> set ids
     \<and> (cu_input_authorized (computer_of c i) \<longrightarrow> app_allowed ids (cu_selected_application_id (computer_of c i)))"

lemma not_sets_input [simp]: "\<not> sets_input e \<Longrightarrow> input_allowed i ids e"
  by (cases e) simp_all

lemma plain_input: "list_all plain es \<Longrightarrow> list_all (input_allowed i ids) es"
  by (simp add: list_all_iff plain_def)

lemma core_input [simp]: "list_all (input_allowed i ids) (map Core es)"
  by (simp add: list_all_iff)

lemma consented_panels: "panels c' = panels c \<Longrightarrow> consented i ids c' = consented i ids c"
  by (simp add: consented_def panels_def computer_of_def)

lemma consented_around: "around c' = around c \<Longrightarrow> consented i ids c' = consented i ids c"
  by (rule consented_panels) (simp add: around_def)

lemma connection_panels: "panels (fst (reduce_connection c a)) = panels c"
  using connection_around [of c a] by (auto simp: around_def)

lemma archived_consented: "consented i ids c \<Longrightarrow> consented i ids (fst (task_archived j c))"
  using archived_around [of j c]
  by (auto simp: consented_def around_def panels_def computer_of_def get_or_def default_computer_use_def
      split: option.split)

lemma review_consented: "consented i ids c \<Longrightarrow> consented i ids (fst (reduce_review c a))"
proof (cases "\<exists>j. a = TaskArchived j")
  case True
  moreover assume "consented i ids c"
  ultimately show ?thesis using archived_consented by auto
next
  case False
  moreover assume "consented i ids c"
  ultimately show ?thesis using consented_around [OF review_around] by blast
qed

lemma computer_of_set [simp]: "computer_of (set_computer j u c) i = (if i = j then u else computer_of c i)"
  by (simp add: computer_of_def set_computer_def get_or_def)

lemma computer_of_kept [simp]:
  "computer_of (c\<lparr>computer_use_settings := p\<rparr>) i = computer_of c i"
  "computer_of (set_client_message m c) i = computer_of c i"
  "computer_use_settings (set_computer j u c) = computer_use_settings c"
  "computer_use_settings (set_client_message m c) = computer_use_settings c"
  by (simp_all add: computer_of_def set_computer_def set_client_message_def update_core_def)

lemma selected_app_allowed:
  "set (us_always_allowed_app_ids (computer_use_settings c)) \<subseteq> set ids \<Longrightarrow> always_allowed c app
   \<Longrightarrow> app_allowed ids (Some app)"
  by (auto simp: always_allowed_def app_allowed_def list_ex_iff)

lemma computer_consented:
  assumes "consented i ids c" and "\<not> consents i (On_Computer a)"
  shows "consented i ids (fst (reduce_computer lower c a)) \<and> list_all (input_allowed i ids) (snd (reduce_computer lower c a))"
  using assms selected_app_allowed [of c ids]
  by (cases a)
    (auto simp: consented_def computer_handler_defs configure_def settle_removal_def Let_def split: option.split)

lemma personal_input: "consented i ids (fst (reduce_personalization first_key c a)) = consented i ids c"
  by (cases a)
    (simp_all add: personalization_handler_defs set_new_chat_preferences_def consented_def computer_of_def
      set_client_message_def update_core_def Let_def split: option.split)

lemma settings_input: "list_all (input_allowed i ids) (snd (reduce_settings c a))"
proof -
  have sent: "list_all (input_allowed i ids) (snd (update_thread_settings j m e t mode c'))" for j m e t mode c'
    by (simp add: update_thread_settings_def case_prod_beta)
  show ?thesis
    by (cases a)
      (simp_all add: refresh_models_def models_loaded_def models_failed_def composer_defaults_loaded_def
        composer_defaults_write_failed_def select_model_def select_reasoning_effort_def
        select_service_tier_def select_permission_mode_def dismiss_model_availability_nux_def
        task_settings_loaded_def thread_settings_update_failed_def permission_profiles_loaded_def
        resume_task_effect_def on_core_def sent case_prod_beta Let_def split: option.split)
qed

lemma submit_input: "list_all (input_allowed i ids) (snd (reduce_submit c a))"
proof -
  have parts: "list_all (input_allowed i ids) (snd (submit_goal m cwd v s))"
    "list_all (input_allowed i ids) (snd (submit_message m cwd v s))"
    "list_all (input_allowed i ids) (snd (submit_compact s))" "list_all (input_allowed i ids) (snd (submit_shell v s))"
    for m cwd v s
    by (simp_all add: submit_goal_def submit_message_def submit_compact_def submit_shell_def Let_def
        split: option.split)
  show ?thesis
  proof (cases a)
    case SubmitComposer
    then show ?thesis using plain_input [OF reload_plain(8)]
      by (simp add: submit_composer_def begin_new_chat_def on_core_def on_client_def parts case_prod_beta Let_def
          split: option.split)
  qed (simp_all add: on_core_def on_client_def edit_last_user_message_def cancel_last_user_message_edit_def
      last_user_message_rollback_applied_def last_user_message_edit_succeeded_def
      last_user_message_edit_failed_def compact_thread_failed_def thread_shell_command_failed_def parts
      case_prod_beta Let_def split: option.split sum.split)
qed

interpretation input: effect_safety "client_step std" "consented i ids" "\<lambda>a. \<not> consents i a"
    "input_allowed i ids" for std i ids
proof unfold_locales
  fix c a
  assume start: "consented i ids c" and asked: "\<not> consents i a"
  show "consented i ids (fst (client_step std c a))"
  proof (cases a)
    case (On_App b)
    have "consented i ids (with_core s c) = consented i ids c" for s by (rule consented_around) simp
    with On_App start show ?thesis by (simp add: client_step_def split: option.split prod.split)
  next
    case (On_Settings b)
    then show ?thesis using start consented_panels [OF conjunct2 [OF settings_questions [of c b]]] by (simp add: client_step_def)
  next
    case (On_Ask b)
    then show ?thesis using start
      by (simp add: client_step_def case_prod_beta consented_def computer_of_def)
  next
    case (On_Personal b)
    then show ?thesis using start by (simp add: client_step_def personal_input)
  qed (use start asked computer_consented in \<open>simp_all add: client_step_def review_consented
      consented_around [OF selection_around] consented_around [OF submit_around]
      consented_panels [OF connection_panels] consented_panels [OF inbox_panels]
      consented_panels [OF imports_panels]\<close>)
  show "list_all (input_allowed i ids) (snd (client_step std c a))"
  proof (cases a)
    case (On_App b)
    then show ?thesis by (simp add: client_step_def list_all_iff split: option.split prod.split)
  next
    case (On_Ask b)
    then show ?thesis by (simp add: client_step_def case_prod_beta list_all_iff)
  qed (use start asked computer_consented in \<open>simp_all add: client_step_def settings_input submit_input
      plain_input [OF selection_plain] plain_input [OF connection_plain] plain_input [OF review_plain]
      plain_input [OF inbox_plain] plain_input [OF imports_plain] plain_input [OF personal_plain]\<close>)
qed

text \<open>
  C6: without consent no input reaches a window. As long as the user neither authorises input for the
  task nor allows an application, and the policy is not loaded again, computer use of the task is
  configured with input only while the selected window belongs to an application that was always
  allowed at the start, whatever else the user and the server do.
\<close>

theorem computer_input_consented:
  assumes "run_client std c as = Some (c', es)" and "\<not> cu_input_authorized (computer_of c i)"
    and "list_all (\<lambda>a. \<not> consents i a) as"
  shows "list_all (input_allowed i (us_always_allowed_app_ids (computer_use_settings c))) es"
proof -
  have "consented i (us_always_allowed_app_ids (computer_use_settings c)) c"
    using assms(2) by (simp add: consented_def)
  from input.run_safe [OF this assms(3), of std] show ?thesis
    unfolding run_client_steps [OF assms(1)] by simp
qed

definition notes_app :: str where
  "notes_app = ''notes''"

definition noted_client :: client_state where
  "noted_client = default_client\<lparr>computer_use_settings :=
     (computer_use_settings default_client)\<lparr>us_always_allowed_app_ids := [notes_app]\<rparr>\<rparr>"

lemma computer_input_consented_witness:
  "\<exists>c' es. run_client ascii_std noted_client
       [On_Computer (ComputerUseAvailable ''t''), On_Computer (ToggleComputerUse ''t'' True),
        On_Computer (SelectComputerUseWindow ''t'' ''7'' ''Notes'' notes_app)] = Some (c', es)
     \<and> list_all (input_allowed ''t'' [notes_app]) es"
proof -
  let ?as = "[On_Computer (ComputerUseAvailable ''t''), On_Computer (ToggleComputerUse ''t'' True),
        On_Computer (SelectComputerUseWindow ''t'' ''7'' ''Notes'' notes_app)]"
  obtain c' es where r: "run_client ascii_std noted_client ?as = Some (c', es)" by (simp add: case_prod_beta)
  have "computer_use noted_client = Map.empty" "us_always_allowed_app_ids (computer_use_settings noted_client) = [notes_app]"
    by (simp_all add: noted_client_def default_client_def)
  moreover have "\<not> cu_input_authorized default_computer_use" by (simp add: default_computer_use_def)
  ultimately show ?thesis using computer_input_consented [OF r, of "''t''"] r
    by (simp add: computer_of_def get_or_def)
qed

subsection \<open>Changes of a pull request\<close>

definition comment_ok :: "str \<Rightarrow> bool" where
  "comment_ok body \<longleftrightarrow> length (chars (trim body)) \<le> MAX_GIT_PULL_REQUEST_BODY_CHARS \<and> CHR 0x00 \<notin> set (trim body)"

definition title_ok :: "str \<Rightarrow> bool" where
  "title_ok title \<longleftrightarrow>
     trim title \<noteq> [] \<and> length (chars (trim title)) \<le> MAX_GIT_PULL_REQUEST_TITLE_CHARS
     \<and> \<not> list_ex is_control (chars (trim title))"

text \<open>What a change needs of the pull request, without the order in which the code looks at it.\<close>

fun permitted :: "pull_request_mutation \<Rightarrow> pull_request_detail \<Rightarrow> bool" where
  "permitted (pull_request_mutation.Comment body) d \<longleftrightarrow> comment_ok body \<and> trim body \<noteq> []"
| "permitted (pull_request_mutation.Review event body) d \<longleftrightarrow>
     comment_ok body \<and> (event = pull_request_review_event.Approve \<or> trim body \<noteq> [])
     \<and> \<not> qs_is_author (qd_summary d)"
| "permitted (SetReviewState st) d \<longleftrightarrow>
     qs_is_author (qd_summary d) \<and> qs_state (qd_summary d) = pull_request_state.Open
     \<and> qs_is_draft (qd_summary d) = (st = pull_request_review_state.Ready)"
| "permitted (pull_request_mutation.EditTitle title) d \<longleftrightarrow>
     qs_is_author (qd_summary d) \<and> qs_state (qd_summary d) = pull_request_state.Open \<and> title_ok title"
| "permitted (pull_request_mutation.EditDescription body) d \<longleftrightarrow>
     qs_is_author (qd_summary d) \<and> qs_state (qd_summary d) = pull_request_state.Open \<and> \<not> body_invalid body"
| "permitted (pull_request_mutation.Merge method) d \<longleftrightarrow> ready_to_merge d"

lemma passed_permitted: "mutation_refused m d = None \<longleftrightarrow> permitted m d"
proof (cases m)
  case (SetReviewState st)
  then show ?thesis by (cases st) (auto simp: mutation_refused_def Let_def)
qed (auto simp: mutation_refused_def comment_ok_def title_ok_def body_invalid_def Let_def)

definition changeable :: "pull_request_mutation \<Rightarrow> client_state \<Rightarrow> bool" where
  "changeable m c \<longleftrightarrow>
     pq_pending_mutation (pull_requests c) = None
     \<and> (case pq_detail (pull_requests c) of
          None \<Rightarrow> False
        | Some d \<Rightarrow> pq_selected (pull_requests c) = Some (qs_identity (qd_summary d)) \<and> permitted m d
                     \<and> head_revision_ok (trim (qd_head_revision d)))"

text \<open>
  C7: a change of a pull request is sent exactly when no other change is pending, the details shown are
  those of the selected pull request, its rules permit the change and its head revision is known; it
  then names that pull request and that revision under a fresh generation and becomes the pending one.
\<close>

theorem pull_request_changes_checked:
  "snd (reduce_pull_request c (SubmitPullRequestMutation m)) =
     (if changeable m c
      then [MutatePullRequest (sat_succ (pq_mutation_generation (pull_requests c))) (pull_request_cwd c)
              (qs_identity (qd_summary (the (pq_detail (pull_requests c)))))
              (trim (qd_head_revision (the (pq_detail (pull_requests c))))) m]
      else [])
   \<and> pq_pending_mutation (pull_requests (fst (reduce_pull_request c (SubmitPullRequestMutation m)))) =
     (if changeable m c then Some (mutation_kind m) else pq_pending_mutation (pull_requests c))"
  by (auto simp: begin_pull_request_mutation_def mutation_error_def changeable_def Let_def
      passed_permitted [symmetric] split: option.split)

subsection \<open>Imports\<close>

text \<open>The reports of the server about imports that run.\<close>

fun import_report :: "import_action \<Rightarrow> bool" where
  "import_report (ExternalImportProgress i results) \<longleftrightarrow> True"
| "import_report (ExternalImportCompleted i results) \<longleftrightarrow> True"
| "import_report _ \<longleftrightarrow> False"

fun completed_ids :: "import_action list \<Rightarrow> str set" where
  "completed_ids [] = {}"
| "completed_ids (ExternalImportCompleted i results # as) = insert i (completed_ids as)"
| "completed_ids (_ # as) = completed_ids as"

definition reloads :: "client_state \<Rightarrow> client_effect list" where
  "reloads c = [DetectExternalAgentConfig (composer_workspace_roots c), LoadExternalAgentImportHistories]"

definition import_over :: "client_state \<Rightarrow> bool" where
  "import_over c \<longleftrightarrow> im_import_status (import_migration c) = load_status.Ready
     \<and> im_active_import_ids (import_migration c) = {}"

lemma roots_kept [simp]:
  "composer_workspace_roots (c\<lparr>import_migration := m\<rparr>) = composer_workspace_roots c"
  "composer_workspace_roots (update_core (status_message_update f) c) = composer_workspace_roots c"
  by (simp_all add: composer_workspace_roots_def set_client_message_def update_core_def selected_task_cwds_def
      Let_def cong: option.case_cong)

lemma over_state:
  "snd (imports_over c) = reloads c"
  "import_migration (fst (imports_over c)) = (import_migration c)\<lparr>im_import_status := load_status.Ready,
     im_detection_status := load_status.Loading, im_history_status := load_status.Loading,
     im_history_error := None\<rparr>"
  by (simp_all add: imports_over_def refresh_import_effects_def reloads_def Let_def)

lemma over_ignores:
  "import_over c \<Longrightarrow> list_all import_report as \<Longrightarrow> run reduce_import c as = (c, [])"
proof (induction as)
  case (Cons a as)
  then have "reduce_import c a = (c, [])"
    by (cases a) (simp_all add: external_import_progress_def external_import_completed_def import_awaited_def
        import_over_def)
  with Cons show ?case by simp
qed simp

lemma awaited_drain:
  "import_running c \<Longrightarrow> im_active_import_ids (import_migration c) \<noteq> {} \<Longrightarrow> list_all import_report as
   \<Longrightarrow> im_active_import_ids (import_migration c) \<subseteq> completed_ids as
   \<Longrightarrow> import_over (fst (run reduce_import c as)) \<and> snd (run reduce_import c as) = reloads c
       \<and> im_error (import_migration (fst (run reduce_import c as))) = im_error (import_migration c)"
proof (induction as arbitrary: c)
  case Nil
  then show ?case by simp
next
  case (Cons a as)
  consider (Progress) i rs where "a = ExternalImportProgress i rs" | (Done) i rs where "a = ExternalImportCompleted i rs"
    using Cons.prems(3) by (cases a) simp_all
  then show ?case
  proof cases
    case Progress
    define c1 where "c1 = fst (reduce_import c a)"
    have step: "reduce_import c a = (c1, [])"
      and same: "import_running c1 = import_running c"
        "im_active_import_ids (import_migration c1) = im_active_import_ids (import_migration c)"
        "im_error (import_migration c1) = im_error (import_migration c)" "reloads c1 = reloads c"
      by (simp_all add: c1_def Progress external_import_progress_def import_running_def reloads_def)
    from Cons.IH [of c1] Cons.prems step same Progress show ?thesis by (simp add: case_prod_beta)
  next
    case Done
    define c1 where "c1 = fst (reduce_import c a)"
    let ?rest = "im_active_import_ids (import_migration c) - {i}"
    have left: "?rest \<subseteq> completed_ids as" using Cons.prems(4) Done by auto
    show ?thesis
    proof (cases "?rest = {}")
      case True
      then have awaited: "import_awaited i c" using Cons.prems(1,2) by (auto simp: import_awaited_def)
      have step: "import_over c1" "snd (reduce_import c a) = reloads c"
        "im_error (import_migration c1) = im_error (import_migration c)"
        using True awaited
        by (simp_all add: c1_def Done external_import_completed_def import_over_def over_state reloads_def
            set_client_message_def Let_def)
      from over_ignores [OF step(1), of as] Cons.prems(3) step show ?thesis
        by (simp add: run_Cons_fst run_Cons_snd c1_def del: run.simps)
    next
      case False
      have step: "snd (reduce_import c a) = []" "import_running c1"
        "im_active_import_ids (import_migration c1) = ?rest"
        "im_error (import_migration c1) = im_error (import_migration c)" "reloads c1 = reloads c"
        using False Cons.prems(1,2)
        by (auto simp: c1_def Done external_import_completed_def import_awaited_def import_running_def
            reloads_def set_client_message_def Let_def)
      from Cons.IH [of c1] Cons.prems(3) step False left show ?thesis
        by (simp add: run_Cons_fst run_Cons_snd c1_def del: run.simps)
    qed
  qed
qed

definition awaited_of :: "started_import list \<Rightarrow> str set" where
  "awaited_of started = set (map is_import_id (filter is_wait_for_completion started))"


definition importing_client :: client_state where
  "importing_client = default_client\<lparr>import_migration :=
     (import_migration default_client)\<lparr>im_import_status := load_status.Loading\<rparr>\<rparr>"


subsection \<open>Where the handlers surprise\<close>

text \<open>A report that overtakes the list of the started imports is lost: the import then waits for ever.\<close>

lemma early_completion_lost:
  assumes "import_running c" and "started \<noteq> []" and "awaited_of started = {i}" and "im_active_import_ids (import_migration c) = {}"
  shows "import_running (fst (run reduce_import c [ExternalImportCompleted i results, ExternalImportsStarted started []]))"
  using assms
  by (simp add: external_import_completed_def import_awaited_def external_imports_started_def awaited_of_def
      import_running_def start_failure_def Let_def)

text \<open>All identifiers that are too long become the empty one, so allowing one of them allows another.\<close>

lemma long_ids_confused:
  assumes "MAX_COMPUTER_APP_ID_BYTES < length (lower (trim a))" and "MAX_COMPUTER_APP_ID_BYTES < length (lower (trim b))"
    and "cu_active (computer_of c i)"
  shows "cu_input_authorized (computer_of (fst (reduce_computer lower
     (fst (reduce_computer lower c (SelectComputerUseWindow i w t a))) (ComputerUseAppAuthorized i b False))) i)"
  using assms
  by (simp add: select_computer_use_window_def computer_use_app_authorized_def normalize_computer_app_id_def Let_def)

end
