(* ===== verification/Bridge_Frames.thy ===== *)
theory Bridge_Frames
  imports Rust_Text
begin

text \<open>
  The framing of the browser agent bridge (\<open>crates/codex-platform/src/browser_agent.rs\<close>): a
  message is its length as four bytes and the JSON text. A client is read in chunks of any size,
  decoded at most eight frames at a time, and written with partial writes. The JSON library is a
  parameter: \<open>parse\<close> stands for \<open>serde_json::from_slice\<close> and \<open>render\<close> for \<open>serde_json::to_vec\<close>
  (with \<open>None\<close> for an error). \<open>to_ne_bytes\<close> is written for little-endian machines, the only
  ones the program is built for; buffers are shorter than \<open>2 ^ 63\<close>, so additions do not saturate.
\<close>

type_synonym bytes = "char list"

definition MAX_BROWSER_AGENT_FRAME_BYTES :: nat where
  "MAX_BROWSER_AGENT_FRAME_BYTES = 8 * 1024 * 1024"

definition MAX_CLIENT_FRAMES_PER_TICK :: nat where
  "MAX_CLIENT_FRAMES_PER_TICK = 8"

definition MAX_CLIENT_READS_PER_TICK :: nat where
  "MAX_CLIENT_READS_PER_TICK = 8"

definition MAX_QUEUED_WRITE_BYTES :: nat where
  "MAX_QUEUED_WRITE_BYTES = 16 * 1024 * 1024"

definition SOCKET_WRITE_CHUNK_BYTES :: nat where
  "SOCKET_WRITE_CHUNK_BYTES = 64 * 1024"

datatype bridge_error =
    Frame_Too_Large
  | Frame_Not_Json
  | Response_Not_Json
  | Response_Too_Large
  | Queue_Full
  | Client_Closed
  | Stopped_Receiving
  | Write_Offset_Invalid
  | Stream_Failed

subsection \<open>Encoding and decoding\<close>

definition to_ne_bytes :: "nat \<Rightarrow> bytes" where
  "to_ne_bytes n =
     [char_of (n mod 256), char_of (n div 256 mod 256), char_of (n div 65536 mod 256),
      char_of (n div 16777216 mod 256)]"

definition from_ne_bytes :: "bytes \<Rightarrow> nat" where
  "from_ne_bytes b =
     byte (b ! 0) + 256 * byte (b ! 1) + 65536 * byte (b ! 2) + 16777216 * byte (b ! 3)"

definition encode_message :: "('v \<Rightarrow> bytes option) \<Rightarrow> 'v \<Rightarrow> bridge_error + bytes" where
  "encode_message render message =
     (case render message of
        None \<Rightarrow> Inl Response_Not_Json
      | Some payload \<Rightarrow>
          if length payload > MAX_BROWSER_AGENT_FRAME_BYTES then Inl Response_Too_Large
          else if length payload \<ge> 2 ^ 32 then Inl Response_Too_Large
          else Inr (to_ne_bytes (length payload) @ payload))"

text \<open>The buffer that is left, and the messages or the error. The first number is the limit.\<close>

fun decode_messages :: "(bytes \<Rightarrow> 'v option) \<Rightarrow> nat \<Rightarrow> bytes \<Rightarrow> bytes \<times> (bridge_error + 'v list)" where
  "decode_messages parse 0 buffer = (buffer, Inr [])"
| "decode_messages parse (Suc n) buffer =
     (if length buffer < 4 then (buffer, Inr [])
      else let len = from_ne_bytes (take 4 buffer)
           in if len > MAX_BROWSER_AGENT_FRAME_BYTES then (buffer, Inl Frame_Too_Large)
              else let frame_length = len + 4
                   in if length buffer < frame_length then (buffer, Inr [])
                      else let payload = take len (drop 4 buffer); rest = drop frame_length buffer
                           in case parse payload of
                                None \<Rightarrow> (rest, Inl Frame_Not_Json)
                              | Some message \<Rightarrow>
                                  (case decode_messages parse n rest of
                                     (b, Inl e) \<Rightarrow> (b, Inl e)
                                   | (b, Inr messages) \<Rightarrow> (b, Inr (message # messages))))"

subsection \<open>Reading a client\<close>

text \<open>What the nonblocking stream returns; \<open>Read []\<close> is \<open>Ok(0)\<close>.\<close>

datatype read_result = Read bytes | Read_Interrupted | Read_Would_Block | Read_Failed

text \<open>The read loop, at most as often as the first number says. The results the stream gives
  are a list; after its end the stream would block.\<close>

fun read_chunks :: "bool \<Rightarrow> nat \<Rightarrow> read_result list \<Rightarrow> bytes \<Rightarrow> bytes \<times> bridge_error option" where
  "read_chunks windows 0 results buffer = (buffer, None)"
| "read_chunks windows (Suc n) [] buffer = (buffer, None)"
| "read_chunks windows (Suc n) (Read chunk # results) buffer =
     (if chunk = [] then (buffer, if windows then None else Some Client_Closed)
      else if length buffer + length chunk > MAX_BROWSER_AGENT_FRAME_BYTES + 4
      then (buffer, Some Frame_Too_Large)
      else read_chunks windows n results (buffer @ chunk))"
| "read_chunks windows (Suc n) (Read_Interrupted # results) buffer =
     read_chunks windows n results buffer"
| "read_chunks windows (Suc n) (Read_Would_Block # results) buffer = (buffer, None)"
| "read_chunks windows (Suc n) (Read_Failed # results) buffer = (buffer, Some Stream_Failed)"

definition read_messages ::
  "(bytes \<Rightarrow> 'v option) \<Rightarrow> bool \<Rightarrow> read_result list \<Rightarrow> bytes \<Rightarrow> bytes \<times> (bridge_error + 'v list)" where
  "read_messages parse windows results buffer =
     (case read_chunks windows MAX_CLIENT_READS_PER_TICK results buffer of
        (b, Some e) \<Rightarrow> (b, Inl e)
      | (b, None) \<Rightarrow> decode_messages parse MAX_CLIENT_FRAMES_PER_TICK b)"

text \<open>The ticks of one client: the messages of all of them, up to the first error.\<close>

fun read_ticks ::
  "(bytes \<Rightarrow> 'v option) \<Rightarrow> bool \<Rightarrow> read_result list list \<Rightarrow> bytes \<Rightarrow> bytes \<times> (bridge_error + 'v list)" where
  "read_ticks parse windows [] buffer = (buffer, Inr [])"
| "read_ticks parse windows (results # ticks) buffer =
     (case read_messages parse windows results buffer of
        (b, Inl e) \<Rightarrow> (b, Inl e)
      | (b, Inr messages) \<Rightarrow>
          (case read_ticks parse windows ticks b of
             (b', Inl e) \<Rightarrow> (b', Inl e)
           | (b', Inr more) \<Rightarrow> (b', Inr (messages @ more))))"

subsection \<open>Writing to a client\<close>

record bridge_writes =
  bw_writes :: "bytes list"
  bw_write_offset :: nat
  bw_queued_write_bytes :: nat

definition enqueue ::
  "('v \<Rightarrow> bytes option) \<Rightarrow> 'v \<Rightarrow> bridge_writes \<Rightarrow> bridge_writes \<times> bridge_error option" where
  "enqueue render message w =
     (case encode_message render message of
        Inl e \<Rightarrow> (w, Some e)
      | Inr frame \<Rightarrow>
          if bw_queued_write_bytes w + length frame > MAX_QUEUED_WRITE_BYTES then (w, Some Queue_Full)
          else (w\<lparr>bw_queued_write_bytes := bw_queued_write_bytes w + length frame,
                  bw_writes := bw_writes w @ [frame]\<rparr>, None))"

text \<open>
  What the stream does with the bytes a write offers: it takes as many as it has room for
  (\<open>Write::write\<close> never takes more than it is offered), or fails.
\<close>

datatype write_result = Room nat | Write_Interrupted | Write_Would_Block | Write_Failed

text \<open>
  The write loop with the results the stream gives; after the end of the list it would block.
  The bytes are those the stream has taken.
\<close>

fun flush :: "bool \<Rightarrow> write_result list \<Rightarrow> bridge_writes \<Rightarrow> bridge_writes \<times> bytes \<times> bridge_error option" where
  "flush windows [] w =
     (if bw_writes w \<noteq> [] \<and> bw_write_offset w > length (hd (bw_writes w))
      then (w, [], Some Write_Offset_Invalid) else (w, [], None))"
| "flush windows (r # results) w =
     (case bw_writes w of
        [] \<Rightarrow> (w, [], None)
      | frame # frames \<Rightarrow>
          if bw_write_offset w > length frame then (w, [], Some Write_Offset_Invalid)
          else let remaining = drop (bw_write_offset w) frame;
                   offered = take (min (length remaining) SOCKET_WRITE_CHUNK_BYTES) remaining
               in case r of
                    Room n \<Rightarrow>
                      let written = min n (length offered)
                      in if written = 0 then (w, [], if windows then None else Some Stopped_Receiving)
                         else let w1 = w\<lparr>bw_write_offset := bw_write_offset w + written\<rparr>;
                                  w2 = (if bw_write_offset w1 = length frame
                                        then \<lparr>bw_writes = frames, bw_write_offset = 0,
                                              bw_queued_write_bytes =
                                                bw_queued_write_bytes w1 - length frame\<rparr>
                                        else w1);
                                  (w3, out, e) = flush windows results w2
                              in (w3, take written offered @ out, e)
                  | Write_Interrupted \<Rightarrow> flush windows results w
                  | Write_Would_Block \<Rightarrow> (w, [], None)
                  | Write_Failed \<Rightarrow> (w, [], Some Stream_Failed))"

subsection \<open>Binding a client to a session\<close>

definition MAX_BROWSER_CONTEXT_ID_BYTES :: nat where
  "MAX_BROWSER_CONTEXT_ID_BYTES = 256"

text \<open>The argument is \<open>params.get("session_id").and_then(Value::as_str)\<close>.\<close>

definition bind_session :: "str option \<Rightarrow> str option \<Rightarrow> str + str option" where
  "bind_session requested bound =
     (case requested of
        None \<Rightarrow> Inr bound
      | Some session_id \<Rightarrow>
          let session_id = trim session_id
          in if session_id = [] \<or> length session_id > MAX_BROWSER_CONTEXT_ID_BYTES
                \<or> list_ex is_control (chars session_id)
             then Inl ''Browser request included an invalid session_id''
             else if (case bound of None \<Rightarrow> False | Some current \<Rightarrow> current \<noteq> session_id)
             then Inl ''Browser session route changed on one bridge connection''
             else Inr (Some session_id))"

subsection \<open>Frames\<close>

lemma four_digits_base:
  fixes n :: nat
  assumes "n div b div b div b < b"
  shows "n mod b + b * (n div b mod b) + b * b * (n div b div b mod b)
    + b * b * b * (n div b div b div b mod b) = n"
proof -
  define q1 where "q1 = n div b"
  define q2 where "q2 = q1 div b"
  define q3 where "q3 = q2 div b"
  have "q3 mod b = q3" using assms by (simp add: q1_def q2_def q3_def)
  have n: "b * q1 + n mod b = n" unfolding q1_def by (rule mult_div_mod_eq)
  have q1: "b * q2 + q1 mod b = q1" unfolding q2_def by (rule mult_div_mod_eq)
  have q2: "b * q3 + q2 mod b = q2" unfolding q3_def by (rule mult_div_mod_eq)
  have "n = n mod b + b * (q1 mod b + b * (q2 mod b + b * q3))"
    using n q1 q2 by (simp add: add.commute)
  then show ?thesis
    using \<open>q3 mod b = q3\<close> unfolding q1_def [symmetric] q2_def [symmetric] q3_def [symmetric]
    by (simp add: algebra_simps)
qed

lemma length_to_ne_bytes [simp]: "length (to_ne_bytes n) = 4"
  by (simp add: to_ne_bytes_def)

lemma from_to_ne_bytes:
  assumes "n < 2 ^ 32"
  shows "from_ne_bytes (to_ne_bytes n) = n"
proof -
  have "n < 16777216 * 256" using assms by simp
  then have "n div 16777216 < 256" by (rule less_mult_imp_div_less [of n 256 16777216, unfolded mult.commute [of 256]])
  moreover have "n div 65536 = n div 256 div 256" "n div 16777216 = n div 256 div 256 div 256"
    by (simp_all flip: div_mult2_eq)
  ultimately show ?thesis
    using four_digits_base [of n 256] by (simp add: from_ne_bytes_def to_ne_bytes_def)
qed

text \<open>The frame of a payload; \<^const>\<open>encode_message\<close> makes it.\<close>

definition frame :: "bytes \<Rightarrow> bytes" where
  "frame payload = to_ne_bytes (length payload) @ payload"

definition fits :: "bytes \<Rightarrow> bool" where
  "fits payload \<longleftrightarrow> length payload \<le> MAX_BROWSER_AGENT_FRAME_BYTES"

lemma encode_message_frame:
  "encode_message render v = Inr f \<longleftrightarrow> (\<exists>p. render v = Some p \<and> fits p \<and> f = frame p)"
  by (auto simp: encode_message_def fits_def frame_def MAX_BROWSER_AGENT_FRAME_BYTES_def
      split: option.split)

lemma length_frame [simp]: "length (frame p) = length p + 4"
  by (simp add: frame_def)

lemma frame_header: "fits p \<Longrightarrow> from_ne_bytes (take 4 (frame p @ r)) = length p"
  by (simp add: frame_def fits_def MAX_BROWSER_AGENT_FRAME_BYTES_def from_to_ne_bytes)

lemma frame_payload: "take (length p) (drop 4 (frame p @ r)) = p" "drop (length p + 4) (frame p @ r) = r"
  by (simp_all add: frame_def)


subsection \<open>Decoding what has arrived of a stream of frames\<close>

text \<open>
  \<open>r\<close> is what has not arrived yet. The frames that have arrived are decoded, at most \<open>n\<close>; all
  of them when nothing is missing.
\<close>

lemma decode_arrived:
  assumes "\<forall>p \<in> set ps. fits p \<and> parse p \<noteq> None" and "buffer @ r = concat (map frame ps)"
  shows "\<exists>j b. decode_messages parse n buffer = (b, Inr (map (\<lambda>p. the (parse p)) (take j ps)))
    \<and> b @ r = concat (map frame (drop j ps)) \<and> (r = [] \<longrightarrow> j = n)"
  using assms
proof (induction n arbitrary: buffer ps)
  case 0
  then have "decode_messages parse 0 buffer = (buffer, Inr (map (\<lambda>p. the (parse p)) (take 0 ps)))
    \<and> buffer @ r = concat (map frame (drop 0 ps)) \<and> (r = [] \<longrightarrow> 0 = (0::nat))" by simp
  then show ?case by blast
next
  case (Suc n)
  show ?case
  proof (cases ps)
    case Nil
    with Suc.prems have "decode_messages parse (Suc n) buffer
        = (buffer, Inr (map (\<lambda>p. the (parse p)) (take (Suc n) ps)))
      \<and> buffer @ r = concat (map frame (drop (Suc n) ps))" by simp
    then show ?thesis by blast
  next
    case (Cons p ps')
    let ?all = "concat (map frame ps)"
    have p: "fits p" "\<exists>v. parse p = Some v" using Suc.prems(1) Cons by auto
    have all: "?all = frame p @ concat (map frame ps')" using Cons by simp
    have wait: "\<exists>j b. (buffer, Inr []) = (b, Inr (map (\<lambda>p. the (parse p)) (take j ps)))
      \<and> b @ r = concat (map frame (drop j ps)) \<and> (r = [] \<longrightarrow> j = Suc n)" if "r \<noteq> []"
      using that Suc.prems(2) by (intro exI [of _ 0] exI [of _ buffer]) simp
    show ?thesis
    proof (cases "length buffer < length p + 4")
      case True
      then have r: "r \<noteq> []" using Suc.prems(2) all by auto
      have "from_ne_bytes (take 4 buffer) = length p" if "\<not> length buffer < 4"
      proof -
        have "take 4 buffer = take 4 (frame p @ concat (map frame ps'))"
          using that Suc.prems(2) all by (metis append_take_drop_id le_add_diff_inverse not_less
              take_append take_all_iff append_Nil2 diff_is_0_eq take_0)
        then show ?thesis by (simp only: frame_header [OF p(1)])
      qed
      with True p(1) wait [OF r] show ?thesis
        by (auto simp: Let_def fits_def)
    next
      case False
      then have le: "length (frame p) \<le> length buffer" by simp
      define rest where "rest = drop (length (frame p)) buffer"
      have "take (length (frame p)) (buffer @ r) = frame p" using Suc.prems(2) all by simp
      then have b: "buffer = frame p @ rest"
        using le by (metis append_take_drop_id diff_is_0_eq' rest_def take_0 take_append append_Nil2)
      then have rest: "rest @ r = concat (map frame ps')" using Suc.prems(2) all by simp
      obtain v where v: "parse p = Some v" using p(2) by blast
      obtain j b' where IH: "decode_messages parse n rest = (b', Inr (map (\<lambda>p. the (parse p)) (take j ps')))"
        "b' @ r = concat (map frame (drop j ps'))" "r = [] \<longrightarrow> j = n"
        using Suc.IH [of ps' rest] Suc.prems(1) rest Cons by auto
      have "\<not> length buffer < 4" "from_ne_bytes (take 4 buffer) = length p"
        "take (length p) (drop 4 buffer) = p" "drop (length p + 4) buffer = rest"
        using b frame_header [OF p(1)] frame_payload by simp_all
      then have "decode_messages parse (Suc n) buffer
          = (b', Inr (map (\<lambda>p. the (parse p)) (take (Suc j) ps)))"
        using False p(1) v IH(1) Cons by (simp add: Let_def fits_def)
      moreover have "b' @ r = concat (map frame (drop (Suc j) ps))" using IH(2) Cons by simp
      ultimately show ?thesis using IH(3) by blast
    qed
  qed
qed


subsection \<open>Ticks\<close>

lemma read_chunks_arrived:
  assumes "[] \<notin> set chunks" and "length chunks \<le> n"
    and "length (buffer @ concat chunks) \<le> MAX_BROWSER_AGENT_FRAME_BYTES + 4"
  shows "read_chunks windows n (map Read chunks) buffer = (buffer @ concat chunks, None)"
  using assms
proof (induction chunks arbitrary: n buffer)
  case Nil
  then show ?case by (cases n) simp_all
next
  case (Cons c cs)
  then show ?case by (cases n) auto
qed

lemma read_chunks_none [simp]: "read_chunks windows n [] buffer = (buffer, None)"
  by (cases n) simp_all

lemma read_ticks_append:
  "read_ticks parse windows (ts @ us) buffer =
     (case read_ticks parse windows ts buffer of
        (b, Inl e) \<Rightarrow> (b, Inl e)
      | (b, Inr ms) \<Rightarrow>
          (case read_ticks parse windows us b of
             (b', Inl e) \<Rightarrow> (b', Inl e) | (b', Inr ns) \<Rightarrow> (b', Inr (ms @ ns))))"
  by (induction ts arbitrary: buffer) (auto split: prod.splits sum.splits)

lemma drop_frames_length: "length (concat (map frame (drop j ps))) \<le> length (concat (map frame ps))"
  by (metis append_take_drop_id concat_append le_add2 length_append map_append)

lemma read_ticks_arrived:
  assumes "\<forall>p \<in> set ps. fits p \<and> parse p \<noteq> None"
    and "\<forall>chunks \<in> set ticks. [] \<notin> set chunks \<and> length chunks \<le> MAX_CLIENT_READS_PER_TICK"
    and "buffer @ concat (concat ticks) @ r = concat (map frame ps)"
    and "length (concat (map frame ps)) \<le> MAX_BROWSER_AGENT_FRAME_BYTES + 4"
  shows "\<exists>j b. read_ticks parse windows (map (map Read) ticks) buffer
      = (b, Inr (map (\<lambda>p. the (parse p)) (take j ps)))
    \<and> b @ r = concat (map frame (drop j ps))"
  using assms
proof (induction ticks arbitrary: buffer ps)
  case Nil
  then show ?case by (intro exI [of _ 0] exI [of _ buffer]) simp
next
  case (Cons chunks ticks)
  have "length (buffer @ concat chunks) \<le> MAX_BROWSER_AGENT_FRAME_BYTES + 4"
    using Cons.prems(4) unfolding Cons.prems(3) [symmetric] by simp
  then have read: "read_chunks windows MAX_CLIENT_READS_PER_TICK (map Read chunks) buffer
      = (buffer @ concat chunks, None)"
    using Cons.prems(2) by (intro read_chunks_arrived) auto
  have "(buffer @ concat chunks) @ (concat (concat ticks) @ r) = concat (map frame ps)"
    using Cons.prems(3) by simp
  from decode_arrived [OF Cons.prems(1) this, of MAX_CLIENT_FRAMES_PER_TICK]
  obtain i b where first: "decode_messages parse MAX_CLIENT_FRAMES_PER_TICK (buffer @ concat chunks)
        = (b, Inr (map (\<lambda>p. the (parse p)) (take i ps)))"
      "b @ concat (concat ticks) @ r = concat (map frame (drop i ps))" by blast
  have "\<forall>p \<in> set (drop i ps). fits p \<and> parse p \<noteq> None" using Cons.prems(1) by (auto dest: in_set_dropD)
  moreover have "length (concat (map frame (drop i ps))) \<le> MAX_BROWSER_AGENT_FRAME_BYTES + 4"
    using drop_frames_length Cons.prems(4) by (rule order_trans)
  ultimately obtain j b' where later: "read_ticks parse windows (map (map Read) ticks) b
        = (b', Inr (map (\<lambda>p. the (parse p)) (take j (drop i ps))))"
      "b' @ r = concat (map frame (drop j (drop i ps)))"
    using Cons.IH [of "drop i ps" b] Cons.prems(2) first(2) by auto
  have "read_ticks parse windows (map (map Read) (chunks # ticks)) buffer
      = (b', Inr (map (\<lambda>p. the (parse p)) (take (i + j) ps)))"
    using read first(1) later(1) by (simp add: read_messages_def take_add)
  moreover have "b' @ r = concat (map frame (drop (i + j) ps))" using later(2) by (simp add: add.commute)
  ultimately show ?case by blast
qed

lemma idle_ticks:
  assumes "\<forall>p \<in> set ps. fits p \<and> parse p \<noteq> None" and "length ps \<le> n * MAX_CLIENT_FRAMES_PER_TICK"
  shows "read_ticks parse windows (replicate n []) (concat (map frame ps))
    = ([], Inr (map (\<lambda>p. the (parse p)) ps))"
  using assms
proof (induction n arbitrary: ps)
  case 0
  then show ?case by simp
next
  case (Suc n)
  let ?k = MAX_CLIENT_FRAMES_PER_TICK
  obtain b where first: "decode_messages parse ?k (concat (map frame ps))
      = (b, Inr (map (\<lambda>p. the (parse p)) (take ?k ps)))" "b = concat (map frame (drop ?k ps))"
    using decode_arrived [OF Suc.prems(1), of "concat (map frame ps)" "[]" ?k] by auto
  have "read_ticks parse windows (replicate n []) b = ([], Inr (map (\<lambda>p. the (parse p)) (drop ?k ps)))"
    unfolding first(2) using Suc.prems by (intro Suc.IH) (auto dest: in_set_dropD)
  then show ?case
    using first(1) by (simp add: read_messages_def flip: map_append)
qed


subsection \<open>The write queue\<close>

definition pending :: "bridge_writes \<Rightarrow> bytes" where
  "pending w = drop (bw_write_offset w) (concat (bw_writes w))"

definition writes_ok :: "bridge_writes \<Rightarrow> bool" where
  "writes_ok w \<longleftrightarrow>
     (case bw_writes w of [] \<Rightarrow> bw_write_offset w = 0 | f # _ \<Rightarrow> bw_write_offset w < length f)
     \<and> [] \<notin> set (bw_writes w)
     \<and> bw_queued_write_bytes w = length (concat (bw_writes w))
     \<and> bw_queued_write_bytes w \<le> MAX_QUEUED_WRITE_BYTES"

lemma enqueue_ok:
  assumes "writes_ok w" and "enqueue render v w = (w', e)"
  shows "writes_ok w' \<and>
    (case e of Some _ \<Rightarrow> w' = w
     | None \<Rightarrow> \<exists>f. encode_message render v = Inr f \<and> pending w' = pending w @ f)"
proof (cases "e = None")
  case True
  with assms(2) obtain p where p: "encode_message render v = Inr (frame p)"
    and room: "\<not> bw_queued_write_bytes w + length (frame p) > MAX_QUEUED_WRITE_BYTES"
    and w': "w' = w\<lparr>bw_queued_write_bytes := bw_queued_write_bytes w + length (frame p),
      bw_writes := bw_writes w @ [frame p]\<rparr>"
    by (auto simp: enqueue_def encode_message_frame split: sum.splits if_splits)
  have f: "frame p \<noteq> []" by (simp add: frame_def to_ne_bytes_def)
  have offset: "bw_write_offset w \<le> length (concat (bw_writes w))"
    using assms(1) by (cases "bw_writes w") (auto simp: writes_ok_def)
  have "writes_ok w'"
    using assms(1) room f by (auto simp: w' writes_ok_def split: list.splits)
  moreover have "pending w' = pending w @ frame p"
    using offset by (simp add: w' pending_def)
  ultimately show ?thesis using True p by auto
next
  case False
  with assms show ?thesis by (auto simp: enqueue_def split: sum.splits if_splits)
qed

lemma flush_ok:
  "writes_ok w \<Longrightarrow> flush windows results w = (w', out, e) \<Longrightarrow>
   writes_ok w' \<and> pending w = out @ pending w' \<and> e \<noteq> Some Write_Offset_Invalid"
proof (induction results arbitrary: w w' out e)
  case Nil
  then show ?case by (cases "bw_writes w") (auto simp: writes_ok_def)
next
  case (Cons r results)
  show ?case
  proof (cases "bw_writes w")
    case Nil
    with Cons.prems show ?thesis by simp
  next
    case (Cons f frames)
    have offset: "bw_write_offset w < length f" using \<open>writes_ok w\<close> Cons by (simp add: writes_ok_def)
    then have in_range: "(bw_write_offset w > length f) = False" by simp
    define offered where "offered = take (min (length (drop (bw_write_offset w) f))
      SOCKET_WRITE_CHUNK_BYTES) (drop (bw_write_offset w) f)"
    have step: "flush windows (r # results) w =
      (case r of
         Room n \<Rightarrow>
           let written = min n (length offered)
           in if written = 0 then (w, [], if windows then None else Some Stopped_Receiving)
              else let w1 = w\<lparr>bw_write_offset := bw_write_offset w + written\<rparr>;
                       w2 = (if bw_write_offset w1 = length f
                             then \<lparr>bw_writes = frames, bw_write_offset = 0,
                                   bw_queued_write_bytes = bw_queued_write_bytes w1 - length f\<rparr>
                             else w1);
                       (w3, out, e) = flush windows results w2
                   in (w3, take written offered @ out, e)
       | Write_Interrupted \<Rightarrow> flush windows results w
       | Write_Would_Block \<Rightarrow> (w, [], None)
       | Write_Failed \<Rightarrow> (w, [], Some Stream_Failed))"
      unfolding offered_def by (simp only: flush.simps Cons list.case Let_def in_range if_False)
    show ?thesis
    proof (cases "\<exists>n. r = Room n \<and> min n (length offered) \<noteq> 0")
      case False
      then show ?thesis
        using Cons.prems Cons.IH unfolding step by (auto split: write_result.splits if_splits)
    next
      case True
      then obtain n where n: "r = Room n" "min n (length offered) \<noteq> 0" by blast
      define k where "k = min n (length offered)"
      have k: "k \<le> length offered" "k \<noteq> 0" "length offered \<le> length f - bw_write_offset w"
        using n by (auto simp: k_def offered_def)
      define w1 where "w1 = w\<lparr>bw_write_offset := bw_write_offset w + k\<rparr>"
      define w2 where "w2 = (if bw_write_offset w1 = length f
        then \<lparr>bw_writes = frames, bw_write_offset = 0,
              bw_queued_write_bytes = bw_queued_write_bytes w1 - length f\<rparr>
        else w1)"
      obtain out' where out': "flush windows results w2 = (w', out', e)" "out = take k offered @ out'"
        using Cons.prems(2) n unfolding step
        by (simp add: k_def [symmetric] w1_def [symmetric] w2_def [symmetric] Let_def
            split: prod.splits)
      have w2: "writes_ok w2"
        using \<open>writes_ok w\<close> Cons k offset
        by (auto simp: w2_def w1_def writes_ok_def split: list.splits)
      have taken: "take k offered = take k (drop (bw_write_offset w) f)"
        using k(1) by (simp add: offered_def min_def split: if_splits)
      have "pending w = take k offered @ pending w2"
      proof -
        have "pending w = drop (bw_write_offset w) f @ concat frames"
          using Cons offset by (simp add: pending_def)
        moreover have "pending w2 = drop k (drop (bw_write_offset w) f) @ concat frames"
          using Cons k offset by (auto simp: pending_def w2_def w1_def add.commute)
        ultimately show ?thesis unfolding taken by (metis append.assoc append_take_drop_id)
      qed
      with Cons.IH [OF w2 out'(1)] out'(2) show ?thesis by simp
    qed
  qed
qed


subsection \<open>Properties\<close>


text \<open>
  Operations of the writing side: a message to enqueue or what the stream does in one flush. The
  result is the queue, the frames accepted, the bytes the stream took.
\<close>

fun run_writes ::
  "('v \<Rightarrow> bytes option) \<Rightarrow> bool \<Rightarrow> ('v + write_result list) list \<Rightarrow> bridge_writes
   \<Rightarrow> bridge_writes \<times> bytes list \<times> bytes" where
  "run_writes render windows [] w = (w, [], [])"
| "run_writes render windows (Inl v # ops) w =
     (let (w1, e) = enqueue render v w;
          (w2, fs, out) = run_writes render windows ops w1
      in (w2, (case (e, encode_message render v) of (None, Inr f) \<Rightarrow> f # fs | _ \<Rightarrow> fs), out))"
| "run_writes render windows (Inr results # ops) w =
     (let (w1, taken, e) = flush windows results w;
          (w2, fs, out) = run_writes render windows ops w1
      in (w2, fs, taken @ out))"

text \<open>
  C30: whatever the stream takes of each write, what it has taken so far followed by what is
  still queued is what was queued before followed by the accepted frames in order, each complete;
  the queue stays within 16 MiB and its offset inside the first frame.
\<close>

theorem bridge_writes_in_order:
  assumes "writes_ok w" and "run_writes render windows ops w = (w', frames, out)"
  shows "pending w @ concat frames = out @ pending w' \<and> writes_ok w'"
  using assms
proof (induction ops arbitrary: w frames out)
  case Nil
  then show ?case by simp
next
  case (Cons op ops)
  show ?case
  proof (cases op)
    case (Inl v)
    obtain w1 e where e: "enqueue render v w = (w1, e)" by fastforce
    obtain fs where rest: "run_writes render windows ops w1 = (w', fs, out)"
      and frames: "frames = (case (e, encode_message render v) of (None, Inr f) \<Rightarrow> f # fs | _ \<Rightarrow> fs)"
      using Cons.prems(2) e Inl by (auto simp: Let_def split: prod.splits)
    note ok = enqueue_ok [OF Cons.prems(1) e]
    show ?thesis
      using Cons.IH [OF _ rest] ok frames by (cases e) auto
  next
    case (Inr results)
    obtain w1 taken e where f: "flush windows results w = (w1, taken, e)" by (metis prod_cases3)
    obtain out' where rest: "run_writes render windows ops w1 = (w', frames, out')"
      and out: "out = taken @ out'"
      using Cons.prems(2) f Inr by (auto simp: Let_def split: prod.splits)
    show ?thesis
      using Cons.IH [OF _ rest] flush_ok [OF Cons.prems(1) f] out by auto
  qed
qed


subsection \<open>A legal stream that is refused\<close>

text \<open>
  The bound on the buffer is the size of one largest frame, but a chunk may also hold the start
  of the next message: a client that sends a largest frame and a further one at once is
  disconnected when both meet in the buffer.
\<close>

lemma too_long_refused:
  assumes "chunk \<noteq> []" and "length arrived + length chunk > MAX_BROWSER_AGENT_FRAME_BYTES + 4"
  shows "read_messages parse windows [Read chunk] arrived = (arrived, Inl Frame_Too_Large)"
  using assms by (simp add: read_messages_def MAX_CLIENT_READS_PER_TICK_def numeral_eq_Suc)

lemma largest_frame_then_another_refused:
  assumes "length p = MAX_BROWSER_AGENT_FRAME_BYTES" and "arrived = take k (frame p)"
    and "k < length (frame p)" and "0 < m" and "m \<le> length (frame q)"
  shows "read_messages parse windows [Read (drop k (frame p) @ take m (frame q))] arrived
    = (arrived, Inl Frame_Too_Large)"
  by (rule too_long_refused) (use assms in auto)

subsection \<open>Witnesses\<close>


theorem bridge_writes_in_order_witness:
  "\<exists>w' frames out. run_writes Some False [Inl ''hi'', Inr [Room 3, Room 100]]
     \<lparr>bw_writes = [], bw_write_offset = 0, bw_queued_write_bytes = 0\<rparr> = (w', frames, out)
   \<and> concat frames = out @ pending w' \<and> writes_ok w'"
proof -
  let ?w = "\<lparr>bw_writes = [], bw_write_offset = 0, bw_queued_write_bytes = 0\<rparr>"
  have ok: "writes_ok ?w" by (simp add: writes_ok_def)
  obtain w' frames out where run: "run_writes Some False [Inl ''hi'', Inr [Room 3, Room 100]] ?w
      = (w', frames, out)" by (metis prod_cases3)
  from bridge_writes_in_order [OF ok run] run show ?thesis by (auto simp: pending_def)
qed

end
