(* ===== verification/Bounded_Reads.thy ===== *)
theory Bounded_Reads
  imports Prelude
begin

text \<open>
  Two reader threads of the platform crate: \<open>read_bounded\<close> (\<open>crates/codex-platform/src/process.rs\<close>)
  collects a child's output up to a limit, and \<open>read_terminal\<close> (\<open>terminal.rs\<close>) forwards a
  terminal's output and answers the cursor position query \<open>ESC [ 6 n\<close>, which may be cut
  anywhere by the reads. A reader is the list of chunks its reads return before the end.
\<close>

subsection \<open>A bounded capture\<close>

text \<open>The loop, with the output and the flag so far; \<open>None\<close> in the chunks is a read error.\<close>

fun capture :: "nat \<Rightarrow> char list option list \<Rightarrow> char list \<times> bool \<Rightarrow> (char list \<times> bool) option" where
  "capture limit [] (output, truncated) = Some (output, truncated)"
| "capture limit (None # chunks) (output, truncated) = None"
| "capture limit (Some chunk # chunks) (output, truncated) =
     (if chunk = [] then Some (output, truncated)
      else let remaining = limit - length output;
               keep = min (length chunk) remaining
           in capture limit chunks (output @ take keep chunk, truncated \<or> keep < length chunk))"

definition read_bounded :: "nat \<Rightarrow> char list option list \<Rightarrow> (char list \<times> bool) option" where
  "read_bounded limit chunks = capture limit chunks ([], False)"

lemma capture_takes:
  assumes "[] \<notin> set chunks" and "acc = take limit seen" and "flag \<longleftrightarrow> limit < length seen"
  shows "capture limit (map Some chunks) (acc, flag)
    = Some (take limit (seen @ concat chunks), limit < length (seen @ concat chunks))"
  using assms
proof (induction chunks arbitrary: acc flag seen)
  case Nil
  then show ?case by simp
next
  case (Cons c cs)
  let ?keep = "min (length c) (limit - length acc)"
  have out: "acc @ take ?keep c = take limit (seen @ c)"
    using Cons.prems(2) by (simp add: min_def)
  have cut: "flag \<or> ?keep < length c \<longleftrightarrow> limit < length (seen @ c)"
    using Cons.prems by (cases "length seen \<le> limit") auto
  have "capture limit (map Some cs) (acc @ take ?keep c, flag \<or> ?keep < length c)
      = Some (take limit ((seen @ c) @ concat cs), limit < length ((seen @ c) @ concat cs))"
    by (rule Cons.IH [OF _ out cut]) (use Cons.prems(1) in simp)
  with Cons.prems(1) show ?case by auto
qed

subsection \<open>The terminal reader\<close>

definition QUERY :: "char list" where
  "QUERY = [CHR 0x1B, CHR ''['', CHR ''6'', CHR ''n'']"

text \<open>\<open>windows(4).any(|window| window == query)\<close>.\<close>

definition has_query :: "char list \<Rightarrow> bool" where
  "has_query w = list_ex (\<lambda>i. take 4 (drop i w) = QUERY) [0..<length w - 3]"

text \<open>What the event channel does with the forwarded bytes.\<close>

datatype forwarded = Forwarded | Channel_Full | Channel_Disconnected

text \<open>
  One turn of the loop per chunk: whether a status query was answered, and the bytes handed to
  the channel. The carry is the last three bytes of the window.
\<close>

record terminal_read =
  tr_answered :: bool
  tr_output :: "char list"
  tr_truncated :: bool

fun read_terminal :: "char list \<Rightarrow> (char list \<times> forwarded) list \<Rightarrow> terminal_read list" where
  "read_terminal carry [] = []"
| "read_terminal carry ((chunk, result) # reads) =
     (if chunk = [] then []
      else let query_window = carry @ chunk;
               carry = drop (length query_window - 3) query_window;
               turn = \<lparr>tr_answered = has_query query_window, tr_output = chunk,
                       tr_truncated = (result = Channel_Full)\<rparr>
           in turn # (if result = Channel_Disconnected then [] else read_terminal carry reads))"

text \<open>An occurrence of the query in everything read whose last byte is in the given part.\<close>

definition query_ends_in :: "char list \<Rightarrow> nat \<Rightarrow> nat \<Rightarrow> bool" where
  "query_ends_in whole a b \<longleftrightarrow> (\<exists>i. take 4 (drop i whole) = QUERY \<and> a < i + 4 \<and> i + 4 \<le> b)"

lemma has_query_iff: "has_query w \<longleftrightarrow> (\<exists>i. take 4 (drop i w) = QUERY)"
proof -
  have "i < length w - 3" if "take 4 (drop i w) = QUERY" for i
  proof -
    have "length (take 4 (drop i w)) = 4" using that by (simp add: QUERY_def)
    then show ?thesis by auto
  qed
  then show ?thesis by (auto simp: has_query_def list_ex_iff)
qed

lemma occurrence_in_prefix:
  assumes "take 4 (drop i (w @ v)) = QUERY" and "i + 4 \<le> length w"
  shows "take 4 (drop i w) = QUERY"
  using assms by simp

lemma occurrence_extends: "take 4 (drop i w) = QUERY \<Longrightarrow> take 4 (drop i (w @ v)) = QUERY"
proof -
  assume occ: "take 4 (drop i w) = QUERY"
  then have "length (take 4 (drop i w)) = 4" by (simp add: QUERY_def)
  then have "4 \<le> length w - i" by simp
  with occ show ?thesis by simp
qed

lemma window_query:
  assumes "carry = drop (length seen - 3) seen" and "chunk \<noteq> []"
  shows "has_query (carry @ chunk) \<longleftrightarrow>
    query_ends_in (seen @ chunk) (length seen) (length (seen @ chunk))"
proof -
  define k where "k = length seen - 3"
  have window: "carry @ chunk = drop k (seen @ chunk)" and k: "k \<le> length seen"
    using assms(1) by (simp_all add: k_def)
  have occ: "take 4 (drop i (carry @ chunk)) = take 4 (drop (k + i) (seen @ chunk))" for i
    unfolding window by (simp only: drop_drop add.commute)
  have inside: "i + 4 \<le> length (seen @ chunk)" if "take 4 (drop i (seen @ chunk)) = QUERY" for i
  proof -
    have "length (take 4 (drop i (seen @ chunk))) = 4" using that by (simp add: QUERY_def)
    then show ?thesis unfolding length_take length_drop by linarith
  qed
  show ?thesis
  proof
    assume "has_query (carry @ chunk)"
    then obtain i where i: "take 4 (drop (k + i) (seen @ chunk)) = QUERY"
      unfolding has_query_iff occ by blast
    have "length seen < k + i + 4" by (simp add: k_def)
    with i inside [OF i] show "query_ends_in (seen @ chunk) (length seen) (length (seen @ chunk))"
      unfolding query_ends_in_def by blast
  next
    assume "query_ends_in (seen @ chunk) (length seen) (length (seen @ chunk))"
    then obtain i where i: "take 4 (drop i (seen @ chunk)) = QUERY" "length seen < i + 4"
      unfolding query_ends_in_def by blast
    then have "take 4 (drop (k + (i - k)) (seen @ chunk)) = QUERY" by (simp add: k_def)
    then show "has_query (carry @ chunk)" unfolding has_query_iff occ by blast
  qed
qed

lemma carry_step:
  assumes "carry = drop (length seen - 3) seen"
  shows "drop (length (carry @ chunk) - 3) (carry @ chunk)
    = drop (length (seen @ chunk) - 3) (seen @ chunk)"
proof -
  define k where "k = length seen - 3"
  have window: "carry @ chunk = drop k (seen @ chunk)" using assms by (simp add: k_def)
  have "length (seen @ chunk) - k - 3 + k = length (seen @ chunk) - 3"
    by (cases "3 \<le> length seen") (simp_all add: k_def)
  then show ?thesis unfolding window by (simp only: drop_drop length_drop)
qed

lemma reads_answered:
  assumes "carry = drop (length seen - 3) seen" and "\<forall>(c, f) \<in> set reads. c \<noteq> [] \<and> f \<noteq> Channel_Disconnected"
    and "i < length reads"
  shows "tr_answered (read_terminal carry reads ! i) \<longleftrightarrow>
    query_ends_in (seen @ concat (map fst reads))
      (length (seen @ concat (map fst (take i reads)))) (length (seen @ concat (map fst (take (Suc i) reads))))"
  using assms
proof (induction reads arbitrary: carry seen i)
  case Nil
  then show ?case by simp
next
  case (Cons r reads)
  obtain c f where r: "r = (c, f)" by (cases r)
  with Cons.prems have c: "c \<noteq> []" "f \<noteq> Channel_Disconnected" by auto
  let ?carry = "drop (length (carry @ c) - 3) (carry @ c)"
  have unfold: "read_terminal carry (r # reads) =
      \<lparr>tr_answered = has_query (carry @ c), tr_output = c, tr_truncated = (f = Channel_Full)\<rparr>
      # read_terminal ?carry reads"
    using c r by (simp add: Let_def)
  show ?case
  proof (cases i)
    case 0
    have "query_ends_in (seen @ c) (length seen) (length (seen @ c)) \<longleftrightarrow>
        query_ends_in ((seen @ c) @ v) (length seen) (length (seen @ c))" for v
      unfolding query_ends_in_def using occurrence_extends occurrence_in_prefix by metis
    with 0 window_query [OF Cons.prems(1) c(1)] show ?thesis
      unfolding unfold by (simp add: r)
  next
    case (Suc j)
    have "?carry = drop (length (seen @ c) - 3) (seen @ c)" by (rule carry_step [OF Cons.prems(1)])
    from Cons.IH [OF this, of j] Cons.prems Suc show ?thesis
      unfolding unfold by (simp add: r)
  qed
qed

subsection \<open>Properties\<close>

text \<open>
  However the output is cut into reads, the capture is its first \<open>limit\<close> bytes, and it is
  marked truncated exactly when the output is longer.
\<close>

theorem capture_is_bounded_prefix:
  assumes "[] \<notin> set chunks"
  shows "read_bounded limit (map Some chunks)
    = Some (take limit (concat chunks), limit < length (concat chunks))"
  using capture_takes [OF assms, of "[]" limit "[]" False] by (simp add: read_bounded_def)

text \<open>
  A cursor position query is answered by the read that holds its last byte, however the
  reads cut it, and a read that completes no query answers none.
\<close>

theorem status_query_answered:
  assumes "\<forall>(c, f) \<in> set reads. c \<noteq> [] \<and> f \<noteq> Channel_Disconnected" and "i < length reads"
  shows "tr_answered (read_terminal [] reads ! i) \<longleftrightarrow>
    query_ends_in (concat (map fst reads))
      (length (concat (map fst (take i reads)))) (length (concat (map fst (take (Suc i) reads))))"
  using reads_answered [OF _ assms, of "[]" "[]"] by simp

subsection \<open>Witnesses\<close>

theorem capture_is_bounded_prefix_witness:
  "read_bounded 4 (map Some [''abc'', ''def'']) = Some (''abcd'', True)"
  using capture_is_bounded_prefix [of "[''abc'', ''def'']" 4] by simp

theorem status_query_answered_witness:
  "tr_answered (read_terminal [] [([CHR 0x1B], Forwarded), (''[6n'', Channel_Full)] ! 1)"
proof -
  let ?reads = "[([CHR 0x1B], Forwarded), (''[6n'', Channel_Full)]"
  have "\<forall>(c, f) \<in> set ?reads. c \<noteq> [] \<and> f \<noteq> Channel_Disconnected" "1 < length ?reads" by simp_all
  from status_query_answered [OF this] show ?thesis
    by (auto simp: query_ends_in_def QUERY_def intro!: exI [of _ 0])
qed

end
