(* ===== verification/Git_Output.thy ===== *)
theory Git_Output
  imports Text_Split
begin

text \<open>
  The parsers of git's output in \<open>crates/codex-platform/src/git.rs\<close>: the porcelain v2 status,
  the numstat counts and their use, the branch and worktree lists and the conflicts a refused
  checkout names. Running git is an operating system call; what it prints is the argument. A
  \<open>PathBuf\<close> is its text: git prints normalised relative paths, for which equality of paths is
  equality of texts.
\<close>

definition MAX_GIT_FILES :: nat where
  "MAX_GIT_FILES = 2000"

definition MAX_GIT_CONFLICT_PATHS :: nat where
  "MAX_GIT_CONFLICT_PATHS = 100"

definition MAX_GIT_PATH_BYTES :: nat where
  "MAX_GIT_PATH_BYTES = 8 * 1024"

datatype git_file_kind =
  Added | Modified | Deleted | Renamed | Copied | Untracked | Conflicted | TypeChanged

record git_file =
  gf_path :: str
  gf_old_path :: "str option"
  gf_kind :: git_file_kind
  gf_staged :: bool
  gf_unstaged :: bool
  gf_staged_additions :: nat
  gf_staged_deletions :: nat
  gf_unstaged_additions :: nat
  gf_unstaged_deletions :: nat

record git_branch =
  gb_name :: str
  gb_commit :: str
  gb_current :: bool

record git_worktree =
  gw_path :: str
  gw_branch :: "str option"
  gw_commit :: "str option"
  gw_bare :: bool
  gw_detached :: bool
  gw_locked :: bool

datatype git_error = InvalidOutput

subsection \<open>Status\<close>

definition git_path :: "str \<Rightarrow> str" where
  "git_path bytes = from_utf8_lossy bytes"

definition code_kind :: "char \<Rightarrow> git_file_kind" where
  "code_kind code =
     (if code = CHR ''A'' then Added else if code = CHR ''D'' then Deleted
      else if code = CHR ''R'' then Renamed else if code = CHR ''C'' then Copied
      else if code = CHR ''T'' then TypeChanged else if code = CHR ''U'' then Conflicted
      else Modified)"

definition git_file_of :: "str \<Rightarrow> str option \<Rightarrow> git_file_kind \<Rightarrow> bool \<Rightarrow> bool \<Rightarrow> git_file" where
  "git_file_of path old_path kind staged unstaged =
     \<lparr>gf_path = path, gf_old_path = old_path, gf_kind = kind, gf_staged = staged,
      gf_unstaged = unstaged, gf_staged_additions = 0, gf_staged_deletions = 0,
      gf_unstaged_additions = 0, gf_unstaged_deletions = 0\<rparr>"

definition status_file :: "str \<Rightarrow> str \<Rightarrow> str option \<Rightarrow> git_file" where
  "status_file xy path old_path =
     (let staged_code = (case byte_at xy 0 of None \<Rightarrow> CHR ''.'' | Some c \<Rightarrow> c);
          unstaged_code = (case byte_at xy 1 of None \<Rightarrow> CHR ''.'' | Some c \<Rightarrow> c);
          code = (if unstaged_code \<noteq> CHR ''.'' then unstaged_code else staged_code)
      in git_file_of (git_path path) (map_option git_path old_path) (code_kind code)
           (staged_code \<noteq> CHR ''.'') (unstaged_code \<noteq> CHR ''.''))"

record parsed_status =
  ps_branch :: "str option"
  ps_upstream :: "str option"
  ps_ahead :: nat
  ps_behind :: nat
  ps_files :: "git_file list"

text \<open>The counts of a \<open># branch.ab\<close> header.\<close>

fun ahead_behind :: "str list \<Rightarrow> parsed_status \<Rightarrow> parsed_status" where
  "ahead_behind [] s = s"
| "ahead_behind (part # parts) s =
     ahead_behind parts
       (case strip_prefix ''+'' part of
          Some v \<Rightarrow> s\<lparr>ps_ahead := (case parse_u32 v of None \<Rightarrow> 0 | Some n \<Rightarrow> n)\<rparr>
        | None \<Rightarrow>
            (case strip_prefix ''-'' part of
               Some v \<Rightarrow> s\<lparr>ps_behind := (case parse_u32 v of None \<Rightarrow> 0 | Some n \<Rightarrow> n)\<rparr>
             | None \<Rightarrow> s))"

definition add_file :: "git_file \<Rightarrow> parsed_status \<Rightarrow> parsed_status" where
  "add_file f s = s\<lparr>ps_files := ps_files s @ [f]\<rparr>"

text \<open>The headers; \<open>None\<close> when the record is none of the three.\<close>

definition status_header :: "str \<Rightarrow> parsed_status \<Rightarrow> parsed_status option" where
  "status_header r s =
     (case strip_prefix ''# branch.head '' r of
        Some v \<Rightarrow>
          let v = from_utf8_lossy v
          in Some (if v \<noteq> ''(detached)'' then s\<lparr>ps_branch := Some v\<rparr> else s)
      | None \<Rightarrow>
          (case strip_prefix ''# branch.ab '' r of
             Some v \<Rightarrow> Some (ahead_behind (split_whitespace (from_utf8_lossy v)) s)
           | None \<Rightarrow>
               (case strip_prefix ''# branch.upstream '' r of
                  Some v \<Rightarrow>
                    let v = from_utf8_lossy v
                    in Some (if v \<noteq> [] then s\<lparr>ps_upstream := Some v\<rparr> else s)
                | None \<Rightarrow> None)))"

function parse_records :: "str list \<Rightarrow> parsed_status \<Rightarrow> git_error + parsed_status" where
  "parse_records [] s = Inr s"
| "parse_records (r # rs) s =
     (case r of
        [] \<Rightarrow> parse_records rs s
      | code # _ \<Rightarrow>
          (case status_header r s of
             Some s1 \<Rightarrow> parse_records rs s1
           | None \<Rightarrow>
               if code = CHR ''1'' then
                 let fields = splitn 9 (CHR '' '') r
                 in if length fields \<noteq> 9 then Inl InvalidOutput
                    else parse_records rs (add_file (status_file (fields ! 1) (fields ! 8) None) s)
               else if code = CHR ''2'' then
                 let fields = splitn 10 (CHR '' '') r
                 in if length fields \<noteq> 10 then Inl InvalidOutput
                    else let old_path = (case rs of [] \<Rightarrow> None
                               | p # _ \<Rightarrow> if p = [] then None else Some p)
                         in parse_records (tl rs)
                              (add_file (status_file (fields ! 1) (fields ! 9) old_path) s)
               else if code = CHR ''u'' then
                 let fields = splitn 11 (CHR '' '') r
                 in if length fields \<noteq> 11 then Inl InvalidOutput
                    else parse_records rs
                           (add_file (git_file_of (git_path (fields ! 10)) None Conflicted True True) s)
               else if code = CHR ''?'' then
                 parse_records rs
                   (add_file (git_file_of (git_path (drop 2 r)) None Untracked False True) s)
               else if code = CHR ''!'' \<or> code = CHR ''#'' then parse_records rs s
               else Inl InvalidOutput))"
  by pat_completeness auto
termination by (relation "measure (\<lambda>(rs, s). length rs)") auto

definition empty_status :: parsed_status where
  "empty_status = \<lparr>ps_branch = None, ps_upstream = None, ps_ahead = 0, ps_behind = 0, ps_files = []\<rparr>"

definition NUL :: char where
  "NUL = CHR 0x00"

definition parse_status :: "str \<Rightarrow> git_error + parsed_status" where
  "parse_status bytes = parse_records (split_by (\<lambda>c. c = NUL) bytes) empty_status"

subsection \<open>Line counts\<close>

definition parse_numstat_count :: "str \<Rightarrow> nat option" where
  "parse_numstat_count bytes =
     (if bytes = ''-'' then Some 0
      else if utf8_valid bytes then parse_u32 bytes else None)"

definition numstat_entry :: "str \<Rightarrow> (str \<times> nat \<times> nat) option" where
  "numstat_entry r =
     (case splitn 3 (CHR 0x09) r of
        [a, d, path] \<Rightarrow>
          (case (parse_numstat_count a, parse_numstat_count d) of
             (Some additions, Some deletions) \<Rightarrow>
               if path = [] then None else Some (git_path path, additions, deletions)
           | _ \<Rightarrow> None)
      | _ \<Rightarrow> None)"

text \<open>A \<open>HashMap\<close> collected from pairs: a later pair replaces an earlier one.\<close>

definition parse_numstat :: "str \<Rightarrow> (str \<rightharpoonup> nat \<times> nat)" where
  "parse_numstat bytes =
     map_of (rev (take MAX_GIT_FILES
       (List.map_filter numstat_entry (split_by (\<lambda>c. c = NUL) bytes))))"

definition numstat_exceeds_limit :: "str \<Rightarrow> bool" where
  "numstat_exceeds_limit bytes \<longleftrightarrow>
     MAX_GIT_FILES < length (filter (\<lambda>r. r \<noteq> []) (split_by (\<lambda>c. c = NUL) bytes))"

definition apply_numstat :: "git_file list \<Rightarrow> (str \<rightharpoonup> nat \<times> nat) \<Rightarrow> bool \<Rightarrow> git_file list" where
  "apply_numstat files stats staged =
     map (\<lambda>f. case stats (gf_path f) of
                None \<Rightarrow> f
              | Some (additions, deletions) \<Rightarrow>
                  if staged
                  then f\<lparr>gf_staged_additions := additions, gf_staged_deletions := deletions\<rparr>
                  else f\<lparr>gf_unstaged_additions := additions, gf_unstaged_deletions := deletions\<rparr>)
       files"

text \<open>
  The part of \<open>snapshot\<close> that puts the three outputs together; each output comes with the flag
  of its bounded capture.
\<close>

definition snapshot_status ::
  "str \<times> bool \<Rightarrow> str \<times> bool \<Rightarrow> str \<times> bool \<Rightarrow> git_error + parsed_status \<times> bool" where
  "snapshot_status status staged_stats unstaged_stats =
     (case parse_status (fst status) of
        Inl e \<Rightarrow> Inl e
      | Inr s \<Rightarrow>
          let truncated = (snd status \<or> MAX_GIT_FILES < length (ps_files s)
                \<or> snd staged_stats \<or> snd unstaged_stats
                \<or> numstat_exceeds_limit (fst staged_stats) \<or> numstat_exceeds_limit (fst unstaged_stats));
              files = take MAX_GIT_FILES (ps_files s);
              files = apply_numstat files (parse_numstat (fst staged_stats)) True;
              files = apply_numstat files (parse_numstat (fst unstaged_stats)) False
          in Inr (s\<lparr>ps_files := files\<rparr>, truncated))"

subsection \<open>Branches and worktrees\<close>

definition parse_branch_line :: "str \<Rightarrow> git_branch option" where
  "parse_branch_line line =
     (case splitn 3 (CHR 0x09) line of
        [name, commit, head] \<Rightarrow>
          Some \<lparr>gb_name = name, gb_commit = commit, gb_current = (trim head = ''*'')\<rparr>
      | _ \<Rightarrow> None)"

definition parse_branches :: "str \<Rightarrow> git_branch list" where
  "parse_branches bytes = List.map_filter parse_branch_line (str_lines (from_utf8_lossy bytes))"

text \<open>The attribute lines of the worktree that is being read.\<close>

definition worktree_attribute :: "str \<Rightarrow> git_worktree \<Rightarrow> git_worktree" where
  "worktree_attribute line w =
     (case strip_prefix ''HEAD '' line of
        Some commit \<Rightarrow> w\<lparr>gw_commit := Some commit\<rparr>
      | None \<Rightarrow>
          (case strip_prefix ''branch refs/heads/'' line of
             Some branch \<Rightarrow> w\<lparr>gw_branch := Some branch\<rparr>
           | None \<Rightarrow>
               if line = ''bare'' then w\<lparr>gw_bare := True\<rparr>
               else if line = ''detached'' then w\<lparr>gw_detached := True\<rparr>
               else if strip_prefix ''locked'' line \<noteq> None then w\<lparr>gw_locked := True\<rparr>
               else w))"

definition new_worktree :: "str \<Rightarrow> git_worktree" where
  "new_worktree path =
     \<lparr>gw_path = path, gw_branch = None, gw_commit = None, gw_bare = False, gw_detached = False,
      gw_locked = False\<rparr>"

definition option_list :: "'a option \<Rightarrow> 'a list" where
  "option_list v = (case v of None \<Rightarrow> [] | Some x \<Rightarrow> [x])"

fun read_worktrees :: "str list \<Rightarrow> git_worktree option \<Rightarrow> git_worktree list" where
  "read_worktrees [] current = option_list current"
| "read_worktrees (line # lines) current =
     (if line = [] then option_list current @ read_worktrees lines None
      else case strip_prefix ''worktree '' line of
             Some path \<Rightarrow> option_list current @ read_worktrees lines (Some (new_worktree path))
           | None \<Rightarrow> read_worktrees lines (map_option (worktree_attribute line) current))"

definition parse_worktrees :: "str \<Rightarrow> git_worktree list" where
  "parse_worktrees bytes = read_worktrees (str_lines (from_utf8_lossy bytes)) None"

subsection \<open>Conflicts of a checkout\<close>

definition TRACKED_MARKER :: str where
  "TRACKED_MARKER =
     ''Your local changes to the following files would be overwritten by checkout:''"

definition UNTRACKED_MARKER :: str where
  "UNTRACKED_MARKER =
     ''The following untracked working tree files would be overwritten by checkout:''"

fun str_contains :: "str \<Rightarrow> str \<Rightarrow> bool" where
  "str_contains [] part = (part = [])"
| "str_contains (c # cs) part \<longleftrightarrow> strip_prefix part (c # cs) \<noteq> None \<or> str_contains cs part"

record conflict_scan =
  cf_collecting :: bool
  cf_found_marker :: bool
  cf_truncated :: bool
  cf_paths :: "str list"

definition conflict_line :: "str \<Rightarrow> conflict_scan \<Rightarrow> conflict_scan" where
  "conflict_line line s =
     (let trimmed = trim line
      in if str_contains trimmed TRACKED_MARKER \<or> str_contains trimmed UNTRACKED_MARKER
         then s\<lparr>cf_collecting := True, cf_found_marker := True\<rparr>
         else if \<not> cf_collecting s then s
         else if trimmed = [] then s
         else if (case chars line of [] \<Rightarrow> True | c # _ \<Rightarrow> \<not> is_whitespace c)
                 \<or> strip_prefix ''Please '' trimmed \<noteq> None
                 \<or> eq_ignore_ascii_case trimmed ''Aborting''
         then s\<lparr>cf_collecting := False\<rparr>
         else if length trimmed > MAX_GIT_PATH_BYTES then s\<lparr>cf_truncated := True\<rparr>
         else if length (cf_paths s) = MAX_GIT_CONFLICT_PATHS then s\<lparr>cf_truncated := True\<rparr>
         else s\<lparr>cf_paths := cf_paths s @ [trimmed]\<rparr>)"

definition parse_checkout_conflicts :: "str \<Rightarrow> (str list \<times> bool) option" where
  "parse_checkout_conflicts stderr =
     (let s = fold conflict_line (str_lines stderr)
            \<lparr>cf_collecting = False, cf_found_marker = False, cf_truncated = False, cf_paths = []\<rparr>
      in if cf_found_marker s then Some (cf_paths s, cf_truncated s) else None)"

end
