(* ===== verification/Git_Roundtrip.thy ===== *)
theory Git_Roundtrip
  imports Git_Output
begin

text \<open>
  What the parsers of git's output promise. The formats are those of the git manual: \<open>git status
  --porcelain=v2 --branch -z\<close> and \<open>git worktree list --porcelain\<close>; their printers are written
  here, and parsing what they print gives back what was printed.
\<close>

subsection \<open>Fields\<close>

definition print_fields :: "str list \<Rightarrow> str \<Rightarrow> str" where
  "print_fields columns path = concat (map (\<lambda>f. f @ '' '') columns) @ path"

lemma splitn_fields:
  "\<forall>f \<in> set columns. CHR '' '' \<notin> set f \<Longrightarrow> n = Suc (length columns) \<Longrightarrow>
   splitn n (CHR '' '') (print_fields columns path) = columns @ [path]"
proof (induction columns arbitrary: n)
  case Nil
  then show ?case by (simp add: print_fields_def)
next
  case (Cons f columns)
  have "print_fields (f # columns) path = f @ CHR '' '' # print_fields columns path"
    by (simp add: print_fields_def)
  moreover have "splitn (Suc (length columns)) (CHR '' '') (print_fields columns path) = columns @ [path]"
    using Cons by simp
  ultimately show ?case using Cons.prems splitn_join by simp
qed

subsection \<open>Numbers\<close>

lemma dec_digits: "dec n \<noteq> [] \<and> list_all is_ascii_digit (dec n)"
proof (induction n rule: dec.induct)
  case (1 n)
  have "is_ascii_digit (char_of (48 + m))" if "m < 10" for m :: nat
    using that by (simp add: is_ascii_digit_def of_char_of)
  moreover have "n mod 10 < 10" by simp
  ultimately show ?case using 1 by (subst (1 2) dec.simps) auto
qed

lemma parse_u32_dec: "n < 2 ^ 32 \<Longrightarrow> parse_u32 (dec n) = Some n"
proof -
  assume n: "n < 2 ^ 32"
  obtain c cs where d: "dec n = c # cs" using dec_digits [of n] by (cases "dec n") auto
  then have "is_ascii_digit c" using dec_digits [of n] by simp
  then have "c \<noteq> CHR ''+''" by (auto simp: is_ascii_digit_def)
  then have "parse_u32 (dec n) = parse_digits_u32 (dec n)" by (simp add: parse_u32_def d)
  then show ?thesis using n dec_digits [of n] by (simp add: parse_digits_u32_def digits_value_dec)
qed

lemma dec_printed: "list_all (\<lambda>c. 33 \<le> byte c \<and> byte c < 127) (dec n)"
  using dec_digits [of n] by (auto simp: list_all_iff is_ascii_digit_def)

subsection \<open>The porcelain status\<close>

text \<open>
  The columns between the change letters and the path are kept as texts: the submodule state, the
  modes and the object names, and for a moved file its score.
\<close>

datatype status_entry =
    Ordinary_Entry str "str list" str
  | Moved_Entry str "str list" str str
  | Unmerged_Entry str "str list" str
  | Untracked_Entry str
  | Ignored_Entry str

fun entry_records :: "status_entry \<Rightarrow> str list" where
  "entry_records (Ordinary_Entry xy columns path) = [print_fields (''1'' # xy # columns) path]"
| "entry_records (Moved_Entry xy columns path old) = [print_fields (''2'' # xy # columns) path, old]"
| "entry_records (Unmerged_Entry xy columns path) = [print_fields (''u'' # xy # columns) path]"
| "entry_records (Untracked_Entry path) = [''? '' @ path]"
| "entry_records (Ignored_Entry path) = [''! '' @ path]"

definition path_ok :: "str \<Rightarrow> bool" where
  "path_ok path \<longleftrightarrow> path \<noteq> [] \<and> NUL \<notin> set path \<and> utf8_valid path"

definition fields_ok :: "nat \<Rightarrow> str \<Rightarrow> str list \<Rightarrow> bool" where
  "fields_ok n xy columns \<longleftrightarrow>
     length xy = 2 \<and> length columns = n
     \<and> (\<forall>f \<in> set (xy # columns). CHR '' '' \<notin> set f \<and> NUL \<notin> set f)"

fun entry_ok :: "status_entry \<Rightarrow> bool" where
  "entry_ok (Ordinary_Entry xy columns path) \<longleftrightarrow> fields_ok 6 xy columns \<and> path_ok path"
| "entry_ok (Moved_Entry xy columns path old) \<longleftrightarrow> fields_ok 7 xy columns \<and> path_ok path \<and> path_ok old"
| "entry_ok (Unmerged_Entry xy columns path) \<longleftrightarrow> fields_ok 8 xy columns \<and> path_ok path"
| "entry_ok (Untracked_Entry path) \<longleftrightarrow> path_ok path"
| "entry_ok (Ignored_Entry path) \<longleftrightarrow> path_ok path"

text \<open>What an entry means: the letter of the working tree, or else that of the index.\<close>

definition changed_file :: "str \<Rightarrow> str \<Rightarrow> str option \<Rightarrow> git_file" where
  "changed_file xy path old =
     git_file_of path old (code_kind (if xy ! 1 \<noteq> CHR ''.'' then xy ! 1 else xy ! 0))
       (xy ! 0 \<noteq> CHR ''.'') (xy ! 1 \<noteq> CHR ''.'')"

fun entry_files :: "status_entry \<Rightarrow> git_file list" where
  "entry_files (Ordinary_Entry xy _ path) = [changed_file xy path None]"
| "entry_files (Moved_Entry xy _ path old) = [changed_file xy path (Some old)]"
| "entry_files (Unmerged_Entry _ _ path) = [git_file_of path None Conflicted True True]"
| "entry_files (Untracked_Entry path) = [git_file_of path None Untracked False True]"
| "entry_files (Ignored_Entry _) = []"

record status_summary =
  sy_oid :: str
  sy_branch :: "str option"
  sy_upstream :: "(str \<times> nat \<times> nat) option"

definition header_records :: "status_summary \<Rightarrow> str list" where
  "header_records h =
     [''# branch.oid '' @ sy_oid h,
      ''# branch.head '' @ (case sy_branch h of None \<Rightarrow> ''(detached)'' | Some b \<Rightarrow> b)]
     @ (case sy_upstream h of
          None \<Rightarrow> []
        | Some (u, a, b) \<Rightarrow> [''# branch.upstream '' @ u, ''# branch.ab +'' @ dec a @ '' -'' @ dec b])"

definition summary_ok :: "status_summary \<Rightarrow> bool" where
  "summary_ok h \<longleftrightarrow>
     NUL \<notin> set (sy_oid h)
     \<and> (\<forall>b. sy_branch h = Some b \<longrightarrow> path_ok b \<and> b \<noteq> ''(detached)'')
     \<and> (\<forall>u a b. sy_upstream h = Some (u, a, b) \<longrightarrow> path_ok u \<and> a < 2 ^ 32 \<and> b < 2 ^ 32)"

definition print_status :: "status_summary \<Rightarrow> status_entry list \<Rightarrow> str" where
  "print_status h entries =
     concat (map (\<lambda>r. r @ [NUL]) (header_records h @ concat (map entry_records entries)))"

lemma status_file_changed:
  "length xy = 2 \<Longrightarrow> path_ok path \<Longrightarrow> (\<forall>o'. old = Some o' \<longrightarrow> path_ok o') \<Longrightarrow>
   status_file xy path old = changed_file xy path old"
  by (cases old) (simp_all add: status_file_def changed_file_def byte_at_def git_path_def path_ok_def
      lossy_id Let_def)

lemma no_header:
  assumes "hd r \<noteq> CHR ''#''"
  shows "status_header r s = None"
proof -
  have "strip_prefix (CHR ''#'' # p) r = None" for p
    using assms by (cases r) (auto simp: strip_prefix_def)
  then show ?thesis by (simp add: status_header_def)
qed

lemma parse_entry:
  assumes "entry_ok e"
  shows "parse_records (entry_records e @ rs) s
    = parse_records rs (s\<lparr>ps_files := ps_files s @ entry_files e\<rparr>)"
proof (cases e)
  case (Ordinary_Entry xy columns path)
  with assms have "splitn 9 (CHR '' '') (print_fields (''1'' # xy # columns) path) = (''1'' # xy # columns) @ [path]"
    by (intro splitn_fields) (auto simp: fields_ok_def)
  with assms Ordinary_Entry show ?thesis
    by (simp add: no_header print_fields_def fields_ok_def status_file_changed add_file_def nth_append)
next
  case (Moved_Entry xy columns path old)
  with assms have "splitn 10 (CHR '' '') (print_fields (''2'' # xy # columns) path) = (''2'' # xy # columns) @ [path]"
    by (intro splitn_fields) (auto simp: fields_ok_def)
  with assms Moved_Entry show ?thesis
    by (simp add: no_header print_fields_def fields_ok_def status_file_changed add_file_def nth_append)
      (simp add: path_ok_def)
next
  case (Unmerged_Entry xy columns path)
  with assms have "splitn 11 (CHR '' '') (print_fields (''u'' # xy # columns) path) = (''u'' # xy # columns) @ [path]"
    by (intro splitn_fields) (auto simp: fields_ok_def)
  with assms Unmerged_Entry show ?thesis
    by (simp add: no_header print_fields_def fields_ok_def add_file_def nth_append git_path_def
        path_ok_def lossy_id)
next
  case (Untracked_Entry path)
  with assms show ?thesis
    by (simp add: no_header add_file_def git_path_def path_ok_def lossy_id)
next
  case (Ignored_Entry path)
  then show ?thesis by (simp add: no_header)
qed

lemma parse_entries:
  assumes "\<forall>e \<in> set entries. entry_ok e"
  shows "parse_records (concat (map entry_records entries) @ [[]]) s
    = Inr (s\<lparr>ps_files := ps_files s @ concat (map entry_files entries)\<rparr>)"
  using assms
proof (induction entries arbitrary: s)
  case Nil
  then show ?case by simp
next
  case (Cons e entries)
  then show ?case by (simp add: parse_entry)
qed


lemma no_prefix: "take (length p) r \<noteq> p \<Longrightarrow> strip_prefix p r = None"
  by (simp add: strip_prefix_def)

lemma oid_record: "parse_records ((''# branch.oid '' @ v) # rs) s = parse_records rs s"
  by (simp add: status_header_def strip_prefix_def)

lemma head_record:
  "parse_records ((''# branch.head '' @ v) # rs) s
   = parse_records rs (if from_utf8_lossy v \<noteq> ''(detached)'' then s\<lparr>ps_branch := Some (from_utf8_lossy v)\<rparr> else s)"
  by (simp add: status_header_def strip_prefix_def Let_def)

lemma upstream_record:
  "path_ok v \<Longrightarrow> parse_records ((''# branch.upstream '' @ v) # rs) s
   = parse_records rs (s\<lparr>ps_upstream := Some v\<rparr>)"
  by (simp add: status_header_def strip_prefix_def Let_def path_ok_def lossy_id)

lemma counts_record:
  assumes "a < 2 ^ 32" and "b < 2 ^ 32"
  shows "parse_records ((''# branch.ab +'' @ dec a @ '' -'' @ dec b) # rs) s
    = parse_records rs (s\<lparr>ps_ahead := a, ps_behind := b\<rparr>)"
proof -
  let ?v = "(CHR ''+'' # dec a) @ CHR '' '' # (CHR ''-'' # dec b)"
  have printed: "list_all (\<lambda>c. 33 \<le> byte c \<and> byte c < 127) (CHR ''+'' # dec a)"
    "list_all (\<lambda>c. 33 \<le> byte c \<and> byte c < 127) (CHR ''-'' # dec b)"
    using dec_printed by simp_all
  have "list_all (\<lambda>c. byte c < 128) ?v" using printed by (auto simp: list_all_iff)
  then have lossy: "from_utf8_lossy ?v = ?v" by (intro lossy_id ascii_valid)
  have "split_whitespace ?v = [CHR ''+'' # dec a, CHR ''-'' # dec b]"
    using split_whitespace_two [OF printed] by simp
  then have "ahead_behind (split_whitespace ?v) s = s\<lparr>ps_ahead := a, ps_behind := b\<rparr>"
    using parse_u32_dec [OF assms(1)] parse_u32_dec [OF assms(2)] by (simp add: strip_prefix_def)
  moreover have "status_header (''# branch.ab '' @ ?v) s
      = Some (ahead_behind (split_whitespace (from_utf8_lossy ?v)) s)"
    by (simp add: status_header_def strip_prefix_def)
  ultimately show ?thesis unfolding lossy by simp
qed

lemma parse_headers:
  assumes "summary_ok h"
  shows "parse_records (header_records h @ rs) empty_status
    = parse_records rs
        \<lparr>ps_branch = sy_branch h, ps_upstream = map_option fst (sy_upstream h),
         ps_ahead = (case sy_upstream h of None \<Rightarrow> 0 | Some (u, a, b) \<Rightarrow> a),
         ps_behind = (case sy_upstream h of None \<Rightarrow> 0 | Some (u, a, b) \<Rightarrow> b), ps_files = []\<rparr>"
proof -
  have detached: "from_utf8_lossy ''(detached)'' = ''(detached)''"
    by (rule lossy_id, rule ascii_valid) simp
  have head: "parse_records ((''# branch.head '' @ (case sy_branch h of None \<Rightarrow> ''(detached)'' | Some b \<Rightarrow> b)) # q) s
      = parse_records q (case sy_branch h of None \<Rightarrow> s | Some b \<Rightarrow> s\<lparr>ps_branch := Some b\<rparr>)" for q s
    using assms unfolding head_record
    by (cases "sy_branch h") (simp_all add: detached summary_ok_def path_ok_def lossy_id)
  let ?oid = "''# branch.oid '' @ sy_oid h"
  let ?head = "''# branch.head '' @ (case sy_branch h of None \<Rightarrow> ''(detached)'' | Some b \<Rightarrow> b)"
  show ?thesis
  proof (cases "sy_upstream h")
    case None
    then have "header_records h @ rs = ?oid # ?head # rs" by (simp add: header_records_def)
    then show ?thesis
      unfolding \<open>header_records h @ rs = ?oid # ?head # rs\<close> oid_record head
      by (simp add: None empty_status_def split: option.split)
  next
    case (Some t)
    obtain u a b where t: "t = (u, a, b)" by (cases t)
    with assms Some have ok: "path_ok u" "a < 2 ^ 32" "b < 2 ^ 32" by (simp_all add: summary_ok_def)
    have all: "header_records h @ rs = ?oid # ?head # (''# branch.upstream '' @ u)
        # (''# branch.ab +'' @ dec a @ '' -'' @ dec b) # rs"
      using Some t by (simp add: header_records_def)
    show ?thesis
      unfolding all oid_record head upstream_record [OF ok(1)] counts_record [OF ok(2,3)]
      by (simp add: Some t empty_status_def split: option.split)
  qed
qed

lemma no_NUL_records:
  assumes "summary_ok h" and "\<forall>e \<in> set entries. entry_ok e"
  shows "\<forall>r \<in> set (header_records h @ concat (map entry_records entries)). list_all (\<lambda>c. c \<noteq> NUL) r"
proof -
  have digits: "NUL \<notin> set (dec n)" for n
    using dec_printed [of n] by (auto simp: list_all_iff NUL_def)
  have "list_all (\<lambda>c. c \<noteq> NUL) r" if "r \<in> set (header_records h)" for r
    using that assms(1) digits
    by (cases "sy_upstream h")
      (auto simp: header_records_def summary_ok_def path_ok_def list_all_iff NUL_def
        split: option.splits)
  moreover have "list_all (\<lambda>c. c \<noteq> NUL) r" if "e \<in> set entries" "r \<in> set (entry_records e)" for e r
  proof -
    have "entry_ok e" using assms(2) that(1) by blast
    then show ?thesis using that(2)
      by (cases e)
        (auto simp: print_fields_def fields_ok_def path_ok_def list_all_iff NUL_def split: if_splits)
  qed
  ultimately show ?thesis by auto
qed

subsection \<open>Worktrees\<close>

definition print_worktree :: "git_worktree \<Rightarrow> str list" where
  "print_worktree w =
     [''worktree '' @ gw_path w]
     @ (if gw_bare w then [''bare''] else [])
     @ (case gw_commit w of None \<Rightarrow> [] | Some c \<Rightarrow> [''HEAD '' @ c])
     @ (case gw_branch w of None \<Rightarrow> [] | Some b \<Rightarrow> [''branch refs/heads/'' @ b])
     @ (if gw_detached w then [''detached''] else [])
     @ (if gw_locked w then [''locked''] else []) @ [[]]"

definition line_ok :: "str \<Rightarrow> bool" where
  "line_ok v \<longleftrightarrow> v \<noteq> [] \<and> LF \<notin> set v \<and> last v \<noteq> CR \<and> utf8_valid v"

definition worktree_ok :: "git_worktree \<Rightarrow> bool" where
  "worktree_ok w \<longleftrightarrow>
     line_ok (gw_path w) \<and> (\<forall>c. gw_commit w = Some c \<longrightarrow> line_ok c)
     \<and> (\<forall>b. gw_branch w = Some b \<longrightarrow> line_ok b)"

lemma read_attribute:
  "line \<noteq> [] \<Longrightarrow> strip_prefix ''worktree '' line = None \<Longrightarrow>
   read_worktrees (line # ls) (Some w) = read_worktrees ls (Some (worktree_attribute line w))"
  by simp

lemma attribute_simps:
  "worktree_attribute (''HEAD '' @ c) w = w\<lparr>gw_commit := Some c\<rparr>"
  "worktree_attribute (''branch refs/heads/'' @ b) w = w\<lparr>gw_branch := Some b\<rparr>"
  "worktree_attribute ''bare'' w = w\<lparr>gw_bare := True\<rparr>"
  "worktree_attribute ''detached'' w = w\<lparr>gw_detached := True\<rparr>"
  "worktree_attribute ''locked'' w = w\<lparr>gw_locked := True\<rparr>"
  by (simp_all add: worktree_attribute_def strip_prefix_def)

lemma read_printed_worktree:
  "read_worktrees (print_worktree w @ ls) None = w # read_worktrees ls None"
  by (cases w; cases "gw_commit w"; cases "gw_branch w"; cases "gw_bare w"; cases "gw_detached w";
      cases "gw_locked w")
    (simp_all add: print_worktree_def new_worktree_def option_list_def strip_prefix_def
      worktree_attribute_def)

lemma read_printed_worktrees:
  "read_worktrees (concat (map print_worktree ws)) None = ws"
  by (induction ws) (simp_all add: read_printed_worktree option_list_def)


subsection \<open>Line counts\<close>

lemma apply_numstat_frame:
  "length (apply_numstat files stats staged) = length files"
  "map gf_path (apply_numstat files stats staged) = map gf_path files"
  by (auto simp: apply_numstat_def split: option.splits)

text \<open>A file with the counts of the two tables.\<close>

definition counted :: "(str \<rightharpoonup> nat \<times> nat) \<Rightarrow> (str \<rightharpoonup> nat \<times> nat) \<Rightarrow> git_file \<Rightarrow> git_file" where
  "counted staged unstaged f =
     f\<lparr>gf_staged_additions := (case staged (gf_path f) of None \<Rightarrow> gf_staged_additions f | Some (a, d) \<Rightarrow> a),
       gf_staged_deletions := (case staged (gf_path f) of None \<Rightarrow> gf_staged_deletions f | Some (a, d) \<Rightarrow> d),
       gf_unstaged_additions :=
         (case unstaged (gf_path f) of None \<Rightarrow> gf_unstaged_additions f | Some (a, d) \<Rightarrow> a),
       gf_unstaged_deletions :=
         (case unstaged (gf_path f) of None \<Rightarrow> gf_unstaged_deletions f | Some (a, d) \<Rightarrow> d)\<rparr>"

lemma apply_both:
  "apply_numstat (apply_numstat files staged True) unstaged False = map (counted staged unstaged) files"
  by (simp add: apply_numstat_def counted_def split: option.split)

lemma map_of_rev_distinct: "distinct (map fst xs) \<Longrightarrow> map_of (rev xs) = map_of xs"
  by (subst map_of_inject_set) (simp_all add: rev_map [symmetric])

text \<open>The table git prints: additions, deletions and path of each changed file.\<close>

definition print_numstat :: "(str \<times> nat \<times> nat) list \<Rightarrow> str" where
  "print_numstat stats =
     concat (map (\<lambda>(path, a, d). (dec a @ [CHR 0x09] @ dec d @ [CHR 0x09] @ path) @ [NUL]) stats)"

lemma numstat_entry_printed:
  assumes "path_ok path" and "a < 2 ^ 32" and "d < 2 ^ 32"
  shows "numstat_entry (dec a @ [CHR 0x09] @ dec d @ [CHR 0x09] @ path) = Some (path, a, d)"
proof -
  have tab: "CHR 0x09 \<notin> set (dec n)" for n
    using dec_printed [of n] by (auto simp: list_all_iff)
  have "splitn 3 (CHR 0x09) (dec a @ CHR 0x09 # dec d @ CHR 0x09 # path) = [dec a, dec d, path]"
    using splitn_join [OF tab, of 1] splitn_join [OF tab, of 0] by (simp add: numeral_eq_Suc)
  moreover have "parse_numstat_count (dec n) = Some n" if "n < 2 ^ 32" for n
  proof -
    have "utf8_valid (dec n)" using dec_printed [of n] by (intro ascii_valid) (auto simp: list_all_iff)
    moreover have "dec n \<noteq> ''-''"
      using dec_digits [of n] by (auto simp: is_ascii_digit_def)
    ultimately show ?thesis using parse_u32_dec [OF that] by (simp add: parse_numstat_count_def)
  qed
  ultimately show ?thesis
    using assms by (simp add: numstat_entry_def path_ok_def git_path_def lossy_id)
qed

subsection \<open>Properties\<close>

text \<open>
  C40: parsing the porcelain status git prints gives back its branch, upstream and counts and one
  file per listed change, in order, whatever spaces, tabs or newlines the paths contain.
\<close>

theorem status_roundtrip:
  assumes "summary_ok h" and "\<forall>e \<in> set entries. entry_ok e"
  shows "parse_status (print_status h entries)
    = Inr \<lparr>ps_branch = sy_branch h, ps_upstream = map_option fst (sy_upstream h),
           ps_ahead = (case sy_upstream h of None \<Rightarrow> 0 | Some (u, a, b) \<Rightarrow> a),
           ps_behind = (case sy_upstream h of None \<Rightarrow> 0 | Some (u, a, b) \<Rightarrow> b),
           ps_files = concat (map entry_files entries)\<rparr>"
proof -
  let ?rs = "header_records h @ concat (map entry_records entries)"
  have "split_by (\<lambda>c. c = NUL) (print_status h entries @ []) = ?rs @ [[]]"
    unfolding print_status_def
    using no_NUL_records [OF assms] by (subst split_by_terminated) simp_all
  then show ?thesis
    using parse_headers [OF assms(1), of "concat (map entry_records entries) @ [[]]"]
    by (simp add: parse_status_def parse_entries [OF assms(2)])
qed

text \<open>
  The counts of the snapshot: at most 2000 files, each with the line counts of its own path,
  zero where the tables have none; and unless the snapshot is marked truncated, every file of the
  status is there and nothing was cut.
\<close>

theorem snapshot_counts:
  assumes "parse_status (fst status) = Inr s"
  shows "\<exists>truncated. snapshot_status status staged unstaged
      = Inr (s\<lparr>ps_files := map (counted (parse_numstat (fst staged)) (parse_numstat (fst unstaged)))
                  (take MAX_GIT_FILES (ps_files s))\<rparr>, truncated)
    \<and> (\<not> truncated \<longrightarrow> take MAX_GIT_FILES (ps_files s) = ps_files s
        \<and> \<not> snd status \<and> \<not> snd staged \<and> \<not> snd unstaged)"
  using assms by (simp add: snapshot_status_def Let_def apply_both)

text \<open>
  Reading the table of line counts git prints gives each path its own counts.
\<close>

theorem numstat_roundtrip:
  assumes "\<forall>(p, a, d) \<in> set stats. path_ok p \<and> a < 2 ^ 32 \<and> d < 2 ^ 32"
    and "distinct (map fst stats)" and "length stats \<le> MAX_GIT_FILES"
  shows "parse_numstat (print_numstat stats) = map_of stats
    \<and> \<not> numstat_exceeds_limit (print_numstat stats)"
proof -
  let ?line = "\<lambda>(path, a, d). dec a @ [CHR 0x09] @ dec d @ [CHR 0x09] @ path"
  have "list_all (\<lambda>c. c \<noteq> NUL) (?line st)" if "st \<in> set stats" for st
  proof -
    obtain p a d where st: "st = (p, a, d)" by (cases st)
    have "NUL \<notin> set (dec n)" for n
      using dec_printed [of n] by (auto simp: list_all_iff NUL_def)
    then show ?thesis using assms(1) that by (auto simp: st path_ok_def list_all_iff NUL_def)
  qed
  then have "split_by (\<lambda>c. c = NUL) (concat (map (\<lambda>r. r @ [NUL]) (map ?line stats)) @ [])
      = map ?line stats @ [[]]"
    by (subst split_by_terminated) auto
  moreover have "concat (map (\<lambda>r. r @ [NUL]) (map ?line stats)) = print_numstat stats"
    unfolding print_numstat_def map_map by (rule arg_cong [where f = concat]) auto
  ultimately have split: "split_by (\<lambda>c. c = NUL) (print_numstat stats) = map ?line stats @ [[]]" by simp
  have "numstat_entry (?line st) = Some st" if "st \<in> set stats" for st
    using that assms(1) numstat_entry_printed by (cases st) auto
  then have "List.map_filter numstat_entry (map ?line stats) = stats"
    by (induction stats) (auto simp: List.map_filter_def)
  moreover have "numstat_entry [] = None" by (simp add: numstat_entry_def numeral_eq_Suc)
  ultimately have "List.map_filter numstat_entry (map ?line stats @ [[]]) = stats"
    by (simp add: List.map_filter_def)
  moreover have "length (filter (\<lambda>r. r \<noteq> []) (map ?line stats @ [[]])) \<le> MAX_GIT_FILES"
    using assms(3) order_trans [OF length_filter_le] by simp
  ultimately show ?thesis
    using assms(2,3) map_of_rev_distinct by (simp add: parse_numstat_def numstat_exceeds_limit_def split)
qed

lemma where_from:
  assumes "l \<in> set (print_worktree w)"
  shows "l = ''worktree '' @ gw_path w \<or> l \<in> {''bare'', ''detached'', ''locked''}
    \<or> (\<exists>c. gw_commit w = Some c \<and> l = ''HEAD '' @ c)
    \<or> (\<exists>b. gw_branch w = Some b \<and> l = ''branch refs/heads/'' @ b) \<or> l = []"
  using assms unfolding print_worktree_def set_append Un_iff
  by (cases "gw_commit w"; cases "gw_branch w"; elim disjE) (simp_all split: if_splits)

lemma printed_line:
  assumes "worktree_ok w" and "l \<in> set (print_worktree w)"
  shows "LF \<notin> set l \<and> (l = [] \<or> last l \<noteq> CR) \<and> utf8_valid l"
proof -
  have after: "LF \<notin> set (p @ v) \<and> last (p @ v) \<noteq> CR \<and> utf8_valid (p @ v)"
    if "line_ok v" "list_all (\<lambda>c. 31 < byte c \<and> byte c < 128) p" for p v
  proof -
    have "utf8_valid p" using that(2) by (intro ascii_valid) (auto simp: list_all_iff)
    moreover have "LF \<notin> set p" using that(2) by (auto simp: list_all_iff LF_def)
    ultimately show ?thesis using that(1) by (simp add: line_ok_def valid_append)
  qed
  have alone: "LF \<notin> set v \<and> last v \<noteq> CR \<and> utf8_valid v"
    if "v \<in> {''bare'', ''detached'', ''locked''}" for v
    using that by (auto simp: LF_def CR_def intro!: ascii_valid)
  have empty: "utf8_valid []" by (simp add: utf8_valid.simps)
  consider "l = ''worktree '' @ gw_path w" | "l \<in> {''bare'', ''detached'', ''locked''}"
    | c where "gw_commit w = Some c" "l = ''HEAD '' @ c"
    | b where "gw_branch w = Some b" "l = ''branch refs/heads/'' @ b" | "l = []"
    using where_from [OF assms(2)] by blast
  then show ?thesis
  proof cases
    case 1
    then show ?thesis using assms(1) after [of "gw_path w" "''worktree ''"] by (simp add: worktree_ok_def)
  next
    case 2
    then show ?thesis using alone by blast
  next
    case (3 c)
    then show ?thesis using assms(1) after [of c "''HEAD ''"] by (simp add: worktree_ok_def)
  next
    case (4 b)
    then show ?thesis using assms(1) after [of b "''branch refs/heads/''"] by (simp add: worktree_ok_def)
  next
    case 5
    then show ?thesis using empty by simp
  qed
qed

text \<open>
  Parsing the worktree list git prints gives back the worktrees.
\<close>

theorem worktrees_roundtrip:
  assumes "\<forall>w \<in> set ws. worktree_ok w"
  shows "parse_worktrees (concat (map (\<lambda>l. l @ [LF]) (concat (map print_worktree ws)))) = ws"
proof -
  let ?ls = "concat (map print_worktree ws)"
  have ok: "\<forall>l \<in> set ?ls. LF \<notin> set l \<and> (l = [] \<or> last l \<noteq> CR) \<and> utf8_valid l"
    using assms printed_line by fastforce
  have LF: "utf8_valid [LF]" by (rule ascii_valid) (simp add: LF_def)
  have "utf8_valid (concat (map (\<lambda>l. l @ [LF]) ?ls))"
    using ok valid_append(1) [OF _ LF] valid_concat [of "map (\<lambda>l. l @ [LF]) ?ls"] by auto
  then have "from_utf8_lossy (concat (map (\<lambda>l. l @ [LF]) ?ls)) = concat (map (\<lambda>l. l @ [LF]) ?ls)"
    by (rule lossy_id)
  moreover have "str_lines (concat (map (\<lambda>l. l @ [LF]) ?ls)) = ?ls"
    using ok by (intro str_lines_terminated) blast
  ultimately show ?thesis by (simp only: parse_worktrees_def read_printed_worktrees)
qed

subsection \<open>A status that was cut\<close>

text \<open>
  \<open>snapshot\<close> reads at most 2 MiB of status and marks the snapshot truncated when more came. But
  when the cut falls into the columns of an entry, the parser refuses the last record and the
  whole snapshot fails.
\<close>

lemma cut_status_refused:
  "snapshot_status (''? a'' @ [NUL] @ ''1 .M N... 100644 1006'', True) staged unstaged = Inl InvalidOutput"
  by (simp add: snapshot_status_def parse_status_def NUL_def status_header_def strip_prefix_def
      numeral_eq_Suc)

text \<open>A conflicting file whose name starts like git's advice ends the list before it.\<close>

lemma str_contains_length: "str_contains v part \<Longrightarrow> length part \<le> length v"
proof (induction v part rule: str_contains.induct)
  case (2 c cs part)
  have "length part \<le> Suc (length cs)" if "c # cs = part @ r" for r
    using arg_cong [OF that, of length] by simp
  with 2 show ?case by (auto simp: strip_prefix_Some)
qed simp

lemma conflict_named_please:
  assumes "cf_collecting s"
  shows "conflict_line (CHR 0x09 # ''Please read.txt'') s = s\<lparr>cf_collecting := False\<rparr>"
proof -
  have "chars (CHR 0x09 # ''Please read.txt'') = map (\<lambda>c. [c]) (CHR 0x09 # ''Please read.txt'')"
    by (rule ascii_chars) simp
  then have trimmed: "trim (CHR 0x09 # ''Please read.txt'') = ''Please read.txt''"
    by (simp only: trim_def) (simp add: trim_chars_def is_whitespace_def)
  have "\<not> length m \<le> length ''Please read.txt''" if "m \<in> {TRACKED_MARKER, UNTRACKED_MARKER}" for m
    using that by (auto simp: TRACKED_MARKER_def UNTRACKED_MARKER_def)
  then have "\<not> str_contains ''Please read.txt'' TRACKED_MARKER"
    "\<not> str_contains ''Please read.txt'' UNTRACKED_MARKER"
    using str_contains_length by blast+
  moreover have "strip_prefix ''Please '' ''Please read.txt'' \<noteq> None" by (simp add: strip_prefix_def)
  ultimately show ?thesis using assms by (simp add: conflict_line_def Let_def trimmed)
qed

subsection \<open>Witnesses\<close>

theorem status_roundtrip_witness:
  "parse_status (print_status \<lparr>sy_oid = ''ab'', sy_branch = Some ''main'', sy_upstream = Some (''o/m'', 2, 1)\<rparr>
     [Untracked_Entry ''a b''])
   = Inr \<lparr>ps_branch = Some ''main'', ps_upstream = Some ''o/m'', ps_ahead = 2, ps_behind = 1,
          ps_files = [git_file_of ''a b'' None Untracked False True]\<rparr>"
proof -
  let ?h = "\<lparr>sy_oid = ''ab'', sy_branch = Some ''main'', sy_upstream = Some (''o/m'', 2, 1)\<rparr>"
  have "utf8_valid ''main'' \<and> utf8_valid ''o/m'' \<and> utf8_valid ''a b''"
    by (intro conjI ascii_valid) simp_all
  then have "summary_ok ?h" "\<forall>e \<in> set [Untracked_Entry ''a b'']. entry_ok e"
    by (simp_all add: summary_ok_def path_ok_def NUL_def)
  from status_roundtrip [OF this] show ?thesis by simp
qed

theorem snapshot_counts_witness:
  "\<exists>t. snapshot_status (''? a'', False) ([], False) ([], False)
     = Inr (empty_status\<lparr>ps_files := [counted (parse_numstat []) (parse_numstat [])
         (git_file_of ''a'' None Untracked False True)]\<rparr>, t)"
proof -
  have "from_utf8_lossy ''a'' = ''a''" by (rule lossy_id, rule ascii_valid) simp
  then have "parse_status (fst (''? a'', False))
      = Inr (empty_status\<lparr>ps_files := [git_file_of ''a'' None Untracked False True]\<rparr>)"
    by (simp add: parse_status_def NUL_def no_header add_file_def git_path_def empty_status_def)
  from snapshot_counts [OF this, of "([], False)" "([], False)"] show ?thesis
    by (auto simp: MAX_GIT_FILES_def)
qed

theorem numstat_roundtrip_witness:
  "parse_numstat (print_numstat [(''a b'', 12, 3)]) ''a b'' = Some (12, 3)"
proof -
  have "utf8_valid ''a b''" by (rule ascii_valid) simp
  then have "\<forall>(p, a, d) \<in> set [(''a b'', 12, 3)]. path_ok p \<and> a < (2 ^ 32 :: nat) \<and> d < (2 ^ 32 :: nat)"
    by (simp add: path_ok_def NUL_def)
  from numstat_roundtrip [OF this] show ?thesis by (simp add: MAX_GIT_FILES_def)
qed

theorem worktrees_roundtrip_witness:
  "parse_worktrees (concat (map (\<lambda>l. l @ [LF]) (concat (map print_worktree
     [(new_worktree ''/repo'')\<lparr>gw_detached := True\<rparr>])))) = [(new_worktree ''/repo'')\<lparr>gw_detached := True\<rparr>]"
proof -
  have "utf8_valid ''/repo''" by (rule ascii_valid) simp
  then have "\<forall>w \<in> set [(new_worktree ''/repo'')\<lparr>gw_detached := True\<rparr>]. worktree_ok w"
    by (simp add: worktree_ok_def new_worktree_def line_ok_def LF_def CR_def)
  then show ?thesis by (rule worktrees_roundtrip)
qed

end
