(* ===== verification/Line_Frames.thy ===== *)
theory Line_Frames
  imports Text_Split
begin

text \<open>
  The framing of the app-server protocol (\<open>crates/codex-protocol/src/lib.rs\<close>): one JSON message
  per line, with a bound on the line. A buffered reader is the list of the blocks its source still
  has to give, \<open>None\<close> for a read that fails; \<open>fill_buf\<close> shows the first block and \<open>consume\<close> drops
  a prefix of it. The JSON library is a parameter: \<open>parse\<close> stands for \<open>serde_json::from_slice\<close>,
  and the pieces that \<open>serde_json::to_writer\<close> hands to its writer are an argument.
\<close>

definition DEFAULT_MAX_FRAME_BYTES :: nat where
  "DEFAULT_MAX_FRAME_BYTES = 16 * 1024 * 1024"

definition MAX_METHOD_BYTES :: nat where
  "MAX_METHOD_BYTES = 256"

definition MAX_STRING_REQUEST_ID_BYTES :: nat where
  "MAX_STRING_REQUEST_ID_BYTES = 128"

record oversized_frame =
  fl_limit :: nat
  fl_observed_at_least :: nat

datatype envelope_error =
    Not_An_Object
  | Method_Too_Long
  | Method_Not_A_String
  | No_Id
  | Id_Too_Long
  | Id_Not_String_Or_Number
  | No_Error_Code
  | Error_Not_An_Object
  | Result_And_Error
  | Neither_Result_Nor_Error

datatype protocol_error =
    Io
  | FrameTooLarge oversized_frame
  | InvalidJson
  | InvalidEnvelope envelope_error
  | Serialization

definition frame_too_large :: "nat \<Rightarrow> oversized_frame" where
  "frame_too_large limit = \<lparr>fl_limit = limit, fl_observed_at_least = Suc limit\<rparr>"

definition trim_carriage_return :: "str \<Rightarrow> str" where
  "trim_carriage_return frame = (if frame \<noteq> [] \<and> last frame = CR then butlast frame else frame)"

subsection \<open>The incremental decoder\<close>

text \<open>
  \<open>feed_bytes max_frame_bytes buffer chunk frames\<close> is the loop of \<open>feed\<close>: the buffer it leaves, and
  the frames or the error it returns.
\<close>

fun feed_bytes :: "nat \<Rightarrow> str \<Rightarrow> str \<Rightarrow> str list \<Rightarrow> str \<times> (oversized_frame + str list)" where
  "feed_bytes limit buffer [] frames = (buffer, Inr frames)"
| "feed_bytes limit buffer (b # chunk) frames =
     (if b = LF then feed_bytes limit [] chunk (frames @ [trim_carriage_return buffer])
      else if length buffer = limit then ([], Inl (frame_too_large limit))
      else feed_bytes limit (buffer @ [b]) chunk frames)"

definition feed :: "nat \<Rightarrow> str \<Rightarrow> str \<Rightarrow> str \<times> (oversized_frame + str list)" where
  "feed limit buffer chunk = feed_bytes limit buffer chunk []"

definition finish :: "str \<Rightarrow> str \<times> str option" where
  "finish buffer = (if buffer = [] then (buffer, None) else ([], Some buffer))"

subsection \<open>The bounded reader\<close>

type_synonym reader = "str option list"

definition consume :: "nat \<Rightarrow> str \<Rightarrow> reader \<Rightarrow> reader" where
  "consume n available source =
     (if length available \<le> n then source else Some (drop n available) # source)"

fun discard_through_newline :: "reader \<Rightarrow> bool \<times> reader" where
  "discard_through_newline [] = (True, [])"
| "discard_through_newline (None # source) = (False, source)"
| "discard_through_newline (Some available # source) =
     (if available = [] then (True, Some [] # source)
      else case position (\<lambda>b. b = LF) available of
             Some i \<Rightarrow> (True, consume (i + 1) available source)
           | None \<Rightarrow> discard_through_newline source)"

definition end_of_stream :: "str \<Rightarrow> str option" where
  "end_of_stream frame = (if frame = [] then None else Some (trim_carriage_return frame))"

fun read_loop :: "nat \<Rightarrow> str \<Rightarrow> reader \<Rightarrow> (protocol_error + str option) \<times> reader" where
  "read_loop limit frame [] = (Inr (end_of_stream frame), [])"
| "read_loop limit frame (None # source) = (Inl Io, source)"
| "read_loop limit frame (Some available # source) =
     (if available = [] then (Inr (end_of_stream frame), Some [] # source)
      else case position (\<lambda>b. b = LF) available of
             Some i \<Rightarrow>
               (if limit < length frame + i then Inl (FrameTooLarge (frame_too_large limit))
                else Inr (Some (trim_carriage_return (frame @ take i available))),
                consume (i + 1) available source)
           | None \<Rightarrow>
               if limit < length frame + length available
               then (case discard_through_newline source of
                       (ok, rest) \<Rightarrow>
                         (Inl (if ok then FrameTooLarge (frame_too_large limit) else Io), rest))
               else read_loop limit (frame @ available) source)"

definition read_bounded_frame :: "nat \<Rightarrow> reader \<Rightarrow> (protocol_error + str option) \<times> reader" where
  "read_bounded_frame limit source = read_loop limit [] source"

subsection \<open>The bounded writer\<close>

text \<open>\<open>None\<close> is a serialization error of the value itself.\<close>

fun write_pieces :: "nat \<Rightarrow> str \<Rightarrow> str option list \<Rightarrow> protocol_error + str" where
  "write_pieces limit written [] = Inr written"
| "write_pieces limit written (None # pieces) = Inl Serialization"
| "write_pieces limit written (Some piece # pieces) =
     (if limit - length written < length piece then Inl (FrameTooLarge (frame_too_large limit))
      else write_pieces limit (written @ piece) pieces)"

definition encode_json_line :: "nat \<Rightarrow> str option list \<Rightarrow> protocol_error + str" where
  "encode_json_line limit pieces =
     (case write_pieces limit [] pieces of
        Inl e \<Rightarrow> Inl e
      | Inr written \<Rightarrow> Inr (written @ [LF]))"

subsection \<open>Envelopes\<close>

text \<open>
  \<open>serde_json::Value\<close>: integers are kept when they fit 64 bits, every other number is a float,
  here its text.
\<close>

datatype json =
    JNull
  | JBool bool
  | JInt int
  | JFloat str
  | JString str
  | JArray "json list"
  | JObject "(str \<times> json) list"

definition as_u64 :: "json \<Rightarrow> nat option" where
  "as_u64 v = (case v of JInt n \<Rightarrow> if 0 \<le> n \<and> n < 2 ^ 64 then Some (nat n) else None | _ \<Rightarrow> None)"

definition as_i64 :: "json \<Rightarrow> int option" where
  "as_i64 v = (case v of JInt n \<Rightarrow> if - (2 ^ 63) \<le> n \<and> n < 2 ^ 63 then Some n else None | _ \<Rightarrow> None)"

datatype incoming_message =
    Success_Response json json
  | Failure_Response json int
  | Server_Request json str json
  | Server_Notification str json

definition validate_request_id :: "json \<Rightarrow> protocol_error option" where
  "validate_request_id v =
     (case v of
        JInt _ \<Rightarrow> None
      | JFloat _ \<Rightarrow> None
      | JString s \<Rightarrow>
          if length s \<le> MAX_STRING_REQUEST_ID_BYTES then None else Some (InvalidEnvelope Id_Too_Long)
      | _ \<Rightarrow> Some (InvalidEnvelope Id_Not_String_Or_Number))"

definition decode_response :: "(str \<times> json) list \<Rightarrow> protocol_error + incoming_message" where
  "decode_response members =
     (case map_of members ''id'' of
        None \<Rightarrow> Inl (InvalidEnvelope No_Id)
      | Some i \<Rightarrow>
          (case validate_request_id i of
             Some e \<Rightarrow> Inl e
           | None \<Rightarrow>
               (case (map_of members ''result'', map_of members ''error'') of
                  (Some r, None) \<Rightarrow> Inr (Success_Response i r)
                | (None, Some (JObject e)) \<Rightarrow>
                    (case Option.bind (map_of e ''code'') as_i64 of
                       None \<Rightarrow> Inl (InvalidEnvelope No_Error_Code)
                     | Some code \<Rightarrow> Inr (Failure_Response i code))
                | (None, Some _) \<Rightarrow> Inl (InvalidEnvelope Error_Not_An_Object)
                | (Some _, Some _) \<Rightarrow> Inl (InvalidEnvelope Result_And_Error)
                | (None, None) \<Rightarrow> Inl (InvalidEnvelope Neither_Result_Nor_Error))))"

definition decode_incoming :: "(str \<Rightarrow> json option) \<Rightarrow> str \<Rightarrow> protocol_error + incoming_message" where
  "decode_incoming parse frame =
     (case parse frame of
        None \<Rightarrow> Inl InvalidJson
      | Some (JObject members) \<Rightarrow>
          (case map_of members ''method'' of
             None \<Rightarrow> decode_response members
           | Some (JString m) \<Rightarrow>
               if MAX_METHOD_BYTES < length m then Inl (InvalidEnvelope Method_Too_Long)
               else let params = (case map_of members ''params'' of None \<Rightarrow> JNull | Some p \<Rightarrow> p)
                    in (case map_of members ''id'' of
                          None \<Rightarrow> Inr (Server_Notification m params)
                        | Some i \<Rightarrow>
                            (case validate_request_id i of
                               Some e \<Rightarrow> Inl e
                             | None \<Rightarrow> Inr (Server_Request i m params)))
           | Some _ \<Rightarrow> Inl (InvalidEnvelope Method_Not_A_String))
      | Some _ \<Rightarrow> Inl (InvalidEnvelope Not_An_Object))"

subsection \<open>Reading by lines\<close>

text \<open>The reference: one line off a text that is not cut.\<close>

definition read_line :: "nat \<Rightarrow> str \<Rightarrow> (protocol_error + str option) \<times> str" where
  "read_line limit v =
     (case position (\<lambda>b. b = LF) v of
        Some i \<Rightarrow>
          (if limit < i then Inl (FrameTooLarge (frame_too_large limit))
           else Inr (Some (trim_carriage_return (take i v))), drop (Suc i) v)
      | None \<Rightarrow>
          (if limit < length v then Inl (FrameTooLarge (frame_too_large limit))
           else Inr (end_of_stream v), []))"

text \<open>Blocks a source gives are not empty; an empty block is its end.\<close>

definition blocks :: "str list \<Rightarrow> bool" where
  "blocks cs \<longleftrightarrow> (\<forall>c \<in> set cs. c \<noteq> [])"

lemma blocks_simps [simp]: "blocks []" "blocks (c # cs) \<longleftrightarrow> c \<noteq> [] \<and> blocks cs"
  by (simp_all add: blocks_def)

lemma consume_blocks:
  assumes "n \<le> length c" and "blocks cs"
  shows "\<exists>cs'. consume n c (map Some cs) = map Some cs' \<and> blocks cs' \<and> concat cs' = drop n c @ concat cs"
proof (cases "length c \<le> n")
  case True
  with assms have "consume n c (map Some cs) = map Some cs" "drop n c = []" by (simp_all add: consume_def)
  with assms show ?thesis by (intro exI [of _ cs]) simp
next
  case False
  then have "consume n c (map Some cs) = map Some (drop n c # cs)" by (simp add: consume_def)
  with False assms show ?thesis by (intro exI [of _ "drop n c # cs"]) simp
qed

lemma discard_blocks:
  assumes "blocks cs"
  shows "\<exists>cs'. discard_through_newline (map Some cs) = (True, map Some cs') \<and> blocks cs'
    \<and> concat cs' = (case position (\<lambda>b. b = LF) (concat cs) of
                      Some i \<Rightarrow> drop (Suc i) (concat cs) | None \<Rightarrow> [])"
  using assms
proof (induction cs)
  case Nil
  show ?case by simp
next
  case (Cons c cs)
  show ?case
  proof (cases "position (\<lambda>b. b = LF) c")
    case None
    with Cons obtain cs' where "discard_through_newline (map Some cs) = (True, map Some cs')"
        "blocks cs'" "concat cs' = (case position (\<lambda>b. b = LF) (concat cs) of
                      Some i \<Rightarrow> drop (Suc i) (concat cs) | None \<Rightarrow> [])" by auto
    with Cons.prems None show ?thesis
      by (intro exI [of _ cs']) (auto simp: position_append split: option.split)
  next
    case (Some i)
    then have "Suc i \<le> length c" using position_Some by fastforce
    from consume_blocks [OF this, of cs] Cons.prems Some \<open>Suc i \<le> length c\<close> show ?thesis
      by (auto simp: position_append)
  qed
qed

lemma read_loop_blocks:
  assumes "blocks cs" and "length frame \<le> limit" and "LF \<notin> set frame"
  shows "\<exists>cs'. read_loop limit frame (map Some cs)
        = (fst (read_line limit (frame @ concat cs)), map Some cs')
    \<and> blocks cs' \<and> concat cs' = snd (read_line limit (frame @ concat cs))"
  using assms
proof (induction cs arbitrary: frame)
  case Nil
  then have "position (\<lambda>b. b = LF) frame = None" by (simp add: position_None list_ex_iff)
  with Nil show ?case by (simp add: read_line_def)
next
  case (Cons c cs)
  from Cons.prems have none: "position (\<lambda>b. b = LF) frame = None"
    by (auto simp: position_None list_ex_iff)
  show ?case
  proof (cases "position (\<lambda>b. b = LF) c")
    case None
    then have "LF \<notin> set (frame @ c)" using Cons.prems by (auto simp: position_None list_ex_iff)
    show ?thesis
    proof (cases "limit < length frame + length c")
      case True
      from Cons.prems discard_blocks [of cs] obtain cs' where
        "discard_through_newline (map Some cs) = (True, map Some cs')" "blocks cs'"
        "concat cs' = (case position (\<lambda>b. b = LF) (concat cs) of
            Some i \<Rightarrow> drop (Suc i) (concat cs) | None \<Rightarrow> [])" by auto
      with True None none Cons.prems show ?thesis
        by (intro exI [of _ cs'])
          (auto simp: read_line_def position_append split: option.split)
    next
      case False
      with Cons.IH [of "frame @ c"] Cons.prems \<open>LF \<notin> set (frame @ c)\<close> None show ?thesis by simp
    qed
  next
    case (Some i)
    then have i: "Suc i \<le> length c" using position_Some by fastforce
    with consume_blocks [OF i, of cs] Cons.prems obtain cs' where
      "consume (Suc i) c (map Some cs) = map Some cs'" "blocks cs'"
      "concat cs' = drop (Suc i) c @ concat cs" by auto
    with Some none i Cons.prems show ?thesis
      by (intro exI [of _ cs']) (simp add: read_line_def position_append)
  qed
qed

subsection \<open>Reading what was written\<close>

text \<open>Reading \<open>n\<close> times.\<close>

fun read_frames :: "nat \<Rightarrow> nat \<Rightarrow> reader \<Rightarrow> (protocol_error + str option) list" where
  "read_frames 0 limit source = []"
| "read_frames (Suc n) limit source =
     (let (r, source) = read_bounded_frame limit source in r # read_frames n limit source)"

text \<open>The text of a value that is serialized without error.\<close>

definition pieces_text :: "str option list \<Rightarrow> str" where
  "pieces_text pieces = concat (List.map_filter id pieces)"

lemma pieces_text_simps [simp]:
  "pieces_text [] = []" "pieces_text (None # pieces) = pieces_text pieces"
  "pieces_text (Some piece # pieces) = piece @ pieces_text pieces"
  by (simp_all add: pieces_text_def map_filter_simps)

lemma write_pieces_Inr:
  "write_pieces limit written pieces = Inr v \<Longrightarrow> length written \<le> limit \<Longrightarrow>
   v = written @ pieces_text pieces \<and> length v \<le> limit"
proof (induction limit written pieces rule: write_pieces.induct)
  case (3 limit written piece pieces)
  then have "length (written @ piece) \<le> limit"
    and "write_pieces limit (written @ piece) pieces = Inr v" by (auto split: if_splits)
  with 3 show ?case by (auto split: if_splits)
qed simp_all

lemma encoded_line:
  assumes "encode_json_line limit pieces = Inr f"
  shows "f = pieces_text pieces @ [LF] \<and> length (pieces_text pieces) \<le> limit"
  using assms write_pieces_Inr [of limit "[]" pieces]
  by (auto simp: encode_json_line_def split: sum.splits)

lemma position_line: "LF \<notin> set m \<Longrightarrow> position (\<lambda>b. b = LF) (m @ LF # v) = Some (length m)"
  by (induction m) auto

lemma read_line_written:
  "LF \<notin> set m \<Longrightarrow> m = [] \<or> last m \<noteq> CR \<Longrightarrow> length m \<le> limit \<Longrightarrow>
   read_line limit (m @ LF # v) = (Inr (Some m), v)"
  by (auto simp: read_line_def position_line trim_carriage_return_def)

lemma read_written_lines:
  assumes "\<forall>m \<in> set ms. LF \<notin> set m \<and> (m = [] \<or> last m \<noteq> CR) \<and> length m \<le> limit"
    and "blocks cs" and "concat cs = concat (map (\<lambda>m. m @ [LF]) ms)"
  shows "read_frames (Suc (length ms)) limit (map Some cs) = map (\<lambda>m. Inr (Some m)) ms @ [Inr None]"
  using assms
proof (induction ms arbitrary: cs)
  case Nil
  then have "cs = []" by (cases cs) auto
  then show ?case by (simp add: read_bounded_frame_def end_of_stream_def)
next
  case (Cons m ms)
  from read_loop_blocks [OF Cons.prems(2), of "[]" limit] obtain cs' where
    "read_bounded_frame limit (map Some cs) = (fst (read_line limit (concat cs)), map Some cs')"
    "blocks cs'" "concat cs' = snd (read_line limit (concat cs))"
    by (auto simp: read_bounded_frame_def)
  moreover have "read_line limit (concat cs) = (Inr (Some m), concat (map (\<lambda>m. m @ [LF]) ms))"
    using Cons.prems(1,3) read_line_written by simp
  ultimately show ?case using Cons.IH [of cs'] Cons.prems(1)
    by (simp del: read_frames.simps(2) add: read_frames.simps(2) [of "Suc (length ms)"])
qed

text \<open>The decoder cuts what it is fed into the same lines.\<close>

lemma feed_lines:
  assumes "LF \<notin> set buffer" and "\<forall>l \<in> set (split_by (\<lambda>b. b = LF) (buffer @ chunk)). length l \<le> limit"
  shows "feed_bytes limit buffer chunk frames
    = (last (split_by (\<lambda>b. b = LF) (buffer @ chunk)),
       Inr (frames @ map trim_carriage_return (butlast (split_by (\<lambda>b. b = LF) (buffer @ chunk)))))"
  using assms
proof (induction limit buffer chunk frames rule: feed_bytes.induct)
  case (1 limit buffer frames)
  then have "split_by (\<lambda>b. b = LF) buffer = [buffer]" by (intro split_by_no) (auto simp: list_all_iff)
  then show ?case by simp
next
  case (2 limit buffer b chunk frames)
  show ?case
  proof (cases "b = LF")
    case True
    then have "split_by (\<lambda>b. b = LF) (buffer @ b # chunk) = buffer # split_by (\<lambda>b. b = LF) chunk"
      using "2.prems"(1) by (intro split_by_append) (auto simp: list_all_iff)
    with True 2 show ?thesis by simp
  next
    case False
    have "split_by (\<lambda>b. b = LF) (v @ w) \<noteq> [] \<and> length v \<le> length (hd (split_by (\<lambda>b. b = LF) (v @ w)))"
      if "LF \<notin> set v" for v w using that by (induction v) (auto split: list.splits)
    from this [of "buffer @ [b]" chunk] have "length buffer < length (hd (split_by (\<lambda>b. b = LF) (buffer @ b # chunk)))"
      using False "2.prems"(1) by simp
    moreover have "hd (split_by (\<lambda>b. b = LF) (buffer @ b # chunk)) \<in> set (split_by (\<lambda>b. b = LF) (buffer @ b # chunk))"
      by (rule hd_in_set) simp
    ultimately have "length buffer < limit" using "2.prems"(2) by fastforce
    with False 2 show ?thesis by simp
  qed
qed

text \<open>\<open>finish\<close> leaves the carriage return of an unfinished line, which the reader drops.\<close>

lemma finish_keeps_carriage_return:
  "finish (fst (feed 16 [] (''a'' @ [CR]))) = ([], Some (''a'' @ [CR]))"
  "fst (read_bounded_frame 16 [Some (''a'' @ [CR])]) = Inr (Some ''a'')"
  by (simp_all add: feed_def finish_def read_bounded_frame_def end_of_stream_def LF_def CR_def
      trim_carriage_return_def)

definition message_ok :: "incoming_message \<Rightarrow> bool" where
  "message_ok msg =
     (case msg of
        Success_Response i r \<Rightarrow> validate_request_id i = None
      | Failure_Response i code \<Rightarrow> validate_request_id i = None \<and> - (2 ^ 63) \<le> code \<and> code < 2 ^ 63
      | Server_Request i m p \<Rightarrow> validate_request_id i = None \<and> length m \<le> MAX_METHOD_BYTES
      | Server_Notification m p \<Rightarrow> length m \<le> MAX_METHOD_BYTES)"

lemma as_i64_bounds: "as_i64 v = Some n \<Longrightarrow> - (2 ^ 63) \<le> n \<and> n < 2 ^ 63"
  by (auto simp: as_i64_def split: json.splits if_splits)

lemma decoded_response: "decode_response members = Inr msg \<Longrightarrow> message_ok msg"
  by (auto simp: decode_response_def message_ok_def bind_eq_Some_conv
      split: option.splits if_splits json.splits dest!: as_i64_bounds)

lemma decoded_message:
  assumes "decode_incoming parse frame = Inr msg"
  shows "message_ok msg"
proof -
  from assms obtain members where m: "parse frame = Some (JObject members)"
    by (auto simp: decode_incoming_def split: option.splits json.splits)
  show ?thesis
  proof (cases "map_of members ''method''")
    case None
    with assms m show ?thesis by (simp add: decode_incoming_def decoded_response)
  next
    case (Some v)
    with assms m show ?thesis
      by (auto simp: decode_incoming_def message_ok_def Let_def split: option.splits if_splits json.splits)
  qed
qed

subsection \<open>Properties\<close>

text \<open>
  C35: however the stream is cut into blocks, reading a frame takes exactly one line off the text
  that is left, and a line over the limit is refused and taken off whole, so that the next frame
  starts at the next line.
\<close>

theorem reader_takes_lines:
  assumes "blocks cs"
  shows "\<exists>cs'. read_bounded_frame limit (map Some cs) = (fst (read_line limit (concat cs)), map Some cs')
    \<and> blocks cs' \<and> concat cs' = snd (read_line limit (concat cs))"
  using read_loop_blocks [OF assms, of "[]" limit] by (simp add: read_bounded_frame_def)

text \<open>
  C34: messages written as lines within the limit are read back complete and in order, and then the
  end of the stream, however the stream is cut. JSON texts hold no line feed and do not end with a
  carriage return.
\<close>

theorem frames_roundtrip:
  assumes "list_all2 (\<lambda>p f. encode_json_line limit p = Inr f) ps fs"
    and "\<forall>p \<in> set ps. LF \<notin> set (pieces_text p)
           \<and> last (pieces_text p) \<noteq> CR"
    and "blocks cs" and "concat cs = concat fs"
  shows "read_frames (Suc (length ps)) limit (map Some cs)
    = map (\<lambda>p. Inr (Some (pieces_text p))) ps @ [Inr None]"
proof -
  let ?m = pieces_text
  have "concat fs = concat (map (\<lambda>m. m @ [LF]) (map ?m ps)) \<and> (\<forall>m \<in> set (map ?m ps). length m \<le> limit)"
    using assms(1) encoded_line by (induction ps fs rule: list_all2_induct) fastforce+
  with assms read_written_lines [of "map ?m ps" limit cs] show ?thesis by (auto simp: comp_def)
qed

subsection \<open>Witnesses\<close>

theorem reader_takes_lines_witness:
  "\<exists>cs'. read_bounded_frame 4 (map Some [''123'', ''45'' @ [LF] @ ''ok'', [LF]])
     = (Inl (FrameTooLarge \<lparr>fl_limit = 4, fl_observed_at_least = 5\<rparr>), map Some cs')
   \<and> blocks cs' \<and> concat cs' = ''ok'' @ [LF]"
  using reader_takes_lines [of "[''123'', ''45'' @ [LF] @ ''ok'', [LF]]" 4]
  by (simp add: read_line_def LF_def frame_too_large_def)

theorem frames_roundtrip_witness:
  "read_frames 3 8 (map Some [''{}'' @ [LF] @ ''['', '']'' @ [LF]]) = [Inr (Some ''{}''), Inr (Some ''[]''), Inr None]"
  using frames_roundtrip [of 8 "[[Some ''{'', Some ''}''], [Some ''[]'']]" "[''{}'' @ [LF], ''[]'' @ [LF]]"
      "[''{}'' @ [LF] @ ''['', '']'' @ [LF]]"]
  by (simp add: encode_json_line_def map_filter_simps LF_def CR_def numeral_3_eq_3)

end
