(* ===== verification/App_Server.thy ===== *)
theory App_Server
  imports Line_Frames
begin

text \<open>
  The client's end of the app-server connection (\<open>crates/codex-platform/src/app_server.rs\<close>): the
  router thread with its table of pending requests and its bounded event queue, the reader thread's
  hand-over, and the blocking client. Threads, channels and the clock are the environment: the time
  of a turn, whether a write to the child succeeds and what the receiver of the events does while
  the router waits for room are arguments. A reply channel is a number; each takes one reply. The
  bytes of a lease of the ingress budget are kept as a number.
\<close>

definition MAX_PENDING_REQUESTS :: nat where
  "MAX_PENDING_REQUESTS = 64"

definition DEFAULT_EVENT_CHANNEL_CAPACITY :: nat where
  "DEFAULT_EVENT_CHANNEL_CAPACITY = 512"

definition MAX_INTERLEAVED_MESSAGES_PER_REQUEST :: nat where
  "MAX_INTERLEAVED_MESSAGES_PER_REQUEST = 256"

definition usize_sat_add :: "nat \<Rightarrow> nat \<Rightarrow> nat" where
  "usize_sat_add a b = min (a + b) (2 ^ 64 - 1)"

datatype app_server_error =
    Transport
  | Protocol protocol_error
  | TransportClosed
  | EventQueueOverloaded
  | TooManyPendingRequests
  | RequestTimedOut str
  | RequestFailed int
  | UnexpectedResponseId
  | TooManyInterleavedMessages
  | RequestIdExhausted

subsection \<open>Events and replies\<close>

datatype app_server_event =
    Notification_Event str json
  | Request_Event json str json
  | NotificationsDropped nat
  | Disconnected

definition notification_method_requires_resync :: "str \<Rightarrow> bool" where
  "notification_method_requires_resync m \<longleftrightarrow>
     m \<in> {''turn/started'', ''item/started'', ''item/agentMessage/delta'', ''item/plan/delta'',
          ''item/reasoning/summaryTextDelta'', ''item/reasoning/textDelta'',
          ''item/commandExecution/outputDelta'', ''item/fileChange/outputDelta'', ''item/completed'',
          ''turn/completed'', ''thread/goal/updated'', ''thread/goal/cleared'',
          ''thread/status/changed'', ''account/login/completed'',
          ''externalAgentConfig/import/completed'', ''remoteControl/status/changed''}"

definition notification_requires_resync :: "app_server_event \<Rightarrow> bool" where
  "notification_requires_resync e =
     (case e of Notification_Event m p \<Rightarrow> notification_method_requires_resync m | _ \<Rightarrow> False)"

definition app_server_event_requires_delivery :: "app_server_event \<Rightarrow> bool" where
  "app_server_event_requires_delivery e =
     (case e of
        Notification_Event m p \<Rightarrow> notification_requires_resync e
      | Request_Event i m p \<Rightarrow> True
      | Disconnected \<Rightarrow> True
      | NotificationsDropped n \<Rightarrow> False)"

definition incoming_message_requires_delivery :: "incoming_message \<Rightarrow> bool" where
  "incoming_message_requires_delivery msg =
     (case msg of
        Server_Notification m p \<Rightarrow> notification_method_requires_resync m
      | _ \<Rightarrow> True)"

record received_event =
  re_event :: app_server_event
  re_frame_bytes :: nat
  re_requires_delivery :: bool
  re_lease :: "nat option"

definition budgeted_event :: "app_server_event \<Rightarrow> nat \<Rightarrow> nat \<Rightarrow> received_event" where
  "budgeted_event e frame_bytes lease =
     \<lparr>re_event = e, re_frame_bytes = frame_bytes,
      re_requires_delivery = app_server_event_requires_delivery e, re_lease = Some lease\<rparr>"

definition unbudgeted_event :: "app_server_event \<Rightarrow> received_event" where
  "unbudgeted_event e =
     \<lparr>re_event = e, re_frame_bytes = 0,
      re_requires_delivery = app_server_event_requires_delivery e, re_lease = None\<rparr>"

record budgeted_message =
  bm_message :: incoming_message
  bm_frame_bytes :: nat
  bm_lease :: nat

record budgeted_reply =
  br_result :: "app_server_error + json"
  br_lease :: "nat option"

definition reply_success :: "json \<Rightarrow> nat \<Rightarrow> budgeted_reply" where
  "reply_success r lease = \<lparr>br_result = Inr r, br_lease = Some lease\<rparr>"

definition reply_failure :: "app_server_error \<Rightarrow> nat option \<Rightarrow> budgeted_reply" where
  "reply_failure e lease = \<lparr>br_result = Inl e, br_lease = lease\<rparr>"

record pending_request =
  pr_method :: str
  pr_deadline :: nat
  pr_reply :: nat

text \<open>
  The router and what it has put into its channels: \<open>rt_events\<close> is the queue, \<open>rt_taken\<close> what the
  receiver has taken from it, \<open>rt_replies\<close> the replies by channel and \<open>rt_written\<close> the frames given
  to the child.
\<close>

record router =
  rt_pending :: "(nat \<times> pending_request) list"
  rt_events :: "received_event list"
  rt_receiver :: bool
  rt_stdin :: bool
  rt_dropped :: nat
  rt_reader_dropped :: nat
  rt_running :: bool
  rt_taken :: "received_event list"
  rt_replies :: "(nat \<times> budgeted_reply) list"
  rt_written :: "str list"

definition new_router :: router where
  "new_router =
     \<lparr>rt_pending = [], rt_events = [], rt_receiver = True, rt_stdin = True, rt_dropped = 0,
      rt_reader_dropped = 0, rt_running = True, rt_taken = [], rt_replies = [], rt_written = []\<rparr>"

subsection \<open>Channels\<close>

datatype send_result = Sent | Full | Receiver_Gone

definition try_send_event :: "received_event \<Rightarrow> router \<Rightarrow> send_result \<times> router" where
  "try_send_event e r =
     (if \<not> rt_receiver r then (Receiver_Gone, r)
      else if DEFAULT_EVENT_CHANNEL_CAPACITY \<le> length (rt_events r) then (Full, r)
      else (Sent, r\<lparr>rt_events := rt_events r @ [e]\<rparr>))"

text \<open>What is queued when the receiver goes away is dropped with it.\<close>

definition leave_receiver :: "router \<Rightarrow> router" where
  "leave_receiver r = r\<lparr>rt_receiver := False, rt_events := []\<rparr>"

text \<open>What the receiver does while a timed send waits for room.\<close>

datatype receiver_action = Takes | Leaves | Stays_Busy

definition take_event :: "router \<Rightarrow> router" where
  "take_event r =
     (case rt_events r of
        [] \<Rightarrow> r
      | e # es \<Rightarrow> r\<lparr>rt_events := es, rt_taken := rt_taken r @ [e]\<rparr>)"

definition send_event_timeout ::
  "receiver_action \<Rightarrow> received_event \<Rightarrow> router \<Rightarrow> send_result \<times> router" where
  "send_event_timeout a e r =
     (case try_send_event e r of
        (Full, r) \<Rightarrow>
          (case a of
             Takes \<Rightarrow> try_send_event e (take_event r)
           | Leaves \<Rightarrow> (Receiver_Gone, leave_receiver r)
           | Stays_Busy \<Rightarrow> (Full, r))
      | res \<Rightarrow> res)"

definition send_reply :: "nat \<Rightarrow> budgeted_reply \<Rightarrow> router \<Rightarrow> router" where
  "send_reply channel reply r = r\<lparr>rt_replies := rt_replies r @ [(channel, reply)]\<rparr>"

definition write_router_frame :: "bool \<Rightarrow> str \<Rightarrow> router \<Rightarrow> app_server_error option \<times> router" where
  "write_router_frame write_ok frame r =
     (if \<not> rt_stdin r then (Some TransportClosed, r)
      else if write_ok then (None, r\<lparr>rt_written := rt_written r @ [frame]\<rparr>)
      else (Some Transport, r))"

subsection \<open>Pending requests\<close>

text \<open>
  A \<open>HashMap\<close> is drained in no particular order; the list gives one.
\<close>

definition expire_pending_requests :: "nat \<Rightarrow> router \<Rightarrow> router" where
  "expire_pending_requests now r =
     r\<lparr>rt_pending := filter (\<lambda>(i, p). \<not> pr_deadline p \<le> now) (rt_pending r),
       rt_replies := rt_replies r
         @ map (\<lambda>(i, p). (pr_reply p, reply_failure (RequestTimedOut (pr_method p)) None))
             (filter (\<lambda>(i, p). pr_deadline p \<le> now) (rt_pending r))\<rparr>"

definition fail_pending_requests :: "router \<Rightarrow> router" where
  "fail_pending_requests r =
     r\<lparr>rt_pending := [],
       rt_replies := rt_replies r
         @ map (\<lambda>(i, p). (pr_reply p, reply_failure TransportClosed None)) (rt_pending r)\<rparr>"

definition insert_pending :: "nat \<Rightarrow> pending_request \<Rightarrow> router \<Rightarrow> router" where
  "insert_pending i p r = r\<lparr>rt_pending := filter (\<lambda>(j, q). j \<noteq> i) (rt_pending r) @ [(i, p)]\<rparr>"

text \<open>\<open>pending.remove(&id)\<close>, and the reply when the request is there.\<close>

definition answer_pending :: "nat \<Rightarrow> budgeted_reply \<Rightarrow> router \<Rightarrow> router" where
  "answer_pending i reply r =
     (case map_of (rt_pending r) i of
        None \<Rightarrow> r
      | Some p \<Rightarrow>
          send_reply (pr_reply p) reply
            (r\<lparr>rt_pending := filter (\<lambda>(j, q). j \<noteq> i) (rt_pending r)\<rparr>))"

subsection \<open>Messages\<close>

definition publish_drop_count :: "router \<Rightarrow> router" where
  "publish_drop_count r =
     (if rt_dropped r = 0 then r
      else case try_send_event (unbudgeted_event (NotificationsDropped (rt_dropped r))) r of
             (Sent, r) \<Rightarrow> r\<lparr>rt_dropped := 0\<rparr>
           | (_, r) \<Rightarrow> r)"

definition publish_notification ::
  "receiver_action \<Rightarrow> str \<Rightarrow> json \<Rightarrow> nat \<Rightarrow> nat \<Rightarrow> router \<Rightarrow> app_server_error option \<times> router" where
  "publish_notification a m params frame_bytes lease r =
     (let event = Notification_Event m params;
          received = budgeted_event event frame_bytes lease
      in if notification_requires_resync event
         then (case send_event_timeout a received r of
                 (Sent, r) \<Rightarrow> (None, r)
               | (Full, r) \<Rightarrow> (Some EventQueueOverloaded, r)
               | (Receiver_Gone, r) \<Rightarrow> (Some TransportClosed, r))
         else (case try_send_event received r of
                 (Sent, r) \<Rightarrow> (None, r)
               | (Full, r) \<Rightarrow> (None, r\<lparr>rt_dropped := usize_sat_add (rt_dropped r) 1\<rparr>)
               | (Receiver_Gone, r) \<Rightarrow> (Some TransportClosed, r)))"

text \<open>
  \<open>busy_frame\<close> stands for \<open>encode_error_response\<close> with the code -32000 and its message; the JSON
  library writes it.
\<close>

definition handle_routed_message ::
  "(json \<Rightarrow> protocol_error + str) \<Rightarrow> receiver_action \<Rightarrow> bool \<Rightarrow> budgeted_message \<Rightarrow> router
   \<Rightarrow> app_server_error option \<times> router" where
  "handle_routed_message busy_frame a write_ok msg r =
     (case bm_message msg of
        Success_Response i result \<Rightarrow>
          (case as_u64 i of
             None \<Rightarrow> (Some UnexpectedResponseId, r)
           | Some n \<Rightarrow> (None, answer_pending n (reply_success result (bm_lease msg)) r))
      | Failure_Response i code \<Rightarrow>
          (case as_u64 i of
             None \<Rightarrow> (Some UnexpectedResponseId, r)
           | Some n \<Rightarrow>
               (None, answer_pending n (reply_failure (RequestFailed code) (Some (bm_lease msg))) r))
      | Server_Request i m params \<Rightarrow>
          (case send_event_timeout a
                  (budgeted_event (Request_Event i m params) (bm_frame_bytes msg) (bm_lease msg)) r of
             (Sent, r) \<Rightarrow> (None, r)
           | (_, r) \<Rightarrow>
               (case busy_frame i of
                  Inl e \<Rightarrow> (Some (Protocol e), r)
                | Inr frame \<Rightarrow> write_router_frame write_ok frame r))
      | Server_Notification m params \<Rightarrow>
          publish_notification a m params (bm_frame_bytes msg) (bm_lease msg) (publish_drop_count r))"

subsection \<open>The loop\<close>

datatype reader_event = Message "protocol_error + budgeted_message" | Overloaded | Eof

text \<open>
  What \<open>select!\<close> takes: a request with its identifier, method, frame, deadline and reply channel, a
  frame, the shutdown command, the closed command channel, an event of the reader with the
  receiver's behaviour meanwhile, the closed reader channel, or nothing before the tick. The flag
  says whether the write to the child succeeds.
\<close>

datatype selected =
    Command_Request nat str str nat nat bool
  | Command_Frame str bool
  | Command_Shutdown
  | Commands_Closed
  | Incoming reader_event receiver_action bool
  | Incoming_Closed
  | Tick

text \<open>Leaving the loop: the pending requests fail, the input of the child closes.\<close>

definition stop_router :: "router \<Rightarrow> router" where
  "stop_router r =
     snd (try_send_event (unbudgeted_event Disconnected)
       ((fail_pending_requests r)\<lparr>rt_running := False, rt_stdin := False\<rparr>))"

definition begin_turn :: "nat \<Rightarrow> router \<Rightarrow> router" where
  "begin_turn now r =
     (let r = expire_pending_requests now r;
          r = r\<lparr>rt_dropped := usize_sat_add (rt_dropped r) (rt_reader_dropped r),
                rt_reader_dropped := 0\<rparr>
      in publish_drop_count r)"

definition route_selected :: "(json \<Rightarrow> protocol_error + str) \<Rightarrow> selected \<Rightarrow> router \<Rightarrow> router" where
  "route_selected busy_frame sel r =
     (case sel of
        Command_Request i m frame deadline reply write_ok \<Rightarrow>
          if MAX_PENDING_REQUESTS \<le> length (rt_pending r)
          then send_reply reply (reply_failure TooManyPendingRequests None) r
          else let r = insert_pending i \<lparr>pr_method = m, pr_deadline = deadline, pr_reply = reply\<rparr> r
               in (case write_router_frame write_ok frame r of
                     (None, r) \<Rightarrow> r
                   | (Some e, r) \<Rightarrow> stop_router (answer_pending i (reply_failure e None) r))
      | Command_Frame frame write_ok \<Rightarrow>
          (case write_router_frame write_ok frame r of
             (None, r) \<Rightarrow> r
           | (Some _, r) \<Rightarrow> stop_router r)
      | Incoming (Message (Inr msg)) a write_ok \<Rightarrow>
          (case handle_routed_message busy_frame a write_ok msg r of
             (None, r) \<Rightarrow> r
           | (Some _, r) \<Rightarrow> stop_router r)
      | Tick \<Rightarrow> r
      | _ \<Rightarrow> stop_router r)"

definition route_app_server :: "(json \<Rightarrow> protocol_error + str) \<Rightarrow> nat \<Rightarrow> selected \<Rightarrow> router \<Rightarrow> router" where
  "route_app_server busy_frame now sel r =
     (if rt_running r then route_selected busy_frame sel (begin_turn now r) else r)"

text \<open>
  The connection as a whole: turns of the router, the receiver taking an event or going away, and
  the reader thread dropping a notification for which the budget has no bytes.
\<close>

datatype connection_event =
    Router_Turn nat selected
  | Receiver_Takes
  | Receiver_Leaves
  | Reader_Drops

fun connection_step ::
  "(json \<Rightarrow> protocol_error + str) \<Rightarrow> connection_event \<Rightarrow> router \<Rightarrow> router" where
  "connection_step busy_frame (Router_Turn now sel) r = route_app_server busy_frame now sel r"
| "connection_step busy_frame Receiver_Takes r = (if rt_receiver r then take_event r else r)"
| "connection_step busy_frame Receiver_Leaves r = leave_receiver r"
| "connection_step busy_frame Reader_Drops r =
     r\<lparr>rt_reader_dropped := usize_sat_add (rt_reader_dropped r) 1\<rparr>"

text \<open>The reader thread: which hand-over follows a decoded message, given whether it got a lease.\<close>

definition hand_over ::
  "protocol_error + incoming_message \<Rightarrow> nat \<Rightarrow> bool \<Rightarrow> reader_event option" where
  "hand_over decoded frame_bytes leased =
     (case decoded of
        Inl e \<Rightarrow> Some (Message (Inl e))
      | Inr msg \<Rightarrow>
          if leased
          then Some (Message (Inr \<lparr>bm_message = msg, bm_frame_bytes = frame_bytes, bm_lease = frame_bytes\<rparr>))
          else if incoming_message_requires_delivery msg then Some Overloaded
          else None)"

subsection \<open>Request identifiers\<close>

definition allocate_request_id :: "u64 \<Rightarrow> app_server_error + (u64 \<times> u64)" where
  "allocate_request_id current =
     (case checked_succ current of
        None \<Rightarrow> Inl RequestIdExhausted
      | Some next \<Rightarrow> Inr (current, next))"

subsection \<open>The blocking client\<close>

text \<open>
  \<open>AppServerClient::request\<close> after its frame is written: what arrives before the deadline, the
  timeout, or the end of the reader. The answer to a server's request is written meanwhile;
  \<open>unsupported\<close> stands for \<open>encode_unsupported_request\<close>.
\<close>

datatype client_event =
    Client_Message "protocol_error + incoming_message" bool
  | Client_Eof
  | Client_Timeout
  | Client_Disconnected

definition add_interleaved :: "nat \<Rightarrow> nat option" where
  "add_interleaved n = (if MAX_INTERLEAVED_MESSAGES_PER_REQUEST < Suc n then None else Some (Suc n))"

fun client_request ::
  "(json \<Rightarrow> protocol_error + str) \<Rightarrow> nat \<Rightarrow> str \<Rightarrow> nat \<Rightarrow> client_event list
   \<Rightarrow> ((app_server_error + json) \<times> client_event list) option" where
  "client_request unsupported i m n [] = None"
| "client_request unsupported i m n (e # es) =
     (case e of
        Client_Message (Inr (Success_Response j r)) _ \<Rightarrow>
          Some (if as_u64 j \<noteq> Some i then Inl UnexpectedResponseId else Inr r, es)
      | Client_Message (Inr (Failure_Response j code)) _ \<Rightarrow>
          Some (Inl (if as_u64 j \<noteq> Some i then UnexpectedResponseId else RequestFailed code), es)
      | Client_Message (Inr (Server_Request j m' p)) write_ok \<Rightarrow>
          (case add_interleaved n of
             None \<Rightarrow> Some (Inl TooManyInterleavedMessages, es)
           | Some n' \<Rightarrow>
               (case unsupported j of
                  Inl err \<Rightarrow> Some (Inl (Protocol err), es)
                | Inr frame \<Rightarrow>
                    if write_ok then client_request unsupported i m n' es
                    else Some (Inl Transport, es)))
      | Client_Message (Inr (Server_Notification m' p)) _ \<Rightarrow>
          (case add_interleaved n of
             None \<Rightarrow> Some (Inl TooManyInterleavedMessages, es)
           | Some n' \<Rightarrow> client_request unsupported i m n' es)
      | Client_Message (Inl err) _ \<Rightarrow> Some (Inl (Protocol err), es)
      | Client_Eof \<Rightarrow> Some (Inl TransportClosed, es)
      | Client_Timeout \<Rightarrow> Some (Inl (RequestTimedOut m), es)
      | Client_Disconnected \<Rightarrow> Some (Inl TransportClosed, es))"

end
