(* ===== verification/App_Server_Properties.thy ===== *)
theory App_Server_Properties
  imports App_Server
begin

text \<open>
  What the router promises: every request it takes is answered on its channel exactly once, and
  every notification it takes is delivered in order, or, when it is one the client can refetch,
  counted as dropped.
\<close>

subsection \<open>Requests\<close>

definition request_of :: "selected \<Rightarrow> (nat \<times> nat) list" where
  "request_of sel =
     (case sel of Command_Request i m frame deadline channel write_ok \<Rightarrow> [(i, channel)] | _ \<Rightarrow> [])"

definition request_in :: "connection_event \<Rightarrow> router \<Rightarrow> (nat \<times> nat) list" where
  "request_in e r =
     (case e of Router_Turn now sel \<Rightarrow> if rt_running r then request_of sel else [] | _ \<Rightarrow> [])"

fun requests_taken ::
  "(json \<Rightarrow> protocol_error + str) \<Rightarrow> connection_event list \<Rightarrow> router \<Rightarrow> (nat \<times> nat) list" where
  "requests_taken busy_frame [] r = []"
| "requests_taken busy_frame (e # es) r =
     request_in e r @ requests_taken busy_frame es (connection_step busy_frame e r)"

fun results_of :: "connection_event \<Rightarrow> (nat \<times> json) list" where
  "results_of (Router_Turn now (Incoming (Message (Inr msg)) a write_ok)) =
     (case bm_message msg of
        Success_Response i v \<Rightarrow> (case as_u64 i of None \<Rightarrow> [] | Some n \<Rightarrow> [(n, v)])
      | _ \<Rightarrow> [])"
| "results_of _ = []"

text \<open>The channels that have a reply, and those that wait for one.\<close>

definition channels :: "router \<Rightarrow> nat multiset" where
  "channels r = mset (map fst (rt_replies r)) + mset (map (\<lambda>(i, p). pr_reply p) (rt_pending r))"

definition requests_kept :: "router \<Rightarrow> router \<Rightarrow> bool" where
  "requests_kept r r' \<longleftrightarrow>
     rt_pending r' = rt_pending r \<and> rt_replies r' = rt_replies r \<and> rt_running r' = rt_running r"

lemma requests_kept_refl [simp]: "requests_kept r r"
  by (simp add: requests_kept_def)

lemma requests_kept_trans: "requests_kept r r' \<Longrightarrow> requests_kept r' r'' \<Longrightarrow> requests_kept r r''"
  by (simp add: requests_kept_def)

lemma take_event_kept: "requests_kept r (take_event r)"
  by (simp add: take_event_def requests_kept_def split: list.split)

lemma try_send_kept: "requests_kept r (snd (try_send_event e r))"
  by (simp add: try_send_event_def requests_kept_def)

lemma send_timeout_kept: "requests_kept r (snd (send_event_timeout a e r))"
proof (cases "try_send_event e r")
  case (Pair res r')
  with try_send_kept [of r e] have "requests_kept r r'" by simp
  moreover have "requests_kept r' (snd (try_send_event e (take_event r')))"
    using take_event_kept try_send_kept requests_kept_trans by blast
  moreover have "requests_kept r' (leave_receiver r')" by (simp add: leave_receiver_def requests_kept_def)
  ultimately show ?thesis using Pair requests_kept_trans
    by (cases res; cases a) (auto simp: send_event_timeout_def)
qed

lemma publish_drop_kept: "requests_kept r (publish_drop_count r)"
proof -
  let ?e = "unbudgeted_event (NotificationsDropped (rt_dropped r))"
  have "requests_kept r (snd (try_send_event ?e r))" by (rule try_send_kept)
  then show ?thesis
    by (auto simp: publish_drop_count_def requests_kept_def split: prod.split send_result.split)
qed

lemma publish_notification_kept: "requests_kept r (snd (publish_notification a m p b l r))"
  using try_send_kept [of r "budgeted_event (Notification_Event m p) b l"]
    send_timeout_kept [of r a "budgeted_event (Notification_Event m p) b l"]
  by (auto simp: publish_notification_def requests_kept_def Let_def split: prod.split send_result.split)

lemma write_kept: "requests_kept r (snd (write_router_frame w frame r))"
  by (simp add: write_router_frame_def requests_kept_def)

text \<open>Pending requests have distinct identifiers; each step keeps the channels.\<close>

definition pending_ids :: "router \<Rightarrow> nat list" where
  "pending_ids r = map fst (rt_pending r)"

text \<open>\<open>r'\<close> answers some of the requests that were pending, on their channels.\<close>

definition answers :: "router \<Rightarrow> router \<Rightarrow> bool" where
  "answers r r' \<longleftrightarrow>
     channels r' = channels r
     \<and> (\<exists>P. rt_pending r' = filter P (rt_pending r))"

lemma answers_refl [simp]: "answers r r"
  unfolding answers_def by (auto intro!: exI [of _ "\<lambda>x. True"])

lemma answers_trans: "answers r r' \<Longrightarrow> answers r' r'' \<Longrightarrow> answers r r''"
  by (auto simp: answers_def)

lemma kept_answers: "requests_kept r r' \<Longrightarrow> answers r r'"
  by (auto simp: requests_kept_def answers_def channels_def intro!: exI [of _ "\<lambda>x. True"])

lemma answers_distinct: "answers r r' \<Longrightarrow> distinct (pending_ids r) \<Longrightarrow> distinct (pending_ids r')"
  by (auto simp: answers_def pending_ids_def distinct_map_filter)

lemma answers_length: "answers r r' \<Longrightarrow> length (rt_pending r') \<le> length (rt_pending r)"
  by (auto simp: answers_def)

lemma mset_filter_split: "mset (filter P xs) + mset (filter (\<lambda>x. \<not> P x) xs) = mset xs"
  by (induction xs) auto

lemma expire_answers: "answers r (expire_pending_requests now r)"
proof -
  let ?late = "\<lambda>(i, p). pr_deadline p \<le> now"
  have "mset (map (\<lambda>(i, p). pr_reply p) (filter ?late (rt_pending r)))
      + mset (map (\<lambda>(i, p). pr_reply p) (filter (\<lambda>x. \<not> ?late x) (rt_pending r)))
      = mset (map (\<lambda>(i, p). pr_reply p) (rt_pending r))"
    by (simp only: mset_map image_mset_union [symmetric] mset_filter_split)
  then show ?thesis
    unfolding answers_def
    by (intro conjI exI [of _ "\<lambda>(i, p). \<not> pr_deadline p \<le> now"])
      (simp_all add: expire_pending_requests_def channels_def case_prod_unfold comp_def)
qed

lemma fail_answers: "answers r (fail_pending_requests r)"
  unfolding answers_def
  by (intro conjI exI [of _ "\<lambda>x. False"])
    (simp_all add: fail_pending_requests_def channels_def case_prod_unfold comp_def)

lemma answer_answers:
  assumes "distinct (pending_ids r)"
  shows "answers r (answer_pending i reply r)"
proof (cases "map_of (rt_pending r) i")
  case None
  then show ?thesis by (simp add: answer_pending_def)
next
  case (Some p)
  let ?here = "\<lambda>(j, q :: pending_request). j = i"
  have "filter ?here xs = [(i, p)]" if "distinct (map fst xs)" "map_of xs i = Some p" for xs
    using that
  proof (induction xs)
    case (Cons x xs)
    obtain j q where x: "x = (j, q)" by (cases x)
    have "filter ?here xs = []" if "j = i" using Cons.prems that by (force simp: filter_empty_conv x)
    with Cons x show ?case by (auto split: if_splits)
  qed simp
  with Some assms have "filter ?here (rt_pending r) = [(i, p)]" by (simp add: pending_ids_def)
  moreover have "filter (\<lambda>x. \<not> ?here x) (rt_pending r) = filter (\<lambda>(j, q). j \<noteq> i) (rt_pending r)"
    by (rule filter_cong) auto
  ultimately have "mset (rt_pending r) = {#(i, p)#} + mset (filter (\<lambda>(j, q). j \<noteq> i) (rt_pending r))"
    using mset_filter_split [of ?here "rt_pending r"] by simp
  from arg_cong [OF this, of "image_mset (\<lambda>(i, p). pr_reply p)"]
  have "image_mset (\<lambda>(i, p). pr_reply p) (mset (rt_pending r))
      = {#pr_reply p#} + image_mset (\<lambda>(i, p). pr_reply p) (mset (filter (\<lambda>(j, q). j \<noteq> i) (rt_pending r)))"
    by simp
  then show ?thesis
    unfolding answers_def
    by (intro conjI exI [of _ "\<lambda>(j, q). j \<noteq> i"])
      (simp_all add: answer_pending_def Some send_reply_def channels_def)
qed


lemma handled_answers:
  assumes "distinct (pending_ids r)"
  shows "answers r (snd (handle_routed_message busy_frame a w msg r))"
proof (cases "bm_message msg")
  case (Server_Request i m p)
  let ?e = "budgeted_event (Request_Event i m p) (bm_frame_bytes msg) (bm_lease msg)"
  obtain res r1 where s: "send_event_timeout a ?e r = (res, r1)" by (cases "send_event_timeout a ?e r")
  with send_timeout_kept [of r a ?e] have kept: "requests_kept r r1" by simp
  have "requests_kept r (snd (write_router_frame w frame r1))" for frame
    using kept write_kept requests_kept_trans by blast
  with Server_Request s kept kept_answers show ?thesis
    by (auto simp: handle_routed_message_def split: send_result.split sum.split)
next
  case (Server_Notification m p)
  then show ?thesis
    using publish_drop_kept publish_notification_kept requests_kept_trans kept_answers
    by (simp add: handle_routed_message_def) blast
qed (use answer_answers [OF assms] in \<open>auto simp: handle_routed_message_def split: option.split\<close>)

definition requests_ok :: "router \<Rightarrow> bool" where
  "requests_ok r \<longleftrightarrow>
     distinct (pending_ids r) \<and> length (rt_pending r) \<le> MAX_PENDING_REQUESTS
     \<and> (rt_running r \<or> rt_pending r = [])"

lemma stop_answers:
  "answers r (stop_router r) \<and> rt_pending (stop_router r) = [] \<and> \<not> rt_running (stop_router r)"
proof -
  let ?r = "(fail_pending_requests r)\<lparr>rt_running := False, rt_stdin := False\<rparr>"
  have "requests_kept ?r (stop_router r)" by (simp only: stop_router_def try_send_kept)
  moreover have "answers r ?r" using fail_answers [of r] by (simp add: answers_def channels_def)
  ultimately show ?thesis
    using answers_trans kept_answers
    by (auto simp: requests_kept_def fail_pending_requests_def)
qed

lemma begin_turn_answers: "answers r (begin_turn now r) \<and> rt_running (begin_turn now r) = rt_running r"
proof -
  let ?r1 = "expire_pending_requests now r"
  let ?r2 = "?r1\<lparr>rt_dropped := usize_sat_add (rt_dropped ?r1) (rt_reader_dropped ?r1), rt_reader_dropped := 0\<rparr>"
  have "requests_kept ?r1 ?r2" by (simp add: requests_kept_def)
  then have "requests_kept ?r1 (publish_drop_count ?r2)" using publish_drop_kept requests_kept_trans by blast
  moreover have "rt_running ?r1 = rt_running r" by (simp add: expire_pending_requests_def)
  ultimately show ?thesis
    using expire_answers [of r now] answers_trans kept_answers
    by (auto simp: begin_turn_def Let_def requests_kept_def)
qed

text \<open>What one turn does to the table, given what it took.\<close>

definition turn_ok :: "(nat \<times> nat) list \<Rightarrow> router \<Rightarrow> router \<Rightarrow> bool" where
  "turn_ok taken r r' \<longleftrightarrow>
     channels r' = channels r + mset (map snd taken) \<and> requests_ok r'
     \<and> set (rt_pending r') \<subseteq> set (rt_pending r) \<union> {(i, p). (i, pr_reply p) \<in> set taken}"

lemma answers_turn_ok: "answers r r' \<Longrightarrow> requests_ok r' \<Longrightarrow> turn_ok [] r r'"
  by (auto simp: answers_def turn_ok_def)

lemma stop_turn_ok:
  assumes "turn_ok taken r r'"
  shows "turn_ok taken r (stop_router r')"
  using assms stop_answers [of r'] by (auto simp: turn_ok_def answers_def requests_ok_def pending_ids_def)

lemma kept_turn_ok: "turn_ok taken r r' \<Longrightarrow> requests_kept r' r'' \<Longrightarrow> turn_ok taken r r''"
  by (simp add: turn_ok_def requests_kept_def requests_ok_def channels_def pending_ids_def)

lemma answers_after_turn:
  "turn_ok taken r r' \<Longrightarrow> answers r' r'' \<Longrightarrow> rt_running r'' \<or> rt_pending r'' = [] \<Longrightarrow> turn_ok taken r r''"
  using answers_distinct [of r' r''] answers_length [of r' r'']
  by (auto simp: turn_ok_def answers_def requests_ok_def)

lemma inserted_turn_ok:
  assumes "requests_ok r" and "rt_running r" and "length (rt_pending r) < MAX_PENDING_REQUESTS"
    and "i \<notin> set (pending_ids r)"
  shows "turn_ok [(i, pr_reply p)] r (insert_pending i p r)"
proof -
  have "filter (\<lambda>(j, q). j \<noteq> i) (rt_pending r) = rt_pending r"
    using assms(4) by (force simp: pending_ids_def filter_id_conv)
  then have "rt_pending (insert_pending i p r) = rt_pending r @ [(i, p)]" by (simp add: insert_pending_def)
  with assms show ?thesis
    by (auto simp: turn_ok_def requests_ok_def channels_def pending_ids_def insert_pending_def)
qed

lemma handled_running:
  "rt_running (snd (handle_routed_message busy_frame a w msg r)) = rt_running r"
proof (cases "bm_message msg")
  case (Server_Request i m p)
  let ?e = "budgeted_event (Request_Event i m p) (bm_frame_bytes msg) (bm_lease msg)"
  have "rt_running (snd (send_event_timeout a ?e r)) = rt_running r"
    using send_timeout_kept by (simp add: requests_kept_def)
  with Server_Request show ?thesis
    by (auto simp: handle_routed_message_def write_router_frame_def
        split: prod.split send_result.split sum.split)
next
  case (Server_Notification m p)
  then show ?thesis
    using publish_drop_kept [of r] publish_notification_kept [of "publish_drop_count r"]
    by (simp add: handle_routed_message_def requests_kept_def)
qed (auto simp: handle_routed_message_def answer_pending_def send_reply_def split: option.split)

lemma answer_running: "rt_running (answer_pending i reply r) = rt_running r"
  by (simp add: answer_pending_def send_reply_def split: option.split)

lemma selected_turn_ok:
  assumes "requests_ok r" and "rt_running r"
    and "\<forall>(i, c) \<in> set (request_of sel). i \<notin> set (pending_ids r)"
  shows "turn_ok (request_of sel) r (route_selected busy_frame sel r)"
proof -
  have same: "turn_ok [] r r" using assms(1) by (intro answers_turn_ok) simp_all
  have writes: "turn_ok taken r (case write_router_frame w frame r' of (None, r) \<Rightarrow> r | (Some e, r) \<Rightarrow> stop_router r)"
    if "turn_ok taken r r'" for taken w frame r'
    using that stop_turn_ok by (simp add: write_router_frame_def kept_turn_ok requests_kept_def)
  show ?thesis
  proof (cases sel)
    case (Command_Request i m frame d c w)
    let ?p = "\<lparr>pr_method = m, pr_deadline = d, pr_reply = c\<rparr>"
    show ?thesis
    proof (cases "MAX_PENDING_REQUESTS \<le> length (rt_pending r)")
      case True
      with assms(1) Command_Request show ?thesis
        by (auto simp: route_selected_def request_of_def turn_ok_def channels_def send_reply_def
            requests_ok_def pending_ids_def)
    next
      case False
      have ins: "turn_ok [(i, c)] r (insert_pending i ?p r)"
        using inserted_turn_ok [OF assms(1,2), of i ?p] False assms(3)
        by (simp add: Command_Request request_of_def)
      then have "distinct (pending_ids (insert_pending i ?p r))" by (simp add: turn_ok_def requests_ok_def)
      from answers_after_turn [OF ins answer_answers [OF this]]
      have answered: "turn_ok [(i, c)] r (answer_pending i reply (insert_pending i ?p r))" for reply
        by (simp add: answer_running insert_pending_def assms(2))
      have "turn_ok [(i, c)] r (case write_router_frame w frame (insert_pending i ?p r) of
          (None, r) \<Rightarrow> r | (Some e, r) \<Rightarrow> stop_router (answer_pending i (reply_failure e None) r))"
        using ins stop_turn_ok [OF answered]
        by (simp add: write_router_frame_def kept_turn_ok requests_kept_def)
      with False show ?thesis by (simp add: Command_Request route_selected_def request_of_def)
    qed
  next
    case (Command_Frame frame w)
    with writes [OF same] show ?thesis by (simp add: route_selected_def request_of_def)
  next
    case (Incoming ev a w)
    show ?thesis
    proof (cases "\<exists>msg. ev = Message (Inr msg)")
      case True
      then obtain msg where ev: "ev = Message (Inr msg)" by blast
      have "answers r (snd (handle_routed_message busy_frame a w msg r))"
        using assms(1) by (intro handled_answers) (simp add: requests_ok_def)
      moreover obtain res r' where h: "handle_routed_message busy_frame a w msg r = (res, r')"
        by (cases "handle_routed_message busy_frame a w msg r")
      moreover have "rt_running r'" using handled_running [of busy_frame a w msg r] h assms(2) by simp
      ultimately have "turn_ok [] r r'" by (intro answers_after_turn [OF same]) simp_all
      with stop_turn_ok [OF this] h show ?thesis
        by (cases res) (simp_all add: Incoming ev route_selected_def request_of_def)
    next
      case False
      with stop_turn_ok [OF same] show ?thesis
        by (auto simp: Incoming route_selected_def request_of_def split: reader_event.split sum.split)
    qed
  qed (use same stop_turn_ok [OF same] in \<open>simp_all add: route_selected_def request_of_def\<close>)
qed


lemma connection_step_requests:
  assumes "requests_ok r" and "\<forall>(i, c) \<in> set (request_in e r). i \<notin> set (pending_ids r)"
  shows "turn_ok (request_in e r) r (connection_step busy_frame e r)"
proof -
  have same: "turn_ok [] r r" using assms(1) by (intro answers_turn_ok) simp_all
  show ?thesis
  proof (cases e)
    case (Router_Turn now sel)
    show ?thesis
    proof (cases "rt_running r")
      case True
      let ?r = "begin_turn now r"
      have a: "answers r ?r" "rt_running ?r" using begin_turn_answers True by auto
      then have ok: "requests_ok ?r"
        using assms(1) answers_distinct answers_length by (fastforce simp: requests_ok_def)
      have "set (rt_pending ?r) \<subseteq> set (rt_pending r)" using a by (auto simp: answers_def)
      then have "set (pending_ids ?r) \<subseteq> set (pending_ids r)" by (auto simp: pending_ids_def)
      with assms(2) True have "\<forall>(i, c) \<in> set (request_of sel). i \<notin> set (pending_ids ?r)"
        by (auto simp: Router_Turn request_in_def)
      from selected_turn_ok [OF ok a(2) this] a \<open>set (rt_pending ?r) \<subseteq> set (rt_pending r)\<close>
      have "turn_ok (request_of sel) r (route_selected busy_frame sel ?r)"
        by (auto simp: turn_ok_def answers_def)
      with True show ?thesis by (simp add: Router_Turn request_in_def route_app_server_def)
    next
      case False
      with same show ?thesis by (simp add: Router_Turn request_in_def route_app_server_def)
    qed
  next
    case Receiver_Takes
    with kept_turn_ok [OF same take_event_kept] same show ?thesis by (simp add: request_in_def)
  qed (use same in \<open>simp_all add: request_in_def leave_receiver_def kept_turn_ok requests_kept_def\<close>)
qed


subsection \<open>Results\<close>

text \<open>The results the callers have received, with their channels.\<close>

definition successes :: "router \<Rightarrow> (nat \<times> json) set" where
  "successes r = {(c, v). \<exists>lease. (c, \<lparr>br_result = Inr v, br_lease = lease\<rparr>) \<in> set (rt_replies r)}"

lemma kept_successes: "requests_kept r r' \<Longrightarrow> successes r' = successes r"
  by (simp add: requests_kept_def successes_def)

lemma begin_turn_successes: "successes (begin_turn now r) = successes r"
proof -
  let ?r1 = "expire_pending_requests now r"
  let ?r2 = "?r1\<lparr>rt_dropped := usize_sat_add (rt_dropped ?r1) (rt_reader_dropped ?r1), rt_reader_dropped := 0\<rparr>"
  have "successes (publish_drop_count ?r2) = successes ?r2" by (rule kept_successes [OF publish_drop_kept])
  also have "\<dots> = successes r"
    by (auto simp: successes_def expire_pending_requests_def reply_failure_def)
  finally show ?thesis by (simp add: begin_turn_def Let_def)
qed

lemma fail_successes: "successes (fail_pending_requests r) = successes r"
  by (auto simp: successes_def fail_pending_requests_def reply_failure_def)

lemma stop_successes [simp]: "successes (stop_router r) = successes r"
proof -
  let ?r = "(fail_pending_requests r)\<lparr>rt_running := False, rt_stdin := False\<rparr>"
  have "requests_kept ?r (stop_router r)" by (simp only: stop_router_def try_send_kept)
  then have "successes (stop_router r) = successes ?r" by (rule kept_successes)
  also have "\<dots> = successes r" using fail_successes [of r] by (simp add: successes_def)
  finally show ?thesis .
qed

lemma failure_successes [simp]: "successes (send_reply c (reply_failure e l) r) = successes r"
  by (auto simp: successes_def send_reply_def reply_failure_def)

lemma answer_failure_successes [simp]: "successes (answer_pending i (reply_failure e l) r) = successes r"
  by (auto simp: answer_pending_def split: option.split) (auto simp: successes_def send_reply_def reply_failure_def)

lemma answer_successes:
  "successes (answer_pending i (reply_success v l) r)
   \<subseteq> successes r \<union> {(pr_reply p, v) |p. (i, p) \<in> set (rt_pending r)}"
  by (auto simp: answer_pending_def split: option.split)
    (auto simp: successes_def send_reply_def reply_success_def dest: map_of_SomeD)

lemma handled_successes:
  "successes (snd (handle_routed_message busy_frame a w msg r))
   \<subseteq> successes r \<union> {(pr_reply p, v) |p v n.
        (n, v) \<in> set (results_of (Router_Turn now (Incoming (Message (Inr msg)) a w)))
        \<and> (n, p) \<in> set (rt_pending r)}"
proof (cases "bm_message msg")
  case (Success_Response i v)
  show ?thesis
  proof (cases "as_u64 i")
    case None
    with Success_Response show ?thesis by (simp add: handle_routed_message_def)
  next
    case (Some n)
    with Success_Response answer_successes [of n v "bm_lease msg" r] show ?thesis
      by (auto simp: handle_routed_message_def)
  qed
next
  case (Server_Request i m p)
  let ?e = "budgeted_event (Request_Event i m p) (bm_frame_bytes msg) (bm_lease msg)"
  obtain res r1 where s: "send_event_timeout a ?e r = (res, r1)" by (cases "send_event_timeout a ?e r")
  with send_timeout_kept [of r a ?e] have kept: "successes r1 = successes r" by (simp add: kept_successes)
  have "successes (snd (write_router_frame w frame r1)) = successes r" for frame
    using kept kept_successes [OF write_kept] by simp
  with Server_Request s kept show ?thesis
    by (simp add: handle_routed_message_def split: send_result.split sum.split)
next
  case (Server_Notification m p)
  then show ?thesis
    using kept_successes [OF publish_drop_kept] kept_successes [OF publish_notification_kept]
    by (simp add: handle_routed_message_def)
qed (simp add: handle_routed_message_def split: option.split)

lemma selected_successes:
  "successes (route_selected busy_frame sel r)
   \<subseteq> successes r \<union> {(pr_reply p, v) |p v n.
        (n, v) \<in> set (results_of (Router_Turn now sel)) \<and> (n, p) \<in> set (rt_pending r)}"
proof (cases sel)
  case (Command_Request i m frame d c w)
  have "successes (insert_pending i p r) = successes r" for p by (simp add: insert_pending_def successes_def)
  then show ?thesis
    by (simp add: Command_Request route_selected_def Let_def write_router_frame_def)
      (simp add: successes_def)
next
  case (Command_Frame frame w)
  then show ?thesis
    by (simp add: route_selected_def write_router_frame_def) (simp add: successes_def)
next
  case (Incoming ev a w)
  show ?thesis
  proof (cases "\<exists>msg. ev = Message (Inr msg)")
    case True
    then obtain msg where ev: "ev = Message (Inr msg)" by blast
    obtain res r' where h: "handle_routed_message busy_frame a w msg r = (res, r')"
      by (cases "handle_routed_message busy_frame a w msg r")
    with handled_successes [of busy_frame a w msg r now] show ?thesis
      by (cases res) (simp_all add: Incoming ev route_selected_def)
  next
    case False
    then show ?thesis by (auto simp: Incoming route_selected_def split: reader_event.split sum.split)
  qed
qed (simp_all add: route_selected_def)

lemma connection_step_successes:
  "successes (connection_step busy_frame e r)
   \<subseteq> successes r \<union> {(pr_reply p, v) |p v n. (n, v) \<in> set (results_of e) \<and> (n, p) \<in> set (rt_pending r)}"
proof (cases e)
  case (Router_Turn now sel)
  have "set (rt_pending (begin_turn now r)) \<subseteq> set (rt_pending r)"
    using begin_turn_answers [of r now] by (auto simp: answers_def)
  with selected_successes [of busy_frame sel "begin_turn now r" now] show ?thesis
    unfolding Router_Turn connection_step.simps route_app_server_def begin_turn_successes
    by (cases "rt_running r") fastforce+
next
  case Receiver_Takes
  then show ?thesis using kept_successes [OF take_event_kept] by simp
qed (auto simp: leave_receiver_def successes_def)

subsection \<open>Runs\<close>

lemma run_requests:
  assumes "requests_ok r" and "distinct (map fst (requests_taken busy_frame es r))"
    and "set (map fst (requests_taken busy_frame es r)) \<inter> set (pending_ids r) = {}"
  shows "channels (fold (connection_step busy_frame) es r)
        = channels r + mset (map snd (requests_taken busy_frame es r))
    \<and> requests_ok (fold (connection_step busy_frame) es r)
    \<and> successes (fold (connection_step busy_frame) es r)
      \<subseteq> successes r \<union> {(c, v). \<exists>n. (n, v) \<in> set (concat (map results_of es))
           \<and> ((n, c) \<in> set (requests_taken busy_frame es r)
              \<or> (\<exists>p. (n, p) \<in> set (rt_pending r) \<and> pr_reply p = c))}"
  using assms
proof (induction es arbitrary: r)
  case Nil
  then show ?case by simp
next
  case (Cons e es)
  let ?r = "connection_step busy_frame e r"
  let ?now = "request_in e r" and ?later = "requests_taken busy_frame es ?r"
  from Cons.prems have "\<forall>(i, c) \<in> set ?now. i \<notin> set (pending_ids r)" by fastforce
  from connection_step_requests [OF Cons.prems(1) this] have step: "turn_ok ?now r ?r" .
  then have ok: "requests_ok ?r" and pend: "set (rt_pending ?r)
      \<subseteq> set (rt_pending r) \<union> {(i, p). (i, pr_reply p) \<in> set ?now}" by (simp_all add: turn_ok_def)
  have "set (pending_ids ?r) \<subseteq> set (pending_ids r) \<union> set (map fst ?now)"
    using pend by (force simp: pending_ids_def)
  with Cons.prems(2,3) have "set (map fst ?later) \<inter> set (pending_ids ?r) = {}" by auto
  moreover have "distinct (map fst ?later)" using Cons.prems(2) by simp
  ultimately have IH: "channels (fold (connection_step busy_frame) es ?r) = channels ?r + mset (map snd ?later)"
    "requests_ok (fold (connection_step busy_frame) es ?r)"
    "successes (fold (connection_step busy_frame) es ?r)
      \<subseteq> successes ?r \<union> {(c, v). \<exists>n. (n, v) \<in> set (concat (map results_of es))
           \<and> ((n, c) \<in> set ?later \<or> (\<exists>p. (n, p) \<in> set (rt_pending ?r) \<and> pr_reply p = c))}"
    using Cons.IH [OF ok] by auto
  have "channels (fold (connection_step busy_frame) (e # es) r) = channels r + mset (map snd (?now @ ?later))"
    using IH(1) step by (simp add: turn_ok_def)
  moreover have "successes (fold (connection_step busy_frame) (e # es) r)
      \<subseteq> successes r \<union> {(c, v). \<exists>n. (n, v) \<in> set (concat (map results_of (e # es)))
           \<and> ((n, c) \<in> set (?now @ ?later) \<or> (\<exists>p. (n, p) \<in> set (rt_pending r) \<and> pr_reply p = c))}"
    using IH(3) connection_step_successes [of busy_frame e r] pend by fastforce
  ultimately show ?case using IH(2) by simp
qed

text \<open>
  C31: every request the router takes is answered on its channel exactly once or still waits, never
  more than 64 wait, when the router has stopped none waits, and a result is given only to the
  channel of the request whose identifier the response named.
\<close>

theorem requests_answered_once:
  assumes "distinct (map fst (requests_taken busy_frame es new_router))"
  shows "mset (map fst (rt_replies (fold (connection_step busy_frame) es new_router)))
      + mset (map (\<lambda>(i, p). pr_reply p) (rt_pending (fold (connection_step busy_frame) es new_router)))
      = mset (map snd (requests_taken busy_frame es new_router))
    \<and> length (rt_pending (fold (connection_step busy_frame) es new_router)) \<le> 64
    \<and> (rt_running (fold (connection_step busy_frame) es new_router)
       \<or> rt_pending (fold (connection_step busy_frame) es new_router) = [])
    \<and> (\<forall>c v lease. (c, \<lparr>br_result = Inr v, br_lease = lease\<rparr>)
          \<in> set (rt_replies (fold (connection_step busy_frame) es new_router)) \<longrightarrow>
        (\<exists>n. (n, c) \<in> set (requests_taken busy_frame es new_router)
           \<and> (n, v) \<in> set (concat (map results_of es))))"
proof -
  have "requests_ok new_router" "pending_ids new_router = []" "channels new_router = {#}"
    "successes new_router = {}" "rt_pending new_router = []"
    by (simp_all add: new_router_def requests_ok_def pending_ids_def channels_def successes_def)
  with run_requests [of new_router busy_frame es] assms
  have r: "channels (fold (connection_step busy_frame) es new_router)
        = mset (map snd (requests_taken busy_frame es new_router))"
    "requests_ok (fold (connection_step busy_frame) es new_router)"
    "successes (fold (connection_step busy_frame) es new_router)
      \<subseteq> {(c, v). \<exists>n. (n, v) \<in> set (concat (map results_of es))
           \<and> (n, c) \<in> set (requests_taken busy_frame es new_router)}" by auto
  from r(3) show ?thesis
    using r(1,2) unfolding channels_def requests_ok_def MAX_PENDING_REQUESTS_def successes_def by blast
qed


theorem requests_answered_once_witness:
  "let r = fold (connection_step (\<lambda>i. Inr []))
     [Router_Turn 0 (Command_Request 0 ''model/list'' ''{}'' 10 7 True),
      Router_Turn 1 (Incoming (Message (Inr
        \<lparr>bm_message = Success_Response (JInt 0) JNull, bm_frame_bytes = 9, bm_lease = 9\<rparr>)) Takes True)] new_router
   in mset (map fst (rt_replies r)) + mset (map (\<lambda>(i, p). pr_reply p) (rt_pending r)) = {#7#}"
proof -
  let ?es = "[Router_Turn 0 (Command_Request 0 ''model/list'' ''{}'' 10 7 True),
      Router_Turn 1 (Incoming (Message (Inr
        \<lparr>bm_message = Success_Response (JInt 0) JNull, bm_frame_bytes = 9, bm_lease = 9\<rparr>)) Takes True)]"
  have taken: "requests_taken (\<lambda>i. Inr []) ?es new_router = [(0, 7)]"
    by (simp add: request_in_def request_of_def) (simp add: new_router_def)
  then have "distinct (map fst (requests_taken (\<lambda>i. Inr []) ?es new_router))" by (simp only:) simp
  from conjunct1 [OF requests_answered_once [OF this]] show ?thesis
    unfolding taken Let_def by (simp only: list.map snd_conv mset.simps)
qed

end
