(* ===== verification/App_Server_Events.thy ===== *)
theory App_Server_Events
  imports App_Server_Properties
begin

text \<open>
  What becomes of the notifications: those that carry state the client cannot refetch are delivered
  complete and in order for as long as the router runs; of the others, each is delivered or counted.
\<close>

subsection \<open>What the receiver gets\<close>

definition delivered :: "router \<Rightarrow> app_server_event list" where
  "delivered r = map re_event (rt_taken r @ rt_events r)"

fun is_plain :: "app_server_event \<Rightarrow> bool" where
  "is_plain (Notification_Event m p) \<longleftrightarrow> \<not> notification_method_requires_resync m"
| "is_plain _ \<longleftrightarrow> False"

fun drop_count :: "app_server_event \<Rightarrow> nat" where
  "drop_count (NotificationsDropped n) = n"
| "drop_count _ = 0"

lemma delivered_update [simp]:
  "delivered (r\<lparr>rt_dropped := n\<rparr>) = delivered r"
  "delivered (r\<lparr>rt_dropped := n, rt_reader_dropped := k\<rparr>) = delivered r"
  "delivered (r\<lparr>rt_reader_dropped := k\<rparr>) = delivered r"
  "delivered (expire_pending_requests now r) = delivered r"
  "delivered ((fail_pending_requests r)\<lparr>rt_running := b, rt_stdin := c\<rparr>) = delivered r"
  by (simp_all add: delivered_def expire_pending_requests_def fail_pending_requests_def)

text \<open>Ordinary notifications: delivered, reported as dropped, or still to be reported.\<close>

definition accounted :: "router \<Rightarrow> nat" where
  "accounted r =
     length (filter is_plain (delivered r)) + sum_list (map drop_count (delivered r))
     + rt_dropped r + rt_reader_dropped r"

definition semantic :: "app_server_event list \<Rightarrow> app_server_event list" where
  "semantic es = filter notification_requires_resync es"

lemma semantic_simps [simp]:
  "semantic [] = []" "semantic (xs @ ys) = semantic xs @ semantic ys"
  "semantic [e] = (if notification_requires_resync e then [e] else [])"
  by (simp_all add: semantic_def)

definition notification_in :: "connection_event \<Rightarrow> router \<Rightarrow> app_server_event list" where
  "notification_in e r =
     (case e of
        Router_Turn now (Incoming (Message (Inr msg)) a w) \<Rightarrow>
          if rt_running r
          then (case bm_message msg of Server_Notification m p \<Rightarrow> [Notification_Event m p] | _ \<Rightarrow> [])
          else []
      | _ \<Rightarrow> [])"

fun notifications_taken ::
  "(json \<Rightarrow> protocol_error + str) \<Rightarrow> connection_event list \<Rightarrow> router \<Rightarrow> app_server_event list" where
  "notifications_taken busy_frame [] r = []"
| "notifications_taken busy_frame (e # es) r =
     notification_in e r @ notifications_taken busy_frame es (connection_step busy_frame e r)"

definition reader_drops :: "connection_event list \<Rightarrow> nat" where
  "reader_drops es = length (filter (\<lambda>e. e = Reader_Drops) es)"

subsection \<open>Sending\<close>

text \<open>\<open>r'\<close> has queued the events \<open>es\<close> and is otherwise as \<open>r\<close> for the receiver.\<close>

definition queued :: "app_server_event list \<Rightarrow> router \<Rightarrow> router \<Rightarrow> bool" where
  "queued es r r' \<longleftrightarrow>
     rt_receiver r \<and> delivered r' = delivered r @ es \<and> rt_dropped r' = rt_dropped r
     \<and> rt_reader_dropped r' = rt_reader_dropped r"

lemma queued_trans: "queued xs r r' \<Longrightarrow> queued ys r' r'' \<Longrightarrow> queued (xs @ ys) r r''"
  by (simp add: queued_def)

lemma try_send_queued:
  assumes "try_send_event e r = (res, r')" and "rt_receiver r'"
  shows "res = Sent \<and> queued [re_event e] r r' \<or> res = Full \<and> queued [] r r'"
  using assms by (auto simp: try_send_event_def queued_def delivered_def split: if_splits)

lemma take_event_queued: "rt_receiver r \<Longrightarrow> queued [] r (take_event r) \<and> rt_receiver (take_event r)"
  by (simp add: take_event_def queued_def delivered_def split: list.split)

lemma send_timeout_queued:
  assumes "send_event_timeout a e r = (res, r')" and "rt_receiver r'"
  shows "res = Sent \<and> queued [re_event e] r r' \<or> res = Full \<and> queued [] r r'"
proof (cases "try_send_event e r")
  case (Pair res1 r1)
  have same: "rt_receiver r1 = rt_receiver r" using Pair by (auto simp: try_send_event_def split: if_splits)
  show ?thesis
  proof (cases "res1 = Full \<and> a = Takes")
    case True
    then have s: "try_send_event e (take_event r1) = (res, r')" using assms(1) Pair
      by (simp add: send_event_timeout_def)
    have "rt_receiver r1" using True Pair by (auto simp: try_send_event_def split: if_splits)
    then have "queued [] r r1" "queued [] r1 (take_event r1)"
      using try_send_queued [OF Pair] take_event_queued True by auto
    then have "queued [] r (take_event r1)" using queued_trans [of "[]" r r1 "[]"] by simp
    with try_send_queued [OF s assms(2)] show ?thesis using queued_trans [of "[]"] by fastforce
  next
    case False
    have "r' = r1 \<and> res = res1" using assms Pair False
      by (cases res1; cases a) (auto simp: send_event_timeout_def leave_receiver_def)
    with try_send_queued [OF Pair] assms(2) show ?thesis by simp
  qed
qed

subsection \<open>One step\<close>

text \<open>
  \<open>told es\<close>: \<open>r'\<close> has dealt with the notifications \<open>es\<close>; one of them may be missing when the router
  has given up because of it.
\<close>

definition told :: "app_server_event list \<Rightarrow> router \<Rightarrow> router \<Rightarrow> bool" where
  "told es r r' \<longleftrightarrow>
     rt_receiver r \<and> accounted r' = accounted r + length (filter is_plain es)
     \<and> semantic (delivered r') = semantic (delivered r) @ semantic es"

definition given_up :: "app_server_event list \<Rightarrow> router \<Rightarrow> router \<Rightarrow> bool" where
  "given_up es r r' \<longleftrightarrow>
     rt_receiver r \<and> accounted r' = accounted r + length (filter is_plain es)
     \<and> semantic (delivered r') = semantic (delivered r) \<and> length (semantic es) \<le> 1"

lemma queued_accounted:
  "queued es r r' \<Longrightarrow>
   accounted r' = accounted r + length (filter is_plain es) + sum_list (map drop_count es)"
  by (simp add: queued_def accounted_def)

lemma queued_told:
  "queued es r r' \<Longrightarrow> sum_list (map drop_count es) = 0 \<Longrightarrow> told es r r'"
  using queued_accounted [of es r r'] by (simp add: told_def queued_def)

lemma told_trans: "told xs r r' \<Longrightarrow> told ys r' r'' \<Longrightarrow> told (xs @ ys) r r''"
  by (simp add: told_def)

lemma told_quiet:
  "queued es r r' \<Longrightarrow> sum_list (map drop_count es) = 0 \<Longrightarrow> filter is_plain es = []
   \<Longrightarrow> semantic es = [] \<Longrightarrow> told [] r r'"
  using queued_accounted [of es r r'] by (simp add: told_def queued_def)

lemma publish_drop_told:
  assumes "rt_receiver r"
  shows "told [] r (publish_drop_count r) \<and> rt_receiver (publish_drop_count r)"
proof (cases "rt_dropped r = 0")
  case True
  with assms show ?thesis by (simp add: publish_drop_count_def told_def)
next
  case False
  let ?e = "unbudgeted_event (NotificationsDropped (rt_dropped r))"
  obtain res r' where s: "try_send_event ?e r = (res, r')" by (cases "try_send_event ?e r")
  have alive: "rt_receiver r'" using s assms by (auto simp: try_send_event_def split: if_splits)
  from try_send_queued [OF s this] show ?thesis
    using False s alive assms
    by (auto simp: publish_drop_count_def unbudgeted_event_def queued_def told_def accounted_def
        notification_requires_resync_def)
qed

lemma begin_turn_told:
  assumes "rt_receiver r" and "rt_dropped r + rt_reader_dropped r < 2 ^ 64"
  shows "told [] r (begin_turn now r) \<and> rt_receiver (begin_turn now r)"
proof -
  let ?r1 = "expire_pending_requests now r"
  let ?r2 = "?r1\<lparr>rt_dropped := usize_sat_add (rt_dropped ?r1) (rt_reader_dropped ?r1), rt_reader_dropped := 0\<rparr>"
  have "usize_sat_add (rt_dropped r) (rt_reader_dropped r) = rt_dropped r + rt_reader_dropped r"
    using assms(2) unfolding usize_sat_add_def by linarith
  then have "told [] r ?r2" "rt_receiver ?r2" using assms(1)
    by (simp_all add: told_def accounted_def) (simp_all add: expire_pending_requests_def)
  then show ?thesis
    using publish_drop_told [of ?r2] told_trans [of "[]" r ?r2 "[]"]
    by (simp add: begin_turn_def Let_def)
qed

lemma stop_told:
  assumes "rt_receiver r"
  shows "told [] r (stop_router r) \<and> rt_receiver (stop_router r)"
proof -
  let ?r = "(fail_pending_requests r)\<lparr>rt_running := False, rt_stdin := False\<rparr>"
  obtain res r' where s: "try_send_event (unbudgeted_event Disconnected) ?r = (res, r')"
    by (cases "try_send_event (unbudgeted_event Disconnected) ?r")
  have r: "told [] r ?r" "rt_receiver ?r"
    using assms by (simp_all add: told_def accounted_def) (simp_all add: fail_pending_requests_def)
  then have alive: "rt_receiver r'" using s by (auto simp: try_send_event_def split: if_splits)
  from try_send_queued [OF s this] have "told [] ?r r'"
    by (auto intro!: told_quiet [of _ ?r] simp: unbudgeted_event_def notification_requires_resync_def)
  with r s alive show ?thesis using told_trans [of "[]" r ?r "[]"] by (simp add: stop_router_def)
qed

lemma publish_notification_told:
  assumes "publish_notification a m p b l r = (err, r')" and "rt_receiver r'"
    and "rt_dropped r < 2 ^ 64 - 1"
  shows "(if err = None then told [Notification_Event m p] r r' else given_up [Notification_Event m p] r r')"
proof (cases "notification_method_requires_resync m")
  case True
  let ?e = "budgeted_event (Notification_Event m p) b l"
  obtain res r1 where s: "send_event_timeout a ?e r = (res, r1)" by (cases "send_event_timeout a ?e r")
  with True assms(1) have r1: "r1 = r'"
    by (cases res) (auto simp: publish_notification_def notification_requires_resync_def)
  with send_timeout_queued [OF s] assms(2)
  have "res = Sent \<and> queued [Notification_Event m p] r r' \<or> res = Full \<and> queued [] r r'"
    by (simp add: budgeted_event_def)
  then show ?thesis
  proof (elim disjE conjE)
    assume "res = Sent" "queued [Notification_Event m p] r r'"
    with s True assms(1) show ?thesis
      by (auto simp: publish_notification_def notification_requires_resync_def intro!: queued_told)
  next
    assume "res = Full" "queued [] r r'"
    with s True assms(1) queued_accounted [of "[]" r r'] show ?thesis
      by (auto simp: publish_notification_def notification_requires_resync_def given_up_def queued_def)
  qed
next
  case False
  let ?e = "budgeted_event (Notification_Event m p) b l"
  obtain res r1 where s: "try_send_event ?e r = (res, r1)" by (cases "try_send_event ?e r")
  have alive: "rt_receiver r1" using s False assms(1,2)
    by (cases res) (auto simp: publish_notification_def notification_requires_resync_def)
  have "usize_sat_add (rt_dropped r) 1 = Suc (rt_dropped r)"
    using assms(3) unfolding usize_sat_add_def by linarith
  with try_send_queued [OF s alive] s False assms(1) show ?thesis
    by (auto simp: publish_notification_def notification_requires_resync_def budgeted_event_def
        told_def queued_def accounted_def)
qed


definition notification_of :: "incoming_message \<Rightarrow> app_server_event list" where
  "notification_of msg = (case msg of Server_Notification m p \<Rightarrow> [Notification_Event m p] | _ \<Rightarrow> [])"

lemma told_receiver: "told es r r' \<Longrightarrow> rt_receiver r" by (simp add: told_def)

lemma told_given_up: "told [] r r' \<Longrightarrow> given_up es r' r'' \<Longrightarrow> given_up es r r''"
  by (simp add: told_def given_up_def)

lemma given_up_told: "given_up es r r' \<Longrightarrow> told [] r' r'' \<Longrightarrow> given_up es r r''"
  by (simp add: told_def given_up_def)

lemma told_simple:
  "rt_receiver r \<Longrightarrow> delivered r' = delivered r \<Longrightarrow> rt_dropped r' = rt_dropped r
   \<Longrightarrow> rt_reader_dropped r' = rt_reader_dropped r \<Longrightarrow> told [] r r'"
  by (simp add: told_def accounted_def)

lemma answer_told:
  "rt_receiver r \<Longrightarrow> told [] r (answer_pending i reply r)"
  by (rule told_simple) (simp_all add: answer_pending_def send_reply_def delivered_def split: option.split)

lemma write_told: "rt_receiver r \<Longrightarrow> told [] r (snd (write_router_frame w frame r))"
  by (rule told_simple) (simp_all add: write_router_frame_def delivered_def)

lemma handled_told:
  assumes "handle_routed_message busy_frame a w msg r = (err, r')" and "rt_receiver r'"
    and "rt_receiver r" and "accounted r < 2 ^ 64 - 1"
  shows "told (notification_of (bm_message msg)) r r'
    \<or> err \<noteq> None \<and> given_up (notification_of (bm_message msg)) r r'"
proof (cases "bm_message msg")
  case (Server_Request i m p)
  let ?e = "budgeted_event (Request_Event i m p) (bm_frame_bytes msg) (bm_lease msg)"
  obtain res r1 where s: "send_event_timeout a ?e r = (res, r1)" by (cases "send_event_timeout a ?e r")
  have writes: "rt_receiver (snd (write_router_frame w f r1)) = rt_receiver r1" for f
    by (simp add: write_router_frame_def)
  have r': "r' = r1 \<or> (\<exists>f. r' = snd (write_router_frame w f r1))"
    using assms(1) s Server_Request
    by (cases res; cases "busy_frame i") (auto simp: handle_routed_message_def, metis snd_conv, metis snd_conv)
  with assms(2) writes have alive: "rt_receiver r1" by auto
  from send_timeout_queued [OF s this] have "told [] r r1"
    by (auto intro!: told_quiet [of _ r] simp: budgeted_event_def notification_requires_resync_def)
  with r' write_told [OF alive] told_trans [of "[]" r r1 "[]"] have "told [] r r'" by auto
  with Server_Request show ?thesis by (simp add: notification_of_def)
next
  case (Server_Notification m p)
  let ?r = "publish_drop_count r"
  have r: "told [] r ?r" using publish_drop_told [OF assms(3)] by simp
  then have "accounted ?r < 2 ^ 64 - 1" using assms(4) by (simp add: told_def)
  then have "rt_dropped ?r < 2 ^ 64 - 1" by (simp add: accounted_def)
  moreover have "publish_notification a m p (bm_frame_bytes msg) (bm_lease msg) ?r = (err, r')"
    using assms(1) Server_Notification by (simp add: handle_routed_message_def)
  ultimately have "if err = None then told [Notification_Event m p] ?r r' else given_up [Notification_Event m p] ?r r'"
    using publish_notification_told assms(2) by blast
  with r told_trans [OF r, of "[Notification_Event m p]" r'] told_given_up [OF r]
  show ?thesis by (auto simp: Server_Notification notification_of_def split: if_splits)
qed (use assms answer_told in \<open>auto simp: handle_routed_message_def notification_of_def
      told_simple split: option.splits\<close>)

definition notification_taken :: "selected \<Rightarrow> app_server_event list" where
  "notification_taken sel =
     (case sel of Incoming (Message (Inr msg)) a w \<Rightarrow> notification_of (bm_message msg) | _ \<Rightarrow> [])"

lemma stop_told_after:
  "told es r r' \<Longrightarrow> rt_receiver r' \<Longrightarrow> told es r (stop_router r') \<and> \<not> rt_running (stop_router r')"
  using stop_told [of r'] told_trans [of es r r' "[]"] stop_answers [of r'] by simp

lemma stop_receiver [simp]: "rt_receiver (stop_router r) = rt_receiver r"
  by (simp add: stop_router_def try_send_event_def fail_pending_requests_def)

lemma selected_told:
  assumes "rt_receiver (route_selected busy_frame sel r)" and "rt_receiver r" and "accounted r < 2 ^ 64 - 1"
  shows "told (notification_taken sel) r (route_selected busy_frame sel r)
    \<or> \<not> rt_running (route_selected busy_frame sel r)
      \<and> given_up (notification_taken sel) r (route_selected busy_frame sel r)"
proof -
  have same: "told [] r r" using assms(2) by (simp add: told_def)
  have stop: "told [] r (stop_router r)" using stop_told [OF assms(2)] by simp
  show ?thesis
  proof (cases sel)
    case (Command_Request i m frame d c w)
    let ?p = "\<lparr>pr_method = m, pr_deadline = d, pr_reply = c\<rparr>"
    have ins: "told [] r (insert_pending i ?p r)" "rt_receiver (insert_pending i ?p r)"
      using assms(2) by (auto intro!: told_simple simp: insert_pending_def delivered_def)
    have reply: "told [] r (send_reply c rep r)" for rep
      using assms(2) by (intro told_simple) (simp_all add: send_reply_def delivered_def)
    have answered: "told [] r (answer_pending i rep (insert_pending i ?p r))" for rep
      using ins answer_told [OF ins(2)] told_trans [OF ins(1), of "[]"] by simp
    have answered_alive: "rt_receiver (answer_pending i rep (insert_pending i ?p r))" for rep
      using ins(2) by (simp add: answer_pending_def send_reply_def split: option.split)
    have "told [] r (insert_pending i ?p r\<lparr>rt_written := ws\<rparr>)" for ws
      using assms(2) by (intro told_simple) (simp_all add: insert_pending_def delivered_def)
    then have "told [] r (route_selected busy_frame sel r)"
      using reply stop_told_after [OF answered answered_alive]
      by (simp add: Command_Request route_selected_def write_router_frame_def Let_def)
    then show ?thesis by (simp add: Command_Request notification_taken_def)
  next
    case (Command_Frame frame w)
    have "told [] r (r\<lparr>rt_written := ws\<rparr>)" for ws
      using assms(2) by (intro told_simple) (simp_all add: delivered_def)
    with stop show ?thesis
      by (simp add: Command_Frame route_selected_def write_router_frame_def notification_taken_def)
  next
    case (Incoming ev a w)
    show ?thesis
    proof (cases "\<exists>msg. ev = Message (Inr msg)")
      case True
      then obtain msg where ev: "ev = Message (Inr msg)" by blast
      obtain err r' where h: "handle_routed_message busy_frame a w msg r = (err, r')"
        by (cases "handle_routed_message busy_frame a w msg r")
      have alive: "rt_receiver r'"
        using assms(1) h by (cases err) (simp_all add: Incoming ev route_selected_def)
      from handled_told [OF h alive assms(2,3)] stop_told_after [of _ r r'] alive
        given_up_told [of _ r r' "stop_router r'"] stop_told [OF alive] stop_answers [of r']
      show ?thesis using h
        by (cases err) (auto simp: Incoming ev route_selected_def notification_taken_def)
    next
      case False
      with stop show ?thesis
        by (auto simp: Incoming route_selected_def notification_taken_def split: reader_event.split sum.split)
    qed
  qed (use same stop in \<open>simp_all add: route_selected_def notification_taken_def\<close>)
qed


subsection \<open>Runs\<close>

lemma notification_in_taken:
  "notification_in e r = (case e of Router_Turn now sel \<Rightarrow> if rt_running r then notification_taken sel else []
     | _ \<Rightarrow> [])"
  by (auto simp: notification_in_def notification_taken_def notification_of_def
      split: connection_event.split selected.split reader_event.split sum.split)

definition reader_drop_in :: "connection_event \<Rightarrow> nat" where
  "reader_drop_in e = (if e = Reader_Drops then 1 else 0)"

text \<open>What a step does for the receiver.\<close>

definition step_told :: "nat \<Rightarrow> app_server_event list \<Rightarrow> router \<Rightarrow> router \<Rightarrow> bool" where
  "step_told k es r r' \<longleftrightarrow>
     rt_receiver r \<and> accounted r' = accounted r + length (filter is_plain es) + k
     \<and> (\<exists>missing. semantic (delivered r') @ missing = semantic (delivered r) @ semantic es
          \<and> length missing \<le> 1 \<and> (rt_running r' \<longrightarrow> missing = []))
     \<and> (\<not> rt_running r \<longrightarrow> \<not> rt_running r' \<and> semantic (delivered r') = semantic (delivered r))"

text \<open>A receiver that has left does not come back, and a router that has stopped takes nothing.\<close>

lemma gone_send: "\<not> rt_receiver r \<Longrightarrow> \<not> rt_receiver (snd (try_send_event e r))"
  by (simp add: try_send_event_def)

lemma gone_send_timeout: "\<not> rt_receiver r \<Longrightarrow> send_event_timeout a e r = (Receiver_Gone, r)"
  by (simp add: send_event_timeout_def try_send_event_def)

lemma gone_handled: "\<not> rt_receiver r \<Longrightarrow> \<not> rt_receiver (snd (handle_routed_message busy_frame a w msg r))"
proof (cases "bm_message msg")
  case (Server_Notification m p)
  assume "\<not> rt_receiver r"
  then have "\<not> rt_receiver (publish_drop_count r)"
    by (simp add: publish_drop_count_def try_send_event_def)
  then show ?thesis
    by (simp add: Server_Notification handle_routed_message_def publish_notification_def
        gone_send_timeout try_send_event_def Let_def)
qed (auto simp: handle_routed_message_def gone_send_timeout write_router_frame_def answer_pending_def
    send_reply_def split: option.split sum.split)

lemma gone_stays: "\<not> rt_receiver r \<Longrightarrow> \<not> rt_receiver (route_selected busy_frame sel r)"
proof (cases sel)
  case (Incoming ev a w)
  assume gone: "\<not> rt_receiver r"
  show ?thesis
  proof (cases "\<exists>msg. ev = Message (Inr msg)")
    case True
    then obtain msg where ev: "ev = Message (Inr msg)" by blast
    obtain err r' where h: "handle_routed_message busy_frame a w msg r = (err, r')"
      by (cases "handle_routed_message busy_frame a w msg r")
    with gone_handled [OF gone, of busy_frame a w msg] show ?thesis
      by (cases err) (simp_all add: Incoming ev route_selected_def)
  next
    case False
    with gone show ?thesis by (auto simp: Incoming route_selected_def split: reader_event.split sum.split)
  qed
qed (simp_all add: route_selected_def write_router_frame_def insert_pending_def answer_pending_def
    send_reply_def Let_def split: option.split)

lemma gone_stays_step: "\<not> rt_receiver r \<Longrightarrow> \<not> rt_receiver (connection_step busy_frame e r)"
proof (cases e)
  case (Router_Turn now sel)
  assume "\<not> rt_receiver r"
  then show ?thesis
    using gone_stays [of "begin_turn now r"]
    by (simp add: Router_Turn route_app_server_def begin_turn_def expire_pending_requests_def
        publish_drop_count_def try_send_event_def Let_def)
qed (simp_all add: leave_receiver_def)

lemma gone_stays_run: "\<not> rt_receiver r \<Longrightarrow> \<not> rt_receiver (fold (connection_step busy_frame) es r)"
  using gone_stays_step by (induction es arbitrary: r) simp_all

lemma stopped_stays: "\<not> rt_running r \<Longrightarrow> \<not> rt_running (connection_step busy_frame e r)"
  by (cases e) (simp_all add: route_app_server_def take_event_def leave_receiver_def split: list.split)

lemma stopped_takes_nothing: "\<not> rt_running r \<Longrightarrow> notifications_taken busy_frame es r = []"
  using stopped_stays by (induction es arbitrary: r)
    (simp_all add: notification_in_taken split: connection_event.split)

lemma connection_step_told:
  assumes "rt_receiver (connection_step busy_frame e r)" and "accounted r < 2 ^ 64 - 1"
  shows "step_told (reader_drop_in e) (notification_in e r) r (connection_step busy_frame e r)"
proof (cases e)
  case (Router_Turn now sel)
  show ?thesis
  proof (cases "rt_running r")
    case False
    with assms(1) show ?thesis
      by (simp add: Router_Turn route_app_server_def step_told_def reader_drop_in_def notification_in_taken)
  next
    case True
    let ?r1 = "begin_turn now r"
    let ?r2 = "route_selected busy_frame sel ?r1"
    have step: "connection_step busy_frame e r = ?r2" using True by (simp add: Router_Turn route_app_server_def)
    have "rt_receiver r"
    proof (rule ccontr)
      assume "\<not> rt_receiver r"
      then have "\<not> rt_receiver ?r1"
        by (simp add: begin_turn_def expire_pending_requests_def publish_drop_count_def
            try_send_event_def Let_def split: if_splits)
      then have "\<not> rt_receiver ?r2" by (rule gone_stays)
      with assms(1) step show False by simp
    qed
    then have r1: "told [] r ?r1" "rt_receiver ?r1"
      using begin_turn_told assms(2) by (simp_all add: accounted_def)
    then have "accounted ?r1 < 2 ^ 64 - 1" using assms(2) by (simp add: told_def)
    from selected_told [OF _ r1(2) this, of busy_frame sel] assms(1) step
    have "told (notification_taken sel) ?r1 ?r2
        \<or> \<not> rt_running ?r2 \<and> given_up (notification_taken sel) ?r1 ?r2" by simp
    then have "told (notification_taken sel) r ?r2
        \<or> \<not> rt_running ?r2 \<and> given_up (notification_taken sel) r ?r2"
      using told_trans [OF r1(1)] told_given_up [OF r1(1)] by auto
    then have "step_told 0 (notification_taken sel) r ?r2"
      using True by (auto simp: step_told_def told_def given_up_def)
    then show ?thesis
      unfolding step by (simp add: Router_Turn notification_in_taken True reader_drop_in_def)
  qed
next
  case Receiver_Takes
  with assms(1) have "rt_receiver r" by (auto split: if_splits)
  with take_event_queued [of r] take_event_kept [of r] queued_accounted [of "[]" r "take_event r"]
  show ?thesis
    by (simp add: Receiver_Takes step_told_def queued_def notification_in_taken reader_drop_in_def
        requests_kept_def)
next
  case Receiver_Leaves
  with assms(1) show ?thesis by (simp add: leave_receiver_def)
next
  case Reader_Drops
  have "rt_reader_dropped r < 2 ^ 64 - 1" using assms(2) by (simp add: accounted_def)
  then have "usize_sat_add (rt_reader_dropped r) 1 = Suc (rt_reader_dropped r)"
    unfolding usize_sat_add_def by linarith
  with assms(1) show ?thesis
    by (simp add: Reader_Drops step_told_def notification_in_taken reader_drop_in_def accounted_def)
qed

lemma notification_taken_length: "length (notification_taken sel) \<le> 1"
proof (cases sel)
  case (Incoming ev a w)
  then show ?thesis
    by (simp add: notification_taken_def notification_of_def
        split: reader_event.split sum.split incoming_message.split)
qed (simp_all add: notification_taken_def)

lemma run_told:
  assumes "rt_receiver (fold (connection_step busy_frame) es r)"
    and "accounted r + length es < 2 ^ 64 - 1"
  shows "step_told (reader_drops es) (notifications_taken busy_frame es r) r
    (fold (connection_step busy_frame) es r)"
  using assms
proof (induction es arbitrary: r)
  case Nil
  then show ?case by (simp add: step_told_def reader_drops_def)
next
  case (Cons e es)
  let ?r = "connection_step busy_frame e r" and ?r' = "fold (connection_step busy_frame) (e # es) r"
  have alive: "rt_receiver ?r" using Cons.prems(1) gone_stays_run by fastforce
  have now: "step_told (reader_drop_in e) (notification_in e r) r ?r"
    using connection_step_told [OF alive] Cons.prems(2) by simp
  have one: "length (filter is_plain (notification_in e r)) + reader_drop_in e \<le> 1"
  proof (cases e)
    case (Router_Turn now sel)
    have "length (filter is_plain (notification_taken sel)) \<le> length (notification_taken sel)"
      by (rule length_filter_le)
    then have "length (filter is_plain (notification_taken sel)) \<le> 1"
      using notification_taken_length by (rule order_trans)
    then show ?thesis by (simp add: Router_Turn notification_in_taken reader_drop_in_def)
  qed (simp_all add: notification_in_taken reader_drop_in_def)
  then have "accounted ?r + length es < 2 ^ 64 - 1" using now Cons.prems(2) by (simp add: step_told_def)
  with Cons.IH [of ?r] Cons.prems(1)
  have later: "step_told (reader_drops es) (notifications_taken busy_frame es ?r) ?r ?r'" by simp
  have "reader_drops (e # es) = reader_drop_in e + reader_drops es"
    by (simp add: reader_drops_def reader_drop_in_def)
  moreover have "notifications_taken busy_frame es ?r = []" if "\<not> rt_running ?r"
    using that by (rule stopped_takes_nothing)
  ultimately show ?case using now later
    by (cases "rt_running ?r") (auto simp: step_told_def)
qed

text \<open>
  C32: as long as the client listens, every notification that carries state it cannot refetch is
  delivered, in order, for as long as the router runs (when it stops, at most the one it stopped
  for is missing); and each other notification is delivered or counted, in a report that is
  delivered or still to come.
\<close>

theorem notifications_delivered_or_counted:
  assumes "rt_receiver (fold (connection_step busy_frame) es new_router)" and "length es < 2 ^ 64 - 1"
  shows "(\<exists>missing. semantic (delivered (fold (connection_step busy_frame) es new_router)) @ missing
          = semantic (notifications_taken busy_frame es new_router)
        \<and> length missing \<le> 1
        \<and> (rt_running (fold (connection_step busy_frame) es new_router) \<longrightarrow> missing = []))
    \<and> accounted (fold (connection_step busy_frame) es new_router)
      = length (filter is_plain (notifications_taken busy_frame es new_router)) + reader_drops es"
  using run_told [OF assms(1)] assms(2)
  by (simp add: step_told_def new_router_def delivered_def accounted_def)


subsection \<open>The blocking client after a timeout\<close>

text \<open>
  The blocking client takes the first answer that arrives for the answer to its last request. After
  a timeout the late answer is taken by the next request, whose own answer is then late for the one
  after it: with a server that answers everything in order, every later request fails.
\<close>

fun client_requests ::
  "(json \<Rightarrow> protocol_error + str) \<Rightarrow> nat \<Rightarrow> str \<Rightarrow> nat \<Rightarrow> client_event list
   \<Rightarrow> (app_server_error + json) list" where
  "client_requests unsupported i m 0 es = []"
| "client_requests unsupported i m (Suc n) es =
     (case client_request unsupported i m 0 es of
        None \<Rightarrow> []
      | Some (res, es) \<Rightarrow> res # client_requests unsupported (Suc i) m n es)"

lemma late_answers_cascade:
  assumes "i + n < 2 ^ 64"
  shows "client_requests unsupported (Suc i) m n
      (map (\<lambda>j. Client_Message (Inr (Success_Response (JInt (int j)) v)) True) [i..<i + n])
    = replicate n (Inl UnexpectedResponseId)"
  using assms
proof (induction n arbitrary: i)
  case 0
  then show ?case by simp
next
  case (Suc n)
  have "as_u64 (JInt (int i)) = Some i" using Suc.prems by (simp add: as_u64_def)
  moreover have "[i..<i + Suc n] = i # [Suc i..<Suc i + n]" by (simp add: upt_conv_Cons)
  ultimately show ?case using Suc.IH [of "Suc i"] Suc.prems by simp
qed

lemma timeout_ends_blocking_client:
  assumes "i + n < 2 ^ 64"
  shows "client_requests unsupported i m (Suc n)
      (Client_Timeout # map (\<lambda>j. Client_Message (Inr (Success_Response (JInt (int j)) v)) True) [i..<i + n])
    = Inl (RequestTimedOut m) # replicate n (Inl UnexpectedResponseId)"
  using late_answers_cascade [OF assms] by simp

subsection \<open>Witnesses\<close>

theorem notifications_delivered_or_counted_witness:
  "semantic (delivered (fold (connection_step (\<lambda>i. Inr [])) [Router_Turn 0 (Incoming (Message (Inr
       \<lparr>bm_message = Server_Notification ''turn/started'' JNull, bm_frame_bytes = 9, bm_lease = 9\<rparr>))
       Stays_Busy True)] new_router))
   = [Notification_Event ''turn/started'' JNull]"
proof -
  let ?es = "[Router_Turn 0 (Incoming (Message (Inr
       \<lparr>bm_message = Server_Notification ''turn/started'' JNull, bm_frame_bytes = 9, bm_lease = 9\<rparr>))
       Stays_Busy True)]"
  let ?r = "fold (connection_step (\<lambda>i. Inr [])) ?es new_router"
  have idle: "begin_turn 0 new_router = new_router"
    by (simp add: begin_turn_def new_router_def expire_pending_requests_def usize_sat_add_def
        publish_drop_count_def)
  have r: "rt_receiver ?r" "rt_running ?r"
    by (simp_all add: route_app_server_def idle route_selected_def handle_routed_message_def
        publish_drop_count_def publish_notification_def notification_requires_resync_def
        notification_method_requires_resync_def send_event_timeout_def try_send_event_def)
      (simp_all add: new_router_def DEFAULT_EVENT_CHANNEL_CAPACITY_def)
  have taken: "notifications_taken (\<lambda>i. Inr []) ?es new_router = [Notification_Event ''turn/started'' JNull]"
    by (simp add: notification_in_def) (simp add: new_router_def)
  from notifications_delivered_or_counted [OF r(1)] r(2) taken show ?thesis
    by (auto simp: notification_requires_resync_def notification_method_requires_resync_def)
qed

end
