(* ===== verification/Byte_Budget.thy ===== *)
theory Byte_Budget
  imports Prelude
begin

text \<open>
  The byte budget that bounds what is read from the app-server but not yet handled
  (\<open>crates/codex-platform/src/byte_budget.rs\<close>). A lease is the number of its bytes. The mutex makes
  each stretch of code between two waits one step; sleeping on the condition variable, being woken
  by a notification, by the timeout or spuriously, and dropping a lease are steps of their own, in
  any order. \<open>Drop\<close> gives the bytes back under the mutex and notifies after it is released, so
  these are two steps.
\<close>

subsection \<open>The critical sections\<close>

record byte_budget =
  bb_limit :: nat
  bb_used :: nat

definition new_budget :: "nat \<Rightarrow> byte_budget" where
  "new_budget limit = \<lparr>bb_limit = limit, bb_used = 0\<rparr>"

definition acquire_if_available :: "nat \<Rightarrow> byte_budget \<Rightarrow> (byte_budget \<times> nat) option" where
  "acquire_if_available bytes b =
     (if bb_limit b < bytes \<or> bb_limit b - bb_used b < bytes then None
      else Some (b\<lparr>bb_used := bb_used b + bytes\<rparr>, bytes))"

definition try_acquire :: "nat \<Rightarrow> byte_budget \<Rightarrow> (byte_budget \<times> nat) option" where
  "try_acquire bytes b = acquire_if_available bytes b"

definition release_lease :: "nat \<Rightarrow> byte_budget \<Rightarrow> byte_budget" where
  "release_lease bytes b = b\<lparr>bb_used := bb_used b - bytes\<rparr>"

text \<open>
  Where a caller of \<open>acquire_timeout\<close> is: not in a call, asleep on the condition variable, or woken
  and about to take the mutex again, with the flag of \<open>wait_timeout\<close>.
\<close>

datatype caller = Outside | Asleep nat | Woken nat bool

text \<open>The loop from its head to the wait or the return; \<open>expired\<close> says that no time remains.\<close>

definition acquire_or_wait ::
  "bool \<Rightarrow> nat \<Rightarrow> byte_budget \<Rightarrow> byte_budget \<times> caller \<times> nat list" where
  "acquire_or_wait expired bytes b =
     (case acquire_if_available bytes b of
        Some (b, lease) \<Rightarrow> (b, Outside, [lease])
      | None \<Rightarrow> (b, if expired then Outside else Asleep bytes, []))"

definition enter_acquire ::
  "bool \<Rightarrow> nat \<Rightarrow> byte_budget \<Rightarrow> byte_budget \<times> caller \<times> nat list" where
  "enter_acquire expired bytes b =
     (if bb_limit b < bytes then (b, Outside, []) else acquire_or_wait expired bytes b)"

definition resume_acquire ::
  "bool \<Rightarrow> bool \<Rightarrow> nat \<Rightarrow> byte_budget \<Rightarrow> byte_budget \<times> caller \<times> nat list" where
  "resume_acquire expired timed_out bytes b =
     (if timed_out \<and> bb_limit b - bb_used b < bytes then (b, Outside, [])
      else acquire_or_wait expired bytes b)"

subsection \<open>All interleavings\<close>

record budget_system =
  bs_budget :: byte_budget
  bs_callers :: "caller list"
  bs_leases :: "nat list"
  bs_notifies :: nat

fun notified :: "caller \<Rightarrow> caller" where
  "notified (Asleep bytes) = Woken bytes False"
| "notified c = c"

definition call_result ::
  "nat \<Rightarrow> byte_budget \<times> caller \<times> nat list \<Rightarrow> budget_system \<Rightarrow> budget_system" where
  "call_result t r s =
     (case r of (b, c, leases) \<Rightarrow>
        s\<lparr>bs_budget := b, bs_callers := (bs_callers s)[t := c], bs_leases := leases @ bs_leases s\<rparr>)"

inductive budget_step :: "budget_system \<Rightarrow> budget_system \<Rightarrow> bool" where
  Try_Acquire:
    "try_acquire bytes (bs_budget s) = Some (b, lease) \<Longrightarrow>
     budget_step s (s\<lparr>bs_budget := b, bs_leases := lease # bs_leases s\<rparr>)"
| Enter:
    "t < length (bs_callers s) \<Longrightarrow> bs_callers s ! t = Outside \<Longrightarrow>
     budget_step s (call_result t (enter_acquire expired bytes (bs_budget s)) s)"
| Wake:
    "t < length (bs_callers s) \<Longrightarrow> bs_callers s ! t = Asleep bytes \<Longrightarrow>
     budget_step s (s\<lparr>bs_callers := (bs_callers s)[t := Woken bytes timed_out]\<rparr>)"
| Resume:
    "t < length (bs_callers s) \<Longrightarrow> bs_callers s ! t = Woken bytes timed_out \<Longrightarrow>
     budget_step s (call_result t (resume_acquire expired timed_out bytes (bs_budget s)) s)"
| Drop_Lease:
    "i < length (bs_leases s) \<Longrightarrow>
     budget_step s (s\<lparr>bs_budget := release_lease (bs_leases s ! i) (bs_budget s),
       bs_leases := remove_at i (bs_leases s), bs_notifies := Suc (bs_notifies s)\<rparr>)"
| Notify:
    "bs_notifies s = Suc n \<Longrightarrow>
     budget_step s (s\<lparr>bs_callers := map notified (bs_callers s), bs_notifies := n\<rparr>)"

inductive_cases budget_stepE: "budget_step s s'"

definition idle_system :: "nat \<Rightarrow> nat \<Rightarrow> budget_system" where
  "idle_system limit callers =
     \<lparr>bs_budget = new_budget limit, bs_callers = replicate callers Outside, bs_leases = [],
      bs_notifies = 0\<rparr>"

subsection \<open>Invariant\<close>

definition budget_ok :: "nat \<Rightarrow> budget_system \<Rightarrow> bool" where
  "budget_ok limit s \<longleftrightarrow>
     bb_limit (bs_budget s) = limit
     \<and> bb_used (bs_budget s) = sum_list (bs_leases s) \<and> sum_list (bs_leases s) \<le> limit"

text \<open>A caller that sleeps although its bytes are free is about to be notified.\<close>

definition no_lost_wakeup :: "budget_system \<Rightarrow> bool" where
  "no_lost_wakeup s \<longleftrightarrow>
     (\<forall>bytes. Asleep bytes \<in> set (bs_callers s) \<longrightarrow>
        bytes \<le> bb_limit (bs_budget s)
        \<and> (bytes \<le> bb_limit (bs_budget s) - bb_used (bs_budget s) \<longrightarrow> 0 < bs_notifies s))"

lemma acquired:
  "acquire_if_available bytes b = Some (b', lease) \<longleftrightarrow>
     bytes \<le> bb_limit b - bb_used b \<and> bytes \<le> bb_limit b \<and> lease = bytes
     \<and> b' = b\<lparr>bb_used := bb_used b + bytes\<rparr>"
  by (auto simp: acquire_if_available_def not_less)

lemma not_acquired:
  "acquire_if_available bytes b = None \<longleftrightarrow> \<not> (bytes \<le> bb_limit b - bb_used b \<and> bytes \<le> bb_limit b)"
  by (auto simp: acquire_if_available_def not_less)

text \<open>What a stretch of \<open>acquire_timeout\<close> does to the budget.\<close>

definition call_ok :: "byte_budget \<Rightarrow> byte_budget \<times> caller \<times> nat list \<Rightarrow> bool" where
  "call_ok b r \<longleftrightarrow>
     (case r of (b', c, leases) \<Rightarrow>
        b' = b\<lparr>bb_used := bb_used b + sum_list leases\<rparr> \<and> sum_list leases \<le> bb_limit b - bb_used b
        \<and> (\<forall>bytes. c = Asleep bytes \<longrightarrow>
             leases = [] \<and> bytes \<le> bb_limit b \<and> bb_limit b - bb_used b < bytes))"

lemma acquire_or_wait_ok: "bytes \<le> bb_limit b \<Longrightarrow> call_ok b (acquire_or_wait expired bytes b)"
  by (auto simp: acquire_or_wait_def call_ok_def acquired not_acquired split: option.splits)

lemma calls_ok:
  "call_ok b (enter_acquire expired bytes b)"
  "bytes \<le> bb_limit b \<Longrightarrow> call_ok b (resume_acquire expired timed_out bytes b)"
  using acquire_or_wait_ok [of bytes b expired]
  by (simp_all add: enter_acquire_def resume_acquire_def) (simp_all add: call_ok_def)

lemma sum_list_remove_at: "i < length xs \<Longrightarrow> sum_list (remove_at i xs) = sum_list xs - xs ! i" for xs :: "nat list"
proof -
  assume i: "i < length xs"
  then have "xs = take i xs @ xs ! i # drop (Suc i) xs" by (rule id_take_nth_drop)
  then have "sum_list xs = sum_list (take i xs) + (xs ! i + sum_list (drop (Suc i) xs))"
    by (metis sum_list.Cons sum_list.append)
  then show ?thesis by (simp add: remove_at_def)
qed

definition budget_inv :: "nat \<Rightarrow> budget_system \<Rightarrow> bool" where
  "budget_inv limit s \<longleftrightarrow>
     budget_ok limit s \<and> no_lost_wakeup s
     \<and> (\<forall>bytes timed_out. Woken bytes timed_out \<in> set (bs_callers s) \<longrightarrow> bytes \<le> limit)"

lemma call_inv:
  assumes "budget_inv limit s" and "call_ok (bs_budget s) r"
    and "\<forall>bytes timed_out. fst (snd r) \<noteq> Woken bytes timed_out"
  shows "budget_inv limit (call_result t r s)"
proof -
  obtain b c leases where r: "r = (b, c, leases)" by (cases r)
  let ?s = "call_result t r s"
  have s': "bs_budget ?s = b" "bs_leases ?s = leases @ bs_leases s" "bs_notifies ?s = bs_notifies s"
    by (simp_all add: call_result_def r)
  have callers: "x \<in> set (bs_callers s) \<or> x = c" if "x \<in> set (bs_callers ?s)" for x
    using that set_update_subset_insert by (fastforce simp: call_result_def r)
  have b: "b = (bs_budget s)\<lparr>bb_used := bb_used (bs_budget s) + sum_list leases\<rparr>"
    and fits: "sum_list leases \<le> bb_limit (bs_budget s) - bb_used (bs_budget s)"
    using assms(2) by (simp_all add: call_ok_def r)
  have "budget_ok limit ?s" using assms(1) b fits by (auto simp: s' budget_inv_def budget_ok_def)
  moreover have "bytes \<le> limit" if "Woken bytes w \<in> set (bs_callers ?s)" for bytes w
    using callers [OF that] assms(1,3) by (auto simp: r budget_inv_def)
  moreover have "no_lost_wakeup ?s"
    unfolding no_lost_wakeup_def
  proof (intro allI impI)
    fix bytes
    assume "Asleep bytes \<in> set (bs_callers ?s)"
    then consider "Asleep bytes \<in> set (bs_callers s)" | "c = Asleep bytes" using callers by blast
    then show "bytes \<le> bb_limit (bs_budget ?s)
        \<and> (bytes \<le> bb_limit (bs_budget ?s) - bb_used (bs_budget ?s) \<longrightarrow> 0 < bs_notifies ?s)"
    proof cases
      case 1
      with assms(1) b show ?thesis by (auto simp: s' budget_inv_def no_lost_wakeup_def)
    next
      case 2
      with assms(2) have "leases = []" "bytes \<le> bb_limit (bs_budget s)"
        "bb_limit (bs_budget s) - bb_used (bs_budget s) < bytes" by (simp_all add: call_ok_def r)
      with b show ?thesis unfolding s' by simp
    qed
  qed
  ultimately show ?thesis by (simp add: budget_inv_def)
qed

lemma call_not_woken:
  "fst (snd (enter_acquire expired bytes b)) \<noteq> Woken n w"
  "fst (snd (resume_acquire expired timed_out bytes b)) \<noteq> Woken n w"
  by (auto simp: enter_acquire_def resume_acquire_def acquire_or_wait_def split: option.split)

lemma notified_woken:
  "Asleep n \<noteq> notified c" "Woken n w = notified c \<longleftrightarrow> c = Woken n w \<or> c = Asleep n \<and> \<not> w"
  by (cases c; auto)+

lemma budget_step_inv:
  assumes "budget_step s s'" and "budget_inv limit s"
  shows "budget_inv limit s'"
  using assms
proof (induction rule: budget_step.induct)
  case (Try_Acquire bytes s b lease)
  then show ?case
    by (auto simp: try_acquire_def acquired budget_inv_def budget_ok_def no_lost_wakeup_def)
next
  case (Enter t s expired bytes)
  then show ?case by (intro call_inv calls_ok) (simp_all add: call_not_woken)
next
  case (Wake t s bytes timed_out)
  then have "Asleep bytes \<in> set (bs_callers s)" by (metis nth_mem)
  moreover have callers: "x \<in> set (bs_callers s) \<or> x = Woken bytes timed_out"
    if "x \<in> set ((bs_callers s)[t := Woken bytes timed_out])" for x
    using that set_update_subset_insert by fastforce
  ultimately show ?case using Wake
    by (auto simp: budget_inv_def budget_ok_def no_lost_wakeup_def dest!: callers)
next
  case (Resume t s bytes timed_out expired)
  then have "Woken bytes timed_out \<in> set (bs_callers s)" by (metis nth_mem)
  then have "bytes \<le> bb_limit (bs_budget s)" using Resume by (auto simp: budget_inv_def budget_ok_def)
  with Resume show ?case by (intro call_inv calls_ok) (simp_all add: call_not_woken)
next
  case (Drop_Lease i s)
  have "bs_leases s ! i \<le> sum_list (bs_leases s)" using Drop_Lease by (simp add: member_le_sum_list)
  with Drop_Lease show ?case
    by (auto simp: budget_inv_def budget_ok_def no_lost_wakeup_def release_lease_def sum_list_remove_at)
next
  case (Notify s n)
  have "Asleep bytes \<notin> set (map notified (bs_callers s))" for bytes
    by (simp add: image_iff notified_woken)
  moreover have "bytes \<le> limit" if "Woken bytes w \<in> set (map notified (bs_callers s))" for bytes w
    using that Notify
    by (auto simp: budget_inv_def budget_ok_def no_lost_wakeup_def image_iff notified_woken)
  ultimately show ?case using Notify by (simp add: budget_inv_def budget_ok_def no_lost_wakeup_def)
qed

lemma reachable_inv: "budget_step\<^sup>*\<^sup>* (idle_system limit callers) s \<Longrightarrow> budget_inv limit s"
proof (induction rule: rtranclp_induct)
  case base
  show ?case
    by (simp add: idle_system_def new_budget_def budget_inv_def budget_ok_def no_lost_wakeup_def
        in_set_replicate)
next
  case (step s s')
  from budget_step_inv [OF step(2,3)] show ?case .
qed

subsection \<open>Properties\<close>

text \<open>
  C33: in every interleaving of acquiring, waiting, dropping and notifying, the used bytes are those
  of the leases that are out, within the limit; and a caller that sleeps although its bytes are
  free is about to be notified, so that never all callers sleep with no lease out.
\<close>

theorem byte_budget_conserved:
  assumes "budget_step\<^sup>*\<^sup>* (idle_system limit callers) s"
  shows "bb_used (bs_budget s) = sum_list (bs_leases s) \<and> sum_list (bs_leases s) \<le> limit
    \<and> (\<forall>t bytes. t < length (bs_callers s) \<and> bs_callers s ! t = Asleep bytes
         \<longrightarrow> bytes \<le> limit
           \<and> (bytes \<le> limit - sum_list (bs_leases s) \<longrightarrow> 0 < bs_notifies s)
           \<and> (bs_leases s = [] \<longrightarrow> 0 < bs_notifies s))"
proof -
  have inv: "budget_ok limit s" "no_lost_wakeup s" using reachable_inv [OF assms] by (simp_all add: budget_inv_def)
  have "bytes \<le> limit \<and> (bytes \<le> limit - sum_list (bs_leases s) \<longrightarrow> 0 < bs_notifies s)"
    if "t < length (bs_callers s)" "bs_callers s ! t = Asleep bytes" for t bytes
  proof -
    from that have "Asleep bytes \<in> set (bs_callers s)" by (metis nth_mem)
    with inv show ?thesis by (auto simp: budget_ok_def no_lost_wakeup_def)
  qed
  with inv show ?thesis by (auto simp: budget_ok_def)
qed

text \<open>One caller takes all, another falls asleep, the lease is dropped.\<close>

lemma demo_budget:
  "budget_step\<^sup>*\<^sup>* (idle_system 4 1)
     \<lparr>bs_budget = \<lparr>bb_limit = 4, bb_used = 0\<rparr>, bs_callers = [Asleep 3], bs_leases = [], bs_notifies = 1\<rparr>"
proof -
  let ?s1 = "\<lparr>bs_budget = \<lparr>bb_limit = 4, bb_used = 4\<rparr>, bs_callers = [Outside], bs_leases = [4], bs_notifies = 0\<rparr>"
  let ?s2 = "?s1\<lparr>bs_callers := [Asleep 3]\<rparr>"
  have "budget_step (idle_system 4 1) ?s1"
    using Try_Acquire [of 4 "idle_system 4 1"]
    by (simp add: idle_system_def new_budget_def try_acquire_def acquire_if_available_def)
  moreover have "budget_step ?s1 ?s2"
    using Enter [of 0 ?s1 False 3]
    by (simp add: enter_acquire_def acquire_or_wait_def acquire_if_available_def call_result_def)
  moreover have "budget_step ?s2 (?s2\<lparr>bs_budget := \<lparr>bb_limit = 4, bb_used = 0\<rparr>, bs_leases := [], bs_notifies := 1\<rparr>)"
    using Drop_Lease [of 0 ?s2] by (simp add: release_lease_def remove_at_def)
  ultimately show ?thesis by (simp add: converse_rtranclp_into_rtranclp)
qed

theorem byte_budget_conserved_witness:
  "let s = \<lparr>bs_budget = \<lparr>bb_limit = 4, bb_used = 0\<rparr>, bs_callers = [Asleep 3], bs_leases = [], bs_notifies = 1\<rparr>
   in bb_used (bs_budget s) = sum_list (bs_leases s) \<and> sum_list (bs_leases s) \<le> 4
     \<and> bs_callers s ! 0 = Asleep 3 \<and> 3 \<le> 4 - sum_list (bs_leases s) \<and> 0 < bs_notifies s"
  using byte_budget_conserved [OF demo_budget] by (simp add: Let_def)

end
