(* ===== verification/Spec2Isabelle.thy ===== *)
theory Spec2Isabelle
  imports Client_Runtime Panel_Properties Bridge_Frames Bounded_Reads Git_Roundtrip App_Server_Events Byte_Budget
begin

text \<open>
  A verification development for codexRS, a native desktop client for the Codex app server.

  \<^bold>\<open>The program.\<close> The user interface (\<open>crates/codex-app/src/ui.rs\<close>) turns what the user does into values
  of \<open>Action\<close>; the back end (\<open>backend.rs\<close>) turns replies and notifications of the app server, of git, of
  the browser and of terminals into actions too. All of them go through one function, \<open>reduce\<close> of
  \<open>crates/codex-core/src/lib.rs\<close>, which changes the one \<open>AppState\<close> and returns a list of \<open>Effect\<close> values; the
  back end carries these out on its own threads and answers with further actions, at any later time and
  in any order. What is hard is therefore in the reducer: replies that come late, twice or not at all,
  lists that must stay bounded, and state that belongs to a task the user has left. Below the reducer,
  \<open>crates/codex-protocol\<close> frames the messages to the app server, and \<open>crates/codex-platform\<close> holds its
  connection, the bridge of the browser agent, the parsers of git's output and the reader threads.

  \<^bold>\<open>The model of the reducer.\<close> \<open>AppState\<close> is two records. \<open>app_state\<close> (App_State, with the types of
  Core_Types and Core_State) is the part that tasks, turns, requests, terminals, lists, the account and the
  composer share; \<open>client_state\<close> (Client_State, Client_Defaults) puts the projects, settings and panels around
  it, with \<open>core\<close> to read the inner state and \<open>with_core\<close> to replace it. A handler is a definition named
  after its action in lower case. It takes what the action carries and the state, and gives the new state with
  the effects in the order the code pushes them; every guard and early return of the code is a branch. Each
  component ends in a datatype of its actions and a function \<open>reduce_...\<close> that dispatches them. Composition
  joins the components of the inner state (\<open>reduce_app\<close>), Client_Composition all of them (\<open>reduce_client\<close>,
  \<open>run_client\<close>). \<open>None\<close> is a panic: only the timeline indexes a vector, so only it can yield one.

  \<^bold>\<open>Theories of the reducer\<close>, all of them about \<open>crates/codex-core/src/lib.rs\<close>:
  \<^item> Limits, Core_Types, Core_State, App_State, Client_State, Client_Defaults: bounds, data, initial state;
  \<^item> Bounded_Text, Dates: \<open>bounded_string\<close>, \<open>append_bounded\<close> and the three date checks;
  \<^item> Worktree_Forks, Fork_Progress: forking a task into a worktree, the queue and its phase machine;
  \<^item> Remote_Control, Remote_Properties: enabling, pairing, listing and revoking remote devices;
  \<^item> Timeline, Timeline_Properties: the items of a task, their index, paging, and the files it produced;
  \<^item> Turns, Goals, Turn_Properties: the life of a turn, safety buffering and its retry, goals that continue;
  \<^item> Approvals, Mcp_Elicitations, Elicitation_Properties, Browser_Permissions: what waits for the user;
  \<^item> Terminals, Process_Manager: terminal tabs and background processes;
  \<^item> Task_Lists, Task_Properties: the list of tasks, its search, pins and archive;
  \<^item> Account, Account_Properties: signing in, cancelling it, signing out, feedback;
  \<^item> Composer_Prompt, Composer_Settings, Settings_Properties, Composer_Submit, Submission_Properties: the draft,
    the models and permission modes it is sent with, and sending it;
  \<^item> Workspace, Task_Selection, Connection: project folders, the selected task, losing the connection;
  \<^item> Reviews, Pull_Requests, Computer_Use, Imports, Personalization: reviews and archiving, and the panels;
  \<^item> Client_Panels, Panel_Invariant, Panel_Properties: what the panels leave alone, keep, and promise;
  \<^item> Component_Frames, Composition, Client_Invariant, Client_Frames, Client_Composition: how the components
    share the state, and that all invariants hold together;
  \<^item> Client_Effects, Client_Properties, Client_Runtime: what is sent in runs of the whole client.

  \<^bold>\<open>Theories of the other crates\<close>:
  \<^item> Line_Frames: the line decoder and the bounded reader and writer of \<open>crates/codex-protocol/src/lib.rs\<close>;
  \<^item> App_Server, App_Server_Properties, App_Server_Events: the router, the pending requests and the event queue of
    \<open>crates/codex-platform/src/app_server.rs\<close>; Byte_Budget: \<open>byte_budget.rs\<close>;
  \<^item> Bridge_Frames: the framing of \<open>browser_agent.rs\<close>; Bounded_Reads: the reader threads of \<open>process.rs\<close>
    and \<open>terminal.rs\<close>; Git_Output, Git_Roundtrip: the parsers of \<open>git.rs\<close>;
  \<^item> Prelude, Rust_Text, Text_Split, Utf8: the operations of Rust's standard library that the code uses.

  \<^bold>\<open>How the proofs are built.\<close> The contracts that several components share are locales, interpreted on the
  handlers themselves. In Interfaces: \<open>reducer_component\<close> (every action keeps an invariant, hence every run
  does; interpreted by twelve components), \<open>bounded_queue\<close> (a queue holds its newest entries: approvals,
  timeline items), \<open>generation_guard\<close> (a reply of an overtaken request changes nothing: task search), and
  \<open>bounded_paging\<close> with its special case \<open>cursor_pagination\<close> (following the server's cursors ends: remote devices,
  archive, timeline). In Effect_Safety: \<open>effect_safety\<close> (what is sent is safe while an invariant holds),
  interpreted three times on the step of the whole client: for the administrator's permissions, for tasks
  whose state is unknown, and for input into windows. In Client_Panels: \<open>client_panel\<close> (a component beside the
  tasks changes of the inner state only the status message and the draft generations), interpreted by the
  four panels, so that the theorems about the client hold with them.

  \<^bold>\<open>What the theorems show.\<close> (1) No interleaving of actions panics or leaves the invariants
  (Client_Composition). (2) Over every run of the client: permissions sent are managed (Client_Properties), nothing
  is sent to a task whose state is unknown (Client_Runtime), no input is configured without consent
  (Panel_Properties). (3) Drafts are sent once and whole or stay, and come back when sending fails
  (Submission_Properties). (4) Per component its contract: forks drain in order, requests of remote control
  never stay busy, timelines hold the newest items, retries and goal continuations happen once, questions are
  answered once, sign-in follows its protocol, imports end once, pull requests change only as their rules
  permit. (5) The byte level: framing, line reading, the parsers of git and the bounded texts round trip or
  meet a specification; the router answers each request exactly once; the byte budget is conserved in every
  interleaving of its threads.

  \<^bold>\<open>Integers, bounds, fuel.\<close> Counters of type \<open>u64\<close> and \<open>u32\<close> are words, with the saturating or wrapping
  step the code uses; a theorem that needs a fresh generation says so while the counter is not exhausted.
  \<open>usize\<close> lengths of vectors in memory are natural numbers, except where the code adds them with saturation.
  Texts are lists of bytes. Every loop is a structural or a well-founded recursion, so no fuel
  is chosen; the loops that a server drives end by a measure: its pages are bounded by 256 for devices
  and by 32 for a timeline.

  \<^bold>\<open>Parameters.\<close> The JSON library, \<open>str::parse::<f64>\<close>, \<open>str::to_lowercase\<close> and the key a \<open>HashMap\<close>
  iterates first are arguments of the definitions that use them (\<open>std_functions\<close> for the client). Time, files,
  sockets and processes appear only as the values they deliver.

  \<^bold>\<open>What the code does not do.\<close> Modelling showed some behaviours that look unintended; these
  have a lemma: a date with plus signs is accepted (Dates), an address without scheme is
  (Elicitation_Properties), an effort that a model does not support stays chosen, loading models replaces a
  chosen service tier and an empty retry of an edit is sent (Submission_Properties), a late answer fails
  the next request of the blocking client (App_Server_Events), an import completed before it is named never ends, and identifiers of
  applications that are too long are confused (both in Panel_Properties).

  \<^bold>\<open>Not modelled.\<close> The Git pane, the marketplace with skills, plugins and apps, the list of MCP servers,
  appearance, keymap and agent configuration: their handlers copy replies of the back end into the state; of
  them only what other handlers reset or reload is modelled. The serde types of the protocol and the SQLite
  storage are data over third-party libraries. The back end, the user interface and the platform services
  beyond the parts above are threads and calls of the operating system around the reducer.
  \<open>third_party\<close> is vendored code.
\<close>

end
